(* ===== verification/Prelude.thy ===== *)
theory Prelude
  imports Complex_Main "HOL-Library.Word" "HOL-Library.Multiset"
begin

text \<open>
  Shared vocabulary of the development: the theorem collections the component
  proofs draw on, the result type of code that may throw, and generic facts on
  lists and association lists.  Nothing here models a particular source file.
\<close>

section \<open>Theorem collections\<close>

named_theorems js_defs \<open>definitions of JavaScript primitives, unfolded for evaluation\<close>
named_theorems wf_intros \<open>introduction rules for well-formedness invariants\<close>
named_theorems frame_simps \<open>fields an operation leaves alone\<close>

section \<open>Code that may throw\<close>

text \<open>
  A JavaScript function that can throw returns \<open>exn + 'a\<close>: \<open>Inl\<close> carries the
  exception, \<open>Inr\<close> the value.
\<close>

datatype exn =
    TypeError
  | JsError string

type_synonym 'a result = "exn + 'a"

definition bindr :: "'a result \<Rightarrow> ('a \<Rightarrow> 'b result) \<Rightarrow> 'b result" where
  "bindr m f = (case m of Inl e \<Rightarrow> Inl e | Inr x \<Rightarrow> f x)"

lemma bindr_simps [simp]:
  "bindr (Inl e) f = Inl e"
  "bindr (Inr x) f = f x"
  by (simp_all add: bindr_def)

lemma bindr_eq_Inr_iff: "bindr m f = Inr y \<longleftrightarrow> (\<exists>x. m = Inr x \<and> f x = Inr y)"
  by (cases m) auto

text \<open>\<open>Array.prototype.forEach\<close> over a callback that updates a state and may throw.\<close>

fun foldr_result :: "('a \<Rightarrow> 's \<Rightarrow> 's result) \<Rightarrow> 'a list \<Rightarrow> 's \<Rightarrow> 's result" where
  "foldr_result f [] s = Inr s"
| "foldr_result f (x # xs) s = bindr (f x s) (foldr_result f xs)"

lemma foldr_result_invariant:
  assumes "\<And>x s s'. x \<in> set xs \<Longrightarrow> P s \<Longrightarrow> f x s = Inr s' \<Longrightarrow> P s'"
    and "P s" and "foldr_result f xs s = Inr s'"
  shows "P s'"
  using assms
proof (induction xs arbitrary: s)
  case (Cons x xs)
  then obtain t where "f x s = Inr t" and "foldr_result f xs t = Inr s'"
    by (auto simp: bindr_eq_Inr_iff)
  with Cons show ?case by (metis list.set_intros)
qed simp

section \<open>Lists\<close>

text \<open>The last \<open>n\<close> elements, as \<open>xs.slice(-n)\<close> for a positive \<open>n\<close>.\<close>

definition take_last :: "nat \<Rightarrow> 'a list \<Rightarrow> 'a list" where
  "take_last n xs = drop (length xs - n) xs"

lemma length_take_last [simp]: "length (take_last n xs) = min n (length xs)"
  by (simp add: take_last_def)

lemma take_last_all [simp]: "length xs \<le> n \<Longrightarrow> take_last n xs = xs"
  by (simp add: take_last_def)

lemma take_last_append_le:
  "length ys \<le> n \<Longrightarrow> take_last n (xs @ ys) = take_last (n - length ys) xs @ ys"
  by (simp add: take_last_def)

lemma take_last_append_ge:
  "n \<le> length ys \<Longrightarrow> take_last n (xs @ ys) = take_last n ys"
  by (simp add: take_last_def)

lemma take_last_take_last [simp]: "take_last m (take_last n xs) = take_last (min m n) xs"
proof -
  have "length xs - n + (length xs - (length xs - n) - m) = length xs - min m n"
    by linarith
  then show ?thesis by (simp add: take_last_def add.commute)
qed

lemma take_last_absorb: "take_last n (take_last n xs @ ys) = take_last n (xs @ ys)"
proof (cases "length ys \<le> n")
  case True
  then show ?thesis by (simp add: take_last_append_le)
qed (simp add: take_last_append_ge)

lemma suffix_take_last: "\<exists>ys. xs = ys @ take_last n xs"
  unfolding take_last_def by (metis append_take_drop_id)

lemma sort_eq_Nil_iff [simp]: "sort xs = [] \<longleftrightarrow> xs = []"
  by (metis length_0_conv length_sort)

section \<open>Association lists with JavaScript's update order\<close>

text \<open>
  Assigning a property of an object keeps the position of an existing key and
  appends a new one; \<open>delete\<close> removes the key.
\<close>

fun al_set :: "'k \<Rightarrow> 'v \<Rightarrow> ('k \<times> 'v) list \<Rightarrow> ('k \<times> 'v) list" where
  "al_set k v [] = [(k, v)]"
| "al_set k v ((k', v') # kvs) = (if k = k' then (k, v) # kvs else (k', v') # al_set k v kvs)"

definition al_del :: "'k \<Rightarrow> ('k \<times> 'v) list \<Rightarrow> ('k \<times> 'v) list" where
  "al_del k kvs = filter (\<lambda>(k', _). k' \<noteq> k) kvs"

lemma al_del_simps [simp]:
  "al_del k [] = []"
  "al_del k ((k', v) # kvs) = (if k' = k then al_del k kvs else (k', v) # al_del k kvs)"
  by (simp_all add: al_del_def)

lemma map_of_al_set [simp]: "map_of (al_set k v kvs) = (map_of kvs)(k \<mapsto> v)"
  by (induction kvs) (auto simp: fun_eq_iff)

lemma map_of_al_del [simp]: "map_of (al_del k kvs) = (map_of kvs)(k := None)"
  by (induction kvs) (auto simp: fun_eq_iff)

lemma keys_al_set [simp]: "set (map fst (al_set k v kvs)) = insert k (set (map fst kvs))"
proof (induction kvs)
  case (Cons kv kvs)
  then show ?case by (cases kv) auto
qed simp

lemma keys_al_del [simp]: "set (map fst (al_del k kvs)) = set (map fst kvs) - {k}"
proof (induction kvs)
  case (Cons kv kvs)
  then show ?case by (cases kv) auto
qed simp

lemma distinct_al_set [simp]:
  "distinct (map fst kvs) \<Longrightarrow> distinct (map fst (al_set k v kvs))"
proof (induction kvs)
  case (Cons kv kvs)
  then show ?case
    using keys_al_set [of k v kvs] by (cases kv) (simp del: keys_al_set set_map)
qed simp

lemma distinct_al_del [simp]:
  "distinct (map fst kvs) \<Longrightarrow> distinct (map fst (al_del k kvs))"
  by (simp add: al_del_def distinct_map_filter)

end
