(* ===== verification/JS_Number.thy ===== *)
theory JS_Number
  imports Prelude
begin

text \<open>
  JavaScript numbers: IEEE 754 binary64 with the rounding of every operation
  written out.  A finite number is the rational it denotes; \<open>fl\<close> rounds an exact
  rational result to the nearest double, ties to even, with gradual underflow
  (quantum \<open>2 powi -1074\<close>) and overflow to an infinity.  The sign of zero is the one
  thing left out: the sources never observe it (\<open>JSON.stringify(-0)\<close> is \<open>"0"\<close>).
\<close>

section \<open>Rounding\<close>

datatype jsnum = NaN | PInf | NInf | Fin rat

text \<open>Number of binary digits of a natural number.\<close>

fun blen :: "nat \<Rightarrow> nat" where
  "blen n = (if n = 0 then 0 else Suc (blen (n div 2)))"

declare blen.simps [simp del]

lemma blen_0 [simp]: "blen 0 = 0"
  by (simp add: blen.simps)

lemma blen_lt: "n < 2 ^ blen n"
proof (induction n rule: blen.induct)
  case (1 n)
  show ?case
  proof (cases "n = 0")
    case False
    then have "n div 2 < 2 ^ blen (n div 2)" by (rule 1)
    then have "n < 2 * 2 ^ blen (n div 2)" by simp
    with False show ?thesis by (simp add: blen.simps [of n])
  qed simp
qed

lemma blen_ge: "0 < n \<Longrightarrow> 2 ^ (blen n - 1) \<le> n"
proof (induction n rule: blen.induct)
  case (1 n)
  show ?case
  proof (cases "n div 2 = 0")
    case True
    with 1 have "n = 1" by simp
    then show ?thesis by (simp add: blen.simps)
  next
    case False
    with 1 have IH: "2 ^ (blen (n div 2) - 1) \<le> n div 2" by auto
    from False have "0 < blen (n div 2)" by (simp add: blen.simps [of "n div 2"])
    then have "(2::nat) ^ blen (n div 2) = 2 * 2 ^ (blen (n div 2) - 1)"
      by (cases "blen (n div 2)") auto
    with IH have "2 ^ blen (n div 2) \<le> n" by simp
    with "1.prems" show ?thesis by (simp add: blen.simps [of n])
  qed
qed

lemma blen_pos: "0 < n \<Longrightarrow> 0 < blen n"
  by (simp add: blen.simps)

lemma of_nat_le_pow2: "n \<le> 2 ^ k \<Longrightarrow> (of_nat n :: rat) \<le> 2 ^ k"
  using of_nat_mono [of n "2 ^ k", where 'a = rat] by simp

lemma pow2_le_of_nat: "2 ^ k \<le> n \<Longrightarrow> 2 ^ k \<le> (of_nat n :: rat)"
  using of_nat_mono [of "2 ^ k" n, where 'a = rat] by simp

text \<open>The binary exponent of a positive rational.\<close>

definition ilog2 :: "rat \<Rightarrow> int" where
  "ilog2 x = (if 1 \<le> x then int (blen (nat \<lfloor>x\<rfloor>)) - 1 else - int (blen (nat (\<lceil>1 / x\<rceil> - 1))))"

lemma ilog2_bounds_ge1:
  assumes "1 \<le> x"
  shows "2 powi ilog2 x \<le> x" "x < 2 powi (ilog2 x + 1)"
proof -
  define n where "n = nat \<lfloor>x\<rfloor>"
  from assms have fl1: "1 \<le> \<lfloor>x\<rfloor>" by (simp add: le_floor_iff)
  moreover have "of_int \<lfloor>x\<rfloor> \<le> x" "x < of_int \<lfloor>x\<rfloor> + 1"
    using floor_correct [of x] by simp_all
  ultimately have n: "0 < n" "of_nat n \<le> x" "x < of_nat n + 1"
    unfolding n_def by (simp_all add: of_nat_nat)
  have e: "ilog2 x = int (blen n - 1)" and b: "0 < blen n"
    using assms blen_pos [OF n(1)] by (auto simp: ilog2_def n_def)
  have "(2::rat) ^ (blen n - 1) \<le> of_nat n"
    by (rule pow2_le_of_nat [OF blen_ge [OF n(1)]])
  also note n(2)
  finally show "2 powi ilog2 x \<le> x" by (simp add: power_int_def e)
  have "of_nat n + 1 \<le> (2::rat) ^ blen n"
    using of_nat_le_pow2 [of "n + 1" "blen n"] blen_lt [of n] by simp
  with n have "x < 2 ^ blen n" by simp
  moreover have "ilog2 x + 1 = int (blen n)" using e b by simp
  ultimately show "x < 2 powi (ilog2 x + 1)" by (simp add: power_int_def)
qed

lemma ilog2_bounds_lt1:
  assumes "0 < x" "x < 1"
  shows "2 powi ilog2 x \<le> x" "x < 2 powi (ilog2 x + 1)"
proof -
  define m where "m = nat (\<lceil>1 / x\<rceil> - 1)"
  define c where "c = \<lceil>1 / x\<rceil>"
  have gt1: "1 < 1 / x" using assms by simp
  have c: "of_int c - 1 < 1 / x" "1 / x \<le> of_int c"
    unfolding c_def by (simp_all add: ceiling_correct)
  with gt1 have "1 < c" by (metis le_less_trans not_le of_int_1_less_iff order_less_le_trans)
  then have m: "0 < m" "(of_nat m :: rat) = of_int c - 1"
    unfolding m_def c_def [symmetric] by (simp_all add: of_nat_nat)
  with c have m2: "of_nat m < 1 / x" "1 / x \<le> of_nat m + 1" by simp_all
  have e: "ilog2 x = - int (blen m)" using assms by (simp add: ilog2_def m_def)
  have pw: "(2::rat) powi (- int k) = 1 / 2 ^ k" for k
    by (simp only: power_int_minus power_int_of_nat inverse_eq_divide)
  have "of_nat m + 1 \<le> (2::rat) ^ blen m"
    using of_nat_le_pow2 [of "m + 1" "blen m"] blen_lt [of m] by simp
  with m2(2) have "1 / x \<le> 2 ^ blen m" by (rule order_trans)
  with assms have "1 / 2 ^ blen m \<le> x" by (simp add: field_simps)
  then show "2 powi ilog2 x \<le> x" by (simp add: e pw)
  have "(2::rat) ^ (blen m - 1) \<le> of_nat m"
    by (rule pow2_le_of_nat [OF blen_ge [OF m(1)]])
  then have "2 ^ (blen m - 1) < 1 / x" using m2(1) by (rule order_le_less_trans)
  with assms have "x < 1 / 2 ^ (blen m - 1)" by (simp add: field_simps)
  moreover have "ilog2 x + 1 = - int (blen m - 1)" using e blen_pos [OF m(1)] by simp
  ultimately show "x < 2 powi (ilog2 x + 1)" by (simp add: pw)
qed

lemma ilog2_bounds:
  assumes "0 < x"
  shows "2 powi ilog2 x \<le> x" "x < 2 powi (ilog2 x + 1)"
  using assms ilog2_bounds_ge1 ilog2_bounds_lt1 by (cases "1 \<le> x"; simp)+

lemma two_powi_mono: "m \<le> n \<Longrightarrow> (2::rat) powi m \<le> 2 powi n"
  by (rule power_int_increasing) auto

lemma two_powi_less_iff: "(2::rat) powi m < 2 powi n \<longleftrightarrow> m < n"
  by (metis linorder_not_le one_less_numeral_iff power_int_strict_increasing
      semiring_norm(76) two_powi_mono verit_comp_simplify1(3))

lemma ilog2_mono: "0 < x \<Longrightarrow> x \<le> y \<Longrightarrow> ilog2 x \<le> ilog2 y"
proof -
  assume "0 < x" "x \<le> y"
  then have "(2::rat) powi ilog2 x < 2 powi (ilog2 y + 1)"
    using ilog2_bounds [of x] ilog2_bounds [of y] by linarith
  then show ?thesis by (simp add: two_powi_less_iff)
qed

text \<open>Round half to even.\<close>

definition rne :: "rat \<Rightarrow> int" where
  "rne r = (let f = \<lfloor>r\<rfloor>; d = r - of_int f
     in if d < 1 / 2 then f else if 1 / 2 < d then f + 1 else if even f then f else f + 1)"

lemma rne_near: "\<bar>of_int (rne r) - r\<bar> \<le> 1 / 2"
proof -
  have "of_int \<lfloor>r\<rfloor> \<le> r" "r < of_int \<lfloor>r\<rfloor> + 1" by linarith+
  then show ?thesis by (auto simp: rne_def Let_def abs_le_iff)
qed

lemma rne_unique:
  assumes "\<bar>r - of_int k\<bar> < 1 / 2"
  shows "rne r = k"
proof -
  have "\<bar>of_int (rne r) - of_int k :: rat\<bar> < 1"
    using rne_near [of r] assms by linarith
  then have "\<bar>of_int (rne r - k) :: rat\<bar> < of_int 1" by simp
  then have "\<bar>rne r - k\<bar> < 1" by linarith
  then show ?thesis by simp
qed

lemma rne_of_int [simp]: "rne (of_int k) = k"
  by (rule rne_unique) simp

lemma rne_mono:
  assumes "r \<le> s"
  shows "rne r \<le> rne s"
proof (cases "\<lfloor>r\<rfloor> = \<lfloor>s\<rfloor>")
  case True
  with assms show ?thesis by (simp add: rne_def Let_def)
next
  case False
  with assms have "\<lfloor>r\<rfloor> + 1 \<le> \<lfloor>s\<rfloor>" using floor_mono [OF assms] by linarith
  moreover have "rne r \<le> \<lfloor>r\<rfloor> + 1" "\<lfloor>s\<rfloor> \<le> rne s" by (auto simp: rne_def Let_def)
  ultimately show ?thesis by linarith
qed

lemma rne_minus: "rne (- r) = - rne r"
proof (cases "r = of_int \<lfloor>r\<rfloor>")
  case True
  then obtain k where "r = of_int k" by blast
  then show ?thesis using rne_of_int [of "- k"] by simp
next
  case False
  then have "\<lfloor>- r\<rfloor> = - \<lfloor>r\<rfloor> - 1"
    by (intro floor_unique) (auto, linarith+)
  then show ?thesis by (auto simp: rne_def Let_def)
qed

definition quantum :: "rat \<Rightarrow> int" where
  "quantum x = max (ilog2 \<bar>x\<bar> - 52) (- 1074)"

definition fl_rat :: "rat \<Rightarrow> rat" where
  "fl_rat x = (if x = 0 then 0
     else of_int (rne (x / 2 powi quantum x)) * 2 powi quantum x)"

definition fl :: "rat \<Rightarrow> jsnum" where
  "fl x = (let y = fl_rat x in if 2 ^ 1024 \<le> y then PInf else if y \<le> - (2 ^ 1024) then NInf else Fin y)"

lemma fl_rat_0 [simp]: "fl_rat 0 = 0"
  by (simp add: fl_rat_def)

lemma quantum_minus [simp]: "quantum (- x) = quantum x"
  by (simp add: quantum_def)

lemma fl_rat_minus: "fl_rat (- x) = - fl_rat x"
  by (simp add: fl_rat_def rne_minus)

lemma quantum_le: "0 < x \<Longrightarrow> x / 2 powi quantum x < 2 ^ 53"
proof -
  assume x: "0 < x"
  have "x < 2 powi (ilog2 x + 1)" by (rule ilog2_bounds [OF x])
  also have "\<dots> \<le> 2 powi (quantum x + 53)"
    using x by (intro two_powi_mono) (simp add: quantum_def)
  also have "\<dots> = 2 ^ 53 * 2 powi quantum x"
    by (simp add: power_int_add)
  finally show ?thesis by (simp add: field_simps)
qed

lemma quantum_ge: "0 < x \<Longrightarrow> - 1074 < quantum x \<Longrightarrow> 2 ^ 52 \<le> x / 2 powi quantum x"
proof -
  assume x: "0 < x" and q: "- 1074 < quantum x"
  then have "ilog2 x = quantum x + 52" by (auto simp: quantum_def max_def split: if_splits)
  then have "2 powi (quantum x + 52) \<le> x" using ilog2_bounds(1) [OF x] by simp
  moreover have "2 powi (quantum x + 52) = 2 ^ 52 * (2::rat) powi quantum x"
    by (simp add: power_int_add)
  ultimately show ?thesis by (simp add: field_simps)
qed

lemma two_powi_nonneg_int: "0 \<le> k \<Longrightarrow> (2::rat) powi k = of_int (2 ^ nat k)"
  by (simp add: power_int_def)

text \<open>A number within half a quantum of an integer rounds to that integer.\<close>

lemma fl_rat_snap:
  assumes "0 < x" "x < 2 ^ 53" and near: "\<bar>x - of_int k\<bar> < x / 2 ^ 54"
  shows "fl_rat x = of_int k"
proof -
  define q where "q = quantum x"
  have "2 powi ilog2 x < (2::rat) powi 53"
    using ilog2_bounds(1) [OF assms(1)] assms(2) by simp
  then have q: "q \<le> 0"
    using assms(1) unfolding q_def quantum_def two_powi_less_iff by simp
  define K where "K = k * 2 ^ nat (- q)"
  have K: "of_int k / (2::rat) powi q = of_int K"
    using q two_powi_nonneg_int [of "- q"] by (simp add: K_def power_int_minus divide_inverse)
  have "\<bar>x - of_int k\<bar> / 2 powi q < x / 2 ^ 54 / 2 powi q"
    by (rule divide_strict_right_mono [OF near]) simp
  also have "\<dots> = x / 2 powi q / 2 ^ 54" by simp
  also have "\<dots> < 2 ^ 53 / 2 ^ 54"
    unfolding q_def by (rule divide_strict_right_mono [OF quantum_le [OF assms(1)]]) simp
  finally have "\<bar>x - of_int k\<bar> / 2 powi q < 1 / 2" by simp
  moreover have "\<bar>x - of_int k\<bar> / 2 powi q = \<bar>x / 2 powi q - of_int K\<bar>"
    unfolding K [symmetric] diff_divide_distrib [symmetric] by (simp add: abs_divide)
  ultimately have "rne (x / 2 powi q) = K" by (intro rne_unique) simp
  then show ?thesis
    using assms(1) unfolding fl_rat_def q_def [symmetric] by (simp flip: K)
qed

lemma fl_rat_nat: "n < 2 ^ 53 \<Longrightarrow> fl_rat (of_nat n) = of_nat n"
proof (cases "n = 0")
  case False
  assume "n < 2 ^ 53"
  then have "(of_nat n :: rat) < of_nat (2 ^ 53)" by (simp only: of_nat_less_iff)
  with False fl_rat_snap [of "of_nat n" "int n"] show ?thesis by simp
qed simp

lemma fl_rat_int:
  assumes "\<bar>k\<bar> < 2 ^ 53"
  shows "fl_rat (of_int k) = of_int k"
proof (cases "0 \<le> k")
  case True
  with assms show ?thesis
    using fl_rat_nat [of "nat k"] by (simp add: nat_less_iff)
next
  case False
  with assms fl_rat_nat [of "nat (- k)"] have "fl_rat (- of_int k) = - of_int k"
    by (simp add: nat_less_iff)
  then show ?thesis by (simp add: fl_rat_minus)
qed

lemma fl_rat_nonneg: "0 \<le> x \<Longrightarrow> 0 \<le> fl_rat x"
proof -
  assume x: "0 \<le> x"
  have "rne 0 \<le> rne (x / 2 powi quantum x)" by (rule rne_mono) (simp add: x)
  then show ?thesis using rne_of_int [of 0] by (simp add: fl_rat_def)
qed

lemma fl_rat_mono_pos:
  assumes "0 < x" "x \<le> y"
  shows "fl_rat x \<le> fl_rat y"
proof -
  define q q' where "q = quantum x" and "q' = quantum y"
  have "q \<le> q'" using assms ilog2_mono [of x y] by (simp add: q_def q'_def quantum_def)
  have flx: "fl_rat x = of_int (rne (x / 2 powi q)) * 2 powi q"
    and fly: "fl_rat y = of_int (rne (y / 2 powi q')) * 2 powi q'"
    using assms by (auto simp: fl_rat_def q_def q'_def)
  show ?thesis
  proof (cases "q = q'")
    case True
    have "rne (x / 2 powi q) \<le> rne (y / 2 powi q)"
      using assms(2) by (intro rne_mono divide_right_mono) simp_all
    then show ?thesis
      unfolding flx fly True [symmetric] by (intro mult_right_mono) simp_all
  next
    case False
    with \<open>q \<le> q'\<close> have less: "q + 1 \<le> q'" by simp
    have "rne (x / 2 powi q) \<le> rne (of_int (2 ^ 53))"
      using quantum_le [OF assms(1)] by (intro rne_mono) (simp add: q_def)
    then have "(of_int (rne (x / 2 powi q)) :: rat) \<le> of_int (2 ^ 53)"
      by (simp only: rne_of_int of_int_le_iff)
    then have "fl_rat x \<le> 2 ^ 53 * 2 powi q"
      unfolding flx by (intro mult_right_mono) simp_all
    also have "\<dots> = 2 powi (q + 53)" by (simp add: power_int_add)
    also have "\<dots> \<le> 2 powi (q' + 52)" using less by (intro two_powi_mono) simp
    also have "\<dots> = 2 ^ 52 * 2 powi q'" by (simp add: power_int_add)
    also have "\<dots> \<le> fl_rat y"
    proof -
      have "- 1074 < q'" using less by (simp add: q_def quantum_def)
      then have "2 ^ 52 \<le> y / 2 powi q'" using quantum_ge [of y] assms by (simp add: q'_def)
      then have "rne (of_int (2 ^ 52)) \<le> rne (y / 2 powi q')" by (intro rne_mono) simp
      then have "(of_int (2 ^ 52) :: rat) \<le> of_int (rne (y / 2 powi q'))"
        by (simp only: rne_of_int of_int_le_iff)
      then show ?thesis unfolding fly by (intro mult_right_mono) simp_all
    qed
    finally show ?thesis .
  qed
qed

lemma fl_rat_mono: "x \<le> y \<Longrightarrow> fl_rat x \<le> fl_rat y"
proof -
  assume le: "x \<le> y"
  consider "0 < x" | "x \<le> 0" "0 \<le> y" | "y < 0" by linarith
  then show ?thesis
  proof cases
    case 1
    with le show ?thesis by (simp add: fl_rat_mono_pos)
  next
    case 2
    then have "0 \<le> fl_rat (- x)" "0 \<le> fl_rat y" by (simp_all add: fl_rat_nonneg)
    then show ?thesis by (simp add: fl_rat_minus)
  next
    case 3
    with le have "fl_rat (- y) \<le> fl_rat (- x)" by (intro fl_rat_mono_pos) auto
    then show ?thesis by (simp add: fl_rat_minus)
  qed
qed

section \<open>The operators the sources use\<close>

fun js_neg :: "jsnum \<Rightarrow> jsnum" where
  "js_neg NaN = NaN"
| "js_neg PInf = NInf"
| "js_neg NInf = PInf"
| "js_neg (Fin x) = Fin (- x)"

fun js_add :: "jsnum \<Rightarrow> jsnum \<Rightarrow> jsnum" where
  "js_add (Fin x) (Fin y) = fl (x + y)"
| "js_add NaN _ = NaN"
| "js_add _ NaN = NaN"
| "js_add PInf NInf = NaN"
| "js_add NInf PInf = NaN"
| "js_add PInf _ = PInf"
| "js_add _ PInf = PInf"
| "js_add NInf _ = NInf"
| "js_add _ NInf = NInf"

definition js_sub :: "jsnum \<Rightarrow> jsnum \<Rightarrow> jsnum" where
  "js_sub x y = js_add x (js_neg y)"

definition inf_of_sign :: "bool \<Rightarrow> jsnum" where
  "inf_of_sign neg = (if neg then NInf else PInf)"

fun num_neg :: "jsnum \<Rightarrow> bool" where
  "num_neg NInf = True"
| "num_neg (Fin x) = (x < 0)"
| "num_neg _ = False"

fun js_mul :: "jsnum \<Rightarrow> jsnum \<Rightarrow> jsnum" where
  "js_mul (Fin x) (Fin y) = fl (x * y)"
| "js_mul NaN _ = NaN"
| "js_mul _ NaN = NaN"
| "js_mul x y = (if x = Fin 0 \<or> y = Fin 0 then NaN else inf_of_sign (num_neg x \<noteq> num_neg y))"

fun js_div :: "jsnum \<Rightarrow> jsnum \<Rightarrow> jsnum" where
  "js_div (Fin x) (Fin y) =
     (if y = 0 then (if x = 0 then NaN else inf_of_sign (x < 0)) else fl (x / y))"
| "js_div NaN _ = NaN"
| "js_div _ NaN = NaN"
| "js_div (Fin x) _ = Fin 0"
| "js_div x (Fin y) = inf_of_sign (num_neg x \<noteq> (y < 0))"
| "js_div _ _ = NaN"

fun js_lt :: "jsnum \<Rightarrow> jsnum \<Rightarrow> bool" where
  "js_lt (Fin x) (Fin y) = (x < y)"
| "js_lt NInf (Fin y) = True"
| "js_lt NInf PInf = True"
| "js_lt (Fin x) PInf = True"
| "js_lt _ _ = False"

text \<open>\<open>===\<close> on numbers: \<open>NaN\<close> is different from itself.\<close>

definition num_eq :: "jsnum \<Rightarrow> jsnum \<Rightarrow> bool" where
  "num_eq x y \<longleftrightarrow> x \<noteq> NaN \<and> x = y"

definition js_le :: "jsnum \<Rightarrow> jsnum \<Rightarrow> bool" where
  "js_le x y \<longleftrightarrow> js_lt x y \<or> num_eq x y"

definition js_max :: "jsnum \<Rightarrow> jsnum \<Rightarrow> jsnum" where
  "js_max x y = (if x = NaN \<or> y = NaN then NaN else if js_lt x y then y else x)"

definition js_min :: "jsnum \<Rightarrow> jsnum \<Rightarrow> jsnum" where
  "js_min x y = (if x = NaN \<or> y = NaN then NaN else if js_lt y x then y else x)"

fun js_ceil :: "jsnum \<Rightarrow> jsnum" where
  "js_ceil (Fin x) = Fin (of_int \<lceil>x\<rceil>)"
| "js_ceil x = x"

text \<open>\<open>Math.round\<close>: halves go towards plus infinity.\<close>

fun js_round :: "jsnum \<Rightarrow> jsnum" where
  "js_round (Fin x) = Fin (of_int \<lfloor>x + 1 / 2\<rfloor>)"
| "js_round x = x"

definition js_truthy_num :: "jsnum \<Rightarrow> bool" where
  "js_truthy_num x \<longleftrightarrow> x \<noteq> NaN \<and> x \<noteq> Fin 0"

abbreviation jsnat :: "nat \<Rightarrow> jsnum" where
  "jsnat n \<equiv> Fin (of_nat n)"

text \<open>Indexing an array by a number: only an integer inside the array hits an element;
  everything else is \<open>undefined\<close>, here \<open>None\<close>.\<close>

fun js_index :: "'a list \<Rightarrow> jsnum \<Rightarrow> 'a option" where
  "js_index xs (Fin r) =
     (if r = of_int \<lfloor>r\<rfloor> \<and> 0 \<le> r \<and> nat \<lfloor>r\<rfloor> < length xs then Some (xs ! nat \<lfloor>r\<rfloor>) else None)"
| "js_index xs _ = None"

declare js_sub_def [js_defs] inf_of_sign_def [js_defs] num_eq_def [js_defs] js_le_def [js_defs]
  js_max_def [js_defs] js_min_def [js_defs] js_truthy_num_def [js_defs]

section \<open>Facts the components use\<close>

lemma fl_small: "\<bar>fl_rat x\<bar> < 2 ^ 1024 \<Longrightarrow> fl x = Fin (fl_rat x)"
  by (auto simp: fl_def Let_def abs_less_iff)

lemma pow_53_1024: "(2::rat) ^ 53 < 2 ^ 1024"
  by (rule power_strict_increasing) simp_all

lemma fl_nat [simp]: "n < 2 ^ 53 \<Longrightarrow> fl (of_nat n) = Fin (of_nat n)"
proof -
  assume n: "n < 2 ^ 53"
  then have "(of_nat n :: rat) < of_nat (2 ^ 53)" by (simp only: of_nat_less_iff)
  then have "(of_nat n :: rat) < 2 ^ 53" by simp
  then have "(of_nat n :: rat) < 2 ^ 1024" using pow_53_1024 by (rule order_less_trans)
  then have "\<bar>fl_rat (of_nat n)\<bar> < 2 ^ 1024" unfolding fl_rat_nat [OF n] by simp
  then show ?thesis using fl_rat_nat [OF n] by (simp add: fl_small)
qed

lemma fl_in_range:
  assumes "of_int a \<le> x" "x \<le> of_int b" "\<bar>a\<bar> < 2 ^ 53" "\<bar>b\<bar> < 2 ^ 53"
  shows "\<exists>y. fl x = Fin y \<and> of_int a \<le> y \<and> y \<le> of_int b"
proof -
  have y: "of_int a \<le> fl_rat x" "fl_rat x \<le> of_int b"
    using assms fl_rat_mono [of "of_int a" x] fl_rat_mono [of x "of_int b"]
    by (simp_all add: fl_rat_int)
  have "(of_int \<bar>a\<bar> :: rat) < of_int (2 ^ 53)" "(of_int \<bar>b\<bar> :: rat) < of_int (2 ^ 53)"
    using assms by (simp_all only: of_int_less_iff)
  then have "\<bar>fl_rat x\<bar> < 2 ^ 53" using y by (simp add: abs_if split: if_splits)
  then have "\<bar>fl_rat x\<bar> < 2 ^ 1024" using pow_53_1024 by (rule order_less_trans)
  with y show ?thesis by (auto simp: fl_small)
qed

text \<open>A finite number of the program is a double: rounding leaves it alone.\<close>

fun is_double :: "jsnum \<Rightarrow> bool" where
  "is_double (Fin x) = (fl_rat x = x \<and> \<bar>x\<bar> < 2 ^ 1024)"
| "is_double _ = True"

lemma fl_rat_multiple: "\<exists>m. fl_rat x = of_int m * 2 powi (- 1074)"
proof (cases "x = 0")
  case False
  then obtain m where "fl_rat x = of_int m * 2 powi quantum x" by (metis fl_rat_def)
  also have "(2::rat) powi quantum x = 2 powi (quantum x + 1074) * 2 powi (- 1074)"
    by (subst power_int_add [symmetric]) simp_all
  also have "(2::rat) powi (quantum x + 1074) = of_int (2 ^ nat (quantum x + 1074))"
    by (rule two_powi_nonneg_int) (simp add: quantum_def)
  finally show ?thesis by (metis mult.assoc of_int_mult)
qed (auto intro: exI [of _ 0])

lemma double_multiple: "fl_rat x = x \<Longrightarrow> \<exists>m. x = of_int m * 2 powi (- 1074)"
  using fl_rat_multiple [of x] by simp

lemma fl_rat_pos:
  assumes "0 < x" "x = of_int m * 2 powi (- 1074)"
  shows "0 < fl_rat x"
proof -
  define q where "q = quantum x"
  have "1 \<le> rne (x / 2 powi q)"
  proof (cases "- 1074 < q")
    case True
    then have "2 ^ 52 \<le> x / 2 powi q" using quantum_ge [OF assms(1)] by (simp add: q_def)
    then have "of_int 1 \<le> x / 2 powi q" by (rule order_trans [rotated]) simp
    then have "rne (of_int 1) \<le> rne (x / 2 powi q)" by (rule rne_mono)
    then show ?thesis by (simp only: rne_of_int)
  next
    case False
    then have "q = - 1074" by (simp add: q_def quantum_def)
    with assms(2) have eq: "x / 2 powi q = of_int m" by simp
    have "0 < m" using assms by (simp add: zero_less_mult_iff)
    with eq show ?thesis by simp
  qed
  then show ?thesis using assms(1) by (simp add: fl_rat_def q_def zero_less_mult_iff)
qed

text \<open>
  Subtraction of doubles has the sign of the exact difference (gradual underflow), so
  the comparator \<open>(a, b) => a - b\<close> orders finite numbers as the reals.
\<close>

lemma fl_neg_iff: "js_lt (fl x) (Fin 0) \<longleftrightarrow> fl_rat x < 0"
proof -
  have "(0::rat) < 2 ^ 1024" by simp
  then have "\<not> fl_rat x < 0" if "2 ^ 1024 \<le> fl_rat x" using that by linarith
  moreover have "fl_rat x < 0" if "fl_rat x \<le> - (2 ^ 1024)"
    using that \<open>0 < 2 ^ 1024\<close> by linarith
  ultimately show ?thesis by (simp add: fl_def Let_def)
qed

lemma js_sub_neg_iff:
  assumes "fl_rat x = x" "fl_rat y = y"
  shows "js_lt (js_sub (Fin x) (Fin y)) (Fin 0) \<longleftrightarrow> x < y"
proof -
  obtain m n where m: "x = of_int m * 2 powi (- 1074)" and n: "y = of_int n * 2 powi (- 1074)"
    using assms double_multiple by blast
  have "fl_rat (x - y) < 0 \<longleftrightarrow> x < y"
  proof
    assume "x < y"
    then have "0 < fl_rat (y - x)"
      by (intro fl_rat_pos [of _ "n - m"]) (simp_all add: m n left_diff_distrib)
    then show "fl_rat (x - y) < 0" using fl_rat_minus [of "y - x"] by simp
  next
    assume "fl_rat (x - y) < 0"
    then show "x < y" using fl_rat_nonneg [of "x - y"] by linarith
  qed
  then show ?thesis by (simp add: js_sub_def fl_neg_iff)
qed

section \<open>Evaluating the rounding\<close>

lemma ilog2_unique: "0 < x \<Longrightarrow> 2 powi e \<le> x \<Longrightarrow> x < 2 powi (e + 1) \<Longrightarrow> ilog2 x = e"
proof -
  assume x: "0 < x" and "2 powi e \<le> x" "x < 2 powi (e + 1)"
  then have "(2::rat) powi e < 2 powi (ilog2 x + 1)" "(2::rat) powi ilog2 x < 2 powi (e + 1)"
    using ilog2_bounds [OF x] by linarith+
  then show ?thesis unfolding two_powi_less_iff by linarith
qed

lemma fl_rat_eqI:
  assumes "0 < x" "2 powi e \<le> x" "x < 2 powi (e + 1)" "- 1022 \<le> e"
    and "\<bar>x / 2 powi (e - 52) - of_int m\<bar> < 1 / 2"
  shows "fl_rat x = of_int m * 2 powi (e - 52)"
proof -
  have "quantum x = e - 52"
    using assms ilog2_unique [of x e] by (simp add: quantum_def)
  with assms rne_unique [of "x / 2 powi (e - 52)" m] show ?thesis by (simp add: fl_rat_def)
qed

lemma fl_rat_err:
  assumes "0 < x" "x < 2 ^ 32"
  shows "\<bar>fl_rat x - x\<bar> \<le> 1 / 2 ^ 22"
proof -
  define q where "q = quantum x"
  have "2 powi ilog2 x < (2::rat) powi 32"
    using ilog2_bounds(1) [OF assms(1)] assms(2) by simp
  then have "q \<le> - 21" using assms(1) unfolding q_def quantum_def two_powi_less_iff by simp
  then have pw: "(2::rat) powi q \<le> 2 powi (- 21)" by (rule two_powi_mono)
  have "\<bar>fl_rat x - x\<bar> = \<bar>of_int (rne (x / 2 powi q)) - x / 2 powi q\<bar> * 2 powi q"
    using assms(1) by (simp add: fl_rat_def q_def [symmetric] abs_mult_pos left_diff_distrib)
  also have "\<dots> \<le> 1 / 2 * 2 powi q" by (intro mult_right_mono rne_near) simp
  also have "\<dots> \<le> 1 / 2 * 2 powi (- 21)" using pw by simp
  also have "\<dots> = 1 / 2 ^ 22" by (simp add: power_int_def power_divide)
  finally show ?thesis .
qed

lemma fl_rat_19_20: "fl_rat (19 / 20) = 4278419646001971 / 4503599627370496"
proof -
  have "fl_rat (19 / 20) = of_int 8556839292003942 * 2 powi (- 1 - 52)"
    by (rule fl_rat_eqI) (simp_all add: power_int_def power_divide)
  then show ?thesis by (simp add: power_int_def power_divide)
qed

lemma fl_rat_99_100: "fl_rat (99 / 100) = 4458563631096791 / 4503599627370496"
proof -
  have "fl_rat (99 / 100) = of_int 8917127262193582 * 2 powi (- 1 - 52)"
    by (rule fl_rat_eqI) (simp_all add: power_int_def power_divide)
  then show ?thesis by (simp add: power_int_def power_divide)
qed

lemma fl_rat_1_2: "fl_rat (1 / 2) = 1 / 2"
proof -
  have "fl_rat (1 / 2) = of_int 4503599627370496 * 2 powi (- 1 - 52)"
    by (rule fl_rat_eqI) (simp_all add: power_int_def power_divide)
  then show ?thesis by (simp add: power_int_def power_divide)
qed
end
