(* ===== verification/JS_Value.thy ===== *)
theory JS_Value
  imports JS_Number
begin

text \<open>
  JavaScript strings and values.  A string is the list of its UTF-16 code units; a
  literal of the source is \<open>js ''...''\<close>, and text outside ASCII is written by its code
  units.  An object is the list of its own properties in insertion order.
\<close>

section \<open>Strings\<close>

type_synonym code_unit = "16 word"
type_synonym jsstr = "code_unit list"

definition unit_of_char :: "char \<Rightarrow> code_unit" where
  "unit_of_char c = word_of_nat (of_char c)"

definition js :: "string \<Rightarrow> jsstr" where
  "js s = map unit_of_char s"

lemma js_Nil [simp]: "js [] = []"
  by (simp add: js_def)

lemma js_Cons: "js (c # cs) = unit_of_char c # js cs"
  by (simp add: js_def)

lemmas js_eval = js_Cons unit_of_char_def

lemma unat_unit_of_char: "unat (unit_of_char c) = of_char c"
proof -
  have "(of_char c :: nat) < 256" by (simp add: nat_of_char_less_256)
  then have "(of_char c :: nat) < 65536" by linarith
  then show ?thesis by (simp add: unit_of_char_def unat_of_nat)
qed

lemma unit_of_char_inject [simp]: "unit_of_char a = unit_of_char b \<longleftrightarrow> a = b"
proof
  assume "unit_of_char a = unit_of_char b"
  then have "(of_char a :: nat) = of_char b" by (metis unat_unit_of_char)
  then show "a = b" by simp
qed simp

lemma js_inject [simp]: "js s = js t \<longleftrightarrow> s = t"
  unfolding js_def by (rule inj_map_eq_map) (auto intro: injI)

lemma js_eq_Nil_iff [simp]: "js s = [] \<longleftrightarrow> s = []" "[] = js s \<longleftrightarrow> s = []"
  by (auto simp: js_def)

lemma take_js [simp]: "take n (js s) = js (take n s)"
  by (simp add: js_def take_map)

lemma js_append: "js (s @ t) = js s @ js t"
  by (simp add: js_def)

lemma length_js [simp]: "length (js s) = length s"
  by (simp add: js_def)

section \<open>Values\<close>

datatype jsval =
    Undef
  | Null
  | Bool bool
  | Num jsnum
  | Str jsstr
  | Arr "jsval list"
  | Obj "(jsstr \<times> jsval) list"

abbreviation jsn :: "nat \<Rightarrow> jsval" where
  "jsn n \<equiv> Num (jsnat n)"

fun truthy :: "jsval \<Rightarrow> bool" where
  "truthy Undef = False"
| "truthy Null = False"
| "truthy (Bool b) = b"
| "truthy (Num x) = js_truthy_num x"
| "truthy (Str s) = (s \<noteq> [])"
| "truthy (Arr _) = True"
| "truthy (Obj _) = True"

fun nullish :: "jsval \<Rightarrow> bool" where
  "nullish Undef = True"
| "nullish Null = True"
| "nullish _ = False"

text \<open>\<open>a ?? b\<close>\<close>

definition coalesce :: "jsval \<Rightarrow> jsval \<Rightarrow> jsval" where
  "coalesce a b = (if nullish a then b else a)"

definition own_prop :: "(jsstr \<times> jsval) list \<Rightarrow> jsstr \<Rightarrow> jsval" where
  "own_prop kvs k = (case map_of kvs k of None \<Rightarrow> Undef | Some v \<Rightarrow> v)"

text \<open>
  \<open>v.k\<close>.  Reading a property of \<open>null\<close> or \<open>undefined\<close> throws; a primitive or an array has
  none of the data properties the sources read, except \<open>length\<close>.
\<close>

fun get_prop :: "jsval \<Rightarrow> jsstr \<Rightarrow> jsval result" where
  "get_prop Undef k = Inl TypeError"
| "get_prop Null k = Inl TypeError"
| "get_prop (Obj kvs) k = Inr (own_prop kvs k)"
| "get_prop (Arr xs) k = Inr (if k = js ''length'' then Num (jsnat (length xs)) else Undef)"
| "get_prop (Str s) k = Inr (if k = js ''length'' then Num (jsnat (length s)) else Undef)"
| "get_prop (Bool _) k = Inr Undef"
| "get_prop (Num _) k = Inr Undef"

text \<open>\<open>v?.k\<close>\<close>

definition get_opt :: "jsval \<Rightarrow> jsstr \<Rightarrow> jsval" where
  "get_opt v k = (case get_prop v k of Inl _ \<Rightarrow> Undef | Inr w \<Rightarrow> w)"

definition obj_merge :: "(jsstr \<times> jsval) list \<Rightarrow> (jsstr \<times> jsval) list \<Rightarrow> (jsstr \<times> jsval) list" where
  "obj_merge xs ys = fold (\<lambda>(k, v). al_set k v) ys xs"

lemma map_of_obj_merge:
  "map_of (obj_merge xs ys) = map_of xs ++ map_of (rev ys)"
  unfolding obj_merge_def
proof (induction ys arbitrary: xs)
  case (Cons y ys)
  then show ?case by (cases y) (simp add: fun_eq_iff map_add_def split: option.splits)
qed simp

lemma distinct_obj_merge:
  "distinct (map fst xs) \<Longrightarrow> distinct (map fst (obj_merge xs ys))"
  unfolding obj_merge_def by (induction ys arbitrary: xs) (auto split: prod.splits)

declare coalesce_def [js_defs] own_prop_def [js_defs] get_opt_def [js_defs]

section \<open>Sorting with a comparator\<close>

text \<open>
  \<open>Array.prototype.sort(cmp)\<close> is stable; for a comparator that is a consistent order its
  result is determined, and insertion before the first element that is not smaller
  computes it.
\<close>

fun insert_by :: "('a \<Rightarrow> 'a \<Rightarrow> bool) \<Rightarrow> 'a \<Rightarrow> 'a list \<Rightarrow> 'a list" where
  "insert_by lt x [] = [x]"
| "insert_by lt x (y # ys) = (if lt y x then y # insert_by lt x ys else x # y # ys)"

definition sort_by :: "('a \<Rightarrow> 'a \<Rightarrow> bool) \<Rightarrow> 'a list \<Rightarrow> 'a list" where
  "sort_by lt xs = foldr (insert_by lt) xs []"

lemma mset_insert_by [simp]: "mset (insert_by lt x ys) = add_mset x (mset ys)"
  by (induction ys) auto

lemma mset_sort_by [simp]: "mset (sort_by lt xs) = mset xs"
  unfolding sort_by_def by (induction xs) auto

lemma set_sort_by [simp]: "set (sort_by lt xs) = set xs"
  using mset_sort_by by (metis set_mset_mset)

lemma length_sort_by [simp]: "length (sort_by lt xs) = length xs"
  using mset_sort_by by (metis size_mset)

lemma sort_by_key:
  assumes "\<And>x y. x \<in> set xs \<Longrightarrow> y \<in> set xs \<Longrightarrow> lt x y \<longleftrightarrow> (f x :: 'b :: linorder) < f y"
  shows "sorted (map f (sort_by lt xs))"
  using assms
proof (induction xs)
  case Nil
  then show ?case by (simp add: sort_by_def)
next
  case (Cons x xs)
  define ys where "ys = sort_by lt xs"
  have ys: "sorted (map f ys)" "set ys = set xs"
    using Cons by (auto simp: ys_def)
  have "sorted (map f (insert_by lt x zs))"
    if "sorted (map f zs)" "set zs \<subseteq> set xs" for zs
    using that
  proof (induction zs)
    case (Cons z zs)
    have lt: "lt z x \<longleftrightarrow> f z < f x" using Cons.prems Cons.IH \<open>\<And>x' y. x' \<in> set (x # xs) \<Longrightarrow> y \<in> set (x # xs) \<Longrightarrow> lt x' y \<longleftrightarrow> f x' < f y\<close>
      by auto
    have "set (insert_by lt x zs) = insert x (set zs)"
      using mset_insert_by [of lt x zs] by (metis set_mset_add_mset_insert set_mset_mset)
    with Cons lt show ?case by auto
  qed simp
  with ys show ?case by (simp add: sort_by_def ys_def)
qed

end
