(* ===== verification/JS_Json.thy ===== *)
theory JS_Json
  imports JS_Value
begin

text \<open>
  \<open>JSON.parse\<close> and \<open>JSON.stringify\<close> as ECMAScript defines them, on code units: the
  grammar of RFC 8259, last duplicate key wins, \<open>undefined\<close> dropped from objects and
  written \<open>null\<close> inside arrays, control characters escaped.  The round trip shown at the end is
  what the serializer, the metrics server and the order feed rely on.
\<close>

section \<open>Scanning\<close>

definition is_ws :: "code_unit \<Rightarrow> bool" where
  "is_ws c \<longleftrightarrow> c = 0x20 \<or> c = 0x09 \<or> c = 0x0A \<or> c = 0x0D"

fun skip_ws :: "jsstr \<Rightarrow> jsstr" where
  "skip_ws [] = []"
| "skip_ws (c # cs) = (if is_ws c then skip_ws cs else c # cs)"

definition is_digit :: "code_unit \<Rightarrow> bool" where
  "is_digit c \<longleftrightarrow> 0x30 \<le> c \<and> c \<le> 0x39"

definition digit_val :: "code_unit \<Rightarrow> nat" where
  "digit_val c = unat c - 0x30"

definition digits_val :: "jsstr \<Rightarrow> nat" where
  "digits_val ds = foldl (\<lambda>n d. 10 * n + digit_val d) 0 ds"

definition span_digits :: "jsstr \<Rightarrow> jsstr \<times> jsstr" where
  "span_digits cs = (takeWhile is_digit cs, dropWhile is_digit cs)"

section \<open>Numbers\<close>

definition scan_int :: "jsstr \<Rightarrow> (jsstr \<times> jsstr) option" where
  "scan_int cs = (case cs of [] \<Rightarrow> None
     | c # r \<Rightarrow> if c = 0x30 then Some ([c], r) else if is_digit c then Some (span_digits cs) else None)"

definition scan_frac :: "jsstr \<Rightarrow> (jsstr \<times> jsstr) option" where
  "scan_frac cs = (case cs of [] \<Rightarrow> Some ([], [])
     | c # r \<Rightarrow> if c = 0x2E
        then (case span_digits r of (ds, r') \<Rightarrow> if ds = [] then None else Some (ds, r'))
        else Some ([], cs))"

definition scan_sign :: "jsstr \<Rightarrow> bool \<times> jsstr" where
  "scan_sign cs = (case cs of [] \<Rightarrow> (False, [])
     | c # r \<Rightarrow> if c = 0x2D then (True, r) else if c = 0x2B then (False, r) else (False, cs))"

definition scan_exp :: "jsstr \<Rightarrow> (int \<times> jsstr) option" where
  "scan_exp cs = (case cs of [] \<Rightarrow> Some (0, [])
     | c # r \<Rightarrow> if c = 0x65 \<or> c = 0x45
        then (case scan_sign r of (neg, r1) \<Rightarrow> case span_digits r1 of (ds, r2) \<Rightarrow>
           if ds = [] then None
           else Some ((if neg then - 1 else 1) * int (digits_val ds), r2))
        else Some (0, cs))"

definition parse_number :: "jsstr \<Rightarrow> (jsnum \<times> jsstr) option" where
  "parse_number cs =
     (let neg = (case cs of [] \<Rightarrow> False | c # _ \<Rightarrow> c = 0x2D);
          cs1 = (if neg then tl cs else cs)
      in case scan_int cs1 of None \<Rightarrow> None
         | Some (ids, cs2) \<Rightarrow> (case scan_frac cs2 of None \<Rightarrow> None
           | Some (fds, cs3) \<Rightarrow> (case scan_exp cs3 of None \<Rightarrow> None
             | Some (e, cs4) \<Rightarrow>
                Some (fl ((if neg then - 1 else 1) * of_nat (digits_val (ids @ fds))
                          * 10 powi (e - int (length fds))), cs4))))"

section \<open>Property order\<close>

text \<open>
  \<open>Object.keys\<close>: the array-index keys in ascending numeric order, then the others in the order they
  were added.
\<close>

definition is_index_key :: "jsstr \<Rightarrow> bool" where
  "is_index_key k \<longleftrightarrow> k \<noteq> [] \<and> list_all is_digit k \<and> (hd k \<noteq> 0x30 \<or> length k = 1)
     \<and> digits_val k < 2 ^ 32 - 1"

definition own_keys :: "(jsstr \<times> 'v) list \<Rightarrow> jsstr list" where
  "own_keys kvs = sort_key digits_val (filter is_index_key (map fst kvs))
     @ filter (\<lambda>k. \<not> is_index_key k) (map fst kvs)"

text \<open>The members of an object in that order.\<close>

definition key_order :: "(jsstr \<times> 'v) list \<Rightarrow> (jsstr \<times> 'v) list" where
  "key_order kvs = sort_key (\<lambda>kv. digits_val (fst kv)) (filter (\<lambda>kv. is_index_key (fst kv)) kvs)
     @ filter (\<lambda>kv. \<not> is_index_key (fst kv)) kvs"

lemma set_key_order [simp]: "set (key_order kvs) = set kvs"
  by (auto simp: key_order_def)

lemma insort_key_map:
  "(\<And>x. f (h x) = g x) \<Longrightarrow> insort_key f (h x) (map h xs) = map h (insort_key g x xs)"
  by (induction xs) auto

lemma sort_key_map: "(\<And>x. f (h x) = g x) \<Longrightarrow> sort_key f (map h xs) = map h (sort_key g xs)"
  by (induction xs) (simp_all add: insort_key_map)

lemma key_order_map:
  assumes "\<And>kv. fst (h kv) = fst kv"
  shows "key_order (map h kvs) = map h (key_order kvs)"
proof -
  have "sort_key (\<lambda>kv. digits_val (fst kv)) (map h xs) = map h (sort_key (\<lambda>kv. digits_val (fst kv)) xs)" for xs
    by (rule sort_key_map) (simp add: assms)
  then show ?thesis by (simp add: key_order_def filter_map comp_def assms)
qed

lemma key_order_plain: "list_all (\<lambda>kv. \<not> is_index_key (fst kv)) kvs \<Longrightarrow> key_order kvs = kvs"
  by (simp add: key_order_def list_all_iff filter_True filter_False)

lemma own_keys_key_order: "own_keys kvs = map fst (key_order kvs)"
  using sort_key_map [of digits_val fst "\<lambda>kv. digits_val (fst kv)" "filter (\<lambda>kv. is_index_key (fst kv)) kvs"]
  by (simp add: own_keys_def key_order_def filter_map comp_def)

lemma set_own_keys [simp]: "set (own_keys kvs) = fst ` set kvs"
  by (auto simp: own_keys_def)

lemma distinct_own_keys: "distinct (map fst kvs) \<Longrightarrow> distinct (own_keys kvs)"
  by (auto simp: own_keys_def)

section \<open>Strings\<close>

definition hex_val :: "code_unit \<Rightarrow> nat option" where
  "hex_val c = (if is_digit c then Some (unat c - 0x30)
     else if 0x61 \<le> c \<and> c \<le> 0x66 then Some (unat c - 0x57)
     else if 0x41 \<le> c \<and> c \<le> 0x46 then Some (unat c - 0x37) else None)"

fun hex4 :: "jsstr \<Rightarrow> (code_unit \<times> jsstr) option" where
  "hex4 (a # b # c # d # r) =
     (case (hex_val a, hex_val b, hex_val c, hex_val d) of
        (Some x, Some y, Some z, Some w) \<Rightarrow>
          Some (word_of_nat (((x * 16 + y) * 16 + z) * 16 + w), r)
      | _ \<Rightarrow> None)"
| "hex4 _ = None"

definition simple_escape :: "code_unit \<Rightarrow> code_unit option" where
  "simple_escape c = (if c = 0x22 \<or> c = 0x5C \<or> c = 0x2F then Some c
     else if c = 0x62 then Some 0x08 else if c = 0x66 then Some 0x0C
     else if c = 0x6E then Some 0x0A else if c = 0x72 then Some 0x0D
     else if c = 0x74 then Some 0x09 else None)"

text \<open>The code unit an escape sequence (after the backslash) denotes, and the rest.\<close>

definition scan_escape :: "jsstr \<Rightarrow> (code_unit \<times> jsstr) option" where
  "scan_escape cs = (case cs of [] \<Rightarrow> None
     | c # r \<Rightarrow> if c = 0x75 then hex4 r
                else map_option (\<lambda>u. (u, r)) (simple_escape c))"

lemma hex4_length: "hex4 cs = Some (u, r) \<Longrightarrow> length r < length cs"
  by (cases cs rule: hex4.cases) (auto split: option.splits)

lemma scan_escape_length: "scan_escape cs = Some (u, r) \<Longrightarrow> length r < length cs"
  by (auto simp: scan_escape_def split: list.splits if_splits dest: hex4_length)

function parse_chars :: "jsstr \<Rightarrow> (jsstr \<times> jsstr) option" where
  "parse_chars [] = None"
| "parse_chars (c # cs) =
     (if c = 0x22 then Some ([], cs)
      else if c = 0x5C then
        (case scan_escape cs of None \<Rightarrow> None
         | Some (u, r) \<Rightarrow> map_option (\<lambda>(s, t). (u # s, t)) (parse_chars r))
      else if c < 0x20 then None
      else map_option (\<lambda>(s, t). (c # s, t)) (parse_chars cs))"
  by pat_completeness auto
termination
  by (relation "measure length") (auto dest: scan_escape_length)

section \<open>Values\<close>

lemma skip_ws_length: "length (skip_ws cs) \<le> length cs"
  by (induction cs) auto

text \<open>
  The members of an array or object are read by loops; a guard on the length of the rest makes
  the recursion well-founded and never fails.
\<close>

function parse_value :: "jsstr \<Rightarrow> (jsval \<times> jsstr) option"
  and parse_elems :: "jsstr \<Rightarrow> (jsval list \<times> jsstr) option"
  and parse_members :: "jsstr \<Rightarrow> ((jsstr \<times> jsval) list \<times> jsstr) option" where
  "parse_value s = (case skip_ws s of [] \<Rightarrow> None
     | c # r \<Rightarrow>
        if c = 0x7B then
          (case skip_ws r of [] \<Rightarrow> None
           | d # r' \<Rightarrow> if d = 0x7D then Some (Obj [], r')
                      else map_option (\<lambda>(kvs, t). (Obj (obj_merge [] kvs), t)) (parse_members (d # r')))
        else if c = 0x5B then
          (case skip_ws r of [] \<Rightarrow> None
           | d # r' \<Rightarrow> if d = 0x5D then Some (Arr [], r')
                      else map_option (\<lambda>(vs, t). (Arr vs, t)) (parse_elems (d # r')))
        else if c = 0x22 then map_option (\<lambda>(str, t). (Str str, t)) (parse_chars r)
        else if take 4 (c # r) = js ''true'' then Some (Bool True, drop 4 (c # r))
        else if take 5 (c # r) = js ''false'' then Some (Bool False, drop 5 (c # r))
        else if take 4 (c # r) = js ''null'' then Some (Null, drop 4 (c # r))
        else map_option (\<lambda>(n, t). (Num n, t)) (parse_number (c # r)))"
| "parse_elems s = (case parse_value s of None \<Rightarrow> None
     | Some (v, r) \<Rightarrow> (case skip_ws r of [] \<Rightarrow> None
        | c # r' \<Rightarrow> if c = 0x5D then Some ([v], r')
                    else if c = 0x2C \<and> length r' < length s
                    then map_option (\<lambda>(vs, t). (v # vs, t)) (parse_elems r')
                    else None))"
| "parse_members s = (case skip_ws s of [] \<Rightarrow> None
     | q # r \<Rightarrow> if q \<noteq> 0x22 then None else (case parse_chars r of None \<Rightarrow> None
        | Some (k, r1) \<Rightarrow> (case skip_ws r1 of [] \<Rightarrow> None
          | c # r2 \<Rightarrow> if c \<noteq> 0x3A \<or> length s \<le> length r2 then None else (case parse_value r2 of None \<Rightarrow> None
            | Some (v, r3) \<Rightarrow> (case skip_ws r3 of [] \<Rightarrow> None
              | d # r4 \<Rightarrow> if d = 0x7D then Some ([(k, v)], r4)
                         else if d = 0x2C \<and> length r4 < length s
                         then map_option (\<lambda>(kvs, t). ((k, v) # kvs, t)) (parse_members r4)
                         else None)))))"
  by pat_completeness auto
termination
proof (relation "measure (\<lambda>x. case x of Inl s \<Rightarrow> 2 * length s
    | Inr (Inl s) \<Rightarrow> 2 * length s + 1 | Inr (Inr s) \<Rightarrow> 2 * length s + 1)", goal_cases)
  case 1 show ?case by simp
next
  case (2 s c r d r')
  then show ?case using skip_ws_length [of s] skip_ws_length [of r] by simp
next
  case (3 s c r d r')
  then show ?case using skip_ws_length [of s] skip_ws_length [of r] by simp
qed auto

definition JSON_parse :: "jsstr \<Rightarrow> jsval option" where
  "JSON_parse s = (case parse_value s of None \<Rightarrow> None
     | Some (v, r) \<Rightarrow> if skip_ws r = [] then Some v else None)"

section \<open>Printing\<close>

definition digit_char :: "nat \<Rightarrow> code_unit" where
  "digit_char n = word_of_nat (0x30 + n)"

fun digits_rev :: "nat \<Rightarrow> jsstr" where
  "digits_rev n = (if n < 10 then [digit_char n]
     else digit_char (n mod 10) # digits_rev (n div 10))"

declare digits_rev.simps [simp del]

definition nat_str :: "nat \<Rightarrow> jsstr" where
  "nat_str n = rev (digits_rev n)"

definition int_str :: "int \<Rightarrow> jsstr" where
  "int_str k = (if k < 0 then 0x2D # nat_str (nat (- k)) else nat_str (nat k))"

text \<open>
  \<open>Number::toString\<close>: the decimal exponent \<open>n\<close> with \<open>10^(n-1) \<le> x < 10^n\<close>, then the least number
  \<open>k \<le> 17\<close> of digits whose nearest decimal rounds back to the number.
\<close>

definition ilog10_from :: "rat \<Rightarrow> int \<Rightarrow> nat \<Rightarrow> int" where
  "ilog10_from x start fuel =
     fold (\<lambda>_ n. if x < 10 powi n then n else n + 1) [0..<fuel] start"

fun shortest :: "rat \<Rightarrow> int \<Rightarrow> nat \<Rightarrow> nat \<Rightarrow> int \<times> nat" where
  "shortest x n k 0 = (rne (x * 10 powi (int k - n)), k)"
| "shortest x n k (Suc j) =
     (let s = rne (x * 10 powi (int k - n))
      in if fl (of_int s * 10 powi (n - int k)) = Fin x then (s, k) else shortest x n (Suc k) j)"

definition exp_str :: "int \<Rightarrow> jsstr" where
  "exp_str e = js ''e'' @ (if e < 0 then [0x2D] else [0x2B]) @ nat_str (nat \<bar>e\<bar>)"

definition pos_num_str :: "rat \<Rightarrow> jsstr" where
  "pos_num_str x =
     (if x = of_int \<lfloor>x\<rfloor> \<and> x < 2 ^ 53 then nat_str (nat \<lfloor>x\<rfloor>)
      else let n = ilog10_from x (- 330) 640; (s, k) = shortest x n 1 16;
               ds = nat_str (nat s)
           in if int k \<le> n \<and> n \<le> 21 then ds @ replicate (nat n - k) 0x30
              else if 0 < n \<and> n \<le> 21 then take (nat n) ds @ [0x2E] @ drop (nat n) ds
              else if - 6 < n \<and> n \<le> 0 then js ''0.'' @ replicate (nat (- n)) 0x30 @ ds
              else if k = 1 then ds @ exp_str (n - 1)
              else take 1 ds @ [0x2E] @ drop 1 ds @ exp_str (n - 1))"

fun num_str :: "jsnum \<Rightarrow> jsstr" where
  "num_str NaN = js ''NaN''"
| "num_str PInf = js ''Infinity''"
| "num_str NInf = js ''-Infinity''"
| "num_str (Fin x) = (if x < 0 then 0x2D # pos_num_str (- x) else pos_num_str x)"

definition hex_digit :: "nat \<Rightarrow> code_unit" where
  "hex_digit n = (if n < 10 then word_of_nat (0x30 + n) else word_of_nat (0x57 + n))"

definition u_escape :: "code_unit \<Rightarrow> jsstr" where
  "u_escape c = [0x5C, 0x75, hex_digit (unat c div 4096), hex_digit (unat c div 256 mod 16),
     hex_digit (unat c div 16 mod 16), hex_digit (unat c mod 16)]"

definition escape_unit :: "code_unit \<Rightarrow> jsstr" where
  "escape_unit c = (if c = 0x22 \<or> c = 0x5C then [0x5C, c]
     else if c = 0x08 then [0x5C, 0x62] else if c = 0x09 then [0x5C, 0x74]
     else if c = 0x0A then [0x5C, 0x6E] else if c = 0x0C then [0x5C, 0x66]
     else if c = 0x0D then [0x5C, 0x72]
     else if c < 0x20 then u_escape c else [c])"

definition is_high_surrogate :: "code_unit \<Rightarrow> bool" where
  "is_high_surrogate c \<longleftrightarrow> 0xD800 \<le> c \<and> c \<le> 0xDBFF"

definition is_low_surrogate :: "code_unit \<Rightarrow> bool" where
  "is_low_surrogate c \<longleftrightarrow> 0xDC00 \<le> c \<and> c \<le> 0xDFFF"

text \<open>A surrogate outside a pair is written as an escape (well-formed \<open>JSON.stringify\<close>).\<close>

fun escape_units :: "jsstr \<Rightarrow> jsstr" where
  "escape_units [] = []"
| "escape_units [c] =
     (if is_high_surrogate c \<or> is_low_surrogate c then u_escape c else escape_unit c)"
| "escape_units (c # d # ds) =
     (if is_high_surrogate c \<and> is_low_surrogate d then c # d # escape_units ds
      else if is_high_surrogate c \<or> is_low_surrogate c then u_escape c @ escape_units (d # ds)
      else escape_unit c @ escape_units (d # ds))"

definition quote_str :: "jsstr \<Rightarrow> jsstr" where
  "quote_str s = 0x22 # escape_units s @ [0x22]"

fun sep_by :: "'a \<Rightarrow> 'a list list \<Rightarrow> 'a list" where
  "sep_by c [] = []"
| "sep_by c [x] = x"
| "sep_by c (x # xs) = x @ c # sep_by c xs"

fun stringify :: "jsval \<Rightarrow> jsstr" where
  "stringify Undef = js ''null''"
| "stringify Null = js ''null''"
| "stringify (Bool b) = (if b then js ''true'' else js ''false'')"
| "stringify (Num x) = (case x of Fin _ \<Rightarrow> num_str x | _ \<Rightarrow> js ''null'')"
| "stringify (Str s) = quote_str s"
| "stringify (Arr vs) = 0x5B # sep_by 0x2C (map stringify vs) @ [0x5D]"
| "stringify (Obj kvs) = 0x7B # sep_by 0x2C
     (map snd (key_order (map (\<lambda>(k, v). (k, quote_str k @ 0x3A # stringify v))
       (filter (\<lambda>(k, v). v \<noteq> Undef) kvs)))) @ [0x7D]"

declare parse_value.simps [simp del] parse_elems.simps [simp del] parse_members.simps [simp del]

section \<open>Round trip\<close>

subsection \<open>Digits\<close>

lemma digit_unit:
  assumes "n < 10"
  shows "is_digit (digit_char n)" "digit_val (digit_char n) = n"
    "digit_char n = 0x30 \<longleftrightarrow> n = 0"
proof -
  have "n \<in> {0, 1, 2, 3, 4, 5, 6, 7, 8, 9}" using assms by auto
  then show "is_digit (digit_char n)" "digit_val (digit_char n) = n"
    "digit_char n = 0x30 \<longleftrightarrow> n = 0"
    by (auto simp: digit_char_def is_digit_def digit_val_def)
qed

lemma digits_val_append1: "digits_val (ds @ [d]) = 10 * digits_val ds + digit_val d"
  by (simp add: digits_val_def)

lemma digits_rev_all: "list_all is_digit (digits_rev n)"
proof (induction n rule: digits_rev.induct)
  case (1 n)
  then show ?case
    by (cases "n < 10") (simp_all add: digits_rev.simps [of n] digit_unit)
qed

lemma digits_val_nat_str [simp]: "digits_val (nat_str n) = n"
proof (induction n rule: digits_rev.induct)
  case (1 n)
  show ?case
  proof (cases "n < 10")
    case True
    then show ?thesis
      by (simp add: nat_str_def digits_rev.simps [of n] digits_val_def digit_unit)
  next
    case False
    then have "nat_str n = nat_str (n div 10) @ [digit_char (n mod 10)]"
      by (simp add: nat_str_def digits_rev.simps [of n])
    with False 1 show ?thesis by (simp add: digits_val_append1 digit_unit)
  qed
qed

lemma nat_str_nonempty [simp]: "nat_str n \<noteq> []"
  by (simp add: nat_str_def digits_rev.simps [of n])

lemma nat_str_digits: "c \<in> set (nat_str n) \<Longrightarrow> is_digit c"
  using digits_rev_all [of n] by (auto simp: nat_str_def list_all_iff)

lemma nat_str_leading: "0 < n \<Longrightarrow> hd (nat_str n) \<noteq> 0x30"
proof (induction n rule: digits_rev.induct)
  case (1 n)
  show ?case
  proof (cases "n < 10")
    case True
    with 1 show ?thesis using digit_unit(3) [of n] by (simp add: nat_str_def digits_rev.simps [of n])
  next
    case False
    then have "nat_str n = nat_str (n div 10) @ [digit_char (n mod 10)]"
      by (simp add: nat_str_def digits_rev.simps [of n])
    with False 1 show ?thesis by simp
  qed
qed

subsection \<open>Numbers\<close>

text \<open>What may follow a value inside an array, an object or at the end of the text.\<close>

definition delimited :: "jsstr \<Rightarrow> bool" where
  "delimited r \<longleftrightarrow> r = [] \<or> hd r = 0x2C \<or> hd r = 0x5D \<or> hd r = 0x7D"

lemma delimited_not_digit: "delimited (c # r) \<Longrightarrow> \<not> is_digit c \<and> c \<noteq> 0x2E \<and> c \<noteq> 0x65 \<and> c \<noteq> 0x45"
  by (auto simp: delimited_def is_digit_def)

lemma span_digits_nat_str: "delimited r \<Longrightarrow> span_digits (nat_str n @ r) = (nat_str n, r)"
  by (cases r) (auto simp: span_digits_def nat_str_digits takeWhile_append dropWhile_append
      dest: delimited_not_digit)

lemma scan_int_nat_str: "delimited r \<Longrightarrow> scan_int (nat_str n @ r) = Some (nat_str n, r)"
proof -
  assume r: "delimited r"
  show ?thesis
  proof (cases "n = 0")
    case True
    then have "nat_str n = [0x30]"
      by (simp add: nat_str_def digits_rev.simps [of 0] digit_char_def)
    then show ?thesis by (simp add: scan_int_def)
  next
    case False
    obtain c cs where c: "nat_str n = c # cs" by (cases "nat_str n") auto
    with False nat_str_leading [of n] nat_str_digits [of c n] have "c \<noteq> 0x30" "is_digit c" by auto
    with c span_digits_nat_str [OF r, of n] show ?thesis by (simp add: scan_int_def)
  qed
qed

lemma scan_frac_delimited: "delimited r \<Longrightarrow> scan_frac r = Some ([], r)"
  by (cases r) (auto simp: scan_frac_def dest: delimited_not_digit)

lemma scan_exp_delimited: "delimited r \<Longrightarrow> scan_exp r = Some (0, r)"
  by (cases r) (auto simp: scan_exp_def dest: delimited_not_digit)

lemma parse_number_nat:
  assumes "delimited r" "n < 2 ^ 53"
  shows "parse_number (nat_str n @ r) = Some (jsnat n, r)"
proof -
  obtain c cs where c: "nat_str n = c # cs" by (cases "nat_str n") auto
  with nat_str_digits [of c n] have "c \<noteq> 0x2D" by (auto simp: is_digit_def)
  with c assms show ?thesis
    using scan_int_nat_str [OF assms(1), of n] digits_val_nat_str [of n]
    by (simp add: parse_number_def scan_frac_delimited scan_exp_delimited)
qed

lemma fl_minus_nat: "n < 2 ^ 53 \<Longrightarrow> fl (- of_nat n) = Fin (- of_nat n)"
  using fl_nat [of n] by (auto simp: fl_def Let_def fl_rat_minus split: if_splits)

lemma parse_number_neg:
  assumes "delimited r" "n < 2 ^ 53"
  shows "parse_number (0x2D # nat_str n @ r) = Some (Fin (- of_nat n), r)"
  using assms scan_int_nat_str [OF assms(1), of n]
  by (simp add: parse_number_def scan_frac_delimited scan_exp_delimited fl_minus_nat)

subsection \<open>Strings\<close>

lemma hex_val_digit: "n < 16 \<Longrightarrow> hex_val (hex_digit n) = Some n"
proof -
  assume "n < 16"
  moreover have "list_all (\<lambda>k. hex_val (hex_digit k) = Some k) [0..<16]" by code_simp
  ultimately show ?thesis by (simp add: list_all_iff)
qed

lemma hex4_u_escape: "hex4 (tl (tl (u_escape c)) @ r) = Some (c, r)"
proof -
  have "unat c < 2 ^ LENGTH(16)" by (rule unsigned_less)
  then have lt: "unat c < 65536" by simp
  have "unat c div 4096 = unat c div 256 div 16" "unat c div 256 = unat c div 16 div 16"
    by (simp_all add: div_mult2_eq [symmetric])
  then have "((unat c div 4096 * 16 + unat c div 256 mod 16) * 16 + unat c div 16 mod 16) * 16
      + unat c mod 16 = unat c"
    by (metis div_mult_mod_eq)
  then have w: "word_of_nat (((unat c div 4096 * 16 + unat c div 256 mod 16) * 16
      + unat c div 16 mod 16) * 16 + unat c mod 16) = c"
    by (metis of_nat_unat ucast_id)
  have "unat c div 4096 < 16" using lt by simp
  then have "hex_val (hex_digit (unat c div 4096)) = Some (unat c div 4096)"
    by (rule hex_val_digit)
  moreover have "hex_val (hex_digit (unat c div 256 mod 16)) = Some (unat c div 256 mod 16)"
    "hex_val (hex_digit (unat c div 16 mod 16)) = Some (unat c div 16 mod 16)"
    "hex_val (hex_digit (unat c mod 16)) = Some (unat c mod 16)"
    by (simp_all add: hex_val_digit)
  ultimately show ?thesis unfolding u_escape_def by (simp only: list.sel append_Cons append_Nil
      hex4.simps prod.case option.case w)
qed

lemma parse_chars_u_escape:
  "parse_chars (u_escape c @ r) = map_option (\<lambda>(s, t). (c # s, t)) (parse_chars r)"
  using hex4_u_escape [of c r] by (simp add: u_escape_def scan_escape_def)

lemma parse_chars_escape_unit:
  "parse_chars (escape_unit c @ r) = map_option (\<lambda>(s, t). (c # s, t)) (parse_chars r)"
  by (simp add: escape_unit_def scan_escape_def simple_escape_def parse_chars_u_escape)

lemma surrogate_plain:
  "is_high_surrogate c \<or> is_low_surrogate c \<Longrightarrow> c \<noteq> 0x22 \<and> c \<noteq> 0x5C \<and> \<not> c < 0x20"
  by (auto simp: is_high_surrogate_def is_low_surrogate_def word_le_nat_alt word_less_nat_alt)

lemma parse_chars_escape: "parse_chars (escape_units s @ 0x22 # r) = Some (s, r)"
proof (induction s rule: escape_units.induct)
  case (3 c d ds)
  show ?case
  proof (cases "is_high_surrogate c \<and> is_low_surrogate d")
    case True
    then have plain: "c \<noteq> 0x22 \<and> c \<noteq> 0x5C \<and> \<not> c < 0x20" "d \<noteq> 0x22 \<and> d \<noteq> 0x5C \<and> \<not> d < 0x20"
      using surrogate_plain by blast+
    with True 3(1) show ?thesis by simp
  next
    case False
    then show ?thesis
      using 3(2,3) by (auto simp: parse_chars_u_escape parse_chars_escape_unit simp del: parse_chars.simps)
  qed
qed (auto simp: parse_chars_u_escape parse_chars_escape_unit)

subsection \<open>Values\<close>

text \<open>
  The values \<open>JSON.stringify\<close> carries without loss: no \<open>undefined\<close>, integers below \<open>2^53\<close>, distinct
  property names.
\<close>

fun json_safe :: "jsval \<Rightarrow> bool" where
  "json_safe Undef = False"
| "json_safe Null = True"
| "json_safe (Bool b) = True"
| "json_safe (Num x) = (case x of Fin r \<Rightarrow> r = of_int \<lfloor>r\<rfloor> \<and> \<bar>r\<bar> < 2 ^ 53 | _ \<Rightarrow> False)"
| "json_safe (Str s) = True"
| "json_safe (Arr vs) = list_all json_safe vs"
| "json_safe (Obj kvs) = (distinct (map fst kvs) \<and> key_order kvs = kvs
     \<and> list_all (\<lambda>(k, v). json_safe v) kvs)"

lemma skip_ws_nonws: "\<not> is_ws c \<Longrightarrow> skip_ws (c # r) = c # r"
  by simp

lemma parse_value_simps:
  "parse_value (0x22 # r) = map_option (\<lambda>(s, t). (Str s, t)) (parse_chars r)"
  "parse_value (0x5B # 0x5D # r) = Some (Arr [], r)"
  "parse_value (0x7B # 0x7D # r) = Some (Obj [], r)"
  "\<not> is_ws c \<Longrightarrow> c \<noteq> 0x5D \<Longrightarrow> parse_value (0x5B # c # r)
     = map_option (\<lambda>(vs, t). (Arr vs, t)) (parse_elems (c # r))"
  "\<not> is_ws c \<Longrightarrow> c \<noteq> 0x7D \<Longrightarrow> parse_value (0x7B # c # r)
     = map_option (\<lambda>(kvs, t). (Obj (obj_merge [] kvs), t)) (parse_members (c # r))"
  by (simp_all add: parse_value.simps [of "_ # _"] is_ws_def)

lemma parse_value_lits:
  "parse_value (js ''true'' @ r) = Some (Bool True, r)"
  "parse_value (js ''false'' @ r) = Some (Bool False, r)"
  "parse_value (js ''null'' @ r) = Some (Null, r)"
  by (simp_all add: parse_value.simps [of "_ # _"] is_ws_def js_eval)

lemma parse_value_number:
  assumes "c = 0x2D \<or> is_digit c"
  shows "parse_value (c # r) = map_option (\<lambda>(n, t). (Num n, t)) (parse_number (c # r))"
proof -
  have "c \<noteq> 0x7B \<and> c \<noteq> 0x5B \<and> c \<noteq> 0x22 \<and> \<not> is_ws c \<and> c \<noteq> 0x74 \<and> c \<noteq> 0x66 \<and> c \<noteq> 0x6E"
    using assms by (auto simp: is_digit_def is_ws_def)
  then show ?thesis by (simp add: parse_value.simps [of "_ # _"] js_eval)
qed

lemma stringify_safe_num:
  assumes "json_safe (Num x)"
  obtains n where "n < 2 ^ 53" "x = jsnat n" "stringify (Num x) = nat_str n"
  | n where "n < 2 ^ 53" "x = Fin (- of_nat n)" "stringify (Num x) = 0x2D # nat_str n"
proof -
  obtain q where x: "x = Fin q" and q: "q = of_int \<lfloor>q\<rfloor>" "\<bar>q\<bar> < 2 ^ 53"
    using assms(1) by (cases x) auto
  define k where "k = \<lfloor>q\<rfloor>"
  have k: "q = of_int k" using q(1) by (simp add: k_def)
  with q(2) have "of_int \<bar>k\<bar> < (of_int (2 ^ 53) :: rat)" by simp
  then have k2: "\<bar>k\<bar> < 2 ^ 53" by (simp only: of_int_less_iff)
  define n where "n = nat \<bar>k\<bar>"
  have n: "n < 2 ^ 53" "\<bar>q\<bar> = of_nat n" using k k2 by (simp_all add: n_def nat_less_iff)
  have str: "pos_num_str (of_nat n) = nat_str n"
    using n q(2) by (simp add: pos_num_str_def)
  show thesis
  proof (cases "q < 0")
    case True
    then have "x = Fin (- of_nat n)" "stringify (Num x) = 0x2D # nat_str n"
      using n str by (simp_all add: x)
    with n that(2) show thesis by blast
  next
    case False
    then have "x = jsnat n" "stringify (Num x) = nat_str n"
      using n str by (simp_all add: x)
    with n that(1) show thesis by blast
  qed
qed

lemma nat_str_Cons: "\<exists>c cs. nat_str n = c # cs \<and> is_digit c"
  using nat_str_digits [of "hd (nat_str n)" n] by (cases "nat_str n") auto

lemma parse_value_num:
  assumes "json_safe (Num x)" "delimited r"
  shows "parse_value (stringify (Num x) @ r) = Some (Num x, r)"
  using assms(1)
proof (cases rule: stringify_safe_num)
  case (1 n)
  with nat_str_Cons [of n] parse_number_nat [OF assms(2), of n] show ?thesis
    by (auto simp: parse_value_number)
next
  case (2 n)
  with parse_number_neg [OF assms(2), of n] show ?thesis by (simp add: parse_value_number)
qed

text \<open>The first code unit of a printed value is never white space or a closing bracket.\<close>

definition starts_value :: "jsstr \<Rightarrow> bool" where
  "starts_value s \<longleftrightarrow> (case s of [] \<Rightarrow> False | c # _ \<Rightarrow> \<not> is_ws c \<and> c \<noteq> 0x5D \<and> c \<noteq> 0x7D)"

lemma starts_value_append [simp]: "starts_value s \<Longrightarrow> starts_value (s @ t)"
  by (cases s) (simp_all add: starts_value_def)

lemma starts_value_num: "json_safe (Num x) \<Longrightarrow> starts_value (stringify (Num x))"
proof (erule stringify_safe_num)
  fix n assume "stringify (Num x) = nat_str n"
  moreover obtain c cs where "nat_str n = c # cs" "is_digit c" using nat_str_Cons by blast
  ultimately show ?thesis by (auto simp: starts_value_def is_ws_def is_digit_def)
qed (simp add: starts_value_def is_ws_def)

lemma starts_value_stringify: "json_safe v \<Longrightarrow> starts_value (stringify v)"
proof (cases v)
  case (Num x)
  assume "json_safe v"
  with Num show ?thesis using starts_value_num by simp
qed (auto simp: starts_value_def quote_str_def is_ws_def js_eval)

lemma parse_elems_stringify:
  assumes "vs \<noteq> []"
    and "\<And>v r. v \<in> set vs \<Longrightarrow> delimited r \<Longrightarrow> parse_value (stringify v @ r) = Some (v, r)"
  shows "parse_elems (sep_by 0x2C (map stringify vs) @ 0x5D # r) = Some (vs, r)"
  using assms
proof (induction vs rule: list_nonempty_induct)
  case (single v)
  then show ?case by (simp add: parse_elems.simps [of "_ @ _"] delimited_def is_ws_def)
next
  case (cons v vs)
  define t where "t = sep_by 0x2C (map stringify vs) @ 0x5D # r"
  have "sep_by 0x2C (map stringify (v # vs)) @ 0x5D # r = stringify v @ 0x2C # t"
    using cons.hyps by (cases vs) (simp_all add: t_def)
  moreover have "parse_elems t = Some (vs, r)" unfolding t_def using cons by simp
  moreover have "parse_value (stringify v @ 0x2C # t) = Some (v, 0x2C # t)"
    using cons.prems by (simp add: delimited_def)
  ultimately show ?case by (simp add: parse_elems.simps [of "_ @ _"] is_ws_def)
qed

abbreviation member_str :: "jsstr \<times> jsval \<Rightarrow> jsstr" where
  "member_str kv \<equiv> (case kv of (k, v) \<Rightarrow> quote_str k @ 0x3A # stringify v)"

lemma parse_members_stringify:
  assumes "kvs \<noteq> []"
    and "\<And>k v r. (k, v) \<in> set kvs \<Longrightarrow> delimited r \<Longrightarrow> parse_value (stringify v @ r) = Some (v, r)"
  shows "parse_members (sep_by 0x2C (map member_str kvs) @ 0x7D # r) = Some (kvs, r)"
  using assms
proof (induction kvs rule: list_nonempty_induct)
  case (single kv)
  then show ?case
    by (cases kv) (simp add: parse_members.simps [of "_ # _"] quote_str_def parse_chars_escape
        delimited_def is_ws_def)
next
  case (cons kv kvs)
  obtain k v where kv: "kv = (k, v)" by (cases kv)
  define t where "t = sep_by 0x2C (map member_str kvs) @ 0x7D # r"
  have "sep_by 0x2C (map member_str (kv # kvs)) @ 0x7D # r = quote_str k @ 0x3A # stringify v @ 0x2C # t"
    using cons.hyps kv by (cases kvs) (simp_all add: t_def)
  moreover have "parse_members t = Some (kvs, r)"
    unfolding t_def by (rule cons(2)) (use cons.prems in auto)
  moreover have "parse_value (stringify v @ 0x2C # t) = Some (v, 0x2C # t)"
    by (rule cons.prems [of k]) (simp_all add: kv delimited_def)
  ultimately show ?case
    by (simp add: parse_members.simps [of "_ # _"] quote_str_def parse_chars_escape is_ws_def kv)
qed

lemma obj_merge_distinct: "distinct (map fst kvs) \<Longrightarrow> obj_merge [] kvs = kvs"
proof -
  have set_new: "k \<notin> fst ` set xs \<Longrightarrow> al_set k v xs = xs @ [(k, v)]" for k v and xs :: "(jsstr \<times> jsval) list"
    by (induction xs) (auto split: prod.splits)
  have "distinct (map fst (xs @ kvs)) \<Longrightarrow> fold (\<lambda>(k, v). al_set k v) kvs xs = xs @ kvs" for xs
    by (induction kvs arbitrary: xs) (auto simp: set_new)
  from this [of "[]"] show "distinct (map fst kvs) \<Longrightarrow> ?thesis" by (simp add: obj_merge_def)
qed

lemma safe_no_undef: "json_safe (Obj kvs) \<Longrightarrow> filter (\<lambda>(k, v). v \<noteq> Undef) kvs = kvs"
  by (rule filter_True) (auto simp: list_all_iff)

lemma stringify_safe_obj:
  assumes "json_safe (Obj kvs)"
  shows "stringify (Obj kvs) = 0x7B # sep_by 0x2C (map member_str kvs) @ [0x7D]"
proof -
  have "key_order (map (\<lambda>(k, v). (k, quote_str k @ 0x3A # stringify v)) kvs)
      = map (\<lambda>(k, v). (k, quote_str k @ 0x3A # stringify v)) kvs"
    using assms by (subst key_order_map) auto
  then show ?thesis
    using safe_no_undef [OF assms] by (simp add: comp_def prod.case_distrib)
qed

lemma parse_value_stringify:
  "json_safe v \<Longrightarrow> delimited r \<Longrightarrow> parse_value (stringify v @ r) = Some (v, r)"
proof (induction v arbitrary: r rule: stringify.induct)
  case (4 x)
  then show ?case using parse_value_num by blast
next
  case (6 vs)
  show ?case
  proof (cases "vs = []")
    case True
    then show ?thesis by (simp add: parse_value_simps)
  next
    case False
    define t where "t = sep_by 0x2C (map stringify vs) @ 0x5D # r"
    have "starts_value t"
      using False 6(2) starts_value_stringify [of "hd vs"]
      by (cases vs rule: remdups_adj.cases) (auto simp: t_def)
    then obtain c cs where c: "t = c # cs" "\<not> is_ws c" "c \<noteq> 0x5D"
      by (cases t) (auto simp: starts_value_def)
    have "parse_elems t = Some (vs, r)"
      unfolding t_def using 6 False by (intro parse_elems_stringify) (auto simp: list_all_iff)
    with c show ?thesis by (simp add: parse_value_simps flip: t_def)
  qed
next
  case (7 kvs)
  show ?case
  proof (cases "kvs = []")
    case True
    then show ?thesis by (simp add: parse_value_simps key_order_def)
  next
    case False
    define t where "t = sep_by 0x2C (map member_str kvs) @ 0x7D # r"
    obtain cs where c: "t = 0x22 # cs"
      using False by (cases kvs rule: remdups_adj.cases) (auto simp: t_def quote_str_def)
    have "parse_members t = Some (kvs, r)"
      unfolding t_def using 7 False safe_no_undef [OF 7(2)]
      by (intro parse_members_stringify) (auto simp: list_all_iff)
    with c 7(2) show ?thesis
      using stringify_safe_obj [OF 7(2)]
      by (simp add: parse_value_simps is_ws_def obj_merge_distinct del: stringify.simps flip: t_def)
  qed
qed (simp_all add: parse_value_lits parse_value_simps quote_str_def parse_chars_escape)

theorem JSON_roundtrip: "json_safe v \<Longrightarrow> JSON_parse (stringify v) = Some v"
  using parse_value_stringify [of v "[]"] by (simp add: JSON_parse_def delimited_def)

end
