(* ===== verification/Window.thy ===== *)
theory Window
  imports Prelude
begin

text \<open>
  The contract of a bounded event log: adding a batch keeps the most recent \<open>cap\<close> events.  The metrics buffer and the
  order feed of the dashboard both promise it; what follows for a whole run is proved once, here.
\<close>

locale sliding_window =
  fixes add :: "'s \<Rightarrow> 'e list \<Rightarrow> 's"
    and contents :: "'s \<Rightarrow> 'e list"
    and cap :: nat
    and admissible :: "'e list \<Rightarrow> bool"
  assumes add_contents: "admissible es \<Longrightarrow> contents (add s es) = take_last cap (contents s @ es)"
begin

lemma add_bounded: "admissible es \<Longrightarrow> length (contents (add s es)) \<le> cap"
  by (simp add: add_contents)

lemma run_contents:
  assumes "list_all admissible ess" "length (contents s) \<le> cap"
  shows "contents (foldl add s ess) = take_last cap (contents s @ concat ess)"
  using assms
proof (induction ess arbitrary: s)
  case (Cons es ess)
  then have "contents (foldl add s (es # ess)) = take_last cap (take_last cap (contents s @ es) @ concat ess)"
    by (simp add: add_contents)
  also have "\<dots> = take_last cap (contents s @ es @ concat ess)"
    using take_last_absorb [of cap "contents s @ es" "concat ess"] by simp
  finally show ?case by simp
qed simp

lemma run_bounded:
  assumes "list_all admissible ess" "length (contents s) \<le> cap"
  shows "length (contents (foldl add s ess)) \<le> cap"
  by (simp add: run_contents [OF assms])

lemma run_recent:
  assumes "list_all admissible ess" "length (contents s) \<le> cap"
    and "concat ess = xs @ ys" "length ys \<le> cap"
  shows "\<exists>zs. contents (foldl add s ess) = zs @ ys"
  using take_last_append_le [OF assms(4), of "contents s @ xs"]
  by (simp add: run_contents [OF assms(1,2)] assms(3))

end

end
