(* ===== verification/Apm_Server.thy ===== *)
theory Apm_Server
  imports JS_Json Window
begin

text \<open>
  The metrics server, \<open>apm-server/server.js\<close>: the event buffer, the statistics, the \<open>/metrics\<close> query and the
  request router.  The module variable \<open>buffer\<close> is passed explicitly.
\<close>

section \<open>The event buffer\<close>

definition MAX_BUFFER :: nat where
  "MAX_BUFFER = 100000"

text \<open>\<open>buffer.splice(0, overflow)\<close>, then one \<open>push\<close> per event.\<close>

definition ingest :: "jsval list \<Rightarrow> jsval list \<Rightarrow> jsval list" where
  "ingest events buffer =
     (let overflow = int (length buffer) + int (length events) - int MAX_BUFFER;
          buffer' = (if overflow > 0 then drop (nat overflow) buffer else buffer)
      in foldl (\<lambda>b e. b @ [e]) buffer' events)"

section \<open>Statistics\<close>

definition percentile :: "jsnum list \<Rightarrow> jsnum \<Rightarrow> jsval" where
  "percentile srt p =
     (if length srt = 0 then Num (Fin 0)
      else let idx = js_sub (js_ceil (js_mul (js_div p (Fin 100)) (jsnat (length srt)))) (Fin 1)
           in case js_index srt (js_max (Fin 0) idx) of None \<Rightarrow> Undef | Some x \<Rightarrow> Num x)"

record stats =
  st_count :: jsval
  st_p50 :: jsval
  st_p95 :: jsval
  st_p99 :: jsval
  st_avg :: jsval
  st_max :: jsval

text \<open>The order \<open>sort((a, b) => a - b)\<close> uses: \<open>a\<close> goes before \<open>b\<close> when \<open>a - b\<close> is negative.\<close>

definition num_before :: "jsnum \<Rightarrow> jsnum \<Rightarrow> bool" where
  "num_before a b \<longleftrightarrow> js_lt (js_sub a b) (Fin 0)"

definition computeStats :: "jsnum list \<Rightarrow> stats" where
  "computeStats values =
     (if length values = 0 then
        \<lparr>st_count = Num (Fin 0), st_p50 = Num (Fin 0), st_p95 = Num (Fin 0), st_p99 = Num (Fin 0),
          st_avg = Num (Fin 0), st_max = Num (Fin 0)\<rparr>
      else
        let srt = sort_by num_before values;
            sum = foldl js_add (Fin 0) srt
        in \<lparr>st_count = Num (jsnat (length srt)),
            st_p50 = percentile srt (Fin 50),
            st_p95 = percentile srt (Fin 95),
            st_p99 = percentile srt (Fin 99),
            st_avg = Num (js_round (js_div sum (jsnat (length srt)))),
            st_max = (case js_index srt (jsnat (length srt - 1)) of
                        None \<Rightarrow> Undef | Some x \<Rightarrow> Num x)\<rparr>)"

definition stats_obj :: "stats \<Rightarrow> jsval" where
  "stats_obj s = Obj [(js ''count'', st_count s), (js ''p50'', st_p50 s), (js ''p95'', st_p95 s),
     (js ''p99'', st_p99 s), (js ''avg'', st_avg s), (js ''max'', st_max s)]"

section \<open>Aggregation\<close>

text \<open>One pass of the loop over the buffer: the service an event counts for and its response time.\<close>

definition event_service :: "jsval \<Rightarrow> jsstr result" where
  "event_service e =
     (if truthy e then
        bindr (get_prop e (js ''service''))
          (\<lambda>s. Inr (case s of Str svc \<Rightarrow> svc | _ \<Rightarrow> js ''unknown''))
      else Inr (js ''unknown''))"

type_synonym groups = "(jsstr \<times> jsnum list) list"

definition group_push :: "jsstr \<Rightarrow> jsnum \<Rightarrow> groups \<Rightarrow> groups" where
  "group_push svc x byService =
     (case map_of byService svc of
        None \<Rightarrow> al_set svc [x] byService
      | Some xs \<Rightarrow> al_set svc (xs @ [x]) byService)"

definition aggregate_event :: "jsval \<Rightarrow> groups \<times> jsnum list \<Rightarrow> (groups \<times> jsnum list) result" where
  "aggregate_event e acc =
     bindr (event_service e) (\<lambda>svc.
       bindr (get_prop e (js ''responseMs'')) (\<lambda>r.
         case r of
           Num x \<Rightarrow> Inr (group_push svc x (fst acc), snd acc @ [x])
         | _ \<Rightarrow> Inr acc))"

record metrics =
  total_ingested :: nat
  overall_stats :: stats
  service_stats :: "(jsstr \<times> stats) list"
  recent_events :: "jsval list"

text \<open>\<open>buffer.slice(-n)\<close> for the clamped limit, an integer between 1 and 1000.\<close>

definition clamp_limit :: "jsnum \<Rightarrow> jsnum" where
  "clamp_limit limit = js_min (js_max limit (Fin 1)) (Fin 1000)"

fun slice_last :: "jsnum \<Rightarrow> jsval list \<Rightarrow> jsval list" where
  "slice_last (Fin n) xs = take_last (nat \<lfloor>n\<rfloor>) xs"
| "slice_last _ xs = xs"

definition buildMetrics :: "jsnum \<Rightarrow> jsval list \<Rightarrow> metrics result" where
  "buildMetrics limit buffer =
     bindr (foldr_result aggregate_event buffer ([], [])) (\<lambda>(byService, allResp).
       Inr \<lparr>total_ingested = length buffer,
            overall_stats = computeStats allResp,
            service_stats = map (\<lambda>svc. (svc, computeStats (the (map_of byService svc)))) (own_keys byService),
            recent_events = slice_last (clamp_limit limit) buffer\<rparr>)"

definition metrics_obj :: "metrics \<Rightarrow> jsval" where
  "metrics_obj m = Obj [(js ''total_ingested'', Num (jsnat (total_ingested m))),
     (js ''overall_stats'', stats_obj (overall_stats m)),
     (js ''service_stats'', Obj (map (\<lambda>(k, s). (k, stats_obj s)) (service_stats m))),
     (js ''recent_events'', Arr (recent_events m))]"

section \<open>The query string of /metrics\<close>

text \<open>The regular expression \<open>/(?:^|&)limit=(\d+)/\<close>, leftmost match, group 1.\<close>

definition limit_digits :: "jsstr \<Rightarrow> jsstr option" where
  "limit_digits s = (if take 6 s = js ''limit='' then
      let ds = takeWhile is_digit (drop 6 s) in if ds = [] then None else Some ds
    else None)"

fun match_limit :: "bool \<Rightarrow> jsstr \<Rightarrow> jsstr option" where
  "match_limit bol s =
     (case (if bol then limit_digits s else None) of
        Some ds \<Rightarrow> Some ds
      | None \<Rightarrow> (case s of [] \<Rightarrow> None
          | c # r \<Rightarrow> (case (if c = 0x26 then limit_digits r else None) of
               Some ds \<Rightarrow> Some ds
             | None \<Rightarrow> match_limit False r)))"

declare match_limit.simps [simp del]

definition metrics_limit :: "jsstr \<Rightarrow> jsnum" where
  "metrics_limit url =
     (let rest = dropWhile (\<lambda>c. c \<noteq> 0x3F) url
      in if rest = [] then Fin 100
         else case match_limit True (tl rest) of
                None \<Rightarrow> Fin 100
              | Some ds \<Rightarrow> fl (of_nat (digits_val ds)))"

section \<open>Requests\<close>

record request =
  req_method :: jsstr
  req_url :: jsstr
  req_body :: "jsstr result"  \<comment> \<open>what the promise of \<open>readBody\<close> settles to\<close>

record response =
  res_status :: nat
  res_headers :: "(string \<times> string) list"
  res_json :: "jsval option"  \<comment> \<open>the value handed to \<open>JSON.stringify\<close>, if any\<close>

definition CORS_HEADERS :: "(string \<times> string) list" where
  "CORS_HEADERS =
     [(''Access-Control-Allow-Origin'', ''*''),
      (''Access-Control-Allow-Methods'', ''GET, POST, OPTIONS''),
      (''Access-Control-Allow-Headers'', ''Content-Type, X-Correlation-Id'')]"

definition json_headers :: "(string \<times> string) list" where
  "json_headers = (''Content-Type'', ''application/json'') # CORS_HEADERS"

text \<open>
  \<open>readBody\<close>: the chunks of the body in order, joined and decoded, or the stream's error.  \<open>decode\<close> is
  \<open>Buffer.toString('utf8')\<close>.
\<close>

definition readBody :: "(8 word list \<Rightarrow> jsstr) \<Rightarrow> 8 word list list \<Rightarrow> exn option \<Rightarrow> jsstr result" where
  "readBody decode chunks err = (case err of Some e \<Rightarrow> Inl e | None \<Rightarrow> Inr (decode (concat chunks)))"

abbreviation reply :: "nat \<Rightarrow> jsval \<Rightarrow> response" where
  "reply status v \<equiv> \<lparr>res_status = status, res_headers = json_headers, res_json = Some v\<rparr>"

definition handle_ingest :: "request \<Rightarrow> jsval list \<Rightarrow> (response \<times> jsval list) result" where
  "handle_ingest req buffer =
     bindr (req_body req) (\<lambda>body.
       case JSON_parse body of
         None \<Rightarrow> Inr (reply 400 (Obj [(js ''error'', Str (js ''request body must be valid JSON''))]), buffer)
       | Some (Arr events) \<Rightarrow>
           (let buffer' = ingest events buffer
            in Inr (reply 202 (Obj [(js ''accepted'', Num (jsnat (length events))),
                                    (js ''total'', Num (jsnat (length buffer')))]), buffer'))
       | Some _ \<Rightarrow> Inr (reply 400 (Obj [(js ''error'', Str (js ''request body must be a JSON array''))]), buffer))"

definition handleRequest :: "request \<Rightarrow> jsval list \<Rightarrow> (response \<times> jsval list) result" where
  "handleRequest req buffer =
     (if req_method req = js ''OPTIONS'' then
        Inr (\<lparr>res_status = 204, res_headers = CORS_HEADERS, res_json = None\<rparr>, buffer)
      else if req_method req = js ''GET'' \<and> req_url req = js ''/health'' then
        Inr (reply 200 (Obj [(js ''status'', Str (js ''ok'')),
                             (js ''buffered'', Num (jsnat (length buffer)))]), buffer)
      else if req_method req = js ''POST'' \<and> req_url req = js ''/ingest'' then
        handle_ingest req buffer
      else if req_method req = js ''GET'' \<and> take 8 (req_url req) = js ''/metrics'' then
        bindr (buildMetrics (metrics_limit (req_url req)) buffer)
          (\<lambda>m. Inr (reply 200 (metrics_obj m), buffer))
      else
        Inr (reply 404 (Obj [(js ''error'', Str (js ''not found'')), (js ''path'', Str (req_url req))]), buffer))"

text \<open>
  The listener of \<open>createServer\<close>: a rejected handler answers 500 with the error's message, whose text
  (\<open>msg\<close>) is the engine's.
\<close>

definition server :: "(exn \<Rightarrow> jsstr) \<Rightarrow> request \<Rightarrow> jsval list \<Rightarrow> response \<times> jsval list" where
  "server msg req buffer =
     (case handleRequest req buffer of
        Inr r \<Rightarrow> r
      | Inl e \<Rightarrow> (reply 500 (Obj [(js ''error'', Str (msg e))]), buffer))"

text \<open>Requests are served one after another: every handler reads and writes the buffer in one turn of the event loop.\<close>

fun serve_all :: "(exn \<Rightarrow> jsstr) \<Rightarrow> request list \<Rightarrow> jsval list \<Rightarrow> response list \<times> jsval list" where
  "serve_all msg [] buffer = ([], buffer)"
| "serve_all msg (r # rs) buffer =
     (case server msg r buffer of (resp, buffer') \<Rightarrow>
        case serve_all msg rs buffer' of (resps, buffer'') \<Rightarrow> (resp # resps, buffer''))"

section \<open>The buffer is a sliding window\<close>

lemma foldl_push: "foldl (\<lambda>b e. b @ [e]) xs ys = xs @ ys"
  by (induction ys arbitrary: xs) simp_all

lemma ingest_eq: "ingest events buffer = drop (length buffer + length events - MAX_BUFFER) buffer @ events"
  by (auto simp: ingest_def Let_def foldl_push nat_diff_distrib' intro!: arg_cong2 [where f = drop])

interpretation apm_window: sliding_window
  "\<lambda>b es. ingest es b" "\<lambda>b. b" MAX_BUFFER "\<lambda>es. length es \<le> MAX_BUFFER"
proof
  fix es b :: "jsval list"
  assume "length es \<le> MAX_BUFFER"
  then show "ingest es b = take_last MAX_BUFFER (b @ es)"
    by (simp add: ingest_eq take_last_append_le) (simp add: take_last_def)
qed

text \<open>The batch a request adds, if the router accepts it.\<close>

definition accepted_batch :: "request \<Rightarrow> jsval list" where
  "accepted_batch req =
     (if req_method req = js ''POST'' \<and> req_url req = js ''/ingest'' then
        (case req_body req of Inl _ \<Rightarrow> [] | Inr body \<Rightarrow>
           (case JSON_parse body of Some (Arr events) \<Rightarrow> events | _ \<Rightarrow> []))
      else [])"

lemma ingest_Nil: "length buffer \<le> MAX_BUFFER \<Longrightarrow> ingest [] buffer = buffer"
  by (simp add: ingest_eq)

lemma server_buffer:
  assumes "length buffer \<le> MAX_BUFFER"
  shows "snd (server msg req buffer) = ingest (accepted_batch req) buffer"
  using assms
  by (auto simp: server_def handleRequest_def handle_ingest_def accepted_batch_def ingest_Nil bindr_def
      Let_def split: sum.splits option.splits jsval.splits)

lemma server_keeps_bound:
  assumes "length buffer \<le> MAX_BUFFER" "length (accepted_batch req) \<le> MAX_BUFFER"
  shows "length (snd (server msg req buffer)) \<le> MAX_BUFFER"
  using assms apm_window.add_bounded by (simp add: server_buffer)

lemma serve_all_buffer:
  assumes "length buffer \<le> MAX_BUFFER" "\<forall>req \<in> set reqs. length (accepted_batch req) \<le> MAX_BUFFER"
  shows "snd (serve_all msg reqs buffer) = foldl (\<lambda>b es. ingest es b) buffer (map accepted_batch reqs)"
  using assms
proof (induction reqs arbitrary: buffer)
  case (Cons r rs)
  then have "snd (serve_all msg rs (snd (server msg r buffer)))
      = foldl (\<lambda>b es. ingest es b) (snd (server msg r buffer)) (map accepted_batch rs)"
    using server_keeps_bound [of buffer r msg] by (intro Cons.IH) simp_all
  then show ?case using Cons.prems by (simp add: server_buffer case_prod_beta)
qed simp

section \<open>The percentile in binary64 is the exact nearest rank\<close>

definition nearest_rank :: "nat \<Rightarrow> nat \<Rightarrow> nat" where
  "nearest_rank p n = (p * n + 99) div 100"

lemma nearest_rank_bounds: "0 < p \<Longrightarrow> p \<le> 100 \<Longrightarrow> 0 < n \<Longrightarrow> 0 < nearest_rank p n \<and> nearest_rank p n \<le> n"
proof -
  assume p: "0 < p" "p \<le> 100" and n: "0 < n"
  then have "0 < p * n" "p * n \<le> 100 * n" by simp_all
  then have "(p * n + 99) div 100 \<le> (100 * n + 99) div 100" "0 < (p * n + 99) div 100"
    by (simp_all only: div_le_mono add_le_mono1 div_greater_zero_iff) simp_all
  then show ?thesis by (simp add: nearest_rank_def)
qed

lemma nearest_rank_mono: "p \<le> q \<Longrightarrow> nearest_rank p n \<le> nearest_rank q n"
  unfolding nearest_rank_def by (intro div_le_mono add_right_mono mult_right_mono) simp_all

lemma ceiling_nearest_rank:
  fixes c :: rat
  assumes c: "0 < c" "c \<le> 1" and n: "0 < n" "n < 2 ^ 32"
    and rel: "\<bar>c - of_nat p / 100\<bar> * 2 ^ 54 < c" and abs: "\<bar>c - of_nat p / 100\<bar> * 2 ^ 32 \<le> 1 / 200"
  shows "\<lceil>fl_rat (c * of_nat n)\<rceil> = int (nearest_rank p n)"
proof -
  define x r k where "x = c * of_nat n" and "r = (of_nat (p * n) / 100 :: rat)" and "k = nearest_rank p n"
  have "(of_nat n :: rat) < of_nat (2 ^ 32)" using n by (simp only: of_nat_less_iff)
  then have n32: "(of_nat n :: rat) < 2 ^ 32" by simp
  have x: "0 < x" "x \<le> of_nat n" using c n by (simp_all add: x_def mult_le_cancel_right2)
  have diff: "\<bar>x - r\<bar> = \<bar>c - of_nat p / 100\<bar> * of_nat n"
    by (simp add: x_def r_def abs_mult_pos left_diff_distrib)
  show ?thesis
  proof (cases "100 dvd p * n")
    case True
    then obtain j where j: "p * n = 100 * j" by (auto elim: dvdE)
    then have "of_nat (p * n) = (100 :: rat) * of_nat j" by (metis of_nat_mult of_nat_numeral)
    moreover have "k = j" by (simp add: k_def nearest_rank_def j)
    ultimately have "r = of_int (int k)" by (simp add: r_def del: of_nat_mult)
    moreover have "\<bar>x - r\<bar> < x / 2 ^ 54"
      unfolding diff using mult_strict_right_mono [OF rel, of "of_nat n"] n(1)
      by (simp add: x_def mult_ac)
    moreover have "x < 2 ^ 53" using x n32 by simp
    ultimately have "fl_rat x = of_int (int k)" using x by (intro fl_rat_snap) simp_all
    then show ?thesis by (simp add: x_def k_def)
  next
    case False
    define m s where "m = p * n div 100" and "s = p * n mod 100"
    have mod: "p * n = 100 * m + s" "0 < s" "s < 100"
      using False by (simp_all add: m_def s_def mod_greater_zero_iff_not_dvd)
    have "100 * m + s + 99 = (s - 1) + (m + 1) * 100" using mod(2) by simp
    then have "(100 * m + s + 99) div 100 = m + 1"
      using mod(3) by simp
    then have k: "k = m + 1" unfolding k_def nearest_rank_def mod(1) .
    have "100 * m + 1 \<le> p * n" "p * n + 1 \<le> 100 * (m + 1)"
      unfolding mod(1) using mod(2,3) by simp_all
    then have "(of_nat (100 * m + 1) :: rat) \<le> of_nat (p * n)"
      "(of_nat (p * n + 1) :: rat) \<le> of_nat (100 * (m + 1))" by (simp_all only: of_nat_le_iff)
    then have r: "of_nat m + 1 / 100 \<le> r" "r \<le> of_nat m + 99 / 100"
      by (simp_all add: r_def)
    have "\<bar>x - r\<bar> \<le> \<bar>c - of_nat p / 100\<bar> * 2 ^ 32"
      unfolding diff using n32 by (intro mult_left_mono) simp_all
    with abs have "\<bar>x - r\<bar> \<le> 1 / 200" by linarith
    moreover have "\<bar>fl_rat x - x\<bar> \<le> 1 / 300"
      by (rule order_trans [OF fl_rat_err]) (use x n32 in simp_all)
    ultimately have "of_nat m < fl_rat x" "fl_rat x < of_nat m + 1" using r by linarith+
    then show ?thesis unfolding x_def [symmetric] k_def [symmetric] k by (intro ceiling_unique) simp_all
  qed
qed

lemma percentile_factor:
  assumes "p \<in> {50, 95, 99}"
  obtains c where "js_div (Fin (of_nat p)) (Fin 100) = Fin c" "0 < c" "c \<le> 1"
    "\<bar>c - of_nat p / 100\<bar> * 2 ^ 54 < c" "\<bar>c - of_nat p / 100\<bar> * 2 ^ 32 \<le> 1 / 200"
proof -
  have "(1::rat) < 2 ^ 53" by simp
  then have big: "(1::rat) < 2 ^ 1024" using pow_53_1024 by (rule order_less_trans)
  have fin: "fl x = Fin (fl_rat x)" if "0 < fl_rat x" "fl_rat x \<le> 1" for x
  proof (rule fl_small)
    have "\<bar>fl_rat x\<bar> \<le> 1" using that by simp
    then show "\<bar>fl_rat x\<bar> < 2 ^ 1024" using big by (rule order_le_less_trans)
  qed
  consider "p = 50" | "p = 95" | "p = 99" using assms by blast
  then show thesis
  proof cases
    case 1
    with that [of "1 / 2"] fin [of "1 / 2"] show thesis by (simp add: fl_rat_1_2)
  next
    case 2
    with that [of "4278419646001971 / 4503599627370496"] fin [of "19 / 20"] show thesis
      by (simp add: fl_rat_19_20)
  next
    case 3
    with that [of "4458563631096791 / 4503599627370496"] fin [of "99 / 100"] show thesis
      by (simp add: fl_rat_99_100)
  qed
qed

lemma percentile_nearest_rank:
  assumes p: "p \<in> {50, 95, 99}" and n: "0 < length srt" "length srt < 2 ^ 32"
  shows "percentile srt (Fin (of_nat p)) = Num (srt ! (nearest_rank p (length srt) - 1))"
proof -
  define n k where "n = length srt" and "k = nearest_rank p n"
  obtain c where c: "js_div (Fin (of_nat p)) (Fin 100) = Fin c" "0 < c" "c \<le> 1"
    and rel: "\<bar>c - of_nat p / 100\<bar> * 2 ^ 54 < c" "\<bar>c - of_nat p / 100\<bar> * 2 ^ 32 \<le> 1 / 200"
    by (rule percentile_factor [OF p])
  have ceil: "\<lceil>fl_rat (c * of_nat n)\<rceil> = int k"
    unfolding k_def by (rule ceiling_nearest_rank) (use c rel n in \<open>simp_all add: n_def\<close>)
  have k: "0 < k" "k \<le> n"
    using nearest_rank_bounds [of p n] p n by (auto simp: k_def n_def)
  have "\<exists>y. fl (c * of_nat n) = Fin y \<and> of_int 0 \<le> y \<and> y \<le> of_int (int n)"
    using c n by (intro fl_in_range) (simp_all add: n_def mult_le_cancel_right2)
  then have "fl (c * of_nat n) = Fin (fl_rat (c * of_nat n))"
    by (auto simp: fl_def Let_def split: if_splits)
  moreover obtain j where j: "k = Suc j" using k by (cases k) auto
  moreover have "js_sub (Fin (of_int (int (Suc j)))) (Fin 1) = jsnat j"
    using fl_nat [of j] k n j by (simp add: js_sub_def n_def)
  ultimately show ?thesis
    using n k c ceil by (simp add: percentile_def Let_def js_max_def flip: n_def k_def)
qed

section \<open>The statistics of a list of response times\<close>

fun fin_val :: "jsnum \<Rightarrow> rat" where
  "fin_val (Fin x) = x"
| "fin_val _ = 0"

lemma sort_times:
  assumes "\<forall>r \<in> set rs. fl_rat r = r"
  shows "sort_by num_before (map Fin rs) = map Fin (sort rs)"
proof -
  define ys where "ys = sort_by num_before (map Fin rs)"
  have "sorted (map fin_val ys)"
    unfolding ys_def by (rule sort_by_key) (use assms in \<open>auto simp: num_before_def js_sub_neg_iff\<close>)
  moreover have "mset (map fin_val ys) = mset rs"
    by (simp add: ys_def multiset.map_comp comp_def)
  ultimately have "map fin_val ys = sort rs" by (metis properties_for_sort)
  moreover have "map Fin (map fin_val ys) = ys"
  proof -
    have "set ys = Fin ` set rs" by (simp add: ys_def)
    then have "Fin (fin_val y) = y" if "y \<in> set ys" for y using that by auto
    then show ?thesis by (simp add: map_idI)
  qed
  ultimately show ?thesis by (simp add: ys_def)
qed

lemma sum_exact:
  assumes "sum_list ks + m < 2 ^ 53"
  shows "foldl js_add (jsnat m) (map jsnat ks) = jsnat (m + sum_list ks)"
  using assms
proof (induction ks arbitrary: m)
  case (Cons k ks)
  have "fl (of_nat (m + k)) = jsnat (m + k)" using Cons.prems by (intro fl_nat) simp
  with Cons.IH [of "m + k"] Cons.prems show ?case by (simp add: add.assoc)
qed simp

lemma sum_list_bounds:
  fixes ks :: "nat list"
  assumes "\<forall>k \<in> set ks. a \<le> k \<and> k \<le> b"
  shows "a * length ks \<le> sum_list ks \<and> sum_list ks \<le> b * length ks"
  using assms by (induction ks) auto

lemma length_num_of_nat [simp]: "length (map jsnat ks) = length ks"
  by simp

lemma average_between:
  assumes "ks \<noteq> []" "sum_list ks < 2 ^ 53" "length ks < 2 ^ 53"
    and ab: "\<forall>k \<in> set ks. a \<le> k \<and> k \<le> b" "b < 2 ^ 53"
  shows "\<exists>v. js_round (js_div (jsnat (sum_list ks)) (jsnat (length ks))) = jsnat v
           \<and> a \<le> v \<and> v \<le> b"
proof -
  define n where "n = length ks"
  have n: "0 < n" using assms by (simp add: n_def)
  have "of_nat (a * n) \<le> (of_nat (sum_list ks) :: rat)" "(of_nat (sum_list ks) :: rat) \<le> of_nat (b * n)"
    using sum_list_bounds [OF ab(1)] by (simp_all only: of_nat_le_iff n_def)
  then have "of_int (int a) \<le> of_nat (sum_list ks) / (of_nat n :: rat)"
    "of_nat (sum_list ks) / (of_nat n :: rat) \<le> of_int (int b)"
    using n by (simp_all add: field_simps)
  moreover have "a < 2 ^ 53" using assms(1) ab by (cases ks) auto
  ultimately obtain y where y: "fl (of_nat (sum_list ks) / of_nat n) = Fin y"
    "of_int (int a) \<le> y" "y \<le> of_int (int b)"
    using fl_in_range [of "int a" "of_nat (sum_list ks) / of_nat n" "int b"] ab(2) by auto
  define v where "v = nat \<lfloor>y + 1 / 2\<rfloor>"
  have "int a \<le> \<lfloor>y + 1 / 2\<rfloor>" "\<lfloor>y + 1 / 2\<rfloor> \<le> int b"
    using y by (simp_all add: le_floor_iff floor_le_iff)
  then have "jsnat v = Fin (of_int \<lfloor>y + 1 / 2\<rfloor>)" "a \<le> v" "v \<le> b"
    by (simp_all add: v_def nat_le_iff le_nat_iff)
  with y(1) n show ?thesis by (auto simp: n_def intro!: exI [of _ v])
qed

section \<open>Aggregation by service\<close>

text \<open>What one event contributes: the service it counts for and its response time.\<close>

definition sample :: "jsval \<Rightarrow> (jsstr \<times> jsnum) list" where
  "sample e = (case get_opt e (js ''responseMs'') of
      Num x \<Rightarrow> [((case get_opt e (js ''service'') of Str s \<Rightarrow> s | _ \<Rightarrow> js ''unknown''), x)]
    | _ \<Rightarrow> [])"

definition samples :: "jsval list \<Rightarrow> (jsstr \<times> jsnum) list" where
  "samples es = concat (map sample es)"

definition times_of :: "jsstr \<Rightarrow> (jsstr \<times> jsnum) list \<Rightarrow> jsnum list" where
  "times_of svc xs = map snd (filter (\<lambda>(k, _). k = svc) xs)"

lemma event_service_eq:
  "event_service e = Inr (case get_opt e (js ''service'') of Str s \<Rightarrow> s | _ \<Rightarrow> js ''unknown'')"
  by (cases e) (auto simp: event_service_def get_opt_def own_prop_def split: jsval.splits)

lemma aggregate_event_eq:
  "aggregate_event e (g, xs) =
     (if e = Null \<or> e = Undef then Inl TypeError
      else Inr (fold (\<lambda>(s, x). group_push s x) (sample e) g, xs @ map snd (sample e)))"
  by (cases e) (auto simp: aggregate_event_def event_service_eq sample_def get_opt_def split: jsval.splits)

lemma aggregate_buffer:
  "foldr_result aggregate_event es (g, xs) =
     (if Null \<in> set es \<or> Undef \<in> set es then Inl TypeError
      else Inr (fold (\<lambda>(s, x). group_push s x) (samples es) g, xs @ map snd (samples es)))"
proof (induction es arbitrary: g xs)
  case (Cons e es)
  show ?case
  proof (cases "e = Null \<or> e = Undef")
    case False
    then show ?thesis using Cons.IH by (auto simp: aggregate_event_eq samples_def)
  qed (auto simp: aggregate_event_eq)
qed (simp add: samples_def)

lemma map_of_group_push:
  "map_of (group_push s x g) = (map_of g)(s \<mapsto> (case map_of g s of None \<Rightarrow> [] | Some xs \<Rightarrow> xs) @ [x])"
  by (auto simp: group_push_def split: option.splits)

lemma map_of_groups:
  "map_of (fold (\<lambda>(s, x). group_push s x) xs g) svc =
     (if times_of svc xs = [] then map_of g svc
      else Some ((case map_of g svc of None \<Rightarrow> [] | Some ys \<Rightarrow> ys) @ times_of svc xs))"
proof (induction xs arbitrary: g)
  case (Cons y xs)
  obtain s x where y: "y = (s, x)" by (cases y)
  show ?case
    by (simp add: y Cons.IH map_of_group_push times_of_def)
qed (simp add: times_of_def)

lemma distinct_group_push: "distinct (map fst g) \<Longrightarrow> distinct (map fst (group_push s x g))"
  by (auto simp: group_push_def split: option.splits)

lemma distinct_groups:
  "distinct (map fst g) \<Longrightarrow> distinct (map fst (fold (\<lambda>(s, x). group_push s x) xs g))"
  by (induction xs arbitrary: g) (auto simp: distinct_group_push)

lemma map_of_map_keys:
  "map_of (map (\<lambda>k. (k, f k)) ks) k = (if k \<in> set ks then Some (f k) else None)"
  by (induction ks) auto

lemma in_keys_iff: "k \<in> fst ` set kvs \<longleftrightarrow> map_of kvs k \<noteq> None"
  by (metis map_of_eq_None_iff)

lemma buildMetrics_eq:
  assumes "Null \<notin> set buffer" "Undef \<notin> set buffer"
  shows "\<exists>m. buildMetrics limit buffer = Inr m
     \<and> total_ingested m = length buffer
     \<and> overall_stats m = computeStats (map snd (samples buffer))
     \<and> recent_events m = slice_last (clamp_limit limit) buffer
     \<and> (\<forall>svc. map_of (service_stats m) svc =
           (if times_of svc (samples buffer) = [] then None
            else Some (computeStats (times_of svc (samples buffer)))))"
  using assms
  by (simp add: buildMetrics_def aggregate_buffer map_of_map_keys in_keys_iff map_of_groups)

lemma buildMetrics_throws:
  "Null \<in> set buffer \<Longrightarrow> buildMetrics limit buffer = Inl TypeError"
  by (simp add: buildMetrics_def aggregate_buffer)

lemma JSON_values_defined: "parse_value s = Some (v, r) \<Longrightarrow> v \<noteq> Undef"
  by (auto simp: parse_value.simps [of s] split: list.splits if_splits)

section \<open>Clamping and slicing\<close>

lemma slice_clamped:
  assumes "limit \<noteq> NaN"
  shows "length (slice_last (clamp_limit limit) buffer) \<le> 1000
    \<and> min 1 (length buffer) \<le> length (slice_last (clamp_limit limit) buffer)"
  using assms
proof (cases limit)
  case (Fin q)
  then show ?thesis
    by (auto simp: clamp_limit_def js_max_def js_min_def min_def nat_le_iff le_nat_iff floor_le_iff le_floor_iff)
qed (auto simp: clamp_limit_def js_max_def js_min_def)

lemma slice_nat:
  "slice_last (clamp_limit (jsnat n)) buffer = take_last (min (max n 1) 1000) buffer"
  by (auto simp: clamp_limit_def js_max_def js_min_def min_def max_def le_Suc_eq)

lemma metrics_limit_digits:
  assumes "n < 2 ^ 53"
  shows "metrics_limit (js ''/metrics?limit='' @ nat_str n) = jsnat n"
proof -
  have "dropWhile (\<lambda>c. c \<noteq> 0x3F) (js ''/metrics?limit='' @ nat_str n) = js ''?limit='' @ nat_str n"
    by (simp add: js_eval)
  moreover have digits: "takeWhile is_digit (nat_str n) = nat_str n"
    unfolding takeWhile_eq_all_conv by (simp add: nat_str_digits)
  have "match_limit True (js ''limit='' @ nat_str n) = Some (nat_str n)"
    by (simp add: match_limit.simps [of True] limit_digits_def digits)
  moreover have "tl (js ''?limit='' @ nat_str n) = js ''limit='' @ nat_str n"
    by (simp add: js_Cons)
  ultimately show ?thesis using assms by (simp add: metrics_limit_def)
qed

lemma sorted_Max_last:
  assumes "sorted xs" "xs \<noteq> []"
  shows "Max (set xs) = xs ! (length xs - 1)"
proof (rule Max_eqI)
  fix y assume "y \<in> set xs"
  then obtain i where "i < length xs" "y = xs ! i" by (auto simp: in_set_conv_nth)
  then show "y \<le> xs ! (length xs - 1)" using assms(1) by (simp add: sorted_nth_mono)
qed (use assms(2) in simp_all)

section \<open>Properties\<close>

text \<open>
  C1: For any sequence of requests whose batches fit the buffer, the buffer holds exactly the most recent
  100000 accepted events, oldest first: ingestion refines a sliding window over the accepted batches.
\<close>

theorem apm_serves_window:
  assumes "length buffer \<le> MAX_BUFFER"
    and "\<forall>req \<in> set reqs. length (accepted_batch req) \<le> MAX_BUFFER"
  shows "snd (serve_all msg reqs buffer) = take_last MAX_BUFFER (buffer @ concat (map accepted_batch reqs))"
proof -
  have "list_all (\<lambda>es. length es \<le> MAX_BUFFER) (map accepted_batch reqs)"
    using assms(2) by (simp add: list_all_iff)
  from apm_window.run_contents [OF this assms(1)] show ?thesis
    by (simp add: serve_all_buffer [OF assms])
qed

theorem apm_serves_window_witness:
  "snd (serve_all (\<lambda>_. []) [\<lparr>req_method = js ''POST'', req_url = js ''/ingest'',
      req_body = Inr (stringify (Arr [Null, Bool True]))\<rparr>] [Bool False])
    = [Bool False, Null, Bool True]"
proof -
  let ?req = "\<lparr>req_method = js ''POST'', req_url = js ''/ingest'',
      req_body = Inr (stringify (Arr [Null, Bool True]))\<rparr> :: request"
  have b: "accepted_batch ?req = [Null, Bool True]"
    using JSON_roundtrip [of "Arr [Null, Bool True]"] by (simp add: accepted_batch_def del: stringify.simps)
  show ?thesis
    by (subst apm_serves_window) (simp_all add: b MAX_BUFFER_def del: stringify.simps)
qed

text \<open>
  A batch larger than the buffer is kept whole: the buffer then holds more than \<open>MAX_BUFFER\<close> events, so the bound
  the server's header states is not kept by \<open>ingest\<close>.
\<close>

theorem apm_oversized_batch:
  assumes "length buffer \<le> MAX_BUFFER" "MAX_BUFFER < length events"
  shows "ingest events buffer = events \<and> MAX_BUFFER < length (ingest events buffer)"
  using assms by (simp add: ingest_eq)

theorem apm_oversized_batch_witness:
  "ingest (replicate 100001 Null) [Bool True] = replicate 100001 Null
     \<and> MAX_BUFFER < length (ingest (replicate 100001 Null) [Bool True])"
  by (rule apm_oversized_batch) (simp_all add: MAX_BUFFER_def)

text \<open>
  C19: On finite response times \<open>computeStats\<close> reports the exact nearest-rank percentiles and the maximum of the sorted
  times: neither the comparator \<open>a - b\<close> nor the index \<open>Math.ceil((p / 100) * n) - 1\<close>, both computed in binary64,
  ever picks a wrong element.
\<close>

theorem apm_stats_nearest_rank:
  assumes "rs \<noteq> []" "length rs < 2 ^ 32" "\<forall>r \<in> set rs. fl_rat r = r"
  shows "st_count (computeStats (map Fin rs)) = Num (jsnat (length rs))
    \<and> st_p50 (computeStats (map Fin rs)) = Num (Fin (sort rs ! (nearest_rank 50 (length rs) - 1)))
    \<and> st_p95 (computeStats (map Fin rs)) = Num (Fin (sort rs ! (nearest_rank 95 (length rs) - 1)))
    \<and> st_p99 (computeStats (map Fin rs)) = Num (Fin (sort rs ! (nearest_rank 99 (length rs) - 1)))
    \<and> st_max (computeStats (map Fin rs)) = Num (Fin (Max (set rs)))"
proof -
  define n where "n = length rs"
  have n: "0 < n" "n < 2 ^ 32" using assms by (simp_all add: n_def)
  have rank: "nearest_rank p n - 1 < n" if "p \<in> {50, 95, 99}" for p
    using nearest_rank_bounds [of p n] n that by auto
  have pc: "percentile (map Fin (sort rs)) (Fin (of_nat p)) = Num (Fin (sort rs ! (nearest_rank p n - 1)))"
    if "p \<in> {50, 95, 99}" for p
    using percentile_nearest_rank [OF that, of "map Fin (sort rs)"] rank [OF that] n
    by (simp flip: n_def)
  have "Max (set (sort rs)) = sort rs ! (length (sort rs) - 1)"
    by (rule sorted_Max_last) (use assms(1) in simp_all)
  moreover have "nat (int n - 1) = n - 1" using n by linarith
  ultimately have "sort rs ! nat (int n - 1) = Max (set rs)" by (simp add: n_def)
  with assms(1) n pc [of 50] pc [of 95] pc [of 99] show ?thesis
    by (simp add: computeStats_def Let_def sort_times [OF assms(3)] flip: n_def)
qed

lemma doubles_10_20_30: "fl_rat 10 = 10" "fl_rat 20 = 20" "fl_rat 30 = 30"
  using fl_rat_nat [of 10] fl_rat_nat [of 20] fl_rat_nat [of 30] by simp_all

theorem apm_stats_nearest_rank_witness:
  "st_p50 (computeStats (map Fin [30, 10, 20])) = Num (Fin 20)
    \<and> st_p99 (computeStats (map Fin [30, 10, 20])) = Num (Fin 30)"
  using apm_stats_nearest_rank [of "[30, 10, 20]"]
  by (simp add: doubles_10_20_30 nearest_rank_def del: list.map)

text \<open>
  For response times that are whole milliseconds with a sum below \<open>2^53\<close>, the reported average is an integer between
  the smallest and the largest response time: the sum is exact and rounding the quotient cannot leave the range.
\<close>

theorem apm_average_in_range:
  assumes "ks \<noteq> []" "sum_list ks < 2 ^ 53" "length ks < 2 ^ 53"
  shows "\<exists>v. st_avg (computeStats (map jsnat ks)) = Num (jsnat v)
    \<and> Min (set ks) \<le> v \<and> v \<le> Max (set ks)"
proof -
  define js' where "js' = sort ks"
  have "k < 2 ^ 53" if "k \<in> set ks" for k
    using member_le_sum_list [OF that] assms(2) by simp
  then have dbl: "\<forall>r \<in> set (map of_nat ks). fl_rat r = r" by (simp add: fl_rat_nat)
  have "sort (map of_nat ks) = (map of_nat js' :: rat list)"
    unfolding js'_def by (rule properties_for_sort) (simp_all add: sorted_map mono_def)
  then have srt: "sort_by num_before (map jsnat ks) = map jsnat js'"
    using sort_times [OF dbl] by (simp add: comp_def)
  have sum: "sum_list js' = sum_list ks"
    unfolding js'_def by (metis mset_sort sum_mset_sum_list)
  have "foldl js_add (Fin 0) (map jsnat js') = jsnat (sum_list ks)"
    using sum_exact [of js' 0] assms(2) sum by simp
  moreover have "\<forall>k \<in> set ks. Min (set ks) \<le> k \<and> k \<le> Max (set ks)" by simp
  moreover have "Max (set ks) < 2 ^ 53" using assms(1) \<open>\<And>k. k \<in> set ks \<Longrightarrow> k < 2 ^ 53\<close> by simp
  ultimately show ?thesis
    using average_between [OF assms, of "Min (set ks)" "Max (set ks)"] assms(1)
    by (simp add: computeStats_def Let_def srt) (simp add: js'_def)
qed

theorem apm_average_in_range_witness:
  "\<exists>v. st_avg (computeStats (map jsnat [7, 3, 12])) = Num (jsnat v) \<and> 3 \<le> v \<and> v \<le> 12"
  using apm_average_in_range [of "[7, 3, 12]"] by (simp del: list.map)

text \<open>
  When the buffer holds no \<open>null\<close> event, \<open>buildMetrics\<close> succeeds; the statistics of a service are those of exactly the
  response times of the events that name it (events without a service name count as \<open>unknown\<close>, events without a numeric
  response time not at all), and a service without a sample is absent.
\<close>

theorem apm_metrics_by_service:
  assumes "Null \<notin> set buffer" "Undef \<notin> set buffer"
  shows "\<exists>m. buildMetrics limit buffer = Inr m
     \<and> total_ingested m = length buffer
     \<and> overall_stats m = computeStats (map snd (samples buffer))
     \<and> (\<forall>svc. map_of (service_stats m) svc =
           (if times_of svc (samples buffer) = [] then None
            else Some (computeStats (times_of svc (samples buffer)))))"
  using buildMetrics_eq [OF assms] by blast

theorem apm_metrics_by_service_witness:
  "\<exists>m. buildMetrics (Fin 5) [Obj [(js ''service'', Str (js ''go'')), (js ''responseMs'', Num (Fin 3))]] = Inr m
     \<and> map_of (service_stats m) (js ''go'') = Some (computeStats [Fin 3])
     \<and> map_of (service_stats m) (js ''rust'') = None"
  using apm_metrics_by_service [of "[Obj [(js ''service'', Str (js ''go'')), (js ''responseMs'', Num (Fin 3))]]" "Fin 5"]
  by (auto simp: samples_def sample_def times_of_def js_defs)

text \<open>
  C29: A \<open>null\<close> event in the buffer makes every \<open>GET /metrics\<close> fail with status 500 for as long as it is buffered (the
  guard on \<open>e.service\<close> is missing on \<open>e.responseMs\<close>); without one the request is answered.
\<close>

theorem apm_metrics_500_iff:
  assumes "req_method req = js ''GET''" "take 8 (req_url req) = js ''/metrics''"
  shows "res_status (fst (server msg req buffer)) = 500 \<longleftrightarrow> Null \<in> set buffer \<or> Undef \<in> set buffer"
proof -
  have "req_url req \<noteq> js ''/health''"
  proof
    assume "req_url req = js ''/health''"
    with assms(2) show False by simp
  qed
  then have "handleRequest req buffer = bindr (buildMetrics (metrics_limit (req_url req)) buffer)
      (\<lambda>m. Inr (reply 200 (metrics_obj m), buffer))"
    using assms by (simp add: handleRequest_def)
  then show ?thesis
    by (auto simp: server_def buildMetrics_def aggregate_buffer)
qed

theorem apm_metrics_500_iff_witness:
  "res_status (fst (server (\<lambda>_. []) \<lparr>req_method = js ''GET'', req_url = js ''/metrics?limit=5'', req_body = Inr []\<rparr>
      (ingest [Null] []))) = 500"
  by (subst apm_metrics_500_iff) (simp_all add: ingest_eq)

text \<open>
  Only an accepted \<open>POST /ingest\<close> changes the buffer: every other request, and every rejected or failing one,
  leaves it as it was.
\<close>

theorem apm_only_ingest_writes:
  assumes "snd (server msg req buffer) \<noteq> buffer"
  shows "req_method req = js ''POST'' \<and> req_url req = js ''/ingest''
    \<and> (\<exists>body events. req_body req = Inr body \<and> JSON_parse body = Some (Arr events)
        \<and> res_status (fst (server msg req buffer)) = 202
        \<and> snd (server msg req buffer) = ingest events buffer)"
  using assms
  by (auto simp: server_def handleRequest_def handle_ingest_def bindr_def Let_def
      split: if_splits sum.splits option.splits jsval.splits)

theorem apm_only_ingest_writes_witness:
  "res_status (fst (server (\<lambda>_. []) \<lparr>req_method = js ''POST'', req_url = js ''/ingest'',
      req_body = Inr (stringify (Arr [Null]))\<rparr> [])) = 202"
proof -
  let ?req = "\<lparr>req_method = js ''POST'', req_url = js ''/ingest'', req_body = Inr (stringify (Arr [Null]))\<rparr> :: request"
  have "snd (server (\<lambda>_. []) ?req []) \<noteq> []"
    using JSON_roundtrip [of "Arr [Null]"]
    by (simp add: server_buffer accepted_batch_def ingest_eq del: stringify.simps)
  from apm_only_ingest_writes [OF this] show ?thesis by blast
qed

text \<open>
  \<open>GET /metrics?limit=n\<close> reports the \<open>n\<close> most recent events, with \<open>n\<close> clamped to 1..1000.
\<close>

theorem apm_limit_recent:
  assumes "n < 2 ^ 53" "Null \<notin> set buffer" "Undef \<notin> set buffer"
  shows "\<exists>m. buildMetrics (metrics_limit (js ''/metrics?limit='' @ nat_str n)) buffer = Inr m
    \<and> recent_events m = take_last (min (max n 1) 1000) buffer"
  using buildMetrics_eq [OF assms(2,3), of "jsnat n"]
  by (auto simp: metrics_limit_digits [OF assms(1)] slice_nat)

theorem apm_limit_recent_witness:
  "\<exists>m. buildMetrics (metrics_limit (js ''/metrics?limit='' @ nat_str 2)) [Bool True, Bool False, Bool True] = Inr m
    \<and> recent_events m = [Bool False, Bool True]"
  using apm_limit_recent [of 2 "[Bool True, Bool False, Bool True]"] by (simp add: take_last_def)

end
