(* ===== verification/Refine.thy ===== *)
theory Refine
  imports Prelude
begin

text \<open>
  The contract of a component that follows an abstract state: each operation preserves the
  component's invariant and acts on the abstraction as its specification says.  What this gives for
  whole runs is proved once, here; the presence tracker interprets it.
\<close>

locale step_refinement =
  fixes step :: "'s \<Rightarrow> 'o \<Rightarrow> 's"
    and spec :: "'a \<Rightarrow> 'o \<Rightarrow> 'a"
    and abs :: "'s \<Rightarrow> 'a"
    and inv :: "'s \<Rightarrow> bool"
    and ok :: "'o \<Rightarrow> bool"
  assumes step_inv: "inv s \<Longrightarrow> ok x \<Longrightarrow> inv (step s x)"
    and step_abs: "inv s \<Longrightarrow> ok x \<Longrightarrow> abs (step s x) = spec (abs s) x"
begin

lemma run_inv: "inv s \<Longrightarrow> list_all ok xs \<Longrightarrow> inv (foldl step s xs)"
  by (induction xs arbitrary: s) (simp_all add: step_inv)

lemma run_abs: "inv s \<Longrightarrow> list_all ok xs \<Longrightarrow> abs (foldl step s xs) = foldl spec (abs s) xs"
  by (induction xs arbitrary: s) (simp_all add: step_inv step_abs)

end

end
