(* ===== verification/Phx_Presence.thy ===== *)
theory Phx_Presence
  imports JS_Json Refine
begin

text \<open>
  Presence tracking of the Phoenix client (\<open>presence.js\<close>).  A presence is its list of metas, one per
  device, each identified by its \<open>phx_ref\<close>, with the remaining fields carried along.  The state object
  is the list of its own properties; reading a key that is not one finds the members of
  \<open>Object.prototype\<close>, which the model keeps apart as \<open>Inherited\<close>.  \<open>clone\<close>, a JSON round trip, is
  the identity on these values.  The key \<open>__proto__\<close>, whose assignment changes the prototype, is
  outside the model.
\<close>

section \<open>Presence objects\<close>

record meta =
  phx_ref :: "jsstr option"
  meta_fields :: "(jsstr \<times> jsval) list"

record presence =
  metas :: "meta list"
  pres_fields :: "(jsstr \<times> jsval) list"

type_synonym pstate = "(jsstr \<times> presence) list"

record diff =
  joins :: pstate
  leaves :: pstate

text \<open>The calls of the user's callbacks, with the arguments they receive.\<close>

datatype call =
    OnJoin jsstr "presence option" presence
  | OnLeave jsstr presence presence
  | OnSync

definition proto_keys :: "jsstr list" where
  "proto_keys = map js [''constructor'', ''hasOwnProperty'', ''isPrototypeOf'', ''propertyIsEnumerable'',
     ''toString'', ''toLocaleString'', ''valueOf'', ''__defineGetter__'', ''__defineSetter__'',
     ''__lookupGetter__'', ''__lookupSetter__'']"

datatype lookup =
    Own presence
  | Inherited
  | Missing

definition get_key :: "pstate \<Rightarrow> jsstr \<Rightarrow> lookup" where
  "get_key st k = (case map_of st k of Some p \<Rightarrow> Own p
     | None \<Rightarrow> if k \<in> set proto_keys then Inherited else Missing)"

definition refs :: "presence \<Rightarrow> jsstr option list" where
  "refs p = map phx_ref (metas p)"

section \<open>Applying a diff\<close>

text \<open>
  \<open>Presence.map\<close> visits the own keys in property order.  A callback that throws ends the visit; the
  assignments made so far remain, since the state object is updated in place.
\<close>

fun visit :: "('a \<Rightarrow> pstate \<Rightarrow> pstate \<times> call list \<times> exn option) \<Rightarrow> 'a list \<Rightarrow> pstate
    \<Rightarrow> pstate \<times> call list \<times> exn option" where
  "visit f [] st = (st, [], None)"
| "visit f (x # xs) st = (case f x st of
     (st', cs, Some e) \<Rightarrow> (st', cs, Some e)
   | (st', cs, None) \<Rightarrow> (case visit f xs st' of (st'', cs', e) \<Rightarrow> (st'', cs @ cs', e)))"

definition join_step :: "jsstr \<times> presence \<Rightarrow> pstate \<Rightarrow> pstate \<times> call list \<times> exn option" where
  "join_step kp st = (case kp of (key, newPresence) \<Rightarrow> (case get_key st key of
     Missing \<Rightarrow> (al_set key newPresence st, [OnJoin key None newPresence], None)
   | Inherited \<Rightarrow> (al_set key newPresence st, [], Some TypeError)
   | Own currentPresence \<Rightarrow>
       (let joinedRefs = refs newPresence;
            curMetas = filter (\<lambda>m. phx_ref m \<notin> set joinedRefs) (metas currentPresence)
        in (al_set key (newPresence\<lparr>metas := curMetas @ metas newPresence\<rparr>) st,
            [OnJoin key (Some currentPresence) newPresence], None))))"

definition leave_step :: "jsstr \<times> presence \<Rightarrow> pstate \<Rightarrow> pstate \<times> call list \<times> exn option" where
  "leave_step kp st = (case kp of (key, leftPresence) \<Rightarrow> (case get_key st key of
     Missing \<Rightarrow> (st, [], None)
   | Inherited \<Rightarrow> (st, [], Some TypeError)
   | Own currentPresence \<Rightarrow>
       (let refsToRemove = refs leftPresence;
            cur = currentPresence\<lparr>metas := filter (\<lambda>m. phx_ref m \<notin> set refsToRemove) (metas currentPresence)\<rparr>
        in (if metas cur = [] then al_del key st else al_set key cur st,
            [OnLeave key cur leftPresence], None))))"

definition syncDiff :: "pstate \<Rightarrow> diff \<Rightarrow> pstate \<times> call list \<times> exn option" where
  "syncDiff st d = (case visit join_step (key_order (joins d)) st of
     (st1, cs1, Some e) \<Rightarrow> (st1, cs1, Some e)
   | (st1, cs1, None) \<Rightarrow> (case visit leave_step (key_order (leaves d)) st1 of
       (st2, cs2, e) \<Rightarrow> (st2, cs1 @ cs2, e)))"

section \<open>Replacing the state\<close>

text \<open>
  The diff between the current state and the one the server sent.  The loop over the new state stops at
  a key that resolves to an inherited member, whose \<open>metas\<close> is \<open>undefined\<close>.
\<close>

definition gone :: "pstate \<Rightarrow> pstate \<Rightarrow> pstate" where
  "gone state newState = filter (\<lambda>(key, _). get_key newState key = Missing) (key_order state)"

definition compare_step :: "pstate \<Rightarrow> jsstr \<times> presence \<Rightarrow> diff \<Rightarrow> diff result" where
  "compare_step state kp d = (case kp of (key, newPresence) \<Rightarrow> (case get_key state key of
     Missing \<Rightarrow> Inr (d\<lparr>joins := al_set key newPresence (joins d)\<rparr>)
   | Inherited \<Rightarrow> Inl TypeError
   | Own currentPresence \<Rightarrow>
       (let newRefs = refs newPresence; curRefs = refs currentPresence;
            joinedMetas = filter (\<lambda>m. phx_ref m \<notin> set curRefs) (metas newPresence);
            leftMetas = filter (\<lambda>m. phx_ref m \<notin> set newRefs) (metas currentPresence);
            d1 = (if joinedMetas \<noteq> []
                  then d\<lparr>joins := al_set key (newPresence\<lparr>metas := joinedMetas\<rparr>) (joins d)\<rparr> else d);
            d2 = (if leftMetas \<noteq> []
                  then d1\<lparr>leaves := al_set key (currentPresence\<lparr>metas := leftMetas\<rparr>) (leaves d1)\<rparr> else d1)
        in Inr d2)))"

definition state_diff :: "pstate \<Rightarrow> pstate \<Rightarrow> diff result" where
  "state_diff state newState =
     foldr_result (compare_step state) (key_order newState) \<lparr>joins = [], leaves = gone state newState\<rparr>"

text \<open>\<open>Inl\<close>: the comparison threw before the state was touched.\<close>

definition syncState :: "pstate \<Rightarrow> pstate \<Rightarrow> (pstate \<times> call list \<times> exn option) result" where
  "syncState currentState newState =
     bindr (state_diff currentState newState) (\<lambda>d. Inr (syncDiff currentState d))"

section \<open>The Presence object\<close>

record presence_obj =
  p_state :: pstate
  pendingDiffs :: "diff list"
  p_joinRef :: "jsstr option"

definition presence_new :: presence_obj where
  "presence_new = \<lparr>p_state = [], pendingDiffs = [], p_joinRef = None\<rparr>"

definition inPendingSyncState :: "jsstr option \<Rightarrow> presence_obj \<Rightarrow> bool" where
  "inPendingSyncState chanRef p \<longleftrightarrow>
     (case p_joinRef p of None \<Rightarrow> True | Some r \<Rightarrow> r = [] \<or> chanRef \<noteq> Some r)"

fun apply_pending :: "diff list \<Rightarrow> pstate \<Rightarrow> pstate \<times> call list \<times> exn option" where
  "apply_pending [] st = (st, [], None)"
| "apply_pending (d # ds) st = (case syncDiff st d of
     (st', cs, Some e) \<Rightarrow> (st', cs, Some e)
   | (st', cs, None) \<Rightarrow> (case apply_pending ds st' of (st'', cs', e) \<Rightarrow> (st'', cs @ cs', e)))"

text \<open>
  The two channel handlers.  \<open>this.joinRef\<close> is set before \<open>syncState\<close> runs, and a \<open>syncState\<close> that
  throws leaves \<open>this.state\<close> alone: it works on a clone.
\<close>

definition on_state :: "jsstr option \<Rightarrow> pstate \<Rightarrow> presence_obj \<Rightarrow> presence_obj \<times> call list \<times> exn option" where
  "on_state chanRef newState p0 =
     (let p = p0\<lparr>p_joinRef := chanRef\<rparr>
      in case syncState (p_state p) newState of
        Inl e \<Rightarrow> (p, [], Some e)
      | Inr (_, cs, Some e) \<Rightarrow> (p, cs, Some e)
      | Inr (st, cs, None) \<Rightarrow> (case apply_pending (pendingDiffs p) st of
          (st', cs', Some e) \<Rightarrow> (p\<lparr>p_state := st'\<rparr>, cs @ cs', Some e)
        | (st', cs', None) \<Rightarrow> (p\<lparr>p_state := st', pendingDiffs := []\<rparr>, cs @ cs' @ [OnSync], None)))"

definition on_diff :: "jsstr option \<Rightarrow> diff \<Rightarrow> presence_obj \<Rightarrow> presence_obj \<times> call list \<times> exn option" where
  "on_diff chanRef d p =
     (if inPendingSyncState chanRef p then (p\<lparr>pendingDiffs := pendingDiffs p @ [d]\<rparr>, [], None)
      else case syncDiff (p_state p) d of
        (st, cs, Some e) \<Rightarrow> (p\<lparr>p_state := st\<rparr>, cs, Some e)
      | (st, cs, None) \<Rightarrow> (p\<lparr>p_state := st\<rparr>, cs @ [OnSync], None))"

definition list_presences :: "(jsstr \<Rightarrow> presence \<Rightarrow> 'a) \<Rightarrow> pstate \<Rightarrow> 'a list" where
  "list_presences chooser st = map (\<lambda>(k, p). chooser k p) (key_order st)"

section \<open>Lookup tables\<close>

text \<open>Objects with distinct keys, none of them a member of \<open>Object.prototype\<close>.\<close>

definition plain :: "pstate \<Rightarrow> bool" where
  "plain st \<longleftrightarrow> distinct (map fst st) \<and> (\<forall>k \<in> fst ` set st. k \<notin> set proto_keys)"

lemma plain_Nil [simp]: "plain []"
  by (simp add: plain_def)

lemma plain_map_of: "plain st \<Longrightarrow> map_of st k = Some p \<Longrightarrow> k \<notin> set proto_keys"
  by (force simp: plain_def dest: map_of_SomeD)

lemma get_key_plain: "k \<notin> set proto_keys \<Longrightarrow>
    get_key st k = (case map_of st k of Some p \<Rightarrow> Own p | None \<Rightarrow> Missing)"
  by (simp add: get_key_def split: option.splits)

lemma plain_al_set [wf_intros]: "plain st \<Longrightarrow> k \<notin> set proto_keys \<Longrightarrow> plain (al_set k p st)"
  using keys_al_set [of k p st] by (auto simp: plain_def)

lemma plain_al_del [wf_intros]: "plain st \<Longrightarrow> plain (al_del k st)"
  using keys_al_del [of k st] by (auto simp: plain_def)

lemma distinct_key_order: "distinct (map fst kvs) \<Longrightarrow> distinct (map fst (key_order kvs))"
  using distinct_own_keys by (simp add: own_keys_key_order)

lemma map_of_key_order: "distinct (map fst kvs) \<Longrightarrow> map_of (key_order kvs) = map_of kvs"
  using map_of_inject_set [of "key_order kvs" kvs] by (simp add: distinct_key_order)

lemma plain_key_order [wf_intros]: "plain st \<Longrightarrow> plain (key_order st)"
  by (simp add: plain_def distinct_key_order)

lemma plain_Cons: "plain ((k, p) # st) \<longleftrightarrow> k \<notin> set proto_keys \<and> k \<notin> fst ` set st \<and> plain st"
  by (auto simp: plain_def)

lemma map_of_fresh: "k \<notin> fst ` set st \<Longrightarrow> map_of st k = None"
  by (simp add: map_of_eq_None_iff)

section \<open>Behaviour of the loops\<close>

definition merge_join :: "presence option \<Rightarrow> presence \<Rightarrow> presence" where
  "merge_join cur new = (case cur of None \<Rightarrow> new
     | Some c \<Rightarrow> new\<lparr>metas := filter (\<lambda>m. phx_ref m \<notin> set (refs new)) (metas c) @ metas new\<rparr>)"

definition merge_leave :: "presence option \<Rightarrow> presence \<Rightarrow> presence option" where
  "merge_leave cur left = (case cur of None \<Rightarrow> None
     | Some c \<Rightarrow> (let c' = c\<lparr>metas := filter (\<lambda>m. phx_ref m \<notin> set (refs left)) (metas c)\<rparr>
                 in if metas c' = [] then None else Some c'))"

lemma visit_joins:
  assumes "plain st" "plain ns"
  shows "\<exists>st' cs. visit join_step ns st = (st', cs, None) \<and> plain st'
    \<and> map_of st' = (\<lambda>k. case map_of ns k of None \<Rightarrow> map_of st k | Some n \<Rightarrow> Some (merge_join (map_of st k) n))"
  using assms
proof (induction ns arbitrary: st)
  case (Cons kp ns)
  obtain k p where kp: "kp = (k, p)" by (cases kp)
  with Cons.prems have k: "k \<notin> set proto_keys" "k \<notin> fst ` set ns" "plain ns"
    by (simp_all add: plain_Cons)
  define st1 where "st1 = al_set k (merge_join (map_of st k) p) st"
  have step: "\<exists>cs. join_step kp st = (st1, cs, None)"
    by (simp add: join_step_def kp get_key_plain [OF k(1)] st1_def merge_join_def Let_def split: option.splits)
  have "plain st1" unfolding st1_def by (rule plain_al_set [OF Cons.prems(1) k(1)])
  from Cons.IH [OF this k(3)] obtain st' cs' where IH: "visit join_step ns st1 = (st', cs', None)" "plain st'"
      "map_of st' = (\<lambda>k. case map_of ns k of None \<Rightarrow> map_of st1 k
                           | Some n \<Rightarrow> Some (merge_join (map_of st1 k) n))" by blast
  have "map_of st' = (\<lambda>x. case map_of (kp # ns) x of None \<Rightarrow> map_of st x
      | Some n \<Rightarrow> Some (merge_join (map_of st x) n))"
    unfolding IH(3) using map_of_fresh [OF k(2)] by (auto simp: kp st1_def fun_eq_iff split: option.splits)
  with step IH show ?case by auto
qed simp

lemma visit_leaves:
  assumes "plain st" "plain ls"
  shows "\<exists>st' cs. visit leave_step ls st = (st', cs, None) \<and> plain st'
    \<and> map_of st' = (\<lambda>k. case map_of ls k of None \<Rightarrow> map_of st k | Some l \<Rightarrow> merge_leave (map_of st k) l)"
  using assms
proof (induction ls arbitrary: st)
  case (Cons kp ls)
  obtain k p where kp: "kp = (k, p)" by (cases kp)
  with Cons.prems have k: "k \<notin> set proto_keys" "k \<notin> fst ` set ls" "plain ls"
    by (simp_all add: plain_Cons)
  have "\<exists>st1 cs. leave_step kp st = (st1, cs, None) \<and> plain st1
      \<and> map_of st1 = (map_of st)(k := merge_leave (map_of st k) p)"
  proof (cases "map_of st k")
    case None
    then show ?thesis
      using Cons.prems(1) by (auto simp: leave_step_def kp get_key_plain [OF k(1)] merge_leave_def)
  next
    case (Some c)
    then show ?thesis
      using plain_al_del [OF Cons.prems(1)] plain_al_set [OF Cons.prems(1) k(1)]
      by (auto simp: leave_step_def kp get_key_plain [OF k(1)] merge_leave_def Let_def)
  qed
  then obtain st1 cs where step: "leave_step kp st = (st1, cs, None)" "plain st1"
      "map_of st1 = (map_of st)(k := merge_leave (map_of st k) p)" by blast
  from Cons.IH [OF step(2) k(3)] obtain st' cs' where IH: "visit leave_step ls st1 = (st', cs', None)" "plain st'"
      "map_of st' = (\<lambda>k. case map_of ls k of None \<Rightarrow> map_of st1 k
                           | Some l \<Rightarrow> merge_leave (map_of st1 k) l)" by blast
  have "map_of st' = (\<lambda>x. case map_of (kp # ls) x of None \<Rightarrow> map_of st x
      | Some l \<Rightarrow> merge_leave (map_of st x) l)"
    unfolding IH(3) using map_of_fresh [OF k(2)] by (auto simp: kp step(3) fun_eq_iff split: option.splits)
  with step IH show ?case by auto
qed simp

definition plain_diff :: "diff \<Rightarrow> bool" where
  "plain_diff d \<longleftrightarrow> plain (joins d) \<and> plain (leaves d)"

definition after_diff :: "diff \<Rightarrow> (jsstr \<rightharpoonup> presence) \<Rightarrow> (jsstr \<rightharpoonup> presence)" where
  "after_diff d m = (\<lambda>k.
     let c = (case map_of (joins d) k of None \<Rightarrow> m k | Some n \<Rightarrow> Some (merge_join (m k) n))
     in case map_of (leaves d) k of None \<Rightarrow> c | Some l \<Rightarrow> merge_leave c l)"

lemma syncDiff_plain:
  assumes "plain st" "plain_diff d"
  shows "\<exists>st' cs. syncDiff st d = (st', cs, None) \<and> plain st' \<and> map_of st' = after_diff d (map_of st)"
proof -
  have d: "plain (joins d)" "plain (leaves d)" using assms(2) by (simp_all add: plain_diff_def)
  obtain st1 cs1 where 1: "visit join_step (key_order (joins d)) st = (st1, cs1, None)" "plain st1"
    "map_of st1 = (\<lambda>k. case map_of (joins d) k of None \<Rightarrow> map_of st k
                        | Some n \<Rightarrow> Some (merge_join (map_of st k) n))"
    using visit_joins [OF assms(1) plain_key_order [OF d(1)]] d
    by (auto simp: plain_def map_of_key_order)
  obtain st2 cs2 where 2: "visit leave_step (key_order (leaves d)) st1 = (st2, cs2, None)" "plain st2"
    "map_of st2 = (\<lambda>k. case map_of (leaves d) k of None \<Rightarrow> map_of st1 k
                        | Some l \<Rightarrow> merge_leave (map_of st1 k) l)"
    using visit_leaves [OF 1(2) plain_key_order [OF d(2)]] d
    by (auto simp: plain_def map_of_key_order)
  have "map_of st2 = after_diff d (map_of st)" unfolding 2(3) 1(3) after_diff_def Let_def ..
  with 1 2 show ?thesis by (simp add: syncDiff_def)
qed

section \<open>The set of devices online\<close>

text \<open>What the server tracks: for each key, the refs of its metas.\<close>

definition online :: "pstate \<Rightarrow> jsstr \<Rightarrow> jsstr option set" where
  "online st k = (case map_of st k of None \<Rightarrow> {} | Some p \<Rightarrow> set (refs p))"

definition online_diff :: "(jsstr \<Rightarrow> jsstr option set) \<Rightarrow> diff \<Rightarrow> (jsstr \<Rightarrow> jsstr option set)" where
  "online_diff v d = (\<lambda>k. v k \<union> online (joins d) k - online (leaves d) k)"

abbreviation opt_refs :: "presence option \<Rightarrow> jsstr option set" where
  "opt_refs c \<equiv> (case c of None \<Rightarrow> {} | Some p \<Rightarrow> set (refs p))"

lemma refs_merge_join: "set (refs (merge_join cur new)) = opt_refs cur \<union> set (refs new)"
  by (auto simp: merge_join_def refs_def split: option.splits)

lemma refs_merge_leave: "opt_refs (merge_leave cur left) = opt_refs cur - set (refs left)"
  by (cases cur) (auto simp: merge_leave_def refs_def Let_def filter_empty_conv)

lemma online_after_diff:
  assumes "map_of st' = after_diff d (map_of st)"
  shows "online st' = online_diff (online st) d"
proof
  fix k
  show "online st' k = online_diff (online st) d k"
    by (cases "map_of (joins d) k"; cases "map_of (leaves d) k")
      (simp_all add: online_def online_diff_def assms after_diff_def refs_merge_join refs_merge_leave)
qed

definition diff_state :: "pstate \<Rightarrow> diff \<Rightarrow> pstate" where
  "diff_state st d = fst (syncDiff st d)"

lemma diff_state:
  assumes "plain st" "plain_diff d"
  shows "plain (diff_state st d)" "online (diff_state st d) = online_diff (online st) d"
  using syncDiff_plain [OF assms] online_after_diff by (auto simp: diff_state_def)

interpretation presence_replica: step_refinement diff_state online_diff online plain plain_diff
  by unfold_locales (simp_all add: diff_state)

section \<open>The comparison of states\<close>

definition new_join :: "presence option \<Rightarrow> presence \<Rightarrow> presence option" where
  "new_join cur n = (case cur of None \<Rightarrow> Some n
     | Some c \<Rightarrow> (let jm = filter (\<lambda>m. phx_ref m \<notin> set (refs c)) (metas n)
                 in if jm \<noteq> [] then Some (n\<lparr>metas := jm\<rparr>) else None))"

definition new_leave :: "presence option \<Rightarrow> presence \<Rightarrow> presence option" where
  "new_leave cur n = (case cur of None \<Rightarrow> None
     | Some c \<Rightarrow> (let lm = filter (\<lambda>m. phx_ref m \<notin> set (refs n)) (metas c)
                 in if lm \<noteq> [] then Some (c\<lparr>metas := lm\<rparr>) else None))"

abbreviation or_else :: "'a option \<Rightarrow> 'a option \<Rightarrow> 'a option" where
  "or_else a b \<equiv> (case a of None \<Rightarrow> b | Some x \<Rightarrow> Some x)"

lemma compare_step_plain:
  assumes "k \<notin> set proto_keys" "plain_diff d"
  shows "\<exists>d'. compare_step state (k, n) d = Inr d' \<and> plain_diff d'
    \<and> map_of (joins d') = (map_of (joins d))(k := or_else (new_join (map_of state k) n) (map_of (joins d) k))
    \<and> map_of (leaves d') = (map_of (leaves d))(k := or_else (new_leave (map_of state k) n) (map_of (leaves d) k))"
proof (cases "map_of state k")
  case None
  then show ?thesis
    using assms by (simp add: compare_step_def get_key_plain new_join_def new_leave_def plain_diff_def
        plain_al_set fun_upd_idem)
next
  case (Some c)
  have upd: "plain (al_set k p (joins d))" "plain (al_set k p (leaves d))" for p
    using assms by (simp_all add: plain_diff_def plain_al_set)
  with Some assms show ?thesis
    by (simp add: compare_step_def get_key_plain new_join_def new_leave_def plain_diff_def Let_def
        fun_upd_idem)
qed

lemma compare_loop:
  assumes "plain ns" "plain_diff d"
  shows "\<exists>d'. foldr_result (compare_step state) ns d = Inr d' \<and> plain_diff d'
    \<and> map_of (joins d') = (\<lambda>k. case map_of ns k of None \<Rightarrow> map_of (joins d) k
        | Some n \<Rightarrow> or_else (new_join (map_of state k) n) (map_of (joins d) k))
    \<and> map_of (leaves d') = (\<lambda>k. case map_of ns k of None \<Rightarrow> map_of (leaves d) k
        | Some n \<Rightarrow> or_else (new_leave (map_of state k) n) (map_of (leaves d) k))"
  using assms
proof (induction ns arbitrary: d)
  case (Cons kn ns)
  obtain k n where kn: "kn = (k, n)" by (cases kn)
  with Cons.prems have k: "k \<notin> set proto_keys" "k \<notin> fst ` set ns" "plain ns"
    by (simp_all add: plain_Cons)
  obtain d1 where d1: "compare_step state kn d = Inr d1" "plain_diff d1"
    "map_of (joins d1) = (map_of (joins d))(k := or_else (new_join (map_of state k) n) (map_of (joins d) k))"
    "map_of (leaves d1) = (map_of (leaves d))(k := or_else (new_leave (map_of state k) n) (map_of (leaves d) k))"
    using compare_step_plain [OF k(1) Cons.prems(2), of state n] kn by blast
  obtain d2 where d2: "foldr_result (compare_step state) ns d1 = Inr d2" "plain_diff d2"
    "map_of (joins d2) = (\<lambda>k. case map_of ns k of None \<Rightarrow> map_of (joins d1) k
        | Some n \<Rightarrow> or_else (new_join (map_of state k) n) (map_of (joins d1) k))"
    "map_of (leaves d2) = (\<lambda>k. case map_of ns k of None \<Rightarrow> map_of (leaves d1) k
        | Some n \<Rightarrow> or_else (new_leave (map_of state k) n) (map_of (leaves d1) k))"
    using Cons.IH [OF k(3) d1(2)] by blast
  have "map_of (joins d2) = (\<lambda>x. case map_of (kn # ns) x of None \<Rightarrow> map_of (joins d) x
        | Some n \<Rightarrow> or_else (new_join (map_of state x) n) (map_of (joins d) x))"
    unfolding d2(3) using map_of_fresh [OF k(2)]
    by (auto simp: kn d1(3) fun_eq_iff split: option.splits)
  moreover have "map_of (leaves d2) = (\<lambda>x. case map_of (kn # ns) x of None \<Rightarrow> map_of (leaves d) x
        | Some n \<Rightarrow> or_else (new_leave (map_of state x) n) (map_of (leaves d) x))"
    unfolding d2(4) using map_of_fresh [OF k(2)]
    by (auto simp: kn d1(4) fun_eq_iff split: option.splits)
  ultimately show ?case using d1(1) d2(1,2) by simp
qed simp

lemma map_of_filter_key:
  "map_of (filter (\<lambda>(k, _). P k) kvs) k = (if P k then map_of kvs k else None)"
  by (induction kvs) auto

lemma gone_plain:
  assumes "plain state"
  shows "plain (gone state newState)"
    and "map_of (gone state newState) k = (if map_of newState k = None then map_of state k else None)"
proof -
  have "distinct (map fst (filter P (key_order state)))" for P
    using assms by (simp add: plain_def distinct_key_order distinct_map_filter)
  then show "plain (gone state newState)"
    using assms by (auto simp: gone_def plain_def)
  show "map_of (gone state newState) k = (if map_of newState k = None then map_of state k else None)"
  proof (cases "map_of state k")
    case (Some p)
    then have "k \<notin> set proto_keys" by (rule plain_map_of [OF assms])
    then show ?thesis
      using assms by (simp add: gone_def map_of_filter_key get_key_plain map_of_key_order plain_def
          split: option.splits)
  next
    case None
    then show ?thesis
      using assms by (simp add: gone_def map_of_filter_key map_of_key_order plain_def)
  qed
qed

lemma state_diff_plain:
  assumes "plain state" "plain newState"
  shows "\<exists>d. state_diff state newState = Inr d \<and> plain_diff d
    \<and> (\<forall>k. map_of (joins d) k = (case map_of newState k of None \<Rightarrow> None
          | Some n \<Rightarrow> new_join (map_of state k) n))
    \<and> (\<forall>k. map_of (leaves d) k = (case map_of newState k of None \<Rightarrow> map_of state k
          | Some n \<Rightarrow> new_leave (map_of state k) n))"
proof -
  define d0 where "d0 = \<lparr>joins = [], leaves = gone state newState\<rparr>"
  have d0: "joins d0 = []" "leaves d0 = gone state newState" by (simp_all add: d0_def)
  then have "plain_diff d0" using gone_plain(1) [OF assms(1)] by (simp add: plain_diff_def)
  from compare_loop [OF plain_key_order [OF assms(2)] this, of state]
  obtain d where d: "state_diff state newState = Inr d" "plain_diff d"
    "map_of (joins d) = (\<lambda>k. case map_of (key_order newState) k of None \<Rightarrow> map_of (joins d0) k
        | Some n \<Rightarrow> or_else (new_join (map_of state k) n) (map_of (joins d0) k))"
    "map_of (leaves d) = (\<lambda>k. case map_of (key_order newState) k of None \<Rightarrow> map_of (leaves d0) k
        | Some n \<Rightarrow> or_else (new_leave (map_of state k) n) (map_of (leaves d0) k))"
    unfolding state_diff_def d0_def [symmetric] by blast
  have "map_of (key_order newState) = map_of newState"
    using assms(2) by (simp add: map_of_key_order plain_def)
  with d(1,2) show ?thesis
    by (intro exI [of _ d]) (auto simp: d(3,4) d0 gone_plain(2) [OF assms(1)] split: option.splits)
qed

text \<open>One key through the comparison and the diff it yields.\<close>

lemma merge_leave_self: "merge_leave (Some c) c = None"
  by (auto simp: merge_leave_def refs_def filter_empty_conv)

lemma sync_key_refs:
  "opt_refs (let c' = (case new_join (Some c) n of None \<Rightarrow> Some c | Some j \<Rightarrow> Some (merge_join (Some c) j))
     in case new_leave (Some c) n of None \<Rightarrow> c' | Some l \<Rightarrow> merge_leave c' l) = set (refs n)"
proof -
  have j: "opt_refs (case new_join (Some c) n of None \<Rightarrow> Some c | Some j \<Rightarrow> Some (merge_join (Some c) j))
      = set (refs c) \<union> set (refs n)"
  proof (cases "new_join (Some c) n")
    case None
    then have "set (refs n) \<subseteq> set (refs c)"
      by (auto simp: new_join_def refs_def Let_def filter_empty_conv split: if_splits)
    with None show ?thesis by auto
  next
    case (Some j)
    then have "set (refs j) = set (refs n) - set (refs c)"
      by (auto simp: new_join_def refs_def Let_def split: if_splits)
    with Some show ?thesis by (auto simp: refs_merge_join)
  qed
  show ?thesis
  proof (cases "new_leave (Some c) n")
    case None
    then have "set (refs c) \<subseteq> set (refs n)"
      by (auto simp: new_leave_def refs_def Let_def filter_empty_conv split: if_splits)
    with None j show ?thesis by auto
  next
    case (Some l)
    then have "set (refs l) = set (refs c) - set (refs n)"
      by (auto simp: new_leave_def refs_def Let_def split: if_splits)
    with Some j show ?thesis by (auto simp: refs_merge_leave)
  qed
qed

lemma syncState_plain:
  assumes "plain state" "plain newState"
  shows "\<exists>st cs. syncState state newState = Inr (st, cs, None) \<and> plain st \<and> online st = online newState
    \<and> (\<forall>k. map_of newState k = None \<longrightarrow> map_of st k = None)"
proof -
  obtain d where d: "state_diff state newState = Inr d" "plain_diff d"
    "\<And>k. map_of (joins d) k = (case map_of newState k of None \<Rightarrow> None | Some n \<Rightarrow> new_join (map_of state k) n)"
    "\<And>k. map_of (leaves d) k = (case map_of newState k of None \<Rightarrow> map_of state k
        | Some n \<Rightarrow> new_leave (map_of state k) n)"
    using state_diff_plain [OF assms] by blast
  obtain st cs where st: "syncDiff state d = (st, cs, None)" "plain st" "map_of st = after_diff d (map_of state)"
    using syncDiff_plain [OF assms(1) d(2)] by blast
  have none: "map_of st k = None" if "map_of newState k = None" for k
    using that by (cases "map_of state k") (simp_all add: st(3) after_diff_def d(3,4) merge_leave_self)
  have "online st k = online newState k" for k
  proof (cases "map_of newState k")
    case None
    with none [OF None] show ?thesis by (simp add: online_def)
  next
    case (Some n)
    show ?thesis
    proof (cases "map_of state k")
      case None
      with Some show ?thesis
        by (simp add: online_def st(3) after_diff_def d(3,4) new_join_def new_leave_def merge_join_def)
    next
      case (Some c)
      with \<open>map_of newState k = Some n\<close> sync_key_refs [of c n] show ?thesis
        by (simp add: online_def st(3) after_diff_def d(3,4) Let_def cong: option.case_cong)
    qed
  qed
  then show ?thesis using d(1) st(1,2) none by (auto simp: syncState_def)
qed

section \<open>Properties\<close>

text \<open>
  Receiving the full presence state makes the client agree with the server: whatever the client
  held before, \<open>syncState\<close> does not throw and afterwards each key has exactly the device refs the server
  listed, and no key the server did not list remains.
\<close>

theorem presence_sync_state:
  assumes "plain state" "plain newState"
  shows "\<exists>st cs. syncState state newState = Inr (st, cs, None) \<and> online st = online newState
    \<and> (\<forall>k. map_of newState k = None \<longrightarrow> map_of st k = None)"
  using syncState_plain [OF assms] by blast

definition pres :: "string list \<Rightarrow> presence" where
  "pres rs = \<lparr>metas = map (\<lambda>r. \<lparr>phx_ref = Some (js r), meta_fields = []\<rparr>) rs, pres_fields = []\<rparr>"

theorem presence_sync_state_witness:
  "\<exists>st cs. syncState [(js ''ann'', pres [''1'', ''2''])] [(js ''ann'', pres [''2'', ''3'']), (js ''bob'', pres [''4''])]
      = Inr (st, cs, None)
    \<and> online st = online [(js ''ann'', pres [''2'', ''3'']), (js ''bob'', pres [''4''])]
    \<and> (\<forall>k. map_of [(js ''ann'', pres [''2'', ''3'']), (js ''bob'', pres [''4''])] k = None \<longrightarrow> map_of st k = None)"
  by (rule presence_sync_state) (simp_all add: plain_def proto_keys_def)



text \<open>
  C31: A user whose presence key is the name of a member of \<open>Object.prototype\<close> breaks the client: their
  join throws, without a callback, although the state already lists them.
\<close>

theorem presence_reserved_key_throws:
  assumes "key \<in> set proto_keys" "map_of st key = None"
  shows "syncDiff st \<lparr>joins = [(key, p)], leaves = ls\<rparr> = (al_set key p st, [], Some TypeError)
    \<and> syncState st [(key, p)] = Inl TypeError"
proof -
  have one: "key_order [(key, p)] = [(key, p)]" by (simp add: key_order_def)
  show ?thesis
    using assms by (simp add: syncDiff_def syncState_def state_diff_def one join_step_def compare_step_def get_key_def)
qed

theorem presence_reserved_key_throws_witness:
  "syncDiff [] \<lparr>joins = [(js ''constructor'', pres [''1''])], leaves = []\<rparr>
      = (al_set (js ''constructor'') (pres [''1'']) [], [], Some TypeError)
    \<and> syncState [] [(js ''constructor'', pres [''1''])] = Inl TypeError"
  by (rule presence_reserved_key_throws) (simp_all add: proto_keys_def)

end
