(* ===== verification/JS_Text.thy ===== *)
theory JS_Text
  imports JS_Json
begin

text \<open>
  Text conversions of the language that several sources use: the characters of a string,
  \<open>encodeURIComponent\<close>, \<open>ToString\<close>, \<open>toFixed\<close>, \<open>parseFloat\<close> and \<open>toLowerCase\<close>.
\<close>

section \<open>Characters\<close>

fun code_points :: "jsstr \<Rightarrow> jsstr list" where
  "code_points [] = []"
| "code_points [c] = [[c]]"
| "code_points (c # d # ds) =
     (if is_high_surrogate c \<and> is_low_surrogate d then [c, d] # code_points ds
      else [c] # code_points (d # ds))"

section \<open>encodeURIComponent\<close>

definition uri_unreserved :: "code_unit \<Rightarrow> bool" where
  "uri_unreserved c \<longleftrightarrow> (0x41 \<le> c \<and> c \<le> 0x5A) \<or> (0x61 \<le> c \<and> c \<le> 0x7A) \<or> is_digit c
     \<or> c \<in> set (js ''-_.!~*'') \<or> c \<in> {0x27, 0x28, 0x29}"

definition utf8_bytes :: "nat \<Rightarrow> nat list" where
  "utf8_bytes cp =
     (if cp < 0x80 then [cp]
      else if cp < 0x800 then [0xC0 + cp div 64, 0x80 + cp mod 64]
      else if cp < 0x10000 then [0xE0 + cp div 4096, 0x80 + cp div 64 mod 64, 0x80 + cp mod 64]
      else [0xF0 + cp div 262144, 0x80 + cp div 4096 mod 64, 0x80 + cp div 64 mod 64, 0x80 + cp mod 64])"

definition upper_hex :: "nat \<Rightarrow> code_unit" where
  "upper_hex n = (if n < 10 then word_of_nat (0x30 + n) else word_of_nat (0x37 + n))"

definition percent :: "nat \<Rightarrow> jsstr" where
  "percent b = [0x25, upper_hex (b div 16), upper_hex (b mod 16)]"

definition code_point :: "jsstr \<Rightarrow> nat" where
  "code_point u = (case u of [c, d] \<Rightarrow> 0x10000 + (unat c - 0xD800) * 0x400 + (unat d - 0xDC00)
     | c # _ \<Rightarrow> unat c | [] \<Rightarrow> 0)"

definition lone_surrogate :: "jsstr \<Rightarrow> bool" where
  "lone_surrogate u \<longleftrightarrow> length u = 1 \<and> (is_high_surrogate (hd u) \<or> is_low_surrogate (hd u))"

fun encode_points :: "jsstr list \<Rightarrow> jsstr result" where
  "encode_points [] = Inr []"
| "encode_points (u # us) =
     (if lone_surrogate u then Inl (JsError ''URIError'')
      else bindr (encode_points us) (\<lambda>r.
        Inr ((if length u = 1 \<and> uri_unreserved (hd u) then u
              else concat (map percent (utf8_bytes (code_point u)))) @ r)))"

definition encodeURIComponent :: "jsstr \<Rightarrow> jsstr result" where
  "encodeURIComponent s = encode_points (code_points s)"

section \<open>ToString\<close>

text \<open>\<open>ToString\<close> of the values that are not objects.\<close>

fun prim_str :: "jsval \<Rightarrow> jsstr" where
  "prim_str Undef = js ''undefined''"
| "prim_str Null = js ''null''"
| "prim_str (Bool b) = (if b then js ''true'' else js ''false'')"
| "prim_str (Num x) = num_str x"
| "prim_str (Str s) = s"
| "prim_str _ = []"

text \<open>\<open>ToString\<close> of a JSON value: an array joins its members, an object with its own \<open>toString\<close> cannot be converted.\<close>

fun to_string :: "jsval \<Rightarrow> jsstr result"
  and to_strings :: "jsval list \<Rightarrow> jsstr list result" where
  "to_string (Arr vs) = bindr (to_strings vs) (\<lambda>ss. Inr (sep_by 0x2C ss))"
| "to_string (Obj kvs) = (if map_of kvs (js ''toString'') \<noteq> None then Inl TypeError
     else Inr (js ''[object Object]''))"
| "to_string v = Inr (prim_str v)"
| "to_strings [] = Inr []"
| "to_strings (v # vs) = bindr (if nullish v then Inr [] else to_string v) (\<lambda>s.
     bindr (to_strings vs) (\<lambda>ss. Inr (s # ss)))"

section \<open>Strict equality\<close>

text \<open>\<open>===\<close>; two objects are equal when they are the same one, and the sources compare only primitive values.\<close>

fun strict_eq :: "jsval \<Rightarrow> jsval \<Rightarrow> bool" where
  "strict_eq (Num x) (Num y) = num_eq x y"
| "strict_eq (Arr _) _ = False"
| "strict_eq (Obj _) _ = False"
| "strict_eq v w = (v = w)"

section \<open>Object literals with a spread\<close>

text \<open>The own enumerable properties \<open>{...v}\<close> copies: members, elements by index, or characters by index.\<close>

fun indexed :: "nat \<Rightarrow> jsval list \<Rightarrow> (jsstr \<times> jsval) list" where
  "indexed i [] = []"
| "indexed i (v # vs) = (nat_str i, v) # indexed (Suc i) vs"

fun spread_props :: "jsval \<Rightarrow> (jsstr \<times> jsval) list" where
  "spread_props (Obj kvs) = kvs"
| "spread_props (Arr vs) = indexed 0 vs"
| "spread_props (Str s) = indexed 0 (map (\<lambda>c. Str [c]) s)"
| "spread_props _ = []"

text \<open>\<open>{ ...v, k: w, ... }\<close>\<close>

definition with_props :: "jsval \<Rightarrow> (jsstr \<times> jsval) list \<Rightarrow> jsval" where
  "with_props v kvs = Obj (obj_merge (spread_props v) kvs)"

text \<open>\<open>v[i]\<close>\<close>

fun get_index :: "jsval \<Rightarrow> nat \<Rightarrow> jsval result" where
  "get_index Undef i = Inl TypeError"
| "get_index Null i = Inl TypeError"
| "get_index (Arr vs) i = Inr (if i < length vs then vs ! i else Undef)"
| "get_index (Str s) i = Inr (if i < length s then Str [s ! i] else Undef)"
| "get_index (Obj kvs) i = Inr (own_prop kvs (nat_str i))"
| "get_index _ i = Inr Undef"

section \<open>Decimal text\<close>

text \<open>A decimal literal \<open>n / 10^k\<close> of the source.\<close>

definition lit :: "int \<Rightarrow> nat \<Rightarrow> jsnum" where
  "lit n k = fl (of_int n / 10 ^ k)"

text \<open>
  \<open>x.toFixed(f)\<close>: the integer nearest to \<open>x * 10^f\<close>, the larger of two equally near ones, with its last
  \<open>f\<close> digits after the point; numbers from \<open>10^21\<close> on are printed as \<open>ToString\<close> does.
\<close>

definition fixed_digits :: "nat \<Rightarrow> rat \<Rightarrow> jsstr" where
  "fixed_digits f x =
     (let ds = nat_str (nat \<lfloor>x * 10 ^ f + 1 / 2\<rfloor>);
          ds = replicate (Suc f - length ds) 0x30 @ ds; n = length ds - f
      in if f = 0 then ds else take n ds @ [0x2E] @ drop n ds)"

fun toFixed :: "nat \<Rightarrow> jsnum \<Rightarrow> jsstr" where
  "toFixed f (Fin x) =
     (if 10 ^ 21 \<le> \<bar>x\<bar> then num_str (Fin x)
      else if x < 0 then 0x2D # fixed_digits f (- x) else fixed_digits f x)"
| "toFixed f x = num_str x"

text \<open>\<open>v.toFixed(f)\<close> on a value: only numbers have the method.\<close>

definition to_fixed :: "jsval \<Rightarrow> nat \<Rightarrow> jsstr result" where
  "to_fixed v f = (case v of Num x \<Rightarrow> Inr (toFixed f x) | _ \<Rightarrow> Inl TypeError)"

text \<open>\<open>parseFloat\<close>: the longest prefix, after white space, that is a decimal literal.\<close>

definition opt_frac :: "jsstr \<Rightarrow> jsstr \<times> jsstr" where
  "opt_frac cs = (case cs of [] \<Rightarrow> ([], []) | c # r \<Rightarrow> if c = 0x2E then span_digits r else ([], cs))"

definition js_space :: "code_unit \<Rightarrow> bool" where
  "js_space c \<longleftrightarrow> (0x09 \<le> c \<and> c \<le> 0x0D) \<or> (0x2000 \<le> c \<and> c \<le> 0x200A)
     \<or> c \<in> {0x20, 0xA0, 0x1680, 0x2028, 0x2029, 0x202F, 0x205F, 0x3000, 0xFEFF}"

definition parseFloat :: "jsstr \<Rightarrow> jsnum" where
  "parseFloat s =
     (let (neg, cs) = scan_sign (dropWhile js_space s); (ids, r) = span_digits cs; (fds, r') = opt_frac r;
          e = (case scan_exp r' of None \<Rightarrow> 0 | Some (e, _) \<Rightarrow> e)
      in if take 8 cs = js ''Infinity'' then (if neg then NInf else PInf)
         else if ids @ fds = [] then NaN
         else fl ((if neg then - 1 else 1) * of_nat (digits_val (ids @ fds)) * 10 powi (e - int (length fds))))"

text \<open>\<open>toLowerCase\<close> on the letters of ASCII; the sources apply it to such strings.\<close>

definition lower_unit :: "code_unit \<Rightarrow> code_unit" where
  "lower_unit c = (if 0x41 \<le> c \<and> c \<le> 0x5A then c + 0x20 else c)"

definition toLowerCase :: "jsstr \<Rightarrow> jsstr" where
  "toLowerCase s = map lower_unit s"

end
