(* ===== verification/Phx_Serializer.thy ===== *)
theory Phx_Serializer
  imports JS_Text
begin

text \<open>
  The message serializer of the Phoenix client (\<open>serializer.js\<close>): the JSON text frames, the binary
  frame of a client push and the three binary frames the server sends.  Bytes are \<open>8 word\<close>, so
  \<open>setUint8\<close> wraps; \<open>TextDecoder\<close> is the UTF-8 decoder of the Encoding standard.  The layouts
  of the server side, against which decoding is verified, are those of the server's V2 JSON
  serializer.
\<close>

section \<open>Frames and messages\<close>

type_synonym bytes = "8 word list"

text \<open>
  A payload is a JSON value, an \<open>ArrayBuffer\<close>, or the object \<open>{status, response}\<close> with an \<open>ArrayBuffer\<close>
  as response that decoding a binary reply makes.
\<close>

datatype payload =
    Json jsval
  | Buffer bytes
  | BufferReply jsstr bytes

record msg =
  m_join_ref :: jsval
  m_ref :: jsval
  m_topic :: jsval
  m_event :: jsval
  m_payload :: payload

datatype frame =
    Text jsstr
  | Binary bytes

definition HEADER_LENGTH :: nat where "HEADER_LENGTH = 1"
definition META_LENGTH :: nat where "META_LENGTH = 4"
definition KIND_push :: "8 word" where "KIND_push = 0"
definition KIND_reply :: "8 word" where "KIND_reply = 1"
definition KIND_broadcast :: "8 word" where "KIND_broadcast = 2"

section \<open>Encoding\<close>

text \<open>
  \<open>Array.from(s, char => char.charCodeAt(0))\<close>: a string iterates by code point, so a surrogate pair
  contributes its first unit only.
\<close>

fun char_codes :: "jsstr \<Rightarrow> jsstr" where
  "char_codes [] = []"
| "char_codes [c] = [c]"
| "char_codes (c # d # ds) =
     (if is_high_surrogate c \<and> is_low_surrogate d then c # char_codes ds else c # char_codes (d # ds))"

definition set_chars :: "jsstr \<Rightarrow> bytes" where
  "set_chars s = map ucast (char_codes s)"

definition len8 :: "jsstr \<Rightarrow> 8 word" where
  "len8 s = word_of_nat (length s)"

text \<open>
  The header buffer is allocated from the lengths in code units and is zero where nothing is written.
  Reading \<open>length\<close> of a \<open>null\<close> or \<open>undefined\<close> ref throws; refs, topic and event are strings otherwise.
\<close>

definition binaryEncode :: "jsval \<Rightarrow> jsval \<Rightarrow> jsval \<Rightarrow> jsval \<Rightarrow> bytes \<Rightarrow> bytes result" where
  "binaryEncode join_ref ref topic event payload =
     (case (join_ref, ref, topic, event) of
        (Str j, Str r, Str t, Str e) \<Rightarrow>
          (let metaLength = META_LENGTH + length j + length r + length t + length e;
               written = [KIND_push, len8 j, len8 r, len8 t, len8 e]
                 @ set_chars j @ set_chars r @ set_chars t @ set_chars e;
               header = written @ replicate (HEADER_LENGTH + metaLength - length written) 0
           in Inr (header @ payload))
      | _ \<Rightarrow> Inl TypeError)"

text \<open>The array of the text frame; an \<open>ArrayBuffer\<close> inside a JSON value prints as \<open>{}\<close>.\<close>

fun payload_json :: "payload \<Rightarrow> jsval" where
  "payload_json (Json v) = v"
| "payload_json (Buffer _) = Obj []"
| "payload_json (BufferReply s _) = Obj [(js ''status'', Str s), (js ''response'', Obj [])]"

definition encode :: "msg \<Rightarrow> frame result" where
  "encode m = (case m_payload m of
      Buffer b \<Rightarrow> map_sum id Binary (binaryEncode (m_join_ref m) (m_ref m) (m_topic m) (m_event m) b)
    | p \<Rightarrow> if nullish (payload_json p) then Inl TypeError
           else Inr (Text (stringify (Arr [m_join_ref m, m_ref m, m_topic m, m_event m, payload_json p]))))"

section \<open>TextDecoder\<close>

text \<open>State of the UTF-8 decoder: continuation bytes still needed, code point so far, bounds of the next byte.\<close>

type_synonym utf8_state = "(nat \<times> nat \<times> nat \<times> nat)"

definition utf8_init :: utf8_state where "utf8_init = (0, 0, 0x80, 0xBF)"

definition utf8_lead :: "nat \<Rightarrow> nat list \<times> utf8_state" where
  "utf8_lead b =
     (if b \<le> 0x7F then ([b], utf8_init)
      else if 0xC2 \<le> b \<and> b \<le> 0xDF then ([], (1, b mod 0x20, 0x80, 0xBF))
      else if 0xE0 \<le> b \<and> b \<le> 0xEF then
        ([], (2, b mod 0x10, if b = 0xE0 then 0xA0 else 0x80, if b = 0xED then 0x9F else 0xBF))
      else if 0xF0 \<le> b \<and> b \<le> 0xF4 then
        ([], (3, b mod 8, if b = 0xF0 then 0x90 else 0x80, if b = 0xF4 then 0x8F else 0xBF))
      else ([0xFFFD], utf8_init))"

definition utf8_step :: "utf8_state \<Rightarrow> nat \<Rightarrow> nat list \<times> utf8_state" where
  "utf8_step st b = (case st of (needed, cp, lower, upper) \<Rightarrow>
     if needed = 0 then utf8_lead b
     else if b < lower \<or> upper < b then (let (out, st') = utf8_lead b in (0xFFFD # out, st'))
     else if needed = 1 then ([cp * 64 + b mod 64], utf8_init)
     else ([], (needed - 1, cp * 64 + b mod 64, 0x80, 0xBF)))"

fun utf8_run :: "utf8_state \<Rightarrow> nat list \<Rightarrow> nat list" where
  "utf8_run st [] = (if fst st = 0 then [] else [0xFFFD])"
| "utf8_run st (b # bs) = (let (out, st') = utf8_step st b in out @ utf8_run st' bs)"

definition utf16 :: "nat \<Rightarrow> jsstr" where
  "utf16 cp = (if cp < 0x10000 then [word_of_nat cp]
     else [word_of_nat (0xD800 + (cp - 0x10000) div 0x400), word_of_nat (0xDC00 + (cp - 0x10000) mod 0x400)])"

definition text_decode :: "bytes \<Rightarrow> jsstr" where
  "text_decode bs =
     (let bs' = (if take 3 bs = [0xEF, 0xBB, 0xBF] then drop 3 bs else bs)
      in concat (map utf16 (utf8_run utf8_init (map unat bs'))))"

section \<open>Decoding\<close>

definition getUint8 :: "bytes \<Rightarrow> nat \<Rightarrow> nat result" where
  "getUint8 buf i = (if i < length buf then Inr (unat (buf ! i)) else Inl (JsError ''RangeError''))"

definition slice :: "bytes \<Rightarrow> nat \<Rightarrow> nat \<Rightarrow> bytes" where
  "slice buf a b = take (b - a) (drop a buf)"

definition decodePush :: "bytes \<Rightarrow> msg result" where
  "decodePush buffer =
     bindr (getUint8 buffer 1) (\<lambda>joinRefSize.
     bindr (getUint8 buffer 2) (\<lambda>topicSize.
     bindr (getUint8 buffer 3) (\<lambda>eventSize.
       let o0 = HEADER_LENGTH + META_LENGTH - 1;
           joinRef = text_decode (slice buffer o0 (o0 + joinRefSize));
           o1 = o0 + joinRefSize;
           topic = text_decode (slice buffer o1 (o1 + topicSize));
           o2 = o1 + topicSize;
           event = text_decode (slice buffer o2 (o2 + eventSize));
           o3 = o2 + eventSize
       in Inr \<lparr>m_join_ref = Str joinRef, m_ref = Null, m_topic = Str topic, m_event = Str event,
               m_payload = Buffer (slice buffer o3 (length buffer))\<rparr>)))"

definition EVENT_reply :: jsstr where "EVENT_reply = js ''phx_reply''"

definition decodeReply :: "bytes \<Rightarrow> msg result" where
  "decodeReply buffer =
     bindr (getUint8 buffer 1) (\<lambda>joinRefSize.
     bindr (getUint8 buffer 2) (\<lambda>refSize.
     bindr (getUint8 buffer 3) (\<lambda>topicSize.
     bindr (getUint8 buffer 4) (\<lambda>eventSize.
       let o0 = HEADER_LENGTH + META_LENGTH;
           joinRef = text_decode (slice buffer o0 (o0 + joinRefSize));
           o1 = o0 + joinRefSize;
           ref = text_decode (slice buffer o1 (o1 + refSize));
           o2 = o1 + refSize;
           topic = text_decode (slice buffer o2 (o2 + topicSize));
           o3 = o2 + topicSize;
           event = text_decode (slice buffer o3 (o3 + eventSize));
           o4 = o3 + eventSize
       in Inr \<lparr>m_join_ref = Str joinRef, m_ref = Str ref, m_topic = Str topic,
               m_event = Str EVENT_reply,
               m_payload = BufferReply event (slice buffer o4 (length buffer))\<rparr>))))"

definition decodeBroadcast :: "bytes \<Rightarrow> msg result" where
  "decodeBroadcast buffer =
     bindr (getUint8 buffer 1) (\<lambda>topicSize.
     bindr (getUint8 buffer 2) (\<lambda>eventSize.
       let o0 = HEADER_LENGTH + 2;
           topic = text_decode (slice buffer o0 (o0 + topicSize));
           o1 = o0 + topicSize;
           event = text_decode (slice buffer o1 (o1 + eventSize));
           o2 = o1 + eventSize
       in Inr \<lparr>m_join_ref = Null, m_ref = Null, m_topic = Str topic, m_event = Str event,
               m_payload = Buffer (slice buffer o2 (length buffer))\<rparr>))"

text \<open>An unknown kind leaves the \<open>switch\<close> without a value: \<open>None\<close> is \<open>undefined\<close>.\<close>

definition binaryDecode :: "bytes \<Rightarrow> msg option result" where
  "binaryDecode buffer =
     bindr (getUint8 buffer 0) (\<lambda>kind.
       if kind = unat KIND_push then map_sum id Some (decodePush buffer)
       else if kind = unat KIND_reply then map_sum id Some (decodeReply buffer)
       else if kind = unat KIND_broadcast then map_sum id Some (decodeBroadcast buffer)
       else Inr None)"

text \<open>
  Array destructuring of the parsed text iterates it: a string yields its characters, and any other
  value that is not an array throws.  Missing entries are \<open>undefined\<close>.
\<close>

fun iterate :: "jsval \<Rightarrow> jsval list result" where
  "iterate (Arr vs) = Inr vs"
| "iterate (Str s) = Inr (map Str (code_points s))"
| "iterate _ = Inl TypeError"

definition elem_at :: "jsval list \<Rightarrow> nat \<Rightarrow> jsval" where
  "elem_at vs i = (if i < length vs then vs ! i else Undef)"

definition decode :: "frame \<Rightarrow> msg option result" where
  "decode f = (case f of
      Binary b \<Rightarrow> binaryDecode b
    | Text t \<Rightarrow> (case JSON_parse t of
        None \<Rightarrow> Inl (JsError ''SyntaxError'')
      | Some v \<Rightarrow> bindr (iterate v) (\<lambda>vs. Inr (Some
          \<lparr>m_join_ref = elem_at vs 0, m_ref = elem_at vs 1, m_topic = elem_at vs 2,
           m_event = elem_at vs 3, m_payload = Json (elem_at vs 4)\<rparr>))))"

section \<open>The server's layouts\<close>

definition ascii_bytes :: "jsstr \<Rightarrow> bytes" where
  "ascii_bytes s = map ucast s"

definition short_ascii :: "jsstr \<Rightarrow> bool" where
  "short_ascii s \<longleftrightarrow> length s < 256 \<and> list_all (\<lambda>c. c < 0x80) s"

definition server_push :: "jsstr \<Rightarrow> jsstr \<Rightarrow> jsstr \<Rightarrow> bytes \<Rightarrow> bytes" where
  "server_push j t e data = [0, len8 j, len8 t, len8 e] @ ascii_bytes j @ ascii_bytes t @ ascii_bytes e @ data"

definition server_reply :: "jsstr \<Rightarrow> jsstr \<Rightarrow> jsstr \<Rightarrow> jsstr \<Rightarrow> bytes \<Rightarrow> bytes" where
  "server_reply j r t s data = [1, len8 j, len8 r, len8 t, len8 s]
     @ ascii_bytes j @ ascii_bytes r @ ascii_bytes t @ ascii_bytes s @ data"

definition server_broadcast :: "jsstr \<Rightarrow> jsstr \<Rightarrow> bytes \<Rightarrow> bytes" where
  "server_broadcast t e data = [2, len8 t, len8 e] @ ascii_bytes t @ ascii_bytes e @ data"

text \<open>
  How the server reads a client push: five size-prefixed fields, failing when the sizes exceed the
  frame.
\<close>

definition server_decode :: "bytes \<Rightarrow> (bytes \<times> bytes \<times> bytes \<times> bytes \<times> bytes) option" where
  "server_decode b = (case b of
      k # lj # lr # lt # le # rest \<Rightarrow>
        (let j = unat lj; r = unat lr; t = unat lt; e = unat le
         in if k = 0 \<and> j + r + t + e \<le> length rest
            then Some (take j rest, take r (drop j rest), take t (drop (j + r) rest),
                       take e (drop (j + r + t) rest), drop (j + r + t + e) rest)
            else None)
    | _ \<Rightarrow> None)"

section \<open>ASCII fields\<close>

abbreviation ascii :: "jsstr \<Rightarrow> bool" where
  "ascii s \<equiv> list_all (\<lambda>c. c < 0x80) s"

lemma ascii_not_surrogate: "c < 0x80 \<Longrightarrow> \<not> is_high_surrogate c" for c :: code_unit
  by (auto simp: is_high_surrogate_def word_le_nat_alt word_less_nat_alt)

lemma char_codes_ascii [simp]: "ascii s \<Longrightarrow> char_codes s = s"
  by (induction s rule: char_codes.induct) (auto simp: ascii_not_surrogate)

lemma set_chars_ascii [simp]: "ascii s \<Longrightarrow> set_chars s = ascii_bytes s"
  by (simp add: set_chars_def ascii_bytes_def)

lemma length_ascii_bytes [simp]: "length (ascii_bytes s) = length s"
  by (simp add: ascii_bytes_def)

lemma unat_len8: "unat (len8 s) = length s mod 256"
  by (simp add: len8_def unat_of_nat)

lemma unat_len8_short [simp]: "length s < 256 \<Longrightarrow> unat (len8 s) = length s"
  by (simp add: unat_len8)

lemma unat_ucast_ascii: "c < 0x80 \<Longrightarrow> unat (ucast c :: 8 word) = unat c" for c :: code_unit
  by (simp add: unsigned_ucast_eq word_less_nat_alt take_bit_nat_eq_self)

lemma utf8_run_ascii: "list_all (\<lambda>b. b \<le> 0x7F) bs \<Longrightarrow> utf8_run utf8_init bs = bs"
  by (induction bs) (simp_all add: utf8_step_def utf8_init_def utf8_lead_def)

lemma text_decode_ascii [simp]:
  assumes "ascii s"
  shows "text_decode (ascii_bytes s) = s"
proof -
  have units: "map unat (ascii_bytes s) = map unat s"
    using assms by (simp add: ascii_bytes_def list_all_iff unat_ucast_ascii)
  have "list_all (\<lambda>b. b \<le> 0x7F) (map unat s)"
    using assms by (auto simp: list_all_iff word_less_nat_alt)
  moreover have "take 3 (ascii_bytes s) \<noteq> [0xEF, 0xBB, 0xBF]"
  proof
    assume bom: "take 3 (ascii_bytes s) = [0xEF, 0xBB, 0xBF]"
    then have "unat (hd (ascii_bytes s)) = 0xEF" by (cases "ascii_bytes s") auto
    with units assms show False
      using bom by (cases s) (auto simp: ascii_bytes_def word_less_nat_alt)
  qed
  moreover have "concat (map utf16 (map unat t)) = t" if "ascii t" for t :: jsstr
    using that
    by (induction t) (auto simp: utf16_def word_less_nat_alt)
  ultimately show ?thesis
    using assms by (simp add: text_decode_def units utf8_run_ascii)
qed

lemma drop_header:
  "drop (3 + n) (a # b # c # xs) = drop n xs"
  "drop (4 + n) (a # b # c # d # xs) = drop n xs"
  "drop (5 + n) (a # b # c # d # e # xs) = drop n xs"
  by (simp_all add: numeral_eq_Suc)

lemmas layout_defs = getUint8_def slice_def Let_def drop_header HEADER_LENGTH_def META_LENGTH_def

lemma decodePush_layout:
  assumes "ascii j" "ascii t" "ascii e" "unat lj = length j" "unat lt = length t" "unat le = length e"
  shows "decodePush (k # lj # lt # le # ascii_bytes j @ ascii_bytes t @ ascii_bytes e @ data)
    = Inr \<lparr>m_join_ref = Str j, m_ref = Null, m_topic = Str t, m_event = Str e, m_payload = Buffer data\<rparr>"
  by (simp add: decodePush_def layout_defs add.assoc assms)

lemma decodeReply_layout:
  assumes "ascii j" "ascii r" "ascii t" "ascii e"
    and "unat lj = length j" "unat lr = length r" "unat lt = length t" "unat le = length e"
  shows "decodeReply (k # lj # lr # lt # le # ascii_bytes j @ ascii_bytes r @ ascii_bytes t @ ascii_bytes e @ data)
    = Inr \<lparr>m_join_ref = Str j, m_ref = Str r, m_topic = Str t, m_event = Str EVENT_reply,
           m_payload = BufferReply e data\<rparr>"
  by (simp add: decodeReply_def layout_defs add.assoc assms)

lemma decodeBroadcast_layout:
  assumes "ascii t" "ascii e" "unat lt = length t" "unat le = length e"
  shows "decodeBroadcast (k # lt # le # ascii_bytes t @ ascii_bytes e @ data)
    = Inr \<lparr>m_join_ref = Null, m_ref = Null, m_topic = Str t, m_event = Str e, m_payload = Buffer data\<rparr>"
  by (simp add: decodeBroadcast_def layout_defs add.assoc assms)

section \<open>Codecs\<close>

text \<open>
  What the two ends of a connection rely on: on its domain, decoding returns the message that was
  encoded.
\<close>

locale codec =
  fixes enc :: "'m \<Rightarrow> 'w result"
    and dec :: "'w \<Rightarrow> 'n option"
    and view :: "'m \<Rightarrow> 'n"
    and ok :: "'m \<Rightarrow> bool"
  assumes round_trip: "ok m \<Longrightarrow> \<exists>w. enc m = Inr w \<and> dec w = Some (view m)"
begin

lemma enc_faithful: "ok m \<Longrightarrow> ok m' \<Longrightarrow> enc m = enc m' \<Longrightarrow> view m = view m'"
  using round_trip [of m] round_trip [of m'] by auto

lemma stream_round_trip:
  "list_all ok ms \<Longrightarrow> \<exists>ws. map enc ms = map Inr ws \<and> map dec ws = map (\<lambda>m. Some (view m)) ms"
proof (induction ms)
  case (Cons m ms)
  then obtain w ws where "enc m = Inr w" "dec w = Some (view m)"
      "map enc ms = map Inr ws" "map dec ws = map (\<lambda>m. Some (view m)) ms"
    using round_trip [of m] by auto
  then show ?case by (intro exI [of _ "w # ws"]) simp
qed simp

end

text \<open>Text frames: strings or \<open>null\<close> as refs, and a JSON payload that is not \<open>null\<close>.\<close>

fun text_msg :: "msg \<Rightarrow> bool" where
  "text_msg m = (case m_payload m of
     Json v \<Rightarrow> \<not> nullish v \<and> list_all json_safe [m_join_ref m, m_ref m, m_topic m, m_event m, v]
   | _ \<Rightarrow> False)"

definition received :: "frame \<Rightarrow> msg option" where
  "received f = (case decode f of Inr (Some m) \<Rightarrow> Some m | _ \<Rightarrow> None)"

lemma text_round_trip:
  assumes "text_msg m"
  shows "\<exists>w. encode m = Inr w \<and> received w = Some m"
proof -
  obtain v where v: "m_payload m = Json v" "\<not> nullish v"
    "json_safe (Arr [m_join_ref m, m_ref m, m_topic m, m_event m, v])"
    using assms by (cases "m_payload m") auto
  note JSON_roundtrip [OF v(3)]
  with v(1,2) show ?thesis
    by (simp add: encode_def received_def decode_def elem_at_def del: stringify.simps)
qed

interpretation text_frames: codec encode received id text_msg
  by unfold_locales (simp add: text_round_trip del: text_msg.simps)

text \<open>Client pushes with a binary payload, as the server reads them.\<close>

fun binary_msg :: "msg \<Rightarrow> bool" where
  "binary_msg m = (case (m_join_ref m, m_ref m, m_topic m, m_event m, m_payload m) of
     (Str j, Str r, Str t, Str e, Buffer _) \<Rightarrow> list_all short_ascii [j, r, t, e]
   | _ \<Rightarrow> False)"

fun string_bytes :: "jsval \<Rightarrow> bytes" where
  "string_bytes (Str s) = ascii_bytes s"
| "string_bytes _ = []"

fun buffer_bytes :: "payload \<Rightarrow> bytes" where
  "buffer_bytes (Buffer b) = b"
| "buffer_bytes _ = []"

definition wire_fields :: "msg \<Rightarrow> bytes \<times> bytes \<times> bytes \<times> bytes \<times> bytes" where
  "wire_fields m = (string_bytes (m_join_ref m), string_bytes (m_ref m), string_bytes (m_topic m),
     string_bytes (m_event m), buffer_bytes (m_payload m))"

definition server_receives :: "frame \<Rightarrow> (bytes \<times> bytes \<times> bytes \<times> bytes \<times> bytes) option" where
  "server_receives f = (case f of Binary b \<Rightarrow> server_decode b | Text _ \<Rightarrow> None)"

lemma binaryEncode_ascii:
  assumes "ascii j" "ascii r" "ascii t" "ascii e"
  shows "binaryEncode (Str j) (Str r) (Str t) (Str e) data =
    Inr ([0, len8 j, len8 r, len8 t, len8 e]
      @ ascii_bytes j @ ascii_bytes r @ ascii_bytes t @ ascii_bytes e @ data)"
  using assms by (simp add: binaryEncode_def HEADER_LENGTH_def META_LENGTH_def KIND_push_def)

lemma binary_round_trip:
  assumes "binary_msg m"
  shows "\<exists>w. encode m = Inr w \<and> server_receives w = Some (wire_fields m)"
proof -
  obtain j r t e b where m: "m_join_ref m = Str j" "m_ref m = Str r" "m_topic m = Str t"
    "m_event m = Str e" "m_payload m = Buffer b" and ok: "list_all short_ascii [j, r, t, e]"
    using assms by (auto split: jsval.splits payload.splits)
  then show ?thesis
    by (simp add: encode_def binaryEncode_ascii short_ascii_def server_receives_def server_decode_def
        wire_fields_def)
qed

interpretation binary_frames: codec encode server_receives wire_fields binary_msg
  by unfold_locales (simp add: binary_round_trip del: binary_msg.simps)

section \<open>Properties\<close>



text \<open>
  The frame of a client push with a binary payload carries every field: for ASCII refs, topic and
  event of fewer than 256 characters the server reads back exactly the bytes that were written.
\<close>

theorem serializer_binary_push:
  assumes "list_all short_ascii [j, r, t, e]"
  shows "\<exists>b. encode \<lparr>m_join_ref = Str j, m_ref = Str r, m_topic = Str t, m_event = Str e,
      m_payload = Buffer data\<rparr> = Inr (Binary b)
    \<and> server_decode b = Some (ascii_bytes j, ascii_bytes r, ascii_bytes t, ascii_bytes e, data)"
  using assms
  by (simp add: encode_def binaryEncode_ascii short_ascii_def server_decode_def)

theorem serializer_binary_push_witness:
  "\<exists>b. encode \<lparr>m_join_ref = Str (js ''1''), m_ref = Str (js ''2''), m_topic = Str (js ''room''),
      m_event = Str (js ''pic''), m_payload = Buffer [7]\<rparr> = Inr (Binary b)
    \<and> server_decode b = Some (ascii_bytes (js ''1''), ascii_bytes (js ''2''), ascii_bytes (js ''room''),
        ascii_bytes (js ''pic''), [7])"
  by (rule serializer_binary_push) (simp add: short_ascii_def js_eval)

text \<open>
  Lengths above 255 wrap: the server reads only the first \<open>length mod 256\<close> bytes of a long
  topic, so such a topic is corrupted exactly when it has 256 characters or more.
\<close>

theorem serializer_topic_wrap:
  assumes "list_all short_ascii [j, r, e]" "ascii t" "encode \<lparr>m_join_ref = Str j, m_ref = Str r,
      m_topic = Str t, m_event = Str e, m_payload = Buffer data\<rparr> = Inr (Binary b)"
    and "server_decode b = Some (j', r', t', e', data')"
  shows "t' = take (length t mod 256) (ascii_bytes t) \<and> (t' = ascii_bytes t \<longleftrightarrow> length t < 256)"
proof -
  have b: "b = [0, len8 j, len8 r, len8 t, len8 e]
      @ ascii_bytes j @ ascii_bytes r @ ascii_bytes t @ ascii_bytes e @ data"
    using assms(1-3) by (simp add: encode_def binaryEncode_ascii short_ascii_def)
  have "length t mod 256 \<le> length t" by simp
  with assms(1,4) have t': "t' = take (length t mod 256) (ascii_bytes t)"
    by (auto simp: b server_decode_def unat_len8 short_ascii_def Let_def split: if_splits)
  have "length t' = length t mod 256" by (simp add: t')
  then show ?thesis
    using t' by (metis length_ascii_bytes mod_less mod_less_divisor take_all_iff zero_less_numeral order_refl)
qed

theorem serializer_topic_wrap_witness:
  "\<exists>t b j' r' t' e' d'. encode \<lparr>m_join_ref = Str (js ''1''), m_ref = Str (js ''2''), m_topic = Str t,
      m_event = Str (js ''e''), m_payload = Buffer []\<rparr> = Inr (Binary b)
    \<and> server_decode b = Some (j', r', t', e', d') \<and> t' \<noteq> ascii_bytes t"
proof -
  define t :: jsstr where "t = replicate 256 0x61"
  define b where "b = [0, len8 (js ''1''), len8 (js ''2''), len8 t, len8 (js ''e'')]
      @ ascii_bytes (js ''1'') @ ascii_bytes (js ''2'') @ ascii_bytes t @ ascii_bytes (js ''e'') @ []"
  have short: "list_all short_ascii [js ''1'', js ''2'', js ''e'']"
    by (simp add: short_ascii_def js_eval)
  have t: "ascii t" "length t = 256" by (simp_all add: t_def list_all_iff)
  have enc: "encode \<lparr>m_join_ref = Str (js ''1''), m_ref = Str (js ''2''), m_topic = Str t,
      m_event = Str (js ''e''), m_payload = Buffer []\<rparr> = Inr (Binary b)"
    using short t by (simp add: encode_def binaryEncode_ascii short_ascii_def b_def)
  have "\<exists>j' r' t' e' d'. server_decode b = Some (j', r', t', e', d')"
    using t by (simp add: b_def server_decode_def unat_len8)
  then obtain j' r' t' e' d' where dec: "server_decode b = Some (j', r', t', e', d')" by blast
  have "\<not> length t < 256" using t(2) by simp
  with serializer_topic_wrap [OF short t(1) enc dec] have "t' \<noteq> ascii_bytes t" by blast
  with enc dec show ?thesis by blast
qed



end
