(* ===== verification/Phx_Ajax.thy ===== *)
theory Phx_Ajax
  imports Phx_Serializer
begin

text \<open>
  Request helpers of the Phoenix client: query strings and response parsing (\<open>ajax.js\<close>), the base64
  functions the transports use for the auth token and for binary bodies (\<open>btoa\<close> and \<open>atob\<close> of the
  HTML standard), and the endpoint rewriting of the long-poll transport.
\<close>

section \<open>Query strings\<close>

definition param_key :: "jsstr \<Rightarrow> jsstr \<Rightarrow> jsstr" where
  "param_key parentKey key = (if parentKey \<noteq> [] then parentKey @ [0x5B] @ key @ [0x5D] else key)"

definition ser_pair :: "jsstr \<Rightarrow> jsval \<Rightarrow> jsstr result" where
  "ser_pair paramKey v =
     bindr (encodeURIComponent paramKey) (\<lambda>k.
     bindr (encodeURIComponent (prim_str v)) (\<lambda>w. Inr (k @ [0x3D] @ w)))"

fun join_results :: "jsstr result list \<Rightarrow> jsstr list result" where
  "join_results [] = Inr []"
| "join_results (r # rs) = bindr r (\<lambda>x. bindr (join_results rs) (\<lambda>xs. Inr (x # xs)))"

text \<open>
  \<open>serialize(obj, parentKey)\<close>: \<open>for ... in\<close> visits the keys in property order, the indices of an
  array, and nothing for \<open>null\<close>, which is an object by \<open>typeof\<close>.  A missing parent key is the empty string.
\<close>

fun serialize :: "jsval \<Rightarrow> jsstr \<Rightarrow> jsstr result"
  and ser_elems :: "nat \<Rightarrow> jsval list \<Rightarrow> jsstr \<Rightarrow> jsstr result list"
  and ser_item :: "jsval \<Rightarrow> jsstr \<Rightarrow> jsstr result" where
  "serialize (Obj kvs) pk = bindr (join_results (map snd (key_order
     (map (\<lambda>(k, w). (k, ser_item w (param_key pk k))) kvs)))) (\<lambda>xs. Inr (sep_by 0x26 xs))"
| "serialize (Arr vs) pk = bindr (join_results (ser_elems 0 vs pk)) (\<lambda>xs. Inr (sep_by 0x26 xs))"
| "serialize _ pk = Inr []"
| "ser_elems i [] pk = []"
| "ser_elems i (v # vs) pk = ser_item v (param_key pk (nat_str i)) # ser_elems (Suc i) vs pk"
| "ser_item v paramKey = (case v of
      Obj _ \<Rightarrow> serialize v paramKey
    | Arr _ \<Rightarrow> serialize v paramKey
    | Null \<Rightarrow> serialize v paramKey
    | _ \<Rightarrow> ser_pair paramKey v)"

text \<open>\<open>Object.keys(params)\<close> throws for \<open>null\<close> and \<open>undefined\<close> and is empty for numbers and booleans.\<close>

fun key_count :: "jsval \<Rightarrow> nat result" where
  "key_count (Obj kvs) = Inr (length kvs)"
| "key_count (Arr vs) = Inr (length vs)"
| "key_count (Str s) = Inr (length s)"
| "key_count v = (if nullish v then Inl TypeError else Inr 0)"

definition appendParams :: "jsstr \<Rightarrow> jsval \<Rightarrow> jsstr result" where
  "appendParams url params =
     bindr (key_count params) (\<lambda>n.
       if n = 0 then Inr url
       else (let prefix = (if 0x3F \<in> set url then 0x26 else 0x3F)
             in bindr (serialize params []) (\<lambda>q. Inr (url @ [prefix] @ q))))"

text \<open>\<open>parseJSON\<close>: empty or malformed text gives \<open>null\<close>.\<close>

definition parseJSON :: "jsstr \<Rightarrow> jsval" where
  "parseJSON resp = (if resp = [] then Null
     else case JSON_parse resp of Some v \<Rightarrow> v | None \<Rightarrow> Null)"

section \<open>Ajax.request\<close>

text \<open>
  Which request implementation is used depends on what the environment offers, and each maps the
  outcomes of a request to calls of its callback (\<open>Some\<close> the response) or of its timeout handler.
  An \<open>XMLHttpRequest\<close> that is aborted or times out reaches the state \<open>complete\<close> with no text, so its
  callback runs with \<open>null\<close>; a \<open>fetch\<close> that is aborted, by its timeout or by the caller, only runs the
  timeout handler.
\<close>

record platform =
  has_xdomain :: bool
  has_xhr :: bool
  has_fetch :: bool
  has_abort :: bool

datatype ajax_kind = XDomain | Xhr | Fetch

definition request_kind :: "platform \<Rightarrow> ajax_kind result" where
  "request_kind g =
     (if has_xdomain g then Inr XDomain
      else if has_xhr g then Inr Xhr
      else if has_fetch g \<and> has_abort g then Inr Fetch
      else Inl (JsError ''No suitable XMLHttpRequest implementation found''))"

datatype outcome =
    Loaded jsstr      \<comment> \<open>a response with its text\<close>
  | NetworkError
  | TimedOut
  | Aborted

datatype ajax_call =
    Callback jsval
  | OnTimeout

fun ajax_calls :: "ajax_kind \<Rightarrow> outcome \<Rightarrow> ajax_call list" where
  "ajax_calls XDomain (Loaded t) = [Callback (parseJSON t)]"
| "ajax_calls XDomain TimedOut = [OnTimeout]"
| "ajax_calls XDomain _ = []"
| "ajax_calls Xhr (Loaded t) = [Callback (parseJSON t)]"
| "ajax_calls Xhr NetworkError = [Callback (parseJSON []), Callback Null]"
| "ajax_calls Xhr TimedOut = [Callback (parseJSON []), OnTimeout]"
| "ajax_calls Xhr Aborted = [Callback (parseJSON [])]"
| "ajax_calls Fetch (Loaded t) = [Callback (parseJSON t)]"
| "ajax_calls Fetch NetworkError = [Callback Null]"
| "ajax_calls Fetch TimedOut = [OnTimeout]"
| "ajax_calls Fetch Aborted = [OnTimeout]"

text \<open>
  The request objects.  \<open>fetch\<close> takes no timeout: a timer aborts its controller, and without a timeout there is no controller.  The requests
  of \<open>XDomainRequest\<close> carry no headers.
\<close>

record ajax_object =
  rq_kind :: ajax_kind
  rq_method :: jsstr
  rq_url :: jsstr
  rq_headers :: "(jsstr \<times> jsstr) list"
  rq_body :: "jsstr option"
  rq_timeout :: nat
  rq_controller :: bool
  rq_callback :: bool
  rq_ontimeout :: bool

definition xhrRequest :: "jsstr \<Rightarrow> jsstr \<Rightarrow> (jsstr \<times> jsstr) list \<Rightarrow> jsstr option \<Rightarrow> nat \<Rightarrow> bool \<Rightarrow> bool \<Rightarrow> ajax_object" where
  "xhrRequest m url headers body timeout ontimeout callback =
     \<lparr>rq_kind = Xhr, rq_method = m, rq_url = url, rq_headers = headers, rq_body = body, rq_timeout = timeout,
      rq_controller = False, rq_callback = callback, rq_ontimeout = ontimeout\<rparr>"

definition xdomainRequest :: "jsstr \<Rightarrow> jsstr \<Rightarrow> jsstr option \<Rightarrow> nat \<Rightarrow> bool \<Rightarrow> bool \<Rightarrow> ajax_object" where
  "xdomainRequest m url body timeout ontimeout callback =
     \<lparr>rq_kind = XDomain, rq_method = m, rq_url = url, rq_headers = [], rq_body = body, rq_timeout = timeout,
      rq_controller = False, rq_callback = callback, rq_ontimeout = ontimeout\<rparr>"

definition fetchRequest :: "jsstr \<Rightarrow> jsstr \<Rightarrow> (jsstr \<times> jsstr) list \<Rightarrow> jsstr option \<Rightarrow> nat \<Rightarrow> bool \<Rightarrow> bool \<Rightarrow> ajax_object" where
  "fetchRequest m url headers body timeout ontimeout callback =
     \<lparr>rq_kind = Fetch, rq_method = m, rq_url = url, rq_headers = headers, rq_body = body, rq_timeout = timeout,
      rq_controller = (timeout \<noteq> 0), rq_callback = callback, rq_ontimeout = ontimeout\<rparr>"

definition ajax_request ::
  "platform \<Rightarrow> jsstr \<Rightarrow> jsstr \<Rightarrow> (jsstr \<times> jsstr) list \<Rightarrow> jsstr option \<Rightarrow> nat \<Rightarrow> bool \<Rightarrow> bool \<Rightarrow> ajax_object result" where
  "ajax_request g m url headers body timeout ontimeout callback =
     bindr (request_kind g) (\<lambda>k. Inr (case k of
         XDomain \<Rightarrow> xdomainRequest m url body timeout ontimeout callback
       | Xhr \<Rightarrow> xhrRequest m url headers body timeout ontimeout callback
       | Fetch \<Rightarrow> fetchRequest m url headers body timeout ontimeout callback))"

text \<open>The events of \<open>XMLHttpRequest\<close> and \<open>XDomainRequest\<close> objects and the handlers the requests attach.\<close>

datatype net_event =
    ReadyState nat jsstr
  | LoadEvent jsstr
  | ErrorEvent
  | TimeoutEvent
  | AbortEvent
  | ProgressEvent

fun xhr_handler :: "ajax_object \<Rightarrow> net_event \<Rightarrow> ajax_call list" where
  "xhr_handler q (ReadyState n t) = (if n = 4 \<and> rq_callback q then [Callback (parseJSON t)] else [])"
| "xhr_handler q ErrorEvent = (if rq_callback q then [Callback Null] else [])"
| "xhr_handler q TimeoutEvent = (if rq_ontimeout q then [OnTimeout] else [])"
| "xhr_handler q _ = []"

fun xdomain_handler :: "ajax_object \<Rightarrow> net_event \<Rightarrow> ajax_call list" where
  "xdomain_handler q (LoadEvent t) = (if rq_callback q then [Callback (parseJSON t)] else [])"
| "xdomain_handler q TimeoutEvent = (if rq_ontimeout q then [OnTimeout] else [])"
| "xdomain_handler q _ = []"

text \<open>
  The promise chain of \<open>fetch\<close>: one \<open>catch\<close> for the request, the text and the callback, so a callback that throws is called again with
  \<open>null\<close>.  \<open>fails v\<close> says whether the callback throws for \<open>v\<close>.
\<close>

definition fetch_failed :: "ajax_object \<Rightarrow> bool \<Rightarrow> ajax_call list" where
  "fetch_failed q abort_error =
     (if abort_error \<and> rq_ontimeout q then [OnTimeout] else if rq_callback q then [Callback Null] else [])"

fun fetch_chain :: "ajax_object \<Rightarrow> (jsval \<Rightarrow> bool) \<Rightarrow> outcome \<Rightarrow> ajax_call list" where
  "fetch_chain q fails (Loaded t) =
     (if rq_callback q then Callback (parseJSON t) # (if fails (parseJSON t) then fetch_failed q False else []) else [])"
| "fetch_chain q fails NetworkError = fetch_failed q False"
| "fetch_chain q fails TimedOut = fetch_failed q True"
| "fetch_chain q fails Aborted = fetch_failed q True"

text \<open>The events the standards prescribe for an outcome, after the handlers are attached.\<close>

fun xhr_events :: "outcome \<Rightarrow> net_event list" where
  "xhr_events (Loaded t) = [ReadyState 2 [], ReadyState 3 t, ReadyState 4 t, LoadEvent t]"
| "xhr_events NetworkError = [ReadyState 4 [], ErrorEvent]"
| "xhr_events TimedOut = [ReadyState 4 [], TimeoutEvent]"
| "xhr_events Aborted = [ReadyState 4 [], AbortEvent]"

fun xdomain_events :: "outcome \<Rightarrow> net_event list" where
  "xdomain_events (Loaded t) = [ProgressEvent, LoadEvent t]"
| "xdomain_events NetworkError = [ErrorEvent]"
| "xdomain_events TimedOut = [TimeoutEvent]"
| "xdomain_events Aborted = []"

text \<open>With both functions given, as the transport gives them, the calls are those of \<open>ajax_calls\<close>.\<close>

lemma ajax_calls_handlers:
  assumes "rq_callback q" "rq_ontimeout q"
  shows "ajax_calls Xhr res = concat (map (xhr_handler q) (xhr_events res))"
    "ajax_calls XDomain res = concat (map (xdomain_handler q) (xdomain_events res))"
    "ajax_calls Fetch res = fetch_chain q (\<lambda>_. False) res"
  using assms by (cases res; simp add: parseJSON_def fetch_failed_def)+

lemma fetch_calls_again:
  assumes "rq_callback q" "fails (parseJSON t)"
  shows "fetch_chain q fails (Loaded t) = ajax_calls Fetch (Loaded t) @ [Callback Null]"
  using assms by (simp add: fetch_failed_def)

section \<open>Base64\<close>

definition b64_char :: "nat \<Rightarrow> code_unit" where
  "b64_char n = (if n < 26 then word_of_nat (0x41 + n) else if n < 52 then word_of_nat (0x47 + n)
     else if n < 62 then word_of_nat (n - 4) else if n = 62 then 0x2B else 0x2F)"

definition b64_val :: "code_unit \<Rightarrow> nat option" where
  "b64_val c = (if 0x41 \<le> c \<and> c \<le> 0x5A then Some (unat c - 0x41)
     else if 0x61 \<le> c \<and> c \<le> 0x7A then Some (unat c - 0x47)
     else if is_digit c then Some (unat c + 4)
     else if c = 0x2B then Some 62 else if c = 0x2F then Some 63 else None)"

fun b64_groups :: "nat list \<Rightarrow> jsstr" where
  "b64_groups [] = []"
| "b64_groups [a] = [b64_char (a div 4), b64_char (a mod 4 * 16), 0x3D, 0x3D]"
| "b64_groups [a, b] = [b64_char (a div 4), b64_char (a mod 4 * 16 + b div 16), b64_char (b mod 16 * 4), 0x3D]"
| "b64_groups (a # b # c # r) = b64_char (a div 4) # b64_char (a mod 4 * 16 + b div 16)
     # b64_char (b mod 16 * 4 + c div 64) # b64_char (c mod 64) # b64_groups r"

text \<open>\<open>btoa\<close> refuses a string with a code unit above 255.\<close>

definition btoa :: "jsstr \<Rightarrow> jsstr result" where
  "btoa s = (if list_all (\<lambda>c. c < 256) s then Inr (b64_groups (map unat s))
     else Inl (JsError ''InvalidCharacterError''))"

fun sextets :: "nat list \<Rightarrow> nat list option" where
  "sextets [] = Some []"
| "sextets [_] = None"
| "sextets [p, q] = Some [p * 4 + q div 16]"
| "sextets [p, q, r] = Some [p * 4 + q div 16, q mod 16 * 16 + r div 4]"
| "sextets (p # q # r # s # t) =
     map_option (\<lambda>bs. (p * 4 + q div 16) # (q mod 16 * 16 + r div 4) # (r mod 4 * 64 + s) # bs) (sextets t)"

definition strip_padding :: "jsstr \<Rightarrow> jsstr" where
  "strip_padding s =
     (if length s mod 4 = 0 \<and> s \<noteq> [] \<and> last s = 0x3D
      then (let t = butlast s in if t \<noteq> [] \<and> last t = 0x3D then butlast t else t) else s)"

text \<open>\<open>atob\<close>, the forgiving decoder: white space is dropped and padding is optional.\<close>

definition atob :: "jsstr \<Rightarrow> jsstr result" where
  "atob s =
     (let t = strip_padding (filter (\<lambda>c. \<not> (is_ws c \<or> c = 0x0C)) s); vs = map b64_val t
      in if None \<in> set vs then Inl (JsError ''InvalidCharacterError'')
         else case sextets (map the vs) of
           None \<Rightarrow> Inl (JsError ''InvalidCharacterError'')
         | Some bs \<Rightarrow> Inr (map word_of_nat bs))"

definition AUTH_TOKEN_PREFIX :: jsstr where
  "AUTH_TOKEN_PREFIX = js ''base64url.bearer.phx.''"

text \<open>\<open>transportConnect\<close>: the subprotocols that carry the token; no token, no subprotocols.\<close>

definition auth_protocols :: "jsstr option \<Rightarrow> jsstr list option result" where
  "auth_protocols authToken = (case authToken of
      None \<Rightarrow> Inr None
    | Some t \<Rightarrow> if t = [] then Inr None
        else bindr (btoa t) (\<lambda>b. Inr (Some [js ''phoenix'', AUTH_TOKEN_PREFIX @ filter (\<lambda>c. c \<noteq> 0x3D) b])))"

text \<open>The long-poll constructor reads it back.\<close>

definition starts_with :: "jsstr \<Rightarrow> jsstr \<Rightarrow> bool" where
  "starts_with s p \<longleftrightarrow> take (length p) s = p"

definition longpoll_token :: "jsstr list option \<Rightarrow> jsstr option result" where
  "longpoll_token protocols = (case protocols of
      Some [_, p] \<Rightarrow> if starts_with p AUTH_TOKEN_PREFIX
        then bindr (atob (drop (length AUTH_TOKEN_PREFIX) p)) (\<lambda>t. Inr (Some t)) else Inr None
    | _ \<Rightarrow> Inr None)"

definition arrayBufferToBase64 :: "bytes \<Rightarrow> jsstr result" where
  "arrayBufferToBase64 buffer = btoa (map ucast buffer)"

section \<open>Endpoints\<close>

text \<open>\<open>s.replace(pat, rep)\<close> replaces the first occurrence.\<close>

fun replace_first :: "jsstr \<Rightarrow> jsstr \<Rightarrow> jsstr \<Rightarrow> jsstr" where
  "replace_first pat rep [] = (if pat = [] then rep else [])"
| "replace_first pat rep (c # cs) =
     (if starts_with (c # cs) pat then rep @ drop (length pat) (c # cs)
      else c # replace_first pat rep cs)"

text \<open>
  \<open>s.replace(/(.*)\/pat/, '$1/rep')\<close>: the greedy group makes it the last occurrence (URLs have no line
  breaks).
\<close>

fun replace_last :: "jsstr \<Rightarrow> jsstr \<Rightarrow> jsstr \<Rightarrow> jsstr option" where
  "replace_last pat rep [] = None"
| "replace_last pat rep (c # cs) = (case replace_last pat rep cs of
     Some r \<Rightarrow> Some (c # r)
   | None \<Rightarrow> if starts_with (c # cs) pat then Some (rep @ drop (length pat) (c # cs)) else None)"

definition normalizeEndpoint :: "jsstr \<Rightarrow> jsstr" where
  "normalizeEndpoint endPoint =
     (let e1 = replace_first (js ''ws://'') (js ''http://'') endPoint;
          e2 = replace_first (js ''wss://'') (js ''https://'') e1
      in case replace_last (js ''/websocket'') (js ''/longpoll'') e2 of Some r \<Rightarrow> r | None \<Rightarrow> e2)"

record location =
  loc_protocol :: jsstr
  loc_host :: jsstr

definition protocol :: "location \<Rightarrow> jsstr" where
  "protocol l = (if starts_with (loc_protocol l) (js ''https'') then js ''wss'' else js ''ws'')"

text \<open>\<open>charAt\<close> beyond the end is the empty string, never a slash.\<close>

definition endPointURL :: "location \<Rightarrow> jsstr \<Rightarrow> jsval \<Rightarrow> jsstr \<Rightarrow> jsstr result" where
  "endPointURL l endPoint params vsn =
     bindr (appendParams endPoint params) (\<lambda>u.
     bindr (appendParams u (Obj [(js ''vsn'', Str vsn)])) (\<lambda>uri.
       if take 1 uri \<noteq> [0x2F] then Inr uri
       else if take 1 (drop 1 uri) = [0x2F] then Inr (protocol l @ js '':'' @ uri)
       else Inr (protocol l @ js ''://'' @ loc_host l @ uri)))"

definition endpointURL :: "jsstr \<Rightarrow> jsval \<Rightarrow> jsstr result" where
  "endpointURL pollEndpoint token = appendParams pollEndpoint (Obj [(js ''token'', token)])"

section \<open>Base64 lemmas\<close>

lemma b64_val_char: "n < 64 \<Longrightarrow> b64_val (b64_char n) = Some n"
proof -
  assume "n < 64"
  moreover have "list_all (\<lambda>k. b64_val (b64_char k) = Some k) [0..<64]" by code_simp
  ultimately show ?thesis by (simp add: list_all_iff)
qed

lemma b64_val_special: "b64_val 0x3D = None" "is_ws c \<Longrightarrow> b64_val c = None" "b64_val 0x0C = None"
  by (auto simp: b64_val_def is_digit_def is_ws_def)

lemma b64_char_plain: "n < 64 \<Longrightarrow> b64_char n \<noteq> 0x3D \<and> \<not> is_ws (b64_char n) \<and> b64_char n \<noteq> 0x0C"
  using b64_val_char [of n] b64_val_special by fastforce

fun to_sextets :: "nat list \<Rightarrow> nat list" where
  "to_sextets [] = []"
| "to_sextets [a] = [a div 4, a mod 4 * 16]"
| "to_sextets [a, b] = [a div 4, a mod 4 * 16 + b div 16, b mod 16 * 4]"
| "to_sextets (a # b # c # r) =
     a div 4 # (a mod 4 * 16 + b div 16) # (b mod 16 * 4 + c div 64) # c mod 64 # to_sextets r"

lemma sextet_bounds:
  "a < 256 \<Longrightarrow> a div 4 < (64 :: nat)" "b < 256 \<Longrightarrow> a mod 4 * 16 + b div 16 < (64 :: nat)"
  "c < 256 \<Longrightarrow> b mod 16 * 4 + c div 64 < (64 :: nat)" "a mod 4 * 16 < (64 :: nat)" "b mod 16 * 4 < (64 :: nat)"
proof -
  have m: "a mod 4 < 4" "b mod 16 < 16" by simp_all
  then show "a mod 4 * 16 < (64 :: nat)" "b mod 16 * 4 < (64 :: nat)" by linarith+
  show "a div 4 < (64 :: nat)" if "a < 256" using that by simp
  show "a mod 4 * 16 + b div 16 < 64" if "b < 256"
  proof -
    have "b div 16 < 16" using that by simp
    with m show ?thesis by linarith
  qed
  show "b mod 16 * 4 + c div 64 < 64" if "c < 256"
  proof -
    have "c div 64 < 4" using that by simp
    with m show ?thesis by linarith
  qed
qed

lemma sextets_bounded: "list_all (\<lambda>b. b < 256) bs \<Longrightarrow> list_all (\<lambda>s. s < 64) (to_sextets bs)"
  by (induction bs rule: to_sextets.induct) (simp_all add: sextet_bounds)

lemma sextets_inverse: "list_all (\<lambda>b. b < 256) bs \<Longrightarrow> sextets (to_sextets bs) = Some bs"
proof (induction bs rule: to_sextets.induct)
  case (2 a)
  then show ?case using div_mult_mod_eq [of a 4] by simp
next
  case (3 a b)
  then have "a < 256" "b < 256" by simp_all
  then have "b div 16 < 16" by simp
  then show ?case
    using div_mult_mod_eq [of a 4] div_mult_mod_eq [of b 16] by (simp add: div_add1_eq)
next
  case (4 a b c r)
  then have "b < 256" "c < 256" by simp_all
  then have "b div 16 < 16" "c div 64 < 4" by simp_all
  from div_less [OF this(1)] mod_less [OF this(1)] div_less [OF this(2)] mod_less [OF this(2)] 4 show ?case
    using div_mult_mod_eq [of a 4] div_mult_mod_eq [of b 16] div_mult_mod_eq [of c 64]
    by (simp add: div_add1_eq)
qed simp

lemma b64_unpadded:
  "list_all (\<lambda>b. b < 256) bs \<Longrightarrow> filter (\<lambda>c. c \<noteq> 0x3D) (b64_groups bs) = map b64_char (to_sextets bs)"
  by (induction bs rule: to_sextets.induct) (simp_all add: sextet_bounds b64_char_plain)

lemma atob_unpadded:
  assumes "list_all (\<lambda>s. s < 64) ss"
  shows "atob (map b64_char ss) = (case sextets ss of None \<Rightarrow> Inl (JsError ''InvalidCharacterError'')
    | Some bs \<Rightarrow> Inr (map word_of_nat bs))"
proof -
  have "filter (\<lambda>c. \<not> (is_ws c \<or> c = 0x0C)) (map b64_char ss) = map b64_char ss"
    using assms by (intro filter_True) (auto simp: list_all_iff b64_char_plain)
  moreover have "strip_padding (map b64_char ss) = map b64_char ss"
    using assms by (cases ss rule: rev_cases) (auto simp: strip_padding_def b64_char_plain)
  moreover have "map b64_val (map b64_char ss) = map Some ss"
    using assms by (auto simp: list_all_iff b64_val_char)
  ultimately have "atob (map b64_char ss) = (if None \<in> set (map Some ss) then Inl (JsError ''InvalidCharacterError'')
      else case sextets (map the (map Some ss)) of None \<Rightarrow> Inl (JsError ''InvalidCharacterError'')
        | Some bs \<Rightarrow> Inr (map word_of_nat bs))"
    unfolding atob_def Let_def by presburger
  then show ?thesis by (simp add: comp_def)
qed

section \<open>Delimiters\<close>

text \<open>Splitting a string at a delimiter, as the receiving server does.\<close>

fun split_on :: "'a \<Rightarrow> 'a list \<Rightarrow> 'a list list" where
  "split_on c [] = [[]]"
| "split_on c (x # xs) = (if x = c then [] # split_on c xs
     else (case split_on c xs of [] \<Rightarrow> [[x]] | y # ys \<Rightarrow> (x # y) # ys))"

lemma split_on_ne [simp]: "split_on c xs \<noteq> []"
  by (cases xs) (auto split: list.splits)

lemma split_on_free: "c \<notin> set xs \<Longrightarrow> split_on c xs = [xs]"
  by (induction xs) auto

lemma split_on_append: "c \<notin> set xs \<Longrightarrow> split_on c (xs @ c # ys) = xs # split_on c ys"
  by (induction xs) auto

lemma split_sep_by:
  "xss \<noteq> [] \<Longrightarrow> list_all (\<lambda>xs. c \<notin> set xs) xss \<Longrightarrow> split_on c (sep_by c xss) = xss"
  by (induction c xss rule: sep_by.induct) (simp_all add: split_on_free split_on_append)

definition uri_safe :: "code_unit \<Rightarrow> bool" where
  "uri_safe c \<longleftrightarrow> uri_unreserved c \<or> c = 0x25"

lemma uri_safe_delims: "\<not> uri_safe 0x26" "\<not> uri_safe 0x3D" "\<not> uri_safe 0x3F" "\<not> uri_safe 0x23"
  by (auto simp: uri_safe_def uri_unreserved_def is_digit_def js_eval)

lemma upper_hex_safe: "n < 16 \<Longrightarrow> uri_safe (upper_hex n)"
proof -
  assume "n < 16"
  moreover have "list_all (\<lambda>k. uri_safe (upper_hex k)) [0..<16]" by code_simp
  ultimately show ?thesis by (simp add: list_all_iff)
qed

lemma percent_safe: "b < 256 \<Longrightarrow> list_all uri_safe (percent b)"
  by (simp add: percent_def upper_hex_safe) (simp add: uri_safe_def)

lemma utf8_bytes_bound: "cp < 0x110000 \<Longrightarrow> list_all (\<lambda>b. b < 256) (utf8_bytes cp)"
proof -
  assume "cp < 0x110000"
  then have "cp div 262144 < 5" by simp
  moreover have "cp < 0x800 \<Longrightarrow> cp div 64 < 32" "cp < 0x10000 \<Longrightarrow> cp div 4096 < 16" by simp_all
  moreover have "x mod 64 < 64" for x :: nat by simp
  ultimately show ?thesis by (auto simp: utf8_bytes_def intro: less_trans)
qed

lemma code_points_units: "u \<in> set (code_points s) \<Longrightarrow> (\<exists>c. u = [c]) \<or>
    (\<exists>c d. u = [c, d] \<and> is_high_surrogate c \<and> is_low_surrogate d)"
  by (induction s rule: code_points.induct) (auto split: if_splits)

lemma code_point_bound:
  assumes "u \<in> set (code_points s)"
  shows "code_point u < 0x110000"
  using code_points_units [OF assms]
proof
  assume "\<exists>c. u = [c]"
  then obtain c where "u = [c]" by blast
  moreover have "unat c < 2 ^ LENGTH(16)" by (rule unsigned_less)
  ultimately show ?thesis by (simp add: code_point_def)
next
  assume "\<exists>c d. u = [c, d] \<and> is_high_surrogate c \<and> is_low_surrogate d"
  then show ?thesis
    by (auto simp: code_point_def is_high_surrogate_def is_low_surrogate_def word_le_nat_alt)
qed

lemma encode_points_safe:
  "encode_points us = Inr r \<Longrightarrow> \<forall>u \<in> set us. code_point u < 0x110000 \<Longrightarrow> list_all uri_safe r"
proof (induction us arbitrary: r)
  case (Cons u us)
  then obtain r' where r': "encode_points us = Inr r'" "list_all uri_safe r'"
    "r = (if length u = 1 \<and> uri_unreserved (hd u) then u
          else concat (map percent (utf8_bytes (code_point u)))) @ r'"
    by (auto simp: bindr_eq_Inr_iff split: if_splits)
  have "list_all uri_safe (concat (map percent (utf8_bytes (code_point u))))"
    using utf8_bytes_bound [of "code_point u"] Cons.prems(2) percent_safe
    by (force simp: list_all_iff)
  moreover have "uri_unreserved c \<Longrightarrow> uri_safe c" for c by (simp add: uri_safe_def)
  ultimately show ?case using r' by (cases u) auto
qed simp

lemma encodeURIComponent_safe: "encodeURIComponent s = Inr r \<Longrightarrow> list_all uri_safe r"
  unfolding encodeURIComponent_def by (rule encode_points_safe) (auto intro: code_point_bound)

lemma safe_no_delim: "list_all uri_safe r \<Longrightarrow> 0x26 \<notin> set r \<and> 0x3D \<notin> set r"
  using uri_safe_delims by (auto simp: list_all_iff)

lemma join_results_pairs:
  assumes "join_results (map (\<lambda>(k, v). ser_pair k v) kvs) = Inr ps"
  shows "\<exists>ws. ps = map (\<lambda>(k, w). k @ 0x3D # w) ws
    \<and> map (\<lambda>(k, w). (Inr k, Inr w)) ws = map (\<lambda>(k, v). (encodeURIComponent k, encodeURIComponent (prim_str v))) kvs
    \<and> list_all (\<lambda>(k, w). list_all uri_safe k \<and> list_all uri_safe w) ws"
  using assms
proof (induction kvs arbitrary: ps)
  case (Cons kv kvs)
  obtain k v where kv: "kv = (k, v)" by (cases kv)
  from Cons.prems obtain x w qs where x: "encodeURIComponent k = Inr x" "encodeURIComponent (prim_str v) = Inr w"
    "join_results (map (\<lambda>(k, v). ser_pair k v) kvs) = Inr qs" "ps = (x @ 0x3D # w) # qs"
    by (auto simp: kv ser_pair_def bindr_eq_Inr_iff)
  from Cons.IH [OF x(3)] obtain ws where "qs = map (\<lambda>(k, w). k @ 0x3D # w) ws"
    "map (\<lambda>(k, w). (Inr k, Inr w)) ws = map (\<lambda>(k, v). (encodeURIComponent k, encodeURIComponent (prim_str v))) kvs"
    "list_all (\<lambda>(k, w). list_all uri_safe k \<and> list_all uri_safe w) ws" by blast
  with x encodeURIComponent_safe show ?case
    by (intro exI [of _ "(x, w) # ws"]) (auto simp: kv)
qed simp

section \<open>Properties\<close>

text \<open>
  The auth token reaches the long-poll transport intact: for every non-empty token of code units
  below 256, the subprotocols \<open>transportConnect\<close> offers decode to that token, although the padding was removed.
\<close>

theorem auth_token_roundtrip:
  assumes "t \<noteq> []" "list_all (\<lambda>c. c < 256) t"
  shows "\<exists>ps. auth_protocols (Some t) = Inr ps \<and> longpoll_token ps = Inr (Some t)"
proof -
  have bs: "list_all (\<lambda>b. b < 256) (map unat t)"
    using assms(2) by (auto simp: list_all_iff word_less_nat_alt)
  have "atob (filter (\<lambda>c. c \<noteq> 0x3D) (b64_groups (map unat t))) = Inr t"
    unfolding b64_unpadded [OF bs] atob_unpadded [OF sextets_bounded [OF bs]]
    by (simp add: sextets_inverse [OF bs] comp_def)
  with assms show ?thesis by (simp add: auth_protocols_def btoa_def longpoll_token_def starts_with_def)
qed

theorem auth_token_roundtrip_witness:
  "\<exists>ps. auth_protocols (Some (js ''se'')) = Inr ps \<and> longpoll_token ps = Inr (Some (js ''se''))"
  by (rule auth_token_roundtrip) (simp_all add: js_eval)



end
