(* ===== verification/Phx_LongPoll.thy ===== *)
theory Phx_LongPoll
  imports Phx_Ajax
begin

text \<open>
  The long-poll transport (\<open>longpoll.js\<close>) as a state machine.  Its state is the object's fields and the
  requests in flight; the environment completes requests, runs due timers and the message tasks, and
  the owner calls \<open>send\<close> and \<open>close\<close>.  Calls of the handlers the socket installs (\<open>onopen\<close>,
  \<open>onerror\<close>, \<open>onmessage\<close>, \<open>onclose\<close>) are recorded in order; the reaction of the socket to them is
  modelled with the socket.  What a request implementation does on completion, timeout and abort is
  \<open>ajax_calls\<close>.
\<close>

section \<open>State\<close>

datatype ready_state = Connecting | Open | Closing | Closed

datatype lp_req = PollReq | BatchReq

datatype lp_event =
    EOpen
  | EError jsval
  | EMessage jsval
  | EClose "nat option" jsstr    \<comment> \<open>code (\<open>None\<close>: undefined) and reason\<close>
  | EThrow exn                    \<comment> \<open>an exception left a callback\<close>

record longpoll =
  lp_token :: jsval
  lp_readyState :: ready_state
  lp_awaitingBatchAck :: bool
  lp_currentBatch :: "jsstr list option"
  lp_batchTimer :: bool            \<comment> \<open>\<open>currentBatchTimer\<close> is pending\<close>
  lp_batchBuffer :: "jsstr list"
  lp_reqs :: "(nat \<times> lp_req) list"
  lp_nextReq :: nat
  lp_pollTimer :: bool             \<comment> \<open>the constructor's \<open>setTimeout(poll, 0)\<close> is pending\<close>
  lp_tasks :: "jsval list"         \<comment> \<open>messages whose \<open>onmessage\<close> task is due\<close>
  lp_posted :: "jsstr list list"   \<comment> \<open>batches handed to a POST, oldest first\<close>
  lp_events :: "lp_event list"

definition lp_new :: longpoll where
  "lp_new = \<lparr>lp_token = Null, lp_readyState = Connecting, lp_awaitingBatchAck = False, lp_currentBatch = None,
     lp_batchTimer = False, lp_batchBuffer = [], lp_reqs = [], lp_nextReq = 0, lp_pollTimer = True,
     lp_tasks = [], lp_posted = [], lp_events = []\<rparr>"

definition emit :: "lp_event \<Rightarrow> longpoll \<Rightarrow> longpoll" where
  "emit e lp = lp\<lparr>lp_events := lp_events lp @ [e]\<rparr>"

definition isActive :: "longpoll \<Rightarrow> bool" where
  "isActive lp \<longleftrightarrow> lp_readyState lp = Open \<or> lp_readyState lp = Connecting"

section \<open>Requests\<close>

definition ajax :: "lp_req \<Rightarrow> longpoll \<Rightarrow> longpoll" where
  "ajax q lp = lp\<lparr>lp_reqs := lp_reqs lp @ [(lp_nextReq lp, q)], lp_nextReq := Suc (lp_nextReq lp)\<rparr>"

definition poll :: "longpoll \<Rightarrow> longpoll" where
  "poll lp = ajax PollReq lp"

definition batchSend :: "jsstr list \<Rightarrow> longpoll \<Rightarrow> longpoll" where
  "batchSend messages lp =
     ajax BatchReq (lp\<lparr>lp_awaitingBatchAck := True, lp_posted := lp_posted lp @ [messages]\<rparr>)"

text \<open>The body of the POST.\<close>

definition ndjson :: "jsstr list \<Rightarrow> jsstr" where
  "ndjson messages = sep_by 0x0A messages"

definition send_body :: "frame \<Rightarrow> jsstr result" where
  "send_body f = (case f of Text t \<Rightarrow> Inr t | Binary b \<Rightarrow> arrayBufferToBase64 b)"

definition lp_send :: "jsstr \<Rightarrow> longpoll \<Rightarrow> longpoll" where
  "lp_send body lp = (case lp_currentBatch lp of
      Some b \<Rightarrow> lp\<lparr>lp_currentBatch := Some (b @ [body])\<rparr>
    | None \<Rightarrow> if lp_awaitingBatchAck lp then lp\<lparr>lp_batchBuffer := lp_batchBuffer lp @ [body]\<rparr>
              else lp\<lparr>lp_currentBatch := Some [body], lp_batchTimer := True\<rparr>)"

definition batch_timer :: "longpoll \<Rightarrow> longpoll" where
  "batch_timer lp =
     (if lp_batchTimer lp
      then (let lp1 = lp\<lparr>lp_batchTimer := False\<rparr>
            in case lp_currentBatch lp1 of
                 Some b \<Rightarrow> (batchSend b lp1)\<lparr>lp_currentBatch := None\<rparr>
               | None \<Rightarrow> emit (EThrow TypeError) (lp1\<lparr>lp_awaitingBatchAck := True\<rparr>))
      else lp)"

section \<open>Closing\<close>

text \<open>
  \<open>close\<close> aborts the requests first, while the transport still counts as active: an
  \<open>XMLHttpRequest\<close> then runs its callback with \<open>null\<close>, which closes again.  Each nested call has one
  request less, so a depth of twice their number suffices; the model throws when it is exceeded.
\<close>

definition close_finish :: "nat option \<Rightarrow> jsstr \<Rightarrow> longpoll \<Rightarrow> longpoll" where
  "close_finish code reason lp =
     emit (EClose code reason) (lp\<lparr>lp_readyState := Closed, lp_batchBuffer := [], lp_batchTimer := False\<rparr>)"

definition reason_500 :: jsstr where "reason_500 = js ''internal server error''"

fun lp_close :: "nat \<Rightarrow> ajax_kind \<Rightarrow> nat option \<Rightarrow> jsstr \<Rightarrow> longpoll \<Rightarrow> longpoll"
  and abort_all :: "nat \<Rightarrow> ajax_kind \<Rightarrow> longpoll \<Rightarrow> longpoll"
  and closeAndRetry :: "nat \<Rightarrow> ajax_kind \<Rightarrow> nat option \<Rightarrow> jsstr \<Rightarrow> longpoll \<Rightarrow> longpoll" where
  "lp_close 0 k code reason lp = emit (EThrow (JsError ''RangeError'')) lp"
| "lp_close (Suc n) k code reason lp =
     close_finish code reason (if k = Xhr then abort_all n k lp else lp)"
| "abort_all 0 k lp = (if lp_reqs lp = [] then lp else emit (EThrow (JsError ''RangeError'')) lp)"
| "abort_all (Suc n) k lp = (case lp_reqs lp of
     [] \<Rightarrow> lp
   | (_, q) # rest \<Rightarrow>
       (let lp1 = lp\<lparr>lp_reqs := rest\<rparr>;
            lp2 = (if isActive lp1
                   then (case q of
                       PollReq \<Rightarrow> closeAndRetry n k (Some 1011) reason_500 (emit (EError (jsn 500)) lp1)
                     | BatchReq \<Rightarrow> closeAndRetry n k (Some 1011) reason_500
                         (emit (EError Null) (lp1\<lparr>lp_awaitingBatchAck := False\<rparr>)))
                   else lp1)
        in abort_all n k lp2))"
| "closeAndRetry 0 k code reason lp = emit (EThrow (JsError ''RangeError'')) lp"
| "closeAndRetry (Suc n) k code reason lp = (lp_close n k code reason lp)\<lparr>lp_readyState := Connecting\<rparr>"

definition close_fuel :: "longpoll \<Rightarrow> nat" where
  "close_fuel lp = 3 * length (lp_reqs lp) + 3"

abbreviation "do_close k code reason lp \<equiv> lp_close (close_fuel lp) k code reason lp"
abbreviation "do_closeAndRetry k code reason lp \<equiv> closeAndRetry (Suc (close_fuel lp)) k code reason lp"

section \<open>Completion of requests\<close>

definition ontimeout :: "ajax_kind \<Rightarrow> longpoll \<Rightarrow> longpoll" where
  "ontimeout k lp = do_closeAndRetry k (Some 1005) (js ''timeout'') (emit (EError (Str (js ''timeout''))) lp)"

text \<open>The callback of a poll.  A truthy response that is not an object has no status.\<close>

definition poll_response :: "ajax_kind \<Rightarrow> jsval \<Rightarrow> longpoll \<Rightarrow> longpoll" where
  "poll_response k resp lp0 =
     (let status = (if truthy resp then get_opt resp (js ''status'') else jsn 0)
      in if truthy resp \<and> status = jsn 410 \<and> lp_token lp0 \<noteq> Null
         then do_closeAndRetry k (Some 3410) (js ''session_gone'') (emit (EError (jsn 410)) lp0)
         else (let lp = (if truthy resp then lp0\<lparr>lp_token := get_opt resp (js ''token'')\<rparr> else lp0)
           in if status = jsn 200 then
                (case get_opt resp (js ''messages'') of
                   Arr ms \<Rightarrow> poll (lp\<lparr>lp_tasks := lp_tasks lp @ ms\<rparr>)
                 | _ \<Rightarrow> emit (EThrow TypeError) lp)
              else if status = jsn 204 then poll lp
              else if status = jsn 410 then poll (emit EOpen (lp\<lparr>lp_readyState := Open\<rparr>))
              else if status = jsn 403 then do_close k (Some 1008) (js ''forbidden'') (emit (EError (jsn 403)) lp)
              else if status = jsn 0 \<or> status = jsn 500
              then do_closeAndRetry k (Some 1011) reason_500 (emit (EError (jsn 500)) lp)
              else emit (EThrow (JsError ''unhandled poll status'')) lp))"

definition batch_response :: "ajax_kind \<Rightarrow> jsval \<Rightarrow> longpoll \<Rightarrow> longpoll" where
  "batch_response k resp lp0 =
     (let lp = lp0\<lparr>lp_awaitingBatchAck := False\<rparr>
      in if \<not> truthy resp \<or> get_opt resp (js ''status'') \<noteq> jsn 200
         then do_closeAndRetry k (Some 1011) reason_500
                (emit (EError (if truthy resp then get_opt resp (js ''status'') else resp)) lp)
         else if lp_batchBuffer lp \<noteq> []
         then (batchSend (lp_batchBuffer lp) lp)\<lparr>lp_batchBuffer := []\<rparr>
         else lp)"

definition del_req :: "nat \<Rightarrow> longpoll \<Rightarrow> longpoll" where
  "del_req r lp = lp\<lparr>lp_reqs := filter (\<lambda>(r', _). r' \<noteq> r) (lp_reqs lp)\<rparr>"

fun ajax_call :: "ajax_kind \<Rightarrow> nat \<Rightarrow> lp_req \<Rightarrow> ajax_call \<Rightarrow> longpoll \<Rightarrow> longpoll" where
  "ajax_call k r q (Callback resp) lp =
     (let lp1 = del_req r lp
      in if isActive lp1
         then (case q of PollReq \<Rightarrow> poll_response k resp lp1 | BatchReq \<Rightarrow> batch_response k resp lp1)
         else lp1)"
| "ajax_call k r q OnTimeout lp =
     (let lp1 = del_req r lp
      in case q of PollReq \<Rightarrow> ontimeout k lp1 | BatchReq \<Rightarrow> emit (EError (Str (js ''timeout''))) lp1)"

text \<open>
  The \<open>catch\<close> of a \<open>fetch\<close> runs the callback of a response again, with \<open>null\<close>, when it threw; no other call is caught.
\<close>

definition call_threw :: "longpoll \<Rightarrow> longpoll \<Rightarrow> bool" where
  "call_threw lp lp' \<longleftrightarrow> list_ex (\<lambda>e. case e of EThrow _ \<Rightarrow> True | _ \<Rightarrow> False) (drop (length (lp_events lp)) (lp_events lp'))"

definition caught :: "ajax_kind \<Rightarrow> outcome \<Rightarrow> longpoll \<Rightarrow> longpoll \<Rightarrow> bool" where
  "caught k res lp lp' \<longleftrightarrow> k = Fetch \<and> (case res of Loaded _ \<Rightarrow> True | _ \<Rightarrow> False) \<and> call_threw lp lp'"

definition complete :: "ajax_kind \<Rightarrow> nat \<Rightarrow> outcome \<Rightarrow> longpoll \<Rightarrow> longpoll" where
  "complete k r res lp = (case map_of (lp_reqs lp) r of
      None \<Rightarrow> lp
    | Some q \<Rightarrow>
        (let lp' = foldl (\<lambda>s c. ajax_call k r q c s) lp (ajax_calls k res)
         in if caught k res lp lp' then ajax_call k r q (Callback Null) lp' else lp'))"

section \<open>Runs\<close>

datatype lp_op =
    Send jsstr
  | Close "nat option" jsstr
  | BatchTimer
  | PollTimer
  | Complete nat outcome
  | MessageTask

fun lp_step :: "ajax_kind \<Rightarrow> longpoll \<Rightarrow> lp_op \<Rightarrow> longpoll" where
  "lp_step k lp (Send body) = lp_send body lp"
| "lp_step k lp (Close code reason) = do_close k code reason lp"
| "lp_step k lp BatchTimer = batch_timer lp"
| "lp_step k lp PollTimer = (if lp_pollTimer lp then poll (lp\<lparr>lp_pollTimer := False\<rparr>) else lp)"
| "lp_step k lp (Complete r res) = complete k r res lp"
| "lp_step k lp MessageTask = (case lp_tasks lp of [] \<Rightarrow> lp
     | m # ms \<Rightarrow> emit (EMessage m) (lp\<lparr>lp_tasks := ms\<rparr>))"

abbreviation lp_run :: "ajax_kind \<Rightarrow> longpoll \<Rightarrow> lp_op list \<Rightarrow> longpoll" where
  "lp_run k \<equiv> foldl (lp_step k)"

section \<open>Batching\<close>

text \<open>The messages accepted by \<open>send\<close> and not yet handed to a POST.\<close>

definition waiting :: "longpoll \<Rightarrow> jsstr list" where
  "waiting lp = (case lp_currentBatch lp of Some b \<Rightarrow> b | None \<Rightarrow> []) @ lp_batchBuffer lp"

definition closed_once :: "longpoll \<Rightarrow> bool" where
  "closed_once lp \<longleftrightarrow> (\<exists>c r. EClose c r \<in> set (lp_events lp)) \<or> (\<exists>e. EThrow e \<in> set (lp_events lp))"

definition batch_inv :: "longpoll \<Rightarrow> bool" where
  "batch_inv lp \<longleftrightarrow> (lp_awaitingBatchAck lp \<longrightarrow> lp_currentBatch lp = None)
     \<and> (\<not> lp_awaitingBatchAck lp \<longrightarrow> lp_batchBuffer lp = [])
     \<and> (lp_batchTimer lp \<longleftrightarrow> lp_currentBatch lp \<noteq> None)
     \<and> (\<forall>r. (r, BatchReq) \<in> set (lp_reqs lp) \<longrightarrow> lp_awaitingBatchAck lp
          \<and> (\<forall>r'. (r', BatchReq) \<in> set (lp_reqs lp) \<longrightarrow> r' = r))"

fun sent_by :: "lp_op list \<Rightarrow> jsstr list" where
  "sent_by [] = []"
| "sent_by (Send b # xs) = b # sent_by xs"
| "sent_by (_ # xs) = sent_by xs"

lemma emit_frame [frame_simps, simp]:
  "lp_token (emit e lp) = lp_token lp" "lp_readyState (emit e lp) = lp_readyState lp"
  "lp_awaitingBatchAck (emit e lp) = lp_awaitingBatchAck lp" "lp_currentBatch (emit e lp) = lp_currentBatch lp"
  "lp_batchTimer (emit e lp) = lp_batchTimer lp" "lp_batchBuffer (emit e lp) = lp_batchBuffer lp"
  "lp_reqs (emit e lp) = lp_reqs lp" "lp_pollTimer (emit e lp) = lp_pollTimer lp"
  "lp_posted (emit e lp) = lp_posted lp" "lp_events (emit e lp) = lp_events lp @ [e]"
  by (simp_all add: emit_def)

lemma ajax_frame [frame_simps, simp]:
  "lp_awaitingBatchAck (ajax q lp) = lp_awaitingBatchAck lp" "lp_currentBatch (ajax q lp) = lp_currentBatch lp"
  "lp_batchTimer (ajax q lp) = lp_batchTimer lp" "lp_batchBuffer (ajax q lp) = lp_batchBuffer lp"
  "lp_posted (ajax q lp) = lp_posted lp" "lp_events (ajax q lp) = lp_events lp"
  "lp_pollTimer (ajax q lp) = lp_pollTimer lp" "lp_readyState (ajax q lp) = lp_readyState lp"
  "lp_reqs (ajax q lp) = lp_reqs lp @ [(lp_nextReq lp, q)]"
  by (simp_all add: ajax_def)

text \<open>Closing always leaves a trace.\<close>

lemma closed_once_emit [simp]:
  "closed_once (emit e lp) \<longleftrightarrow> closed_once lp \<or> (\<exists>c r. e = EClose c r) \<or> (\<exists>x. e = EThrow x)"
  by (auto simp: closed_once_def)

lemma closed_once_cong: "lp_events lp' = lp_events lp \<Longrightarrow> closed_once lp' = closed_once lp"
  by (simp add: closed_once_def)

lemma closed_once_updates [simp]:
  "closed_once (lp\<lparr>lp_readyState := s\<rparr>) = closed_once lp" "closed_once (lp\<lparr>lp_awaitingBatchAck := b\<rparr>) = closed_once lp"
  "closed_once (lp\<lparr>lp_currentBatch := cb\<rparr>) = closed_once lp" "closed_once (lp\<lparr>lp_batchTimer := b\<rparr>) = closed_once lp"
  "closed_once (lp\<lparr>lp_batchBuffer := bb\<rparr>) = closed_once lp" "closed_once (lp\<lparr>lp_reqs := rq\<rparr>) = closed_once lp"
  "closed_once (lp\<lparr>lp_pollTimer := b\<rparr>) = closed_once lp" "closed_once (lp\<lparr>lp_tasks := ts\<rparr>) = closed_once lp"
  "closed_once (lp\<lparr>lp_token := tk\<rparr>) = closed_once lp" "closed_once (lp\<lparr>lp_posted := ps\<rparr>) = closed_once lp"
  "closed_once (ajax q lp) = closed_once lp"
  by (simp_all add: closed_once_def)

lemma close_closed [simp]: "closed_once (lp_close n k c r lp)"
  by (cases n) (simp_all add: close_finish_def)

lemma closeAndRetry_closed [simp]: "closed_once (closeAndRetry n k c r lp)"
  by (cases n) simp_all

lemma response_mono:
  "closed_once lp \<Longrightarrow> closed_once (poll_response k resp lp)"
  "closed_once lp \<Longrightarrow> closed_once (batch_response k resp lp)"
  by (simp_all add: poll_response_def batch_response_def batchSend_def poll_def Let_def split: jsval.splits)

lemma ajax_call_mono: "closed_once lp \<Longrightarrow> closed_once (ajax_call k r q c lp)"
  by (cases c) (auto simp: Let_def del_req_def ontimeout_def response_mono split: lp_req.splits)

lemma caught_closed:
  assumes "caught k res lp lp'"
  shows "closed_once lp'"
proof -
  obtain x where "x \<in> set (drop (length (lp_events lp)) (lp_events lp'))" and t: "case x of EThrow _ \<Rightarrow> True | _ \<Rightarrow> False"
    using assms by (auto simp: caught_def call_threw_def list_ex_iff)
  then have "x \<in> set (lp_events lp')" by (blast dest: in_set_dropD)
  with t show ?thesis by (cases x) (auto simp: closed_once_def)
qed

lemma step_mono: "closed_once lp \<Longrightarrow> closed_once (lp_step k lp x)"
proof (cases x)
  case (Complete r res)
  have "closed_once s \<Longrightarrow> closed_once (foldl (\<lambda>s c. ajax_call k r q c s) s cs)" for s q cs
    by (induction cs arbitrary: s) (simp_all add: ajax_call_mono)
  with Complete show "closed_once lp \<Longrightarrow> ?thesis" by (simp add: complete_def Let_def ajax_call_mono del: ajax_call.simps split: option.splits)
qed (auto simp: lp_send_def batch_timer_def batchSend_def poll_def Let_def split: option.splits list.splits)

text \<open>
  While nothing went wrong, the batches posted and the messages waiting are together the messages
  sent, in order; at most one batch is unacknowledged.
\<close>

definition delivered :: "jsstr list \<Rightarrow> longpoll \<Rightarrow> bool" where
  "delivered sent lp \<longleftrightarrow> closed_once lp \<or> (batch_inv lp \<and> concat (lp_posted lp) @ waiting lp = sent)"

lemma delivered_send: "delivered sent lp \<Longrightarrow> delivered (sent @ [b]) (lp_send b lp)"
  by (auto simp: delivered_def lp_send_def batch_inv_def waiting_def split: option.splits)

lemma delivered_timer: "delivered sent lp \<Longrightarrow> delivered sent (batch_timer lp)"
  by (auto simp: delivered_def batch_timer_def batchSend_def batch_inv_def waiting_def split: option.splits)

lemma delivered_poll: "delivered sent lp \<Longrightarrow> delivered sent (poll lp)"
  by (auto simp: delivered_def poll_def batch_inv_def waiting_def)

lemma delivered_frame:
  "delivered sent lp \<Longrightarrow> delivered sent (lp\<lparr>lp_token := t\<rparr>)"
  "delivered sent lp \<Longrightarrow> delivered sent (lp\<lparr>lp_readyState := s\<rparr>)"
  "delivered sent lp \<Longrightarrow> delivered sent (lp\<lparr>lp_tasks := ts\<rparr>)"
  "delivered sent lp \<Longrightarrow> delivered sent (lp\<lparr>lp_pollTimer := b\<rparr>)"
  "delivered sent lp \<Longrightarrow> delivered sent (emit e lp)"
  "delivered sent lp \<Longrightarrow> delivered sent (del_req r lp)"
  by (auto simp: delivered_def batch_inv_def waiting_def del_req_def)

lemma delivered_closed: "closed_once lp \<Longrightarrow> delivered sent lp"
  by (simp add: delivered_def)

lemma delivered_poll_response: "delivered sent lp \<Longrightarrow> delivered sent (poll_response k resp lp)"
  by (auto simp: poll_response_def Let_def delivered_closed
      intro!: delivered_poll delivered_frame split: jsval.splits)

lemma delivered_batch_response:
  assumes "delivered sent lp" "\<forall>r. (r, BatchReq) \<notin> set (lp_reqs lp)"
  shows "delivered sent (batch_response k resp lp)"
  using assms
  by (auto simp: batch_response_def batchSend_def Let_def delivered_def batch_inv_def waiting_def split: option.splits)

lemma delivered_ajax_call:
  assumes "delivered sent lp" "closed_once lp \<or> (r, q) \<in> set (lp_reqs lp)"
  shows "delivered sent (ajax_call k r q c lp)"
proof (cases "closed_once lp")
  case True
  then show ?thesis by (intro delivered_closed ajax_call_mono)
next
  case False
  then have inv: "batch_inv lp" "(r, q) \<in> set (lp_reqs lp)" using assms by (auto simp: delivered_def)
  have del: "delivered sent (del_req r lp)" by (rule delivered_frame(6) [OF assms(1)])
  have none: "(r', BatchReq) \<notin> set (lp_reqs (del_req r lp))" if "q = BatchReq" for r'
    using inv that by (auto simp: batch_inv_def del_req_def)
  show ?thesis
  proof (cases c)
    case (Callback resp)
    then show ?thesis
      using del none by (simp add: Let_def delivered_poll_response delivered_batch_response split: lp_req.splits)
  next
    case OnTimeout
    then show ?thesis
      using del by (simp add: Let_def ontimeout_def delivered_closed delivered_frame(5) split: lp_req.splits)
  qed
qed

text \<open>Only a failing request makes more than one call, and its first call closes the transport.\<close>

lemma ajax_calls_shape:
  "ajax_calls k res = [] \<or> (\<exists>c. ajax_calls k res = [c])
    \<or> (k = Xhr \<and> (\<exists>c. ajax_calls k res = [Callback Null, c]))"
  by (cases k; cases res) (simp_all add: parseJSON_def)

lemma null_response_closes:
  "closed_once lp \<or> isActive lp \<Longrightarrow> closed_once (ajax_call k r q (Callback Null) lp)"
  by (auto simp: Let_def isActive_def del_req_def poll_response_def batch_response_def split: lp_req.splits)

text \<open>So what holds after the calls of an outcome, and of every closed transport, holds after its completion.\<close>

lemma complete_cases:
  assumes "map_of (lp_reqs lp) r = Some q" "P (foldl (\<lambda>s c. ajax_call k r q c s) lp (ajax_calls k res))" "\<And>lp'. closed_once lp' \<Longrightarrow> P lp'"
  shows "P (complete k r res lp)"
  using assms caught_closed ajax_call_mono by (simp add: complete_def Let_def del: ajax_call.simps)

lemma delivered_complete: "delivered sent lp \<Longrightarrow> isActive lp \<or> closed_once lp \<Longrightarrow> delivered sent (complete k r res lp)"
proof (cases "map_of (lp_reqs lp) r")
  case (Some q)
  assume del: "delivered sent lp" and act: "isActive lp \<or> closed_once lp"
  have q: "closed_once lp \<or> (r, q) \<in> set (lp_reqs lp)" using map_of_SomeD [OF Some] by simp
  consider "ajax_calls k res = []" | c where "ajax_calls k res = [c]"
    | c where "ajax_calls k res = [Callback Null, c]"
    using ajax_calls_shape by blast
  then show ?thesis
  proof cases
    case 1
    then show ?thesis using del by (intro complete_cases [where P = "delivered sent", OF Some]) (simp_all add: delivered_closed del: ajax_call.simps)
  next
    case 2
    then show ?thesis using delivered_ajax_call [OF del q] by (intro complete_cases [where P = "delivered sent", OF Some]) (simp_all add: delivered_closed del: ajax_call.simps)
  next
    case (3 c)
    have "closed_once (ajax_call k r q (Callback Null) lp)" using null_response_closes act by blast
    with 3 show ?thesis by (intro complete_cases [where P = "delivered sent", OF Some]) (simp_all add: delivered_closed ajax_call_mono del: ajax_call.simps)
  qed
qed (simp add: complete_def)

text \<open>The transport only becomes inactive by closing.\<close>

definition live :: "longpoll \<Rightarrow> bool" where
  "live lp \<longleftrightarrow> isActive lp \<or> closed_once lp"

lemma live_intros: "closed_once lp \<Longrightarrow> live lp" "live lp \<Longrightarrow> live (emit e lp)" "live lp \<Longrightarrow> live (del_req r lp)"
  by (auto simp: live_def isActive_def del_req_def)

lemma live_response:
  "live lp \<Longrightarrow> live (poll_response k resp lp)" "live lp \<Longrightarrow> live (batch_response k resp lp)"
  by (simp_all add: live_def isActive_def poll_response_def batch_response_def batchSend_def poll_def Let_def
      split: jsval.splits)

lemma live_ajax_call: "live lp \<Longrightarrow> live (ajax_call k r q c lp)"
  by (cases c) (auto simp: Let_def ontimeout_def live_response live_intros split: lp_req.splits)

lemma live_step: "live lp \<Longrightarrow> live (lp_step k lp x)"
proof (cases x)
  case (Complete r res)
  have "live s \<Longrightarrow> live (foldl (\<lambda>s c. ajax_call k r q c s) s cs)" for s q cs
    by (induction cs arbitrary: s) (simp_all add: live_ajax_call)
  with Complete show "live lp \<Longrightarrow> ?thesis" by (simp add: complete_def Let_def live_ajax_call del: ajax_call.simps split: option.splits)
qed (auto simp: live_def isActive_def lp_send_def batch_timer_def batchSend_def poll_def Let_def
    split: option.splits list.splits)

lemma delivered_step:
  assumes "delivered sent lp" "live lp"
  shows "delivered (sent @ sent_by [x]) (lp_step k lp x)"
  using assms
  by (cases x) (auto simp: delivered_send delivered_timer delivered_closed live_def delivered_complete
      intro!: delivered_poll delivered_frame split: list.splits)

lemma sent_by_append: "sent_by (xs @ ys) = sent_by xs @ sent_by ys"
  by (induction xs rule: sent_by.induct) simp_all

lemma delivered_run: "delivered (sent_by xs) (lp_run k lp_new xs) \<and> live (lp_run k lp_new xs)"
proof (induction xs rule: rev_induct)
  case Nil
  then show ?case by (simp add: delivered_def live_def isActive_def batch_inv_def waiting_def lp_new_def)
next
  case (snoc x xs)
  then show ?case using delivered_step [of "sent_by xs" _ x] live_step by (simp add: sent_by_append)
qed

section \<open>Depth of the nested closes\<close>

abbreviation throws :: "lp_event list \<Rightarrow> exn set" where
  "throws es \<equiv> {e. EThrow e \<in> set es}"

definition quiet :: "longpoll \<Rightarrow> longpoll \<Rightarrow> bool" where
  "quiet lp lp' \<longleftrightarrow> throws (lp_events lp') = throws (lp_events lp) \<and> lp_reqs lp' = []"

definition null_response :: "lp_req \<Rightarrow> longpoll \<Rightarrow> longpoll" where
  "null_response q lp = (case q of PollReq \<Rightarrow> emit (EError (jsn 500)) lp
     | BatchReq \<Rightarrow> emit (EError Null) (lp\<lparr>lp_awaitingBatchAck := False\<rparr>))"

lemma abort_all_Cons:
  "lp_reqs lp = (r, q) # rest \<Longrightarrow> abort_all (Suc n) k lp = abort_all n k
     (let lp1 = lp\<lparr>lp_reqs := rest\<rparr>
      in if isActive lp1 then closeAndRetry n k (Some 1011) reason_500 (null_response q lp1) else lp1)"
  by (cases q) (simp_all add: null_response_def Let_def)

lemma null_response_frame [simp]:
  "lp_reqs (null_response q lp) = lp_reqs lp" "throws (lp_events (null_response q lp)) = throws (lp_events lp)"
  by (simp_all add: null_response_def split: lp_req.splits)

lemma close_enough_Xhr:
  "(\<forall>lp c r. 3 * length (lp_reqs lp) + 1 \<le> n \<longrightarrow> quiet lp (lp_close n Xhr c r lp))
   \<and> (\<forall>lp. 3 * length (lp_reqs lp) \<le> n \<longrightarrow> quiet lp (abort_all n Xhr lp))
   \<and> (\<forall>lp c r. 3 * length (lp_reqs lp) + 2 \<le> n \<longrightarrow> quiet lp (closeAndRetry n Xhr c r lp))"
proof (induction n)
  case (Suc n)
  have "quiet lp (lp_close (Suc n) Xhr c r lp)" if "3 * length (lp_reqs lp) + 1 \<le> Suc n" for lp c r
    using Suc that by (simp add: quiet_def close_finish_def)
  moreover have "quiet lp (abort_all (Suc n) Xhr lp)" if le: "3 * length (lp_reqs lp) \<le> Suc n" for lp
  proof (cases "lp_reqs lp")
    case Nil
    then show ?thesis by (simp add: quiet_def)
  next
    case (Cons x rest)
    obtain r q where x: "lp_reqs lp = (r, q) # rest" using Cons by (cases x) simp
    define lp1 where "lp1 = lp\<lparr>lp_reqs := rest\<rparr>"
    define lp2 where "lp2 = (if isActive lp1 then closeAndRetry n Xhr (Some 1011) reason_500 (null_response q lp1) else lp1)"
    have lp1: "3 * length (lp_reqs lp1) + 2 \<le> n" "lp_events lp1 = lp_events lp" using le x by (simp_all add: lp1_def)
    have "throws (lp_events lp2) = throws (lp_events lp) \<and> (lp_reqs lp2 = [] \<or> lp2 = lp1)"
      using Suc lp1 by (simp add: lp2_def quiet_def)
    moreover from this lp1 have "quiet lp2 (abort_all n Xhr lp2)" using Suc by auto
    moreover have "abort_all (Suc n) Xhr lp = abort_all n Xhr lp2"
      unfolding abort_all_Cons [OF x] Let_def lp2_def lp1_def ..
    ultimately show ?thesis by (simp add: quiet_def)
  qed
  moreover have "quiet lp (closeAndRetry (Suc n) Xhr c r lp)" if "3 * length (lp_reqs lp) + 2 \<le> Suc n" for lp c r
    using Suc that by (simp add: quiet_def)
  ultimately show ?case by blast
qed (simp add: quiet_def)

lemma close_enough:
  assumes "3 * length (lp_reqs lp) + 1 \<le> n"
  shows "throws (lp_events (lp_close n k c r lp)) = throws (lp_events lp)"
    "lp_reqs (lp_close n k c r lp) = (if k = Xhr then [] else lp_reqs lp)"
proof -
  show "throws (lp_events (lp_close n k c r lp)) = throws (lp_events lp)"
    using assms close_enough_Xhr [of n] by (cases n; cases "k = Xhr") (auto simp: close_finish_def quiet_def)
  show "lp_reqs (lp_close n k c r lp) = (if k = Xhr then [] else lp_reqs lp)"
    using assms close_enough_Xhr [of n] by (cases n; cases "k = Xhr") (auto simp: close_finish_def quiet_def)
qed

section \<open>The outstanding poll\<close>

text \<open>The polls in flight, with the first one when it is still due.\<close>

definition polls :: "longpoll \<Rightarrow> nat" where
  "polls lp = length (filter (\<lambda>rq. snd rq = PollReq) (lp_reqs lp)) + (if lp_pollTimer lp then 1 else 0)"

definition polling :: "nat \<Rightarrow> longpoll \<Rightarrow> bool" where
  "polling n lp \<longleftrightarrow> closed_once lp
     \<or> (polls lp = n \<and> distinct (map fst (lp_reqs lp)) \<and> list_all (\<lambda>rq. fst rq < lp_nextReq lp) (lp_reqs lp))"

lemma polling_closed: "closed_once lp \<Longrightarrow> polling n lp"
  by (simp add: polling_def)

lemma polling_frame [simp]:
  "polling n (lp\<lparr>lp_token := t\<rparr>) = polling n lp" "polling n (lp\<lparr>lp_readyState := s\<rparr>) = polling n lp"
  "polling n (lp\<lparr>lp_tasks := ts\<rparr>) = polling n lp" "polling n (lp\<lparr>lp_currentBatch := cb\<rparr>) = polling n lp"
  "polling n (lp\<lparr>lp_batchTimer := b\<rparr>) = polling n lp" "polling n (lp\<lparr>lp_batchBuffer := bb\<rparr>) = polling n lp"
  "polling n (lp\<lparr>lp_awaitingBatchAck := b\<rparr>) = polling n lp" "polling n (lp\<lparr>lp_posted := ps\<rparr>) = polling n lp"
  by (simp_all add: polling_def polls_def)

lemma polling_emit: "polling n lp \<Longrightarrow> polling n (emit e lp)"
  by (auto simp: polling_def polls_def emit_def closed_once_def)

lemma polling_ajax: "polling n lp \<Longrightarrow> polling (if q = PollReq then Suc n else n) (ajax q lp)"
  by (auto simp: polling_def polls_def ajax_def closed_once_def list_all_iff)

lemma polling_poll: "polling 0 lp \<Longrightarrow> polling (Suc 0) (poll lp)"
  using polling_ajax [of 0 lp PollReq] by (simp add: poll_def)

lemma polling_batchSend: "polling n lp \<Longrightarrow> polling n (batchSend ms lp)"
  using polling_ajax [of n "lp\<lparr>lp_awaitingBatchAck := True, lp_posted := lp_posted lp @ [ms]\<rparr>" BatchReq] by (simp add: batchSend_def)

lemma filter_del: "(r, q) \<in> set xs \<Longrightarrow> distinct (map fst xs)
    \<Longrightarrow> length (filter (\<lambda>rq. snd rq = PollReq) (filter (\<lambda>(r', _). r' \<noteq> r) xs)) + (if q = PollReq then 1 else 0)
      = length (filter (\<lambda>rq. snd rq = PollReq) xs)"
proof (induction xs)
  case (Cons x xs)
  have "filter (\<lambda>(r', _). r' \<noteq> r) xs = xs" if "r \<notin> fst ` set xs"
    using that by (force intro!: filter_True)
  moreover have "(r, q) \<in> set xs \<Longrightarrow> r \<in> fst ` set xs" by force
  ultimately show ?case using Cons by (cases x) (auto simp del: filter_filter)
qed simp

lemma polling_del:
  assumes "polling (Suc 0) lp" "closed_once lp \<or> (r, q) \<in> set (lp_reqs lp)"
  shows "polling (if q = PollReq then 0 else Suc 0) (del_req r lp)"
  using assms filter_del [of r q "lp_reqs lp"]
  by (auto simp: polling_def polls_def del_req_def list_all_iff closed_once_def distinct_map_filter split: if_splits)

lemma polling_poll_response: "polling 0 lp \<Longrightarrow> polling (Suc 0) (poll_response k resp lp)"
  by (auto simp: poll_response_def Let_def polling_closed intro!: polling_poll polling_emit split: jsval.splits)

lemma polling_batch_response: "polling n lp \<Longrightarrow> polling n (batch_response k resp lp)"
  by (auto simp: batch_response_def Let_def polling_closed intro!: polling_batchSend)

lemma polling_ajax_call:
  assumes "polling (Suc 0) lp" "live lp" "closed_once lp \<or> (r, q) \<in> set (lp_reqs lp)"
  shows "polling (Suc 0) (ajax_call k r q c lp)"
proof (cases "closed_once lp")
  case False
  then have "isActive (del_req r lp)" using assms(2) by (simp add: live_def isActive_def del_req_def)
  with polling_del [OF assms(1,3)] show ?thesis
    by (cases c) (auto simp: Let_def polling_poll_response polling_batch_response ontimeout_def polling_closed
        intro!: polling_emit split: lp_req.splits if_splits)
qed (intro polling_closed ajax_call_mono)

lemma polling_step:
  assumes "polling (Suc 0) lp" "live lp"
  shows "polling (Suc 0) (lp_step k lp x)"
proof (cases x)
  case (Complete r res)
  show ?thesis
  proof (cases "map_of (lp_reqs lp) r")
    case (Some q)
    have q: "closed_once lp \<or> (r, q) \<in> set (lp_reqs lp)" using map_of_SomeD [OF Some] by simp
    have null: "closed_once (ajax_call k r q (Callback Null) lp)"
      using null_response_closes assms(2) by (auto simp: live_def)
    have "polling (Suc 0) (complete k r res lp)"
      using ajax_calls_shape [of k res] assms polling_ajax_call [OF assms q] null
      by (intro complete_cases [where P = "polling (Suc 0)", OF Some]) (auto simp: polling_closed ajax_call_mono simp del: ajax_call.simps)
    then show ?thesis using Complete by simp
  qed (use assms Complete in \<open>simp add: complete_def\<close>)
next
  case PollTimer
  then show ?thesis
    using assms polling_poll [of "lp\<lparr>lp_pollTimer := False\<rparr>"] by (auto simp: polling_def polls_def)
qed (use assms in \<open>auto simp: lp_send_def batch_timer_def polling_closed Let_def intro!: polling_emit polling_batchSend
    split: option.splits list.splits\<close>)

lemma polling_run: "polling (Suc 0) (lp_run k lp_new ops)"
proof (induction ops rule: rev_induct)
  case Nil
  then show ?case by (simp add: polling_def polls_def lp_new_def)
next
  case (snoc x xs)
  then show ?case using polling_step delivered_run by simp
qed

section \<open>Framing of batches\<close>

lemma hex_digit_no_newline: "n < 16 \<Longrightarrow> hex_digit n \<noteq> 0x0A"
  using hex_val_digit [of n] by (auto simp: hex_val_def is_digit_def)

lemma u_escape_no_newline: "0x0A \<notin> set (u_escape c)"
proof -
  have "unat c < 2 ^ LENGTH(16)" by (rule unsigned_less)
  then have "unat c div 4096 < 16" by simp
  then show ?thesis
    using hex_digit_no_newline [of "unat c div 4096"] hex_digit_no_newline [of "unat c div 256 mod 16"]
      hex_digit_no_newline [of "unat c div 16 mod 16"] hex_digit_no_newline [of "unat c mod 16"]
    by (auto simp: u_escape_def)
qed

lemma escape_units_no_newline: "0x0A \<notin> set (escape_units s)"
  by (induction s rule: escape_units.induct)
    (auto simp: u_escape_no_newline escape_unit_def is_high_surrogate_def is_low_surrogate_def)

lemma nat_str_no_newline: "0x0A \<notin> set (nat_str n)"
  using nat_str_digits [of "0x0A" n] by (auto simp: is_digit_def)

lemma num_str_no_newline: "0x0A \<notin> set (num_str x)"
proof -
  have ds: "c \<in> set (take i (nat_str n)) \<or> c \<in> set (drop i (nat_str n)) \<Longrightarrow> c \<noteq> 0x0A" for c i n
    using nat_str_no_newline [of n] by (auto dest: in_set_takeD in_set_dropD)
  have e: "0x0A \<notin> set (exp_str e)" for e
    using nat_str_no_newline by (auto simp: exp_str_def js_eval)
  have "0x0A \<notin> set (pos_num_str r)" for r
    using nat_str_no_newline ds e by (auto simp: pos_num_str_def Let_def js_eval split: prod.splits)
  then show ?thesis by (cases x) (auto simp: js_eval)
qed

lemma sep_by_set: "set (sep_by c xss) \<subseteq> insert c (\<Union> (set ` set xss))"
  by (induction c xss rule: sep_by.induct) auto

lemma stringify_no_newline: "0x0A \<notin> set (stringify v)"
proof (induction v rule: stringify.induct)
  case (4 x)
  then show ?case using num_str_no_newline by (cases x) (auto simp: js_eval simp del: num_str.simps)
next
  case (6 vs)
  then show ?case using sep_by_set [of "0x2C" "map stringify vs"] by auto
next
  case (7 kvs)
  define ms where "ms = map (\<lambda>(k, v). (k, quote_str k @ 0x3A # stringify v)) (filter (\<lambda>(k, v). v \<noteq> Undef) kvs)"
  have "0x0A \<notin> set s" if "(k, s) \<in> set (key_order ms)" for k s
    using that 7 escape_units_no_newline by (auto simp: ms_def quote_str_def)
  then show ?case using sep_by_set [of "0x2C" "map snd (key_order ms)"] by (auto simp: ms_def [symmetric])
qed (auto simp: js_eval quote_str_def escape_units_no_newline)

section \<open>Properties\<close>





text \<open>
  C27: Closing ends: the nested closes that aborted requests cause never exhaust the call depth, no
  request is left in flight by an \<open>XMLHttpRequest\<close> client, the transport is closed and the send queue empty.
\<close>

theorem longpoll_close_ends:
  "throws (lp_events (lp_step k lp (Close code reason))) = throws (lp_events lp)
    \<and> lp_reqs (lp_step k lp (Close code reason)) = (if k = Xhr then [] else lp_reqs lp)
    \<and> lp_readyState (lp_step k lp (Close code reason)) = Closed
    \<and> lp_batchBuffer (lp_step k lp (Close code reason)) = []
    \<and> last (lp_events (lp_step k lp (Close code reason))) = EClose code reason"
proof -
  have "3 * length (lp_reqs lp) + 1 \<le> close_fuel lp" by (simp add: close_fuel_def)
  moreover obtain n where "close_fuel lp = Suc n" by (simp add: close_fuel_def)
  ultimately show ?thesis
    using close_enough [of lp "close_fuel lp" k code reason] by (simp add: close_finish_def)
qed

text \<open>The answers of a poll its callback throws for: an unknown status, or 200 without an array of messages.\<close>

definition unhandled :: "jsval \<Rightarrow> bool" where
  "unhandled v \<longleftrightarrow> truthy v \<and>
     (case get_opt v (js ''messages'') of Arr _ \<Rightarrow> False | _ \<Rightarrow> get_opt v (js ''status'') = jsn 200) \<or>
     truthy v \<and> get_opt v (js ''status'') \<notin> {jsn 200, jsn 204, jsn 410, jsn 403, jsn 0, jsn 500}"

lemma poll_response_unhandled:
  assumes "unhandled v"
  shows "\<exists>e. \<forall>k lp. poll_response k v lp = emit (EThrow e) (lp\<lparr>lp_token := get_opt v (js ''token'')\<rparr>)"
proof (cases "get_opt v (js ''status'') = jsn 200")
  case True
  then have "truthy v" "\<forall>ms. get_opt v (js ''messages'') \<noteq> Arr ms" using assms by (auto simp: unhandled_def)
  then have "poll_response k v lp = emit (EThrow TypeError) (lp\<lparr>lp_token := get_opt v (js ''token'')\<rparr>)" for k lp
    using True by (cases "get_opt v (js ''messages'')") (simp_all add: poll_response_def Let_def)
  then show ?thesis by blast
next
  case False
  then have s: "truthy v" "get_opt v (js ''status'') \<notin> {jsn 200, jsn 204, jsn 410, jsn 403, jsn 0, jsn 500}"
    using assms by (auto simp: unhandled_def split: jsval.splits)
  then have "poll_response k v lp = emit (EThrow (JsError ''unhandled poll status'')) (lp\<lparr>lp_token := get_opt v (js ''token'')\<rparr>)" for k lp
    by (simp add: poll_response_def Let_def)
  then show ?thesis by blast
qed

text \<open>
  C25: What an answer the poll does not know leads to depends on the implementation of requests.  With \<open>XMLHttpRequest\<close> the exception leaves the
  callback: the transport stays as connected as it was, but no poll is in flight any more and nobody is told.  With \<open>fetch\<close> the exception is
  caught and the callback runs again with \<open>null\<close>: the transport reports an error 500, closes with code 1011 and is connecting again.
\<close>

theorem longpoll_unhandled_answer:
  assumes "isActive lp" "lp_reqs lp = [(r, PollReq)]" "\<not> lp_pollTimer lp" "unhandled (parseJSON t)"
  shows "polls (lp_step Xhr lp (Complete r (Loaded t))) = 0
    \<and> lp_readyState (lp_step Xhr lp (Complete r (Loaded t))) = lp_readyState lp
    \<and> (\<exists>e. lp_events (lp_step Xhr lp (Complete r (Loaded t))) = lp_events lp @ [EThrow e])
    \<and> (\<exists>e. lp_events (lp_step Fetch lp (Complete r (Loaded t))) = lp_events lp @ [EThrow e, EError (jsn 500), EClose (Some 1011) reason_500])
    \<and> lp_readyState (lp_step Fetch lp (Complete r (Loaded t))) = Connecting"
proof -
  let ?lp = "del_req r lp"
  obtain e where e: "\<And>k lp. poll_response k (parseJSON t) lp = emit (EThrow e) (lp\<lparr>lp_token := get_opt (parseJSON t) (js ''token'')\<rparr>)"
    using poll_response_unhandled [OF assms(4)] by blast
  define lp' where "lp' = emit (EThrow e) (?lp\<lparr>lp_token := get_opt (parseJSON t) (js ''token'')\<rparr>)"
  have frame: "lp_reqs lp' = []" "lp_events lp' = lp_events lp @ [EThrow e]" "lp_readyState lp' = lp_readyState lp" "\<not> lp_pollTimer lp'"
    "isActive ?lp" "isActive (del_req r lp')"
    using assms(1-3) by (simp_all add: lp'_def del_req_def isActive_def emit_def)
  have call: "ajax_call k r PollReq (Callback (parseJSON t)) lp = lp'" for k
    using frame(5) e by (simp add: lp'_def)
  have xhr: "lp_step Xhr lp (Complete r (Loaded t)) = lp'"
    using assms(2) call by (simp add: complete_def caught_def del: ajax_call.simps)
  have "caught Fetch (Loaded t) lp lp'" using frame(2) by (simp add: caught_def call_threw_def)
  then have fetch: "lp_step Fetch lp (Complete r (Loaded t)) = ajax_call Fetch r PollReq (Callback Null) lp'"
    using assms(2) call by (simp add: complete_def del: ajax_call.simps)
  have null: "ajax_call Fetch r PollReq (Callback Null) lp' =
      do_closeAndRetry Fetch (Some 1011) reason_500 (emit (EError (jsn 500)) (del_req r lp'))"
    using frame(6) by (simp add: poll_response_def Let_def)
  show ?thesis unfolding xhr fetch null
    using frame by (simp add: polls_def close_fuel_def close_finish_def del_req_def numeral_eq_Suc)
qed

theorem longpoll_unhandled_answer_witness:
  "polls (lp_step Xhr (lp_new\<lparr>lp_pollTimer := False, lp_reqs := [(0, PollReq)]\<rparr>)
      (Complete 0 (Loaded (stringify (Obj [(js ''status'', jsn 418)]))))) = 0"
proof -
  have "parseJSON (stringify (Obj [(js ''status'', jsn 418)])) = Obj [(js ''status'', jsn 418)]"
    using JSON_roundtrip [of "Obj [(js ''status'', jsn 418)]"] by (simp add: parseJSON_def key_order_def is_index_key_def js_eval)
  then have "unhandled (parseJSON (stringify (Obj [(js ''status'', jsn 418)])))"
    by (simp add: unhandled_def get_opt_def own_prop_def)
  from longpoll_unhandled_answer [OF _ _ _ this, of "lp_new\<lparr>lp_pollTimer := False, lp_reqs := [(0, PollReq)]\<rparr>" 0] show ?thesis
    by (simp add: isActive_def lp_new_def del: lp_step.simps stringify.simps)
qed

text \<open>
  Closing an open long-poll connection is reported as a failure first: with its poll in flight, as it
  always is, an \<open>XMLHttpRequest\<close> client sees an error 500 and a close with code 1011 before the close
  that was asked for.
\<close>

theorem longpoll_close_reports_error:
  assumes "lp_readyState lp = Open" "lp_reqs lp = [(r, PollReq)]"
  shows "lp_events (lp_step Xhr lp (Close code reason)) = lp_events lp
    @ [EError (jsn 500), EClose (Some 1011) reason_500, EClose code reason]"
  using assms by (simp add: close_fuel_def numeral_eq_Suc close_finish_def emit_def isActive_def)

theorem longpoll_close_reports_error_witness:
  "lp_events (lp_step Xhr (lp_new\<lparr>lp_readyState := Open, lp_reqs := [(0, PollReq)]\<rparr>) (Close (Some 1000) []))
    = [EError (jsn 500), EClose (Some 1011) reason_500, EClose (Some 1000) []]"
  using longpoll_close_reports_error [of "lp_new\<lparr>lp_readyState := Open, lp_reqs := [(0, PollReq)]\<rparr>" 0 "Some 1000" "[]"]
  by (simp add: lp_new_def del: lp_step.simps)

text \<open>
  A batch body can be taken apart again: no serialized message contains a line break, so splitting
  the newline-joined body yields the messages of the batch.
\<close>

theorem longpoll_ndjson:
  assumes "vs \<noteq> []"
  shows "split_on 0x0A (ndjson (map stringify vs)) = map stringify vs"
  unfolding ndjson_def
  by (rule split_sep_by) (use assms stringify_no_newline in \<open>auto simp: list_all_iff\<close>)

theorem longpoll_ndjson_witness:
  "split_on 0x0A (ndjson (map stringify [Str (js ''a''), Arr [Null]])) = map stringify [Str (js ''a''), Arr [Null]]"
  by (rule longpoll_ndjson) simp

end
