(* ===== verification/Phx_World.thy ===== *)
theory Phx_World
  imports Phx_LongPoll
begin

text \<open>
  The objects of the Phoenix client and the heap they live in: pushes, channels, connections and the
  closures of a transport fallback are records addressed by number, the socket is one record, and
  pending timeouts are a list.  Callbacks are data: a constructor for every closure the sources
  register, and a number for a callback of the user, whose calls are recorded.  An operation of the
  client is an \<open>act\<close>: it updates the world and may throw, keeping the updates made so far.
\<close>

section \<open>Callbacks\<close>

text \<open>Handlers a channel binds to events.\<close>

datatype bind_cb =
    CbClose            \<comment> \<open>\<open>onClose\<close> of the constructor\<close>
  | CbError            \<comment> \<open>\<open>onError\<close> of the constructor\<close>
  | CbReply            \<comment> \<open>\<open>phx_reply\<close> of the constructor\<close>
  | CbPush nat         \<comment> \<open>reply of a push (\<open>startTimeout\<close>)\<close>
  | CbUser nat

record binding =
  b_event :: jsstr
  b_ref :: nat
  b_cb :: bind_cb

text \<open>Hooks of a push (\<open>receive\<close>).\<close>

datatype hook_cb =
    HJoinOk
  | HJoinError
  | HJoinTimeout
  | HLeaveClose        \<comment> \<open>\<open>onClose\<close> in \<open>leave\<close>\<close>
  | HUser nat

text \<open>Callbacks of the socket's state changes; a ping ends with a call of the user or of a fallback.\<close>

datatype ping_end = PingUser nat | PingFallback nat

datatype state_cb =
    ScChanError nat    \<comment> \<open>channel: reset its rejoin timer\<close>
  | ScChanOpen nat     \<comment> \<open>channel: reset, and rejoin when errored\<close>
  | ScFbError nat      \<comment> \<open>fallback closure: \<open>onError\<close>\<close>
  | ScFbOpen nat       \<comment> \<open>fallback closure: \<open>onOpen\<close>\<close>
  | ScPing jsstr jsstr int ping_end  \<comment> \<open>ref, \<open>onMsgRef\<close>, start time\<close>
  | ScUser nat

text \<open>What \<open>teardown\<close> runs when the connection is gone.\<close>

datatype after =
    AfterNothing
  | AfterConnect
  | AfterDisconnect "nat option"
  | AfterReconnectTimer

datatype timer_cb =
    TPush nat
  | TRejoin nat
  | TReconnect
  | THeartbeat
  | THeartbeatTimeout
  | TFallback nat
  | TBufferDone nat "(nat \<times> jsstr) option" after nat
  | TSocketClosed nat after nat

section \<open>Objects\<close>

text \<open>\<open>timer.js\<close>: the pending timeout, if any, and the number of tries.\<close>

record retry =
  rt_timer :: "nat option"
  rt_tries :: nat

definition retry_new :: retry where "retry_new = \<lparr>rt_timer = None, rt_tries = 0\<rparr>"

record push =
  pu_channel :: nat
  pu_event :: jsstr
  pu_payload :: payload
  pu_receivedResp :: "payload option"
  pu_timeout :: nat
  pu_timer :: "nat option"
  pu_recHooks :: "(jsstr \<times> hook_cb) list"
  pu_sent :: bool
  pu_ref :: "jsstr option"         \<comment> \<open>\<open>None\<close>: undefined or null\<close>
  pu_refEvent :: "jsstr option"

datatype chan_state = ChClosed | ChErrored | ChJoined | ChJoining | ChLeaving

record chan =
  ch_state :: chan_state
  ch_topic :: jsstr
  ch_bindings :: "binding list"
  ch_bindingRef :: nat
  ch_timeout :: nat
  ch_joinedOnce :: bool
  ch_joinPush :: nat
  ch_pushBuffer :: "nat list"
  ch_stateChangeRefs :: "jsstr list"
  ch_rejoinTimer :: retry

datatype transport = WebSocketT | LongPollT

text \<open>
  A transport connection: its ready state, the bytes it still has to write, whether the socket's handlers
  are installed (\<open>onclose\<close> apart), and the frames handed to \<open>send\<close>.
\<close>

record conn =
  k_transport :: transport
  k_readyState :: ready_state
  k_bufferedAmount :: nat
  k_handlers :: bool
  k_onclose :: bool
  k_frames :: "frame list"
  k_closedWith :: "(nat \<times> jsstr) option list"

record fallback =
  fb_threshold :: nat
  fb_established :: bool
  fb_primaryTransport :: bool
  fb_errorRef :: "jsstr option"

record callbacks =
  cb_open :: "(jsstr \<times> state_cb) list"
  cb_close :: "(jsstr \<times> state_cb) list"
  cb_error :: "(jsstr \<times> state_cb) list"
  cb_message :: "(jsstr \<times> state_cb) list"

record opts =
  o_timeout :: nat
  o_longPollFallbackMs :: nat      \<comment> \<open>0: not set\<close>
  o_heartbeatIntervalMs :: nat
  o_rejoinAfterMs :: "nat \<Rightarrow> nat"
  o_reconnectAfterMs :: "nat \<Rightarrow> nat"

record socket =
  sk_opts :: opts
  sk_callbacks :: callbacks
  sk_channels :: "nat list"
  sk_sendBuffer :: "msg list"
  sk_ref :: nat
  sk_fallbackRef :: "jsstr option"
  sk_transport :: transport
  sk_primaryPassed :: bool         \<comment> \<open>\<open>primaryPassedHealthCheck\<close>\<close>
  sk_fallbackTimer :: "nat option"
  sk_session :: "(jsstr \<times> jsstr) list option"  \<comment> \<open>\<open>None\<close>: no session store\<close>
  sk_established :: nat            \<comment> \<open>\<open>establishedConnections\<close>\<close>
  sk_closeWasClean :: bool
  sk_disconnecting :: bool
  sk_connectClock :: nat
  sk_pageHidden :: bool
  sk_awaitingPageShow :: "nat option"
  sk_heartbeatTimer :: "nat option"
  sk_heartbeatTimeoutTimer :: "nat option"
  sk_pendingHeartbeatRef :: "jsstr option"
  sk_reconnectTimer :: retry
  sk_conn :: "nat option"

text \<open>Calls of user callbacks, as the world's history.\<close>

datatype user_call =
    UEvent nat payload jsval       \<comment> \<open>a channel binding, with payload and ref\<close>
  | UHook nat payload              \<comment> \<open>a \<open>receive\<close> hook, with the response\<close>
  | UState nat                     \<comment> \<open>a socket open, close or error callback\<close>
  | UMessage nat msg
  | URtt nat int
  | UDisconnected nat

record world =
  sock :: socket
  pushes :: "nat \<Rightarrow> push"
  next_push :: nat
  chans :: "nat \<Rightarrow> chan"
  next_chan :: nat
  conns :: "nat \<Rightarrow> conn"
  next_conn :: nat
  fallbacks :: "nat \<Rightarrow> fallback"
  next_fb :: nat
  timers :: "(nat \<times> nat \<times> timer_cb) list"  \<comment> \<open>id, delay, callback\<close>
  next_timer :: nat
  now :: int
  calls :: "user_call list"

section \<open>Actions\<close>

type_synonym act = "world \<Rightarrow> world \<times> exn option"

definition pure :: "(world \<Rightarrow> world) \<Rightarrow> act" where
  "pure f w = (f w, None)"

definition throw :: "exn \<Rightarrow> act" where
  "throw e w = (w, Some e)"

definition skip :: act where
  "skip w = (w, None)"

definition andthen :: "act \<Rightarrow> act \<Rightarrow> act" where
  "andthen a b w = (case a w of (w', None) \<Rightarrow> b w' | (w', Some e) \<Rightarrow> (w', Some e))"

fun do_all :: "act list \<Rightarrow> act" where
  "do_all [] w = (w, None)"
| "do_all (a # as) w = andthen a (do_all as) w"

definition for_each :: "('a \<Rightarrow> act) \<Rightarrow> 'a list \<Rightarrow> act" where
  "for_each f xs = do_all (map f xs)"

definition only_if :: "(world \<Rightarrow> bool) \<Rightarrow> act \<Rightarrow> act" where
  "only_if p a w = (if p w then a w else (w, None))"

lemma act_simps [simp]:
  "pure f w = (f w, None)" "throw e w = (w, Some e)" "skip w = (w, None)"
  by (simp_all add: pure_def throw_def skip_def)

lemma for_each_simps [simp]:
  "for_each f [] w = (w, None)"
  "for_each f (x # xs) w = andthen (f x) (for_each f xs) w"
  by (simp_all add: for_each_def)

lemma andthen_simps [simp]:
  "a w = (w', None) \<Longrightarrow> andthen a b w = b w'"
  "a w = (w', Some e) \<Longrightarrow> andthen a b w = (w', Some e)"
  by (simp_all add: andthen_def)

text \<open>An action keeps a predicate when it holds afterwards, thrown or not.\<close>

definition keeps :: "(world \<Rightarrow> bool) \<Rightarrow> act \<Rightarrow> bool" where
  "keeps P a \<longleftrightarrow> (\<forall>w. P w \<longrightarrow> P (fst (a w)))"

lemma keeps_pure [wf_intros]: "(\<And>w. P w \<Longrightarrow> P (f w)) \<Longrightarrow> keeps P (pure f)"
  by (simp add: keeps_def)

lemma keeps_skip [wf_intros]: "keeps P skip" "keeps P (throw e)"
  by (simp_all add: keeps_def)

lemma keeps_andthen [wf_intros]: "keeps P a \<Longrightarrow> keeps P b \<Longrightarrow> keeps P (andthen a b)"
  by (auto simp: keeps_def andthen_def split: prod.splits option.splits)

lemma keeps_do_all [wf_intros]: "(\<And>a. a \<in> set as \<Longrightarrow> keeps P a) \<Longrightarrow> keeps P (do_all as)"
proof (induction as)
  case (Cons a as)
  have "do_all (a # as) = andthen a (do_all as)" by (rule ext) simp
  with Cons show ?case by (simp add: keeps_andthen)
qed (simp add: keeps_def)

lemma keeps_do_Nil: "keeps P (do_all [])"
  by (rule keeps_do_all) simp

lemma keeps_do_Cons: "keeps P a \<Longrightarrow> keeps P (do_all as) \<Longrightarrow> keeps P (do_all (a # as))"
proof -
  have "do_all (a # as) = andthen a (do_all as)" by (rule ext) simp
  then show "keeps P a \<Longrightarrow> keeps P (do_all as) \<Longrightarrow> keeps P (do_all (a # as))" by (simp add: keeps_andthen)
qed

lemma keeps_for_each [wf_intros]: "(\<And>x. x \<in> set xs \<Longrightarrow> keeps P (f x)) \<Longrightarrow> keeps P (for_each f xs)"
  unfolding for_each_def by (rule keeps_do_all) auto

lemma keeps_only_if [wf_intros]: "keeps P a \<Longrightarrow> keeps P (only_if p a)"
  by (simp add: keeps_def only_if_def)

section \<open>Heap access\<close>

definition upd_sock :: "(socket \<Rightarrow> socket) \<Rightarrow> world \<Rightarrow> world" where
  "upd_sock f w = w\<lparr>sock := f (sock w)\<rparr>"

definition upd_push :: "nat \<Rightarrow> (push \<Rightarrow> push) \<Rightarrow> world \<Rightarrow> world" where
  "upd_push p f w = w\<lparr>pushes := (pushes w)(p := f (pushes w p))\<rparr>"

definition upd_chan :: "nat \<Rightarrow> (chan \<Rightarrow> chan) \<Rightarrow> world \<Rightarrow> world" where
  "upd_chan c f w = w\<lparr>chans := (chans w)(c := f (chans w c))\<rparr>"

definition upd_conn :: "nat \<Rightarrow> (conn \<Rightarrow> conn) \<Rightarrow> world \<Rightarrow> world" where
  "upd_conn k f w = w\<lparr>conns := (conns w)(k := f (conns w k))\<rparr>"

definition upd_fb :: "nat \<Rightarrow> (fallback \<Rightarrow> fallback) \<Rightarrow> world \<Rightarrow> world" where
  "upd_fb i f w = w\<lparr>fallbacks := (fallbacks w)(i := f (fallbacks w i))\<rparr>"

definition log_call :: "user_call \<Rightarrow> world \<Rightarrow> world" where
  "log_call u w = w\<lparr>calls := calls w @ [u]\<rparr>"

lemmas heap_defs = upd_sock_def upd_push_def upd_chan_def upd_conn_def upd_fb_def log_call_def

definition set_timeout :: "nat \<Rightarrow> timer_cb \<Rightarrow> world \<Rightarrow> nat \<times> world" where
  "set_timeout d cb w = (next_timer w,
     w\<lparr>timers := timers w @ [(next_timer w, d, cb)], next_timer := Suc (next_timer w)\<rparr>)"

definition clear_timeout :: "nat option \<Rightarrow> world \<Rightarrow> world" where
  "clear_timeout t w = (case t of None \<Rightarrow> w
     | Some i \<Rightarrow> w\<lparr>timers := filter (\<lambda>(j, _). j \<noteq> i) (timers w)\<rparr>)"

end
