(* ===== verification/Phx_Channel.thy ===== *)
theory Phx_Channel
  imports Phx_World
begin

text \<open>
  Pushes and channels (\<open>timer.js\<close>, \<open>push.js\<close>, \<open>channel.js\<close>) and the socket operations they call:
  refs, sending, removal, and leaving a duplicate topic.  \<open>trigger\<close> runs the callbacks bound to an
  event; a callback may trigger again (a reply triggers the push's own event, a leave the close
  event), at most twice, so the call depth \<open>3\<close> used throughout is enough, which is proved below.
\<close>

section \<open>Names\<close>

definition EVENT_close :: jsstr where "EVENT_close = js ''phx_close''"
definition EVENT_error :: jsstr where "EVENT_error = js ''phx_error''"
definition EVENT_join :: jsstr where "EVENT_join = js ''phx_join''"
definition EVENT_leave :: jsstr where "EVENT_leave = js ''phx_leave''"

definition reply_prefix :: jsstr where "reply_prefix = js ''chan_reply_''"

definition replyEventName :: "jsval \<Rightarrow> jsstr result" where
  "replyEventName ref = bindr (to_string ref) (\<lambda>s. Inr (reply_prefix @ s))"

section \<open>Payloads\<close>

fun pay_truthy :: "payload \<Rightarrow> bool" where
  "pay_truthy (Json v) = truthy v"
| "pay_truthy _ = True"

fun pay_status :: "payload \<Rightarrow> jsval" where
  "pay_status (Json v) = get_opt v (js ''status'')"
| "pay_status (Buffer _) = Undef"
| "pay_status (BufferReply s _) = Str s"

fun pay_response :: "payload \<Rightarrow> payload" where
  "pay_response (Json v) = Json (get_opt v (js ''response''))"
| "pay_response (Buffer _) = Json Undef"
| "pay_response (BufferReply _ b) = Buffer b"

definition reply_payload :: "jsstr \<Rightarrow> payload" where
  "reply_payload status = Json (Obj [(js ''status'', Str status), (js ''response'', Obj [])])"

definition empty_payload :: payload where "empty_payload = Json (Obj [])"

definition ref_val :: "jsstr option \<Rightarrow> jsval" where
  "ref_val r = (case r of None \<Rightarrow> Null | Some s \<Rightarrow> Str s)"

section \<open>Timer\<close>

definition retry_reset :: "retry \<Rightarrow> world \<Rightarrow> retry \<times> world" where
  "retry_reset t w = (t\<lparr>rt_tries := 0\<rparr>, clear_timeout (rt_timer t) w)"

definition scheduleTimeout :: "(nat \<Rightarrow> nat) \<Rightarrow> timer_cb \<Rightarrow> retry \<Rightarrow> world \<Rightarrow> retry \<times> world" where
  "scheduleTimeout timerCalc cb t w =
     (let w1 = clear_timeout (rt_timer t) w; (i, w2) = set_timeout (timerCalc (rt_tries t + 1)) cb w1
      in (t\<lparr>rt_timer := Some i\<rparr>, w2))"

definition retry_fired :: "retry \<Rightarrow> retry" where
  "retry_fired t = t\<lparr>rt_tries := rt_tries t + 1\<rparr>"

definition rejoin_reset :: "nat \<Rightarrow> world \<Rightarrow> world" where
  "rejoin_reset c w = (let (t, w1) = retry_reset (ch_rejoinTimer (chans w c)) w
     in upd_chan c (\<lambda>ch. ch\<lparr>ch_rejoinTimer := t\<rparr>) w1)"

definition rejoin_schedule :: "nat \<Rightarrow> world \<Rightarrow> world" where
  "rejoin_schedule c w =
     (let (t, w1) = scheduleTimeout (o_rejoinAfterMs (sk_opts (sock w))) (TRejoin c) (ch_rejoinTimer (chans w c)) w
      in upd_chan c (\<lambda>ch. ch\<lparr>ch_rejoinTimer := t\<rparr>) w1)"

section \<open>Socket operations used by channels\<close>

definition isConnected :: "world \<Rightarrow> bool" where
  "isConnected w \<longleftrightarrow> (case sk_conn (sock w) of None \<Rightarrow> False | Some k \<Rightarrow> k_readyState (conns w k) = Open)"

text \<open>The successor of a counter as doubles compute it: \<open>2^53 + 1\<close> rounds back to \<open>2^53\<close>.\<close>

definition double_succ :: "nat \<Rightarrow> nat" where
  "double_succ n = (if n < 2 ^ 53 then n + 1 else n)"

definition next_ref :: "nat \<Rightarrow> nat" where
  "next_ref r = (let newRef = double_succ r in if newRef = r then 0 else newRef)"

definition makeRef :: "world \<Rightarrow> jsstr \<times> world" where
  "makeRef w = (let r = next_ref (sk_ref (sock w))
     in (nat_str r, upd_sock (\<lambda>s. s\<lparr>sk_ref := r\<rparr>) w))"

definition conn_send :: "frame \<Rightarrow> world \<Rightarrow> world" where
  "conn_send f w = (case sk_conn (sock w) of None \<Rightarrow> w
     | Some k \<Rightarrow> upd_conn k (\<lambda>x. x\<lparr>k_frames := k_frames x @ [f]\<rparr>) w)"

definition encode_send :: "msg \<Rightarrow> act" where
  "encode_send m w = (case encode m of Inl e \<Rightarrow> (w, Some e) | Inr f \<Rightarrow> (conn_send f w, None))"

definition socket_push :: "msg \<Rightarrow> act" where
  "socket_push m w = (if isConnected w then encode_send m w
     else (upd_sock (\<lambda>s. s\<lparr>sk_sendBuffer := sk_sendBuffer s @ [m]\<rparr>) w, None))"

definition off_list :: "jsstr list \<Rightarrow> (jsstr \<times> state_cb) list \<Rightarrow> (jsstr \<times> state_cb) list" where
  "off_list rs = filter (\<lambda>(ref, _). ref \<notin> set rs)"

definition socket_off :: "jsstr list \<Rightarrow> world \<Rightarrow> world" where
  "socket_off rs = upd_sock (\<lambda>s. s\<lparr>sk_callbacks :=
     \<lparr>cb_open = off_list rs (cb_open (sk_callbacks s)), cb_close = off_list rs (cb_close (sk_callbacks s)),
      cb_error = off_list rs (cb_error (sk_callbacks s)), cb_message = off_list rs (cb_message (sk_callbacks s))\<rparr>\<rparr>)"

definition socket_remove :: "nat \<Rightarrow> world \<Rightarrow> world" where
  "socket_remove c w = upd_sock (\<lambda>s. s\<lparr>sk_channels := filter (\<lambda>d. d \<noteq> c) (sk_channels s)\<rparr>)
     (socket_off (ch_stateChangeRefs (chans w c)) w)"

section \<open>Bindings\<close>

definition chan_on :: "nat \<Rightarrow> jsstr \<Rightarrow> bind_cb \<Rightarrow> world \<Rightarrow> world" where
  "chan_on c event cb = upd_chan c (\<lambda>ch. ch\<lparr>ch_bindings := ch_bindings ch
       @ [\<lparr>b_event = event, b_ref = ch_bindingRef ch, b_cb = cb\<rparr>],
     ch_bindingRef := Suc (ch_bindingRef ch)\<rparr>)"

definition chan_off :: "nat \<Rightarrow> jsstr \<Rightarrow> nat option \<Rightarrow> world \<Rightarrow> world" where
  "chan_off c event ref = upd_chan c (\<lambda>ch. ch\<lparr>ch_bindings := filter (\<lambda>b. \<not> (b_event b = event
     \<and> (case ref of None \<Rightarrow> True | Some r \<Rightarrow> r = b_ref b))) (ch_bindings ch)\<rparr>)"

definition joinRef :: "world \<Rightarrow> nat \<Rightarrow> jsstr option" where
  "joinRef w c = pu_ref (pushes w (ch_joinPush (chans w c)))"

abbreviation chan_state_of :: "world \<Rightarrow> nat \<Rightarrow> chan_state" where
  "chan_state_of w c \<equiv> ch_state (chans w c)"

definition set_state :: "nat \<Rightarrow> chan_state \<Rightarrow> world \<Rightarrow> world" where
  "set_state c s = upd_chan c (\<lambda>ch. ch\<lparr>ch_state := s\<rparr>)"

definition canPush :: "world \<Rightarrow> nat \<Rightarrow> bool" where
  "canPush w c \<longleftrightarrow> isConnected w \<and> chan_state_of w c = ChJoined"

section \<open>Push\<close>

definition new_push :: "nat \<Rightarrow> jsstr \<Rightarrow> payload \<Rightarrow> nat \<Rightarrow> world \<Rightarrow> nat \<times> world" where
  "new_push c event pl timeout w = (next_push w,
     w\<lparr>pushes := (pushes w)(next_push w := \<lparr>pu_channel = c, pu_event = event, pu_payload = pl,
          pu_receivedResp = None, pu_timeout = timeout, pu_timer = None, pu_recHooks = [], pu_sent = False,
          pu_ref = None, pu_refEvent = None\<rparr>),
       next_push := Suc (next_push w)\<rparr>)"

definition hasReceived :: "push \<Rightarrow> jsstr \<Rightarrow> bool" where
  "hasReceived pu status \<longleftrightarrow> (case pu_receivedResp pu of None \<Rightarrow> False
     | Some pl \<Rightarrow> pay_truthy pl \<and> pay_status pl = Str status)"

definition cancelRefEvent :: "nat \<Rightarrow> world \<Rightarrow> world" where
  "cancelRefEvent p w = (case pu_refEvent (pushes w p) of None \<Rightarrow> w
     | Some ev \<Rightarrow> if ev = [] then w else chan_off (pu_channel (pushes w p)) ev None w)"

definition cancelTimeout :: "nat \<Rightarrow> world \<Rightarrow> world" where
  "cancelTimeout p w = upd_push p (\<lambda>pu. pu\<lparr>pu_timer := None\<rparr>) (clear_timeout (pu_timer (pushes w p)) w)"

definition push_reset :: "nat \<Rightarrow> world \<Rightarrow> world" where
  "push_reset p w = upd_push p (\<lambda>pu. pu\<lparr>pu_ref := None, pu_refEvent := None, pu_receivedResp := None,
     pu_sent := False\<rparr>) (cancelRefEvent p w)"

definition startTimeout :: "nat \<Rightarrow> world \<Rightarrow> world" where
  "startTimeout p w0 =
     (let w1 = (if pu_timer (pushes w0 p) \<noteq> None then cancelTimeout p w0 else w0);
          (r, w2) = makeRef w1; ev = reply_prefix @ r;
          w3 = upd_push p (\<lambda>pu. pu\<lparr>pu_ref := Some r, pu_refEvent := Some ev\<rparr>) w2;
          w4 = chan_on (pu_channel (pushes w3 p)) ev (CbPush p) w3;
          (t, w5) = set_timeout (pu_timeout (pushes w4 p)) (TPush p) w4
      in upd_push p (\<lambda>pu. pu\<lparr>pu_timer := Some t\<rparr>) w5)"

definition push_msg :: "world \<Rightarrow> nat \<Rightarrow> msg" where
  "push_msg w p = (let pu = pushes w p
     in \<lparr>m_join_ref = ref_val (joinRef w (pu_channel pu)), m_ref = ref_val (pu_ref pu),
         m_topic = Str (ch_topic (chans w (pu_channel pu))), m_event = Str (pu_event pu),
         m_payload = pu_payload pu\<rparr>)"

definition send :: "nat \<Rightarrow> act" where
  "send p w = (if hasReceived (pushes w p) (js ''timeout'') then (w, None)
     else (let w1 = upd_push p (\<lambda>pu. pu\<lparr>pu_sent := True\<rparr>) (startTimeout p w)
           in socket_push (push_msg w1 p) w1))"

definition resend :: "nat \<Rightarrow> nat \<Rightarrow> act" where
  "resend p timeout = andthen (pure (\<lambda>w. push_reset p (upd_push p (\<lambda>pu. pu\<lparr>pu_timeout := timeout\<rparr>) w))) (send p)"

definition add_hook :: "nat \<Rightarrow> jsstr \<Rightarrow> hook_cb \<Rightarrow> world \<Rightarrow> world" where
  "add_hook p status h = upd_push p (\<lambda>pu. pu\<lparr>pu_recHooks := pu_recHooks pu @ [(status, h)]\<rparr>)"

text \<open>\<open>receive\<close> with a callback of the user, called at once when the status already arrived.\<close>

definition user_receive :: "nat \<Rightarrow> jsstr \<Rightarrow> nat \<Rightarrow> world \<Rightarrow> world" where
  "user_receive p status u w =
     (let w1 = (if hasReceived (pushes w p) status
                then log_call (UHook u (pay_response (the (pu_receivedResp (pushes w p))))) w else w)
      in add_hook p status (HUser u) w1)"

section \<open>Triggering events\<close>

definition chan_close :: "nat \<Rightarrow> world \<Rightarrow> world" where
  "chan_close c w = socket_remove c (set_state c ChClosed (rejoin_reset c w))"

definition schedule_if_connected :: "nat \<Rightarrow> world \<Rightarrow> world" where
  "schedule_if_connected c w = (if isConnected w then rejoin_schedule c w else w)"

definition chan_error :: "nat \<Rightarrow> world \<Rightarrow> world" where
  "chan_error c w =
     (let w1 = (if chan_state_of w c = ChJoining then push_reset (ch_joinPush (chans w c)) w else w)
      in schedule_if_connected c (set_state c ChErrored w1))"

definition join_ok :: "nat \<Rightarrow> act" where
  "join_ok c = do_all
     [pure (set_state c ChJoined), pure (rejoin_reset c),
      (\<lambda>w. for_each send (ch_pushBuffer (chans w c)) w),
      pure (upd_chan c (\<lambda>ch. ch\<lparr>ch_pushBuffer := []\<rparr>))]"

definition join_timeout :: "nat \<Rightarrow> act" where
  "join_timeout c w =
     (let (lp, w1) = new_push c EVENT_leave empty_payload (ch_timeout (chans w c)) w
      in andthen (send lp) (pure (\<lambda>w. schedule_if_connected c
           (push_reset (ch_joinPush (chans w c)) (set_state c ChErrored w)))) w1)"

fun trigger :: "nat \<Rightarrow> nat \<Rightarrow> jsval \<Rightarrow> payload \<Rightarrow> jsval \<Rightarrow> act"
  and run_cb :: "nat \<Rightarrow> nat \<Rightarrow> bind_cb \<Rightarrow> payload \<Rightarrow> jsval \<Rightarrow> act"
  and run_hook :: "nat \<Rightarrow> nat \<Rightarrow> hook_cb \<Rightarrow> payload \<Rightarrow> act" where
  "trigger 0 c event pl ref w = (w, Some (JsError ''RangeError''))"
| "trigger (Suc n) c event pl ref w =
     for_each (\<lambda>b. run_cb n c (b_cb b) pl ref)
       (filter (\<lambda>b. Str (b_event b) = event) (ch_bindings (chans w c))) w"
| "run_cb n c CbClose pl ref w = (chan_close c w, None)"
| "run_cb n c CbError pl ref w = (chan_error c w, None)"
| "run_cb n c CbReply pl ref w = (case replyEventName ref of
     Inl e \<Rightarrow> (w, Some e)
   | Inr ev \<Rightarrow> trigger n c (Str ev) pl Undef w)"
| "run_cb n c (CbPush p) pl ref w =
     (let w1 = upd_push p (\<lambda>pu. pu\<lparr>pu_receivedResp := Some pl\<rparr>) (cancelTimeout p (cancelRefEvent p w))
      in if (case pl of Json v \<Rightarrow> nullish v | _ \<Rightarrow> False) then (w1, Some TypeError)
         else for_each (\<lambda>(s, h). run_hook n c h (pay_response pl))
                (filter (\<lambda>(s, h). Str s = pay_status pl) (pu_recHooks (pushes w1 p))) w1)"
| "run_cb n c (CbUser u) pl ref w = (log_call (UEvent u pl ref) w, None)"
| "run_hook n c HJoinOk resp w = join_ok c w"
| "run_hook n c HJoinError resp w = (schedule_if_connected c (set_state c ChErrored w), None)"
| "run_hook n c HJoinTimeout resp w = join_timeout c w"
| "run_hook n c HLeaveClose resp w = trigger n c (Str EVENT_close) (Json (Str (js ''leave''))) Undef w"
| "run_hook n c (HUser u) resp w = (log_call (UHook u resp) w, None)"

abbreviation DEPTH :: nat where "DEPTH \<equiv> 3"

definition push_trigger :: "nat \<Rightarrow> jsstr \<Rightarrow> act" where
  "push_trigger p status w =
     trigger DEPTH (pu_channel (pushes w p)) (ref_val (pu_refEvent (pushes w p))) (reply_payload status) Undef w"

section \<open>Channel operations\<close>

definition leave :: "nat \<Rightarrow> nat \<Rightarrow> act" where
  "leave c timeout w0 =
     (let w1 = set_state c ChLeaving (cancelTimeout (ch_joinPush (chans w0 c)) (rejoin_reset c w0));
          (lp, w2) = new_push c EVENT_leave empty_payload timeout w1;
          w3 = add_hook lp (js ''timeout'') HLeaveClose (add_hook lp (js ''ok'') HLeaveClose w2)
      in andthen (send lp) (only_if (\<lambda>w. \<not> canPush w c) (push_trigger lp (js ''ok''))) w3)"

definition leaveOpenTopic :: "jsstr \<Rightarrow> act" where
  "leaveOpenTopic topic w =
     (case find (\<lambda>c. ch_topic (chans w c) = topic
          \<and> (chan_state_of w c = ChJoined \<or> chan_state_of w c = ChJoining)) (sk_channels (sock w)) of
        None \<Rightarrow> (w, None)
      | Some d \<Rightarrow> leave d (ch_timeout (chans w d)) w)"

definition rejoin :: "nat \<Rightarrow> act" where
  "rejoin c w = (if chan_state_of w c = ChLeaving then (w, None)
     else do_all [leaveOpenTopic (ch_topic (chans w c)), pure (set_state c ChJoining),
            (\<lambda>w. resend (ch_joinPush (chans w c)) (ch_timeout (chans w c)) w)] w)"

definition join :: "nat \<Rightarrow> nat \<Rightarrow> act" where
  "join c timeout w =
     (if ch_joinedOnce (chans w c) then (w, Some (JsError ''tried to join multiple times''))
      else rejoin c (upd_chan c (\<lambda>ch. ch\<lparr>ch_timeout := timeout, ch_joinedOnce := True\<rparr>) w))"

definition chan_push :: "nat \<Rightarrow> jsstr \<Rightarrow> payload \<Rightarrow> nat \<Rightarrow> act" where
  "chan_push c event pl0 timeout w =
     (let pl = (if pay_truthy pl0 then pl0 else empty_payload)
      in if \<not> ch_joinedOnce (chans w c) then (w, Some (JsError ''tried to push before joining''))
         else (let (p, w1) = new_push c event pl timeout w
               in if canPush w1 c then send p w1
                  else (upd_chan c (\<lambda>ch. ch\<lparr>ch_pushBuffer := ch_pushBuffer ch @ [p]\<rparr>) (startTimeout p w1), None)))"

definition isMember :: "world \<Rightarrow> nat \<Rightarrow> jsval \<Rightarrow> jsval \<Rightarrow> bool" where
  "isMember w c topic join_ref \<longleftrightarrow> Str (ch_topic (chans w c)) = topic
     \<and> \<not> (truthy join_ref \<and> join_ref \<noteq> ref_val (joinRef w c))"

datatype state_kind = KOpen | KClose | KError | KMessage

fun add_callback :: "state_kind \<Rightarrow> jsstr \<times> state_cb \<Rightarrow> callbacks \<Rightarrow> callbacks" where
  "add_callback KOpen x cs = cs\<lparr>cb_open := cb_open cs @ [x]\<rparr>"
| "add_callback KClose x cs = cs\<lparr>cb_close := cb_close cs @ [x]\<rparr>"
| "add_callback KError x cs = cs\<lparr>cb_error := cb_error cs @ [x]\<rparr>"
| "add_callback KMessage x cs = cs\<lparr>cb_message := cb_message cs @ [x]\<rparr>"

text \<open>\<open>onOpen\<close>, \<open>onClose\<close>, \<open>onError\<close> and \<open>onMessage\<close> register and return a ref.\<close>

definition on_state_change :: "state_kind \<Rightarrow> (jsstr \<Rightarrow> state_cb) \<Rightarrow> world \<Rightarrow> jsstr \<times> world" where
  "on_state_change kind cb w = (let (r, w1) = makeRef w
     in (r, upd_sock (\<lambda>s. s\<lparr>sk_callbacks := add_callback kind (r, cb r) (sk_callbacks s)\<rparr>) w1))"

text \<open>The constructor, and \<open>Socket.channel\<close>.\<close>

definition channel :: "jsstr \<Rightarrow> payload \<Rightarrow> world \<Rightarrow> nat \<times> world" where
  "channel topic params w =
     (let c = next_chan w; timeout = o_timeout (sk_opts (sock w));
          (jp, w1) = new_push c EVENT_join params timeout (w\<lparr>next_chan := Suc c\<rparr>);
          w2 = w1\<lparr>chans := (chans w1)(c := \<lparr>ch_state = ChClosed, ch_topic = topic, ch_bindings = [],
                 ch_bindingRef = 0, ch_timeout = timeout, ch_joinedOnce = False, ch_joinPush = jp,
                 ch_pushBuffer = [], ch_stateChangeRefs = [], ch_rejoinTimer = retry_new\<rparr>)\<rparr>;
          (r1, w3) = on_state_change KError (\<lambda>_. ScChanError c) w2;
          (r2, w4) = on_state_change KOpen (\<lambda>_. ScChanOpen c) w3;
          w5 = upd_chan c (\<lambda>ch. ch\<lparr>ch_stateChangeRefs := [r1, r2]\<rparr>) w4;
          w6 = add_hook jp (js ''error'') HJoinError (add_hook jp (js ''ok'') HJoinOk w5);
          w7 = chan_on c EVENT_error CbError (chan_on c EVENT_close CbClose w6);
          w8 = chan_on c EVENT_reply CbReply (add_hook jp (js ''timeout'') HJoinTimeout w7)
      in (c, upd_sock (\<lambda>s. s\<lparr>sk_channels := sk_channels s @ [c]\<rparr>) w8))"

end
