(* ===== verification/Phx_Socket.thy ===== *)
theory Phx_Socket
  imports Phx_Channel
begin

text \<open>
  The socket (\<open>socket.js\<close>): connecting with and without fallback, the handlers of the connection,
  heartbeats, teardown, page visibility, and the dispatch of messages, on the world of channels and
  pushes.  The connection of a transport is an object of the environment: it opens, fails, delivers
  frames, drains its buffer and closes when the environment says so, and calls the handlers the socket
  installed; \<open>close\<close> of a long-poll connection runs \<open>onclose\<close> at once.  No logger is set: every
  \<open>hasLogger()\<close> branch only prints.
\<close>

section \<open>Constants and construction\<close>

definition nth_or :: "nat list \<Rightarrow> nat \<Rightarrow> nat \<Rightarrow> nat" where
  "nth_or xs i d = (if i < length xs \<and> xs ! i \<noteq> 0 then xs ! i else d)"

definition default_rejoinAfterMs :: "nat \<Rightarrow> nat" where
  "default_rejoinAfterMs tries = nth_or [1000, 2000, 5000] (tries - 1) 10000"

definition default_reconnectAfterMs :: "nat \<Rightarrow> nat" where
  "default_reconnectAfterMs tries = nth_or [10, 50, 100, 150, 200, 250, 500, 1000, 2000] (tries - 1) 5000"

definition default_opts :: opts where
  "default_opts = \<lparr>o_timeout = 10000, o_longPollFallbackMs = 0, o_heartbeatIntervalMs = 30000,
     o_rejoinAfterMs = default_rejoinAfterMs, o_reconnectAfterMs = default_reconnectAfterMs\<rparr>"

definition socket_new :: "opts \<Rightarrow> transport \<Rightarrow> (jsstr \<times> jsstr) list option \<Rightarrow> socket" where
  "socket_new os t session = \<lparr>sk_opts = os, sk_callbacks = \<lparr>cb_open = [], cb_close = [], cb_error = [], cb_message = []\<rparr>,
     sk_channels = [], sk_sendBuffer = [], sk_ref = 0, sk_fallbackRef = None, sk_transport = t,
     sk_primaryPassed = False, sk_fallbackTimer = None, sk_session = session, sk_established = 0,
     sk_closeWasClean = True, sk_disconnecting = False, sk_connectClock = 1, sk_pageHidden = False,
     sk_awaitingPageShow = None, sk_heartbeatTimer = None, sk_heartbeatTimeoutTimer = None,
     sk_pendingHeartbeatRef = None, sk_reconnectTimer = retry_new, sk_conn = None\<rparr>"

text \<open>What unallocated addresses hold.\<close>

definition no_push :: push where
  "no_push = \<lparr>pu_channel = 0, pu_event = [], pu_payload = empty_payload, pu_receivedResp = None, pu_timeout = 0,
     pu_timer = None, pu_recHooks = [], pu_sent = False, pu_ref = None, pu_refEvent = None\<rparr>"

definition no_chan :: chan where
  "no_chan = \<lparr>ch_state = ChClosed, ch_topic = [], ch_bindings = [], ch_bindingRef = 0, ch_timeout = 0,
     ch_joinedOnce = False, ch_joinPush = 0, ch_pushBuffer = [], ch_stateChangeRefs = [], ch_rejoinTimer = retry_new\<rparr>"

definition no_conn :: conn where
  "no_conn = \<lparr>k_transport = WebSocketT, k_readyState = Closed, k_bufferedAmount = 0, k_handlers = False,
     k_onclose = False, k_frames = [], k_closedWith = []\<rparr>"

definition no_fallback :: fallback where
  "no_fallback = \<lparr>fb_threshold = 0, fb_established = False, fb_primaryTransport = False, fb_errorRef = None\<rparr>"

definition world_new :: "opts \<Rightarrow> transport \<Rightarrow> (jsstr \<times> jsstr) list option \<Rightarrow> world" where
  "world_new os t session = \<lparr>sock = socket_new os t session, pushes = (\<lambda>_. no_push), next_push = 0,
     chans = (\<lambda>_. no_chan), next_chan = 0, conns = (\<lambda>_. no_conn), next_conn = 0,
     fallbacks = (\<lambda>_. no_fallback), next_fb = 0, timers = [], next_timer = 1, now = 0, calls = []\<rparr>"

section \<open>Heartbeats\<close>

definition clearHeartbeats :: "world \<Rightarrow> world" where
  "clearHeartbeats w = clear_timeout (sk_heartbeatTimeoutTimer (sock w)) (clear_timeout (sk_heartbeatTimer (sock w)) w)"

definition start_heartbeat :: "world \<Rightarrow> world" where
  "start_heartbeat w = (let (t, w1) = set_timeout (o_heartbeatIntervalMs (sk_opts (sock w))) THeartbeat w
     in upd_sock (\<lambda>s. s\<lparr>sk_heartbeatTimer := Some t\<rparr>) w1)"

definition resetHeartbeat :: "world \<Rightarrow> world" where
  "resetHeartbeat w =
     (if (case sk_conn (sock w) of None \<Rightarrow> False | Some k \<Rightarrow> k_transport (conns w k) = LongPollT) then w
      else start_heartbeat (clearHeartbeats (upd_sock (\<lambda>s. s\<lparr>sk_pendingHeartbeatRef := None\<rparr>) w)))"

definition heartbeat_msg :: "jsstr \<Rightarrow> msg" where
  "heartbeat_msg ref = \<lparr>m_join_ref = Undef, m_ref = Str ref, m_topic = Str (js ''phoenix''),
     m_event = Str (js ''heartbeat''), m_payload = empty_payload\<rparr>"

definition sendHeartbeat :: act where
  "sendHeartbeat w =
     (if sk_pendingHeartbeatRef (sock w) \<noteq> None \<and> \<not> isConnected w then (w, None)
      else (let (r, w1) = makeRef w; w2 = upd_sock (\<lambda>s. s\<lparr>sk_pendingHeartbeatRef := Some r\<rparr>) w1
            in andthen (socket_push (heartbeat_msg r)) (pure (\<lambda>w.
                 let (t, w') = set_timeout (o_heartbeatIntervalMs (sk_opts (sock w))) THeartbeatTimeout w
                 in upd_sock (\<lambda>s. s\<lparr>sk_heartbeatTimeoutTimer := Some t\<rparr>) w')) w2))"

section \<open>Closing a connection\<close>

definition reconnect_reset :: "world \<Rightarrow> world" where
  "reconnect_reset w = (let (t, w1) = retry_reset (sk_reconnectTimer (sock w)) w
     in upd_sock (\<lambda>s. s\<lparr>sk_reconnectTimer := t\<rparr>) w1)"

definition reconnect_schedule :: "world \<Rightarrow> world" where
  "reconnect_schedule w =
     (let (t, w1) = scheduleTimeout (o_reconnectAfterMs (sk_opts (sock w))) TReconnect (sk_reconnectTimer (sock w)) w
      in upd_sock (\<lambda>s. s\<lparr>sk_reconnectTimer := t\<rparr>) w1)"

definition triggerChanError :: act where
  "triggerChanError w = for_each (\<lambda>c. only_if (\<lambda>w. chan_state_of w c \<notin> {ChErrored, ChLeaving, ChClosed})
     (trigger DEPTH c (Str EVENT_error) (Json Undef) Undef)) (sk_channels (sock w)) w"

definition WS_CLOSE_NORMAL :: nat where "WS_CLOSE_NORMAL = 1000"

text \<open>The callbacks of \<open>onClose\<close>, which only the user registers.\<close>

definition run_close_cb :: "state_cb \<Rightarrow> act" where
  "run_close_cb cb = (case cb of ScUser u \<Rightarrow> pure (log_call (UState u)) | _ \<Rightarrow> skip)"

definition onConnClose :: "nat option \<Rightarrow> act" where
  "onConnClose closeCode = do_all
     [pure (\<lambda>w. case sk_conn (sock w) of None \<Rightarrow> w | Some k \<Rightarrow> upd_conn k (\<lambda>x. x\<lparr>k_onclose := False\<rparr>) w),
      triggerChanError,
      pure clearHeartbeats,
      only_if (\<lambda>w. \<not> sk_closeWasClean (sock w) \<and> closeCode \<noteq> Some WS_CLOSE_NORMAL) (pure reconnect_schedule),
      (\<lambda>w. for_each (\<lambda>(_, cb). run_close_cb cb) (cb_close (sk_callbacks (sock w))) w)]"

text \<open>
  \<open>conn.close(code, reason)\<close>: a WebSocket starts closing and reports later; a long-poll connection is
  closed at once and calls \<open>onclose\<close>, with an undefined code when none is given.
\<close>

definition conn_close :: "nat \<Rightarrow> (nat \<times> jsstr) option \<Rightarrow> act" where
  "conn_close k code w =
     (let w1 = upd_conn k (\<lambda>x. x\<lparr>k_closedWith := k_closedWith x @ [code]\<rparr>) w
      in case k_transport (conns w k) of
        WebSocketT \<Rightarrow> (if k_readyState (conns w k) \<in> {Connecting, Open}
           then (upd_conn k (\<lambda>x. x\<lparr>k_readyState := Closing\<rparr>) w1, None) else (w1, None))
      | LongPollT \<Rightarrow> (let w2 = upd_conn k (\<lambda>x. x\<lparr>k_readyState := Closed\<rparr>) w1
           in if k_onclose (conns w2 k) then onConnClose (map_option fst code) w2 else (w2, None)))"

section \<open>Connecting\<close>

definition transportConnect :: "world \<Rightarrow> world" where
  "transportConnect w =
     (let k = next_conn w
      in upd_sock (\<lambda>s. s\<lparr>sk_connectClock := sk_connectClock s + 1, sk_closeWasClean := False, sk_conn := Some k\<rparr>)
          (w\<lparr>conns := (conns w)(k := \<lparr>k_transport = sk_transport (sock w), k_readyState = Connecting,
                k_bufferedAmount = 0, k_handlers = True, k_onclose = True, k_frames = [], k_closedWith = []\<rparr>),
             next_conn := Suc k\<rparr>))"

definition replaceTransport :: "transport \<Rightarrow> act" where
  "replaceTransport t = do_all
     [pure (upd_sock (\<lambda>s. s\<lparr>sk_connectClock := sk_connectClock s + 1, sk_closeWasClean := True\<rparr>)),
      pure (\<lambda>w. reconnect_reset (clear_timeout (sk_fallbackTimer (sock w)) w)),
      (\<lambda>w. case sk_conn (sock w) of None \<Rightarrow> (w, None)
         | Some k \<Rightarrow> andthen (conn_close k None) (pure (upd_sock (\<lambda>s. s\<lparr>sk_conn := None\<rparr>))) w),
      pure (upd_sock (\<lambda>s. s\<lparr>sk_transport := t\<rparr>))]"

definition fallback_key :: jsstr where
  "fallback_key = js ''phx:fallback:LongPoll''"

definition getSession :: "world \<Rightarrow> jsstr \<Rightarrow> bool" where
  "getSession w key = (case sk_session (sock w) of None \<Rightarrow> False
     | Some st \<Rightarrow> (case map_of st key of None \<Rightarrow> False | Some v \<Rightarrow> v \<noteq> []))"

definition storeSession :: "jsstr \<Rightarrow> jsstr \<Rightarrow> world \<Rightarrow> world" where
  "storeSession key val = upd_sock (\<lambda>s. s\<lparr>sk_session := map_option (al_set key val) (sk_session s)\<rparr>)"

text \<open>The local function \<open>fallback\<close>; \<open>openRef\<close> is never assigned, so only the error callback goes.\<close>

definition run_fallback :: "nat \<Rightarrow> act" where
  "run_fallback f = do_all
     [pure (\<lambda>w. socket_off (case fb_errorRef (fallbacks w f) of None \<Rightarrow> [] | Some r \<Rightarrow> [r]) w),
      pure (upd_fb f (\<lambda>x. x\<lparr>fb_primaryTransport := False\<rparr>)),
      replaceTransport LongPollT,
      pure transportConnect]"

definition start_fallback_timer :: "nat \<Rightarrow> world \<Rightarrow> world" where
  "start_fallback_timer f w = (let (t, w1) = set_timeout (fb_threshold (fallbacks w f)) (TFallback f) w
     in upd_sock (\<lambda>s. s\<lparr>sk_fallbackTimer := Some t\<rparr>) w1)"

definition connectWithFallback :: "nat \<Rightarrow> act" where
  "connectWithFallback threshold w0 =
     (let w1 = clear_timeout (sk_fallbackTimer (sock w0)) w0; f = next_fb w1;
          w2 = w1\<lparr>fallbacks := (fallbacks w1)(f := \<lparr>fb_threshold = threshold, fb_established = False,
                 fb_primaryTransport = True, fb_errorRef = None\<rparr>), next_fb := Suc f\<rparr>
      in if getSession w2 fallback_key then run_fallback f w2
         else (let w3 = start_fallback_timer f w2;
                   (er, w4) = on_state_change KError (\<lambda>_. ScFbError f) w3;
                   w5 = upd_fb f (\<lambda>x. x\<lparr>fb_errorRef := Some er\<rparr>) w4;
                   w6 = (case sk_fallbackRef (sock w5) of None \<Rightarrow> w5 | Some r \<Rightarrow> socket_off [r] w5);
                   (fr, w7) = on_state_change KOpen (\<lambda>_. ScFbOpen f) w6
               in (transportConnect (upd_sock (\<lambda>s. s\<lparr>sk_fallbackRef := Some fr\<rparr>) w7), None)))"

definition connect :: act where
  "connect w =
     (if sk_conn (sock w) \<noteq> None \<and> \<not> sk_disconnecting (sock w) then (w, None)
      else if o_longPollFallbackMs (sk_opts (sock w)) \<noteq> 0 \<and> sk_transport (sock w) \<noteq> LongPollT
      then connectWithFallback (o_longPollFallbackMs (sk_opts (sock w))) w
      else (transportConnect w, None))"

section \<open>Teardown\<close>

definition run_after :: "after \<Rightarrow> act" where
  "run_after a = (case a of
      AfterNothing \<Rightarrow> skip
    | AfterConnect \<Rightarrow> connect
    | AfterReconnectTimer \<Rightarrow> pure reconnect_schedule
    | AfterDisconnect u \<Rightarrow> pure (\<lambda>w. (case u of None \<Rightarrow> id | Some n \<Rightarrow> log_call (UDisconnected n))
        (upd_sock (\<lambda>s. s\<lparr>sk_disconnecting := False\<rparr>) w)))"

definition waitForSocketClosed :: "nat \<Rightarrow> after \<Rightarrow> nat \<Rightarrow> act" where
  "waitForSocketClosed k a tries w =
     (if tries = 5 \<or> k_readyState (conns w k) = Closed
      then andthen (pure (\<lambda>w. if sk_conn (sock w) = Some k
             then upd_sock (\<lambda>s. s\<lparr>sk_conn := None\<rparr>) (upd_conn k (\<lambda>x. x\<lparr>k_handlers := False, k_onclose := False\<rparr>) w)
             else w)) (run_after a) w
      else (snd (set_timeout (150 * tries) (TSocketClosed k a (tries + 1)) w), None))"

definition waitForBufferDone :: "nat \<Rightarrow> (nat \<times> jsstr) option \<Rightarrow> after \<Rightarrow> nat \<Rightarrow> act" where
  "waitForBufferDone k code a tries w =
     (if tries = 5 \<or> k_bufferedAmount (conns w k) = 0
      then andthen (conn_close k code) (waitForSocketClosed k a 1) w
      else (snd (set_timeout (150 * tries) (TBufferDone k code a (tries + 1)) w), None))"

definition teardown :: "after \<Rightarrow> (nat \<times> jsstr) option \<Rightarrow> act" where
  "teardown a code w = (case sk_conn (sock w) of
      None \<Rightarrow> run_after a w
    | Some k \<Rightarrow> waitForBufferDone k code a 1 w)"

definition disconnect :: "nat option \<Rightarrow> (nat \<times> jsstr) option \<Rightarrow> act" where
  "disconnect u code = do_all
     [pure (upd_sock (\<lambda>s. s\<lparr>sk_connectClock := sk_connectClock s + 1, sk_disconnecting := True,
        sk_closeWasClean := True\<rparr>)),
      pure (\<lambda>w. reconnect_reset (clear_timeout (sk_fallbackTimer (sock w)) w)),
      teardown (AfterDisconnect u) code]"

definition heartbeatTimeout :: act where
  "heartbeatTimeout = only_if (\<lambda>w. sk_pendingHeartbeatRef (sock w) \<noteq> None) (do_all
     [pure (upd_sock (\<lambda>s. s\<lparr>sk_pendingHeartbeatRef := None\<rparr>)),
      triggerChanError,
      pure (upd_sock (\<lambda>s. s\<lparr>sk_closeWasClean := False\<rparr>)),
      teardown AfterReconnectTimer (Some (WS_CLOSE_NORMAL, js ''heartbeat timeout''))])"

definition reconnect_timer :: act where
  "reconnect_timer w =
     (let w1 = upd_sock (\<lambda>s. s\<lparr>sk_reconnectTimer := retry_fired (sk_reconnectTimer s)\<rparr>) w
      in teardown (if sk_pageHidden (sock w1) then AfterNothing else AfterConnect) None w1)"

section \<open>Connection handlers\<close>

definition flushSendBuffer :: act where
  "flushSendBuffer = only_if (\<lambda>w. isConnected w \<and> sk_sendBuffer (sock w) \<noteq> [])
     (\<lambda>w. andthen (for_each encode_send (sk_sendBuffer (sock w)))
        (pure (upd_sock (\<lambda>s. s\<lparr>sk_sendBuffer := []\<rparr>))) w)"

definition ping :: "ping_end \<Rightarrow> act" where
  "ping e = only_if isConnected (\<lambda>w.
     let (r, w1) = makeRef w; start = now w1
     in andthen (socket_push (heartbeat_msg r))
          (pure (\<lambda>w. snd (on_state_change KMessage (\<lambda>onMsgRef. ScPing r onMsgRef start e) w))) w1)"

definition run_ping_end :: "ping_end \<Rightarrow> int \<Rightarrow> world \<Rightarrow> world" where
  "run_ping_end e rtt w = (case e of
      PingUser u \<Rightarrow> log_call (URtt u rtt) w
    | PingFallback f \<Rightarrow> clear_timeout (sk_fallbackTimer (sock w)) (upd_sock (\<lambda>s. s\<lparr>sk_primaryPassed := True\<rparr>) w))"

definition run_open_cb :: "state_cb \<Rightarrow> act" where
  "run_open_cb cb = (case cb of
      ScChanOpen c \<Rightarrow> andthen (pure (rejoin_reset c)) (only_if (\<lambda>w. chan_state_of w c = ChErrored) (rejoin c))
    | ScFbOpen f \<Rightarrow> andthen (pure (upd_fb f (\<lambda>x. x\<lparr>fb_established := True\<rparr>))) (\<lambda>w.
        if \<not> fb_primaryTransport (fallbacks w f)
        then (if sk_primaryPassed (sock w) then w else storeSession fallback_key (js ''true'') w, None)
        else andthen (pure (\<lambda>w. start_fallback_timer f (clear_timeout (sk_fallbackTimer (sock w)) w)))
               (ping (PingFallback f)) w)
    | ScUser u \<Rightarrow> pure (log_call (UState u))
    | _ \<Rightarrow> skip)"

definition onConnOpen :: act where
  "onConnOpen = do_all
     [pure (upd_sock (\<lambda>s. s\<lparr>sk_closeWasClean := False, sk_disconnecting := False,
        sk_established := sk_established s + 1\<rparr>)),
      flushSendBuffer, pure reconnect_reset, pure resetHeartbeat,
      (\<lambda>w. for_each (\<lambda>(_, cb). run_open_cb cb) (cb_open (sk_callbacks (sock w))) w)]"

definition run_error_cb :: "state_cb \<Rightarrow> act" where
  "run_error_cb cb = (case cb of
      ScChanError c \<Rightarrow> pure (rejoin_reset c)
    | ScFbError f \<Rightarrow> only_if (\<lambda>w. fb_primaryTransport (fallbacks w f) \<and> \<not> fb_established (fallbacks w f))
        (andthen (pure (\<lambda>w. clear_timeout (sk_fallbackTimer (sock w)) w)) (run_fallback f))
    | ScUser u \<Rightarrow> pure (log_call (UState u))
    | _ \<Rightarrow> skip)"

definition onConnError :: act where
  "onConnError w =
     (let transportBefore = sk_transport (sock w); establishedBefore = sk_established (sock w)
      in andthen (for_each (\<lambda>(_, cb). run_error_cb cb) (cb_error (sk_callbacks (sock w))))
           (only_if (\<lambda>w. transportBefore = sk_transport (sock w) \<or> 0 < establishedBefore) triggerChanError) w)"

section \<open>Messages\<close>

text \<open>
  The two index loops of \<open>onConnMessage\<close> read the arrays afresh at every step; a callback may shorten
  them but never adds to them, so their initial length bounds the number of steps.
\<close>

fun channel_loop :: "nat \<Rightarrow> nat \<Rightarrow> msg \<Rightarrow> act" where
  "channel_loop 0 i m w = (w, None)"
| "channel_loop (Suc n) i m w =
     (if i < length (sk_channels (sock w))
      then (let c = sk_channels (sock w) ! i
            in andthen (only_if (\<lambda>w. isMember w c (m_topic m) (m_join_ref m))
                 (trigger DEPTH c (m_event m) (m_payload m) (m_ref m))) (channel_loop n (Suc i) m) w)
      else (w, None))"

definition run_message_cb :: "msg \<Rightarrow> state_cb \<Rightarrow> act" where
  "run_message_cb m cb = (case cb of
      ScPing r onMsgRef start e \<Rightarrow> only_if (\<lambda>_. m_ref m = Str r)
        (pure (\<lambda>w. run_ping_end e (now w - start) (socket_off [onMsgRef] w)))
    | ScUser u \<Rightarrow> pure (log_call (UMessage u m))
    | _ \<Rightarrow> skip)"

fun message_loop :: "nat \<Rightarrow> nat \<Rightarrow> msg \<Rightarrow> act" where
  "message_loop 0 i m w = (w, None)"
| "message_loop (Suc n) i m w =
     (if i < length (cb_message (sk_callbacks (sock w)))
      then andthen (run_message_cb m (snd (cb_message (sk_callbacks (sock w)) ! i))) (message_loop n (Suc i) m) w
      else (w, None))"

definition heartbeat_ack :: "msg \<Rightarrow> world \<Rightarrow> world" where
  "heartbeat_ack m w =
     (if truthy (m_ref m) \<and> (case sk_pendingHeartbeatRef (sock w) of None \<Rightarrow> False | Some r \<Rightarrow> m_ref m = Str r)
      then start_heartbeat (upd_sock (\<lambda>s. s\<lparr>sk_pendingHeartbeatRef := None\<rparr>) (clearHeartbeats w))
      else w)"

definition dispatch :: "msg \<Rightarrow> act" where
  "dispatch m = do_all
     [pure (heartbeat_ack m),
      (\<lambda>w. channel_loop (length (sk_channels (sock w))) 0 m w),
      (\<lambda>w. message_loop (length (cb_message (sk_callbacks (sock w)))) 0 m w)]"

definition onConnMessage :: "frame \<Rightarrow> act" where
  "onConnMessage f w = (case decode f of
      Inl e \<Rightarrow> (w, Some e)
    | Inr None \<Rightarrow> (w, Some TypeError)
    | Inr (Some m) \<Rightarrow> dispatch m w)"

section \<open>The environment\<close>

definition fire :: "timer_cb \<Rightarrow> act" where
  "fire cb = (case cb of
      TPush p \<Rightarrow> push_trigger p (js ''timeout'')
    | TRejoin c \<Rightarrow> andthen (pure (upd_chan c (\<lambda>ch. ch\<lparr>ch_rejoinTimer := retry_fired (ch_rejoinTimer ch)\<rparr>)))
        (only_if isConnected (rejoin c))
    | TReconnect \<Rightarrow> reconnect_timer
    | THeartbeat \<Rightarrow> sendHeartbeat
    | THeartbeatTimeout \<Rightarrow> heartbeatTimeout
    | TFallback f \<Rightarrow> run_fallback f
    | TBufferDone k code a tries \<Rightarrow> waitForBufferDone k code a tries
    | TSocketClosed k a tries \<Rightarrow> waitForSocketClosed k a tries)"

definition fire_timer :: "nat \<Rightarrow> act" where
  "fire_timer i w = (case map_of (timers w) i of None \<Rightarrow> (w, None)
     | Some (_, cb) \<Rightarrow> fire cb (clear_timeout (Some i) w))"

definition visibility :: "bool \<Rightarrow> act" where
  "visibility hidden =
     (if hidden then pure (upd_sock (\<lambda>s. s\<lparr>sk_pageHidden := True\<rparr>))
      else andthen (pure (upd_sock (\<lambda>s. s\<lparr>sk_pageHidden := False\<rparr>)))
        (only_if (\<lambda>w. \<not> isConnected w \<and> \<not> sk_closeWasClean (sock w)) (teardown AfterConnect None)))"

definition pagehide :: act where
  "pagehide = only_if (\<lambda>w. sk_conn (sock w) \<noteq> None) (andthen (disconnect None None)
     (pure (upd_sock (\<lambda>s. s\<lparr>sk_awaitingPageShow := Some (sk_connectClock s)\<rparr>))))"

definition pageshow :: act where
  "pageshow = only_if (\<lambda>w. sk_awaitingPageShow (sock w) = Some (sk_connectClock (sock w)))
     (andthen (pure (upd_sock (\<lambda>s. s\<lparr>sk_awaitingPageShow := None\<rparr>))) connect)"

datatype input =
    IChannel jsstr payload
  | IJoin nat nat
  | IPush nat jsstr payload nat
  | ILeave nat nat
  | IOn nat jsstr nat
  | IOff nat jsstr "nat option"
  | IReceive nat jsstr nat
  | IConnect
  | IDisconnect "nat option" "(nat \<times> jsstr) option"
  | IPing nat
  | IOnState state_kind nat
  | ITimer nat
  | IOpened nat
  | IFailed nat
  | IFrame nat frame
  | IClosed nat "nat option"
  | IBuffered nat nat
  | IVisibility bool
  | IPageHide
  | IPageShow
  | IClock int

fun step :: "input \<Rightarrow> act" where
  "step (IChannel topic params) w = (snd (channel topic (if pay_truthy params then params else empty_payload) w), None)"
| "step (IJoin c timeout) w = join c timeout w"
| "step (IPush c event pl timeout) w = chan_push c event pl timeout w"
| "step (ILeave c timeout) w = leave c timeout w"
| "step (IOn c event u) w = (chan_on c event (CbUser u) w, None)"
| "step (IOff c event ref) w = (chan_off c event ref w, None)"
| "step (IReceive p status u) w = (user_receive p status u w, None)"
| "step IConnect w = connect w"
| "step (IDisconnect u code) w = disconnect u code w"
| "step (IPing u) w = ping (PingUser u) w"
| "step (IOnState kind u) w = (snd (on_state_change kind (\<lambda>_. ScUser u) w), None)"
| "step (ITimer i) w = fire_timer i w"
| "step (IOpened k) w = (let w1 = upd_conn k (\<lambda>x. x\<lparr>k_readyState := Open\<rparr>) w
     in if k_handlers (conns w k) then onConnOpen w1 else (w1, None))"
| "step (IFailed k) w = (if k_handlers (conns w k) then onConnError w else (w, None))"
| "step (IFrame k f) w = (if k_handlers (conns w k) then onConnMessage f w else (w, None))"
| "step (IClosed k code) w = (let w1 = upd_conn k (\<lambda>x. x\<lparr>k_readyState := Closed\<rparr>) w
     in if k_onclose (conns w k) then onConnClose code w1 else (w1, None))"
| "step (IBuffered k n) w = (upd_conn k (\<lambda>x. x\<lparr>k_bufferedAmount := n\<rparr>) w, None)"
| "step (IVisibility hidden) w = visibility hidden w"
| "step IPageHide w = pagehide w"
| "step IPageShow w = pageshow w"
| "step (IClock t) w = (w\<lparr>now := t\<rparr>, None)"

definition run :: "input list \<Rightarrow> world \<Rightarrow> world" where
  "run xs w = foldl (\<lambda>w x. fst (step x w)) w xs"

end
