(* ===== verification/Phx_Invariant.thy ===== *)
theory Phx_Invariant
  imports Phx_Socket
begin

text \<open>
  Invariants of the client.  A locale collects what a predicate on worlds must satisfy under the
  primitive updates, and derives that every operation of push, channel and socket, and every step of
  the environment, keeps it; it is interpreted for the typing of bindings, for the identity of channels
  and timers, and for the bound of the dispatch loops.
\<close>

section \<open>From primitive updates to operations\<close>

lemma keeps_fst: "keeps P a \<Longrightarrow> P w \<Longrightarrow> P (fst (a w))"
  by (simp add: keeps_def)

lemma keepsI: "(\<And>w. P w \<Longrightarrow> P (fst (a w))) \<Longrightarrow> keeps P a"
  by (simp add: keeps_def)

lemma keeps_for_each_state: "(\<And>x. keeps P (f x)) \<Longrightarrow> keeps P (\<lambda>w. for_each f (g w) w)"
  using keeps_for_each [of _ P f] by (auto simp: keeps_def)

lemmas keeps_intros = keeps_do_Cons keeps_do_Nil keeps_pure keeps_only_if keeps_andthen keeps_skip

locale client_invariant =
  fixes P :: "world \<Rightarrow> bool"
  assumes P_sock: "(\<And>s. sk_channels (f s) = sk_channels s) \<Longrightarrow> P w \<Longrightarrow> P (upd_sock f w)"
    and P_drop: "P w \<Longrightarrow> P (upd_sock (\<lambda>s. s\<lparr>sk_channels := filter (\<lambda>d. d \<noteq> c) (sk_channels s)\<rparr>) w)"
    and P_push: "P w \<Longrightarrow> P (upd_push p pf w)"
    and P_conn: "P w \<Longrightarrow> P (upd_conn k kf w)"
    and P_fb: "P w \<Longrightarrow> P (upd_fb i ff w)"
    and P_chan: "(\<And>ch. ch_bindings (cf ch) = ch_bindings ch) \<Longrightarrow> P w \<Longrightarrow> P (upd_chan c cf w)"
    and P_on_push: "P w \<Longrightarrow> P (chan_on c (reply_prefix @ s) (CbPush p) w)"
    and P_on_user: "P w \<Longrightarrow> P (chan_on c ev (CbUser u) w)"
    and P_off: "P w \<Longrightarrow> P (chan_off c ev r w)"
    and P_set_timeout: "P w \<Longrightarrow> P (snd (set_timeout d cb w))"
    and P_clear_timeout: "P w \<Longrightarrow> P (clear_timeout t w)"
    and P_log: "P w \<Longrightarrow> P (log_call uc w)"
    and P_new_push: "P w \<Longrightarrow> P (snd (new_push c ev pl tm w))"
    and P_new_conn: "P w \<Longrightarrow> P (w\<lparr>conns := cs, next_conn := n\<rparr>)"
    and P_new_fb: "P w \<Longrightarrow> P (w\<lparr>fallbacks := fbs, next_fb := n\<rparr>)"
    and P_now: "P w \<Longrightarrow> P (w\<lparr>now := t'\<rparr>)"
begin

lemma P_makeRef: "P w \<Longrightarrow> makeRef w = (r, w') \<Longrightarrow> P w'"
  by (auto simp: makeRef_def Let_def intro: P_sock)

lemma P_set_timeout': "P w \<Longrightarrow> set_timeout d cb w = (t, w') \<Longrightarrow> P w'"
  using P_set_timeout [of w d cb] by simp

lemma P_new_push': "P w \<Longrightarrow> new_push c ev pl tm w = (p, w') \<Longrightarrow> P w'"
  using P_new_push [of w c ev pl tm] by simp

lemma P_on_state_change: "P w \<Longrightarrow> on_state_change kind cb w = (r, w') \<Longrightarrow> P w'"
  by (auto simp: on_state_change_def Let_def split: prod.splits intro!: P_sock dest: P_makeRef)

lemma P_conn_send: "P w \<Longrightarrow> P (conn_send f w)"
  by (auto simp: conn_send_def P_conn split: option.splits)

lemma P_socket_off: "P w \<Longrightarrow> P (socket_off rs w)"
  by (auto simp: socket_off_def intro: P_sock)

lemma P_socket_remove: "P w \<Longrightarrow> P (socket_remove c w)"
  by (simp add: socket_remove_def P_drop P_socket_off)

lemma P_set_state: "P w \<Longrightarrow> P (set_state c s w)"
  by (simp add: set_state_def P_chan)

lemma P_rejoin_timer: "P w \<Longrightarrow> P (rejoin_reset c w)" "P w \<Longrightarrow> P (rejoin_schedule c w)"
proof -
  assume w: "P w"
  then show "P (rejoin_reset c w)"
    by (simp add: rejoin_reset_def retry_reset_def P_chan P_clear_timeout)
  obtain i w2 where st: "set_timeout (o_rejoinAfterMs (sk_opts (sock w)) (rt_tries (ch_rejoinTimer (chans w c)) + 1))
      (TRejoin c) (clear_timeout (rt_timer (ch_rejoinTimer (chans w c))) w) = (i, w2)" by fastforce
  then have "P w2" using P_set_timeout' P_clear_timeout w by blast
  with st show "P (rejoin_schedule c w)" by (simp add: rejoin_schedule_def scheduleTimeout_def Let_def P_chan)
qed

lemma P_schedule: "P w \<Longrightarrow> P (schedule_if_connected c w)"
  by (simp add: schedule_if_connected_def P_rejoin_timer)

lemma P_push_ops: "P w \<Longrightarrow> P (cancelRefEvent p w)" "P w \<Longrightarrow> P (cancelTimeout p w)" "P w \<Longrightarrow> P (push_reset p w)"
    "P w \<Longrightarrow> P (add_hook p s h w)"
  by (auto simp: cancelRefEvent_def cancelTimeout_def push_reset_def add_hook_def P_off P_push P_clear_timeout
      split: option.splits)

lemma P_startTimeout: "P w \<Longrightarrow> P (startTimeout p w)"
proof -
  assume w: "P w"
  define w1 where "w1 = (if pu_timer (pushes w p) \<noteq> None then cancelTimeout p w else w)"
  obtain r w2 where mk: "makeRef w1 = (r, w2)" by fastforce
  define w3 where "w3 = upd_push p (\<lambda>pu. pu\<lparr>pu_ref := Some r, pu_refEvent := Some (reply_prefix @ r)\<rparr>) w2"
  define w4 where "w4 = chan_on (pu_channel (pushes w3 p)) (reply_prefix @ r) (CbPush p) w3"
  obtain t w5 where st: "set_timeout (pu_timeout (pushes w4 p)) (TPush p) w4 = (t, w5)" by fastforce
  have "P w1" using w by (simp add: w1_def P_push_ops)
  then have "P w2" using mk by (rule P_makeRef)
  then have "P w4" by (simp add: w4_def w3_def P_push P_on_push)
  then have "P w5" using st by (rule P_set_timeout')
  moreover have "startTimeout p w = upd_push p (\<lambda>pu. pu\<lparr>pu_timer := Some t\<rparr>) w5"
    using mk st unfolding startTimeout_def w1_def w3_def w4_def Let_def by (simp split del: if_split)
  ultimately show ?thesis by (simp add: P_push)
qed

lemma P_send: "keeps P (send p)"
proof (rule keepsI)
  fix w assume "P w"
  then have "P (upd_push p (\<lambda>pu. pu\<lparr>pu_sent := True\<rparr>) (startTimeout p w))" by (simp add: P_push P_startTimeout)
  with \<open>P w\<close> show "P (fst (send p w))"
    by (auto simp: send_def Let_def socket_push_def encode_send_def P_conn_send intro!: P_sock split: sum.splits)
qed

lemma P_socket_push: "keeps P (socket_push m)"
  by (rule keepsI) (auto simp: socket_push_def encode_send_def P_conn_send intro!: P_sock split: sum.splits)

lemma P_encode_send: "keeps P (encode_send m)"
  by (rule keepsI) (auto simp: encode_send_def P_conn_send split: sum.splits)

lemma P_resend: "keeps P (resend p t)"
  unfolding resend_def by (intro keeps_andthen keeps_pure P_push_ops P_push P_send)

lemma P_join_ok: "keeps P (join_ok c)"
proof -
  have "keeps P (\<lambda>w. for_each send (ch_pushBuffer (chans w c)) w)"
    by (intro keeps_for_each_state P_send)
  then show ?thesis
    unfolding join_ok_def
    by (intro keeps_intros P_set_state P_rejoin_timer P_chan) simp_all
qed

lemma P_join_timeout: "keeps P (join_timeout c)"
proof (rule keepsI)
  fix w assume "P w"
  obtain lp w1 where np: "new_push c EVENT_leave empty_payload (ch_timeout (chans w c)) w = (lp, w1)" by fastforce
  have "keeps P (andthen (send lp) (pure (\<lambda>w. schedule_if_connected c
      (push_reset (ch_joinPush (chans w c)) (set_state c ChErrored w)))))"
    by (intro keeps_andthen keeps_pure P_send P_schedule P_push_ops P_set_state)
  then show "P (fst (join_timeout c w))"
    using P_new_push' [OF \<open>P w\<close> np] by (simp add: join_timeout_def np keeps_fst)
qed

lemma P_chan_close: "P w \<Longrightarrow> P (chan_close c w)"
  by (simp add: chan_close_def P_socket_remove P_set_state P_rejoin_timer)

lemma P_chan_error: "P w \<Longrightarrow> P (chan_error c w)"
  by (simp add: chan_error_def Let_def P_schedule P_set_state P_push_ops)

lemma P_run_hook: "(\<And>ev pl ref. keeps P (trigger n c ev pl ref)) \<Longrightarrow> keeps P (run_hook n c h resp)"
  using P_join_ok P_join_timeout
  by (cases h) (auto intro!: keepsI simp: keeps_fst P_schedule P_set_state P_log)

lemma P_run_cb: "(\<And>ev pl ref. keeps P (trigger n c ev pl ref)) \<Longrightarrow> keeps P (run_cb n c cb pl ref)"
proof (cases cb)
  case (CbPush p)
  assume "\<And>ev pl ref. keeps P (trigger n c ev pl ref)"
  then have hooks: "keeps P (for_each (\<lambda>(s, h). run_hook n c h r) hs)" for r hs
    by (intro keeps_for_each) (auto intro: P_run_hook)
  show ?thesis
    unfolding CbPush
    by (rule keepsI) (auto simp: Let_def P_push P_push_ops intro!: keeps_fst [OF hooks])
qed (auto intro!: keepsI simp: P_chan_close P_chan_error P_log keeps_fst split: sum.splits)

lemma P_trigger: "keeps P (trigger n c ev pl ref)"
proof (induction n arbitrary: c ev pl ref)
  case (Suc n)
  have "keeps P (for_each (\<lambda>b. run_cb n c (b_cb b) pl ref) bs)" for bs
    by (intro keeps_for_each P_run_cb Suc)
  then show ?case unfolding keeps_def trigger.simps by blast
qed (auto intro: keepsI)

lemma P_push_trigger: "keeps P (push_trigger p s)"
  by (rule keepsI) (simp add: push_trigger_def keeps_fst [OF P_trigger])

lemma P_leave: "keeps P (leave c t)"
proof (rule keepsI)
  fix w assume "P w"
  define w1 where "w1 = set_state c ChLeaving (cancelTimeout (ch_joinPush (chans w c)) (rejoin_reset c w))"
  obtain lp w2 where np: "new_push c EVENT_leave empty_payload t w1 = (lp, w2)" by fastforce
  have "P w1" using \<open>P w\<close> by (simp add: w1_def P_set_state P_push_ops P_rejoin_timer)
  then have "P w2" using np by (rule P_new_push')
  moreover have "keeps P (andthen (send lp) (only_if (\<lambda>w. \<not> canPush w c) (push_trigger lp (js ''ok''))))"
    by (intro keeps_andthen keeps_only_if P_send P_push_trigger)
  ultimately show "P (fst (leave c t w))"
    by (simp add: leave_def Let_def np keeps_fst P_push_ops flip: w1_def)
qed

lemma P_rejoin: "keeps P (rejoin c)"
proof -
  have "keeps P (leaveOpenTopic topic)" for topic
    by (rule keepsI) (auto simp: leaveOpenTopic_def keeps_fst [OF P_leave] split: option.splits)
  moreover have "keeps P (\<lambda>w. resend (ch_joinPush (chans w c)) (ch_timeout (chans w c)) w)"
    using P_resend by (simp add: keeps_def)
  ultimately have "keeps P (do_all [leaveOpenTopic topic, pure (set_state c ChJoining),
      (\<lambda>w. resend (ch_joinPush (chans w c)) (ch_timeout (chans w c)) w)])" for topic
    by (intro keeps_do_all) (auto intro!: keeps_pure P_set_state)
  then show ?thesis by (intro keepsI) (simp add: rejoin_def keeps_fst del: do_all.simps)
qed

lemma P_join: "keeps P (join c t)"
  by (rule keepsI) (auto simp: join_def intro!: keeps_fst [OF P_rejoin] P_chan)

lemma P_chan_push: "keeps P (chan_push c ev pl t)"
proof (rule keepsI)
  fix w assume "P w"
  define pl' where "pl' = (if pay_truthy pl then pl else empty_payload)"
  obtain p w1 where np: "new_push c ev pl' t w = (p, w1)" by fastforce
  have "P w1" using \<open>P w\<close> np by (rule P_new_push')
  then have "P (fst (if canPush w1 c then send p w1
      else (upd_chan c (\<lambda>ch. ch\<lparr>ch_pushBuffer := ch_pushBuffer ch @ [p]\<rparr>) (startTimeout p w1), None)))"
    by (simp add: keeps_fst [OF P_send] P_chan P_startTimeout)
  with \<open>P w\<close> show "P (fst (chan_push c ev pl t w))"
    by (simp add: chan_push_def Let_def np flip: pl'_def)
qed

lemma P_reconnect: "P w \<Longrightarrow> P (reconnect_reset w)" "P w \<Longrightarrow> P (reconnect_schedule w)"
proof -
  assume w: "P w"
  then show "P (reconnect_reset w)"
    by (simp add: reconnect_reset_def retry_reset_def P_sock P_clear_timeout)
  obtain i w2 where st: "set_timeout (o_reconnectAfterMs (sk_opts (sock w)) (rt_tries (sk_reconnectTimer (sock w)) + 1))
      TReconnect (clear_timeout (rt_timer (sk_reconnectTimer (sock w))) w) = (i, w2)" by fastforce
  then have "P w2" using P_set_timeout' P_clear_timeout w by blast
  with st show "P (reconnect_schedule w)" by (simp add: reconnect_schedule_def scheduleTimeout_def Let_def P_sock)
qed

lemma P_heartbeats: "P w \<Longrightarrow> P (clearHeartbeats w)" "P w \<Longrightarrow> P (start_heartbeat w)" "P w \<Longrightarrow> P (resetHeartbeat w)"
    "P w \<Longrightarrow> P (heartbeat_ack m w)"
proof -
  have clear: "P (clearHeartbeats w)" if "P w" for w
    using that by (simp add: clearHeartbeats_def P_clear_timeout)
  have start: "P (start_heartbeat w)" if "P w" for w
    using that by (auto simp: start_heartbeat_def split: prod.splits intro!: P_sock dest: P_set_timeout')
  assume "P w"
  with clear start show "P (clearHeartbeats w)" "P (start_heartbeat w)" "P (resetHeartbeat w)" "P (heartbeat_ack m w)"
    by (simp_all add: resetHeartbeat_def heartbeat_ack_def P_sock)
qed

lemma P_sendHeartbeat: "keeps P sendHeartbeat"
proof (rule keepsI)
  fix w assume "P w"
  obtain r w1 where mk: "makeRef w = (r, w1)" by fastforce
  have "P (upd_sock (\<lambda>s. s\<lparr>sk_pendingHeartbeatRef := Some r\<rparr>) w1)"
    using P_makeRef [OF \<open>P w\<close> mk] by (simp add: P_sock)
  moreover have "keeps P (andthen (socket_push (heartbeat_msg r)) (pure (\<lambda>w.
      let (t, w') = set_timeout (o_heartbeatIntervalMs (sk_opts (sock w))) THeartbeatTimeout w
      in upd_sock (\<lambda>s. s\<lparr>sk_heartbeatTimeoutTimer := Some t\<rparr>) w')))"
    by (intro keeps_andthen keeps_pure P_socket_push)
      (auto split: prod.splits intro!: P_sock dest: P_set_timeout')
  ultimately show "P (fst (sendHeartbeat w))"
    using \<open>P w\<close> by (simp add: sendHeartbeat_def mk keeps_fst)
qed

lemma P_triggerChanError: "keeps P triggerChanError"
  unfolding triggerChanError_def by (intro keeps_for_each_state keeps_only_if P_trigger)

lemma P_onConnClose: "keeps P (onConnClose code)"
proof -
  have "keeps P (run_close_cb cb)" for cb
    by (auto simp: run_close_cb_def intro!: keeps_pure keeps_skip P_log split: state_cb.splits)
  then have "keeps P (\<lambda>w. for_each (\<lambda>(_, cb). run_close_cb cb) (cb_close (sk_callbacks (sock w))) w)"
    by (intro keeps_for_each_state) (auto split: prod.splits)
  then show ?thesis
    unfolding onConnClose_def
    by (intro keeps_intros P_triggerChanError P_heartbeats P_reconnect) (auto simp: P_conn split: option.splits)
qed

lemma P_conn_close: "keeps P (conn_close k code)"
  by (rule keepsI) (auto simp: conn_close_def Let_def intro!: P_conn keeps_fst [OF P_onConnClose] split: transport.splits)

lemma P_transportConnect: "P w \<Longrightarrow> P (transportConnect w)"
  by (simp add: transportConnect_def Let_def P_sock P_new_conn)

lemma P_replaceTransport: "keeps P (replaceTransport t)"
proof -
  have "keeps P (andthen (conn_close k None) (pure (upd_sock (\<lambda>s. s\<lparr>sk_conn := None\<rparr>))))" for k
    by (intro keeps_andthen keeps_pure P_conn_close P_sock) simp
  then have "keeps P (\<lambda>w. case sk_conn (sock w) of None \<Rightarrow> (w, None)
         | Some k \<Rightarrow> andthen (conn_close k None) (pure (upd_sock (\<lambda>s. s\<lparr>sk_conn := None\<rparr>))) w)"
    by (auto intro!: keepsI simp: keeps_fst split: option.splits)
  then show ?thesis
    unfolding replaceTransport_def
    by (intro keeps_intros P_sock P_reconnect P_clear_timeout) simp_all
qed

lemma P_run_fallback: "keeps P (run_fallback f)"
  unfolding run_fallback_def
  by (intro keeps_intros P_socket_off P_fb P_replaceTransport P_transportConnect)

lemma P_start_fallback_timer: "P w \<Longrightarrow> P (start_fallback_timer f w)"
  by (auto simp: start_fallback_timer_def split: prod.splits intro!: P_sock dest: P_set_timeout')

lemma P_connectWithFallback: "keeps P (connectWithFallback t)"
proof (rule keepsI)
  fix w assume "P w"
  define w1 where "w1 = clear_timeout (sk_fallbackTimer (sock w)) w"
  define f where "f = next_fb w1"
  define w2 where "w2 = w1\<lparr>fallbacks := (fallbacks w1)(f := \<lparr>fb_threshold = t, fb_established = False,
      fb_primaryTransport = True, fb_errorRef = None\<rparr>), next_fb := Suc f\<rparr>"
  have w2: "P w2" using \<open>P w\<close> by (simp add: w2_def w1_def P_new_fb P_clear_timeout)
  obtain er w4 where w4: "on_state_change KError (\<lambda>_. ScFbError f) (start_fallback_timer f w2) = (er, w4)" by fastforce
  define w5 where "w5 = upd_fb f (\<lambda>x. x\<lparr>fb_errorRef := Some er\<rparr>) w4"
  define w6 where "w6 = (case sk_fallbackRef (sock w5) of None \<Rightarrow> w5 | Some r \<Rightarrow> socket_off [r] w5)"
  obtain fr w7 where w7: "on_state_change KOpen (\<lambda>_. ScFbOpen f) w6 = (fr, w7)" by fastforce
  have "P w4" using P_on_state_change [OF P_start_fallback_timer [OF w2] w4] .
  then have "P w6" by (auto simp: w6_def w5_def P_fb P_socket_off split: option.splits)
  then have "P w7" using w7 by (rule P_on_state_change)
  then have "P (transportConnect (upd_sock (\<lambda>s. s\<lparr>sk_fallbackRef := Some fr\<rparr>) w7))"
    by (intro P_transportConnect P_sock) simp
  moreover have "connectWithFallback t w = (if getSession w2 fallback_key then run_fallback f w2
      else (transportConnect (upd_sock (\<lambda>s. s\<lparr>sk_fallbackRef := Some fr\<rparr>) w7), None))"
    unfolding connectWithFallback_def Let_def w1_def [symmetric] f_def [symmetric] w2_def [symmetric] w4 prod.case
      w5_def [symmetric] w6_def [symmetric] w7 ..
  ultimately show "P (fst (connectWithFallback t w))" using w2 by (simp add: keeps_fst [OF P_run_fallback])
qed

lemma P_connect: "keeps P connect"
  by (rule keepsI) (auto simp: connect_def P_transportConnect intro!: keeps_fst [OF P_connectWithFallback])

lemma P_run_after: "keeps P (run_after a)"
proof -
  have "P ((case u of None \<Rightarrow> id | Some n \<Rightarrow> log_call (UDisconnected n)) (upd_sock (\<lambda>s. s\<lparr>sk_disconnecting := False\<rparr>) w))"
    if "P w" for u w
    using that by (auto simp: P_log P_sock split: option.splits)
  then show ?thesis
    unfolding run_after_def
    by (auto intro!: keeps_pure keeps_skip P_connect P_reconnect split: after.splits)
qed

lemma P_waits: "keeps P (waitForSocketClosed k a n)" "keeps P (waitForBufferDone k code a n)"
proof -
  have "keeps P (andthen (pure (\<lambda>w. if sk_conn (sock w) = Some k
      then upd_sock (\<lambda>s. s\<lparr>sk_conn := None\<rparr>) (upd_conn k (\<lambda>x. x\<lparr>k_handlers := False, k_onclose := False\<rparr>) w)
      else w)) (run_after a))" for k a
    by (intro keeps_andthen keeps_pure P_run_after) (simp add: P_sock P_conn)
  then have c: "keeps P (waitForSocketClosed k a n)" for k a n
    by (intro keepsI) (simp add: waitForSocketClosed_def keeps_fst P_set_timeout del: andthen_simps)
  then have "keeps P (andthen (conn_close k code) (waitForSocketClosed k a 1))"
    by (intro keeps_andthen P_conn_close)
  then show "keeps P (waitForBufferDone k code a n)"
    by (intro keepsI) (simp add: waitForBufferDone_def keeps_fst P_set_timeout)
  show "keeps P (waitForSocketClosed k a n)" by (rule c)
qed

lemma P_teardown: "keeps P (teardown a code)"
  by (rule keepsI) (auto simp: teardown_def intro!: keeps_fst [OF P_run_after] keeps_fst [OF P_waits(2)] split: option.splits)

lemma P_disconnect: "keeps P (disconnect u code)"
  unfolding disconnect_def
  by (intro keeps_intros P_sock P_reconnect P_clear_timeout P_teardown) simp

lemma P_heartbeatTimeout: "keeps P heartbeatTimeout"
  unfolding heartbeatTimeout_def
  by (intro keeps_intros P_sock P_triggerChanError P_teardown) simp_all

lemma P_reconnect_timer: "keeps P reconnect_timer"
  by (rule keepsI) (simp add: reconnect_timer_def Let_def keeps_fst [OF P_teardown] P_sock)

lemma P_ping: "keeps P (ping e)"
proof -
  have "keeps P (\<lambda>w. let (r, w1) = makeRef w; start = now w1
     in andthen (socket_push (heartbeat_msg r))
          (pure (\<lambda>w. snd (on_state_change KMessage (\<lambda>onMsgRef. ScPing r onMsgRef start e) w))) w1)"
  proof (rule keepsI)
    fix w assume "P w"
    obtain r w1 where mk: "makeRef w = (r, w1)" by fastforce
    have "keeps P (andthen (socket_push (heartbeat_msg r))
          (pure (\<lambda>w. snd (on_state_change KMessage (\<lambda>onMsgRef. ScPing r onMsgRef (now w1) e) w))))"
      by (intro keeps_andthen keeps_pure P_socket_push) (metis P_on_state_change prod.collapse)
    then show "P (fst (let (r, w1) = makeRef w; start = now w1
        in andthen (socket_push (heartbeat_msg r))
          (pure (\<lambda>w. snd (on_state_change KMessage (\<lambda>onMsgRef. ScPing r onMsgRef start e) w))) w1))"
      using P_makeRef [OF \<open>P w\<close> mk] by (simp add: mk keeps_fst)
  qed
  then show ?thesis unfolding ping_def by (rule keeps_only_if)
qed

lemma P_flush: "keeps P flushSendBuffer"
proof -
  have "keeps P (andthen (for_each encode_send ms) (pure (upd_sock (\<lambda>s. s\<lparr>sk_sendBuffer := []\<rparr>))))" for ms
    by (intro keeps_andthen keeps_pure keeps_for_each P_encode_send P_sock) simp
  then show ?thesis unfolding flushSendBuffer_def by (intro keeps_only_if keepsI) (rule keeps_fst)
qed

lemma P_run_open_cb: "keeps P (run_open_cb cb)"
proof (cases cb)
  case (ScFbOpen f)
  have "keeps P (andthen (pure (\<lambda>w. start_fallback_timer f (clear_timeout (sk_fallbackTimer (sock w)) w)))
      (ping (PingFallback f)))"
    by (intro keeps_andthen keeps_pure P_start_fallback_timer P_clear_timeout P_ping)
  then have "keeps P (\<lambda>w. if \<not> fb_primaryTransport (fallbacks w f)
        then (if sk_primaryPassed (sock w) then w else storeSession fallback_key (js ''true'') w, None)
        else andthen (pure (\<lambda>w. start_fallback_timer f (clear_timeout (sk_fallbackTimer (sock w)) w)))
               (ping (PingFallback f)) w)"
    by (intro keepsI) (simp add: keeps_fst storeSession_def P_sock del: andthen_simps)
  then show ?thesis unfolding run_open_cb_def ScFbOpen by (auto intro!: keeps_andthen keeps_pure P_fb)
qed (auto simp: run_open_cb_def intro!: keeps_pure keeps_skip keeps_andthen keeps_only_if P_rejoin P_rejoin_timer P_log)

lemma P_onConnOpen: "keeps P onConnOpen"
proof -
  have "keeps P (\<lambda>w. for_each (\<lambda>(_, cb). run_open_cb cb) (cb_open (sk_callbacks (sock w))) w)"
    by (intro keeps_for_each_state) (auto split: prod.splits intro: P_run_open_cb)
  then show ?thesis
    unfolding onConnOpen_def
    by (intro keeps_intros P_sock P_flush P_reconnect P_heartbeats) simp_all
qed

lemma P_onConnError: "keeps P onConnError"
proof -
  have "keeps P (run_error_cb cb)" for cb
    by (auto simp: run_error_cb_def intro!: keeps_pure keeps_skip keeps_andthen keeps_only_if P_rejoin_timer
        P_run_fallback P_clear_timeout P_log split: state_cb.splits)
  then have "keeps P (andthen (for_each (\<lambda>(_, cb). run_error_cb cb) cbs) (only_if p triggerChanError))" for cbs p
    by (intro keeps_andthen keeps_for_each keeps_only_if P_triggerChanError) (auto split: prod.splits)
  then show ?thesis unfolding onConnError_def Let_def by (intro keepsI) (rule keeps_fst)
qed

lemma P_channel_loop: "keeps P (channel_loop n i m)"
proof (induction n arbitrary: i)
  case (Suc n)
  have "keeps P (andthen (only_if (\<lambda>w. isMember w c (m_topic m) (m_join_ref m))
      (trigger DEPTH c (m_event m) (m_payload m) (m_ref m))) (channel_loop n (Suc i) m))" for c
    by (intro keeps_andthen keeps_only_if P_trigger Suc)
  then show ?case by (intro keepsI) (simp add: Let_def keeps_fst)
qed (simp add: keeps_def)

lemma P_message_loop: "keeps P (message_loop n i m)"
proof (induction n arbitrary: i)
  case (Suc n)
  have "keeps P (run_message_cb m cb)" for cb
    by (auto simp: run_message_cb_def run_ping_end_def intro!: keeps_pure keeps_skip keeps_only_if P_socket_off P_log
        P_clear_timeout P_sock split: state_cb.splits ping_end.splits)
  then have "keeps P (andthen (run_message_cb m cb) (message_loop n (Suc i) m))" for cb
    by (intro keeps_andthen Suc)
  then show ?case by (intro keepsI) (simp add: keeps_fst)
qed (simp add: keeps_def)

lemma P_dispatch: "keeps P (dispatch m)"
proof -
  have "keeps P (\<lambda>w. channel_loop (length (sk_channels (sock w))) 0 m w)"
    "keeps P (\<lambda>w. message_loop (length (cb_message (sk_callbacks (sock w)))) 0 m w)"
    using P_channel_loop P_message_loop by (simp_all add: keeps_def)
  then show ?thesis
    unfolding dispatch_def by (intro keeps_intros P_heartbeats)
qed

lemma P_onConnMessage: "keeps P (onConnMessage f)"
  by (rule keepsI) (auto simp: onConnMessage_def keeps_fst [OF P_dispatch] split: sum.splits option.splits)

lemma P_fire: "keeps P (fire cb)"
proof (cases cb)
  case (TRejoin c)
  then show ?thesis
    by (auto simp: fire_def intro!: keeps_andthen keeps_pure keeps_only_if P_chan P_rejoin)
qed (auto simp: fire_def P_push_trigger P_reconnect_timer P_sendHeartbeat P_heartbeatTimeout P_run_fallback P_waits)

lemma P_fire_timer: "keeps P (fire_timer i)"
  by (rule keepsI) (auto simp: fire_timer_def intro!: keeps_fst [OF P_fire] P_clear_timeout split: option.splits)

lemma P_page: "keeps P (visibility h)" "keeps P pagehide" "keeps P pageshow"
  by (auto simp: visibility_def pagehide_def pageshow_def
      intro!: keeps_andthen keeps_pure keeps_only_if P_sock P_teardown P_disconnect P_connect)

end

text \<open>With the creation of channels, every step of the environment.\<close>

locale run_invariant = client_invariant +
  assumes P_channel: "P w \<Longrightarrow> P (snd (channel topic params w))"
begin

lemma P_step: "P w \<Longrightarrow> P (fst (step x w))"
proof (cases x)
  case (IReceive p s u)
  then show "P w \<Longrightarrow> ?thesis" by (simp add: user_receive_def P_push_ops P_log)
next
  case (IOnState kind u)
  then show "P w \<Longrightarrow> ?thesis" by simp (metis P_on_state_change prod.collapse)
qed (simp_all add: P_channel P_on_user P_off P_conn P_now keeps_fst [OF P_join] keeps_fst [OF P_chan_push]
    keeps_fst [OF P_leave] keeps_fst [OF P_connect] keeps_fst [OF P_disconnect] keeps_fst [OF P_ping]
    keeps_fst [OF P_fire_timer] keeps_fst [OF P_onConnOpen] keeps_fst [OF P_onConnError] keeps_fst [OF P_onConnMessage]
    keeps_fst [OF P_onConnClose] keeps_fst [OF P_page(1)] keeps_fst [OF P_page(2)] keeps_fst [OF P_page(3)] Let_def)

lemma P_run: "P w \<Longrightarrow> P (run xs w)"
  unfolding run_def by (induction xs arbitrary: w) (simp_all add: P_step)

end

end
