(* ===== verification/Phx_Client.thy ===== *)
theory Phx_Client
  imports Phx_Invariant
begin

text \<open>
  What holds of the Phoenix client in every run: bindings stay typed, so the depth allowed to nested
  triggers is enough; channels and timers keep their identity; the dispatch loops see every channel and
  callback they should; a leave is completed by the client itself.
\<close>

section \<open>Typed bindings\<close>

text \<open>Each internal callback is bound to its own event; reply events carry the reply prefix.\<close>

definition typed_binding :: "binding \<Rightarrow> bool" where
  "typed_binding b \<longleftrightarrow> (case b_cb b of
      CbClose \<Rightarrow> b_event b = EVENT_close | CbError \<Rightarrow> b_event b = EVENT_error
    | CbReply \<Rightarrow> b_event b = EVENT_reply | CbPush _ \<Rightarrow> take 11 (b_event b) = reply_prefix | CbUser _ \<Rightarrow> True)"

definition typed :: "world \<Rightarrow> bool" where
  "typed w \<longleftrightarrow> (\<forall>c. \<forall>b \<in> set (ch_bindings (chans w c)). typed_binding b)"

lemma typed_upd_chan:
  "typed w \<Longrightarrow> (\<And>b. b \<in> set (ch_bindings (f (chans w c))) \<Longrightarrow> typed_binding b) \<Longrightarrow> typed (upd_chan c f w)"
  by (simp add: typed_def upd_chan_def)

lemma typed_bindings: "typed w \<Longrightarrow> b \<in> set (ch_bindings (chans w c)) \<Longrightarrow> typed_binding b"
  by (simp add: typed_def)

lemma typed_chan_on: "typed w \<Longrightarrow> typed_binding \<lparr>b_event = ev, b_ref = ch_bindingRef (chans w c), b_cb = cb\<rparr>
    \<Longrightarrow> typed (chan_on c ev cb w)"
  unfolding chan_on_def by (rule typed_upd_chan) (auto dest: typed_bindings)

lemma chans_frame [frame_simps]:
  "chans (upd_sock f w) = chans w" "chans (upd_push p g w) = chans w" "chans (upd_conn k h w) = chans w"
  "chans (upd_fb i j w) = chans w" "chans (log_call u w) = chans w" "chans (clear_timeout t w) = chans w"
  "chans (snd (set_timeout d cb w)) = chans w" "chans (snd (new_push c ev pl tm w)) = chans w"
  "chans (add_hook p s hk w) = chans w"
  by (simp_all add: heap_defs clear_timeout_def set_timeout_def new_push_def add_hook_def split: option.splits)

lemma typed_frame:
  "typed (upd_sock f w) = typed w" "typed (upd_push p g w) = typed w" "typed (upd_conn k h w) = typed w"
  "typed (upd_fb i j w) = typed w" "typed (log_call u w) = typed w" "typed (clear_timeout t w) = typed w"
  "typed (snd (set_timeout d cb w)) = typed w" "typed (snd (new_push c ev pl tm w)) = typed w"
  "typed (w\<lparr>conns := cs, next_conn := n\<rparr>) = typed w" "typed (w\<lparr>fallbacks := fbs, next_fb := n\<rparr>) = typed w"
  "typed (w\<lparr>now := tt\<rparr>) = typed w"
  by (simp_all add: typed_def chans_frame)

interpretation typed_inv: client_invariant typed
proof unfold_locales
  show "typed w \<Longrightarrow> typed (chan_on c (reply_prefix @ s) (CbPush p) w)" for w c s p
    by (rule typed_chan_on) (simp_all add: typed_binding_def reply_prefix_def)
  show "typed w \<Longrightarrow> typed (chan_on c ev (CbUser u) w)" for w c ev u
    by (rule typed_chan_on) (simp_all add: typed_binding_def)
  show "typed w \<Longrightarrow> typed (chan_off c ev r w)" for w c ev r
    unfolding chan_off_def by (rule typed_upd_chan) (auto dest: typed_bindings)
  show "(\<And>ch. ch_bindings (cf ch) = ch_bindings ch) \<Longrightarrow> typed w \<Longrightarrow> typed (upd_chan c cf w)" for cf w c
    by (rule typed_upd_chan) (auto dest: typed_bindings)
qed (simp_all add: typed_frame)

lemma on_state_change_chans: "on_state_change kind cb w = (r, w') \<Longrightarrow> chans w' = chans w"
  by (auto simp: on_state_change_def makeRef_def Let_def chans_frame)

lemma typed_channel: "typed w \<Longrightarrow> typed (snd (channel topic params w))"
proof -
  assume w: "typed w"
  define c where "c = next_chan w"
  obtain jp w1 where np: "new_push c EVENT_join params (o_timeout (sk_opts (sock w))) (w\<lparr>next_chan := Suc c\<rparr>) = (jp, w1)"
    by fastforce
  define ch where "ch = \<lparr>ch_state = ChClosed, ch_topic = topic, ch_bindings = [],
     ch_bindingRef = 0, ch_timeout = o_timeout (sk_opts (sock w)), ch_joinedOnce = False, ch_joinPush = jp,
     ch_pushBuffer = [], ch_stateChangeRefs = [], ch_rejoinTimer = retry_new\<rparr>"
  define w2 where "w2 = w1\<lparr>chans := (chans w1)(c := ch)\<rparr>"
  obtain r1 w3 where w3: "on_state_change KError (\<lambda>_. ScChanError c) w2 = (r1, w3)" by fastforce
  obtain r2 w4 where w4: "on_state_change KOpen (\<lambda>_. ScChanOpen c) w3 = (r2, w4)" by fastforce
  have "chans w1 = chans w" using np by (auto simp: new_push_def)
  then have "typed w2" using w by (simp add: typed_def w2_def ch_def)
  then have "typed w4" using on_state_change_chans [OF w3] on_state_change_chans [OF w4] by (simp add: typed_def)
  then have "typed (upd_chan c (\<lambda>ch. ch\<lparr>ch_stateChangeRefs := [r1, r2]\<rparr>) w4)"
    by (intro typed_inv.P_chan) simp_all
  moreover have "typed_binding \<lparr>b_event = EVENT_close, b_ref = n, b_cb = CbClose\<rparr>"
    "typed_binding \<lparr>b_event = EVENT_error, b_ref = n, b_cb = CbError\<rparr>"
    "typed_binding \<lparr>b_event = EVENT_reply, b_ref = n, b_cb = CbReply\<rparr>" for n
    by (simp_all add: typed_binding_def)
  ultimately show ?thesis
    unfolding channel_def Let_def c_def [symmetric] np prod.case ch_def [symmetric] w2_def [symmetric] w3 w4 snd_conv
    unfolding typed_frame(1) by (intro typed_chan_on typed_inv.P_push_ops) simp_all
qed

interpretation typed_run: run_invariant typed
  by unfold_locales (rule typed_channel)

section \<open>Depth of triggers\<close>

lemma EVENT_simps [simp]:
  "EVENT_close \<noteq> EVENT_error" "EVENT_close \<noteq> EVENT_reply" "EVENT_error \<noteq> EVENT_reply"
  "take 11 EVENT_close \<noteq> reply_prefix" "take 11 EVENT_error \<noteq> reply_prefix" "take 11 EVENT_reply \<noteq> reply_prefix"
  by (simp_all add: EVENT_close_def EVENT_error_def EVENT_reply_def reply_prefix_def)

lemma for_each_cong:
  assumes "\<And>x w. x \<in> set xs \<Longrightarrow> P w \<Longrightarrow> f x w = g x w" "\<And>x. x \<in> set xs \<Longrightarrow> keeps P (f x)" "P w"
  shows "for_each f xs w = for_each g xs w"
  using assms
proof (induction xs arbitrary: w)
  case (Cons x xs)
  obtain w1 e where f: "f x w = (w1, e)" by fastforce
  then have g: "g x w = (w1, e)" using Cons.prems(1) [of x w] Cons.prems(3) by simp
  have "P w1" using keeps_fst [OF Cons.prems(2) Cons.prems(3), of x] f by simp
  then have IH: "for_each f xs w1 = for_each g xs w1" using Cons.prems by (intro Cons.IH) auto
  show ?case
  proof (cases e)
    case None
    with f g IH show ?thesis by simp
  next
    case (Some x)
    with f g show ?thesis by simp
  qed
qed simp

text \<open>The close event runs no further trigger.\<close>

lemma trigger_close_depth:
  assumes "typed w"
  shows "trigger (Suc n) c (Str EVENT_close) pl ref w = trigger (Suc m) c (Str EVENT_close) pl ref w"
proof -
  have "run_cb n c (b_cb b) pl ref w' = run_cb m c (b_cb b) pl ref w'"
    if "b \<in> set (filter (\<lambda>b. Str (b_event b) = Str EVENT_close) (ch_bindings (chans w c)))" for b w'
  proof -
    have "typed_binding b" "b_event b = EVENT_close" using that assms by (auto dest: typed_bindings)
    then show ?thesis by (cases "b_cb b") (auto simp: typed_binding_def)
  qed
  then show ?thesis
    unfolding trigger.simps by (intro for_each_cong [where P = typed] typed_inv.P_run_cb typed_inv.P_trigger assms) auto
qed

lemma run_hook_depth: "typed w \<Longrightarrow> run_hook (Suc n) c h resp w = run_hook (Suc m) c h resp w"
  by (cases h) (simp_all add: trigger_close_depth [of w n c _ _ m] del: trigger.simps)

lemma trigger_reply_depth:
  assumes "typed w" "take 11 ev = reply_prefix"
  shows "trigger (Suc (Suc n)) c (Str ev) pl ref w = trigger (Suc (Suc m)) c (Str ev) pl ref w"
proof -
  have "run_cb (Suc n) c (b_cb b) pl ref w' = run_cb (Suc m) c (b_cb b) pl ref w'"
    if "b \<in> set (filter (\<lambda>b. Str (b_event b) = Str ev) (ch_bindings (chans w c)))" and w': "typed w'" for b w'
  proof -
    have b: "typed_binding b" "b_event b = ev" using that assms by (auto dest: typed_bindings)
    show ?thesis
    proof (cases "b_cb b")
      case (CbPush p)
      define w1 where "w1 = upd_push p (\<lambda>pu. pu\<lparr>pu_receivedResp := Some pl\<rparr>) (cancelTimeout p (cancelRefEvent p w'))"
      have w1: "typed w1" using w' by (simp add: w1_def typed_inv.P_push typed_inv.P_push_ops)
      have "for_each (\<lambda>(s, h). run_hook (Suc n) c h r) hs w1 = for_each (\<lambda>(s, h). run_hook (Suc m) c h r) hs w1" for r and hs :: "(jsstr \<times> hook_cb) list"
        by (rule for_each_cong [where P = typed, OF _ _ w1])
          (auto simp: run_hook_depth [of _ n _ _ _ m] intro!: typed_inv.P_run_hook typed_inv.P_trigger simp del: run_hook.simps)
      then show ?thesis unfolding CbPush run_cb.simps Let_def w1_def [symmetric] by presburger
    qed (use b assms(2) in \<open>auto simp: typed_binding_def\<close>)
  qed
  then show ?thesis
    unfolding trigger.simps by (intro for_each_cong [where P = typed] typed_inv.P_run_cb typed_inv.P_trigger assms(1)) auto
qed

lemma replyEventName_prefix: "replyEventName r = Inr ev \<Longrightarrow> take 11 ev = reply_prefix"
  by (auto simp: replyEventName_def bindr_eq_Inr_iff reply_prefix_def)

lemma trigger_depth:
  assumes "typed w"
  shows "trigger (n + 3) c ev pl ref w = trigger 3 c ev pl ref w"
proof -
  have "run_cb (Suc (Suc n)) c (b_cb b) pl ref w' = run_cb 2 c (b_cb b) pl ref w'"
    if "b \<in> set (filter (\<lambda>b. Str (b_event b) = ev) (ch_bindings (chans w c)))" and w': "typed w'" for b w'
  proof (cases "b_cb b")
    case (CbPush p)
    define w1 where "w1 = upd_push p (\<lambda>pu. pu\<lparr>pu_receivedResp := Some pl\<rparr>) (cancelTimeout p (cancelRefEvent p w'))"
    have w1: "typed w1" using w' by (simp add: w1_def typed_inv.P_push typed_inv.P_push_ops)
    have "for_each (\<lambda>(s, h). run_hook (Suc (Suc n)) c h r) hs w1 = for_each (\<lambda>(s, h). run_hook (Suc (Suc 0)) c h r) hs w1" for r and hs :: "(jsstr \<times> hook_cb) list"
      by (rule for_each_cong [where P = typed, OF _ _ w1])
        (auto simp: run_hook_depth [of _ "Suc n" _ _ _ "Suc 0"] intro!: typed_inv.P_run_hook typed_inv.P_trigger simp del: run_hook.simps)
    then show ?thesis unfolding CbPush run_cb.simps Let_def w1_def [symmetric] numeral_2_eq_2 by presburger
  next
    case CbReply
    then show ?thesis
      using w' by (auto simp: numeral_2_eq_2 trigger_reply_depth [of w' _ n _ _ _ 0] dest: replyEventName_prefix
          simp del: trigger.simps split: sum.splits)
  qed simp_all
  then show ?thesis
    unfolding numeral_3_eq_3 add_Suc_right add_0_right trigger.simps numeral_2_eq_2
    by (intro for_each_cong [where P = typed] typed_inv.P_run_cb typed_inv.P_trigger assms) auto
qed

section \<open>Identity of channels and timers\<close>

definition ids_ok :: "world \<Rightarrow> bool" where
  "ids_ok w \<longleftrightarrow> distinct (sk_channels (sock w)) \<and> (\<forall>c \<in> set (sk_channels (sock w)). c < next_chan w)
     \<and> distinct (map fst (timers w)) \<and> (\<forall>t \<in> set (timers w). fst t < next_timer w)"

lemma ids_ok_frame:
  "ids_ok (upd_push p g w) = ids_ok w" "ids_ok (upd_conn k h w) = ids_ok w" "ids_ok (upd_chan c cf w) = ids_ok w"
  "ids_ok (upd_fb i j w) = ids_ok w" "ids_ok (log_call u w) = ids_ok w" "ids_ok (snd (new_push c ev pl tm w)) = ids_ok w"
  "ids_ok (w\<lparr>conns := cs, next_conn := n\<rparr>) = ids_ok w" "ids_ok (w\<lparr>fallbacks := fbs, next_fb := n\<rparr>) = ids_ok w"
  "ids_ok (w\<lparr>now := tt\<rparr>) = ids_ok w"
  by (simp_all add: ids_ok_def heap_defs new_push_def)

interpretation ids_inv: client_invariant ids_ok
proof unfold_locales
  show "ids_ok w \<Longrightarrow> ids_ok (snd (set_timeout d cb w))" for w d cb
    by (auto simp: ids_ok_def set_timeout_def)
  show "ids_ok w \<Longrightarrow> ids_ok (clear_timeout t w)" for w t
    by (auto simp: ids_ok_def clear_timeout_def distinct_map_filter split: option.splits)
  show "(\<And>s. sk_channels (f s) = sk_channels s) \<Longrightarrow> ids_ok w \<Longrightarrow> ids_ok (upd_sock f w)" for f w
    by (simp add: ids_ok_def upd_sock_def)
  show "ids_ok w \<Longrightarrow> ids_ok (upd_sock (\<lambda>s. s\<lparr>sk_channels := filter (\<lambda>d. d \<noteq> c) (sk_channels s)\<rparr>) w)" for w c
    by (simp add: ids_ok_def upd_sock_def)
qed (simp_all add: ids_ok_frame chan_on_def chan_off_def)

lemma on_state_change_ids: "on_state_change kind cb w = (r, w') \<Longrightarrow> sk_channels (sock w') = sk_channels (sock w)
    \<and> next_chan w' = next_chan w \<and> timers w' = timers w \<and> next_timer w' = next_timer w"
  by (auto simp: on_state_change_def makeRef_def Let_def upd_sock_def)

lemma ids_channel: "ids_ok w \<Longrightarrow> ids_ok (snd (channel topic params w))"
proof -
  assume w: "ids_ok w"
  have upd: "sk_channels (sock (upd_chan c f v)) = sk_channels (sock v)" "next_chan (upd_chan c f v) = next_chan v"
    "timers (upd_chan c f v) = timers v" "next_timer (upd_chan c f v) = next_timer v"
    "sk_channels (sock (add_hook p s h v)) = sk_channels (sock v)" "next_chan (add_hook p s h v) = next_chan v"
    "timers (add_hook p s h v) = timers v" "next_timer (add_hook p s h v) = next_timer v" for c f v p s h
    by (simp_all add: heap_defs add_hook_def)
  show ?thesis
    using w by (auto simp: ids_ok_def channel_def Let_def new_push_def upd chan_on_def upd_sock_def
        dest!: on_state_change_ids split: prod.splits) (fastforce simp: less_Suc_eq)+
qed

interpretation ids_run: run_invariant ids_ok
  by unfold_locales (rule ids_channel)

section \<open>Dispatch loops\<close>

interpretation channels_bound: client_invariant "\<lambda>w. length (sk_channels (sock w)) \<le> N" for N
proof unfold_locales
  show "length (sk_channels (sock w)) \<le> N \<Longrightarrow>
      length (sk_channels (sock (upd_sock (\<lambda>s. s\<lparr>sk_channels := filter (\<lambda>d. d \<noteq> c) (sk_channels s)\<rparr>) w))) \<le> N" for w c
    using le_trans [OF length_filter_le] by (simp add: upd_sock_def)
qed (auto simp: heap_defs chan_on_def chan_off_def set_timeout_def clear_timeout_def new_push_def split: option.splits)

lemma channel_loop_bound:
  "length (sk_channels (sock w)) \<le> i + n \<Longrightarrow> channel_loop (n + e) i m w = channel_loop n i m w"
proof (induction n arbitrary: i w)
  case 0
  then show ?case by (cases e) simp_all
next
  case (Suc n)
  have "andthen b (channel_loop (n + e) (Suc i) m) w = andthen b (channel_loop n (Suc i) m) w"
    if "keeps (\<lambda>w. length (sk_channels (sock w)) \<le> Suc i + n) b" for b
  proof -
    have "length (sk_channels (sock (fst (b w)))) \<le> Suc i + n" using that Suc.prems by (simp add: keeps_def)
    then have "channel_loop (n + e) (Suc i) m (fst (b w)) = channel_loop n (Suc i) m (fst (b w))" by (rule Suc.IH)
    then show ?thesis unfolding andthen_def by (cases "b w"; cases "snd (b w)") simp_all
  qed
  then show ?case
    by (simp add: Let_def keeps_only_if channels_bound.P_trigger del: trigger.simps andthen_simps)
qed

lemma message_cb_shrinks:
  "length (cb_message (sk_callbacks (sock (fst (run_message_cb m cb w))))) \<le> length (cb_message (sk_callbacks (sock w)))"
  by (auto simp: run_message_cb_def only_if_def run_ping_end_def socket_off_def off_list_def heap_defs clear_timeout_def
      split: state_cb.splits ping_end.splits option.splits)

lemma message_loop_bound:
  "length (cb_message (sk_callbacks (sock w))) \<le> i + n \<Longrightarrow> message_loop (n + e) i m w = message_loop n i m w"
proof (induction n arbitrary: i w)
  case 0
  then show ?case by (cases e) simp_all
next
  case (Suc n)
  have "andthen (run_message_cb m cb) (message_loop (n + e) (Suc i) m) w
      = andthen (run_message_cb m cb) (message_loop n (Suc i) m) w" for cb
  proof -
    have "length (cb_message (sk_callbacks (sock (fst (run_message_cb m cb w))))) \<le> Suc i + n"
      using message_cb_shrinks [of m cb w] Suc.prems by simp
    then have "message_loop (n + e) (Suc i) m (fst (run_message_cb m cb w)) = message_loop n (Suc i) m (fst (run_message_cb m cb w))"
      by (rule Suc.IH)
    then show ?thesis unfolding andthen_def
      by (cases "run_message_cb m cb w"; cases "snd (run_message_cb m cb w)") simp_all
  qed
  then show ?case by (simp del: andthen_simps)
qed

section \<open>Leaving\<close>

lemma encode_json_msg: "\<not> nullish v \<Longrightarrow> m_payload m = Json v \<Longrightarrow> \<exists>f. encode m = Inr (Text f)"
  by (simp add: encode_def)

text \<open>Once closed and removed, a channel stays so under user callbacks.\<close>

definition gone_chan :: "nat \<Rightarrow> world \<Rightarrow> bool" where
  "gone_chan c w \<longleftrightarrow> chan_state_of w c = ChClosed \<and> c \<notin> set (sk_channels (sock w))"

lemma clear_timeout_frame [simp]:
  "chans (clear_timeout t w) = chans w" "sock (clear_timeout t w) = sock w" "pushes (clear_timeout t w) = pushes w"
  "conns (clear_timeout t w) = conns w" "next_push (clear_timeout t w) = next_push w"
  by (simp_all add: clear_timeout_def split: option.splits)

lemma gone_close: "gone_chan c (chan_close c w)"
  by (simp add: gone_chan_def chan_close_def socket_remove_def socket_off_def set_state_def rejoin_reset_def retry_reset_def
      heap_defs)

lemma close_callbacks:
  assumes "\<forall>b \<in> set bs. b_cb b = CbClose \<or> (\<exists>u. b_cb b = CbUser u)"
    and "(\<exists>b \<in> set bs. b_cb b = CbClose) \<or> gone_chan c w"
  shows "snd (for_each (\<lambda>b. run_cb n c (b_cb b) pl ref) bs w) = None
    \<and> gone_chan c (fst (for_each (\<lambda>b. run_cb n c (b_cb b) pl ref) bs w))"
  using assms
proof (induction bs arbitrary: w)
  case (Cons b bs)
  consider "b_cb b = CbClose" | u where "b_cb b = CbUser u" using Cons.prems(1) by auto
  then show ?case
  proof cases
    case 1
    with Cons show ?thesis by (simp add: gone_close)
  next
    case 2
    have "gone_chan c w \<Longrightarrow> gone_chan c (log_call (UEvent u pl ref) w)" by (simp add: gone_chan_def log_call_def)
    with Cons 2 show ?thesis by auto
  qed
qed simp

lemma trigger_close:
  assumes "typed w" "\<exists>b \<in> set (ch_bindings (chans w c)). b_cb b = CbClose"
  shows "snd (trigger (Suc n) c (Str EVENT_close) pl ref w) = None
    \<and> gone_chan c (fst (trigger (Suc n) c (Str EVENT_close) pl ref w))"
  unfolding trigger.simps
proof (rule close_callbacks)
  show "\<forall>b \<in> set (filter (\<lambda>b. Str (b_event b) = Str EVENT_close) (ch_bindings (chans w c))).
      b_cb b = CbClose \<or> (\<exists>u. b_cb b = CbUser u)"
  proof
    fix b assume "b \<in> set (filter (\<lambda>b. Str (b_event b) = Str EVENT_close) (ch_bindings (chans w c)))"
    then have "typed_binding b" "b_event b = EVENT_close" using assms(1) by (auto dest: typed_bindings)
    then show "b_cb b = CbClose \<or> (\<exists>u. b_cb b = CbUser u)" by (cases "b_cb b") (auto simp: typed_binding_def)
  qed
  obtain b where "b \<in> set (ch_bindings (chans w c))" "b_cb b = CbClose" using assms(2) by blast
  moreover from this have "b_event b = EVENT_close" using typed_bindings [OF assms(1)] by (force simp: typed_binding_def)
  ultimately show "(\<exists>b \<in> set (filter (\<lambda>b. Str (b_event b) = Str EVENT_close) (ch_bindings (chans w c))). b_cb b = CbClose)
      \<or> gone_chan c w" by auto
qed

text \<open>What sending the leave message leaves behind.\<close>

definition fresh_event :: "world \<Rightarrow> jsstr" where
  "fresh_event w = reply_prefix @ nat_str (next_ref (sk_ref (sock w)))"

lemma send_leave:
  assumes "pushes w lp = pu" "pu_channel pu = c" "pu_receivedResp pu = None" "pu_payload pu = empty_payload" "pu_timer pu = None"
  shows "\<exists>w'. send lp w = (w', None)
    \<and> ch_bindings (chans w' c) = ch_bindings (chans w c) @ [\<lparr>b_event = fresh_event w, b_ref = ch_bindingRef (chans w c), b_cb = CbPush lp\<rparr>]
    \<and> chan_state_of w' c = chan_state_of w c \<and> pu_refEvent (pushes w' lp) = Some (fresh_event w)
    \<and> pu_channel (pushes w' lp) = c \<and> pu_recHooks (pushes w' lp) = pu_recHooks pu"
proof -
  define w1 where "w1 = upd_push lp (\<lambda>pu. pu\<lparr>pu_sent := True\<rparr>) (startTimeout lp w)"
  have "m_payload (push_msg w1 lp) = Json (Obj [])"
    using assms by (simp add: push_msg_def Let_def w1_def startTimeout_def makeRef_def chan_on_def set_timeout_def heap_defs
        empty_payload_def)
  then obtain f where f: "encode (push_msg w1 lp) = Inr (Text f)" using encode_json_msg [of "Obj []"] by fastforce
  have send: "send lp w = socket_push (push_msg w1 lp) w1"
    using assms by (simp add: send_def hasReceived_def w1_def Let_def)
  have w1: "ch_bindings (chans w1 c) = ch_bindings (chans w c) @ [\<lparr>b_event = fresh_event w, b_ref = ch_bindingRef (chans w c), b_cb = CbPush lp\<rparr>]"
    "chan_state_of w1 c = chan_state_of w c" "pu_refEvent (pushes w1 lp) = Some (fresh_event w)"
    "pu_channel (pushes w1 lp) = c" "pu_recHooks (pushes w1 lp) = pu_recHooks pu"
    using assms by (simp_all add: w1_def startTimeout_def makeRef_def chan_on_def set_timeout_def heap_defs fresh_event_def Let_def)
  have conn: "chans (conn_send g v) = chans v" "pushes (conn_send g v) = pushes v" for g v
    by (simp_all add: conn_send_def upd_conn_def split: option.splits)
  show ?thesis
    using w1 unfolding send by (simp add: socket_push_def encode_send_def f conn upd_sock_def)
qed

lemma leave_prepared:
  fixes w c t
  defines "w1 \<equiv> set_state c ChLeaving (cancelTimeout (ch_joinPush (chans w c)) (rejoin_reset c w))"
  defines "w3 \<equiv> add_hook (next_push w) (js ''timeout'') HLeaveClose
      (add_hook (next_push w) (js ''ok'') HLeaveClose (snd (new_push c EVENT_leave empty_payload t w1)))"
  shows "leave c t w = andthen (send (next_push w)) (only_if (\<lambda>w. \<not> canPush w c) (push_trigger (next_push w) (js ''ok''))) w3"
    and "pu_recHooks (pushes w3 (next_push w)) = [(js ''ok'', HLeaveClose), (js ''timeout'', HLeaveClose)]"
    and "pu_channel (pushes w3 (next_push w)) = c" "pu_receivedResp (pushes w3 (next_push w)) = None"
    and "pu_payload (pushes w3 (next_push w)) = empty_payload" "pu_timer (pushes w3 (next_push w)) = None"
    and "ch_bindings (chans w3 c) = ch_bindings (chans w c)" "chan_state_of w3 c = ChLeaving"
    and "fresh_event w3 = fresh_event w"
    and "typed w \<Longrightarrow> typed w3"
proof -
  have np: "new_push c EVENT_leave empty_payload t w1 = (next_push w, snd (new_push c EVENT_leave empty_payload t w1))"
    by (simp add: new_push_def w1_def set_state_def cancelTimeout_def rejoin_reset_def retry_reset_def heap_defs)
  show "leave c t w = andthen (send (next_push w)) (only_if (\<lambda>w. \<not> canPush w c) (push_trigger (next_push w) (js ''ok''))) w3"
    unfolding leave_def Let_def w1_def [symmetric] w3_def by (subst np) simp
  show "pu_recHooks (pushes w3 (next_push w)) = [(js ''ok'', HLeaveClose), (js ''timeout'', HLeaveClose)]"
    "pu_channel (pushes w3 (next_push w)) = c" "pu_receivedResp (pushes w3 (next_push w)) = None"
    "pu_payload (pushes w3 (next_push w)) = empty_payload" "pu_timer (pushes w3 (next_push w)) = None"
    "ch_bindings (chans w3 c) = ch_bindings (chans w c)" "chan_state_of w3 c = ChLeaving" "fresh_event w3 = fresh_event w"
    by (simp_all add: w3_def w1_def add_hook_def new_push_def set_state_def cancelTimeout_def rejoin_reset_def
        retry_reset_def heap_defs fresh_event_def)
  show "typed w \<Longrightarrow> typed w3"
    unfolding w3_def w1_def
    by (intro typed_inv.P_push_ops typed_inv.P_new_push typed_inv.P_set_state typed_inv.P_rejoin_timer)
qed

lemma leave_closes:
  assumes ty: "typed w" and close: "\<exists>b \<in> set (ch_bindings (chans w c)). b_cb b = CbClose"
    and fresh: "\<forall>b \<in> set (ch_bindings (chans w c)). b_event b \<noteq> fresh_event w"
  shows "snd (leave c t w) = None \<and> gone_chan c (fst (leave c t w))"
proof -
  define lp where "lp = next_push w"
  define w3 where "w3 = add_hook lp (js ''timeout'') HLeaveClose (add_hook lp (js ''ok'') HLeaveClose
      (snd (new_push c EVENT_leave empty_payload t (set_state c ChLeaving (cancelTimeout (ch_joinPush (chans w c)) (rejoin_reset c w))))))"
  note prep = leave_prepared [where w = w and c = c and t = t, folded lp_def, folded w3_def]
  obtain w4 where w4: "send lp w3 = (w4, None)"
    "ch_bindings (chans w4 c) = ch_bindings (chans w c) @ [\<lparr>b_event = fresh_event w, b_ref = ch_bindingRef (chans w3 c), b_cb = CbPush lp\<rparr>]"
    "chan_state_of w4 c = ChLeaving" "pu_refEvent (pushes w4 lp) = Some (fresh_event w)" "pu_channel (pushes w4 lp) = c"
    "pu_recHooks (pushes w4 lp) = [(js ''ok'', HLeaveClose), (js ''timeout'', HLeaveClose)]"
    using send_leave [OF refl prep(3-6)] prep(2,7-9) by auto
  have "typed w4" using keeps_fst [OF typed_inv.P_send prep(10) [OF ty], of lp] w4(1) by simp
  define w5 where "w5 = upd_push lp (\<lambda>pu. pu\<lparr>pu_receivedResp := Some (reply_payload (js ''ok''))\<rparr>) (cancelTimeout lp (cancelRefEvent lp w4))"
  have ty5: "typed w5" unfolding w5_def using \<open>typed w4\<close> by (intro typed_inv.P_push typed_inv.P_push_ops)
  obtain b where b: "b \<in> set (ch_bindings (chans w c))" "b_cb b = CbClose" using close by blast
  then have "b_event b \<noteq> fresh_event w" using fresh by blast
  then have "b \<in> set (ch_bindings (chans w5 c))"
    using b w4 by (simp add: w5_def cancelTimeout_def cancelRefEvent_def chan_off_def heap_defs)
  then have close5: "\<exists>b \<in> set (ch_bindings (chans w5 c)). b_cb b = CbClose" using b(2) by blast
  have hooks5: "pu_recHooks (pushes w5 lp) = [(js ''ok'', HLeaveClose), (js ''timeout'', HLeaveClose)]"
    using w4 by (simp add: w5_def cancelTimeout_def cancelRefEvent_def chan_off_def heap_defs split: option.splits)
  have old: "filter (\<lambda>b. Str (b_event b) = Str (fresh_event w)) (ch_bindings (chans w c)) = []"
    using fresh by (simp add: filter_empty_conv)
  have status: "pay_status (reply_payload (js ''ok'')) = Str (js ''ok'')"
    by (simp add: reply_payload_def get_opt_def own_prop_def)
  have not_null: "(case reply_payload (js ''ok'') of Json v \<Rightarrow> nullish v | _ \<Rightarrow> False) = False"
    by (simp add: reply_payload_def)
  have "leave c t w = push_trigger lp (js ''ok'') w4"
    unfolding prep(1) using w4(1,3) by (simp add: only_if_def canPush_def)
  also have "\<dots> = trigger 3 c (Str (fresh_event w)) (reply_payload (js ''ok'')) Undef w4"
    by (simp add: push_trigger_def w4(4,5) ref_val_def del: trigger.simps)
  also have "\<dots> = run_cb 2 c (CbPush lp) (reply_payload (js ''ok'')) Undef w4"
    using old w4(2) by (simp add: numeral_3_eq_3 numeral_2_eq_2 andthen_def split: option.splits prod.splits)
  also have "\<dots> = run_hook 2 c HLeaveClose (pay_response (reply_payload (js ''ok''))) w5"
    unfolding run_cb.simps Let_def w5_def [symmetric] not_null if_False
    using hooks5 status by (simp add: andthen_def del: run_hook.simps split: option.splits prod.splits)
  finally show ?thesis
    using trigger_close [OF ty5 close5, of 1] by (simp add: numeral_2_eq_2 del: trigger.simps)
qed

section \<open>Refs\<close>

lemma fl_rat_2_53:
  assumes "x = 2 ^ 53 \<or> x = 2 ^ 53 + 1"
  shows "fl_rat x = 2 ^ 53"
proof -
  have x: "0 < x" using assms by auto
  have "ilog2 x = 53" using assms by (intro ilog2_unique) auto
  then have "quantum x = 1" using x by (simp add: quantum_def)
  moreover have "rne (x / 2) = 2 ^ 52"
    using assms
  proof
    assume "x = 2 ^ 53"
    then have "x / 2 = of_int (2 ^ 52)" by simp
    then show ?thesis by (metis rne_of_int)
  next
    assume x: "x = 2 ^ 53 + 1"
    then have "\<lfloor>x / 2\<rfloor> = 2 ^ 52" by (intro floor_unique) simp_all
    with x show ?thesis by (simp add: rne_def Let_def)
  qed
  ultimately show ?thesis using x by (simp add: fl_rat_def)
qed

lemma double_succ_add:
  assumes "r \<le> 2 ^ 53"
  shows "js_add (jsnat r) (jsnat 1) = jsnat (double_succ r)"
proof (cases "r + 1 < 2 ^ 53")
  case True
  then have "fl (of_nat (r + 1)) = Fin (of_nat (r + 1))" by (rule fl_nat)
  with True show ?thesis by (simp add: double_succ_def add.commute)
next
  case False
  then have "(of_nat r + 1 :: rat) = 2 ^ 53 \<or> (of_nat r + 1 :: rat) = 2 ^ 53 + 1"
    using assms by (cases "r = 2 ^ 53") (auto dest!: le_neq_implies_less)
  from fl_rat_2_53 [OF this] have "fl (of_nat r + 1) = Fin (2 ^ 53)" using pow_53_1024 by (simp add: fl_def)
  moreover have "r = 2 ^ 53 \<or> r = 2 ^ 53 - 1" using False assms by auto
  ultimately show ?thesis by (auto simp: double_succ_def)
qed

section \<open>Properties\<close>



text \<open>
  Dispatching a message ends and visits as far as the arrays reach: although callbacks shorten the arrays
  during the loops, allowing more iterations than the initial length changes nothing.
\<close>

theorem client_dispatch_ends:
  "channel_loop (length (sk_channels (sock w)) + e) 0 m w = channel_loop (length (sk_channels (sock w))) 0 m w
    \<and> message_loop (length (cb_message (sk_callbacks (sock w))) + e) 0 m w
      = message_loop (length (cb_message (sk_callbacks (sock w)))) 0 m w"
  by (simp add: channel_loop_bound message_loop_bound)





text \<open>
  What was pushed while offline is sent on connecting, in order and once: flushing hands the encodings of
  the buffered messages to the connection after what it was sent before, and empties the buffer.
\<close>

theorem client_flush_order:
  assumes "sk_conn (sock w) = Some k" "k_readyState (conns w k) = Open" "map encode (sk_sendBuffer (sock w)) = map Inr fs"
  shows "snd (flushSendBuffer w) = None \<and> sk_sendBuffer (sock (fst (flushSendBuffer w))) = []
    \<and> k_frames (conns (fst (flushSendBuffer w)) k) = k_frames (conns w k) @ fs"
proof -
  have "for_each encode_send ms v = (upd_conn k (\<lambda>x. x\<lparr>k_frames := k_frames x @ gs\<rparr>) v, None)"
    if "map encode ms = map Inr gs" "sk_conn (sock v) = Some k" for ms gs v
    using that
  proof (induction ms arbitrary: gs v)
    case Nil
    then show ?case by (simp add: upd_conn_def)
  next
    case (Cons m ms)
    then obtain g gs' where g: "gs = g # gs'" "encode m = Inr g" "map encode ms = map Inr gs'" by (cases gs) auto
    define v1 where "v1 = upd_conn k (\<lambda>x. x\<lparr>k_frames := k_frames x @ [g]\<rparr>) v"
    have "encode_send m v = (v1, None)" using g Cons.prems(2) by (simp add: encode_send_def conn_send_def v1_def)
    moreover have "for_each encode_send ms v1 = (upd_conn k (\<lambda>x. x\<lparr>k_frames := k_frames x @ gs'\<rparr>) v1, None)"
      using g(3) Cons.prems(2) by (intro Cons.IH) (simp_all add: v1_def upd_conn_def)
    ultimately show ?case by (simp add: v1_def g(1) upd_conn_def)
  qed
  from this [OF assms(3,1)] show ?thesis
    using assms by (cases "sk_sendBuffer (sock w) = []")
      (auto simp: flushSendBuffer_def only_if_def isConnected_def heap_defs)
qed

theorem client_flush_order_witness:
  "\<exists>f. k_frames (conns (fst (flushSendBuffer (run [IConnect, IBuffered 0 0] ((world_new default_opts WebSocketT None)
      \<lparr>sock := (socket_new default_opts WebSocketT None)\<lparr>sk_sendBuffer := [heartbeat_msg (js ''1'')]\<rparr>\<rparr>)
      \<lparr>conns := (\<lambda>_. no_conn\<lparr>k_readyState := Open\<rparr>),
       sock := (socket_new default_opts WebSocketT None)\<lparr>sk_sendBuffer := [heartbeat_msg (js ''1'')], sk_conn := Some 0\<rparr>\<rparr>))) 0) = [f]"
proof -
  let ?w = "run [IConnect, IBuffered 0 0] ((world_new default_opts WebSocketT None)
      \<lparr>sock := (socket_new default_opts WebSocketT None)\<lparr>sk_sendBuffer := [heartbeat_msg (js ''1'')]\<rparr>\<rparr>)
      \<lparr>conns := (\<lambda>_. no_conn\<lparr>k_readyState := Open\<rparr>),
       sock := (socket_new default_opts WebSocketT None)\<lparr>sk_sendBuffer := [heartbeat_msg (js ''1'')], sk_conn := Some 0\<rparr>\<rparr>"
  obtain f where "encode (heartbeat_msg (js ''1'')) = Inr f"
    using encode_json_msg [of "Obj []" "heartbeat_msg (js ''1'')"] by (auto simp: heartbeat_msg_def empty_payload_def)
  then show ?thesis using client_flush_order [of ?w 0 "[f]"] by (simp add: no_conn_def)
qed

text \<open>
  C32: A finished ping hides the message from the next listener: its callback removes itself while the array of
  message callbacks is being walked by index, so the callback after it is skipped.
\<close>

theorem client_ping_skips_listener:
  assumes "cb_message (sk_callbacks (sock w)) = [(r1, ScPing r r1 start (PingUser v)), (r2, ScUser u)]"
    and "r1 \<noteq> r2" "m_ref m = Str r"
  shows "calls (fst (message_loop (length (cb_message (sk_callbacks (sock w)))) 0 m w)) = calls w @ [URtt v (now w - start)]"
  using assms by (simp add: numeral_2_eq_2 run_message_cb_def only_if_def run_ping_end_def socket_off_def off_list_def heap_defs)

theorem client_ping_skips_listener_witness:
  "calls (fst (message_loop (length (cb_message (sk_callbacks (sock ((world_new default_opts WebSocketT None)\<lparr>sock :=
      (socket_new default_opts WebSocketT None)\<lparr>sk_callbacks := \<lparr>cb_open = [], cb_close = [], cb_error = [],
        cb_message = [(js ''2'', ScPing (js ''1'') (js ''2'') 0 (PingUser 7)), (js ''3'', ScUser 8)]\<rparr>\<rparr>\<rparr>))))) 0 (heartbeat_msg (js ''1''))
      ((world_new default_opts WebSocketT None)\<lparr>sock :=
      (socket_new default_opts WebSocketT None)\<lparr>sk_callbacks := \<lparr>cb_open = [], cb_close = [], cb_error = [],
        cb_message = [(js ''2'', ScPing (js ''1'') (js ''2'') 0 (PingUser 7)), (js ''3'', ScUser 8)]\<rparr>\<rparr>\<rparr>))) = [URtt 7 0]"
  using client_ping_skips_listener [of "(world_new default_opts WebSocketT None)\<lparr>sock :=
      (socket_new default_opts WebSocketT None)\<lparr>sk_callbacks := \<lparr>cb_open = [], cb_close = [], cb_error = [],
        cb_message = [(js ''2'', ScPing (js ''1'') (js ''2'') 0 (PingUser 7)), (js ''3'', ScUser 8)]\<rparr>\<rparr>\<rparr>"
      "js ''2''" "js ''1''" 0 7 "js ''3''" 8 "heartbeat_msg (js ''1'')"]
  by (simp add: heartbeat_msg_def world_new_def)


text \<open>
  Reconnecting backs off: the default delay grows with the number of failed tries, from 10 ms to the
  5 s it never exceeds, and the default rejoin delay from 1 s to 10 s.
\<close>

theorem client_backoff:
  assumes "1 \<le> m" "m \<le> n"
  shows "default_reconnectAfterMs m \<le> default_reconnectAfterMs n \<and> 10 \<le> default_reconnectAfterMs m
    \<and> default_reconnectAfterMs n \<le> 5000 \<and> default_rejoinAfterMs m \<le> default_rejoinAfterMs n
    \<and> 1000 \<le> default_rejoinAfterMs m \<and> default_rejoinAfterMs n \<le> 10000"
proof -
  have nth: "sorted (xs @ [d]) \<Longrightarrow> 0 \<notin> set xs \<Longrightarrow> i \<le> j \<Longrightarrow> nth_or xs i d \<le> nth_or xs j d" for xs d i j
    by (auto simp: nth_or_def sorted_append sorted_nth_mono) (metis le_less_trans nth_mem)
  have lo: "sorted (x # xs) \<Longrightarrow> x \<le> d \<Longrightarrow> x \<le> nth_or (x # xs) i d" for x xs d i
    by (auto simp: nth_or_def nth_Cons' nth_mem)
  have hi: "\<forall>x \<in> set xs. x \<le> d \<Longrightarrow> nth_or xs i d \<le> d" for xs d i
    by (auto simp: nth_or_def)
  have "m - 1 \<le> n - 1" using assms by simp
  then show ?thesis
    unfolding default_reconnectAfterMs_def default_rejoinAfterMs_def by (intro conjI nth lo hi) simp_all
qed

theorem client_backoff_witness:
  "default_reconnectAfterMs 3 \<le> default_reconnectAfterMs 40 \<and> default_reconnectAfterMs 40 \<le> 5000"
  using client_backoff [of 3 40] by simp

text \<open>
  Messages for another topic, or carrying the join ref of an earlier join, reach no channel: when no listed
  channel is a member, dispatching to channels changes nothing.
\<close>

theorem client_outdated_dropped:
  assumes "\<forall>c \<in> set (sk_channels (sock w)). Str (ch_topic (chans w c)) \<noteq> m_topic m
      \<or> (truthy (m_join_ref m) \<and> m_join_ref m \<noteq> ref_val (joinRef w c))"
  shows "channel_loop n i m w = (w, None)"
proof (induction n arbitrary: i)
  case (Suc n)
  have "\<not> isMember w (sk_channels (sock w) ! i) (m_topic m) (m_join_ref m)" if "i < length (sk_channels (sock w))"
    using assms nth_mem [OF that] by (auto simp: isMember_def)
  with Suc show ?case by (auto simp: Let_def only_if_def andthen_def simp del: trigger.simps)
qed simp

theorem client_outdated_dropped_witness:
  "channel_loop 1 0 (heartbeat_msg (js ''1'')) ((world_new default_opts WebSocketT None)\<lparr>sock :=
      (socket_new default_opts WebSocketT None)\<lparr>sk_channels := [0]\<rparr>\<rparr>)
    = ((world_new default_opts WebSocketT None)\<lparr>sock := (socket_new default_opts WebSocketT None)\<lparr>sk_channels := [0]\<rparr>\<rparr>, None)"
  by (rule client_outdated_dropped) (simp add: heartbeat_msg_def world_new_def no_chan_def)

end
