(* ===== verification/Phx_Join.thy ===== *)
theory Phx_Join
  imports Phx_Client
begin

text \<open>
  Joining a channel: what the reply to a join does to the channel, to the pushes that waited for it and to the hooks of the user.
\<close>

section \<open>Sending a push\<close>

text \<open>What sending leaves alone: the states, topics and buffers of channels, what pushes carry, and the connection.\<close>

definition kept :: "world \<Rightarrow> world \<Rightarrow> bool" where
  "kept w w' \<longleftrightarrow> (\<forall>d. ch_state (chans w' d) = ch_state (chans w d) \<and> ch_pushBuffer (chans w' d) = ch_pushBuffer (chans w d)
       \<and> ch_topic (chans w' d) = ch_topic (chans w d) \<and> ch_joinPush (chans w' d) = ch_joinPush (chans w d))
     \<and> (\<forall>q. pu_payload (pushes w' q) = pu_payload (pushes w q) \<and> pu_event (pushes w' q) = pu_event (pushes w q)
       \<and> pu_channel (pushes w' q) = pu_channel (pushes w q) \<and> pu_receivedResp (pushes w' q) = pu_receivedResp (pushes w q))
     \<and> calls w' = calls w \<and> sk_conn (sock w') = sk_conn (sock w) \<and> (\<forall>k. k_readyState (conns w' k) = k_readyState (conns w k))"

lemma kept_refl: "kept w w"
  by (simp add: kept_def)

lemma kept_trans: "kept w w1 \<Longrightarrow> kept w1 w2 \<Longrightarrow> kept w w2"
  by (simp add: kept_def)

lemma kept_connected: "kept w w' \<Longrightarrow> isConnected w' = isConnected w"
  by (simp add: kept_def isConnected_def split: option.splits)

lemma kept_received: "kept w w' \<Longrightarrow> hasReceived (pushes w' q) s = hasReceived (pushes w q) s"
  by (simp add: kept_def hasReceived_def)

lemma clear_timeout_calls [simp]: "calls (clear_timeout t w) = calls w"
  by (simp add: clear_timeout_def split: option.splits)

lemma startTimeout_kept: "kept w (startTimeout p w) \<and> conns (startTimeout p w) = conns w"
  by (simp add: startTimeout_def cancelTimeout_def makeRef_def chan_on_def set_timeout_def kept_def heap_defs Let_def)

text \<open>A frame that carries a push: the event, topic and payload of the push under refs of the moment.\<close>

definition carries :: "world \<Rightarrow> nat \<Rightarrow> frame \<Rightarrow> bool" where
  "carries w p f \<longleftrightarrow> (\<exists>m. encode m = Inr f \<and> m_event m = Str (pu_event (pushes w p)) \<and> m_payload m = pu_payload (pushes w p)
     \<and> m_topic m = Str (ch_topic (chans w (pu_channel (pushes w p)))))"

definition json_push :: "world \<Rightarrow> nat \<Rightarrow> bool" where
  "json_push w p \<longleftrightarrow> (case pu_payload (pushes w p) of Json v \<Rightarrow> \<not> nullish v | _ \<Rightarrow> False)"

lemma send_carries:
  assumes "json_push w p" "sk_conn (sock w) = Some k" "k_readyState (conns w k) = Open" "\<not> hasReceived (pushes w p) (js ''timeout'')"
  shows "\<exists>w' f. send p w = (w', None) \<and> kept w w' \<and> k_frames (conns w' k) = k_frames (conns w k) @ [f] \<and> carries w p f"
proof -
  define w1 where "w1 = upd_push p (\<lambda>pu. pu\<lparr>pu_sent := True\<rparr>) (startTimeout p w)"
  have k1: "kept w w1" "conns w1 = conns w" using startTimeout_kept [of w p] by (simp_all add: w1_def kept_def upd_push_def)
  obtain v where v: "pu_payload (pushes w p) = Json v" "\<not> nullish v" using assms(1) by (auto simp: json_push_def split: payload.splits)
  have m: "m_event (push_msg w1 p) = Str (pu_event (pushes w p))" "m_payload (push_msg w1 p) = Json v"
    "m_topic (push_msg w1 p) = Str (ch_topic (chans w (pu_channel (pushes w p))))"
    using k1(1) v(1) by (simp_all add: push_msg_def Let_def kept_def)
  obtain f where f: "encode (push_msg w1 p) = Inr (Text f)" using encode_json_msg [OF v(2) m(2)] by blast
  have conn: "isConnected w1" "sk_conn (sock w1) = Some k" using k1(1) assms(2,3) by (simp_all add: kept_def isConnected_def)
  have "send p w = socket_push (push_msg w1 p) w1" using assms(4) by (simp add: send_def w1_def Let_def)
  also have "\<dots> = (upd_conn k (\<lambda>x. x\<lparr>k_frames := k_frames x @ [Text f]\<rparr>) w1, None)"
    using conn f by (simp add: socket_push_def encode_send_def conn_send_def)
  finally have sent: "send p w = (upd_conn k (\<lambda>x. x\<lparr>k_frames := k_frames x @ [Text f]\<rparr>) w1, None)" .
  have "kept w1 (upd_conn k (\<lambda>x. x\<lparr>k_frames := k_frames x @ [Text f]\<rparr>) w1)" by (simp add: kept_def upd_conn_def)
  then have kw: "kept w (upd_conn k (\<lambda>x. x\<lparr>k_frames := k_frames x @ [Text f]\<rparr>) w1)" by (rule kept_trans [OF k1(1)])
  have "carries w p (Text f)" unfolding carries_def using f m v(1) by (intro exI [of _ "push_msg w1 p"]) simp
  with sent kw k1(2) show ?thesis by (intro exI [of _ "upd_conn k (\<lambda>x. x\<lparr>k_frames := k_frames x @ [Text f]\<rparr>) w1"] exI [of _ "Text f"])
      (simp add: upd_conn_def)
qed

lemma send_timed_out: "hasReceived (pushes w p) (js ''timeout'') \<Longrightarrow> send p w = (w, None)"
  by (simp add: send_def)

lemma carries_kept: "kept w w' \<Longrightarrow> carries w' = carries w"
  by (simp add: kept_def carries_def fun_eq_iff)

text \<open>The pushes of a buffer are sent in order, except those that timed out while they waited.\<close>

lemma flush_pushes:
  assumes "list_all (json_push w) ps" "sk_conn (sock w) = Some k" "k_readyState (conns w k) = Open"
  shows "\<exists>w' fs. for_each send ps w = (w', None) \<and> kept w w' \<and> k_frames (conns w' k) = k_frames (conns w k) @ fs
    \<and> list_all2 (carries w) (filter (\<lambda>p. \<not> hasReceived (pushes w p) (js ''timeout'')) ps) fs"
  using assms
proof (induction ps arbitrary: w)
  case Nil
  then show ?case by (auto simp: kept_refl)
next
  case (Cons p ps)
  obtain w1 gs where w1: "send p w = (w1, None)" "kept w w1" "k_frames (conns w1 k) = k_frames (conns w k) @ gs"
    "list_all2 (carries w) (filter (\<lambda>p. \<not> hasReceived (pushes w p) (js ''timeout'')) [p]) gs"
  proof (cases "hasReceived (pushes w p) (js ''timeout'')")
    case True
    then show thesis using that [of w "[]"] send_timed_out kept_refl by simp
  next
    case False
    with send_carries [of w p k] Cons.prems that show thesis by fastforce
  qed
  have "list_all (json_push w1) ps" "sk_conn (sock w1) = Some k" "k_readyState (conns w1 k) = Open"
    using Cons.prems w1(2) by (auto simp: kept_def json_push_def list_all_iff)
  from Cons.IH [OF this] obtain w' fs where w': "for_each send ps w1 = (w', None)" "kept w1 w'"
    "k_frames (conns w' k) = k_frames (conns w1 k) @ fs"
    "list_all2 (carries w1) (filter (\<lambda>p. \<not> hasReceived (pushes w1 p) (js ''timeout'')) ps) fs" by blast
  have "list_all2 (carries w) (filter (\<lambda>p. \<not> hasReceived (pushes w p) (js ''timeout'')) ps) fs"
    using w'(4) kept_received [OF w1(2)] carries_kept [OF w1(2)] by simp
  from list_all2_appendI [OF w1(4) this]
  have "list_all2 (carries w) (filter (\<lambda>p. \<not> hasReceived (pushes w p) (js ''timeout'')) (p # ps)) (gs @ fs)"
    by (simp split: if_splits)
  moreover have "for_each send (p # ps) w = (w', None)" using w1(1) w'(1) by simp
  ultimately show ?case using w1(2,3) w'(2,3) kept_trans by fastforce
qed

section \<open>The reply to a join\<close>

text \<open>
  A join is pending under the ref \<open>r\<close>: its push waits for the reply event of the ref, on which nothing else is bound, and it has the hooks
  of the constructor, before those of the user.
\<close>

definition join_hooks :: "(jsstr \<times> hook_cb) list" where
  "join_hooks = [(js ''ok'', HJoinOk), (js ''error'', HJoinError), (js ''timeout'', HJoinTimeout)]"

definition join_pending :: "nat \<Rightarrow> jsstr \<Rightarrow> (jsstr \<times> nat) list \<Rightarrow> world \<Rightarrow> bool" where
  "join_pending c r us w \<longleftrightarrow> (let p = ch_joinPush (chans w c) in
     pu_channel (pushes w p) = c \<and> pu_refEvent (pushes w p) = Some (reply_prefix @ r)
     \<and> map b_cb (filter (\<lambda>b. b_event b = reply_prefix @ r) (ch_bindings (chans w c))) = [CbPush p]
     \<and> map b_cb (filter (\<lambda>b. b_event b = EVENT_reply) (ch_bindings (chans w c))) = [CbReply]
     \<and> pu_recHooks (pushes w p) = join_hooks @ map (\<lambda>(s, u). (s, HUser u)) us)"

text \<open>Joining a channel just created makes the join pending, when no channel of the socket holds the topic.\<close>

lemma fresh_channel:
  assumes "channel topic params w = (c, w')"
  shows "chan_state_of w' c = ChClosed" "ch_topic (chans w' c) = topic" "\<not> ch_joinedOnce (chans w' c)" "sk_channels (sock w') = sk_channels (sock w) @ [c]"
    "map (\<lambda>b. (b_event b, b_cb b)) (ch_bindings (chans w' c)) = [(EVENT_close, CbClose), (EVENT_error, CbError), (EVENT_reply, CbReply)]"
    "pu_channel (pushes w' (ch_joinPush (chans w' c))) = c" "pu_recHooks (pushes w' (ch_joinPush (chans w' c))) = join_hooks"
    "pu_refEvent (pushes w' (ch_joinPush (chans w' c))) = None" "pu_timer (pushes w' (ch_joinPush (chans w' c))) = None"
    "d \<noteq> c \<Longrightarrow> chans w' d = chans w d"
  using assms by (auto simp: channel_def new_push_def on_state_change_def makeRef_def add_hook_def chan_on_def heap_defs Let_def join_hooks_def)

lemma join_makes_pending:
  assumes "channel topic params w = (c, w1)" "\<And>d. d \<in> set (sk_channels (sock w)) \<Longrightarrow> ch_topic (chans w d) \<noteq> topic"
  shows "\<exists>r. join_pending c r [] (fst (join c timeout w1)) \<and> chan_state_of (fst (join c timeout w1)) c = ChJoining"
proof -
  note fresh = fresh_channel [OF assms(1)]
  define w2 where "w2 = upd_chan c (\<lambda>ch. ch\<lparr>ch_timeout := timeout, ch_joinedOnce := True\<rparr>) w1"
  define p where "p = ch_joinPush (chans w1 c)"
  have none: "leaveOpenTopic (ch_topic (chans w2 c)) w2 = (w2, None)"
  proof -
    have "\<not> (ch_topic (chans w2 d) = topic \<and> (chan_state_of w2 d = ChJoined \<or> chan_state_of w2 d = ChJoining))"
      if "d \<in> set (sk_channels (sock w2))" for d
      using that fresh(1,4) fresh(10) [of d] assms(2) [of d] by (cases "d = c") (auto simp: w2_def upd_chan_def)
    then have "find (\<lambda>d. ch_topic (chans w2 d) = topic \<and> (chan_state_of w2 d = ChJoined \<or> chan_state_of w2 d = ChJoining))
        (sk_channels (sock w2)) = None" by (subst find_None_iff) blast
    moreover have "ch_topic (chans w2 c) = topic" using fresh(2) by (simp add: w2_def upd_chan_def)
    ultimately show ?thesis by (simp add: leaveOpenTopic_def)
  qed
  define w3 where "w3 = push_reset p (upd_push p (\<lambda>pu. pu\<lparr>pu_timeout := timeout\<rparr>) (set_state c ChJoining w2))"
  have w3: "pu_channel (pushes w3 p) = c" "pu_recHooks (pushes w3 p) = join_hooks" "pu_timer (pushes w3 p) = None" "chan_state_of w3 c = ChJoining"
    "ch_joinPush (chans w3 c) = p" "pu_receivedResp (pushes w3 p) = None"
    "map (\<lambda>b. (b_event b, b_cb b)) (ch_bindings (chans w3 c)) = [(EVENT_close, CbClose), (EVENT_error, CbError), (EVENT_reply, CbReply)]"
    using fresh(5-9) by (simp_all add: w3_def w2_def push_reset_def cancelRefEvent_def set_state_def heap_defs p_def)
  have "join c timeout w1 = send p w3"
    using fresh(1,3) none by (simp add: join_def rejoin_def w2_def [symmetric] resend_def w3_def p_def andthen_def pure_def)
      (simp add: w2_def set_state_def upd_chan_def split: prod.split option.split)
  also have "\<dots> = socket_push (push_msg (upd_push p (\<lambda>pu. pu\<lparr>pu_sent := True\<rparr>) (startTimeout p w3)) p)
      (upd_push p (\<lambda>pu. pu\<lparr>pu_sent := True\<rparr>) (startTimeout p w3))"
    using w3(6) by (simp add: send_def hasReceived_def Let_def)
  finally have sent: "fst (join c timeout w1) = fst \<dots>" by simp
  define w4 where "w4 = upd_push p (\<lambda>pu. pu\<lparr>pu_sent := True\<rparr>) (startTimeout p w3)"
  obtain r where w4: "pu_channel (pushes w4 p) = c" "pu_recHooks (pushes w4 p) = join_hooks" "chan_state_of w4 c = ChJoining"
    "ch_joinPush (chans w4 c) = p" "pu_refEvent (pushes w4 p) = Some (reply_prefix @ r)"
    "map (\<lambda>b. (b_event b, b_cb b)) (ch_bindings (chans w4 c))
      = [(EVENT_close, CbClose), (EVENT_error, CbError), (EVENT_reply, CbReply), (reply_prefix @ r, CbPush p)]"
    using that w3 by (simp add: w4_def startTimeout_def makeRef_def chan_on_def set_timeout_def heap_defs Let_def)
  have frame: "chans (fst (socket_push m w)) = chans w" "pushes (fst (socket_push m w)) = pushes w" for m w
    by (simp_all add: socket_push_def encode_send_def conn_send_def heap_defs split: sum.splits option.splits)
  have "join_pending c r [] w4"
    using w4 by (auto simp: join_pending_def map_eq_Cons_conv EVENT_close_def EVENT_error_def EVENT_reply_def reply_prefix_def js_eval)
  then show ?thesis using w4(3) by (intro exI [of _ r]) (simp add: sent w4_def [symmetric] join_pending_def frame)
qed

definition reply :: "jsstr \<Rightarrow> jsval \<Rightarrow> payload" where
  "reply status response = Json (Obj [(js ''status'', Str status), (js ''response'', response)])"

lemma reply_simps: "pay_status (reply s v) = Str s" "pay_response (reply s v) = Json v" "\<not> nullish (Obj kvs)"
  by (simp_all add: reply_def get_opt_def own_prop_def js_eval)

lemma trigger_single:
  assumes "map b_cb (filter (\<lambda>b. b_event b = ev) (ch_bindings (chans w c))) = [cb]"
  shows "trigger (Suc n) c (Str ev) pl ref w = run_cb n c cb pl ref w"
proof -
  obtain b where b: "filter (\<lambda>b. b_event b = ev) (ch_bindings (chans w c)) = [b]" "b_cb b = cb" using assms by (auto simp: map_eq_Cons_conv)
  have "andthen (run_cb n c cb pl ref) (for_each (\<lambda>b. run_cb n c (b_cb b) pl ref) []) w = run_cb n c cb pl ref w"
    by (simp add: andthen_def del: run_cb.simps split: prod.splits option.splits)
  then show ?thesis using b by (simp del: run_cb.simps)
qed

definition took_reply :: "nat \<Rightarrow> payload \<Rightarrow> world \<Rightarrow> world" where
  "took_reply p pl w = upd_push p (\<lambda>pu. pu\<lparr>pu_receivedResp := Some pl\<rparr>) (cancelTimeout p (cancelRefEvent p w))"

text \<open>The reply reaches the push of the join and runs the hooks of its status.\<close>

lemma reply_runs_hooks:
  assumes "join_pending c r us w"
  shows "trigger DEPTH c (Str EVENT_reply) (reply s v) (Str r) w =
    (let p = ch_joinPush (chans w c) in for_each (\<lambda>(_, h). run_hook 1 c h (Json v))
      (filter (\<lambda>(s', _). s' = s) (join_hooks @ map (\<lambda>(s, u). (s, HUser u)) us)) (took_reply p (reply s v) w))"
proof -
  define p where "p = ch_joinPush (chans w c)"
  note pend = assms [unfolded join_pending_def Let_def, folded p_def]
  have not_null: "(case reply s v of Json v \<Rightarrow> nullish v | _ \<Rightarrow> False) = False" by (simp add: reply_def)
  have "trigger DEPTH c (Str EVENT_reply) (reply s v) (Str r) w = run_cb 2 c CbReply (reply s v) (Str r) w"
    unfolding numeral_3_eq_3 numeral_2_eq_2 by (rule trigger_single) (use pend in blast)
  also have "\<dots> = trigger 2 c (Str (reply_prefix @ r)) (reply s v) Undef w"
    by (simp add: replyEventName_def del: trigger.simps)
  also have "\<dots> = run_cb 1 c (CbPush p) (reply s v) Undef w"
    unfolding numeral_2_eq_2 One_nat_def by (rule trigger_single) (use pend in blast)
  also have "\<dots> = for_each (\<lambda>(_, h). run_hook 1 c h (Json v))
      (filter (\<lambda>(s', _). Str s' = Str s) (pu_recHooks (pushes (took_reply p (reply s v) w) p))) (took_reply p (reply s v) w)"
    unfolding run_cb.simps Let_def took_reply_def [symmetric] not_null if_False reply_simps ..
  also have "pu_recHooks (pushes (took_reply p (reply s v) w) p) = pu_recHooks (pushes w p)"
    by (simp add: took_reply_def cancelTimeout_def cancelRefEvent_def chan_off_def heap_defs split: option.splits)
  finally show ?thesis using pend by (simp add: p_def [symmetric])
qed

lemma user_hooks_log:
  "for_each (\<lambda>(_, h). run_hook n c h resp) (map (\<lambda>(s, u). (s, HUser u)) us) w = (w\<lparr>calls := calls w @ map (\<lambda>(_, u). UHook u resp) us\<rparr>, None)"
  by (induction us arbitrary: w) (auto simp: log_call_def)

lemma took_reply_frame:
  "conns (took_reply p pl w) = conns w" "sock (took_reply p pl w) = sock w" "calls (took_reply p pl w) = calls w"
  "ch_state (chans (took_reply p pl w) d) = ch_state (chans w d)" "ch_pushBuffer (chans (took_reply p pl w) d) = ch_pushBuffer (chans w d)"
  "ch_topic (chans (took_reply p pl w) d) = ch_topic (chans w d)" "ch_joinPush (chans (took_reply p pl w) d) = ch_joinPush (chans w d)"
  "ch_rejoinTimer (chans (took_reply p pl w) d) = ch_rejoinTimer (chans w d)"
  "pu_payload (pushes (took_reply p pl w) q) = pu_payload (pushes w q)" "pu_event (pushes (took_reply p pl w) q) = pu_event (pushes w q)"
  "pu_channel (pushes (took_reply p pl w) q) = pu_channel (pushes w q)"
  "q \<noteq> p \<Longrightarrow> pu_receivedResp (pushes (took_reply p pl w) q) = pu_receivedResp (pushes w q)"
  by (simp_all add: took_reply_def cancelTimeout_def cancelRefEvent_def chan_off_def heap_defs split: option.splits)

lemma join_ok_flushes:
  assumes "list_all (json_push w) (ch_pushBuffer (chans w c))" "sk_conn (sock w) = Some k" "k_readyState (conns w k) = Open"
  shows "\<exists>w' fs. join_ok c w = (w', None) \<and> ch_state (chans w' c) = ChJoined \<and> ch_pushBuffer (chans w' c) = []
    \<and> calls w' = calls w \<and> k_frames (conns w' k) = k_frames (conns w k) @ fs
    \<and> list_all2 (carries w) (filter (\<lambda>p. \<not> hasReceived (pushes w p) (js ''timeout'')) (ch_pushBuffer (chans w c))) fs"
proof -
  define w1 where "w1 = rejoin_reset c (set_state c ChJoined w)"
  have w1: "ch_state (chans w1 c) = ChJoined" "ch_pushBuffer (chans w1 c) = ch_pushBuffer (chans w c)" "calls w1 = calls w" "conns w1 = conns w"
    "sock w1 = sock w" "pushes w1 = pushes w" "carries w1 = carries w" "json_push w1 = json_push w"
    by (simp_all add: w1_def rejoin_reset_def retry_reset_def set_state_def heap_defs carries_def json_push_def fun_eq_iff)
  from flush_pushes [of w1 "ch_pushBuffer (chans w1 c)" k] obtain w2 fs where w2:
    "for_each send (ch_pushBuffer (chans w1 c)) w1 = (w2, None)" "kept w1 w2" "k_frames (conns w2 k) = k_frames (conns w k) @ fs"
    "list_all2 (carries w) (filter (\<lambda>p. \<not> hasReceived (pushes w p) (js ''timeout'')) (ch_pushBuffer (chans w c))) fs"
    using assms by (auto simp: w1)
  have "join_ok c w = (upd_chan c (\<lambda>ch. ch\<lparr>ch_pushBuffer := []\<rparr>) w2, None)"
    using w2(1) by (simp add: join_ok_def w1_def [symmetric])
  with w1(1,3) w2 show ?thesis by (auto simp: kept_def upd_chan_def)
qed

lemma hooks_of:
  "filter (\<lambda>(s', _). s' = js ''ok'') (join_hooks @ hs) = (js ''ok'', HJoinOk) # filter (\<lambda>(s', _). s' = js ''ok'') hs"
  "filter (\<lambda>(s', _). s' = js ''error'') (join_hooks @ hs) = (js ''error'', HJoinError) # filter (\<lambda>(s', _). s' = js ''error'') hs"
  by (simp_all add: join_hooks_def)

lemma user_filter: "filter (\<lambda>(s', _). s' = s) (map (\<lambda>(s, u). (s, HUser u)) us) = map (\<lambda>(s, u). (s, HUser u)) (filter (\<lambda>(s', _). s' = s) us)"
  by (induction us) auto

section \<open>Properties\<close>

text \<open>A channel that waits for the reply to its join, with a push of the user behind it.\<close>

definition world_joining :: world where
  "world_joining = (world_new default_opts WebSocketT None)
    \<lparr>sock := (socket_new default_opts WebSocketT None)\<lparr>sk_channels := [0], sk_conn := Some 0\<rparr>,
     conns := (\<lambda>_. no_conn\<lparr>k_readyState := Open, k_handlers := True, k_onclose := True\<rparr>),
     chans := (\<lambda>_. no_chan\<lparr>ch_state := ChJoining, ch_topic := js ''room'', ch_joinedOnce := True, ch_joinPush := 0, ch_pushBuffer := [1],
       ch_bindings := [\<lparr>b_event = EVENT_reply, b_ref = 0, b_cb = CbReply\<rparr>, \<lparr>b_event = reply_prefix @ js ''1'', b_ref = 1, b_cb = CbPush 0\<rparr>]\<rparr>),
     pushes := (\<lambda>p. if p = 0 then no_push\<lparr>pu_event := EVENT_join, pu_sent := True, pu_ref := Some (js ''1''), pu_refEvent := Some (reply_prefix @ js ''1''),
         pu_recHooks := join_hooks @ [(js ''ok'', HUser 5)]\<rparr> else no_push\<lparr>pu_event := js ''hello''\<rparr>)\<rparr>"

lemma world_joining_simps:
  "sk_conn (sock world_joining) = Some 0" "k_readyState (conns world_joining k) = Open" "ch_pushBuffer (chans world_joining c) = [1]"
  "ch_joinPush (chans world_joining c) = 0" "json_push world_joining 1" "hasReceived (pushes world_joining 1) (js ''timeout'') = False"
  "calls world_joining = []" "k_frames (conns world_joining k) = []"
  by (simp_all add: world_joining_def world_new_def no_conn_def no_chan_def no_push_def json_push_def hasReceived_def empty_payload_def reply_simps)

lemma world_joining_pending: "join_pending 0 (js ''1'') [(js ''ok'', 5)] world_joining"
  by (simp add: join_pending_def world_joining_def world_new_def no_push_def no_chan_def EVENT_reply_def reply_prefix_def js_eval)

text \<open>
  C4: The reply to a pending join decides the channel.  On ok it is joined, the pushes that waited for it are sent in their order, those that
  timed out left out, and the waiting list is empty; on error it is errored, nothing is sent and a rejoin is due after the first
  delay.  Either way the user's hooks of that status run once each, in the order they were registered, with the response.
\<close>

theorem client_join_reply:
  assumes pend: "join_pending c r us w" and conn: "sk_conn (sock w) = Some k" "k_readyState (conns w k) = Open"
    and waiting: "list_all (json_push w) (ch_pushBuffer (chans w c))" "ch_joinPush (chans w c) \<notin> set (ch_pushBuffer (chans w c))"
  shows "(\<exists>w' fs. trigger DEPTH c (Str EVENT_reply) (reply (js ''ok'') v) (Str r) w = (w', None)
      \<and> ch_state (chans w' c) = ChJoined \<and> ch_pushBuffer (chans w' c) = []
      \<and> k_frames (conns w' k) = k_frames (conns w k) @ fs
      \<and> list_all2 (carries w) (filter (\<lambda>p. \<not> hasReceived (pushes w p) (js ''timeout'')) (ch_pushBuffer (chans w c))) fs
      \<and> calls w' = calls w @ map (\<lambda>(_, u). UHook u (Json v)) (filter (\<lambda>(s, _). s = js ''ok'') us))
    \<and> (\<exists>w' i. trigger DEPTH c (Str EVENT_reply) (reply (js ''error'') v) (Str r) w = (w', None)
      \<and> ch_state (chans w' c) = ChErrored \<and> ch_pushBuffer (chans w' c) = ch_pushBuffer (chans w c)
      \<and> k_frames (conns w' k) = k_frames (conns w k)
      \<and> (i, o_rejoinAfterMs (sk_opts (sock w)) (rt_tries (ch_rejoinTimer (chans w c)) + 1), TRejoin c) \<in> set (timers w')
      \<and> calls w' = calls w @ map (\<lambda>(_, u). UHook u (Json v)) (filter (\<lambda>(s, _). s = js ''error'') us))"
proof
  define p where "p = ch_joinPush (chans w c)"
  let ?w = "\<lambda>s. took_reply p (reply s v) w"
  have same: "carries (?w s) = carries w" "json_push (?w s) = json_push w" for s
    by (simp_all add: fun_eq_iff carries_def json_push_def took_reply_frame)
  have waits: "filter (\<lambda>q. \<not> hasReceived (pushes (?w s) q) (js ''timeout'')) (ch_pushBuffer (chans w c))
      = filter (\<lambda>q. \<not> hasReceived (pushes w q) (js ''timeout'')) (ch_pushBuffer (chans w c))" for s
  proof (rule filter_cong)
    fix q assume "q \<in> set (ch_pushBuffer (chans w c))"
    with waiting(2) have "q \<noteq> p" by (auto simp: p_def)
    from took_reply_frame(12) [OF this]
    show "(\<not> hasReceived (pushes (?w s) q) (js ''timeout'')) = (\<not> hasReceived (pushes w q) (js ''timeout''))"
      by (simp only: hasReceived_def)
  qed simp
  from join_ok_flushes [of "?w (js ''ok'')" c k] obtain w1 fs where w1: "join_ok c (?w (js ''ok'')) = (w1, None)" "ch_state (chans w1 c) = ChJoined"
    "ch_pushBuffer (chans w1 c) = []" "calls w1 = calls w" "k_frames (conns w1 k) = k_frames (conns w k) @ fs"
    "list_all2 (carries w) (filter (\<lambda>p. \<not> hasReceived (pushes w p) (js ''timeout'')) (ch_pushBuffer (chans w c))) fs"
    using conn waiting(1) by (auto simp: same waits took_reply_frame)
  show "\<exists>w' fs. trigger DEPTH c (Str EVENT_reply) (reply (js ''ok'') v) (Str r) w = (w', None)
      \<and> ch_state (chans w' c) = ChJoined \<and> ch_pushBuffer (chans w' c) = []
      \<and> k_frames (conns w' k) = k_frames (conns w k) @ fs
      \<and> list_all2 (carries w) (filter (\<lambda>p. \<not> hasReceived (pushes w p) (js ''timeout'')) (ch_pushBuffer (chans w c))) fs
      \<and> calls w' = calls w @ map (\<lambda>(_, u). UHook u (Json v)) (filter (\<lambda>(s, _). s = js ''ok'') us)"
    unfolding reply_runs_hooks [OF pend] Let_def hooks_of user_filter p_def [symmetric]
    using w1 by (simp add: user_hooks_log del: trigger.simps)
  define w2 where "w2 = schedule_if_connected c (set_state c ChErrored (?w (js ''error'')))"
  have "isConnected (set_state c ChErrored (?w (js ''error'')))"
    using conn by (simp add: isConnected_def set_state_def upd_chan_def took_reply_frame)
  then have w2: "ch_state (chans w2 c) = ChErrored" "ch_pushBuffer (chans w2 c) = ch_pushBuffer (chans w c)" "conns w2 = conns w" "calls w2 = calls w"
    "\<exists>i. (i, o_rejoinAfterMs (sk_opts (sock w)) (rt_tries (ch_rejoinTimer (chans w c)) + 1), TRejoin c) \<in> set (timers w2)"
    by (auto simp: w2_def schedule_if_connected_def rejoin_schedule_def scheduleTimeout_def set_timeout_def set_state_def heap_defs
        took_reply_frame Let_def)
  show "\<exists>w' i. trigger DEPTH c (Str EVENT_reply) (reply (js ''error'') v) (Str r) w = (w', None)
      \<and> ch_state (chans w' c) = ChErrored \<and> ch_pushBuffer (chans w' c) = ch_pushBuffer (chans w c)
      \<and> k_frames (conns w' k) = k_frames (conns w k)
      \<and> (i, o_rejoinAfterMs (sk_opts (sock w)) (rt_tries (ch_rejoinTimer (chans w c)) + 1), TRejoin c) \<in> set (timers w')
      \<and> calls w' = calls w @ map (\<lambda>(_, u). UHook u (Json v)) (filter (\<lambda>(s, _). s = js ''error'') us)"
    unfolding reply_runs_hooks [OF pend] Let_def hooks_of user_filter p_def [symmetric]
    using w2 by (simp add: user_hooks_log w2_def [symmetric] del: trigger.simps)
qed

theorem client_join_reply_witness:
  "(\<exists>w' f. trigger DEPTH 0 (Str EVENT_reply) (reply (js ''ok'') (jsn 7)) (Str (js ''1'')) world_joining = (w', None)
      \<and> ch_state (chans w' 0) = ChJoined \<and> k_frames (conns w' 0) = [f] \<and> carries world_joining 1 f \<and> calls w' = [UHook 5 (Json (jsn 7))])
   \<and> (\<exists>w'. trigger DEPTH 0 (Str EVENT_reply) (reply (js ''error'') (jsn 7)) (Str (js ''1'')) world_joining = (w', None)
      \<and> ch_state (chans w' 0) = ChErrored \<and> k_frames (conns w' 0) = [] \<and> calls w' = [])"
proof -
  have "list_all (json_push world_joining) (ch_pushBuffer (chans world_joining 0))"
    "ch_joinPush (chans world_joining 0) \<notin> set (ch_pushBuffer (chans world_joining 0))" by (simp_all add: world_joining_simps del: One_nat_def)
  from client_join_reply [OF world_joining_pending world_joining_simps(1,2) this, of "jsn 7",
      unfolded world_joining_simps filter.simps if_True not_False_eq_True]
  show ?thesis by (auto simp: list_all2_Cons1 js_eval simp del: trigger.simps One_nat_def)
qed

end
