(* ===== verification/JS_Async.thy ===== *)
theory JS_Async
  imports JS_Text
begin

text \<open>
  Asynchronous functions.  An \<open>async\<close> function is the tree of what it does: assignments to the
  variables of its component, reads of them, and \<open>await\<close>s, where it stops until the promises it waits for
  settle and other handlers run in between.  \<open>try\<close>, \<open>catch\<close> and \<open>finally\<close> act on such trees as the
  language says.  The network is whatever answers the waits.
\<close>

section \<open>Requests and what they settle to\<close>

datatype http_method = MGet | MPost | MHead

record http_call =
  c_method :: http_method
  c_url :: jsstr
  c_headers :: "(jsstr \<times> jsstr) list"
  c_body :: "jsstr option"

definition get_call :: "jsstr \<Rightarrow> http_call" where
  "get_call url = \<lparr>c_method = MGet, c_url = url, c_headers = [], c_body = None\<rparr>"

text \<open>
  One promise: the response of a \<open>fetch\<close>, the body of a response, the chain \<open>fetch(...).then((r) => r.json())\<close>, or the
  bytes of a WebAssembly module being compiled.
\<close>

datatype promise =
    PFetch http_call
  | PBody http_call
  | PJson http_call
  | PModule http_call

text \<open>
  How a promise settles: it rejects, or a response arrives with its status, or a body with its text.  A value of
  another kind than the promise has counts as a rejection.
\<close>

datatype settled =
    Rejected
  | Status nat
  | BodyText jsstr
  | Instance

record reply =
  rp_call :: http_call
  rp_status :: nat

text \<open>\<open>res.ok\<close>\<close>

definition res_ok :: "reply \<Rightarrow> bool" where
  "res_ok r \<longleftrightarrow> 200 \<le> rp_status r \<and> rp_status r \<le> 299"

section \<open>Trees\<close>

datatype ('s, 'a) task =
    Ret 'a
  | Raise exn
  | Upd "'s \<Rightarrow> 's" "('s, 'a) task"
  | Look "'s \<Rightarrow> ('s, 'a) task"
  | Await "promise list" "settled list \<Rightarrow> ('s, 'a) task"

primrec andthen_t :: "('s, 'a) task \<Rightarrow> ('a \<Rightarrow> ('s, 'b) task) \<Rightarrow> ('s, 'b) task" where
  "andthen_t (Ret a) f = f a"
| "andthen_t (Raise e) f = Raise e"
| "andthen_t (Upd u m) f = Upd u (andthen_t m f)"
| "andthen_t (Look k) f = Look (\<lambda>s. andthen_t (k s) f)"
| "andthen_t (Await ps k) f = Await ps (\<lambda>rs. andthen_t (k rs) f)"

primrec try_catch :: "('s, 'a) task \<Rightarrow> (exn \<Rightarrow> ('s, 'a) task) \<Rightarrow> ('s, 'a) task" where
  "try_catch (Ret a) h = Ret a"
| "try_catch (Raise e) h = h e"
| "try_catch (Upd u m) h = Upd u (try_catch m h)"
| "try_catch (Look k) h = Look (\<lambda>s. try_catch (k s) h)"
| "try_catch (Await ps k) h = Await ps (\<lambda>rs. try_catch (k rs) h)"

primrec try_finally :: "('s, 'a) task \<Rightarrow> ('s, unit) task \<Rightarrow> ('s, 'a) task" where
  "try_finally (Ret a) f = andthen_t f (\<lambda>_. Ret a)"
| "try_finally (Raise e) f = andthen_t f (\<lambda>_. Raise e)"
| "try_finally (Upd u m) f = Upd u (try_finally m f)"
| "try_finally (Look k) f = Look (\<lambda>s. try_finally (k s) f)"
| "try_finally (Await ps k) f = Await ps (\<lambda>rs. try_finally (k rs) f)"

fun block :: "('s, unit) task list \<Rightarrow> ('s, unit) task" where
  "block [] = Ret ()"
| "block [m] = m"
| "block (m # ms) = andthen_t m (\<lambda>_. block ms)"

text \<open>\<open>x = v\<close>, for a variable given by its update function.\<close>

definition assign :: "(('v \<Rightarrow> 'v) \<Rightarrow> 's \<Rightarrow> 's) \<Rightarrow> 'v \<Rightarrow> ('s, unit) task" where
  "assign upd v = Upd (upd (\<lambda>_. v)) (Ret ())"

definition lift_result :: "'a result \<Rightarrow> ('s, 'a) task" where
  "lift_result r = (case r of Inl e \<Rightarrow> Raise e | Inr a \<Rightarrow> Ret a)"

section \<open>The calls the sources await\<close>

text \<open>Waiting for promises: \<open>g\<close> is the value they settle to, or nothing when they reject.\<close>

definition wait_for :: "promise list \<Rightarrow> (settled list \<Rightarrow> 'a option) \<Rightarrow> exn \<Rightarrow> ('s, 'a) task" where
  "wait_for ps g e = Await ps (\<lambda>rs. case g rs of None \<Rightarrow> Raise e | Some x \<Rightarrow> Ret x)"

fun reply_of :: "http_call \<Rightarrow> settled \<Rightarrow> reply option" where
  "reply_of c (Status n) = Some \<lparr>rp_call = c, rp_status = n\<rparr>"
| "reply_of c _ = None"

fun json_of :: "settled \<Rightarrow> jsval option" where
  "json_of (BodyText t) = JSON_parse t"
| "json_of _ = None"

definition single :: "('a \<Rightarrow> 'b option) \<Rightarrow> 'a list \<Rightarrow> 'b option" where
  "single f rs = (case rs of [r] \<Rightarrow> f r | _ \<Rightarrow> None)"

fun all_with :: "('c \<Rightarrow> 'a \<Rightarrow> 'b option) \<Rightarrow> 'c list \<Rightarrow> 'a list \<Rightarrow> 'b list option" where
  "all_with f [] [] = Some []"
| "all_with f (c # cs) (r # rs) = (case f c r of None \<Rightarrow> None
     | Some x \<Rightarrow> map_option ((#) x) (all_with f cs rs))"
| "all_with f _ _ = None"

text \<open>\<open>await fetch(c)\<close> and \<open>await r.json()\<close>\<close>

definition fetch :: "http_call \<Rightarrow> ('s, reply) task" where
  "fetch c = wait_for [PFetch c] (single (reply_of c)) TypeError"

definition json :: "reply \<Rightarrow> ('s, jsval) task" where
  "json r = wait_for [PBody (rp_call r)] (single json_of) (JsError ''SyntaxError'')"

text \<open>\<open>await Promise.all([...])\<close> of responses, and of \<open>fetch(c).then((r) => r.json())\<close>; it rejects when a member does.\<close>

definition fetch_all :: "http_call list \<Rightarrow> ('s, reply list) task" where
  "fetch_all cs = wait_for (map PFetch cs) (all_with reply_of cs) TypeError"

definition json_all :: "http_call list \<Rightarrow> ('s, jsval list) task" where
  "json_all cs = wait_for (map PJson cs) (all_with (\<lambda>_. json_of) cs) TypeError"

definition fetch_json :: "http_call \<Rightarrow> ('s, jsval) task" where
  "fetch_json c = wait_for [PJson c] (single json_of) TypeError"

section \<open>Running\<close>

text \<open>A handler runs without interruption until it awaits or ends.\<close>

primrec advance :: "('s, 'a) task \<Rightarrow> 's \<Rightarrow> 's \<times> ('s, 'a) task" where
  "advance (Ret a) s = (s, Ret a)"
| "advance (Raise e) s = (s, Raise e)"
| "advance (Upd u m) s = advance m (u s)"
| "advance (Look k) s = advance (k s) s"
| "advance (Await ps k) s = (s, Await ps k)"

fun waits :: "('s, 'a) task \<Rightarrow> bool" where
  "waits (Await _ _) = True"
| "waits _ = False"

text \<open>A handler alone, its waits answered in order.\<close>

fun answer :: "('s, 'a) task \<Rightarrow> settled list list \<Rightarrow> 's \<Rightarrow> 's \<times> ('s, 'a) task" where
  "answer m [] s = advance m s"
| "answer m (rs # rss) s = (case advance m s of
     (s', Await ps k) \<Rightarrow> answer (k rs) rss s'
   | done \<Rightarrow> done)"

text \<open>A handler alone while nothing answers: every promise rejects.\<close>

primrec offline :: "('s, 'a) task \<Rightarrow> 's \<Rightarrow> 's \<times> ('s, 'a) task" where
  "offline (Ret a) s = (s, Ret a)"
| "offline (Raise e) s = (s, Raise e)"
| "offline (Upd u m) s = offline m (u s)"
| "offline (Look k) s = offline (k s) s"
| "offline (Await ps k) s = offline (k (map (\<lambda>_. Rejected) ps)) s"

section \<open>Weakest preconditions with a rely condition\<close>

text \<open>
  \<open>wp W K m Q E s\<close>: started in \<open>s\<close>, the handler ends normally with \<open>Q\<close> or by an exception with \<open>E\<close>; each of its own assignments
  respects \<open>K\<close>; and \<open>W\<close> holds whenever it waits, provided the other handlers keep \<open>W\<close>.  Termination is part of
  it: the tree is finite, and the answers are arbitrary.
\<close>

primrec wp :: "('s \<Rightarrow> bool) \<Rightarrow> ('s \<Rightarrow> 's \<Rightarrow> bool) \<Rightarrow> ('s, 'a) task
    \<Rightarrow> ('a \<Rightarrow> 's \<Rightarrow> bool) \<Rightarrow> (exn \<Rightarrow> 's \<Rightarrow> bool) \<Rightarrow> 's \<Rightarrow> bool" where
  "wp W K (Ret a) Q E s = Q a s"
| "wp W K (Raise e) Q E s = E e s"
| "wp W K (Upd u m) Q E s = (K s (u s) \<and> wp W K m Q E (u s))"
| "wp W K (Look k) Q E s = wp W K (k s) Q E s"
| "wp W K (Await ps k) Q E s = (W s \<and> (\<forall>rs s'. W s' \<longrightarrow> wp W K (k rs) Q E s'))"

lemma wp_Ret [simp]: "wp W K (Ret a) Q E = Q a"
  by (simp add: fun_eq_iff)

lemma wp_Raise [simp]: "wp W K (Raise e) Q E = E e"
  by (simp add: fun_eq_iff)

named_theorems wp_rules \<open>weakest preconditions of the combinators\<close>

lemma wp_andthen [wp_rules]:
  "wp W K (andthen_t m f) Q E = wp W K m (\<lambda>a. wp W K (f a) Q E) E"
  by (induction m) (auto simp: fun_eq_iff)

lemma wp_try_catch [wp_rules]:
  "wp W K (try_catch m h) Q E = wp W K m Q (\<lambda>e. wp W K (h e) Q E)"
  by (induction m) (auto simp: fun_eq_iff)

lemma wp_try_finally [wp_rules]:
  "wp W K (try_finally m f) Q E =
     wp W K m (\<lambda>a. wp W K f (\<lambda>_. Q a) E) (\<lambda>e. wp W K f (\<lambda>_. E e) E)"
  by (induction m) (auto simp: wp_andthen fun_eq_iff)

lemma wp_assign [wp_rules]:
  "wp W K (assign u v) Q E = (\<lambda>s. K s (u (\<lambda>_. v) s) \<and> Q () (u (\<lambda>_. v) s))"
  by (simp add: assign_def fun_eq_iff)

lemma wp_lift [wp_rules]:
  "wp W K (lift_result r) Q E = (\<lambda>s. case r of Inl e \<Rightarrow> E e s | Inr a \<Rightarrow> Q a s)"
  by (simp add: lift_result_def fun_eq_iff split: sum.split)

lemma wp_Look [wp_rules]: "wp W K (Look k) Q E = (\<lambda>s. wp W K (k s) Q E s)"
  by (simp add: fun_eq_iff)

lemma wp_if [wp_rules]:
  "wp W K (if b then m else n) Q E = (\<lambda>s. if b then wp W K m Q E s else wp W K n Q E s)"
  by simp

lemma wp_mono:
  assumes "wp W K m Q E s" "\<And>a s. Q a s \<Longrightarrow> Q' a s" "\<And>e s. E e s \<Longrightarrow> E' e s"
  shows "wp W K m Q' E' s"
  using assms(1) by (induction m arbitrary: s) (auto simp: assms(2,3))

text \<open>The calls: any status and any JSON value may arrive, or the promise rejects.\<close>

definition parsed :: "jsval \<Rightarrow> bool" where
  "parsed v \<longleftrightarrow> (\<exists>t. JSON_parse t = Some v)"

lemma wp_wait_for:
  "wp W K (wait_for ps g e) Q E = (\<lambda>s. W s \<and> (\<forall>s'. W s' \<longrightarrow>
     (\<forall>x. (\<exists>rs. g rs = Some x) \<longrightarrow> Q x s') \<and> ((\<exists>rs. g rs = None) \<longrightarrow> E e s')))"
  unfolding wait_for_def by (auto simp: fun_eq_iff split: option.splits)

lemma single_None: "\<exists>rs. single f rs = None"
  by (rule exI [of _ "[]"]) (simp add: single_def)

lemma single_Some: "(\<exists>rs. single f rs = Some x) \<longleftrightarrow> (\<exists>r. f r = Some x)"
proof
  assume "\<exists>rs. single f rs = Some x"
  then obtain rs where rs: "single f rs = Some x" ..
  then obtain r where "rs = [r]" by (auto simp: single_def split: list.splits)
  with rs show "\<exists>r. f r = Some x" by (auto simp: single_def)
next
  assume "\<exists>r. f r = Some x"
  then obtain r where "f r = Some x" ..
  then show "\<exists>rs. single f rs = Some x" by (intro exI [of _ "[r]"]) (simp add: single_def)
qed

lemma reply_of_Some: "(\<exists>r. reply_of c r = Some x) \<longleftrightarrow> rp_call x = c"
proof
  assume "rp_call x = c"
  then show "\<exists>r. reply_of c r = Some x"
    by (intro exI [of _ "Status (rp_status x)"]) (cases x; simp)
qed (auto elim: reply_of.elims)

lemma json_of_Some: "(\<exists>r. json_of r = Some x) \<longleftrightarrow> parsed x"
proof
  assume "parsed x"
  then obtain t where "JSON_parse t = Some x" by (auto simp: parsed_def)
  then show "\<exists>r. json_of r = Some x" by (intro exI [of _ "BodyText t"]) simp
qed (auto simp: parsed_def elim!: json_of.elims)

lemma all_with_length: "length rs \<noteq> length cs \<Longrightarrow> all_with f cs rs = None"
  by (induction f cs rs rule: all_with.induct) (auto split: option.split)

lemma all_with_None: "\<exists>rs. all_with f cs rs = None"
  by (rule exI [of _ "undefined # map (\<lambda>_. undefined) cs"]) (simp add: all_with_length)

lemma all_with_Some:
  "(\<exists>rs. all_with f cs rs = Some xs) \<longleftrightarrow> list_all2 (\<lambda>c x. \<exists>r. f c r = Some x) cs xs"
proof (induction cs arbitrary: xs)
  case Nil
  have "all_with f [] rs = Some xs \<longleftrightarrow> rs = [] \<and> xs = []" for rs
    by (cases rs) auto
  then show ?case by auto
next
  case (Cons c cs)
  show ?case
  proof
    assume "\<exists>rs. all_with f (c # cs) rs = Some xs"
    then obtain rs where rs: "all_with f (c # cs) rs = Some xs" ..
    then obtain r rs' where "rs = r # rs'" by (cases rs) auto
    with rs obtain x ys where "f c r = Some x" "all_with f cs rs' = Some ys" "xs = x # ys"
      by (auto split: option.splits)
    then show "list_all2 (\<lambda>c x. \<exists>r. f c r = Some x) (c # cs) xs" using Cons by auto
  next
    assume "list_all2 (\<lambda>c x. \<exists>r. f c r = Some x) (c # cs) xs"
    then obtain r x ys where x: "f c r = Some x" "xs = x # ys"
      and "list_all2 (\<lambda>c x. \<exists>r. f c r = Some x) cs ys" by (auto simp: list_all2_Cons1)
    with Cons obtain rs where "all_with f cs rs = Some ys" by blast
    with x show "\<exists>rs. all_with f (c # cs) rs = Some xs" by (intro exI [of _ "r # rs"]) simp
  qed
qed

lemma wp_fetch [wp_rules]:
  "wp W K (fetch c) Q E = (\<lambda>s. W s \<and> (\<forall>s'. W s' \<longrightarrow> (\<forall>r. rp_call r = c \<longrightarrow> Q r s') \<and> E TypeError s'))"
  by (simp add: fetch_def wp_wait_for single_None single_Some reply_of_Some)

lemma wp_json [wp_rules]:
  "wp W K (json r) Q E = (\<lambda>s. W s \<and> (\<forall>s'. W s' \<longrightarrow> (\<forall>v. parsed v \<longrightarrow> Q v s') \<and> E (JsError ''SyntaxError'') s'))"
  by (simp add: json_def wp_wait_for single_None single_Some json_of_Some)

lemma wp_fetch_json [wp_rules]:
  "wp W K (fetch_json c) Q E = (\<lambda>s. W s \<and> (\<forall>s'. W s' \<longrightarrow> (\<forall>v. parsed v \<longrightarrow> Q v s') \<and> E TypeError s'))"
  by (simp add: fetch_json_def wp_wait_for single_None single_Some json_of_Some)

lemma wp_fetch_all [wp_rules]:
  "wp W K (fetch_all cs) Q E = (\<lambda>s. W s \<and> (\<forall>s'. W s' \<longrightarrow>
     (\<forall>rs. list_all2 (\<lambda>c r. rp_call r = c) cs rs \<longrightarrow> Q rs s') \<and> E TypeError s'))"
  by (simp add: fetch_all_def wp_wait_for all_with_None all_with_Some reply_of_Some)

lemma all_list_all2 [wp_rules]:
  "(\<forall>xs. list_all2 P [] xs \<longrightarrow> Q xs) \<longleftrightarrow> Q []"
  "(\<forall>xs. list_all2 P (c # cs) xs \<longrightarrow> R xs) \<longleftrightarrow> (\<forall>x. P c x \<longrightarrow> (\<forall>xs. list_all2 P cs xs \<longrightarrow> R (x # xs)))"
  by (auto simp: list_all2_Cons1)

lemma wp_json_all [wp_rules]:
  "wp W K (json_all cs) Q E = (\<lambda>s. W s \<and> (\<forall>s'. W s' \<longrightarrow>
     (\<forall>vs. list_all2 (\<lambda>_. parsed) cs vs \<longrightarrow> Q vs s') \<and> E TypeError s'))"
  by (simp add: json_all_def wp_wait_for all_with_None all_with_Some json_of_Some)

text \<open>What a handler that satisfies its condition does in one uninterrupted run.\<close>

lemma wp_advance:
  assumes "wp W K m Q E s" and refl: "\<And>s. R s s"
    and K: "\<And>s s' s''. R s s' \<Longrightarrow> K s' s'' \<Longrightarrow> R s s''"
  shows "R s (fst (advance m s)) \<and> wp W K (snd (advance m s)) Q E (fst (advance m s))"
proof -
  have "R s0 (fst (advance m s)) \<and> wp W K (snd (advance m s)) Q E (fst (advance m s))"
    if "R s0 s" "wp W K m Q E s" for s0
    using that by (induction m arbitrary: s) (auto intro: K)
  from this [OF refl assms(1)] show ?thesis .
qed

lemma advance_final: "waits (snd (advance m s)) \<or> (\<exists>a. snd (advance m s) = Ret a) \<or> (\<exists>e. snd (advance m s) = Raise e)"
  by (induction m arbitrary: s) auto

end
