(* ===== verification/Portal_Fetch.thy ===== *)
theory Portal_Fetch
  imports JS_Async
begin

text \<open>
  What the panels of the portal share.  Every handler raises a loading flag, clears its result, tries a request and
  lowers the flag in a \<open>finally\<close>; a panel is a set of such handlers behind buttons that are disabled while their flag is
  up.  A panel runs as the browser runs it: clicks, edits of bound inputs and answers of the network arrive in any order, and
  between two \<open>await\<close>s a handler is not interrupted.  The locale \<open>panel\<close> states what one handler has to keep
  for the flags of the whole panel to be exact, whatever the order.
\<close>

section \<open>The gateway address\<close>

text \<open>\<open>lib/api.ts\<close>: \<open>import.meta.env.VITE_API_BASE_URL ?? ''\<close>\<close>

definition API_BASE :: "jsstr option \<Rightarrow> jsstr" where
  "API_BASE env = (case env of None \<Rightarrow> [] | Some s \<Rightarrow> s)"

section \<open>The shape of a handler\<close>

definition error_obj :: "jsstr \<Rightarrow> jsval" where
  "error_obj msg = Obj [(js ''error'', Str msg)]"

text \<open>\<open>loading = true; reset; try { body } catch { failed } finally { loading = false }\<close>\<close>

definition guarded :: "((bool \<Rightarrow> bool) \<Rightarrow> 's \<Rightarrow> 's) \<Rightarrow> ('s, unit) task \<Rightarrow> ('s, unit) task
    \<Rightarrow> ('s, unit) task \<Rightarrow> ('s, unit) task" where
  "guarded loading reset body failed = block
     [assign loading True, reset, try_finally (try_catch body (\<lambda>_. failed)) (assign loading False)]"

text \<open>\<open>const res = await fetch(url); if (res.ok) x = await res.json(); else x = { error: off };\<close>\<close>

definition load_into :: "((jsval \<Rightarrow> jsval) \<Rightarrow> 's \<Rightarrow> 's) \<Rightarrow> jsstr \<Rightarrow> jsstr \<Rightarrow> ('s, unit) task" where
  "load_into x url off = andthen_t (fetch (get_call url)) (\<lambda>res.
     if res_ok res then andthen_t (json res) (assign x) else assign x (error_obj off))"

text \<open>The whole handler of that kind, with the message \<open>down\<close> when nothing answers.\<close>

definition load_panel :: "((bool \<Rightarrow> bool) \<Rightarrow> 's \<Rightarrow> 's) \<Rightarrow> ((jsval \<Rightarrow> jsval) \<Rightarrow> 's \<Rightarrow> 's)
    \<Rightarrow> jsstr \<Rightarrow> jsstr \<Rightarrow> jsstr \<Rightarrow> ('s, unit) task" where
  "load_panel loading x url off down =
     guarded loading (assign x Null) (load_into x url off) (assign x (error_obj down))"

declare guarded_def [wp_rules] load_into_def [wp_rules] load_panel_def [wp_rules]

section \<open>A panel at run time\<close>

datatype ('h, 's) panel_event =
    Click 'h
  | Settle nat "settled list"
  | Edit "'s \<Rightarrow> 's"

type_synonym ('h, 's) panel_state = "'s \<times> ('h \<times> ('s, unit) task) list"

definition park :: "'h \<Rightarrow> 's \<times> ('s, unit) task \<Rightarrow> ('h \<times> ('s, unit) task) list" where
  "park h r = (if waits (snd r) then [(h, snd r)] else [])"

fun pstep :: "('h \<Rightarrow> ('s, unit) task) \<Rightarrow> ('h \<Rightarrow> 's \<Rightarrow> bool) \<Rightarrow> ('h, 's) panel_state
    \<Rightarrow> ('h, 's) panel_event \<Rightarrow> ('h, 's) panel_state" where
  "pstep run enabled (s, ps) (Click h) =
     (if enabled h s then let r = advance (run h) s in (fst r, ps @ park h r) else (s, ps))"
| "pstep run enabled (s, ps) (Settle i rs) =
     (if i < length ps then case ps ! i of
        (h, Await _ k) \<Rightarrow> let r = advance (k rs) s in (fst r, take i ps @ park h r @ drop (Suc i) ps)
      | _ \<Rightarrow> (s, ps)
      else (s, ps))"
| "pstep run enabled (s, ps) (Edit f) = (f s, ps)"

text \<open>Bound inputs are not flags.\<close>

fun polite :: "('f \<Rightarrow> 's \<Rightarrow> bool) \<Rightarrow> ('h, 's) panel_event \<Rightarrow> bool" where
  "polite busy (Edit f) = (\<forall>s b. busy b (f s) = busy b s)"
| "polite busy _ = True"

definition pending_flags :: "('h \<Rightarrow> 'f option) \<Rightarrow> ('h \<times> 't) list \<Rightarrow> 'f list" where
  "pending_flags flag ps = List.map_filter (\<lambda>p. flag (fst p)) ps"

lemma pending_flags_simps:
  "pending_flags flag [] = []"
  "pending_flags flag ((h, t) # ps) = (case flag h of None \<Rightarrow> [] | Some f \<Rightarrow> [f]) @ pending_flags flag ps"
  "pending_flags flag (ps @ qs) = pending_flags flag ps @ pending_flags flag qs"
  by (auto simp: pending_flags_def List.map_filter_def split: option.splits)

lemma set_map_filter: "set (List.map_filter g xs) = {y. \<exists>x \<in> set xs. g x = Some y}"
  by (force simp: List.map_filter_def)

text \<open>
  The flags of a panel are exact: in whatever order clicks, edits and answers come, a flag is up just while one
  handler that raised it is still waiting, and nothing is left that neither waits nor has ended.
\<close>

definition spinners_exact :: "('h \<Rightarrow> ('s, unit) task) \<Rightarrow> ('h \<Rightarrow> 's \<Rightarrow> bool) \<Rightarrow> ('h \<Rightarrow> 'f option)
    \<Rightarrow> ('f \<Rightarrow> 's \<Rightarrow> bool) \<Rightarrow> 's \<Rightarrow> bool" where
  "spinners_exact run enabled flag busy init \<longleftrightarrow>
     (\<forall>evs. list_all (polite busy) evs \<longrightarrow>
       (case foldl (pstep run enabled) (init, []) evs of (s, ps) \<Rightarrow>
          distinct (pending_flags flag ps) \<and> (\<forall>f. busy f s \<longleftrightarrow> f \<in> set (pending_flags flag ps))
          \<and> list_all (\<lambda>p. waits (snd p)) ps))"

section \<open>The contract of a handler\<close>

locale panel =
  fixes run :: "'h \<Rightarrow> ('s, unit) task"
    and enabled :: "'h \<Rightarrow> 's \<Rightarrow> bool"
    and flag :: "'h \<Rightarrow> 'f option"
    and busy :: "'f \<Rightarrow> 's \<Rightarrow> bool"
  assumes idle: "enabled h s \<Longrightarrow> flag h = Some f \<Longrightarrow> \<not> busy f s"
    and disciplined: "wp (\<lambda>s. \<forall>f. flag h = Some f \<longrightarrow> busy f s) (\<lambda>s s'. \<forall>g. flag h \<noteq> Some g \<longrightarrow> busy g s' = busy g s)
      (run h) (\<lambda>_ s. \<forall>f. flag h = Some f \<longrightarrow> \<not> busy f s) (\<lambda>_ _. False) s"
begin

definition sound_at :: "'h \<Rightarrow> ('s, unit) task \<Rightarrow> 's \<Rightarrow> bool" where
  "sound_at h t s \<longleftrightarrow> wp (\<lambda>s. \<forall>f. flag h = Some f \<longrightarrow> busy f s)
     (\<lambda>s s'. \<forall>g. flag h \<noteq> Some g \<longrightarrow> busy g s' = busy g s) t (\<lambda>_ s. \<forall>f. flag h = Some f \<longrightarrow> \<not> busy f s) (\<lambda>_ _. False) s"

definition inv :: "('h, 's) panel_state \<Rightarrow> bool" where
  "inv st \<longleftrightarrow> (case st of (s, ps) \<Rightarrow>
     list_all (\<lambda>(h, t). waits t \<and> sound_at h t s) ps \<and> distinct (pending_flags flag ps)
     \<and> (\<forall>f. busy f s \<longrightarrow> f \<in> set (pending_flags flag ps)))"

text \<open>Running a handler keeps the other flags; it then waits with its own flag up or has ended with the flag down.\<close>

lemma advance_sound:
  assumes "sound_at h t s" "advance t s = (s', t')"
  shows "\<And>g. flag h \<noteq> Some g \<Longrightarrow> busy g s' = busy g s"
    and "waits t' \<Longrightarrow> sound_at h t' s'"
    and "\<not> waits t' \<Longrightarrow> flag h = Some f \<Longrightarrow> \<not> busy f s'"
proof -
  let ?R = "\<lambda>s s'. \<forall>g. flag h \<noteq> Some g \<longrightarrow> busy g s' = busy g s"
  have "?R s (fst (advance t s)) \<and> sound_at h (snd (advance t s)) (fst (advance t s))"
    unfolding sound_at_def by (rule wp_advance [OF assms(1) [unfolded sound_at_def]]) auto
  then have *: "?R s s'" "sound_at h t' s'" by (simp_all add: assms(2))
  then show "\<And>g. flag h \<noteq> Some g \<Longrightarrow> busy g s' = busy g s" "waits t' \<Longrightarrow> sound_at h t' s'" by auto
  assume "\<not> waits t'" "flag h = Some f"
  with *(2) advance_final [of t s] assms(2) show "\<not> busy f s'"
    by (auto simp: sound_at_def)
qed

lemma sound_waiting:
  assumes "waits t" "sound_at h t s"
  shows "flag h = Some f \<Longrightarrow> busy f s"
    and "(\<And>f. flag h = Some f \<Longrightarrow> busy f s') \<Longrightarrow> sound_at h t s'"
  using assms by (cases t; auto simp: sound_at_def)+

lemma resume_inv:
  assumes ps: "list_all (\<lambda>(h, t). waits t \<and> sound_at h t s) (xs @ ys)"
    and dist: "distinct (pending_flags flag (xs @ (h, t0) # ys))"
    and busy: "\<And>f. busy f s \<Longrightarrow> f \<in> set (pending_flags flag (xs @ (h, t0) # ys))"
    and t: "sound_at h t s" and adv: "advance t s = (s', t')"
  shows "inv (s', xs @ park h (s', t') @ ys)"
proof -
  note sound = advance_sound [OF t adv]
  have other: "sound_at h' u s'" if "(h', u) \<in> set (xs @ ys)" for h' u
  proof -
    have u: "waits u" "sound_at h' u s" using ps that by (auto simp: list_all_iff)
    have "busy f s'" if f: "flag h' = Some f" for f
    proof -
      have "f \<in> set (pending_flags flag (xs @ ys))"
        using \<open>(h', u) \<in> set (xs @ ys)\<close> f by (force simp: pending_flags_def set_map_filter)
      then have "flag h \<noteq> Some f" using dist by (auto simp: pending_flags_simps)
      with sound(1) sound_waiting(1) [OF u f] show ?thesis by simp
    qed
    with sound_waiting(2) [OF u] show ?thesis by blast
  qed
  have "busy f s' \<Longrightarrow> f \<in> set (pending_flags flag (xs @ park h (s', t') @ ys))" for f
    using sound(1) [of f] sound(3) [of f] busy [of f]
    by (cases "flag h = Some f"; cases "waits t'") (auto simp: pending_flags_simps park_def split: option.splits)
  moreover have "distinct (pending_flags flag (xs @ park h (s', t') @ ys))"
    using dist by (auto simp: pending_flags_simps park_def split: option.splits)
  moreover have "list_all (\<lambda>(h, t). waits t \<and> sound_at h t s') (xs @ park h (s', t') @ ys)"
    using ps other sound(2) by (auto simp: list_all_iff park_def)
  ultimately show ?thesis by (simp add: inv_def)
qed

lemma inv_step:
  assumes "inv st" "polite busy e"
  shows "inv (pstep run enabled st e)"
proof -
  obtain s ps where st: "st = (s, ps)" by fastforce
  have inv: "list_all (\<lambda>(h, t). waits t \<and> sound_at h t s) ps" "distinct (pending_flags flag ps)"
    "\<And>f. busy f s \<Longrightarrow> f \<in> set (pending_flags flag ps)"
    using assms(1) by (auto simp: st inv_def)
  have up: "busy f s" if "f \<in> set (pending_flags flag ps)" for f
    using that inv(1) sound_waiting(1) by (fastforce simp: pending_flags_def set_map_filter list_all_iff)
  show ?thesis
  proof (cases e)
    case (Click h)
    show ?thesis
    proof (cases "enabled h s")
      case True
      obtain s' t' where adv: "advance (run h) s = (s', t')" by fastforce
      have "inv (s', ps @ park h (s', t') @ [])"
      proof (rule resume_inv [OF _ _ _ _ adv])
        show "distinct (pending_flags flag (ps @ (h, run h) # []))"
          using inv(2) up idle [OF True] by (auto simp: pending_flags_simps split: option.splits)
        show "sound_at h (run h) s" unfolding sound_at_def by (rule disciplined)
      qed (use inv in \<open>auto simp: pending_flags_simps\<close>)
      with True adv show ?thesis by (simp add: st Click)
    qed (use assms(1) in \<open>simp add: st Click\<close>)
  next
    case (Settle i rs)
    show ?thesis
    proof (cases "i < length ps")
      case True
      then obtain h t where i: "ps ! i = (h, t)" "(h, t) \<in> set ps" by (metis nth_mem surj_pair)
      then have t: "waits t" "sound_at h t s" using inv(1) by (auto simp: list_all_iff)
      then obtain qs k where k: "t = Await qs k" by (cases t) auto
      obtain s' t' where adv: "advance (k rs) s = (s', t')" by fastforce
      have split: "ps = take i ps @ (h, t) # drop (Suc i) ps"
        using id_take_nth_drop [OF True] i(1) by simp
      have "inv (s', take i ps @ park h (s', t') @ drop (Suc i) ps)"
      proof (rule resume_inv [OF _ _ _ _ adv])
        show "list_all (\<lambda>(h, t). waits t \<and> sound_at h t s) (take i ps @ drop (Suc i) ps)"
          using inv(1) by (subst (asm) split) simp
        show "distinct (pending_flags flag (take i ps @ (h, t) # drop (Suc i) ps))"
          "busy f s \<Longrightarrow> f \<in> set (pending_flags flag (take i ps @ (h, t) # drop (Suc i) ps))" for f
          unfolding split [symmetric] by (fact inv(2), fact inv(3))
        show "sound_at h (k rs) s" using t(2) by (auto simp: k sound_at_def)
      qed
      with True i adv show ?thesis by (simp add: st Settle k)
    qed (use assms(1) in \<open>simp add: st Settle\<close>)
  next
    case (Edit f)
    with assms(2) have same: "busy b (f s) = busy b s" for b by simp
    have "sound_at h t (f s)" if "(h, t) \<in> set ps" for h t
      using that inv(1) sound_waiting [of t h s] same by (fastforce simp: list_all_iff)
    with inv show ?thesis by (auto simp: st Edit inv_def same list_all_iff)
  qed
qed

theorem exact:
  assumes "\<And>f. \<not> busy f init"
  shows "spinners_exact run enabled flag busy init"
  unfolding spinners_exact_def
proof (intro allI impI)
  fix evs :: "('h, 's) panel_event list"
  assume "list_all (polite busy) evs"
  moreover have "inv (init, [])" by (simp add: inv_def pending_flags_def assms map_filter_simps)
  ultimately have inv: "inv (foldl (pstep run enabled) (init, []) evs)"
    by (induction evs rule: rev_induct) (auto intro: inv_step)
  obtain s ps where run: "foldl (pstep run enabled) (init, []) evs = (s, ps)" by fastforce
  with inv have I: "list_all (\<lambda>(h, t). waits t \<and> sound_at h t s) ps" "distinct (pending_flags flag ps)"
    "\<And>f. busy f s \<Longrightarrow> f \<in> set (pending_flags flag ps)" by (auto simp: inv_def)
  moreover have "busy f s" if "f \<in> set (pending_flags flag ps)" for f
    using that I(1) sound_waiting(1) by (fastforce simp: pending_flags_def set_map_filter list_all_iff)
  moreover have "list_all (\<lambda>p. waits (snd p)) ps" using I(1) by (auto simp: list_all_iff)
  ultimately show "case foldl (pstep run enabled) (init, []) evs of (s, ps) \<Rightarrow>
      distinct (pending_flags flag ps) \<and> (\<forall>f. busy f s \<longleftrightarrow> f \<in> set (pending_flags flag ps))
      \<and> list_all (\<lambda>p. waits (snd p)) ps"
    unfolding run by auto
qed

end

end
