(* ===== verification/Portal_Single.thy ===== *)
theory Portal_Single
  imports Portal_Fetch
begin

text \<open>
  Panels whose handlers make one request at a time: \<open>JuliaPanel\<close>, \<open>PythonBrainPanel\<close>, \<open>RPanel\<close>, \<open>FSharpPanel\<close>,
  \<open>WorkflowPanel\<close>, \<open>BSComparePanel\<close>, \<open>KotlinPanel\<close> and \<open>LuaCachePanel\<close>, with the functions their templates call.
  Each panel is a record of its reactive variables, a datatype of its handlers, and the flag each of them raises.
\<close>

section \<open>JuliaPanel\<close>

record julia =
  juliaResult :: jsval
  stressResult :: jsval
  juliaLoading :: bool
  stressLoading :: bool

definition julia_init :: julia where
  "julia_init = \<lparr>juliaResult = Null, stressResult = Null, juliaLoading = False, stressLoading = False\<rparr>"

definition runJulia :: "jsstr \<Rightarrow> (julia, unit) task" where
  "runJulia base = load_panel juliaLoading_update juliaResult_update
     (base @ js ''/api/julia/simulate?paths=10000&days=252&vol=0.20&mu=0.05'')
     (js ''Julia engine offline'') (js ''Julia engine unreachable'')"

definition runStress :: "jsstr \<Rightarrow> (julia, unit) task" where
  "runStress base = load_panel stressLoading_update stressResult_update
     (base @ js ''/api/julia/stress?paths=5000&days=252'')
     (js ''Julia engine offline'') (js ''Julia engine unreachable'')"

definition SCENARIO_COLORS :: "(jsstr \<times> jsstr) list" where
  "SCENARIO_COLORS = [(js ''Bull Market'', js ''#34d399''), (js ''Bear Market'', js ''#f87171''),
     (js ''Crash'', js ''#ef4444''), (js ''Flat/Low Vol'', js ''#94a3b8'')]"

datatype julia_op = RunJulia | RunStress

fun julia_run :: "jsstr \<Rightarrow> julia_op \<Rightarrow> (julia, unit) task" where
  "julia_run base RunJulia = runJulia base"
| "julia_run base RunStress = runStress base"

text \<open>Every handler of these panels has its own flag, so handlers name flags.\<close>

fun julia_busy :: "julia_op \<Rightarrow> julia \<Rightarrow> bool" where
  "julia_busy RunJulia s = juliaLoading s"
| "julia_busy RunStress s = stressLoading s"

lemma all_julia_op: "(\<forall>h. P h) \<longleftrightarrow> P RunJulia \<and> P RunStress"
  by (metis julia_op.exhaust)

interpretation julia: panel "julia_run base" "\<lambda>h s. \<not> julia_busy h s" Some julia_busy for base
  by (simp add: panel_def all_julia_op runJulia_def runStress_def wp_rules)

section \<open>PythonBrainPanel\<close>

record brain =
  brainData :: jsval
  brainLoading :: bool

definition brain_init :: brain where
  "brain_init = \<lparr>brainData = Null, brainLoading = False\<rparr>"

definition runBrain :: "jsstr \<Rightarrow> (brain, unit) task" where
  "runBrain base = load_panel brainLoading_update brainData_update (base @ js ''/api/analyze'')
     (js ''Python Brain '' @ [0xC624, 0xD504, 0xB77C, 0xC778]) (js ''Python Brain '' @ [0xC811, 0xC18D] @ js '' '' @ [0xBD88, 0xAC00] @ js '' (:8000)'')"

interpretation brain: panel "\<lambda>_. runBrain base" "\<lambda>_ s. \<not> brainLoading s" Some "\<lambda>_ :: unit. brainLoading" for base
  by (simp add: panel_def runBrain_def wp_rules)

section \<open>RPanel\<close>

record rstats =
  rFit :: jsval
  rCorr :: jsval
  rLoading :: bool
  corrLoading :: bool
  rGarch :: jsval
  garchLoading :: bool
  rArima :: jsval
  arimaLoading :: bool

definition rstats_init :: rstats where
  "rstats_init = \<lparr>rFit = Null, rCorr = Null, rLoading = False, corrLoading = False, rGarch = Null, garchLoading = False,
     rArima = Null, arimaLoading = False\<rparr>"

definition runRFit :: "jsstr \<Rightarrow> (rstats, unit) task" where
  "runRFit base = load_panel rLoading_update rFit_update (base @ js ''/api/r/fit?n=1000'')
     (js ''R engine offline'') (js ''R engine unreachable'')"

definition runRCorr :: "jsstr \<Rightarrow> (rstats, unit) task" where
  "runRCorr base = load_panel corrLoading_update rCorr_update (base @ js ''/api/r/correlation'')
     (js ''R engine offline'') (js ''R engine unreachable'')"

definition runRGarch :: "jsstr \<Rightarrow> (rstats, unit) task" where
  "runRGarch base = load_panel garchLoading_update rGarch_update
     (base @ js ''/api/r/garch?omega=0.00001&alpha=0.1&beta=0.85&n=500'')
     (js ''R GARCH offline'') (js ''R engine unreachable'')"

definition runRArima :: "jsstr \<Rightarrow> (rstats, unit) task" where
  "runRArima base = load_panel arimaLoading_update rArima_update
     (base @ js ''/api/r/arima?n=200&order_p=1&order_d=0&order_q=1'')
     (js ''R ARIMA offline'') (js ''R engine unreachable'')"

datatype rstats_op = RunRFit | RunRCorr | RunRGarch | RunRArima

fun rstats_run :: "jsstr \<Rightarrow> rstats_op \<Rightarrow> (rstats, unit) task" where
  "rstats_run base RunRFit = runRFit base"
| "rstats_run base RunRCorr = runRCorr base"
| "rstats_run base RunRGarch = runRGarch base"
| "rstats_run base RunRArima = runRArima base"

fun rstats_busy :: "rstats_op \<Rightarrow> rstats \<Rightarrow> bool" where
  "rstats_busy RunRFit s = rLoading s"
| "rstats_busy RunRCorr s = corrLoading s"
| "rstats_busy RunRGarch s = garchLoading s"
| "rstats_busy RunRArima s = arimaLoading s"

lemma all_rstats_op: "(\<forall>h. P h) \<longleftrightarrow> P RunRFit \<and> P RunRCorr \<and> P RunRGarch \<and> P RunRArima"
  by (metis rstats_op.exhaust)

interpretation rstats: panel "rstats_run base" "\<lambda>h s. \<not> rstats_busy h s" Some rstats_busy for base
  by (simp add: panel_def all_rstats_op runRFit_def runRCorr_def runRGarch_def runRArima_def wp_rules)

section \<open>FSharpPanel\<close>

text \<open>Four tabs, one flag: the run button starts the handler of the active tab.\<close>

datatype fsharp_tab = TabOption | TabIv | TabSmile | TabDcf

record fsharp =
  activeTab :: fsharp_tab
  fsharpOption :: jsval
  fsharpIV :: jsval
  fsharpSmile :: jsval
  fsharpDCF :: jsval
  fsharpLoading :: bool

definition fsharp_init :: fsharp where
  "fsharp_init = \<lparr>activeTab = TabOption, fsharpOption = Null, fsharpIV = Null, fsharpSmile = Null, fsharpDCF = Null,
     fsharpLoading = False\<rparr>"

definition runFsharpOption :: "jsstr \<Rightarrow> (fsharp, unit) task" where
  "runFsharpOption base = load_panel fsharpLoading_update fsharpOption_update
     (base @ js ''/api/fsharp/option?s=100&k=100&r=0.05&sigma=0.20&t=1.0'')
     (js ''F# pricer offline'') (js ''F# pricer unreachable'')"

definition runFsharpIV :: "jsstr \<Rightarrow> (fsharp, unit) task" where
  "runFsharpIV base = load_panel fsharpLoading_update fsharpIV_update
     (base @ js ''/api/fsharp/iv?market_price=10.45&s=100&k=100&r=0.05&t=1.0&type=call'')
     (js ''F# pricer offline'') (js ''F# pricer unreachable'')"

definition runFsharpSmile :: "jsstr \<Rightarrow> (fsharp, unit) task" where
  "runFsharpSmile base = load_panel fsharpLoading_update fsharpSmile_update
     (base @ js ''/api/fsharp/smile?s=100&r=0.05&t=1.0&k_min=80&k_max=120&steps=9&atm_vol=0.20&skew=-0.05&curvature=0.10&type=call'')
     (js ''F# pricer offline'') (js ''F# pricer unreachable'')"

definition runFsharpDCF :: "jsstr \<Rightarrow> (fsharp, unit) task" where
  "runFsharpDCF base = load_panel fsharpLoading_update fsharpDCF_update (base @ js ''/api/fsharp/dcf'')
     (js ''F# pricer offline'') (js ''F# pricer unreachable'')"

fun TABS_run :: "jsstr \<Rightarrow> fsharp_tab \<Rightarrow> (fsharp, unit) task" where
  "TABS_run base TabOption = runFsharpOption base"
| "TABS_run base TabIv = runFsharpIV base"
| "TABS_run base TabSmile = runFsharpSmile base"
| "TABS_run base TabDcf = runFsharpDCF base"

definition switchTab :: "fsharp_tab \<Rightarrow> fsharp \<Rightarrow> fsharp" where
  "switchTab t s = s\<lparr>activeTab := t\<rparr>"

lemma all_fsharp_tab: "(\<forall>h. P h) \<longleftrightarrow> P TabOption \<and> P TabIv \<and> P TabSmile \<and> P TabDcf"
  by (metis fsharp_tab.exhaust)

interpretation fsharp: panel "TABS_run base" "\<lambda>h s. activeTab s = h \<and> \<not> fsharpLoading s" "\<lambda>_. Some ()"
    "\<lambda>_. fsharpLoading" for base
  by (simp add: panel_def all_fsharp_tab runFsharpOption_def runFsharpIV_def runFsharpSmile_def runFsharpDCF_def wp_rules)

section \<open>WorkflowPanel\<close>

record workflow =
  riskResult :: jsval
  circuitResult :: jsval
  wf_riskLoading :: bool
  circuitLoading :: bool

definition workflow_init :: workflow where
  "workflow_init = \<lparr>riskResult = Null, circuitResult = Null, wf_riskLoading = False, circuitLoading = False\<rparr>"

definition runRiskFull :: "jsstr \<Rightarrow> (workflow, unit) task" where
  "runRiskFull base = load_panel wf_riskLoading_update riskResult_update (base @ js ''/api/workflow/risk-full'')
     (js ''Go '' @ [0xC6CC, 0xD06C, 0xD50C, 0xB85C] @ js '' '' @ [0xC624, 0xD504, 0xB77C, 0xC778]) (js ''Go '' @ [0xAC8C, 0xC774, 0xD2B8, 0xC6E8, 0xC774] @ js '' '' @ [0xC811, 0xC18D] @ js '' '' @ [0xBD88, 0xAC00] @ js '' (:8080)'')"

definition fetchCircuit :: "jsstr \<Rightarrow> (workflow, unit) task" where
  "fetchCircuit base = load_panel circuitLoading_update circuitResult_update (base @ js ''/api/circuit/status'')
     ([0xC11C, 0xD0B7] @ js '' '' @ [0xBE0C, 0xB808, 0xC774, 0xCEE4] @ js '' '' @ [0xC870, 0xD68C] @ js '' '' @ [0xC2E4, 0xD328]) (js ''Go '' @ [0xAC8C, 0xC774, 0xD2B8, 0xC6E8, 0xC774] @ js '' '' @ [0xC811, 0xC18D] @ js '' '' @ [0xBD88, 0xAC00] @ js '' (:8080)'')"

definition cbClass :: "jsstr \<Rightarrow> jsstr" where
  "cbClass st = (if st = js ''closed'' then js ''cb-closed'' else if st = js ''open'' then js ''cb-open'' else js ''cb-half'')"

definition cbLabel :: "jsstr \<Rightarrow> jsstr" where
  "cbLabel st = (if st = js ''closed'' then ([0x2713] @ js '' '' @ [0xC815, 0xC0C1]) else if st = js ''open'' then ([0x2715] @ js '' '' @ [0xCC28, 0xB2E8]) else (js ''~ '' @ [0xBCF5, 0xAD6C, 0xC911]))"

definition stepClass :: "jsval \<Rightarrow> jsstr" where
  "stepClass st = (if get_opt st (js ''status'') = Str (js ''ok'') then js ''step-ok'' else js ''step-err'')"

definition stepIcon :: "jsval \<Rightarrow> jsstr" where
  "stepIcon st = (if get_opt st (js ''status'') = Str (js ''ok'') then [0x2713] else [0x2715])"

datatype workflow_op = RunRiskFull | FetchCircuit

fun workflow_run :: "jsstr \<Rightarrow> workflow_op \<Rightarrow> (workflow, unit) task" where
  "workflow_run base RunRiskFull = runRiskFull base"
| "workflow_run base FetchCircuit = fetchCircuit base"

fun workflow_busy :: "workflow_op \<Rightarrow> workflow \<Rightarrow> bool" where
  "workflow_busy RunRiskFull s = wf_riskLoading s"
| "workflow_busy FetchCircuit s = circuitLoading s"

lemma all_workflow_op: "(\<forall>h. P h) \<longleftrightarrow> P RunRiskFull \<and> P FetchCircuit"
  by (metis workflow_op.exhaust)

interpretation workflow: panel "workflow_run base" "\<lambda>h s. \<not> workflow_busy h s" Some workflow_busy for base
  by (simp add: panel_def all_workflow_op runRiskFull_def fetchCircuit_def wp_rules)

section \<open>BSComparePanel\<close>

record compare =
  cmp_result :: jsval
  cmp_loading :: bool
  cmp_S :: jsval
  cmp_K :: jsval
  cmp_Sigma :: jsval
  cmp_T :: jsval
  cmp_R :: jsval

definition compare_init :: compare where
  "compare_init = \<lparr>cmp_result = Null, cmp_loading = False, cmp_S = jsn 100, cmp_K = jsn 100, cmp_Sigma = Num (lit 2 1),
     cmp_T = jsn 1, cmp_R = Num (lit 5 2)\<rparr>"

definition compare_url :: "jsstr \<Rightarrow> compare \<Rightarrow> jsstr" where
  "compare_url base s = base @ js ''/api/workflow/option-compare?s='' @ prim_str (cmp_S s) @ js ''&k='' @ prim_str (cmp_K s)
     @ js ''&sigma='' @ prim_str (cmp_Sigma s) @ js ''&t='' @ prim_str (cmp_T s) @ js ''&r='' @ prim_str (cmp_R s)"

definition runCompare :: "jsstr \<Rightarrow> (compare, unit) task" where
  "runCompare base = guarded cmp_loading_update (assign cmp_result_update Null)
     (Look (\<lambda>s. load_into cmp_result_update (compare_url base s) (js ''Go '' @ [0xC6CC, 0xD06C, 0xD50C, 0xB85C] @ js '' '' @ [0xC624, 0xD504, 0xB77C, 0xC778])))
     (assign cmp_result_update (error_obj (js ''Go '' @ [0xAC8C, 0xC774, 0xD2B8, 0xC6E8, 0xC774] @ js '' '' @ [0xC811, 0xC18D] @ js '' '' @ [0xBD88, 0xAC00] @ js '' (:8080)'')))"

interpretation compare: panel "\<lambda>_. runCompare base" "\<lambda>_ s. \<not> cmp_loading s" Some "\<lambda>_ :: unit. cmp_loading" for base
  by (simp add: panel_def runCompare_def wp_rules)

text \<open>The dash shown for a missing value, and \<open>d.a ?? d.b ?? ... ?? dash\<close> on the data of an engine.\<close>

definition dash :: jsval where
  "dash = Str [0x2014]"

definition first_of :: "jsval \<Rightarrow> string list \<Rightarrow> jsval" where
  "first_of eng ks = (let d = get_opt eng (js ''data'') in
     if \<not> truthy d then dash else foldr (\<lambda>k. coalesce (get_opt d (js k))) ks dash)"

definition callVal :: "jsval \<Rightarrow> jsval" where
  "callVal eng = first_of eng [''call'', ''call_price'', ''risk_score'']"

definition putVal :: "jsval \<Rightarrow> jsval" where
  "putVal eng = first_of eng [''put'', ''put_price'']"

definition deltaVal :: "jsval \<Rightarrow> jsval" where
  "deltaVal eng = first_of eng [''delta'', ''call_delta'']"

definition gammaVal :: "jsval \<Rightarrow> jsval" where
  "gammaVal eng = first_of eng [''gamma'']"

definition statusClass :: "jsval \<Rightarrow> jsstr" where
  "statusClass eng = (if \<not> truthy eng then js ''status-unknown''
     else if get_opt eng (js ''status'') = Str (js ''ok'') then js ''status-ok'' else js ''status-err'')"

section \<open>KotlinPanel\<close>

record kotlin =
  reports :: jsval
  generating :: bool
  genMsg :: jsval
  expanded :: jsval

definition kotlin_init :: kotlin where
  "kotlin_init = \<lparr>reports = Null, generating = False, genMsg = Null, expanded = Null\<rparr>"

definition fetchReports :: "jsstr \<Rightarrow> (kotlin, unit) task" where
  "fetchReports base = try_catch
     (andthen_t (fetch (get_call (base @ js ''/api/reports/latest''))) (\<lambda>res.
        if res_ok res then andthen_t (json res) (assign reports_update) else assign reports_update (Arr [])))
     (\<lambda>_. assign reports_update Null)"

definition generateNow :: "jsstr \<Rightarrow> (kotlin, unit) task" where
  "generateNow base = guarded generating_update (assign genMsg_update Null)
     (andthen_t (fetch (get_call (base @ js ''/api/reports/now''))) (\<lambda>res.
        if res_ok res then block [assign genMsg_update (Str ([0xB9AC, 0xD3EC, 0xD2B8] @ js '' '' @ [0xC989, 0xC2DC] @ js '' '' @ [0xC0DD, 0xC131] @ js '' '' @ [0xC644, 0xB8CC])), fetchReports base]
        else assign genMsg_update (Str ([0xC0DD, 0xC131] @ js '' '' @ [0xC2E4, 0xD328]))))
     (assign genMsg_update (Str (js ''Kotlin '' @ [0xC11C, 0xBC84] @ js '' '' @ [0xC811, 0xC18D] @ js '' '' @ [0xBD88, 0xAC00] @ js '' (:9000)'')))"

text \<open>The heading of a report opens it, or closes it when it is open.\<close>

definition toggle_expanded :: "jsval \<Rightarrow> kotlin \<Rightarrow> kotlin" where
  "toggle_expanded r_id s = s\<lparr>expanded := (if strict_eq (expanded s) r_id then Null else r_id)\<rparr>"

datatype kotlin_op = FetchReports | GenerateNow

fun kotlin_run :: "jsstr \<Rightarrow> kotlin_op \<Rightarrow> (kotlin, unit) task" where
  "kotlin_run base FetchReports = fetchReports base"
| "kotlin_run base GenerateNow = generateNow base"

fun kotlin_flag :: "kotlin_op \<Rightarrow> unit option" where
  "kotlin_flag FetchReports = None"
| "kotlin_flag GenerateNow = Some ()"

fun kotlin_enabled :: "kotlin_op \<Rightarrow> kotlin \<Rightarrow> bool" where
  "kotlin_enabled FetchReports s = True"
| "kotlin_enabled GenerateNow s = (\<not> generating s)"

lemma all_kotlin_op: "(\<forall>h. P h) \<longleftrightarrow> P FetchReports \<and> P GenerateNow"
  by (metis kotlin_op.exhaust)

interpretation kotlin: panel "kotlin_run base" kotlin_enabled kotlin_flag "\<lambda>_. generating" for base
  by (simp add: panel_def all_kotlin_op fetchReports_def generateNow_def wp_rules)

text \<open>Position of a score on the bar of a report, in percent.\<close>

definition pct :: "jsnum \<Rightarrow> jsnum \<Rightarrow> jsnum \<Rightarrow> jsnum" where
  "pct value lo hi = (if num_eq hi lo then jsnat 50
     else js_round (js_mul (js_div (js_sub value lo) (js_sub hi lo)) (jsnat 100)))"

section \<open>LuaCachePanel\<close>

record lua_cache = cacheStats :: jsval

definition fetchCacheStats :: "jsstr \<Rightarrow> (lua_cache, unit) task" where
  "fetchCacheStats base = try_catch
     (andthen_t (fetch (get_call (base @ js ''/api/cache/stats''))) (\<lambda>res.
        if res_ok res then andthen_t (json res) (assign cacheStats_update) else Ret ()))
     (\<lambda>_. assign cacheStats_update Null)"

end
