(* ===== verification/Portal_Combined.thy ===== *)
theory Portal_Combined
  imports Portal_Fetch
begin

text \<open>
  Panels that start several requests together and combine the answers when all are good: \<open>CrystalPanel\<close>, \<open>DartPanel\<close>,
  \<open>HaskellPanel\<close>, \<open>NimPanel\<close>, \<open>OCamlPanel\<close>, \<open>ScalaPanel\<close>, \<open>RustPipelinePanel\<close> and \<open>RubyPanel\<close>.  A slider holds a
  number; a number field holds a number, or \<open>null\<close> when it is empty.
\<close>

text \<open>Reading members \<open>v.p\<close> into properties \<open>k\<close> of a literal: throws for \<open>null\<close> and \<open>undefined\<close>.\<close>

definition pick :: "jsval \<Rightarrow> (string \<times> string) list \<Rightarrow> (jsstr \<times> jsval) list result" where
  "pick v kps = (if nullish v \<and> kps \<noteq> [] then Inl TypeError
     else Inr (map (\<lambda>(k, p). (js k, get_opt v (js p))) kps))"

section \<open>CrystalPanel\<close>

record crystal =
  crystalData :: jsval
  crystalLoading :: bool
  crystalStats :: jsval
  statsLoading :: bool

definition crystal_init :: crystal where
  "crystal_init = \<lparr>crystalData = Null, crystalLoading = False, crystalStats = Null, statsLoading = False\<rparr>"

definition runCrystal :: "jsstr \<Rightarrow> (crystal, unit) task" where
  "runCrystal base = guarded crystalLoading_update (assign crystalData_update Null)
     (andthen_t (fetch_all
        [get_call (base @ js ''/api/crystal/portfolio?mu=0.12&sigma=0.18&days=252''),
         get_call (base @ js ''/api/crystal/fx''), get_call (base @ js ''/api/crystal/concurrent'')]) (\<lambda>rs. case rs of
        [pfRes, fxRes, concRes] \<Rightarrow>
          if res_ok pfRes \<and> res_ok fxRes then
            andthen_t (json pfRes) (\<lambda>pf. andthen_t (json fxRes) (\<lambda>fx.
            andthen_t (if res_ok concRes then json concRes else Ret Null) (\<lambda>conc.
              assign crystalData_update (with_props pf [(js ''fx'', fx), (js ''conc'', conc)]))))
          else assign crystalData_update (error_obj (js ''Crystal '' @ [0xAC8C, 0xC774, 0xD2B8, 0xC6E8, 0xC774] @ js '' '' @ [0xC624, 0xD504, 0xB77C, 0xC778]))
      | _ \<Rightarrow> Raise TypeError))
     (assign crystalData_update (error_obj (js ''Crystal '' @ [0xC11C, 0xBC84] @ js '' '' @ [0xC811, 0xC18D] @ js '' '' @ [0xBD88, 0xAC00] @ js '' (:9002)'')))"

definition runCrystalStats :: "jsstr \<Rightarrow> (crystal, unit) task" where
  "runCrystalStats base = load_panel statsLoading_update crystalStats_update (base @ js ''/api/crystal/stats'')
     (js ''Crystal stats offline'') (js ''Crystal '' @ [0xC11C, 0xBC84] @ js '' '' @ [0xC811, 0xC18D] @ js '' '' @ [0xBD88, 0xAC00] @ js '' (:9002)'')"

datatype crystal_op = RunCrystal | RunCrystalStats

fun crystal_run :: "jsstr \<Rightarrow> crystal_op \<Rightarrow> (crystal, unit) task" where
  "crystal_run base RunCrystal = runCrystal base"
| "crystal_run base RunCrystalStats = runCrystalStats base"

fun crystal_busy :: "crystal_op \<Rightarrow> crystal \<Rightarrow> bool" where
  "crystal_busy RunCrystal s = crystalLoading s"
| "crystal_busy RunCrystalStats s = statsLoading s"

lemma all_crystal_op: "(\<forall>h. P h) \<longleftrightarrow> P RunCrystal \<and> P RunCrystalStats"
  by (metis crystal_op.exhaust)

interpretation crystal: panel "crystal_run base" "\<lambda>h s. \<not> crystal_busy h s" Some crystal_busy for base
  by (simp add: panel_def all_crystal_op runCrystal_def runCrystalStats_def wp_rules)

section \<open>DartPanel\<close>

record dart =
  dartData :: jsval
  dartLoading :: bool
  scenarios :: jsval
  scenarioLoading :: bool
  bondYears :: jsval
  bondCoupon :: jsval

definition dart_init :: dart where
  "dart_init = \<lparr>dartData = Null, dartLoading = False, scenarios = Null, scenarioLoading = False, bondYears = jsn 10,
     bondCoupon = Num (lit 5 2)\<rparr>"

text \<open>The object assembled from the bond and the yield curve; \<open>yc.yields[i]\<close> throws when there are no yields.\<close>

definition dart_data :: "jsval \<Rightarrow> jsval \<Rightarrow> jsval result" where
  "dart_data bond yc = bindr (pick yc [(''spread_10y_2y'', ''spread_10y_2y''), (''curve_shape'', ''curve_shape'')]) (\<lambda>kvs.
     bindr (bindr (get_prop yc (js ''yields'')) (\<lambda>ys. get_index ys 3)) (\<lambda>y2.
     bindr (bindr (get_prop yc (js ''yields'')) (\<lambda>ys. get_index ys 7)) (\<lambda>y10.
       Inr (with_props bond (kvs @ [(js ''y2y'', y2), (js ''y10y'', y10)])))))"

definition runDart :: "jsstr \<Rightarrow> (dart, unit) task" where
  "runDart base = guarded dartLoading_update (assign dartData_update Null)
     (andthen_t (fetch_all
        [get_call (base @ js ''/api/dart/bond?face=1000&coupon=0.05&ytm=0.06&years=10''),
         get_call (base @ js ''/api/dart/yieldcurve'')]) (\<lambda>rs. case rs of
        [bondRes, ycRes] \<Rightarrow>
          if res_ok bondRes \<and> res_ok ycRes then
            andthen_t (json bondRes) (\<lambda>bond. andthen_t (json ycRes) (\<lambda>yc.
            andthen_t (lift_result (dart_data bond yc)) (assign dartData_update)))
          else assign dartData_update (error_obj (js ''Dart '' @ [0xC5D4, 0xC9C4] @ js '' '' @ [0xC624, 0xD504, 0xB77C, 0xC778]))
      | _ \<Rightarrow> Raise TypeError))
     (assign dartData_update (error_obj (js ''Dart '' @ [0xC11C, 0xBC84] @ js '' '' @ [0xC811, 0xC18D] @ js '' '' @ [0xBD88, 0xAC00] @ js '' (:9005)'')))"

definition ytmList :: "jsnum list" where
  "ytmList = [lit 3 2, lit 6 2, lit 1 1]"

definition scenario_labels :: "jsstr list" where
  "scenario_labels = [js ''Bull (YTM 3%)'', js ''Base (YTM 6%)'', js ''Bear (YTM 10%)'']"

definition runScenarios :: "jsstr \<Rightarrow> (dart, unit) task" where
  "runScenarios base = guarded scenarioLoading_update (assign scenarios_update Null)
     (Look (\<lambda>s. andthen_t (json_all (map (\<lambda>ytm. get_call (base @ js ''/api/dart/bond?face=1000&coupon='' @ prim_str (bondCoupon s)
          @ js ''&ytm='' @ num_str ytm @ js ''&years='' @ prim_str (bondYears s))) ytmList)) (\<lambda>results.
        assign scenarios_update (Arr (map2 (\<lambda>r label. with_props r [(js ''label'', Str label)]) results scenario_labels)))))
     (assign scenarios_update (Arr [error_obj (js ''Dart '' @ [0xC11C, 0xBC84] @ js '' '' @ [0xC811, 0xC18D] @ js '' '' @ [0xBD88, 0xAC00] @ js '' (:9005)'')]))"

datatype dart_op = RunDart | RunScenarios

fun dart_run :: "jsstr \<Rightarrow> dart_op \<Rightarrow> (dart, unit) task" where
  "dart_run base RunDart = runDart base"
| "dart_run base RunScenarios = runScenarios base"

fun dart_busy :: "dart_op \<Rightarrow> dart \<Rightarrow> bool" where
  "dart_busy RunDart s = dartLoading s"
| "dart_busy RunScenarios s = scenarioLoading s"

lemma all_dart_op: "(\<forall>h. P h) \<longleftrightarrow> P RunDart \<and> P RunScenarios"
  by (metis dart_op.exhaust)

interpretation dart: panel "dart_run base" "\<lambda>h s. \<not> dart_busy h s" Some dart_busy for base
  by (simp add: panel_def all_dart_op runDart_def runScenarios_def wp_rules split: sum.split)

section \<open>HaskellPanel\<close>

record haskell =
  haskellData :: jsval
  haskellLoading :: bool
  hs_S :: jsnum
  hs_K :: jsnum
  hs_R :: jsnum
  hs_Sigma :: jsnum
  hs_T :: jsnum
  mcN :: jsnum

definition haskell_init :: haskell where
  "haskell_init = \<lparr>haskellData = Null, haskellLoading = False, hs_S = jsnat 100, hs_K = jsnat 100, hs_R = lit 5 2,
     hs_Sigma = lit 2 1, hs_T = jsnat 1, mcN = jsnat 500\<rparr>"

definition haskell_urls :: "jsstr \<Rightarrow> haskell \<Rightarrow> jsstr list" where
  "haskell_urls base s = (let mu = num_str (js_add (hs_R s) (lit 3 2)) in
     [base @ js ''/api/haskell/blackscholes?s='' @ num_str (hs_S s) @ js ''&k='' @ num_str (hs_K s) @ js ''&r='' @ num_str (hs_R s)
        @ js ''&sigma='' @ num_str (hs_Sigma s) @ js ''&t='' @ num_str (hs_T s),
      base @ js ''/api/haskell/montecarlo?s='' @ num_str (hs_S s) @ js ''&vol='' @ num_str (hs_Sigma s) @ js ''&mu='' @ mu
        @ js ''&n='' @ num_str (mcN s) @ js ''&days=252'',
      base @ js ''/api/haskell/stream?s='' @ num_str (hs_S s) @ js ''&mu='' @ mu @ js ''&sigma='' @ num_str (hs_Sigma s)
        @ js ''&n=60&seed=42''])"

definition haskell_data :: "jsval \<Rightarrow> jsval \<Rightarrow> jsval \<Rightarrow> jsval result" where
  "haskell_data bs mc stream =
     bindr (pick mc [(''mc_annualized_return'', ''annualized_return''), (''mc_annualized_vol'', ''annualized_vol''),
        (''mc_var95'', ''var_95''), (''mc_cvar95'', ''cvar_95''), (''mc_avg_final'', ''avg_final_price'')]) (\<lambda>kvs1.
     bindr (pick stream [(''stream_prices'', ''prices''), (''stream_ewma_vol'', ''ewma_vol''), (''stream_drawdowns'', ''drawdowns''),
        (''stream_final'', ''final_price''), (''stream_sharpe'', ''sharpe_ratio''), (''stream_mdd'', ''max_drawdown''),
        (''stream_n'', ''n'')]) (\<lambda>kvs2.
       Inr (with_props bs (kvs1 @ kvs2))))"

definition runHaskell :: "jsstr \<Rightarrow> (haskell, unit) task" where
  "runHaskell base = guarded haskellLoading_update (assign haskellData_update Null)
     (Look (\<lambda>s. andthen_t (fetch_all (map get_call (haskell_urls base s))) (\<lambda>rs. case rs of
        [bsRes, mcRes, streamRes] \<Rightarrow>
          if res_ok bsRes \<and> res_ok mcRes \<and> res_ok streamRes then
            andthen_t (json bsRes) (\<lambda>bs. andthen_t (json mcRes) (\<lambda>mc. andthen_t (json streamRes) (\<lambda>stream.
            andthen_t (lift_result (haskell_data bs mc stream)) (assign haskellData_update))))
          else assign haskellData_update (error_obj (js ''Haskell '' @ [0xD504, 0xB77C, 0xC774, 0xC11C] @ js '' '' @ [0xC624, 0xD504, 0xB77C, 0xC778]))
      | _ \<Rightarrow> Raise TypeError)))
     (assign haskellData_update (error_obj (js ''Haskell '' @ [0xC11C, 0xBC84] @ js '' '' @ [0xC811, 0xC18D] @ js '' '' @ [0xBD88, 0xAC00] @ js '' (:8006)'')))"

interpretation haskell: panel "\<lambda>_. runHaskell base" "\<lambda>_ s. \<not> haskellLoading s" Some "\<lambda>_ :: unit. haskellLoading" for base
  by (simp add: panel_def runHaskell_def haskell_urls_def Let_def wp_rules split: sum.split)

section \<open>NimPanel\<close>

record nim =
  nimData :: jsval
  nimLoading :: bool
  nimGarch :: jsval
  nimGarchLoading :: bool
  nimForecast :: jsval
  nimForecastLoading :: bool

definition nim_init :: nim where
  "nim_init = \<lparr>nimData = Null, nimLoading = False, nimGarch = Null, nimGarchLoading = False, nimForecast = Null,
     nimForecastLoading = False\<rparr>"

definition nim_data :: "jsval \<Rightarrow> jsval \<Rightarrow> jsval \<Rightarrow> jsval result" where
  "nim_data ts mom ind =
     bindr (pick mom [(''rsi_14'', ''rsi_14''), (''macd'', ''macd''), (''bb_width'', ''bb_width''), (''bb_position'', ''bb_position'')]) (\<lambda>kvs1.
     bindr (pick ind [(''precomputed_alpha_periods'', ''precomputed_ema_periods''), (''runtime_divisions'', ''runtime_divisions'')]) (\<lambda>kvs2.
       Inr (with_props ts (kvs1 @ kvs2))))"

definition runNim :: "jsstr \<Rightarrow> (nim, unit) task" where
  "runNim base = guarded nimLoading_update (assign nimData_update Null)
     (andthen_t (fetch_all
        [get_call (base @ js ''/api/nim/timeseries?mu=0.10&sigma=0.20&n=252''),
         get_call (base @ js ''/api/nim/momentum?mu=0.10&sigma=0.20&n=252''),
         get_call (base @ js ''/api/nim/indicators'')]) (\<lambda>rs. case rs of
        [tsRes, momRes, indRes] \<Rightarrow>
          if res_ok tsRes \<and> res_ok momRes \<and> res_ok indRes then
            andthen_t (json tsRes) (\<lambda>ts. andthen_t (json momRes) (\<lambda>mom. andthen_t (json indRes) (\<lambda>ind.
            andthen_t (lift_result (nim_data ts mom ind)) (assign nimData_update))))
          else assign nimData_update (error_obj (js ''Nim '' @ [0xC5D4, 0xC9C4] @ js '' '' @ [0xC624, 0xD504, 0xB77C, 0xC778]))
      | _ \<Rightarrow> Raise TypeError))
     (assign nimData_update (error_obj (js ''Nim '' @ [0xC11C, 0xBC84] @ js '' '' @ [0xC811, 0xC18D] @ js '' '' @ [0xBD88, 0xAC00] @ js '' (:8005)'')))"

definition runNimGarch :: "jsstr \<Rightarrow> (nim, unit) task" where
  "runNimGarch base = load_panel nimGarchLoading_update nimGarch_update
     (base @ js ''/api/nim/garch?omega=0.00001&alpha=0.1&beta=0.85&n=500'')
     (js ''Nim GARCH offline'') (js ''Nim '' @ [0xC11C, 0xBC84] @ js '' '' @ [0xC811, 0xC18D] @ js '' '' @ [0xBD88, 0xAC00] @ js '' (:8005)'')"

definition runNimForecast :: "jsstr \<Rightarrow> (nim, unit) task" where
  "runNimForecast base = load_panel nimForecastLoading_update nimForecast_update
     (base @ js ''/api/nim/forecast?mu=0.10&sigma=0.20&n=100&p=2'')
     (js ''Nim forecast offline'') (js ''Nim '' @ [0xC11C, 0xBC84] @ js '' '' @ [0xC811, 0xC18D] @ js '' '' @ [0xBD88, 0xAC00] @ js '' (:8005)'')"

datatype nim_op = RunNim | RunNimGarch | RunNimForecast

fun nim_run :: "jsstr \<Rightarrow> nim_op \<Rightarrow> (nim, unit) task" where
  "nim_run base RunNim = runNim base"
| "nim_run base RunNimGarch = runNimGarch base"
| "nim_run base RunNimForecast = runNimForecast base"

fun nim_busy :: "nim_op \<Rightarrow> nim \<Rightarrow> bool" where
  "nim_busy RunNim s = nimLoading s"
| "nim_busy RunNimGarch s = nimGarchLoading s"
| "nim_busy RunNimForecast s = nimForecastLoading s"

lemma all_nim_op: "(\<forall>h. P h) \<longleftrightarrow> P RunNim \<and> P RunNimGarch \<and> P RunNimForecast"
  by (metis nim_op.exhaust)

interpretation nim: panel "nim_run base" "\<lambda>h s. \<not> nim_busy h s" Some nim_busy for base
  by (simp add: panel_def all_nim_op runNim_def runNimGarch_def runNimForecast_def wp_rules split: sum.split)

section \<open>OCamlPanel\<close>

record ocaml =
  ocamlRisk :: jsval
  ocamlLoading :: bool
  scoreData :: jsval
  scoreLoading :: bool
  income :: jsval
  debt :: jsval
  historyYears :: jsval
  missedPayments :: jsval
  oc_portfolioData :: jsval
  oc_portfolioLoading :: bool

definition ocaml_init :: ocaml where
  "ocaml_init = \<lparr>ocamlRisk = Null, ocamlLoading = False, scoreData = Null, scoreLoading = False, income = jsn 5000000,
     debt = jsn 2000000, historyYears = jsn 3, missedPayments = jsn 1, oc_portfolioData = Null, oc_portfolioLoading = False\<rparr>"

definition ocaml_data :: "jsval \<Rightarrow> jsval \<Rightarrow> jsval result" where
  "ocaml_data risk score =
     bindr (pick score [(''credit_grade'', ''grade''), (''credit_score_model'', ''score''), (''prob_good'', ''prob_good'')])
       (\<lambda>kvs. Inr (with_props risk kvs))"

definition runOcamlRisk :: "jsstr \<Rightarrow> (ocaml, unit) task" where
  "runOcamlRisk base = guarded ocamlLoading_update (assign ocamlRisk_update Null)
     (andthen_t (fetch_all
        [get_call (base @ js ''/api/ocaml/risk?debt_ratio=0.75&volatility=0.28&leverage=3.5&credit_score=650''),
         get_call (base @ js ''/api/ocaml/score?income=5000000&debt=2000000&history_years=3&missed_payments=1'')]) (\<lambda>rs. case rs of
        [riskRes, scoreRes] \<Rightarrow>
          if res_ok riskRes \<and> res_ok scoreRes then
            andthen_t (json riskRes) (\<lambda>risk. andthen_t (json scoreRes) (\<lambda>score.
            andthen_t (lift_result (ocaml_data risk score)) (assign ocamlRisk_update)))
          else assign ocamlRisk_update (error_obj (js ''OCaml '' @ [0xB9AC, 0xC2A4, 0xD06C] @ js '' '' @ [0xC5D4, 0xC9C4] @ js '' '' @ [0xC624, 0xD504, 0xB77C, 0xC778]))
      | _ \<Rightarrow> Raise TypeError))
     (assign ocamlRisk_update (error_obj (js ''OCaml '' @ [0xC5D4, 0xC9C4] @ js '' '' @ [0xC811, 0xC18D] @ js '' '' @ [0xBD88, 0xAC00] @ js '' (:8004)'')))"

definition score_url :: "jsstr \<Rightarrow> ocaml \<Rightarrow> jsstr" where
  "score_url base s = base @ js ''/api/ocaml/score?income='' @ prim_str (income s) @ js ''&debt='' @ prim_str (debt s)
     @ js ''&history_years='' @ prim_str (historyYears s) @ js ''&missed_payments='' @ prim_str (missedPayments s)"

definition fetchScore :: "jsstr \<Rightarrow> (ocaml, unit) task" where
  "fetchScore base = guarded scoreLoading_update (assign scoreData_update Null)
     (Look (\<lambda>s. load_into scoreData_update (score_url base s) (js ''OCaml '' @ [0xC2A4, 0xCF54, 0xC5B4] @ js '' '' @ [0xC624, 0xD504, 0xB77C, 0xC778])))
     (assign scoreData_update (error_obj (js ''OCaml '' @ [0xC5D4, 0xC9C4] @ js '' '' @ [0xC811, 0xC18D] @ js '' '' @ [0xBD88, 0xAC00] @ js '' (:8004)'')))"

definition oc_runPortfolio :: "jsstr \<Rightarrow> (ocaml, unit) task" where
  "oc_runPortfolio base = load_panel oc_portfolioLoading_update oc_portfolioData_update (base @ js ''/api/ocaml/portfolio'')
     (js ''OCaml portfolio offline'') (js ''OCaml '' @ [0xC5D4, 0xC9C4] @ js '' '' @ [0xC811, 0xC18D] @ js '' '' @ [0xBD88, 0xAC00] @ js '' (:8004)'')"

datatype ocaml_op = RunOcamlRisk | FetchScore | OcRunPortfolio

fun ocaml_run :: "jsstr \<Rightarrow> ocaml_op \<Rightarrow> (ocaml, unit) task" where
  "ocaml_run base RunOcamlRisk = runOcamlRisk base"
| "ocaml_run base FetchScore = fetchScore base"
| "ocaml_run base OcRunPortfolio = oc_runPortfolio base"

fun ocaml_busy :: "ocaml_op \<Rightarrow> ocaml \<Rightarrow> bool" where
  "ocaml_busy RunOcamlRisk s = ocamlLoading s"
| "ocaml_busy FetchScore s = scoreLoading s"
| "ocaml_busy OcRunPortfolio s = oc_portfolioLoading s"

lemma all_ocaml_op: "(\<forall>h. P h) \<longleftrightarrow> P RunOcamlRisk \<and> P FetchScore \<and> P OcRunPortfolio"
  by (metis ocaml_op.exhaust)

interpretation ocaml: panel "ocaml_run base" "\<lambda>h s. \<not> ocaml_busy h s" Some ocaml_busy for base
  by (simp add: panel_def all_ocaml_op runOcamlRisk_def fetchScore_def oc_runPortfolio_def wp_rules split: sum.split)

section \<open>ScalaPanel\<close>

record scala =
  scalaData :: jsval
  scalaLoading :: bool

definition scala_init :: scala where
  "scala_init = \<lparr>scalaData = Null, scalaLoading = False\<rparr>"

definition scala_data :: "jsval \<Rightarrow> jsval \<Rightarrow> jsval \<Rightarrow> jsval result" where
  "scala_data agg sm stream =
     bindr (pick sm [(''forecast_next'', ''forecast_next''), (''alpha'', ''alpha''), (''beta'', ''beta'')])
       (\<lambda>kvs. Inr (with_props agg (kvs @ [(js ''stream'', stream)])))"

definition runScala :: "jsstr \<Rightarrow> (scala, unit) task" where
  "runScala base = guarded scalaLoading_update (assign scalaData_update Null)
     (andthen_t (fetch_all
        [get_call (base @ js ''/api/scala/aggregate?mu=0.08&sigma=0.15&n=252''),
         get_call (base @ js ''/api/scala/smooth?mu=0.08&sigma=0.15&n=252&alpha=0.3&beta=0.1''),
         get_call (base @ js ''/api/scala/stream?mu=0.08&sigma=0.22&n=300&seed=7'')]) (\<lambda>rs. case rs of
        [aggRes, smRes, streamRes] \<Rightarrow>
          if res_ok aggRes \<and> res_ok smRes \<and> res_ok streamRes then
            andthen_t (json aggRes) (\<lambda>agg. andthen_t (json smRes) (\<lambda>sm. andthen_t (json streamRes) (\<lambda>stream.
            andthen_t (lift_result (scala_data agg sm stream)) (assign scalaData_update))))
          else assign scalaData_update (error_obj (js ''Scala '' @ [0xC2A4, 0xD2B8, 0xB9AC, 0xBA38] @ js '' '' @ [0xC624, 0xD504, 0xB77C, 0xC778]))
      | _ \<Rightarrow> Raise TypeError))
     (assign scalaData_update (error_obj (js ''Scala '' @ [0xC11C, 0xBC84] @ js '' '' @ [0xC811, 0xC18D] @ js '' '' @ [0xBD88, 0xAC00] @ js '' (:9003)'')))"

interpretation scala: panel "\<lambda>_. runScala base" "\<lambda>_ s. \<not> scalaLoading s" Some "\<lambda>_ :: unit. scalaLoading" for base
  by (simp add: panel_def runScala_def wp_rules split: sum.split)

section \<open>RustPipelinePanel\<close>

text \<open>
  The optional prop \<open>onTrigger\<close>: absent, or a function whose calls are counted and which may throw.
\<close>

record rust =
  pipelineResult :: jsval
  riskSummary :: jsval
  rustStatus :: jsval
  rs_pipelineLoading :: bool
  summaryLoading :: bool
  onTrigger_calls :: nat

definition rust_init :: rust where
  "rust_init = \<lparr>pipelineResult = Null, riskSummary = Null, rustStatus = Null, rs_pipelineLoading = False, summaryLoading = False,
     onTrigger_calls = 0\<rparr>"

definition post_call :: "jsstr \<Rightarrow> http_call" where
  "post_call url = (get_call url)\<lparr>c_method := MPost\<rparr>"

definition fetchRustStatus :: "jsstr \<Rightarrow> (rust, unit) task" where
  "fetchRustStatus base = try_catch
     (andthen_t (fetch (get_call (base @ js ''/api/rust/status''))) (\<lambda>res.
        if res_ok res then andthen_t (json res) (assign rustStatus_update) else Ret ()))
     (\<lambda>_. assign rustStatus_update Null)"

definition call_onTrigger :: "bool option \<Rightarrow> (rust, unit) task" where
  "call_onTrigger onTrigger = (case onTrigger of None \<Rightarrow> Ret ()
     | Some throws \<Rightarrow> Upd (onTrigger_calls_update Suc) (if throws then Raise (JsError ''Error'') else Ret ()))"

definition triggerPipeline :: "jsstr \<Rightarrow> bool option \<Rightarrow> (rust, unit) task" where
  "triggerPipeline base onTrigger = guarded rs_pipelineLoading_update (assign pipelineResult_update Null)
     (andthen_t (fetch (post_call (base @ js ''/api/pipeline/trigger''))) (\<lambda>res. block
        [andthen_t (json res) (assign pipelineResult_update), call_onTrigger onTrigger, fetchRustStatus base]))
     (assign pipelineResult_update (Obj [(js ''status'', Str (js ''error'')), (js ''message'', Str (js ''Rust Pipeline unreachable''))]))"

definition fetchRiskSummary :: "jsstr \<Rightarrow> (rust, unit) task" where
  "fetchRiskSummary base = load_panel summaryLoading_update riskSummary_update (base @ js ''/api/risk/summary'')
     (js ''Rust '' @ [0xC11C, 0xBC84] @ js '' '' @ [0xC624, 0xD504, 0xB77C, 0xC778]) (js ''Rust '' @ [0xC11C, 0xBC84] @ js '' '' @ [0xC811, 0xC18D] @ js '' '' @ [0xBD88, 0xAC00] @ js '' (:8081)'')"

datatype rust_op = RustMount | TriggerPipeline | FetchRiskSummary

fun rust_run :: "jsstr \<Rightarrow> bool option \<Rightarrow> rust_op \<Rightarrow> (rust, unit) task" where
  "rust_run base cb RustMount = fetchRustStatus base"
| "rust_run base cb TriggerPipeline = triggerPipeline base cb"
| "rust_run base cb FetchRiskSummary = fetchRiskSummary base"

datatype rust_spinner = RustPipelineFlag | RustSummaryFlag

fun rust_flag :: "rust_op \<Rightarrow> rust_spinner option" where
  "rust_flag RustMount = None"
| "rust_flag TriggerPipeline = Some RustPipelineFlag"
| "rust_flag FetchRiskSummary = Some RustSummaryFlag"

fun rust_busy :: "rust_spinner \<Rightarrow> rust \<Rightarrow> bool" where
  "rust_busy RustPipelineFlag s = rs_pipelineLoading s"
| "rust_busy RustSummaryFlag s = summaryLoading s"

lemma all_rust_op: "(\<forall>h. P h) \<longleftrightarrow> P RustMount \<and> P TriggerPipeline \<and> P FetchRiskSummary"
  by (metis rust_op.exhaust)

lemma all_rust_spinner: "(\<forall>f. P f) \<longleftrightarrow> P RustPipelineFlag \<and> P RustSummaryFlag"
  by (metis rust_spinner.exhaust)

interpretation rust: panel "rust_run base cb" "\<lambda>h s. case rust_flag h of None \<Rightarrow> True | Some f \<Rightarrow> \<not> rust_busy f s"
    rust_flag rust_busy for base cb
  by (simp add: panel_def all_rust_op all_rust_spinner fetchRustStatus_def triggerPipeline_def fetchRiskSummary_def
      call_onTrigger_def wp_rules split: option.split)

section \<open>RubyPanel\<close>

record ruby =
  rubyData :: jsval
  rubyLoading :: bool
  rulesResult :: jsval
  rulesLoading :: bool
  customRule :: jsstr
  rb_debtRatio :: jsnum
  ltv :: jsnum
  numDefaults :: jsnum
  annualIncomeK :: jsnum

definition ruby_init :: ruby where
  "ruby_init = \<lparr>rubyData = Null, rubyLoading = False, rulesResult = Null, rulesLoading = False,
     customRule = js ''rule(:low_income_penalty) do'' @ [0x0A] @ js ''  condition { annual_income_k < 50 }'' @ [0x0A]
       @ js ''  action     { score - 40 }'' @ [0x0A] @ js ''end'',
     rb_debtRatio = lit 75 2, ltv = lit 88 2, numDefaults = jsnat 1, annualIncomeK = jsnat 60\<rparr>"

definition ruby_query :: "ruby \<Rightarrow> jsstr" where
  "ruby_query s = js ''debt_ratio='' @ num_str (rb_debtRatio s) @ js ''&ltv='' @ num_str (ltv s)
     @ js ''&num_defaults='' @ num_str (numDefaults s) @ js ''&annual_income_k='' @ num_str (annualIncomeK s)"

definition runRuby :: "jsstr \<Rightarrow> (ruby, unit) task" where
  "runRuby base = guarded rubyLoading_update (assign rubyData_update Null)
     (Look (\<lambda>s. andthen_t (fetch_all
        [get_call (base @ js ''/api/ruby/score?'' @ ruby_query s), get_call (base @ js ''/api/ruby/ruleset''),
         get_call (base @ js ''/api/ruby/evaluate?'' @ ruby_query s)]) (\<lambda>rs. case rs of
        [scoreRes, rulesetRes, evalRes] \<Rightarrow>
          if res_ok scoreRes \<and> res_ok rulesetRes \<and> res_ok evalRes then
            andthen_t (json scoreRes) (\<lambda>score. andthen_t (json rulesetRes) (\<lambda>ruleset. andthen_t (json evalRes) (\<lambda>evalResult.
              assign rubyData_update (with_props score [(js ''ruleset'', ruleset), (js ''evalResult'', evalResult)]))))
          else assign rubyData_update (error_obj (js ''Ruby DSL '' @ [0xC5D4, 0xC9C4] @ js '' '' @ [0xC624, 0xD504, 0xB77C, 0xC778]))
      | _ \<Rightarrow> Raise TypeError)))
     (assign rubyData_update (error_obj (js ''Ruby '' @ [0xC11C, 0xBC84] @ js '' '' @ [0xC811, 0xC18D] @ js '' '' @ [0xBD88, 0xAC00] @ js '' (:9004)'')))"

definition loadCustomRule :: "jsstr \<Rightarrow> (ruby, unit) task" where
  "loadCustomRule base = guarded rulesLoading_update (assign rulesResult_update Null)
     (Look (\<lambda>s. andthen_t (fetch ((post_call (base @ js ''/api/ruby/rules''))\<lparr>c_headers := [(js ''Content-Type'', js ''text/plain'')],
          c_body := Some (customRule s)\<rparr>)) (\<lambda>res.
        andthen_t (json res) (\<lambda>v. block [assign rulesResult_update v,
          if truthy (get_opt v (js ''loaded'')) then runRuby base else Ret ()]))))
     (assign rulesResult_update (Obj [(js ''loaded'', Bool False), (js ''error'', Str (js ''Ruby '' @ [0xC11C, 0xBC84] @ js '' '' @ [0xC811, 0xC18D] @ js '' '' @ [0xBD88, 0xAC00] @ js '' (:9004)''))]))"

datatype ruby_op = RunRuby | LoadCustomRule

fun ruby_run :: "jsstr \<Rightarrow> ruby_op \<Rightarrow> (ruby, unit) task" where
  "ruby_run base RunRuby = runRuby base"
| "ruby_run base LoadCustomRule = loadCustomRule base"

fun ruby_busy :: "ruby_op \<Rightarrow> ruby \<Rightarrow> bool" where
  "ruby_busy RunRuby s = rubyLoading s"
| "ruby_busy LoadCustomRule s = rulesLoading s"

text \<open>
  Loading a rule restarts the run without looking at its flag.  Each handler alone still ends with its own flag down.
\<close>

lemma ruby_handler_ends:
  "wp (\<lambda>_. True) (\<lambda>_ _. True) (ruby_run base h) (\<lambda>_ s. \<not> ruby_busy h s) (\<lambda>_ _. False) s"
  by (cases h) (simp_all add: runRuby_def loadCustomRule_def wp_rules)

end
