(* ===== verification/Portal_Json.thy ===== *)
theory Portal_Json
  imports Portal_Fetch
begin

text \<open>
  Panels that read the JSON of every answer whatever its status (\<open>fetch(...).then((r) => r.json())\<close>): \<open>ClojureSTMPanel\<close>,
  \<open>ErlangPanel\<close>, \<open>GleamPanel\<close>, \<open>JavaLoomPanel\<close>, \<open>LuaStreamPanel\<close>, \<open>PrologPanel\<close>, \<open>SwiftActorPanel\<close> and \<open>VPanel\<close>.
\<close>

text \<open>\<open>{ ...a, ...b }\<close>\<close>

definition spread2 :: "jsval \<Rightarrow> jsval \<Rightarrow> jsval" where
  "spread2 a b = with_props a (spread_props b)"

section \<open>ClojureSTMPanel\<close>

record clojure =
  clojureData :: jsval
  transferRes :: jsval
  clojureLoading :: bool
  transferLoading :: bool
  fromAcc :: jsstr
  toAcc :: jsstr
  amount :: jsval

definition clojure_init :: clojure where
  "clojure_init = \<lparr>clojureData = Null, transferRes = Null, clojureLoading = False, transferLoading = False,
     fromAcc = js ''ACC-001'', toAcc = js ''ACC-002'', amount = Str (js ''500'')\<rparr>"

definition ACCOUNTS :: "jsstr list" where
  "ACCOUNTS = map js [''ACC-001'', ''ACC-002'', ''ACC-003'', ''ACC-004'']"

definition runClojure :: "jsstr \<Rightarrow> (clojure, unit) task" where
  "runClojure base = guarded clojureLoading_update (assign clojureData_update Null)
     (andthen_t (json_all [get_call (base @ js ''/api/clojure/status''), get_call (base @ js ''/api/clojure/stress?n=300'')]) (\<lambda>vs.
        case vs of [status, stress] \<Rightarrow> block
          [assign clojureData_update (with_props status [(js ''stress'', stress)]), assign transferRes_update Null]
        | _ \<Rightarrow> Raise TypeError))
     (assign clojureData_update (error_obj (js ''Clojure '' @ [0xC11C, 0xBC84] @ js '' '' @ [0xC811, 0xC18D] @ js '' '' @ [0xBD88, 0xAC00] @ js '' (:8009)'')))"

text \<open>\<open>parseFloat(amount) || 100\<close>\<close>

definition transfer_amount :: "jsval \<Rightarrow> jsnum" where
  "transfer_amount v = (let x = parseFloat (prim_str v) in if js_truthy_num x then x else jsnat 100)"

definition transfer_url :: "jsstr \<Rightarrow> clojure \<Rightarrow> jsstr" where
  "transfer_url base s = base @ js ''/api/clojure/transfer?from='' @ fromAcc s @ js ''&to='' @ toAcc s @ js ''&amount=''
     @ num_str (transfer_amount (amount s))"

definition doTransfer :: "jsstr \<Rightarrow> (clojure, unit) task" where
  "doTransfer base = guarded transferLoading_update (assign transferRes_update Null)
     (Look (\<lambda>s. andthen_t (fetch (get_call (transfer_url base s))) (\<lambda>res.
        andthen_t (json res) (\<lambda>v. andthen_t (assign transferRes_update v) (\<lambda>_.
        andthen_t (fetch_json (get_call (base @ js ''/api/clojure/status''))) (\<lambda>status.
        Look (\<lambda>s. if truthy (clojureData s) then assign clojureData_update (spread2 (clojureData s) status) else Ret ())))))))
     (assign transferRes_update (error_obj (js ''Clojure '' @ [0xC11C, 0xBC84] @ js '' '' @ [0xC811, 0xC18D] @ js '' '' @ [0xBD88, 0xAC00] @ js '' (:8009)'')))"

datatype clojure_op = RunClojure | DoTransfer

fun clojure_run :: "jsstr \<Rightarrow> clojure_op \<Rightarrow> (clojure, unit) task" where
  "clojure_run base RunClojure = runClojure base"
| "clojure_run base DoTransfer = doTransfer base"

fun clojure_busy :: "clojure_op \<Rightarrow> clojure \<Rightarrow> bool" where
  "clojure_busy RunClojure s = clojureLoading s"
| "clojure_busy DoTransfer s = transferLoading s"

fun clojure_enabled :: "clojure_op \<Rightarrow> clojure \<Rightarrow> bool" where
  "clojure_enabled RunClojure s = (\<not> clojureLoading s)"
| "clojure_enabled DoTransfer s = (\<not> (transferLoading s \<or> fromAcc s = toAcc s))"

lemma all_clojure_op: "(\<forall>h. P h) \<longleftrightarrow> P RunClojure \<and> P DoTransfer"
  by (metis clojure_op.exhaust)

interpretation clojure: panel "clojure_run base" clojure_enabled Some clojure_busy for base
  by (simp add: panel_def all_clojure_op runClojure_def doTransfer_def wp_rules)

section \<open>ErlangPanel\<close>

record erlang =
  erlangData :: jsval
  erlangLoading :: bool
  riskDebt :: jsnum
  riskVol :: jsnum
  er_riskData :: jsval
  er_riskLoading :: bool

definition erlang_init :: erlang where
  "erlang_init = \<lparr>erlangData = Null, erlangLoading = False, riskDebt = lit 65 2, riskVol = lit 28 2, er_riskData = Null,
     er_riskLoading = False\<rparr>"

definition runErlang :: "jsstr \<Rightarrow> (erlang, unit) task" where
  "runErlang base = guarded erlangLoading_update (Ret ())
     (andthen_t (json_all [get_call (base @ js ''/api/erlang/status''), get_call (base @ js ''/api/erlang/hotswap''),
         get_call (base @ js ''/api/erlang/risk?debt=0.65&vol=0.28'')]) (\<lambda>vs. case vs of
        [status, swap, riskV1] \<Rightarrow>
          andthen_t (fetch_json (get_call (base @ js ''/api/erlang/risk?debt=0.65&vol=0.28''))) (\<lambda>riskV2.
          assign erlangData_update (with_props status
            [(js ''swap'', swap), (js ''riskBefore'', riskV1), (js ''riskAfter'', riskV2)]))
      | _ \<Rightarrow> Raise TypeError))
     (assign erlangData_update (error_obj (js ''Erlang '' @ [0xC11C, 0xBC84] @ js '' '' @ [0xC811, 0xC18D] @ js '' '' @ [0xBD88, 0xAC00] @ js '' (:4003)'')))"

definition fetchRisk :: "jsstr \<Rightarrow> (erlang, unit) task" where
  "fetchRisk base = guarded er_riskLoading_update (assign er_riskData_update Null)
     (Look (\<lambda>s. andthen_t (fetch_json (get_call (base @ js ''/api/erlang/risk?debt='' @ toFixed 2 (riskDebt s)
          @ js ''&vol='' @ toFixed 2 (riskVol s)))) (assign er_riskData_update)))
     (assign er_riskData_update (error_obj (js ''Erlang '' @ [0xC11C, 0xBC84] @ js '' '' @ [0xC811, 0xC18D] @ js '' '' @ [0xBD88, 0xAC00] @ js '' (:4003)'')))"

definition er_gradeColor :: "jsnum \<Rightarrow> jsstr" where
  "er_gradeColor score =
     (if js_lt score (lit 2 1) then js ''#34d399'' else if js_lt score (lit 35 2) then js ''#86efac''
      else if js_lt score (lit 5 1) then js ''#fbbf24'' else if js_lt score (lit 65 2) then js ''#f97316'' else js ''#f87171'')"

datatype erlang_op = RunErlang | FetchRisk

fun erlang_run :: "jsstr \<Rightarrow> erlang_op \<Rightarrow> (erlang, unit) task" where
  "erlang_run base RunErlang = runErlang base"
| "erlang_run base FetchRisk = fetchRisk base"

fun erlang_busy :: "erlang_op \<Rightarrow> erlang \<Rightarrow> bool" where
  "erlang_busy RunErlang s = erlangLoading s"
| "erlang_busy FetchRisk s = er_riskLoading s"

lemma all_erlang_op: "(\<forall>h. P h) \<longleftrightarrow> P RunErlang \<and> P FetchRisk"
  by (metis erlang_op.exhaust)

interpretation erlang: panel "erlang_run base" "\<lambda>h s. \<not> erlang_busy h s" Some erlang_busy for base
  by (simp add: panel_def all_erlang_op runErlang_def fetchRisk_def wp_rules)

section \<open>GleamPanel\<close>

record gleam =
  gleamData :: jsval
  gleamLoading :: bool
  gl_pipelineData :: jsval
  gl_pipelineLoading :: bool
  gl_riskData :: jsval
  gl_riskLoading :: bool

definition gleam_init :: gleam where
  "gleam_init = \<lparr>gleamData = Null, gleamLoading = False, gl_pipelineData = Null, gl_pipelineLoading = False, gl_riskData = Null,
     gl_riskLoading = False\<rparr>"

definition runGleam :: "jsstr \<Rightarrow> (gleam, unit) task" where
  "runGleam base = guarded gleamLoading_update (Ret ())
     (andthen_t (json_all [get_call (base @ js ''/api/gleam/validate?service=risk&score=750&grade=A''),
         get_call (base @ js ''/api/gleam/validate?service=risk&score=1500&grade=X''), get_call (base @ js ''/api/gleam/contract'')])
       (\<lambda>vs. case vs of [valid_ok, valid_err, contract] \<Rightarrow>
          assign gleamData_update (Obj [(js ''valid_ok'', valid_ok), (js ''valid_err'', valid_err), (js ''contract'', contract)])
        | _ \<Rightarrow> Raise TypeError))
     (assign gleamData_update (error_obj (js ''Gleam '' @ [0xC11C, 0xBC84] @ js '' '' @ [0xC811, 0xC18D] @ js '' '' @ [0xBD88, 0xAC00] @ js '' (:4001)'')))"

definition runGleamPipeline :: "jsstr \<Rightarrow> (gleam, unit) task" where
  "runGleamPipeline base = guarded gl_pipelineLoading_update (Ret ())
     (andthen_t (fetch_json (get_call (base @ js ''/api/gleam/pipeline?n=252&mu=0.05&sigma=0.18''))) (assign gl_pipelineData_update))
     (assign gl_pipelineData_update (error_obj (js ''Gleam '' @ [0xC11C, 0xBC84] @ js '' '' @ [0xC811, 0xC18D] @ js '' '' @ [0xBD88, 0xAC00] @ js '' (:4001)'')))"

definition runGleamRisk :: "jsstr \<Rightarrow> (gleam, unit) task" where
  "runGleamRisk base = guarded gl_riskLoading_update (Ret ())
     (andthen_t (fetch_json (get_call (base @ js ''/api/gleam/risk?n=252&mu=0.05&sigma=0.18''))) (assign gl_riskData_update))
     (assign gl_riskData_update (error_obj (js ''Gleam '' @ [0xC11C, 0xBC84] @ js '' '' @ [0xC811, 0xC18D] @ js '' '' @ [0xBD88, 0xAC00] @ js '' (:4001)'')))"

datatype gleam_op = RunGleam | RunGleamPipeline | RunGleamRisk

fun gleam_run :: "jsstr \<Rightarrow> gleam_op \<Rightarrow> (gleam, unit) task" where
  "gleam_run base RunGleam = runGleam base"
| "gleam_run base RunGleamPipeline = runGleamPipeline base"
| "gleam_run base RunGleamRisk = runGleamRisk base"

fun gleam_busy :: "gleam_op \<Rightarrow> gleam \<Rightarrow> bool" where
  "gleam_busy RunGleam s = gleamLoading s"
| "gleam_busy RunGleamPipeline s = gl_pipelineLoading s"
| "gleam_busy RunGleamRisk s = gl_riskLoading s"

lemma all_gleam_op: "(\<forall>h. P h) \<longleftrightarrow> P RunGleam \<and> P RunGleamPipeline \<and> P RunGleamRisk"
  by (metis gleam_op.exhaust)

interpretation gleam: panel "gleam_run base" "\<lambda>h s. \<not> gleam_busy h s" Some gleam_busy for base
  by (simp add: panel_def all_gleam_op runGleam_def runGleamPipeline_def runGleamRisk_def wp_rules)

section \<open>JavaLoomPanel\<close>

record java =
  javaData :: jsval
  javaLoading :: bool
  jv_pipelineData :: jsval
  jv_pipelineLoading :: bool
  javaStatus :: jsval

definition java_init :: java where
  "java_init = \<lparr>javaData = Null, javaLoading = False, jv_pipelineData = Null, jv_pipelineLoading = False, javaStatus = Null\<rparr>"

definition java_mount :: "jsstr \<Rightarrow> (java, unit) task" where
  "java_mount base = try_catch
     (andthen_t (fetch (get_call (base @ js ''/api/java/status''))) (\<lambda>res.
        if res_ok res then andthen_t (json res) (assign javaStatus_update) else Ret ()))
     (\<lambda>_. Ret ())"

definition runJava :: "jsstr \<Rightarrow> (java, unit) task" where
  "runJava base = guarded javaLoading_update (assign javaData_update Null)
     (andthen_t (json_all [get_call (base @ js ''/api/java/vthreads?n=50000''), get_call (base @ js ''/api/java/compare?n=500'')]) (\<lambda>vs.
        case vs of [vthreads, cmp] \<Rightarrow> assign javaData_update (Obj [(js ''vthreads'', vthreads), (js ''compare'', cmp)])
        | _ \<Rightarrow> Raise TypeError))
     (assign javaData_update (error_obj (js ''Java '' @ [0xC11C, 0xBC84] @ js '' '' @ [0xC811, 0xC18D] @ js '' '' @ [0xBD88, 0xAC00] @ js '' (:8010)'')))"

definition jv_runPipeline :: "jsstr \<Rightarrow> (java, unit) task" where
  "jv_runPipeline base = guarded jv_pipelineLoading_update (assign jv_pipelineData_update Null)
     (andthen_t (fetch_json (get_call (base @ js ''/api/java/pipeline?n=1000&delay=10''))) (assign jv_pipelineData_update))
     (assign jv_pipelineData_update (error_obj (js ''Java '' @ [0xC11C, 0xBC84] @ js '' '' @ [0xC811, 0xC18D] @ js '' '' @ [0xBD88, 0xAC00] @ js '' (:8010)'')))"

datatype java_op = JavaMount | RunJava | JavaPipeline

fun java_run :: "jsstr \<Rightarrow> java_op \<Rightarrow> (java, unit) task" where
  "java_run base JavaMount = java_mount base"
| "java_run base RunJava = runJava base"
| "java_run base JavaPipeline = jv_runPipeline base"

fun java_flag :: "java_op \<Rightarrow> bool option" where
  "java_flag JavaMount = None"
| "java_flag RunJava = Some False"
| "java_flag JavaPipeline = Some True"

definition java_busy :: "bool \<Rightarrow> java \<Rightarrow> bool" where
  "java_busy f s = (if f then jv_pipelineLoading s else javaLoading s)"

lemma all_java_op: "(\<forall>h. P h) \<longleftrightarrow> P JavaMount \<and> P RunJava \<and> P JavaPipeline"
  by (metis java_op.exhaust)

interpretation java: panel "java_run base" "\<lambda>h s. case java_flag h of None \<Rightarrow> True | Some f \<Rightarrow> \<not> java_busy f s" java_flag java_busy
    for base
  by (simp add: panel_def all_java_op all_bool_eq java_busy_def java_mount_def runJava_def jv_runPipeline_def wp_rules)

section \<open>LuaStreamPanel\<close>

record lua_stream =
  luaData :: jsval
  luaLoading :: bool

definition lua_init :: lua_stream where
  "lua_init = \<lparr>luaData = Null, luaLoading = False\<rparr>"

definition runLua :: "jsstr \<Rightarrow> (lua_stream, unit) task" where
  "runLua base = guarded luaLoading_update (assign luaData_update Null)
     (andthen_t (json_all [get_call (base @ js ''/api/lua/status''), get_call (base @ js ''/api/lua/stream?feeds=6&steps=300'')]) (\<lambda>vs.
        case vs of [status, stream] \<Rightarrow> assign luaData_update (spread2 status stream) | _ \<Rightarrow> Raise TypeError))
     (assign luaData_update (error_obj (js ''Lua '' @ [0xC11C, 0xBC84] @ js '' '' @ [0xC811, 0xC18D] @ js '' '' @ [0xBD88, 0xAC00] @ js '' (:8007)'')))"

interpretation lua: panel "\<lambda>_. runLua base" "\<lambda>_ s. \<not> luaLoading s" Some "\<lambda>_ :: unit. luaLoading" for base
  by (simp add: panel_def runLua_def wp_rules)

section \<open>PrologPanel\<close>

record prolog =
  statusData :: jsval
  inferData :: jsval
  pr_portfolioData :: jsval
  explainData :: jsval
  pr_loading :: bool
  explainLoading :: bool
  portfolioType :: jsstr
  riskMax :: jsnum
  pr_debtRatio :: jsnum
  volatility :: jsnum
  pr_defaults :: jsnum

definition prolog_init :: prolog where
  "prolog_init = \<lparr>statusData = Null, inferData = Null, pr_portfolioData = Null, explainData = Null, pr_loading = False,
     explainLoading = False, portfolioType = js ''balanced'', riskMax = jsnat 12, pr_debtRatio = lit 45 2, volatility = lit 22 2,
     pr_defaults = jsnat 1\<rparr>"

definition prolog_facts :: "prolog \<Rightarrow> jsstr" where
  "prolog_facts s = js ''debt='' @ num_str (pr_debtRatio s) @ js ''&vol='' @ num_str (volatility s) @ js ''&defaults=''
     @ num_str (pr_defaults s)"

definition portfolio_call :: "jsstr \<Rightarrow> prolog \<Rightarrow> http_call" where
  "portfolio_call base s = get_call (base @ js ''/api/prolog/portfolio?type='' @ portfolioType s @ js ''&risk_max='' @ num_str (riskMax s))"

definition explain_call :: "jsstr \<Rightarrow> prolog \<Rightarrow> http_call" where
  "explain_call base s = get_call (base @ js ''/api/prolog/explain?'' @ prolog_facts s)"

definition runAll :: "jsstr \<Rightarrow> (prolog, unit) task" where
  "runAll base = guarded pr_loading_update (Ret ())
     (Look (\<lambda>s. andthen_t (json_all [get_call (base @ js ''/api/prolog/status''),
          get_call (base @ js ''/api/prolog/infer?'' @ prolog_facts s), portfolio_call base s, explain_call base s]) (\<lambda>vs. case vs of
        [status, infer, portfolio, explain] \<Rightarrow> block [assign statusData_update status, assign inferData_update infer,
          assign pr_portfolioData_update portfolio, assign explainData_update explain]
      | _ \<Rightarrow> Raise TypeError)))
     (assign inferData_update (error_obj (js ''Prolog '' @ [0xC11C, 0xBC84] @ js '' '' @ [0xC811, 0xC18D] @ js '' '' @ [0xBD88, 0xAC00] @ js '' (:8011)'')))"

definition pr_runPortfolio :: "jsstr \<Rightarrow> (prolog, unit) task" where
  "pr_runPortfolio base = guarded pr_loading_update (Ret ())
     (Look (\<lambda>s. andthen_t (fetch_json (portfolio_call base s)) (assign pr_portfolioData_update)))
     (assign pr_portfolioData_update (error_obj ([0xD3EC, 0xD2B8, 0xD3F4, 0xB9AC, 0xC624] @ js '' '' @ [0xD0D0, 0xC0C9] @ js '' '' @ [0xC2E4, 0xD328])))"

definition fetchExplain :: "jsstr \<Rightarrow> (prolog, unit) task" where
  "fetchExplain base = guarded explainLoading_update (assign explainData_update Null)
     (Look (\<lambda>s. andthen_t (fetch_json (explain_call base s)) (assign explainData_update)))
     (assign explainData_update (error_obj (js ''Prolog '' @ [0xC11C, 0xBC84] @ js '' '' @ [0xC811, 0xC18D] @ js '' '' @ [0xBD88, 0xAC00] @ js '' (:8011)'')))"

text \<open>
  The colour of a grade.  Looking up a name that the empty object inherits gives something that is not a colour, here \<open>None\<close>.
\<close>

definition grade_colors :: "(jsstr \<times> jsstr) list" where
  "grade_colors = [(js ''low'', js ''#22c55e''), (js ''medium'', js ''#f59e0b''), (js ''high'', js ''#f97316''), (js ''critical'', js ''#ef4444'')]"

definition pr_gradeColor :: "jsstr \<Rightarrow> jsstr option" where
  "pr_gradeColor g = (if g = [] then Some (js ''#94a3b8'')
     else let k = toLowerCase g in case map_of grade_colors k of Some c \<Rightarrow> Some c
       | None \<Rightarrow> if k = js ''constructor'' \<or> k = js ''__proto__'' then None else Some (js ''#94a3b8''))"

definition typeColors :: "(jsstr \<times> jsstr) list" where
  "typeColors = [(js ''aggressive'', js ''#ef4444''), (js ''balanced'', js ''#3b82f6''), (js ''conservative'', js ''#22c55e'')]"

text \<open>No control of the template calls \<open>runPortfolio\<close>; it is kept as a handler behind the shared flag.\<close>

datatype prolog_op = RunAll | PrologPortfolio | FetchExplain

fun prolog_run :: "jsstr \<Rightarrow> prolog_op \<Rightarrow> (prolog, unit) task" where
  "prolog_run base RunAll = runAll base"
| "prolog_run base PrologPortfolio = pr_runPortfolio base"
| "prolog_run base FetchExplain = fetchExplain base"

fun prolog_flag :: "prolog_op \<Rightarrow> bool" where
  "prolog_flag FetchExplain = True"
| "prolog_flag _ = False"

definition prolog_busy :: "bool \<Rightarrow> prolog \<Rightarrow> bool" where
  "prolog_busy f s = (if f then explainLoading s else pr_loading s)"

lemma all_prolog_op: "(\<forall>h. P h) \<longleftrightarrow> P RunAll \<and> P PrologPortfolio \<and> P FetchExplain"
  by (metis prolog_op.exhaust)

interpretation prolog: panel "prolog_run base" "\<lambda>h s. \<not> prolog_busy (prolog_flag h) s" "\<lambda>h. Some (prolog_flag h)" prolog_busy
    for base
  by (simp add: panel_def all_prolog_op all_bool_eq prolog_busy_def runAll_def pr_runPortfolio_def fetchExplain_def wp_rules)

section \<open>SwiftActorPanel\<close>

record swift =
  swiftData :: jsval
  swiftLoading :: bool
  tradeResult :: jsval
  tradeLoading :: bool
  tradeSym :: jsstr
  tradeQty :: jsval
  tradePrice :: jsval

definition swift_init :: swift where
  "swift_init = \<lparr>swiftData = Null, swiftLoading = False, tradeResult = Null, tradeLoading = False, tradeSym = js ''AAPL'',
     tradeQty = jsn 10, tradePrice = Num (lit 1825 1)\<rparr>"

definition runSwift :: "jsstr \<Rightarrow> (swift, unit) task" where
  "runSwift base = guarded swiftLoading_update (assign swiftData_update Null)
     (andthen_t (json_all [get_call (base @ js ''/api/swift/status''), get_call (base @ js ''/api/swift/concurrent?n=200'')]) (\<lambda>vs.
        case vs of [status, concurrent] \<Rightarrow> assign swiftData_update (spread2 status concurrent) | _ \<Rightarrow> Raise TypeError))
     (assign swiftData_update (error_obj (js ''Swift '' @ [0xC11C, 0xBC84] @ js '' '' @ [0xC811, 0xC18D] @ js '' '' @ [0xBD88, 0xAC00] @ js '' (:8008)'')))"

definition executeTrade :: "jsstr \<Rightarrow> (swift, unit) task" where
  "executeTrade base = guarded tradeLoading_update (assign tradeResult_update Null)
     (Look (\<lambda>s. andthen_t (lift_result (encodeURIComponent (tradeSym s))) (\<lambda>sym.
        andthen_t (fetch (get_call (base @ js ''/api/swift/trade?sym='' @ sym @ js ''&qty='' @ prim_str (tradeQty s)
          @ js ''&price='' @ prim_str (tradePrice s)))) (\<lambda>res.
        andthen_t (json res) (assign tradeResult_update)))))
     (assign tradeResult_update (error_obj (js ''Swift '' @ [0xC11C, 0xBC84] @ js '' '' @ [0xC811, 0xC18D] @ js '' '' @ [0xBD88, 0xAC00] @ js '' (:8008)'')))"

datatype swift_op = RunSwift | ExecuteTrade

fun swift_run :: "jsstr \<Rightarrow> swift_op \<Rightarrow> (swift, unit) task" where
  "swift_run base RunSwift = runSwift base"
| "swift_run base ExecuteTrade = executeTrade base"

fun swift_busy :: "swift_op \<Rightarrow> swift \<Rightarrow> bool" where
  "swift_busy RunSwift s = swiftLoading s"
| "swift_busy ExecuteTrade s = tradeLoading s"

lemma all_swift_op: "(\<forall>h. P h) \<longleftrightarrow> P RunSwift \<and> P ExecuteTrade"
  by (metis swift_op.exhaust)

interpretation swift: panel "swift_run base" "\<lambda>h s. \<not> swift_busy h s" Some swift_busy for base
  by (simp add: panel_def all_swift_op runSwift_def executeTrade_def wp_rules split: sum.split)

section \<open>VPanel\<close>

record vquant =
  vData :: jsval
  vLoading :: bool
  ticks :: jsnum
  fastPeriod :: jsnum
  slowPeriod :: jsnum
  seed :: jsnum

definition vquant_init :: vquant where
  "vquant_init = \<lparr>vData = Null, vLoading = False, ticks = jsnat 100000, fastPeriod = jsnat 20, slowPeriod = jsnat 50, seed = jsnat 42\<rparr>"

definition runV :: "jsstr \<Rightarrow> (vquant, unit) task" where
  "runV base = guarded vLoading_update (Ret ())
     (Look (\<lambda>s. andthen_t (json_all
        [get_call (base @ js ''/api/v/backtest?ticks='' @ num_str (ticks s) @ js ''&fast='' @ num_str (fastPeriod s)
           @ js ''&slow='' @ num_str (slowPeriod s) @ js ''&seed='' @ num_str (seed s)),
         get_call (base @ js ''/api/v/stress?ticks='' @ num_str (js_round (js_mul (ticks s) (lit 15 1))) @ js ''&seed='' @ num_str (seed s))])
       (\<lambda>vs. case vs of [bt, st] \<Rightarrow> assign vData_update (with_props bt [(js ''stress'', st)]) | _ \<Rightarrow> Raise TypeError)))
     (assign vData_update (error_obj (js ''V '' @ [0xC11C, 0xBC84] @ js '' '' @ [0xC811, 0xC18D] @ js '' '' @ [0xBD88, 0xAC00] @ js '' (:4002)'')))"

interpretation vquant: panel "\<lambda>_. runV base" "\<lambda>_ s. \<not> vLoading s" Some "\<lambda>_ :: unit. vLoading" for base
  by (simp add: panel_def runV_def wp_rules)

end
