(* ===== verification/Portal_Live.thy ===== *)
theory Portal_Live
  imports Portal_Fetch
begin

text \<open>
  The panels that hold a connection open: \<open>ElixirPanel\<close>, a hand-written client of the Phoenix wire format with heartbeats and
  exponential backoff, and \<open>SystemStatusPanel\<close>, with server-sent events and a polling interval.  Sockets, event sources and timers
  are numbered as the browser makes them; what is still alive is part of the state.
\<close>

section \<open>ElixirPanel\<close>

record elixir =
  elixirStatus :: jsval
  liveSnapshot :: jsval
  wsConnected :: bool
  wsLog :: jsstr
  snapshotCount :: nat
  autoReconnect :: bool
  el_ws :: "nat option"
  heartbeatTimer :: nat
  reconnectTimer :: nat
  reconnectDelay :: nat
  refCounter :: nat
  intentionalClose :: bool
  el_alive :: "nat list"          \<comment> \<open>sockets whose close event is still to come\<close>
  el_open :: "nat list"           \<comment> \<open>sockets that have opened\<close>
  el_closing :: "nat list"        \<comment> \<open>sockets on which \<open>close()\<close> was called\<close>
  el_timeouts :: "nat list"
  el_intervals :: "nat list"
  el_nextTimer :: nat
  el_nextSocket :: nat
  el_sent :: "(nat \<times> jsstr) list"

definition elixir_init :: elixir where
  "elixir_init = \<lparr>elixirStatus = Null, liveSnapshot = Null, wsConnected = False, wsLog = [], snapshotCount = 0, autoReconnect = False,
     el_ws = None, heartbeatTimer = 0, reconnectTimer = 0, reconnectDelay = 3000, refCounter = 1, intentionalClose = False,
     el_alive = [], el_open = [], el_closing = [], el_timeouts = [], el_intervals = [], el_nextTimer = 1, el_nextSocket = 0, el_sent = []\<rparr>"

definition checkElixir :: "jsstr \<Rightarrow> (elixir, unit) task" where
  "checkElixir base = try_catch
     (andthen_t (fetch (get_call (base @ js ''/api/hub/status''))) (\<lambda>res.
        if res_ok res then andthen_t (json res) (assign elixirStatus_update)
        else assign elixirStatus_update (Obj [(js ''status'', Str (js ''offline''))])))
     (\<lambda>_. assign elixirStatus_update (Obj [(js ''status'', Str (js ''offline''))]))"

subsection \<open>Timers and sockets\<close>

definition clear_reconnect :: "elixir \<Rightarrow> elixir" where
  "clear_reconnect s = s\<lparr>el_timeouts := removeAll (reconnectTimer s) (el_timeouts s)\<rparr>"

definition clear_heartbeat :: "elixir \<Rightarrow> elixir" where
  "clear_heartbeat s = s\<lparr>el_intervals := removeAll (heartbeatTimer s) (el_intervals s)\<rparr>"

text \<open>\<open>ws?.close()\<close>: the close event comes later.\<close>

definition close_ws :: "elixir \<Rightarrow> elixir" where
  "close_ws s = (case el_ws s of None \<Rightarrow> s | Some i \<Rightarrow> s\<lparr>el_closing := i # el_closing s\<rparr>)"

text \<open>\<open>ws?.send(JSON.stringify([null, String(refCounter++), topic, event, {}]))\<close>; a socket that is closing or closed drops the
  frame, and one still connecting refuses it.\<close>

definition el_frame :: "nat \<Rightarrow> string \<Rightarrow> string \<Rightarrow> jsstr" where
  "el_frame ref topic event = stringify (Arr [Null, Str (nat_str ref), Str (js topic), Str (js event), Obj []])"

definition el_send :: "string \<Rightarrow> string \<Rightarrow> elixir \<Rightarrow> elixir" where
  "el_send topic event s = (case el_ws s of None \<Rightarrow> s
     | Some i \<Rightarrow> (let f = el_frame (refCounter s) topic event; s' = s\<lparr>refCounter := Suc (refCounter s)\<rparr> in
         if i \<in> set (el_open s) \<and> i \<notin> set (el_closing s) then s'\<lparr>el_sent := el_sent s @ [(i, f)]\<rparr> else s'))"

subsection \<open>Connecting\<close>

definition connectWS :: "elixir \<Rightarrow> elixir" where
  "connectWS s0 =
     (let s1 = (clear_reconnect s0)\<lparr>intentionalClose := False\<rparr>; s2 = close_ws s1; i = el_nextSocket s2 in
      s2\<lparr>el_ws := Some i, el_alive := el_alive s2 @ [i], el_nextSocket := Suc i, wsLog := ([0xC5F0, 0xACB0] @ js '' '' @ [0xC2DC, 0xB3C4] @ js '' '' @ [0xC911] @ js ''...'')\<rparr>)"

definition scheduleReconnect :: "elixir \<Rightarrow> elixir" where
  "scheduleReconnect s = (if \<not> autoReconnect s \<or> intentionalClose s then s
     else s\<lparr>wsLog := num_str (js_div (jsnat (reconnectDelay s)) (jsnat 1000)) @ (js ''s '' @ [0xD6C4] @ js '' '' @ [0xC7AC, 0xC5F0, 0xACB0] @ js '' '' @ [0xC2DC, 0xB3C4] @ js ''...''),
       reconnectTimer := el_nextTimer s, el_timeouts := el_timeouts s @ [el_nextTimer s], el_nextTimer := Suc (el_nextTimer s)\<rparr>)"

definition reconnect_fired :: "elixir \<Rightarrow> elixir" where
  "reconnect_fired s = (if autoReconnect s \<and> \<not> intentionalClose s
     then connectWS (s\<lparr>reconnectDelay := min (reconnectDelay s * 2) 30000\<rparr>) else s)"

definition el_onopen :: "elixir \<Rightarrow> elixir" where
  "el_onopen s = (let s1 = el_send ''system:lobby'' ''phx_join''
       (s\<lparr>wsConnected := True, reconnectDelay := 3000, wsLog := (js ''WebSocket '' @ [0xC5F0, 0xACB0, 0xB428] @ js '' '' @ [0x2705])\<rparr>) in
     s1\<lparr>heartbeatTimer := el_nextTimer s1, el_intervals := el_intervals s1 @ [el_nextTimer s1], el_nextTimer := Suc (el_nextTimer s1)\<rparr>)"

definition heartbeat_fired :: "elixir \<Rightarrow> elixir" where
  "heartbeat_fired = el_send ''phoenix'' ''heartbeat''"

text \<open>
  \<open>const [, , , event, payload] = JSON.parse(e.data)\<close>: a string is destructured by its characters, so it never has the event; anything
  else that is not an array throws and is ignored.  The clock text is what \<open>toLocaleTimeString\<close> gives.
\<close>

definition el_onmessage :: "jsstr \<Rightarrow> jsstr \<Rightarrow> elixir \<Rightarrow> elixir" where
  "el_onmessage t clock s = (case JSON_parse t of
     Some (Arr vs) \<Rightarrow> (if 3 < length vs \<and> vs ! 3 = Str (js ''snapshot'')
       then s\<lparr>liveSnapshot := (if 4 < length vs then vs ! 4 else Undef), snapshotCount := Suc (snapshotCount s),
              wsLog := ([0xB9C8, 0xC9C0, 0xB9C9] @ js '' '' @ [0xC218, 0xC2E0] @ js '': '') @ clock @ (js '' ('' @ [0xCD1D] @ js '' '') @ nat_str (Suc (snapshotCount s)) @ ([0xD68C] @ js '')'')\<rparr>
       else s)
   | _ \<Rightarrow> s)"

definition el_onclose :: "elixir \<Rightarrow> elixir" where
  "el_onclose s0 = (let s = clear_heartbeat (s0\<lparr>wsConnected := False\<rparr>) in
     if \<not> intentionalClose s then scheduleReconnect (s\<lparr>wsLog := ([0xC5F0, 0xACB0] @ js '' '' @ [0xB04A, 0xAE40] @ js '' '' @ [0x2014] @ js '' '' @ [0xC7AC, 0xC5F0, 0xACB0] @ js '' '' @ [0xB300, 0xAE30] @ js ''...'')\<rparr>)
     else s\<lparr>wsLog := ([0xC5F0, 0xACB0] @ js '' '' @ [0xD574, 0xC81C, 0xB428])\<rparr>)"

definition el_onerror :: "elixir \<Rightarrow> elixir" where
  "el_onerror s = s\<lparr>wsLog := ([0xC5F0, 0xACB0] @ js '' '' @ [0xC2E4, 0xD328] @ js '' '' @ [0x2014] @ js '' Elixir '' @ [0xC11C, 0xBC84] @ js ''(:4000)'' @ [0xB97C] @ js '' '' @ [0xBA3C, 0xC800] @ js '' '' @ [0xC2E4, 0xD589, 0xD558, 0xC138, 0xC694])\<rparr>"

subsection \<open>Buttons\<close>

definition toggleAutoReconnect :: "elixir \<Rightarrow> elixir" where
  "toggleAutoReconnect s = (if \<not> autoReconnect s then connectWS (s\<lparr>autoReconnect := True, reconnectDelay := 3000\<rparr>)
     else let s1 = close_ws (clear_reconnect (s\<lparr>autoReconnect := False, intentionalClose := True\<rparr>)) in
       s1\<lparr>el_ws := None, wsConnected := False, wsLog := ([0xC790, 0xB3D9] @ js '' '' @ [0xC7AC, 0xC5F0, 0xACB0] @ js '' OFF '' @ [0x2014] @ js '' '' @ [0xC218, 0xB3D9] @ js '' '' @ [0xC5F0, 0xACB0] @ js '' '' @ [0xC0AC, 0xC6A9, 0xD558, 0xC138, 0xC694])\<rparr>)"

definition disconnectWS :: "elixir \<Rightarrow> elixir" where
  "disconnectWS s = (let s1 = close_ws (clear_reconnect (s\<lparr>intentionalClose := True\<rparr>)) in
     clear_heartbeat (s1\<lparr>el_ws := None, wsConnected := False, wsLog := ([0xC5F0, 0xACB0] @ js '' '' @ [0xD574, 0xC81C, 0xB428])\<rparr>))"

definition el_destroy :: "elixir \<Rightarrow> elixir" where
  "el_destroy s = close_ws (clear_heartbeat (clear_reconnect (s\<lparr>intentionalClose := True\<rparr>)))"

subsection \<open>Events\<close>

text \<open>The connect button is shown while \<open>wsConnected\<close> is false, the disconnect button while it is true.\<close>

datatype el_event =
    ClickConnect | ClickDisconnect | ClickAuto
  | SockOpen nat | SockMessage nat jsstr jsstr | SockError nat | SockClose nat
  | TimeoutFires nat | IntervalFires nat

fun el_step :: "elixir \<Rightarrow> el_event \<Rightarrow> elixir" where
  "el_step s ClickConnect = (if wsConnected s then s else connectWS s)"
| "el_step s ClickDisconnect = (if wsConnected s then disconnectWS s else s)"
| "el_step s ClickAuto = toggleAutoReconnect s"
| "el_step s (SockOpen i) = (if i \<in> set (el_alive s) \<and> i \<notin> set (el_closing s) \<and> i \<notin> set (el_open s)
     then el_onopen (s\<lparr>el_open := i # el_open s\<rparr>) else s)"
| "el_step s (SockMessage i t clock) = (if i \<in> set (el_alive s) \<and> i \<in> set (el_open s) \<and> i \<notin> set (el_closing s)
     then el_onmessage t clock s else s)"
| "el_step s (SockError i) = (if i \<in> set (el_alive s) then el_onerror s else s)"
| "el_step s (SockClose i) = (if i \<in> set (el_alive s)
     then el_onclose (s\<lparr>el_alive := removeAll i (el_alive s), el_open := removeAll i (el_open s)\<rparr>) else s)"
| "el_step s (TimeoutFires t) = (if t \<in> set (el_timeouts s)
     then reconnect_fired (s\<lparr>el_timeouts := removeAll t (el_timeouts s)\<rparr>) else s)"
| "el_step s (IntervalFires t) = (if t \<in> set (el_intervals s) then heartbeat_fired s else s)"

abbreviation el_run :: "el_event list \<Rightarrow> elixir" where
  "el_run evs \<equiv> foldl el_step elixir_init evs"

lemmas el_defs = clear_reconnect_def clear_heartbeat_def close_ws_def el_send_def connectWS_def scheduleReconnect_def
  reconnect_fired_def el_onopen_def heartbeat_fired_def el_onclose_def el_onerror_def toggleAutoReconnect_def
  disconnectWS_def el_destroy_def Let_def

subsection \<open>The backoff\<close>

text \<open>The delay is always one of the sequence that doubles from three seconds and stops at thirty.\<close>

definition backoff_ok :: "elixir \<Rightarrow> bool" where
  "backoff_ok s \<longleftrightarrow> reconnectDelay s \<in> {3000, 6000, 12000, 24000, 30000}"

lemma backoff_ok_cong: "reconnectDelay s' = reconnectDelay s \<Longrightarrow> backoff_ok s' = backoff_ok s"
  by (simp add: backoff_ok_def)

lemma delay_frame [frame_simps]:
  "reconnectDelay (clear_reconnect s) = reconnectDelay s" "reconnectDelay (clear_heartbeat s) = reconnectDelay s"
  "reconnectDelay (close_ws s) = reconnectDelay s" "reconnectDelay (el_send a b s) = reconnectDelay s"
  "reconnectDelay (connectWS s) = reconnectDelay s" "reconnectDelay (scheduleReconnect s) = reconnectDelay s"
  "reconnectDelay (el_onmessage t c s) = reconnectDelay s" "reconnectDelay (el_onclose s) = reconnectDelay s"
  "reconnectDelay (disconnectWS s) = reconnectDelay s"
  by (auto simp: el_defs el_onmessage_def split: option.split jsval.split)

lemma backoff_step: "backoff_ok s \<Longrightarrow> backoff_ok (el_step s e)"
  by (cases e) (auto simp: backoff_ok_def reconnect_fired_def el_onopen_def heartbeat_fired_def el_onerror_def
      toggleAutoReconnect_def Let_def frame_simps)


text \<open>
  The delay before a reconnection is at every moment one of 3, 6, 12, 24 and 30 seconds; a timer that fires advances it one place, up to
  the last.
\<close>

theorem elixir_backoff:
  "reconnectDelay (el_run evs) \<in> {3000, 6000, 12000, 24000, 30000}
     \<and> reconnectDelay (reconnect_fired (el_run evs)) \<in> {reconnectDelay (el_run evs), min (2 * reconnectDelay (el_run evs)) 30000}"
proof -
  have "backoff_ok (el_run evs)"
    by (induction evs rule: rev_induct) (simp_all add: backoff_step, simp add: backoff_ok_def elixir_init_def)
  then show ?thesis by (auto simp: backoff_ok_def reconnect_fired_def frame_simps)
qed

subsection \<open>Leaving\<close>

fun env_event :: "el_event \<Rightarrow> bool" where
  "env_event ClickConnect = False"
| "env_event ClickDisconnect = False"
| "env_event ClickAuto = False"
| "env_event _ = True"

lemma quiet_step:
  "intentionalClose s \<Longrightarrow> env_event e \<Longrightarrow> intentionalClose (el_step s e) \<and> el_nextSocket (el_step s e) = el_nextSocket s"
  by (cases e) (auto simp: el_defs el_onmessage_def split: option.split jsval.split)

text \<open>
  C20: After the panel is destroyed no event of the browser, be it a timer left behind, a late message or the close of the socket, opens
  another connection.
\<close>

theorem elixir_destroy_quiet:
  assumes "list_all env_event evs"
  shows "el_nextSocket (foldl el_step (el_destroy s) evs) = el_nextSocket s"
proof -
  have "intentionalClose (foldl el_step t evs) \<and> el_nextSocket (foldl el_step t evs) = el_nextSocket t"
    if "intentionalClose t" for t
    using assms that by (induction evs arbitrary: t) (simp_all add: quiet_step)
  from this [of "el_destroy s"] show ?thesis by (simp add: el_defs split: option.split)
qed

theorem elixir_destroy_quiet_witness:
  "el_nextSocket (foldl el_step (el_destroy (el_run [ClickAuto, SockOpen 0])) [SockClose 0, TimeoutFires 2]) = 1"
proof -
  have "el_nextSocket (el_run [ClickAuto, SockOpen 0]) = 1"
    by (simp add: elixir_init_def el_defs)
  moreover have "el_nextSocket (foldl el_step (el_destroy (el_run [ClickAuto, SockOpen 0])) [SockClose 0, TimeoutFires 2])
      = el_nextSocket (el_run [ClickAuto, SockOpen 0])"
    by (rule elixir_destroy_quiet) simp
  ultimately show ?thesis by (simp only:)
qed

subsection \<open>Reconnecting a connection that works\<close>

text \<open>
  Socket \<open>i\<close> is connected, and the close event of the socket \<open>j\<close> it replaced is still to come.
\<close>

definition replacing :: "nat \<Rightarrow> nat \<Rightarrow> elixir \<Rightarrow> bool" where
  "replacing i j s \<longleftrightarrow> el_ws s = Some i \<and> i \<in> set (el_open s) \<and> i \<notin> set (el_closing s) \<and> el_alive s = [j, i] \<and> j \<in> set (el_closing s)
     \<and> j < i \<and> el_nextSocket s = Suc i \<and> (\<forall>k \<in> set (el_open s). k \<le> i) \<and> (\<forall>k \<in> set (el_closing s). k \<le> i)
     \<and> autoReconnect s \<and> \<not> intentionalClose s \<and> el_timeouts s = [] \<and> wsConnected s"

lemma replacing_step:
  assumes "replacing i j s"
  shows "replacing (Suc i) i (foldl el_step s [SockClose j, TimeoutFires (el_nextTimer s), SockOpen (Suc i)])"
    and "el_nextTimer (foldl el_step s [SockClose j, TimeoutFires (el_nextTimer s), SockOpen (Suc i)]) = el_nextTimer s + 2"
proof -
  have "Suc i \<notin> set (el_open s)" "Suc i \<notin> set (el_closing s)" using assms by (auto simp: replacing_def)
  with assms show "replacing (Suc i) i (foldl el_step s [SockClose j, TimeoutFires (el_nextTimer s), SockOpen (Suc i)])"
    "el_nextTimer (foldl el_step s [SockClose j, TimeoutFires (el_nextTimer s), SockOpen (Suc i)]) = el_nextTimer s + 2"
    by (auto simp: replacing_def el_defs le_SucI)
qed

text \<open>Connecting by hand, then switching automatic reconnection on, then \<open>n\<close> rounds in which every socket works.\<close>

fun el_churn :: "nat \<Rightarrow> el_event list" where
  "el_churn 0 = [ClickConnect, SockOpen 0, ClickAuto, SockOpen 1]"
| "el_churn (Suc n) = el_churn n @ [SockClose n, TimeoutFires (3 + 2 * n), SockOpen (n + 2)]"

text \<open>
  C22: Switching automatic reconnection on while connected never settles: the close event of the replaced socket is taken for a failure of the
  new one, so every timer closes a connection that works and opens the next, without any error of the network, for ever.
\<close>

theorem elixir_reconnect_loop: "replacing (Suc n) n (el_run (el_churn n)) \<and> el_nextTimer (el_run (el_churn n)) = 3 + 2 * n"
proof (induction n)
  case 0
  show ?case by (simp add: replacing_def elixir_init_def el_defs)
next
  case (Suc n)
  then have r: "replacing (Suc n) n (el_run (el_churn n))" and t: "el_nextTimer (el_run (el_churn n)) = 3 + 2 * n" by auto
  have "el_run (el_churn (Suc n)) = foldl el_step (el_run (el_churn n)) [SockClose n, TimeoutFires (el_nextTimer (el_run (el_churn n))), SockOpen (Suc (Suc n))]"
    by (simp add: t)
  with replacing_step [OF r] t show ?case by simp
qed

section \<open>SystemStatusPanel\<close>

text \<open>
  \<open>onSync\<close> is the optional callback prop: absent, or a function that is counted and may throw.  The texts of the engine's own errors are
  an argument, \<open>engine\<close>.
\<close>

record sys =
  systemData :: jsval
  errorMsg :: jsval
  autoSync :: bool
  autoSyncInterval :: "nat option"
  aggregateData :: jsval
  sseSource :: "nat option"
  sseConnected :: bool
  reportData :: jsval
  reportLoading :: bool
  onSync_calls :: nat
  sy_intervals :: "nat list"
  sy_sources :: "nat list"
  sy_next :: nat
  sy_destroyed :: bool

definition sys_init :: sys where
  "sys_init = \<lparr>systemData = Null, errorMsg = Null, autoSync = False, autoSyncInterval = None, aggregateData = Null, sseSource = None,
     sseConnected = False, reportData = Null, reportLoading = False, onSync_calls = 0, sy_intervals = [], sy_sources = [], sy_next = 0,
     sy_destroyed = False\<rparr>"

definition runReport :: "jsstr \<Rightarrow> (sys, unit) task" where
  "runReport base = guarded reportLoading_update (Ret ()) (load_into reportData_update (base @ js ''/api/report'') ([0xB9AC, 0xD3EC, 0xD2B8] @ js '' '' @ [0xC0DD, 0xC131] @ js '' '' @ [0xC2E4, 0xD328]))
     (assign reportData_update (error_obj (js ''Go '' @ [0xD5C8, 0xBE0C] @ js '' '' @ [0xC811, 0xC18D] @ js '' '' @ [0xBD88, 0xAC00] @ js '' (:8080)'')))"

definition err_message :: "(exn \<Rightarrow> jsstr) \<Rightarrow> exn \<Rightarrow> jsstr" where
  "err_message engine e = (if e = JsError ''System Offline'' then js ''System Offline'' else engine e)"

definition call_onSync :: "exn option option \<Rightarrow> (sys, unit) task" where
  "call_onSync onSync = (case onSync of None \<Rightarrow> Ret ()
     | Some r \<Rightarrow> Upd (onSync_calls_update Suc) (case r of None \<Rightarrow> Ret () | Some e \<Rightarrow> Raise e))"

definition syncSystem :: "jsstr \<Rightarrow> (exn \<Rightarrow> jsstr) \<Rightarrow> exn option option \<Rightarrow> (sys, unit) task" where
  "syncSystem base engine onSync = try_catch
     (andthen_t (fetch (get_call (base @ js ''/api/status''))) (\<lambda>res.
        if \<not> res_ok res then Raise (JsError ''System Offline'')
        else block [andthen_t (json res) (assign systemData_update), assign errorMsg_update Null, call_onSync onSync]))
     (\<lambda>err. block [assign errorMsg_update (Str (err_message engine err)), assign systemData_update Null])"

definition close_source :: "sys \<Rightarrow> sys" where
  "close_source s = (case sseSource s of None \<Rightarrow> s | Some i \<Rightarrow> s\<lparr>sy_sources := removeAll i (sy_sources s)\<rparr>)"

definition toggleSSE :: "sys \<Rightarrow> sys" where
  "toggleSSE s = (if sseConnected s then (close_source s)\<lparr>sseSource := None, sseConnected := False\<rparr>
     else s\<lparr>sseSource := Some (sy_next s), sy_sources := sy_sources s @ [sy_next s], sy_next := Suc (sy_next s), sseConnected := True\<rparr>)"

definition sse_onmessage :: "jsstr \<Rightarrow> sys \<Rightarrow> sys" where
  "sse_onmessage t s = (case JSON_parse t of None \<Rightarrow> s | Some v \<Rightarrow> s\<lparr>aggregateData := v\<rparr>)"

definition sse_onerror :: "sys \<Rightarrow> sys" where
  "sse_onerror s = (close_source (s\<lparr>sseConnected := False\<rparr>))\<lparr>sseSource := None\<rparr>"

definition clear_sync :: "sys \<Rightarrow> sys" where
  "clear_sync s = (case autoSyncInterval s of None \<Rightarrow> s | Some i \<Rightarrow> s\<lparr>sy_intervals := removeAll i (sy_intervals s)\<rparr>)"

datatype sys_job = SyncJob | ReportJob

definition start_sync :: "jsstr \<Rightarrow> (exn \<Rightarrow> jsstr) \<Rightarrow> exn option option \<Rightarrow> (sys_job, sys) panel_state \<Rightarrow> (sys_job, sys) panel_state" where
  "start_sync base engine cb st = (let r = advance (syncSystem base engine cb) (fst st) in (fst r, snd st @ park SyncJob r))"

definition start_interval :: "sys \<Rightarrow> sys" where
  "start_interval s = s\<lparr>autoSyncInterval := Some (sy_next s), sy_intervals := sy_intervals s @ [sy_next s], sy_next := Suc (sy_next s)\<rparr>"

definition toggleAutoSync :: "jsstr \<Rightarrow> (exn \<Rightarrow> jsstr) \<Rightarrow> exn option option \<Rightarrow> (sys_job, sys) panel_state \<Rightarrow> (sys_job, sys) panel_state" where
  "toggleAutoSync base engine cb st = (let s = (fst st)\<lparr>autoSync := \<not> autoSync (fst st)\<rparr> in
     if autoSync s then let st' = start_sync base engine cb (s, snd st) in (start_interval (fst st'), snd st')
     else ((clear_sync s)\<lparr>autoSyncInterval := None\<rparr>, snd st))"

definition sys_destroy :: "sys \<Rightarrow> sys" where
  "sys_destroy s = (close_source (clear_sync s))\<lparr>sy_destroyed := True\<rparr>"

datatype sys_event =
    SySync | SyReport | SyToggleSSE | SyToggleAuto
  | SyInterval nat | SseMessage nat jsstr | SseError nat
  | SySettle nat "settled list" | SyDestroy

fun sys_step :: "jsstr \<Rightarrow> (exn \<Rightarrow> jsstr) \<Rightarrow> exn option option \<Rightarrow> (sys_job, sys) panel_state \<Rightarrow> sys_event
    \<Rightarrow> (sys_job, sys) panel_state" where
  "sys_step base engine cb (s, ps) SySync = (if sy_destroyed s then (s, ps) else start_sync base engine cb (s, ps))"
| "sys_step base engine cb (s, ps) SyReport = (if sy_destroyed s \<or> reportLoading s then (s, ps)
     else let r = advance (runReport base) s in (fst r, ps @ park ReportJob r))"
| "sys_step base engine cb (s, ps) SyToggleSSE = (if sy_destroyed s then (s, ps) else (toggleSSE s, ps))"
| "sys_step base engine cb (s, ps) SyToggleAuto = (if sy_destroyed s then (s, ps) else toggleAutoSync base engine cb (s, ps))"
| "sys_step base engine cb (s, ps) (SyInterval i) =
     (if i \<in> set (sy_intervals s) then start_sync base engine cb (s, ps) else (s, ps))"
| "sys_step base engine cb (s, ps) (SseMessage i t) = (if i \<in> set (sy_sources s) then (sse_onmessage t s, ps) else (s, ps))"
| "sys_step base engine cb (s, ps) (SseError i) = (if i \<in> set (sy_sources s) then (sse_onerror s, ps) else (s, ps))"
| "sys_step base engine cb (s, ps) (SySettle i rs) = (if i < length ps then case ps ! i of
        (h, Await _ k) \<Rightarrow> let r = advance (k rs) s in (fst r, take i ps @ park h r @ drop (Suc i) ps)
      | _ \<Rightarrow> (s, ps)
      else (s, ps))"
| "sys_step base engine cb (s, ps) SyDestroy = (sys_destroy s, ps)"

text \<open>What the panel holds of the browser.\<close>

definition held :: "sys \<Rightarrow> bool" where
  "held s \<longleftrightarrow> (if sy_destroyed s then sy_intervals s = [] \<and> sy_sources s = []
     else (autoSync s \<longleftrightarrow> autoSyncInterval s \<noteq> None) \<and> sy_intervals s = (case autoSyncInterval s of None \<Rightarrow> [] | Some i \<Rightarrow> [i])
       \<and> (sseConnected s \<longleftrightarrow> sseSource s \<noteq> None) \<and> sy_sources s = (case sseSource s of None \<Rightarrow> [] | Some i \<Rightarrow> [i]))"

text \<open>The tasks change none of it.\<close>

definition resources :: "sys \<Rightarrow> bool \<times> nat option \<times> nat option \<times> bool \<times> nat list \<times> nat list \<times> bool" where
  "resources s = (autoSync s, autoSyncInterval s, sseSource s, sseConnected s, sy_intervals s, sy_sources s, sy_destroyed s)"

definition harmless :: "(sys, unit) task \<Rightarrow> bool" where
  "harmless t \<longleftrightarrow> (\<forall>s. wp (\<lambda>_. True) (\<lambda>s s'. resources s' = resources s) t (\<lambda>_ _. True) (\<lambda>_ _. False) s)"

lemma harmless_tasks: "harmless (syncSystem base engine cb)" "harmless (runReport base)"
  unfolding harmless_def syncSystem_def runReport_def call_onSync_def
  by (simp_all add: wp_rules resources_def split: option.split)

lemma harmless_advance:
  assumes "harmless t"
  shows "resources (fst (advance t s)) = resources s" and "waits (snd (advance t s)) \<Longrightarrow> harmless (snd (advance t s))"
proof -
  have "resources (fst (advance t s)) = resources s \<and>
      wp (\<lambda>_. True) (\<lambda>s s'. resources s' = resources s) (snd (advance t s)) (\<lambda>_ _. True) (\<lambda>_ _. False) (fst (advance t s))"
    by (rule wp_advance [where R = "\<lambda>s s'. resources s' = resources s"]) (use assms in \<open>auto simp: harmless_def\<close>)
  then show "resources (fst (advance t s)) = resources s" "waits (snd (advance t s)) \<Longrightarrow> harmless (snd (advance t s))"
    by (simp, cases "snd (advance t s)") (auto simp: harmless_def)
qed

lemma held_cong: "resources s' = resources s \<Longrightarrow> held s' = held s"
  by (simp add: resources_def held_def)

definition sys_sound :: "(sys_job, sys) panel_state \<Rightarrow> bool" where
  "sys_sound st \<longleftrightarrow> held (fst st) \<and> (\<forall>p \<in> set (snd st). harmless (snd p))"

lemma sys_sound_resume:
  assumes "held s" "harmless t" "\<forall>p \<in> set (xs @ ys). harmless (snd p)"
  shows "sys_sound (fst (advance t s), xs @ park h (advance t s) @ ys)"
  using assms held_cong [OF harmless_advance(1) [OF assms(2)]] harmless_advance(2) [OF assms(2)]
  by (auto simp: sys_sound_def park_def)

lemma start_sync_sound: "sys_sound st \<Longrightarrow> sys_sound (start_sync base engine cb st)"
  using sys_sound_resume [OF _ harmless_tasks(1), of "fst st" "snd st" "[]"]
  by (simp add: start_sync_def sys_sound_def Let_def)

lemma toggle_auto_sound:
  assumes "sys_sound st" "\<not> sy_destroyed (fst st)"
  shows "sys_sound (toggleAutoSync base engine cb st)"
proof (cases "autoSync (fst st)")
  case True
  with assms show ?thesis
    by (auto simp: sys_sound_def toggleAutoSync_def clear_sync_def held_def split: option.split)
next
  case False
  let ?s = "(fst st)\<lparr>autoSync := True\<rparr>"
  have res: "resources (fst (advance (syncSystem base engine cb) ?s)) = resources ?s"
    by (rule harmless_advance(1) [OF harmless_tasks(1)])
  have "\<forall>p \<in> set (park SyncJob (advance (syncSystem base engine cb) ?s)). harmless (snd p)"
    using harmless_advance(2) [OF harmless_tasks(1)] by (auto simp: park_def)
  with assms False res show ?thesis
    by (auto simp: sys_sound_def toggleAutoSync_def start_sync_def start_interval_def held_def resources_def Let_def)
qed

lemma sys_step_sound: "sys_sound st \<Longrightarrow> sys_sound (sys_step base engine cb st e)"
proof -
  assume sound: "sys_sound st"
  obtain s ps where st: "st = (s, ps)" by fastforce
  have s: "held s" "\<forall>p \<in> set ps. harmless (snd p)" using sound by (auto simp: sys_sound_def st)
  show ?thesis
  proof (cases e)
    case SySync
    with sound start_sync_sound show ?thesis by (simp add: st)
  next
    case SyReport
    with sound s sys_sound_resume [OF s(1) harmless_tasks(2), of ps "[]"] show ?thesis by (simp add: st Let_def)
  next
    case SyToggleAuto
    with sound toggle_auto_sound [of st] show ?thesis by (simp add: st)
  next
    case (SyInterval i)
    with sound start_sync_sound show ?thesis by (simp add: st)
  next
    case (SySettle i rs)
    show ?thesis
    proof (cases "i < length ps \<and> waits (snd (ps ! i))")
      case True
      then obtain h qs k where i: "ps ! i = (h, Await qs k)" by (cases "ps ! i"; cases "snd (ps ! i)") auto
      have "harmless (k rs)" using s(2) True i nth_mem [of i ps] by (force simp: harmless_def)
      then have "sys_sound (fst (advance (k rs) s), take i ps @ park h (advance (k rs) s) @ drop (Suc i) ps)"
        by (rule sys_sound_resume [OF s(1)]) (use s(2) in \<open>auto dest: in_set_takeD in_set_dropD\<close>)
      with True i show ?thesis by (simp add: st SySettle Let_def)
    next
      case False
      then show ?thesis using sound by (auto simp: st SySettle split: prod.split task.split)
    qed
  qed (use sound in \<open>auto simp: st sys_sound_def held_def toggleSSE_def close_source_def sse_onmessage_def sse_onerror_def
        clear_sync_def sys_destroy_def split: option.splits if_splits\<close>)
qed

text \<open>
  C18: The status panel holds exactly what its switches say, whatever the order of clicks, timers, messages and answers: one polling interval
  while automatic synchronisation is on and none otherwise, one event source while it shows as connected and none otherwise; after the
  panel is destroyed it holds neither.
\<close>

theorem status_panel_resources: "held (fst (foldl (sys_step base engine cb) (sys_init, []) evs))"
proof -
  have "sys_sound (sys_init, [])" by (simp add: sys_sound_def held_def sys_init_def)
  then have "sys_sound (foldl (sys_step base engine cb) (sys_init, []) evs)"
    by (induction evs rule: rev_induct) (simp_all add: sys_step_sound)
  then show ?thesis by (simp add: sys_sound_def)
qed

text \<open>The flag of the report, with synchronisations running beside it.\<close>

fun sys_run :: "jsstr \<Rightarrow> (exn \<Rightarrow> jsstr) \<Rightarrow> exn option option \<Rightarrow> sys_job \<Rightarrow> (sys, unit) task" where
  "sys_run base engine cb SyncJob = syncSystem base engine cb"
| "sys_run base engine cb ReportJob = runReport base"

fun sys_flag :: "sys_job \<Rightarrow> unit option" where
  "sys_flag SyncJob = None"
| "sys_flag ReportJob = Some ()"

fun sys_enabled :: "sys_job \<Rightarrow> sys \<Rightarrow> bool" where
  "sys_enabled SyncJob s = True"
| "sys_enabled ReportJob s = (\<not> reportLoading s)"

lemma all_sys_job: "(\<forall>h. P h) \<longleftrightarrow> P SyncJob \<and> P ReportJob"
  by (metis sys_job.exhaust)

interpretation sys: panel "sys_run base engine cb" sys_enabled sys_flag "\<lambda>_. reportLoading"
    for base engine cb
  by (simp add: panel_def all_sys_job syncSystem_def runReport_def call_onSync_def wp_rules split: option.split)

end
