(* ===== verification/Portal_Charts.thy ===== *)
theory Portal_Charts
  imports Portal_Fetch
begin

text \<open>
  The drawing panels: \<open>ChartsPanel\<close>, which paints three charts on canvases, and \<open>DependencyMapPanel\<close>, an SVG map of the services.  A drawing is
  the list of calls on the canvas context.  The numbers of the services' JSON arrive as numbers; a member that may be missing is
  an option.  \<open>Math.exp\<close>, whose last bits the language leaves open, is an argument.
\<close>

section \<open>Scaling\<close>

text \<open>\<open>(v - lo) / (hi - lo)\<close>\<close>

definition scale01 :: "jsnum \<Rightarrow> jsnum \<Rightarrow> jsnum \<Rightarrow> jsnum" where
  "scale01 v lo hi = js_div (js_sub v lo) (js_sub hi lo)"

text \<open>\<open>Math.min(...xs)\<close> and \<open>Math.max(...xs)\<close>\<close>

definition math_min :: "jsnum list \<Rightarrow> jsnum" where
  "math_min xs = fold js_min xs PInf"

definition math_max :: "jsnum list \<Rightarrow> jsnum" where
  "math_max xs = fold js_max xs NInf"

section \<open>ChartsPanel\<close>

record charts =
  ch_loading :: bool
  mcData :: jsval
  smileData :: jsval
  varData :: jsval

definition charts_init :: charts where
  "charts_init = \<lparr>ch_loading = False, mcData = Null, smileData = Null, varData = Null\<rparr>"

text \<open>\<open>await Promise.all\<close> of \<open>fetch(c).then((x) => x.json()).catch(() => null)\<close>: it never rejects.\<close>

definition json_or_null :: "http_call list \<Rightarrow> ('s, jsval list) task" where
  "json_or_null cs = Await (map PJson cs) (\<lambda>rs. Ret (map (\<lambda>i.
     case (if i < length rs then json_of (rs ! i) else None) of None \<Rightarrow> Null | Some v \<Rightarrow> v) [0..<length cs]))"

definition fetchAll :: "jsstr \<Rightarrow> (charts, unit) task" where
  "fetchAll base = block [assign ch_loading_update True, try_finally
     (andthen_t (json_or_null
        [get_call (base @ js ''/api/julia/simulate?paths=200&days=252&vol=0.20&mu=0.05''),
         get_call (base @ js ''/api/fsharp/smile?s=100&r=0.05&t=1.0&k_min=80&k_max=120&steps=9&atm_vol=0.20&skew=-0.05&curvature=0.10&type=call''),
         get_call (base @ js ''/api/risk/summary'')]) (\<lambda>vs. case vs of
        [mc, smile, bulk] \<Rightarrow> block [assign mcData_update mc, assign smileData_update smile, assign varData_update bulk]
      | _ \<Rightarrow> Raise TypeError))
     (assign ch_loading_update False)]"

lemma wp_json_or_null [wp_rules]:
  "wp W K (json_or_null cs) Q E = (\<lambda>s. W s \<and> (\<forall>rs s'. W s' \<longrightarrow> Q (map (\<lambda>i.
     case (if i < length rs then json_of (rs ! i) else None) of None \<Rightarrow> Null | Some v \<Rightarrow> v) [0..<length cs]) s'))"
  by (simp add: json_or_null_def fun_eq_iff)

interpretation charts: panel "\<lambda>_. fetchAll base" "\<lambda>_ s. \<not> ch_loading s" Some "\<lambda>_ :: unit. ch_loading" for base
  by (simp add: panel_def fetchAll_def wp_rules)

datatype cmd =
    ClearRect jsnum jsnum jsnum jsnum
  | StrokeStyle jsstr
  | LineWidth jsnum
  | BeginPath
  | MoveTo jsnum jsnum
  | LineTo jsnum jsnum
  | StrokePath
  | FillStyle jsstr
  | FontOf jsstr
  | FillText jsstr jsnum jsnum
  | LineDash "nat list"
  | Circle jsnum jsnum jsnum
  | FillPath
  | FillRect jsnum jsnum jsnum jsnum

subsection \<open>Monte Carlo paths\<close>

record mc_data =
  mc_paths :: "jsnum list list option"
  mc_var95 :: "jsnum option"

definition mc_grid :: "jsnum \<Rightarrow> jsnum \<Rightarrow> jsnum \<Rightarrow> jsnum \<Rightarrow> nat \<Rightarrow> cmd list" where
  "mc_grid W H minV maxV i = (let y = js_div (js_mul H (jsnat i)) (jsnat 4);
     val = js_sub maxV (js_div (js_mul (js_sub maxV minV) (jsnat i)) (jsnat 4)) in
     [BeginPath, MoveTo (jsnat 0) y, LineTo W y, StrokePath, FillStyle (js ''#475569''), FontOf (js ''10px monospace''),
      FillText (toFixed 0 val) (jsnat 4) (js_sub y (jsnat 2))])"

text \<open>\<open>path[d]\<close> beyond the end is \<open>undefined\<close>, hence \<open>NaN\<close> in the arithmetic.\<close>

definition mc_point :: "jsnum \<Rightarrow> jsnum \<Rightarrow> jsnum \<Rightarrow> jsnum \<Rightarrow> nat \<Rightarrow> jsnum list \<Rightarrow> nat \<Rightarrow> jsnum \<times> jsnum" where
  "mc_point W H minV maxV days path d =
     (js_mul (js_div (jsnat d) (js_sub (jsnat days) (jsnat 1))) W,
      js_sub H (js_mul (scale01 (if d < length path then path ! d else NaN) minV maxV) H))"

fun polyline :: "(jsnum \<times> jsnum) list \<Rightarrow> cmd list" where
  "polyline [] = []"
| "polyline ((x, y) # ps) = MoveTo x y # map (\<lambda>(x, y). LineTo x y) ps"

definition mc_path :: "jsnum \<Rightarrow> jsnum \<Rightarrow> jsnum \<Rightarrow> jsnum \<Rightarrow> nat \<Rightarrow> jsnum list \<times> nat \<Rightarrow> cmd list" where
  "mc_path W H minV maxV days pp = (case pp of (path, p) \<Rightarrow>
     [StrokeStyle (if p = 0 then js ''#60a5fa'' else js ''rgba(99,102,241,'' @ num_str (js_add (lit 15 2) (jsnat 0)) @ js '')''),
      LineWidth (if p = 0 then lit 15 1 else lit 6 1), BeginPath]
     @ polyline (map (mc_point W H minV maxV days path) [0..<days]) @ [StrokePath])"

definition mc_var_line :: "jsnum \<Rightarrow> jsnum \<Rightarrow> jsnum \<Rightarrow> jsnum \<Rightarrow> jsnum \<Rightarrow> cmd list" where
  "mc_var_line W H minV maxV v = (let yVar = js_sub H (js_mul (js_div (js_sub (js_add v (jsnat 100)) minV) (js_sub maxV minV)) H) in
     [StrokeStyle (js ''#ef4444''), LineWidth (lit 15 1), LineDash [4, 3], BeginPath, MoveTo (jsnat 0) yVar, LineTo W yVar, StrokePath,
      LineDash [], FillStyle (js ''#ef4444''), FontOf (js ''10px monospace''),
      FillText (js ''VaR95% '' @ toFixed 2 v) (jsnat 4) (js_sub yVar (jsnat 3))])"

text \<open>
  The calls made, and the exception that ended them: \<open>paths[0].length\<close> of no paths.
\<close>

definition drawMC :: "(nat \<times> nat) option \<Rightarrow> mc_data \<Rightarrow> cmd list \<times> exn option" where
  "drawMC mcCanvas data = (case (mcCanvas, mc_paths data) of
     (Some (w, h), Some paths) \<Rightarrow>
       (let W = jsnat w; H = jsnat h; allVals = concat paths; minV = math_min allVals; maxV = math_max allVals;
            clear = ClearRect (jsnat 0) (jsnat 0) W H in
        case paths of [] \<Rightarrow> ([clear], Some TypeError)
        | path0 # _ \<Rightarrow>
          ([clear, StrokeStyle (js ''#1e293b''), LineWidth (jsnat 1)]
           @ concat (map (mc_grid W H minV maxV) [0..<5])
           @ concat (map (mc_path W H minV maxV (length path0)) (zip (take 80 paths) [0..<80]))
           @ (case mc_var95 data of None \<Rightarrow> [] | Some v \<Rightarrow> if js_truthy_num v then mc_var_line W H minV maxV v else []), None))
   | _ \<Rightarrow> ([], None))"

subsection \<open>Volatility smile\<close>

type_synonym smile_pt = "jsnum \<times> jsnum"   \<comment> \<open>\<open>strike\<close> and \<open>iv\<close>\<close>

definition smile_grid :: "jsnum \<Rightarrow> jsnum \<Rightarrow> jsnum \<Rightarrow> jsnum \<Rightarrow> nat \<Rightarrow> cmd list" where
  "smile_grid W H minIV maxIV i = (let y = js_div (js_mul H (jsnat i)) (jsnat 4);
     val = js_sub maxIV (js_div (js_mul (js_sub maxIV minIV) (jsnat i)) (jsnat 4)) in
     [BeginPath, MoveTo (jsnat 40) y, LineTo W y, StrokePath, FillStyle (js ''#475569''), FontOf (js ''10px monospace''),
      FillText (toFixed 1 (js_mul val (jsnat 100)) @ js ''%'') (jsnat 2) (js_add y (jsnat 3))])"

definition smile_x :: "jsnum \<Rightarrow> jsnum \<Rightarrow> jsnum \<Rightarrow> jsnum \<Rightarrow> jsnum" where
  "smile_x W minK maxK k = js_add (jsnat 40) (js_mul (scale01 k minK maxK) (js_sub W (jsnat 44)))"

definition smile_y :: "jsnum \<Rightarrow> jsnum \<Rightarrow> jsnum \<Rightarrow> jsnum \<Rightarrow> jsnum" where
  "smile_y H minIV maxIV v = js_sub H (js_mul (scale01 v minIV maxIV) H)"

definition smile_dot :: "jsnum \<Rightarrow> jsnum \<times> jsnum \<Rightarrow> jsnum \<Rightarrow> cmd list" where
  "smile_dot H xy strike = (case xy of (x, y) \<Rightarrow>
     [FillStyle (js ''#c4b5fd''), BeginPath, Circle x y (jsnat 3), FillPath, FillStyle (js ''#94a3b8''), FontOf (js ''9px monospace''),
      FillText (num_str strike) (js_sub x (jsnat 8)) (js_sub H (jsnat 2))])"

definition drawSmile :: "(nat \<times> nat) option \<Rightarrow> smile_pt list option \<Rightarrow> cmd list" where
  "drawSmile smileCanvas smile = (case (smileCanvas, smile) of
     (Some (w, h), Some pts) \<Rightarrow>
       (let W = jsnat w; H = jsnat h; strikes = map fst pts; ivs = map snd pts;
            minK = math_min strikes; maxK = math_max strikes;
            minIV = js_mul (math_min ivs) (lit 9 1); maxIV = js_mul (math_max ivs) (lit 105 2);
            xAtm = js_add (jsnat 40) (js_mul (js_div (js_sub (jsnat 100) minK) (js_sub maxK minK)) (js_sub W (jsnat 44)));
            xy = map (\<lambda>(k, v). (smile_x W minK maxK k, smile_y H minIV maxIV v)) pts in
        [ClearRect (jsnat 0) (jsnat 0) W H, StrokeStyle (js ''#1e293b''), LineWidth (jsnat 1)]
        @ concat (map (smile_grid W H minIV maxIV) [0..<5])
        @ [StrokeStyle (js ''#374151''), LineWidth (jsnat 1), LineDash [3, 3], BeginPath, MoveTo xAtm (jsnat 0), LineTo xAtm H, StrokePath,
           LineDash []]
        @ [StrokeStyle (js ''#a78bfa''), LineWidth (jsnat 2), BeginPath] @ polyline xy @ [StrokePath]
        @ concat (map2 (smile_dot H) xy strikes))
   | _ \<Rightarrow> [])"

subsection \<open>VaR histogram\<close>

record var_data =
  v_avg_var :: "jsnum option"
  v_avg :: "jsnum option"
  v_min_var :: "jsnum option"
  v_min :: "jsnum option"
  v_max_var :: "jsnum option"
  v_max :: "jsnum option"
  v_p95_var :: "jsnum option"
  v_p95 :: "jsnum option"

text \<open>\<open>a ?? b ?? c\<close>\<close>

definition orelse2 :: "jsnum option \<Rightarrow> jsnum option \<Rightarrow> jsnum \<Rightarrow> jsnum" where
  "orelse2 a b c = (case a of Some x \<Rightarrow> x | None \<Rightarrow> (case b of Some x \<Rightarrow> x | None \<Rightarrow> c))"

definition bin_center :: "jsnum \<Rightarrow> jsnum \<Rightarrow> nat \<Rightarrow> jsnum" where
  "bin_center minV binW i = js_add minV (js_mul (js_add (jsnat i) (lit 5 1)) binW)"

definition var_bins :: "(jsnum \<Rightarrow> jsnum) \<Rightarrow> jsnum \<Rightarrow> jsnum \<Rightarrow> jsnum \<Rightarrow> jsnum \<Rightarrow> jsnum list" where
  "var_bins exp_fn avg std minV binW = map (\<lambda>i. let z = js_div (js_sub (bin_center minV binW i) avg) std in
     exp_fn (js_mul (js_mul (js_neg (lit 5 1)) z) z)) [0..<30]"

definition var_bar :: "jsnum \<Rightarrow> jsnum \<Rightarrow> jsnum \<Rightarrow> jsnum \<Rightarrow> jsnum \<Rightarrow> jsnum \<Rightarrow> jsnum \<times> nat \<Rightarrow> cmd list" where
  "var_bar H bw maxBin minV binW p95 vi = (case vi of (v, i) \<Rightarrow>
     (let pad = jsnat 40; barH = js_div (js_mul (js_sub H (js_mul pad (jsnat 2))) v) maxBin; x = js_add pad (js_mul (jsnat i) bw);
          y = js_sub (js_sub H pad) barH in
      [FillStyle (if js_le p95 (bin_center minV binW i) then js ''#ef4444'' else js ''#6366f1''), FillRect x y (js_sub bw (jsnat 1)) barH]))"

definition var_marker :: "jsnum \<Rightarrow> jsnum \<Rightarrow> jsnum \<Rightarrow> jsnum \<Rightarrow> jsnum \<Rightarrow> string \<Rightarrow> jsnum \<Rightarrow> nat list \<Rightarrow> string \<Rightarrow> nat \<Rightarrow> cmd list" where
  "var_marker W H minV maxV v color width dash label dy =
     (let pad = jsnat 40; x = js_add pad (js_mul (scale01 v minV maxV) (js_sub W (js_mul pad (jsnat 2)))) in
      [StrokeStyle (js color), LineWidth width, LineDash dash, BeginPath, MoveTo x pad, LineTo x (js_sub H pad), StrokePath, LineDash [],
       FillStyle (js color), FontOf (js ''10px monospace''), FillText (js label @ toFixed 4 v) (js_add x (jsnat 3)) (js_add pad (jsnat dy))])"

definition drawVaR :: "(jsnum \<Rightarrow> jsnum) \<Rightarrow> (nat \<times> nat) option \<Rightarrow> var_data option \<Rightarrow> cmd list" where
  "drawVaR exp_fn varCanvas data = (case (varCanvas, data) of
     (Some (w, h), Some d) \<Rightarrow>
       (let W = jsnat w; H = jsnat h; avg = orelse2 (v_avg_var d) (v_avg d) (jsnat 0);
            minV = orelse2 (v_min_var d) (v_min d) (js_mul avg (lit 5 1)); maxV = orelse2 (v_max_var d) (v_max d) (js_mul avg (lit 15 1));
            p95 = orelse2 (v_p95_var d) (v_p95 d) (js_mul avg (lit 13 1));
            std = js_div (js_sub maxV minV) (jsnat 6); binW = js_div (js_sub maxV minV) (jsnat 30);
            bins = var_bins exp_fn avg std minV binW; maxBin = math_max bins;
            pad = jsnat 40; bw = js_div (js_sub W (js_mul pad (jsnat 2))) (jsnat 30) in
        [ClearRect (jsnat 0) (jsnat 0) W H, StrokeStyle (js ''#1e293b''), LineWidth (jsnat 1)]
        @ concat (map (\<lambda>i. let y = js_add pad (js_div (js_mul (js_sub H (js_mul pad (jsnat 2))) (jsnat i)) (jsnat 4)) in
            [BeginPath, MoveTo pad y, LineTo (js_sub W (jsnat 10)) y, StrokePath]) [0..<5])
        @ concat (map (var_bar H bw maxBin minV binW p95) (zip bins [0..<30]))
        @ var_marker W H minV maxV p95 ''#ef4444'' (jsnat 2) [4, 3] ''p95: '' 12
        @ var_marker W H minV maxV avg ''#22c55e'' (lit 15 1) [3, 3] ''avg: '' 24
        @ [FillStyle (js ''#475569''), FontOf (js ''9px monospace''), FillText (toFixed 3 minV) pad (js_sub H (jsnat 4)),
           FillText (toFixed 3 maxV) (js_sub (js_sub W pad) (jsnat 10)) (js_sub H (jsnat 4))])
   | _ \<Rightarrow> [])"

section \<open>DependencyMapPanel\<close>

record node =
  nd_id :: jsstr
  nd_label :: jsstr
  nd_port :: jsstr
  nd_color :: jsstr
  nd_x :: nat
  nd_y :: nat

definition node :: "string \<Rightarrow> string \<Rightarrow> string \<Rightarrow> string \<Rightarrow> nat \<Rightarrow> nat \<Rightarrow> node" where
  "node i l p c x y = \<lparr>nd_id = js i, nd_label = js l, nd_port = js p, nd_color = js c, nd_x = x, nd_y = y\<rparr>"

definition NODES_core :: "node list" where
  "NODES_core =
     [node ''svelte'' ''Svelte 5'' '':5173'' ''#ff3e00'' 50 5,
      node ''go'' ''Go Hub'' '':8080'' ''#00acd7'' 50 20,
      node ''redis'' ''Redis'' '':6379'' ''#dc382c'' 15 35,
      node ''pg8080'' ''PostgreSQL'' '':5432'' ''#336791'' 32 35,
      node ''python'' ''Python'' '':8000'' ''#3572a5'' 70 35,
      node ''rust'' ''Rust Axum'' '':8081'' ''#dea584'' 85 35,
      node ''cpp'' ''C++ FFI'' ''lib'' ''#555555'' 60 50,
      node ''zig'' ''Zig FFI'' ''lib'' ''#f7a41d'' 75 50,
      node ''julia'' ''Julia'' '':8002'' ''#9558b2'' 88 50,
      node ''pg8081'' ''PostgreSQL'' '':5433'' ''#336791'' 95 35]"

definition NODES_services :: "node list" where
  "NODES_services =
     [node ''kotlin'' ''Kotlin'' '':9000'' ''#f18e33'' 5 55,
      node ''elixir'' ''Elixir'' '':4000'' ''#6e4a7e'' 5 65,
      node ''r'' ''R'' '':8003'' ''#276dc3'' 5 75,
      node ''fsharp'' ''F#'' '':9001'' ''#378bba'' 18 55,
      node ''ocaml'' ''OCaml'' '':8004'' ''#ee7832'' 18 65,
      node ''crystal'' ''Crystal'' '':9002'' ''#000000'' 18 75,
      node ''nim'' ''Nim'' '':8005'' ''#ffe953'' 32 55,
      node ''scala'' ''Scala'' '':9003'' ''#dc322f'' 32 65,
      node ''haskell'' ''Haskell'' '':8006'' ''#5e5086'' 32 75,
      node ''ruby'' ''Ruby'' '':9004'' ''#cc342d'' 45 55,
      node ''dart'' ''Dart'' '':9005'' ''#00b4ab'' 45 65,
      node ''gleam'' ''Gleam'' '':4001'' ''#ffaff3'' 45 75,
      node ''v'' ''V'' '':4002'' ''#5d87bf'' 60 65,
      node ''erlang'' ''Erlang'' '':4003'' ''#b83998'' 60 75,
      node ''lua'' ''Lua Coroutine'' '':8007'' ''#000080'' 72 65,
      node ''swift'' ''Swift Actor'' '':8008'' ''#f05138'' 72 75,
      node ''clojure'' ''Clojure STM'' '':8009'' ''#5881d8'' 82 65,
      node ''java'' ''Java Loom'' '':8010'' ''#007396'' 82 75,
      node ''prolog'' ''Prolog'' '':8011'' ''#8b0000'' 92 65,
      node ''wasm'' ''WASM'' ''browser'' ''#654ff0'' 92 75]"

definition NODES :: "node list" where
  "NODES = NODES_core @ NODES_services"

lemmas NODES_defs = NODES_def NODES_core_def NODES_services_def

record edge =
  eg_from :: jsstr
  eg_to :: jsstr
  eg_label :: jsstr
  eg_style :: "jsstr option"

definition edge :: "string \<Rightarrow> string \<Rightarrow> string \<Rightarrow> string option \<Rightarrow> edge" where
  "edge a b l st = \<lparr>eg_from = js a, eg_to = js b, eg_label = js l, eg_style = map_option js st\<rparr>"

definition EDGES :: "edge list" where
  "EDGES =
     [edge ''svelte'' ''go'' ''fetch'' None,
      edge ''svelte'' ''wasm'' ''WASM'' (Some ''dashed''),
      edge ''go'' ''redis'' ''Lua EVAL'' None,
      edge ''go'' ''pg8080'' ''SQL'' None,
      edge ''go'' ''python'' ''proxy'' None,
      edge ''go'' ''rust'' ''proxy'' None,
      edge ''go'' ''kotlin'' ''proxy'' None,
      edge ''go'' ''elixir'' ''proxy'' None,
      edge ''go'' ''r'' ''proxy'' None,
      edge ''go'' ''fsharp'' ''proxy'' None,
      edge ''go'' ''ocaml'' ''proxy'' None,
      edge ''go'' ''crystal'' ''proxy'' None,
      edge ''go'' ''nim'' ''proxy'' None,
      edge ''go'' ''scala'' ''proxy'' None,
      edge ''go'' ''haskell'' ''proxy'' None,
      edge ''go'' ''ruby'' ''proxy'' None,
      edge ''go'' ''dart'' ''proxy'' None,
      edge ''go'' ''gleam'' ''proxy'' None,
      edge ''go'' ''v'' ''proxy'' None,
      edge ''go'' ''erlang'' ''proxy'' None,
      edge ''go'' ''lua'' ''proxy'' None,
      edge ''go'' ''swift'' ''proxy'' None,
      edge ''go'' ''clojure'' ''proxy'' None,
      edge ''go'' ''java'' ''proxy'' None,
      edge ''go'' ''prolog'' ''proxy'' None,
      edge ''python'' ''cpp'' ''ctypes'' None,
      edge ''python'' ''zig'' ''ctypes'' None,
      edge ''python'' ''julia'' ''HTTP'' None,
      edge ''rust'' ''pg8081'' ''sqlx'' None]"

definition map_W :: jsnum where "map_W = jsnat 900"
definition map_H :: jsnum where "map_H = jsnat 540"

definition nx :: "node \<Rightarrow> jsnum" where
  "nx n = js_mul (js_div (jsnat (nd_x n)) (jsnat 100)) map_W"

definition ny :: "node \<Rightarrow> jsnum" where
  "ny n = js_mul (js_div (jsnat (nd_y n)) (jsnat 100)) map_H"

definition nodeMap :: "jsstr \<Rightarrow> node option" where
  "nodeMap = map_of (rev (map (\<lambda>n. (nd_id n, n)) NODES))"

text \<open>The line of an edge: both ends, colour, width and dashes; an edge with an unknown end is not drawn.\<close>

record map_line =
  ln_from :: "jsnum \<times> jsnum"
  ln_to :: "jsnum \<times> jsnum"
  ln_stroke :: jsstr
  ln_width :: jsnum
  ln_dash :: jsstr

definition edge_line :: "edge \<Rightarrow> map_line option" where
  "edge_line e = (case (nodeMap (eg_from e), nodeMap (eg_to e)) of
     (Some a, Some b) \<Rightarrow> (let dashed = (eg_style e = Some (js ''dashed'')) in
       Some \<lparr>ln_from = (nx a, ny a), ln_to = (nx b, ny b), ln_stroke = (if dashed then js ''#f59e0b'' else js ''#334155''),
         ln_width = (if dashed then lit 15 1 else lit 8 1), ln_dash = (if dashed then js ''4 3'' else js ''none'')\<rparr>)
   | _ \<Rightarrow> None)"

definition map_lines :: "map_line list" where
  "map_lines = List.map_filter edge_line EDGES"

record map_node =
  mn_pos :: "jsnum \<times> jsnum"
  mn_radius :: nat
  mn_fill :: jsstr
  mn_stroke :: jsstr
  mn_font :: nat
  mn_bold :: bool

definition node_view :: "jsstr \<Rightarrow> node \<Rightarrow> map_node" where
  "node_view hoverId n = (let hovered = (hoverId = nd_id n) in
     \<lparr>mn_pos = (nx n, ny n), mn_radius = (if hovered then 14 else 10),
      mn_fill = (if nd_color n \<noteq> [] then nd_color n else js ''#6366f1''),
      mn_stroke = (if hovered then js ''#fff'' else js ''#1e293b''), mn_font = (if hovered then 11 else 9), mn_bold = hovered\<rparr>)"

section \<open>Drawings stay on the canvas\<close>

lemma scale01_range:
  assumes "fl_rat v = v" "lo \<le> v" "v \<le> hi" "lo < hi" "fl_rat (hi - lo) < 2 ^ 1024"
    and "fl_rat lo = lo \<or> lo = fl_rat x" "fl_rat hi = hi \<or> hi = fl_rat y"
  shows "\<exists>r. scale01 (Fin v) (Fin lo) (Fin hi) = Fin r \<and> 0 \<le> r \<and> r \<le> 1"
proof -
  obtain m n where m: "lo = of_int m * 2 powi (- 1074)" and n: "hi = of_int n * 2 powi (- 1074)"
    using assms(6,7) fl_rat_multiple by metis
  have pos: "0 < fl_rat (hi - lo)"
    by (rule fl_rat_pos [of _ "n - m"]) (use assms in \<open>simp_all add: m n left_diff_distrib\<close>)
  have a: "0 \<le> fl_rat (v - lo)" "fl_rat (v - lo) \<le> fl_rat (hi - lo)"
    using assms by (auto intro: fl_rat_nonneg fl_rat_mono)
  have subs: "js_sub (Fin v) (Fin lo) = Fin (fl_rat (v - lo))" "js_sub (Fin hi) (Fin lo) = Fin (fl_rat (hi - lo))"
    using a pos assms(5) by (auto simp: js_sub_def intro!: fl_small)
  have "of_int 0 \<le> fl_rat (v - lo) / fl_rat (hi - lo)" "fl_rat (v - lo) / fl_rat (hi - lo) \<le> of_int 1"
    using a pos by simp_all
  from fl_in_range [OF this] obtain r where "fl (fl_rat (v - lo) / fl_rat (hi - lo)) = Fin r" "0 \<le> r" "r \<le> 1" by auto
  with pos show ?thesis by (simp add: scale01_def subs)
qed

text \<open>A share of a length of at most \<open>2^52\<close> stays within the length, also when it is measured from the far end.\<close>

lemma share_range:
  assumes "0 \<le> r" "r \<le> 1" "w \<le> 2 ^ 52"
  shows "\<exists>x. js_mul (Fin r) (jsnat w) = Fin x \<and> 0 \<le> x \<and> x \<le> of_nat w"
    and "\<exists>y. js_sub (jsnat w) (js_mul (Fin r) (jsnat w)) = Fin y \<and> 0 \<le> y \<and> y \<le> of_nat w"
proof -
  have w: "\<bar>int w\<bar> < 2 ^ 53" using of_nat_mono [OF assms(3), where 'a = int] by simp
  have "r * of_nat w \<le> 1 * of_nat w" using assms by (intro mult_right_mono) auto
  then obtain x where x: "fl (r * of_nat w) = Fin x" "0 \<le> x" "x \<le> of_nat w"
    using fl_in_range [of 0 "r * of_nat w" "int w"] assms w by auto
  then show "\<exists>x. js_mul (Fin r) (jsnat w) = Fin x \<and> 0 \<le> x \<and> x \<le> of_nat w" by auto
  have "0 \<le> of_nat w - x" "of_nat w - x \<le> of_nat w" using x by auto
  then obtain y where "fl (of_nat w - x) = Fin y" "0 \<le> y" "y \<le> of_nat w"
    using fl_in_range [of 0 "of_nat w - x" "int w"] w by auto
  then show "\<exists>y. js_sub (jsnat w) (js_mul (Fin r) (jsnat w)) = Fin y \<and> 0 \<le> y \<and> y \<le> of_nat w"
    using x(1) by (simp add: js_sub_def)
qed

definition in_canvas :: "nat \<Rightarrow> nat \<Rightarrow> jsnum \<times> jsnum \<Rightarrow> bool" where
  "in_canvas w h xy \<longleftrightarrow> (\<exists>x y. xy = (Fin x, Fin y) \<and> 0 \<le> x \<and> x \<le> of_nat w \<and> 0 \<le> y \<and> y \<le> of_nat h)"

fun inside :: "nat \<Rightarrow> nat \<Rightarrow> cmd \<Rightarrow> bool" where
  "inside w h (MoveTo x y) = in_canvas w h (x, y)"
| "inside w h (LineTo x y) = in_canvas w h (x, y)"
| "inside w h (Circle x y r) = in_canvas w h (x, y)"
| "inside w h _ = True"

lemma math_min_Fin: "math_min (map Fin (r # rs)) = Fin (Min (set (r # rs)))"
proof -
  have "fold js_min (map Fin rs) (Fin m) = Fin (fold min rs m)" for m
    by (induction rs arbitrary: m) (auto simp: js_min_def min_def)
  then show ?thesis by (simp add: math_min_def js_min_def Min.set_eq_fold [symmetric] del: Min_insert)
qed

lemma math_max_Fin: "math_max (map Fin (r # rs)) = Fin (Max (set (r # rs)))"
proof -
  have "fold js_max (map Fin rs) (Fin m) = Fin (fold max rs m)" for m
    by (induction rs arbitrary: m) (auto simp: js_max_def max_def)
  then show ?thesis by (simp add: math_max_def js_max_def Max.set_eq_fold [symmetric] del: Max_insert)
qed

lemma grid_y: "h \<le> 2 ^ 50 \<Longrightarrow> i \<le> 4 \<Longrightarrow> \<exists>y. js_div (js_mul (jsnat h) (jsnat i)) (jsnat 4) = Fin y \<and> 0 \<le> y \<and> y \<le> of_nat h"
proof -
  assume h: "h \<le> 2 ^ 50" and i: "i \<le> 4"
  have hi: "h * i < 2 ^ 53" using mult_le_mono [OF h i] by simp
  then have "fl (of_nat h * of_nat i) = Fin (of_nat (h * i))" using fl_nat [of "h * i"] by simp
  then have mul: "js_mul (jsnat h) (jsnat i) = Fin (of_nat (h * i))" by simp
  have "of_nat (h * i) / 4 \<le> (of_nat h :: rat)"
    using of_nat_mono [of "h * i" "h * 4", where 'a = rat] i by simp
  moreover have "\<bar>int h\<bar> < 2 ^ 53" using of_nat_mono [OF h, where 'a = int] by simp
  ultimately obtain y where "fl (of_nat (h * i) / 4) = Fin y" "0 \<le> y" "y \<le> of_nat h"
    using fl_in_range [of 0 "of_nat (h * i) / 4" "int h"] by auto
  then show ?thesis by (auto simp: mul simp del: js_mul.simps of_nat_mult)
qed

lemma grid_inside: "w \<le> 2 ^ 50 \<Longrightarrow> h \<le> 2 ^ 50 \<Longrightarrow> i \<le> 4 \<Longrightarrow>
  list_all (inside w h) (mc_grid (jsnat w) (jsnat h) minV maxV i)"
  using grid_y [of h i] by (auto simp: mc_grid_def in_canvas_def Let_def simp del: js_div.simps js_mul.simps)

lemma mc_point_inside:
  assumes "w \<le> 2 ^ 52" "h \<le> 2 ^ 52" "d < n" "1 < n" "n \<le> 2 ^ 52" "length p = n"
    and "\<And>v. v \<in> set p \<Longrightarrow> fl_rat v = v \<and> lo \<le> v \<and> v \<le> hi"
    and "fl_rat lo = lo" "fl_rat hi = hi" "lo < hi" "fl_rat (hi - lo) < 2 ^ 1024"
  shows "in_canvas w h (mc_point (jsnat w) (jsnat h) (Fin lo) (Fin hi) n (map Fin p) d)"
proof -
  have v: "p ! d \<in> set p" "d < length p" using assms(3,6) by auto
  then obtain r where r: "scale01 (Fin (p ! d)) (Fin lo) (Fin hi) = Fin r" "0 \<le> r" "r \<le> 1"
    using scale01_range [of "p ! d" lo hi] assms by blast
  have n1: "(of_nat n :: rat) - 1 = of_nat (n - 1)" using assms(4) by (simp add: of_nat_diff)
  have "fl (of_nat n - 1) = jsnat (n - 1)" unfolding n1 by (rule fl_nat) (use assms(5) in simp)
  then have sub: "js_sub (jsnat n) (Fin 1) = jsnat (n - 1)" by (simp add: js_sub_def)
  have "(of_nat d :: rat) \<le> of_nat (n - 1)" "(0::rat) < of_nat (n - 1)" using assms(3,4) by simp_all
  then obtain q where q: "fl (of_nat d / of_nat (n - 1)) = Fin q" "0 \<le> q" "q \<le> 1"
    using fl_in_range [of 0 "of_nat d / of_nat (n - 1)" 1] by auto
  have div: "js_div (jsnat d) (js_sub (jsnat n) (Fin 1)) = Fin q" unfolding sub using q(1) assms(4) by simp
  from share_range [OF q(2,3) assms(1)] share_range [OF r(2,3) assms(2)] r(1) v(2) show ?thesis
    by (auto simp: mc_point_def in_canvas_def div simp del: js_div.simps js_mul.simps)
qed

lemma polyline_inside: "list_all (in_canvas w h) ps \<Longrightarrow> list_all (inside w h) (polyline ps)"
  by (cases ps) (auto simp: list_all_iff)



subsection \<open>The smile\<close>

lemma math_ends:
  assumes "xs \<noteq> []"
  shows "math_min (map Fin xs) = Fin (Min (set xs))" "math_max (map Fin xs) = Fin (Max (set xs))"
  using assms math_min_Fin math_max_Fin by (cases xs; simp)+

text \<open>The margins of a tenth below and a twentieth above the volatilities, rounded, leave room on both sides.\<close>

lemma smile_margins:
  assumes "1 / 1000 \<le> m" "m \<le> n" "n \<le> 1000" "fl_rat n = n"
  shows "\<exists>a b lo hi. js_mul (Fin m) (lit 9 1) = Fin lo \<and> js_mul (Fin n) (lit 105 2) = Fin hi \<and> lo = fl_rat a \<and> hi = fl_rat b
     \<and> lo < m \<and> n \<le> hi \<and> 0 \<le> lo \<and> hi \<le> 2000"
proof -
  have pow: "(2000::rat) < 2 ^ 1024" using pow_53_1024 by simp
  have nine: "\<bar>fl_rat (9 / 10) - 9 / 10\<bar> \<le> 1 / 1000" by (rule order_trans [OF fl_rat_err]) simp_all
  have five: "\<bar>fl_rat (105 / 100) - 105 / 100\<bar> \<le> 1 / 1000" by (rule order_trans [OF fl_rat_err]) simp_all
  define p q where "p = fl_rat (9 / 10)" and "q = fl_rat (105 / 100)"
  have p: "89 / 100 \<le> p" "p \<le> 91 / 100" and q: "104 / 100 \<le> q" "q \<le> 106 / 100"
    unfolding p_def q_def using nine five by - linarith+
  have lits: "lit 9 1 = Fin p" "lit 105 2 = Fin q"
    using p q pow unfolding p_def q_def lit_def by (simp_all add: fl_small)
  have mp: "0 < m * p" "m * p \<le> m * (91 / 100)" using assms p by (auto intro: mult_left_mono)
  have e: "(1::rat) / 2 ^ 22 \<le> 1 / 1000000" by simp
  have "m * p \<le> 1000" using mp(2) assms(2,3) by linarith
  then have "m * p < 2 ^ 32" by simp
  from fl_rat_err [OF mp(1) this] have "fl_rat (m * p) \<le> m * p + 1 / 2 ^ 22" by linarith
  also have "\<dots> < m" using mp(2) e assms(1) by linarith
  finally have lo: "fl_rat (m * p) < m" .
  have lo0: "0 \<le> fl_rat (m * p)" by (rule fl_rat_nonneg) (use mp in simp)
  have nq: "n * 1 \<le> n * q" "n * q \<le> n * (106 / 100)" using assms q by (auto intro!: mult_left_mono)
  have "0 < n * q" "n * q \<le> 1060" using nq assms(1-3) by linarith+
  then have "0 < n * q" "n * q < 2 ^ 32" by simp_all
  from fl_rat_err [OF this] have "fl_rat (n * q) \<le> n * q + 1 / 2 ^ 22" by linarith
  also have "\<dots> \<le> 2000" using nq(2) e assms(3) by linarith
  finally have hi: "fl_rat (n * q) \<le> 2000" .
  have hi0: "n \<le> fl_rat (n * q)" using fl_rat_mono [OF nq(1)] assms(4) by simp
  have "js_mul (Fin m) (lit 9 1) = Fin (fl_rat (m * p))" "js_mul (Fin n) (lit 105 2) = Fin (fl_rat (n * q))"
    using lo lo0 hi hi0 assms pow unfolding lits by (simp_all add: fl_small)
  with lo lo0 hi hi0 show ?thesis by blast
qed

lemma smile_x_inside:
  assumes "fl_rat k = k" "lo \<le> k" "k \<le> hi" "lo < hi" "fl_rat lo = lo" "fl_rat hi = hi" "hi \<le> 2 ^ 52" "0 \<le> lo" "44 \<le> w" "w \<le> 2 ^ 50"
  shows "\<exists>x. smile_x (jsnat w) (Fin lo) (Fin hi) (Fin k) = Fin x \<and> 0 \<le> x \<and> x \<le> of_nat w"
proof -
  have "fl_rat (hi - lo) \<le> fl_rat (of_int (2 ^ 52))" using assms by (intro fl_rat_mono) simp
  also have "\<dots> < 2 ^ 1024" using fl_rat_int [of "2 ^ 52"] pow_53_1024 by simp
  finally obtain r where r: "scale01 (Fin k) (Fin lo) (Fin hi) = Fin r" "0 \<le> r" "r \<le> 1"
    using scale01_range [of k lo hi] assms by blast
  have "fl (of_nat (w - 44)) = jsnat (w - 44)" by (rule fl_nat) (use assms(10) in simp)
  then have sub: "js_sub (jsnat w) (Fin 44) = jsnat (w - 44)" using assms(9) by (simp add: js_sub_def of_nat_diff)
  have "w - 44 \<le> 2 ^ 52" using assms(10) by simp
  from share_range(1) [OF r(2,3) this] obtain x where x: "js_mul (Fin r) (jsnat (w - 44)) = Fin x" "0 \<le> x" "x \<le> of_nat (w - 44)"
    by blast
  have w: "\<bar>int w\<bar> < 2 ^ 53" using of_nat_mono [OF assms(10), where 'a = int] by simp
  have "40 + x \<le> of_int (int w)" using x(3) assms(9) by (simp add: of_nat_diff)
  then obtain z where "fl (40 + x) = Fin z" "0 \<le> z" "z \<le> of_nat w"
    using fl_in_range [of 0 "40 + x" "int w"] x(2) w by auto
  then show ?thesis using x(1) by (simp add: smile_x_def r(1) sub del: js_mul.simps)
qed

lemma smile_y_inside:
  assumes "fl_rat v = v" "lo \<le> v" "v \<le> hi" "lo < hi" "lo = fl_rat a" "hi = fl_rat b" "0 \<le> lo" "hi \<le> 2000" "h \<le> 2 ^ 50"
  shows "\<exists>y. smile_y (jsnat h) (Fin lo) (Fin hi) (Fin v) = Fin y \<and> 0 \<le> y \<and> y \<le> of_nat h"
proof -
  have "fl_rat (hi - lo) \<le> fl_rat (of_int 2000)" using assms by (intro fl_rat_mono) simp
  also have "\<dots> < 2 ^ 1024" using fl_rat_int [of 2000] pow_53_1024 by simp
  finally obtain r where r: "scale01 (Fin v) (Fin lo) (Fin hi) = Fin r" "0 \<le> r" "r \<le> 1"
    using scale01_range [of v lo hi a b] assms by blast
  then show ?thesis using share_range(2) [OF r(2,3), of h] assms(9) by (auto simp: smile_y_def simp del: js_mul.simps)
qed

lemma smile_grid_inside: "40 \<le> w \<Longrightarrow> h \<le> 2 ^ 50 \<Longrightarrow> i \<le> 4 \<Longrightarrow>
  list_all (inside w h) (smile_grid (jsnat w) (jsnat h) minIV maxIV i)"
  using grid_y [of h i] by (auto simp: smile_grid_def in_canvas_def Let_def simp del: js_div.simps js_mul.simps)



subsection \<open>The histogram of equal values\<close>

text \<open>
  When the smallest, the largest and the average value are the same, as with one row, or with none, where all three default to zero, the
  width of a bin and the deviation are zero: the height of every bar is \<open>NaN\<close>, and the canvas ignores the call.
\<close>

lemma var_bins_equal:
  assumes "fl c = Fin c" "exp_fn NaN = NaN"
  shows "var_bins exp_fn (Fin c) (Fin 0) (Fin c) (Fin 0) = replicate 30 NaN"
proof -
  have half: "\<exists>h. lit 5 1 = Fin h" "\<exists>h. js_add (jsnat i) (lit 5 1) = Fin h" if "i < 30" for i
  proof -
    have "\<exists>y. lit 5 1 = Fin y \<and> 0 \<le> y \<and> y \<le> 1" unfolding lit_def using fl_in_range [of 0 "of_int 5 / 10 ^ 1" 1] by simp
    then obtain y where y: "lit 5 1 = Fin y" "0 \<le> y" "y \<le> 1" by blast
    have "(of_nat i :: rat) \<le> of_nat 30" using that by (simp only: of_nat_le_iff)
    then have "\<exists>z. fl (of_nat i + y) = Fin z" using fl_in_range [of 0 "of_nat i + y" 31] y by auto
    then show "\<exists>h. lit 5 1 = Fin h" "\<exists>h. js_add (jsnat i) (lit 5 1) = Fin h" using y(1) by auto
  qed
  have "exp_fn (js_mul (js_mul (js_neg (lit 5 1)) z) z) = NaN"
    if z: "z = js_div (js_sub (bin_center (Fin c) (Fin 0) i) (Fin c)) (Fin 0)" and i: "i < 30" for z i
  proof -
    obtain g h where "lit 5 1 = Fin g" "js_add (jsnat i) (lit 5 1) = Fin h" using half [OF i] by blast
    then have "z = NaN" unfolding z bin_center_def using assms(1) by (simp add: js_sub_def del: js_add.simps) (simp add: fl_def)
    then show ?thesis using \<open>lit 5 1 = Fin g\<close> assms(2) by simp
  qed
  then have "var_bins exp_fn (Fin c) (Fin 0) (Fin c) (Fin 0) = map (\<lambda>_. NaN) [0..<30]"
    unfolding var_bins_def Let_def by (intro map_cong) auto
  then show ?thesis by (simp add: map_replicate_const)
qed

lemma nan_ops: "js_div x NaN = NaN" "js_sub x NaN = NaN" "js_mul x NaN = NaN"
  by (cases x; simp add: js_sub_def)+

lemma drawVaR_equal_values:
  assumes "fl c = Fin c" "exp_fn NaN = NaN" "orelse2 (v_avg_var d) (v_avg d) (jsnat 0) = Fin c"
    and "orelse2 (v_min_var d) (v_min d) (js_mul (Fin c) (lit 5 1)) = Fin c"
    and "orelse2 (v_max_var d) (v_max d) (js_mul (Fin c) (lit 15 1)) = Fin c"
    and "FillRect x y bw bh \<in> set (drawVaR exp_fn (Some (w, h)) (Some d))"
  shows "y = NaN \<and> bh = NaN"
proof -
  have zero: "js_sub (Fin c) (Fin c) = Fin 0" "js_div (Fin 0) (jsnat 6) = Fin 0" "js_div (Fin 0) (jsnat 30) = Fin 0"
    by (simp_all add: js_sub_def fl_def)
  have bins: "var_bins exp_fn (Fin c) (Fin 0) (Fin c) (Fin 0) = replicate 30 NaN"
    by (rule var_bins_equal) (fact assms(1,2))+
  have top: "math_max (replicate 30 NaN) = NaN" by (simp add: math_max_def js_max_def numeral_eq_Suc)
  have nan: "v = NaN" if "(v, i) \<in> set (zip (replicate 30 NaN) [0..<30])" for v :: jsnum and i
    using set_zip_leftD [OF that] by simp
  show ?thesis
    using assms(6) unfolding drawVaR_def Let_def option.case prod.case assms(3,4,5) zero bins top
    by (auto simp: var_bar_def var_marker_def nan_ops Let_def dest!: nan split: prod.splits)
qed

section \<open>The map is a tree that fits its frame\<close>

definition edge_rel :: "(jsstr \<times> jsstr) set" where
  "edge_rel = set (map (\<lambda>e. (eg_from e, eg_to e)) EDGES)"

definition node_ids :: "string list" where
  "node_ids = [''svelte'', ''go'', ''redis'', ''pg8080'', ''python'', ''rust'', ''cpp'', ''zig'', ''julia'', ''pg8081'', ''kotlin'', ''elixir'',
     ''r'', ''fsharp'', ''ocaml'', ''crystal'', ''nim'', ''scala'', ''haskell'', ''ruby'', ''dart'', ''gleam'', ''v'', ''erlang'', ''lua'', ''swift'',
     ''clojure'', ''java'', ''prolog'', ''wasm'']"

lemma node_ids: "map nd_id NODES = map js node_ids"
  by (simp add: NODES_defs node_def node_ids_def)

lemma edge_ends:
  "map eg_from EDGES = map js ([''svelte'', ''svelte''] @ replicate 23 ''go'' @ [''python'', ''python'', ''python'', ''rust''])"
  "map eg_to EDGES = map js [''go'', ''wasm'', ''redis'', ''pg8080'', ''python'', ''rust'', ''kotlin'', ''elixir'', ''r'', ''fsharp'', ''ocaml'',
     ''crystal'', ''nim'', ''scala'', ''haskell'', ''ruby'', ''dart'', ''gleam'', ''v'', ''erlang'', ''lua'', ''swift'', ''clojure'', ''java'', ''prolog'',
     ''cpp'', ''zig'', ''julia'', ''pg8081'']"
  by (simp_all add: EDGES_def edge_def numeral_eq_Suc)

lemma edge_rel_zip: "edge_rel = set (zip (map eg_from EDGES) (map eg_to EDGES))"
  by (simp add: edge_rel_def zip_map_map zip_same_conv_map comp_def)

lemma nodeMap_Some: "k \<in> set (map nd_id NODES) \<Longrightarrow> \<exists>n \<in> set NODES. nodeMap k = Some n \<and> nd_id n = k"
proof -
  assume "k \<in> set (map nd_id NODES)"
  then have "k \<in> dom nodeMap" by (simp add: nodeMap_def dom_map_of_conv_image_fst image_image)
  then obtain n where n: "nodeMap k = Some n" by auto
  then have "(k, n) \<in> set (rev (map (\<lambda>n. (nd_id n, n)) NODES))" unfolding nodeMap_def by (rule map_of_SomeD)
  with n show ?thesis by auto
qed

lemma edge_ends_known: "e \<in> set EDGES \<Longrightarrow> eg_from e \<in> set (map nd_id NODES) \<and> eg_to e \<in> set (map nd_id NODES)"
proof -
  assume "e \<in> set EDGES"
  then have "eg_from e \<in> set (map eg_from EDGES)" "eg_to e \<in> set (map eg_to EDGES)" by auto
  then show ?thesis unfolding node_ids edge_ends node_ids_def by (auto simp: numeral_eq_Suc)
qed

lemma lines_all: "length map_lines = length EDGES"
proof -
  have "edge_line e \<noteq> None" if "e \<in> set EDGES" for e
    using edge_ends_known [OF that] nodeMap_Some [of "eg_from e"] nodeMap_Some [of "eg_to e"]
    by (auto simp: edge_line_def Let_def)
  then have "length (List.map_filter edge_line es) = length es" if "set es \<subseteq> set EDGES" for es
    using that by (induction es) (auto simp: List.map_filter_def)
  then show ?thesis unfolding map_lines_def by simp
qed

lemma reach_all: "edge_rel\<^sup>* `` {js ''svelte''} = set (map nd_id NODES)"
proof
  have "edge_rel `` set (map nd_id NODES) \<subseteq> set (map nd_id NODES)"
    using edge_ends_known by (force simp: edge_rel_def)
  moreover have root: "js ''svelte'' \<in> set (map nd_id NODES)" unfolding node_ids node_ids_def by simp
  ultimately show "edge_rel\<^sup>* `` {js ''svelte''} \<subseteq> set (map nd_id NODES)"
    using Image_closed_trancl [of edge_rel "set (map nd_id NODES)"] root by blast
  have step: "(js ''svelte'', b) \<in> edge_rel\<^sup>*" if "(js ''svelte'', a) \<in> edge_rel\<^sup>*" "(a, b) \<in> edge_rel" for a b
    using that by (rule rtrancl_into_rtrancl)
  have E: "edge_rel = set (zip (map js ([''svelte'', ''svelte''] @ replicate 23 ''go'' @ [''python'', ''python'', ''python'', ''rust'']))
    (map eg_to EDGES))" unfolding edge_rel_zip edge_ends(1) ..
  have go: "(js ''svelte'', js ''go'') \<in> edge_rel\<^sup>*" by (rule step [of "js ''svelte''"]) (simp_all add: E edge_ends(2) numeral_eq_Suc)
  have py: "(js ''svelte'', js ''python'') \<in> edge_rel\<^sup>*" by (rule step [OF go]) (simp add: E edge_ends(2) numeral_eq_Suc)
  have rust: "(js ''svelte'', js ''rust'') \<in> edge_rel\<^sup>*" by (rule step [OF go]) (simp add: E edge_ends(2) numeral_eq_Suc)
  show "set (map nd_id NODES) \<subseteq> edge_rel\<^sup>* `` {js ''svelte''}"
  proof
    fix k assume "k \<in> set (map nd_id NODES)"
    then have "k = js ''svelte'' \<or> (js ''svelte'', k) \<in> edge_rel \<or> (js ''go'', k) \<in> edge_rel \<or> (js ''python'', k) \<in> edge_rel
      \<or> (js ''rust'', k) \<in> edge_rel"
      unfolding node_ids node_ids_def by (auto simp: E edge_ends(2) numeral_eq_Suc)
    then show "k \<in> edge_rel\<^sup>* `` {js ''svelte''}" using step [OF go] step [OF py] step [OF rust] by auto
  qed
qed

lemma node_place: "n \<in> set NODES \<Longrightarrow> in_canvas 900 540 (nx n, ny n)"
proof -
  assume "n \<in> set NODES"
  then have xy: "nd_x n \<le> 100" "nd_y n \<le> 100" by (auto simp: NODES_defs node_def)
  have frac: "\<exists>r. js_div (jsnat k) (jsnat 100) = Fin r \<and> 0 \<le> r \<and> r \<le> 1" if "k \<le> 100" for k
  proof -
    have "(of_nat k :: rat) \<le> 100" using of_nat_mono [OF that, where 'a = rat] by simp
    then show ?thesis using fl_in_range [of 0 "of_nat k / 100" 1] by auto
  qed
  obtain a b where a: "js_div (jsnat (nd_x n)) (jsnat 100) = Fin a" "0 \<le> a" "a \<le> 1"
    and b: "js_div (jsnat (nd_y n)) (jsnat 100) = Fin b" "0 \<le> b" "b \<le> 1" using frac xy by blast
  have "\<exists>x. nx n = Fin x \<and> 0 \<le> x \<and> x \<le> of_nat 900" "\<exists>y. ny n = Fin y \<and> 0 \<le> y \<and> y \<le> of_nat 540"
    unfolding nx_def ny_def map_W_def map_H_def a(1) b(1)
    using share_range(1) [OF a(2,3), of 900] share_range(1) [OF b(2,3), of 540] by (simp_all del: js_mul.simps)
  then show ?thesis by (auto simp: in_canvas_def)
qed

text \<open>
  C24: The dependency map is a tree rooted at the portal: from it every node is reached, no node has two incoming edges and the root has none,
  node names are unique, every edge is drawn, and every node lies in the frame of the picture.
\<close>

theorem depmap_tree:
  "edge_rel\<^sup>* `` {js ''svelte''} = set (map nd_id NODES) \<and> distinct (map nd_id NODES)
     \<and> distinct (map eg_to EDGES) \<and> js ''svelte'' \<notin> set (map eg_to EDGES)
     \<and> length map_lines = length EDGES \<and> list_all (\<lambda>n. in_canvas 900 540 (nx n, ny n)) NODES"
proof (intro conjI)
  show "distinct (map nd_id NODES)" unfolding node_ids by (simp add: node_ids_def distinct_map)
  show "distinct (map eg_to EDGES)" "js ''svelte'' \<notin> set (map eg_to EDGES)"
    unfolding edge_ends by (simp_all add: distinct_map)
  show "list_all (\<lambda>n. in_canvas 900 540 (nx n, ny n)) NODES" by (simp add: list_all_iff node_place)
qed (fact reach_all lines_all)+

end
