(* ===== verification/Portal_Wasm.thy ===== *)
theory Portal_Wasm
  imports Portal_Fetch
begin

text \<open>
  \<open>WasmPanel\<close>: finance functions compiled to WebAssembly, loaded once and called from the browser.  The functions of the module are code
  outside the portal, so they are an argument, \<open>wx\<close>; so are \<open>Math.pow\<close>, \<open>Math.sqrt\<close> and \<open>Math.random\<close>, which the language does
  not determine, and the text of an exception, \<open>describe\<close>.  All parameters of the panel are sliders, hence numbers.
\<close>

section \<open>The module\<close>

record wasm_exports =
  x_bsCall :: "jsnum list \<Rightarrow> jsnum"
  x_bsPut :: "jsnum list \<Rightarrow> jsnum"
  x_bsDelta :: "jsnum list \<Rightarrow> jsnum"
  x_bsGamma :: "jsnum list \<Rightarrow> jsnum"
  x_bsTheta :: "jsnum list \<Rightarrow> jsnum"
  x_bsVega :: "jsnum list \<Rightarrow> jsnum"
  x_bsRho :: "jsnum list \<Rightarrow> jsnum"
  x_varNormal :: "jsnum list \<Rightarrow> jsnum"
  x_dcfValue :: "jsnum list \<Rightarrow> jsnum"
  x_mcVaR95 :: "int \<Rightarrow> jsnum list \<Rightarrow> jsnum"
  x_minVarWeight :: "jsnum list \<Rightarrow> jsnum"
  x_portfolioSharpe :: "jsnum list \<Rightarrow> jsnum"

record math_lib =
  m_pow :: "jsnum \<Rightarrow> jsnum \<Rightarrow> jsnum"
  m_sqrt :: "jsnum \<Rightarrow> jsnum"

record wasm =
  wasmExports :: bool            \<comment> \<open>the module has been instantiated\<close>
  wasmLoaded :: bool
  wasmBsResult :: jsval
  wasmMcResult :: jsval
  wasmPortResult :: jsval
  wasmLoading :: bool
  mcS0 :: jsnum
  mcMu :: jsnum
  mcSigma :: jsnum
  mcDays :: jsnum
  mcPaths :: jsnum
  portVol1 :: jsnum
  portVol2 :: jsnum
  portCorr :: jsnum
  portMu1 :: jsnum
  portMu2 :: jsnum
  dcfFcf :: jsnum
  dcfGrowth :: jsnum
  dcfTerminal :: jsnum
  dcfWacc :: jsnum
  dcfYears :: jsnum
  wasmDcfResult :: jsval

definition wasm_init :: wasm where
  "wasm_init = \<lparr>wasmExports = False, wasmLoaded = False, wasmBsResult = Null, wasmMcResult = Null, wasmPortResult = Null,
     wasmLoading = False, mcS0 = jsnat 100, mcMu = lit 8 2, mcSigma = lit 2 1, mcDays = jsnat 252, mcPaths = jsnat 500,
     portVol1 = lit 2 1, portVol2 = lit 15 2, portCorr = lit 3 1, portMu1 = lit 1 1, portMu2 = lit 7 2,
     dcfFcf = jsnat 1000000, dcfGrowth = lit 1 1, dcfTerminal = lit 3 2, dcfWacc = lit 8 2, dcfYears = jsnat 5, wasmDcfResult = Null\<rparr>"

definition module_call :: http_call where
  "module_call = get_call (js ''/finance.wasm'')"

text \<open>\<open>await res.arrayBuffer()\<close> and \<open>await WebAssembly.instantiate(bytes, {})\<close>\<close>

fun body_of :: "settled \<Rightarrow> unit option" where
  "body_of (BodyText _) = Some ()"
| "body_of _ = None"

fun instance_of :: "settled \<Rightarrow> unit option" where
  "instance_of Instance = Some ()"
| "instance_of _ = None"

definition loadWasm :: "(wasm, unit) task" where
  "loadWasm = Look (\<lambda>s. if wasmExports s then Ret ()
     else andthen_t (fetch module_call) (\<lambda>res.
       andthen_t (wait_for [PBody module_call] (single body_of) TypeError) (\<lambda>_.
       andthen_t (wait_for [PModule module_call] (single instance_of) (JsError ''CompileError'')) (\<lambda>_.
       block [assign wasmExports_update True, assign wasmLoaded_update True]))))"

text \<open>\<open>wasmLoading = true; try { const wx = await loadWasm(); x = ...; } catch (e) { x = { error: String(e) }; } finally { wasmLoading = false; }\<close>\<close>

definition with_wasm :: "(exn \<Rightarrow> jsstr) \<Rightarrow> ((jsval \<Rightarrow> jsval) \<Rightarrow> wasm \<Rightarrow> wasm) \<Rightarrow> (wasm \<Rightarrow> jsval) \<Rightarrow> (wasm, unit) task" where
  "with_wasm describe x compute = block [assign wasmLoading_update True,
     try_finally (try_catch (andthen_t loadWasm (\<lambda>_. Look (\<lambda>s. assign x (compute s)))) (\<lambda>e. assign x (error_obj (describe e))))
       (assign wasmLoading_update False)]"

section \<open>Handlers\<close>

definition bs_args :: "jsnum list" where
  "bs_args = [jsnat 100, jsnat 100, lit 5 2, lit 2 1, jsnat 1]"

definition runWasm :: "(exn \<Rightarrow> jsstr) \<Rightarrow> wasm_exports \<Rightarrow> (wasm, unit) task" where
  "runWasm describe wx = with_wasm describe wasmBsResult_update (\<lambda>_. Obj
     [(js ''call'', Num (x_bsCall wx bs_args)), (js ''put'', Num (x_bsPut wx bs_args)), (js ''delta'', Num (x_bsDelta wx bs_args)),
      (js ''gamma'', Num (x_bsGamma wx bs_args)), (js ''theta'', Num (x_bsTheta wx bs_args)), (js ''vega'', Num (x_bsVega wx bs_args)),
      (js ''rho'', Num (x_bsRho wx bs_args)), (js ''var95'', Num (x_varNormal wx [lit 5 4, lit 18 3, lit 95 2])),
      (js ''dcf'', Num (x_dcfValue wx [jsnat 1000000, lit 1 1, lit 3 2, lit 8 2, jsnat 5]))])"

text \<open>\<open>BigInt(Math.floor(Math.random() * 0xffffffff) + 1)\<close>\<close>

definition mc_seed :: "rat \<Rightarrow> int" where
  "mc_seed r = (case js_mul (Fin r) (jsnat 0xffffffff) of Fin x \<Rightarrow> \<lfloor>x\<rfloor> + 1 | _ \<Rightarrow> 0)"

definition runMcVaR :: "(exn \<Rightarrow> jsstr) \<Rightarrow> wasm_exports \<Rightarrow> rat \<Rightarrow> (wasm, unit) task" where
  "runMcVaR describe wx random = with_wasm describe wasmMcResult_update (\<lambda>s.
     let var95 = x_mcVaR95 wx (mc_seed random) [mcS0 s, mcMu s, mcSigma s, mcDays s, mcPaths s] in Obj
     [(js ''var95_pct'', Str (toFixed 3 (js_mul var95 (jsnat 100)))), (js ''var95_abs'', Str (toFixed 2 (js_mul var95 (mcS0 s)))),
      (js ''s0'', Num (mcS0 s)), (js ''mu'', Num (mcMu s)), (js ''sigma'', Num (mcSigma s)), (js ''days'', Num (mcDays s)),
      (js ''paths'', Num (mcPaths s))])"

definition portVarMV :: "math_lib \<Rightarrow> jsnum \<Rightarrow> wasm \<Rightarrow> jsnum" where
  "portVarMV M wStar s = (let sq = (\<lambda>x. m_pow M x (jsnat 2)); w' = js_sub (jsnat 1) wStar in
     js_add (js_add (js_mul (js_mul wStar wStar) (sq (portVol1 s))) (js_mul (sq w') (sq (portVol2 s))))
       (js_mul (js_mul (js_mul (js_mul (js_mul (jsnat 2) wStar) w') (portCorr s)) (portVol1 s)) (portVol2 s)))"

definition wa_runPortfolio :: "(exn \<Rightarrow> jsstr) \<Rightarrow> wasm_exports \<Rightarrow> math_lib \<Rightarrow> (wasm, unit) task" where
  "wa_runPortfolio describe wx M = with_wasm describe wasmPortResult_update (\<lambda>s.
     let wStar = x_minVarWeight wx [portVol1 s, portVol2 s, portCorr s];
         sharpe = (\<lambda>w. x_portfolioSharpe wx [w, portMu1 s, portMu2 s, portVol1 s, portVol2 s, portCorr s, lit 3 2]) in Obj
     [(js ''min_var_w1'', Str (toFixed 1 (js_mul wStar (jsnat 100)))),
      (js ''min_var_w2'', Str (toFixed 1 (js_mul (js_sub (jsnat 1) wStar) (jsnat 100)))),
      (js ''min_var_vol'', Str (toFixed 2 (js_mul (js_mul (m_sqrt M (portVarMV M wStar s)) (m_sqrt M (jsnat 252))) (jsnat 100)))),
      (js ''sharpe_mv'', Str (toFixed 3 (sharpe wStar))), (js ''sharpe_eq'', Str (toFixed 3 (sharpe (lit 5 1))))])"

text \<open>
  The year-by-year present values.  The slider of the years gives an integer from 3 to 15; the loop \<open>y <= dcfYears\<close> runs once for every
  positive integer up to it.
\<close>

fun dcf_loop :: "math_lib \<Rightarrow> jsnum \<Rightarrow> jsnum \<Rightarrow> nat list \<Rightarrow> jsnum \<Rightarrow> jsnum \<Rightarrow> jsval list \<times> jsnum" where
  "dcf_loop M growth wacc [] cf cumPv = ([], cumPv)"
| "dcf_loop M growth wacc (y # ys) cf cumPv =
     (let cf' = js_mul cf (js_add (jsnat 1) growth); pv = js_div cf' (m_pow M (js_add (jsnat 1) wacc) (jsnat y));
          (steps, total) = dcf_loop M growth wacc ys cf' (js_add cumPv pv)
      in (Obj [(js ''year'', jsn y), (js ''cf'', Num (js_round cf')), (js ''pv'', Num (js_round pv))] # steps, total))"

definition dcf_years :: "jsnum \<Rightarrow> nat list" where
  "dcf_years n = (case n of Fin x \<Rightarrow> [1..<Suc (nat \<lfloor>x\<rfloor>)] | _ \<Rightarrow> [])"

definition runDcf :: "(exn \<Rightarrow> jsstr) \<Rightarrow> wasm_exports \<Rightarrow> math_lib \<Rightarrow> (wasm, unit) task" where
  "runDcf describe wx M = with_wasm describe wasmDcfResult_update (\<lambda>s.
     let value = x_dcfValue wx [dcfFcf s, dcfGrowth s, dcfTerminal s, dcfWacc s, dcfYears s];
         (steps, cumPv) = dcf_loop M (dcfGrowth s) (dcfWacc s) (dcf_years (dcfYears s)) (dcfFcf s) (jsnat 0);
         lastCf = js_mul (dcfFcf s) (m_pow M (js_add (jsnat 1) (dcfGrowth s)) (dcfYears s));
         tv = js_div (js_mul lastCf (js_add (jsnat 1) (dcfTerminal s))) (js_sub (dcfWacc s) (dcfTerminal s));
         tvPv = js_div tv (m_pow M (js_add (jsnat 1) (dcfWacc s)) (dcfYears s)) in Obj
     [(js ''intrinsic_value'', Num (js_round value)), (js ''terminal_value_pv'', Num (js_round tvPv)),
      (js ''operating_pv'', Num (js_round cumPv)), (js ''steps'', Arr steps),
      (js ''tv_pct'', Str (toFixed 1 (js_mul (js_div tvPv value) (jsnat 100))))])"

datatype wasm_op = RunWasm | RunMcVaR rat | WasmPortfolio | RunDcf

fun wasm_run :: "(exn \<Rightarrow> jsstr) \<Rightarrow> wasm_exports \<Rightarrow> math_lib \<Rightarrow> wasm_op \<Rightarrow> (wasm, unit) task" where
  "wasm_run describe wx M RunWasm = runWasm describe wx"
| "wasm_run describe wx M (RunMcVaR r) = runMcVaR describe wx r"
| "wasm_run describe wx M WasmPortfolio = wa_runPortfolio describe wx M"
| "wasm_run describe wx M RunDcf = runDcf describe wx M"

lemma with_wasm_wp:
  assumes "\<And>v s. wasmLoading (x (\<lambda>_. v) s) = wasmLoading s"
  shows "wp wasmLoading (\<lambda>_ _. True) (with_wasm describe x compute) (\<lambda>_ s. \<not> wasmLoading s) (\<lambda>_ _. False) s"
  by (simp add: with_wasm_def loadWasm_def wp_rules wp_wait_for assms)

interpretation wasm: panel "wasm_run describe wx M" "\<lambda>_ s. \<not> wasmLoading s" "\<lambda>_. Some ()" "\<lambda>_. wasmLoading"
    for describe wx M
proof unfold_locales
  show "wp (\<lambda>s. \<forall>f. Some () = Some f \<longrightarrow> wasmLoading s) (\<lambda>s s'. \<forall>g. Some () \<noteq> Some g \<longrightarrow> wasmLoading s' = wasmLoading s)
      (wasm_run describe wx M h) (\<lambda>_ s. \<forall>f. Some () = Some f \<longrightarrow> \<not> wasmLoading s) (\<lambda>_ _. False) s" for h s
    by (cases h) (simp_all add: runWasm_def runMcVaR_def wa_runPortfolio_def runDcf_def with_wasm_wp)
qed simp

section \<open>The module is fetched once\<close>

lemma loadWasm_cached: "wasmExports s \<Longrightarrow> advance (andthen_t loadWasm f) s = advance (f ()) s"
  by (simp add: loadWasm_def)

text \<open>The seed of a simulation is positive and fits 33 bits; it can be \<open>2^32\<close>, since the product may round up.\<close>

lemma mc_seed_range:
  assumes "0 \<le> r" "r < 1"
  shows "1 \<le> mc_seed r \<and> mc_seed r \<le> 2 ^ 32"
proof -
  have "r * 0xffffffff \<le> 1 * 0xffffffff" using assms by (intro mult_right_mono) auto
  then obtain x where "fl (r * 0xffffffff) = Fin x" "0 \<le> x" "x \<le> 0xffffffff"
    using fl_in_range [of 0 "r * 0xffffffff" "0xffffffff"] assms by auto
  moreover have "\<lfloor>x\<rfloor> \<le> 0xffffffff" if "x \<le> 0xffffffff" for x :: rat
    using floor_mono [OF that] by simp
  ultimately show ?thesis by (simp add: mc_seed_def)
qed

text \<open>The loop lists every year once, in order.\<close>

lemma dcf_loop_years:
  "map (\<lambda>v. get_opt v (js ''year'')) (fst (dcf_loop M g wacc ys cf pv)) = map jsn ys"
proof (induction ys arbitrary: cf pv)
  case (Cons y ys)
  let ?cf = "js_mul cf (js_add (jsnat 1) g)"
  let ?pv = "js_add pv (js_div ?cf (m_pow M (js_add (jsnat 1) wacc) (jsnat y)))"
  obtain st t where st: "dcf_loop M g wacc ys ?cf ?pv = (st, t)" by fastforce
  from Cons.IH [of ?cf ?pv] have "map (\<lambda>v. get_opt v (js ''year'')) st = map jsn ys" by (simp only: st fst_conv)
  then show ?case by (simp only: dcf_loop.simps Let_def st case_prod_conv) (simp add: get_opt_def own_prop_def)
qed simp

end
