(* ===== verification/Portal_Page.thy ===== *)
theory Portal_Page
  imports Portal_Fetch Window
begin

text \<open>
  The dashboard page (\<open>routes/+page.svelte\<close>) with its service cards and the share button: the registry of services, the refresh that
  asks the gateway, the gateway's own status and three artifact servers concurrently, and the live feed of order events over a
  WebSocket that reconnects.  The clock of \<open>performance.now()\<close> is a field every event of the browser sets.
\<close>

section \<open>Registry\<close>

record service =
  sv_key :: jsstr
  sv_name :: jsstr
  aggregateName :: "jsstr option"
  sv_lang :: jsstr
  sv_port :: nat
  sv_role :: jsstr

definition svc :: "string \<Rightarrow> string \<Rightarrow> string option \<Rightarrow> string \<Rightarrow> nat \<Rightarrow> string \<Rightarrow> service" where
  "svc k n a l p r = \<lparr>sv_key = js k, sv_name = js n, aggregateName = map_option js a, sv_lang = js l, sv_port = p, sv_role = js r\<rparr>"

definition SERVICES_first :: "service list" where
  "SERVICES_first =
     [svc ''go'' ''Go-Hub'' None ''Go'' 8080 ''Gateway / Orchestrator'',
      svc ''python'' ''Python-Brain'' (Some ''Python-Brain'') ''Python'' 8000 ''ML Engine / Redis Cache'',
      svc ''rust'' ''Rust-Pipeline'' (Some ''Rust-Pipeline'') ''Rust'' 8081 ''VaR Risk Pipeline'',
      svc ''julia'' ''Julia-Engine'' (Some ''Julia-Engine'') ''Julia'' 8002 ''Monte Carlo Engine'',
      svc ''r'' ''R-Stats'' (Some ''R-Stats'') ''R'' 8003 ''Statistical Analysis'',
      svc ''fsharp'' ''FSharp-Pricer'' (Some ''FSharp-Pricer'') ''F#'' 9001 ''Implied Volatility (NR)'',
      svc ''ocaml'' ''OCaml-Risk'' (Some ''OCaml-Risk'') ''OCaml'' 8004 ''Risk Engine'',
      svc ''crystal'' ''Crystal-GW'' (Some ''Crystal-Gateway'') ''Crystal'' 9002 ''High-Perf Gateway'',
      svc ''nim'' ''Nim-Analytics'' (Some ''Nim-Analytics'') ''Nim'' 8005 ''GARCH Volatility'',
      svc ''scala'' ''Scala-Streamer'' (Some ''Scala-Streamer'') ''Scala'' 9003 ''Akka Streams'',
      svc ''haskell'' ''Haskell-Pricer'' (Some ''Haskell-Pricer'') ''Haskell'' 8006 ''Black-Scholes Pricer'']"

definition SERVICES_rest :: "service list" where
  "SERVICES_rest =
     [svc ''ruby'' ''Ruby-Scorer'' (Some ''Ruby-Scorer'') ''Ruby'' 9004 ''Credit Scorer'',
      svc ''dart'' ''Dart-Engine'' (Some ''Dart-Engine'') ''Dart'' 9005 ''Async HTTP Engine'',
      svc ''gleam'' ''Gleam-Hub'' (Some ''Gleam-Hub'') ''Gleam'' 4001 ''Type-Safe Hub'',
      svc ''v'' ''V-Quant'' (Some ''V-Quant'') ''V'' 4002 ''Quant Finance'',
      svc ''erlang'' ''Erlang-Hot'' (Some ''Erlang-Hot'') ''Erlang'' 4003 ''Hot Code Reload'',
      svc ''elixir'' ''Elixir-Hub'' (Some ''Elixir-Hub'') ''Elixir'' 4000 ''Phoenix PubSub'',
      svc ''clojure'' ''Clojure-STM'' (Some ''Clojure-STM'') ''Clojure'' 8009 ''STM Ledger'',
      svc ''java'' ''Java-Loom'' (Some ''Java-Loom'') ''Java'' 8010 ''Virtual Threads'',
      svc ''prolog'' ''Prolog-Solver'' (Some ''Prolog-Solver'') ''Prolog'' 8011 ''Logic Solver'',
      svc ''lua'' ''Lua-Stream'' (Some ''Lua-Stream'') ''Lua'' 8007 ''Coroutine Mux'',
      svc ''swift'' ''Swift-Actor'' (Some ''Swift-Actor'') ''Swift'' 8008 ''Actor Concurrency'',
      svc ''kotlin'' ''Kotlin-Sched'' (Some ''Kotlin-Scheduler'') ''Kotlin'' 9000 ''Coroutine Scheduler'',
      svc ''cpp'' ''C++-Core'' None ''C++'' 8012 ''Compute Library (FFI)'',
      svc ''zig'' ''Zig-Core'' None ''Zig'' 8013 ''Systems Core (FFI)'',
      svc ''wasm'' ''Wasm-Finance'' None ''WASM'' 8014 ''WebAssembly Module'']"

definition SERVICES :: "service list" where
  "SERVICES = SERVICES_first @ SERVICES_rest"

lemmas SERVICES_defs = SERVICES_def SERVICES_first_def SERVICES_rest_def

section \<open>Cards\<close>

record card =
  cd_status :: jsval
  cd_latencyMs :: jsval
  cd_result :: jsval

definition loading_card :: card where
  "loading_card = \<lparr>cd_status = Str (js ''loading''), cd_latencyMs = Null, cd_result = Null\<rparr>"

definition offline_card :: card where
  "offline_card = \<lparr>cd_status = Str (js ''offline''), cd_latencyMs = Null, cd_result = Null\<rparr>"

record page =
  statuses :: "(jsstr \<times> card) list"
  pg_loading :: bool
  fetchError :: jsval
  pg_now :: jsnum

definition page_init :: page where
  "page_init = \<lparr>statuses = map (\<lambda>s. (sv_key s, loading_card)) SERVICES, pg_loading = True, fetchError = Null, pg_now = jsnat 0\<rparr>"

definition set_card :: "jsstr \<Rightarrow> card \<Rightarrow> page \<Rightarrow> page" where
  "set_card k c = statuses_update (al_set k c)"

definition put_card :: "jsstr \<Rightarrow> card \<Rightarrow> (page, unit) task" where
  "put_card k c = Upd (set_card k c) (Ret ())"

definition onlineCount :: "page \<Rightarrow> nat" where
  "onlineCount s = length (filter (\<lambda>(k, c). cd_status c = Str (js ''online'')) (statuses s))"

section \<open>The gateway's aggregate\<close>

text \<open>\<open>(data.services ?? []).map((s) => [s.name, s])\<close>, and the lookup in the \<open>Map\<close> made of it: the last entry with the name counts.\<close>

definition aggregate_entries :: "jsval \<Rightarrow> (jsval \<times> jsval) list result" where
  "aggregate_entries data = bindr (get_prop data (js ''services'')) (\<lambda>v. case coalesce v (Arr []) of
     Arr ss \<Rightarrow> if list_ex nullish ss then Inl TypeError else Inr (map (\<lambda>s. (get_opt s (js ''name''), s)) ss)
   | _ \<Rightarrow> Inl TypeError)"

definition byName :: "(jsval \<times> jsval) list \<Rightarrow> jsstr \<Rightarrow> jsval option" where
  "byName entries n = map_of (rev entries) (Str n)"

definition remote_card :: "jsval \<Rightarrow> card result" where
  "remote_card remote =
     (let st = get_opt remote (js ''status''); ms = get_opt remote (js ''latency_ms'') in
      if st = Str (js ''online'')
      then bindr (to_string ms) (\<lambda>t. Inr \<lparr>cd_status = st, cd_latencyMs = ms, cd_result = Str (t @ js ''ms'')\<rparr>)
      else Inr \<lparr>cd_status = st, cd_latencyMs = ms, cd_result = Null\<rparr>)"

definition aggregate_svc :: "(jsval \<times> jsval) list \<Rightarrow> service \<Rightarrow> (page, unit) task" where
  "aggregate_svc entries sv = (case Option.bind (aggregateName sv) (byName entries) of
     None \<Rightarrow> Ret ()
   | Some remote \<Rightarrow> if \<not> truthy remote then Ret ()
       else andthen_t (lift_result (remote_card remote)) (put_card (sv_key sv)))"

fun for_each :: "('x \<Rightarrow> ('s, unit) task) \<Rightarrow> 'x list \<Rightarrow> ('s, unit) task" where
  "for_each f [] = Ret ()"
| "for_each f (x # xs) = andthen_t (f x) (\<lambda>_. for_each f xs)"

definition aggregated :: "service list" where
  "aggregated = filter (\<lambda>sv. aggregateName sv \<noteq> None) SERVICES"

definition fetchAggregate :: "jsstr \<Rightarrow> (page, unit) task" where
  "fetchAggregate base = try_catch
     (andthen_t (fetch (get_call (base @ js ''/api/aggregate''))) (\<lambda>res.
        if \<not> res_ok res then Raise (JsError ''HTTP'')
        else andthen_t (json res) (\<lambda>data. andthen_t (lift_result (aggregate_entries data)) (\<lambda>entries.
          for_each (aggregate_svc entries) aggregated))))
     (\<lambda>_. block [assign fetchError_update (Str (js ''Gateway unreachable'')),
        for_each (\<lambda>sv. put_card (sv_key sv) offline_card) aggregated])"

section \<open>The gateway itself and the artifact servers\<close>

definition elapsed :: "jsnum \<Rightarrow> page \<Rightarrow> jsnum" where
  "elapsed t0 s = js_round (js_sub (pg_now s) t0)"

definition ms_text :: "jsnum \<Rightarrow> jsval" where
  "ms_text n = Str (num_str n @ js ''ms'')"

definition go_result :: "jsnum \<Rightarrow> jsval \<Rightarrow> jsval result" where
  "go_result ms data = bindr (get_prop data (js ''database'')) (\<lambda>db.
     if truthy db then bindr (to_string db) (\<lambda>t. Inr (Str (js ''db: '' @ t))) else Inr (ms_text ms))"

definition fetchGoHub :: "jsstr \<Rightarrow> (page, unit) task" where
  "fetchGoHub base = Look (\<lambda>s0. try_catch
     (andthen_t (fetch (get_call (base @ js ''/api/status''))) (\<lambda>res. Look (\<lambda>s. let ms = elapsed (pg_now s0) s in
        if res_ok res then andthen_t (json res) (\<lambda>data. andthen_t (lift_result (go_result ms data)) (\<lambda>r.
          put_card (js ''go'') \<lparr>cd_status = Str (js ''online''), cd_latencyMs = Num ms, cd_result = r\<rparr>))
        else put_card (js ''go'') \<lparr>cd_status = Str (js ''offline''), cd_latencyMs = Num ms, cd_result = Null\<rparr>)))
     (\<lambda>_. put_card (js ''go'') offline_card))"

definition fetchArtifactServer :: "jsstr \<Rightarrow> nat \<Rightarrow> (page, unit) task" where
  "fetchArtifactServer key port = Look (\<lambda>s0. try_catch
     (andthen_t (fetch ((get_call (js ''http://localhost:'' @ nat_str port @ js ''/''))\<lparr>c_method := MHead\<rparr>)) (\<lambda>res. Look (\<lambda>s.
        let ms = elapsed (pg_now s0) s; up = res_ok res \<or> rp_status res = 405 in
        put_card key \<lparr>cd_status = Str (if up then js ''online'' else js ''offline''), cd_latencyMs = (if up then Num ms else Null),
          cd_result = (if up then ms_text ms else Null)\<rparr>)))
     (\<lambda>_. put_card key offline_card))"

section \<open>A refresh\<close>

datatype job = JAggregate | JGoHub | JArtifact jsstr nat

definition jobs :: "job list" where
  "jobs = [JAggregate, JGoHub, JArtifact (js ''cpp'') 8012, JArtifact (js ''zig'') 8013, JArtifact (js ''wasm'') 8014]"

fun job_task :: "jsstr \<Rightarrow> job \<Rightarrow> (page, unit) task" where
  "job_task base JAggregate = fetchAggregate base"
| "job_task base JGoHub = fetchGoHub base"
| "job_task base (JArtifact key port) = fetchArtifactServer key port"

type_synonym page_state = "page \<times> (job \<times> (page, unit) task) list"

definition reset_page :: "page \<Rightarrow> page" where
  "reset_page s = fold (\<lambda>sv. set_card (sv_key sv) loading_card) SERVICES (s\<lparr>pg_loading := True, fetchError := Null\<rparr>)"

definition launch :: "jsstr \<Rightarrow> job \<Rightarrow> page_state \<Rightarrow> page_state" where
  "launch base j st = (let r = advance (job_task base j) (fst st) in (fst r, snd st @ park j r))"

text \<open>\<open>await Promise.allSettled([...]); loading = false\<close>: the flag falls when the last of the five has ended.\<close>

definition join_jobs :: "page_state \<Rightarrow> page_state" where
  "join_jobs st = (if snd st = [] then ((fst st)\<lparr>pg_loading := False\<rparr>, []) else st)"

definition fetchStatus :: "jsstr \<Rightarrow> page \<Rightarrow> page_state" where
  "fetchStatus base s = join_jobs (fold (launch base) jobs (reset_page s, []))"

datatype page_event =
    Refresh jsnum
  | Reply jsnum nat "settled list"

fun page_step :: "jsstr \<Rightarrow> page_state \<Rightarrow> page_event \<Rightarrow> page_state" where
  "page_step base (s, ps) (Refresh t) = (if pg_loading s then (s, ps) else fetchStatus base (s\<lparr>pg_now := t\<rparr>))"
| "page_step base (s, ps) (Reply t i rs) =
     (if i < length ps then case ps ! i of
        (j, Await _ k) \<Rightarrow> let r = advance (k rs) (s\<lparr>pg_now := t\<rparr>) in join_jobs (fst r, take i ps @ park j r @ drop (Suc i) ps)
      | _ \<Rightarrow> (s, ps)
      else (s, ps))"

definition page_run :: "jsstr \<Rightarrow> jsnum \<Rightarrow> page_event list \<Rightarrow> page_state" where
  "page_run base t0 evs = foldl (page_step base) (fetchStatus base (page_init\<lparr>pg_now := t0\<rparr>)) evs"

section \<open>What a refresh leaves behind\<close>

fun owned :: "job \<Rightarrow> jsstr list" where
  "owned JAggregate = map sv_key aggregated"
| "owned JGoHub = [js ''go'']"
| "owned (JArtifact key port) = [key]"

abbreviation card_of :: "page \<Rightarrow> jsstr \<Rightarrow> card option" where
  "card_of s \<equiv> map_of (statuses s)"

text \<open>Before a job has ended its cards say \<open>loading\<close>; the error banner belongs to the aggregate.\<close>

definition waiting_job :: "job \<Rightarrow> page \<Rightarrow> bool" where
  "waiting_job j s \<longleftrightarrow> (\<forall>k \<in> set (owned j). card_of s k = Some loading_card) \<and> (j = JAggregate \<longrightarrow> fetchError s = Null)"

definition probe_card :: "card \<Rightarrow> bool" where
  "probe_card c \<longleftrightarrow> cd_status c = Str (js ''online'') \<or> cd_status c = Str (js ''offline'') \<and> cd_result c = Null"

text \<open>
  Afterwards a probed server is online or offline.  The services of the aggregate are all offline under the banner, or there is no
  banner and each card is made from the last entry with the service's name; a service without an entry still says \<open>loading\<close>.
\<close>

definition aggregate_card :: "(jsval \<times> jsval) list \<Rightarrow> service \<Rightarrow> card option" where
  "aggregate_card entries sv = (case Option.bind (aggregateName sv) (byName entries) of
     None \<Rightarrow> Some loading_card
   | Some remote \<Rightarrow> if \<not> truthy remote then Some loading_card
       else case remote_card remote of Inl _ \<Rightarrow> None | Inr c \<Rightarrow> Some c)"

fun settled_job :: "job \<Rightarrow> page \<Rightarrow> bool" where
  "settled_job JAggregate s \<longleftrightarrow>
     fetchError s = Str (js ''Gateway unreachable'') \<and> (\<forall>sv \<in> set aggregated. card_of s (sv_key sv) = Some offline_card)
     \<or> fetchError s = Null \<and> (\<exists>entries. \<forall>sv \<in> set aggregated. card_of s (sv_key sv) = aggregate_card entries sv)"
| "settled_job j s \<longleftrightarrow> (\<forall>k \<in> set (owned j). \<exists>c. card_of s k = Some c \<and> probe_card c)"

definition keys_ok :: "page \<Rightarrow> bool" where
  "keys_ok s \<longleftrightarrow> map fst (statuses s) = map sv_key SERVICES"

text \<open>What a job may change.\<close>

definition job_frame :: "job \<Rightarrow> page \<Rightarrow> page \<Rightarrow> bool" where
  "job_frame j s s' \<longleftrightarrow> (keys_ok s \<longrightarrow> keys_ok s') \<and> pg_loading s' = pg_loading s
     \<and> (\<forall>k. k \<notin> set (owned j) \<longrightarrow> card_of s' k = card_of s k) \<and> (j \<noteq> JAggregate \<longrightarrow> fetchError s' = fetchError s)"

lemma service_keys: "map sv_key SERVICES = map js [''go'', ''python'', ''rust'', ''julia'', ''r'', ''fsharp'', ''ocaml'', ''crystal'',
    ''nim'', ''scala'', ''haskell'', ''ruby'', ''dart'', ''gleam'', ''v'', ''erlang'', ''elixir'', ''clojure'', ''java'', ''prolog'',
    ''lua'', ''swift'', ''kotlin'', ''cpp'', ''zig'', ''wasm'']"
  by (simp add: SERVICES_defs svc_def)

lemma aggregated_keys: "map sv_key aggregated = map js [''python'', ''rust'', ''julia'', ''r'', ''fsharp'', ''ocaml'', ''crystal'',
    ''nim'', ''scala'', ''haskell'', ''ruby'', ''dart'', ''gleam'', ''v'', ''erlang'', ''elixir'', ''clojure'', ''java'', ''prolog'',
    ''lua'', ''swift'', ''kotlin'']"
  by (simp add: aggregated_def SERVICES_defs svc_def)

lemma distinct_service_keys: "distinct (map sv_key SERVICES)"
  unfolding service_keys by (simp add: distinct_map)

lemma distinct_aggregated_keys: "distinct (map sv_key aggregated)"
  unfolding aggregated_keys by (simp add: distinct_map)

lemma aggregated_subset: "set aggregated \<subseteq> set SERVICES"
  by (auto simp: aggregated_def)

lemma owned_keys: "j \<in> set jobs \<Longrightarrow> set (owned j) \<subseteq> set (map sv_key SERVICES)"
  unfolding jobs_def service_keys by (auto simp: aggregated_keys simp del: set_map)

lemma owned_disjoint:
  assumes "j \<in> set jobs" "j' \<in> set jobs" "j \<noteq> j'" "k \<in> set (owned j)"
  shows "k \<notin> set (owned j')"
  using assms unfolding jobs_def by (auto simp: aggregated_keys simp del: set_map)

lemma al_set_keys: "k \<in> set (map fst kvs) \<Longrightarrow> map fst (al_set k v kvs) = map fst kvs"
proof (induction kvs)
  case (Cons kv kvs)
  then show ?case by (cases kv) (auto simp del: set_map)
qed simp

lemma set_card_frame: "k \<in> set (owned j) \<Longrightarrow> j \<in> set jobs \<Longrightarrow> job_frame j s (set_card k c s)"
  using owned_keys [of j]
  by (auto simp: job_frame_def keys_ok_def set_card_def al_set_keys simp del: set_map)

lemma card_of_set_card [simp]: "card_of (set_card k c s) k' = (if k' = k then Some c else card_of s k')"
  by (simp add: set_card_def)

lemma fetchError_set_card [simp]: "fetchError (set_card k c s) = fetchError s"
  by (simp add: set_card_def)

lemma wp_put_card [wp_rules]:
  "wp W K (put_card k c) Q E = (\<lambda>s. K s (set_card k c s) \<and> Q () (set_card k c s))"
  by (simp add: put_card_def fun_eq_iff)

lemma wp_for_each:
  assumes "\<And>ys x s. x \<in> set xs \<Longrightarrow> I ys s \<Longrightarrow> wp W K (f x) (\<lambda>_. I (ys @ [x])) E s" and "I ys s"
  shows "wp W K (for_each f xs) (\<lambda>_. I (ys @ xs)) E s"
  using assms
proof (induction xs arbitrary: ys s)
  case (Cons x xs)
  have "wp W K (f x) (\<lambda>_. wp W K (for_each f xs) (\<lambda>_. I (ys @ x # xs)) E) E s"
  proof (rule wp_mono)
    show "wp W K (f x) (\<lambda>_. I (ys @ [x])) E s" using Cons.prems by simp
  next
    fix s' assume "I (ys @ [x]) s'"
    then have "wp W K (for_each f xs) (\<lambda>_. I ((ys @ [x]) @ xs)) E s'"
      using Cons.prems(1) by (intro Cons.IH) auto
    then show "wp W K (for_each f xs) (\<lambda>_. I (ys @ x # xs)) E s'" by simp
  qed
  then show ?case by (simp add: wp_andthen)
qed simp

definition good :: "job \<Rightarrow> (page, unit) task \<Rightarrow> page \<Rightarrow> bool" where
  "good j t s \<longleftrightarrow> wp (waiting_job j) (job_frame j) t (\<lambda>_. settled_job j) (\<lambda>_ _. False) s"

lemma good_probe:
  assumes "j \<in> set jobs" "j \<noteq> JAggregate" "waiting_job j s"
  shows "good j (job_task base j) s"
proof -
  have "good JGoHub (fetchGoHub base) s" if "waiting_job JGoHub s"
    using that unfolding good_def fetchGoHub_def
    by (simp add: wp_rules Let_def jobs_def set_card_frame probe_card_def offline_card_def split: sum.split)
  moreover have "good (JArtifact k p) (fetchArtifactServer k p) s"
    if "waiting_job (JArtifact k p) s" "JArtifact k p \<in> set jobs" for k p
    using that unfolding good_def fetchArtifactServer_def
    by (simp add: wp_rules Let_def set_card_frame probe_card_def offline_card_def)
  ultimately show ?thesis using assms by (cases j) auto
qed

lemma good_aggregate:
  assumes "waiting_job JAggregate s"
  shows "good JAggregate (fetchAggregate base) s"
proof -
  let ?wp = "wp (waiting_job JAggregate) (job_frame JAggregate)"
  have J: "JAggregate \<in> set jobs" by (simp add: jobs_def)
  have own: "sv_key sv \<in> set (owned JAggregate)" if "sv \<in> set aggregated" for sv
    using that by simp
  have inj: "sv_key sv = sv_key sv' \<longleftrightarrow> sv = sv'" if "sv \<in> set aggregated" "sv' \<in> set aggregated" for sv sv'
    using that distinct_aggregated_keys by (auto simp: distinct_map inj_on_def)
  define failed where "failed = block [assign fetchError_update (Str (js ''Gateway unreachable'')),
        for_each (\<lambda>sv. put_card (sv_key sv) offline_card) aggregated]"
  have failed: "?wp failed (\<lambda>_. settled_job JAggregate) (\<lambda>_ _. False) s" for s
  proof -
    let ?I = "\<lambda>ys s. fetchError s = Str (js ''Gateway unreachable'')
      \<and> (\<forall>sv \<in> set aggregated. sv \<in> set ys \<longrightarrow> card_of s (sv_key sv) = Some offline_card)"
    have "?wp (for_each (\<lambda>sv. put_card (sv_key sv) offline_card) aggregated) (\<lambda>_. ?I ([] @ aggregated)) (\<lambda>_ _. False)
      (s\<lparr>fetchError := Str (js ''Gateway unreachable'')\<rparr>)"
      by (rule wp_for_each) (auto simp: wp_rules own set_card_frame J)
    then have "?wp (for_each (\<lambda>sv. put_card (sv_key sv) offline_card) aggregated) (\<lambda>_. settled_job JAggregate) (\<lambda>_ _. False)
      (s\<lparr>fetchError := Str (js ''Gateway unreachable'')\<rparr>)"
      by (rule wp_mono) auto
    then show ?thesis by (simp add: failed_def wp_rules job_frame_def keys_ok_def)
  qed
  have loop: "?wp (for_each (aggregate_svc entries) aggregated) (\<lambda>_. settled_job JAggregate) (\<lambda>_ _. True) s"
    if "waiting_job JAggregate s" for entries s
  proof -
    let ?I = "\<lambda>ys s. fetchError s = Null \<and> (\<forall>sv \<in> set aggregated. card_of s (sv_key sv) =
      (if sv \<in> set ys then aggregate_card entries sv else Some loading_card))"
    have "?wp (for_each (aggregate_svc entries) aggregated) (\<lambda>_. ?I ([] @ aggregated)) (\<lambda>_ _. True) s"
    proof (rule wp_for_each)
      show "?I [] s" using that by (auto simp: waiting_job_def)
      show "?wp (aggregate_svc entries sv) (\<lambda>_. ?I (ys @ [sv])) (\<lambda>_ _. True) s" if "sv \<in> set aggregated" "?I ys s" for ys sv s
        using that by (auto simp: aggregate_svc_def aggregate_card_def wp_rules inj own set_card_frame J split: option.split sum.split)
    qed
    then show ?thesis by (rule wp_mono) auto
  qed
  show ?thesis
    using assms unfolding good_def fetchAggregate_def failed_def [symmetric]
    by (auto simp: wp_rules failed intro!: wp_mono [OF loop] split: sum.split)
qed

lemma good_job: "j \<in> set jobs \<Longrightarrow> waiting_job j s \<Longrightarrow> good j (job_task base j) s"
  using good_probe good_aggregate by (cases "j = JAggregate") auto

text \<open>Jobs do not disturb one another, and the clock and the flag disturb none.\<close>

lemma job_frame_other:
  assumes "job_frame j s s'" "j \<in> set jobs" "j' \<in> set jobs" "j \<noteq> j'"
  shows "waiting_job j' s' = waiting_job j' s" "settled_job j' s' = settled_job j' s"
proof -
  have same: "card_of s' k = card_of s k" if "k \<in> set (owned j')" for k
    using assms that owned_disjoint [of j' j k] by (auto simp: job_frame_def)
  have err: "fetchError s' = fetchError s" if "j' = JAggregate" using assms that by (auto simp: job_frame_def)
  show "waiting_job j' s' = waiting_job j' s" using same err by (auto simp: waiting_job_def)
  show "settled_job j' s' = settled_job j' s"
  proof (cases j')
    case JAggregate
    then have "\<forall>sv \<in> set aggregated. card_of s' (sv_key sv) = card_of s (sv_key sv)" using same by auto
    with JAggregate err show ?thesis by (simp cong: ball_cong)
  qed (use same in simp_all)
qed

lemma job_irrelevant [simp]:
  "waiting_job j (s\<lparr>pg_now := t\<rparr>) = waiting_job j s" "settled_job j (s\<lparr>pg_now := t\<rparr>) = settled_job j s"
  "settled_job j (s\<lparr>pg_loading := b\<rparr>) = settled_job j s" "keys_ok (s\<lparr>pg_now := t\<rparr>) = keys_ok s"
  "keys_ok (s\<lparr>pg_loading := b\<rparr>) = keys_ok s"
  by (cases j; auto simp: waiting_job_def keys_ok_def)+

lemma good_waiting:
  assumes "waits t" "good j t s"
  shows "waiting_job j s" and "waiting_job j s' \<Longrightarrow> good j t s'"
  using assms by (cases t; auto simp: good_def)+

lemma advance_good:
  assumes "good j t s" "advance t s = (s', t')"
  shows "job_frame j s s'" "good j t' s'" "\<not> waits t' \<Longrightarrow> settled_job j s'"
proof -
  have "job_frame j s (fst (advance t s)) \<and> good j (snd (advance t s)) (fst (advance t s))"
    unfolding good_def by (rule wp_advance [OF assms(1) [unfolded good_def]]) (auto simp: job_frame_def)
  then show *: "job_frame j s s'" "good j t' s'" by (simp_all add: assms(2))
  assume "\<not> waits t'"
  with *(2) advance_final [of t s] assms(2) show "settled_job j s'" by (auto simp: good_def)
qed

definition page_inv :: "job list \<Rightarrow> page_state \<Rightarrow> bool" where
  "page_inv D st \<longleftrightarrow> (case st of (s, ps) \<Rightarrow> keys_ok s \<and> distinct (map fst ps) \<and> fst ` set ps \<subseteq> set D
     \<and> (\<forall>(j, t) \<in> set ps. waits t \<and> good j t s) \<and> (\<forall>j \<in> set D - fst ` set ps. settled_job j s)
     \<and> (\<forall>j \<in> set jobs - set D. waiting_job j s))"

lemma resume_job:
  assumes inv: "page_inv D (s, xs @ ys)" and j: "j \<in> set jobs" "j \<notin> fst ` set (xs @ ys)" "set D \<subseteq> set jobs"
    and rest: "\<And>i. i \<in> set D' - fst ` set (xs @ ys) \<Longrightarrow> i \<noteq> j \<Longrightarrow> settled_job i s"
    and D': "set D' = insert j (set D)"
    and good: "good j t s" and adv: "advance t s = (s', t')"
  shows "page_inv D' (s', xs @ park j (s', t') @ ys)"
proof -
  note adv' = advance_good [OF good adv]
  note other = job_frame_other [OF adv'(1) j(1)]
  have "keys_ok s'" using inv adv'(1) by (auto simp: page_inv_def job_frame_def)
  moreover have others: "waits u \<and> good i u s'" if "(i, u) \<in> set (xs @ ys)" for i u
  proof -
    have "i \<in> fst ` set (xs @ ys)" using that by force
    then have "waits u" "good i u s" "i \<in> set jobs" "i \<noteq> j" using inv j that by (auto simp: page_inv_def)
    with good_waiting [of u i s] other(1) [of i] show ?thesis by blast
  qed
  moreover have "settled_job i s'" if "i \<in> set D'" "i \<notin> fst ` set (xs @ park j (s', t') @ ys)" for i
  proof (cases "i = j")
    case True
    with that(2) have "\<not> waits t'" by (auto simp: park_def)
    with True adv'(3) show ?thesis by simp
  next
    case False
    with that rest [of i] have "settled_job i s" by auto
    with False that(1) D' j other(2) [of i] show ?thesis by auto
  qed
  moreover have "waiting_job i s'" if "i \<in> set jobs - set D'" for i
    using that inv D' other(1) [of i] by (auto simp: page_inv_def)
  moreover have "distinct (map fst (xs @ park j (s', t') @ ys))" "fst ` set (xs @ park j (s', t') @ ys) \<subseteq> set D'"
    using inv j D' by (auto simp: page_inv_def park_def)
  moreover have "\<forall>(i, u) \<in> set (xs @ park j (s', t') @ ys). waits u \<and> good i u s'"
    using others adv'(2) by (auto simp: park_def)
  ultimately show ?thesis by (simp only: page_inv_def case_prod_conv Diff_iff Ball_def) blast
qed

text \<open>Starting the jobs, and the state in which a refresh starts.\<close>

lemma card_of_reset:
  assumes "k \<in> set (map sv_key (svs :: service list))"
  shows "card_of (fold (\<lambda>sv. set_card (sv_key sv) loading_card) svs s) k = Some loading_card"
  using assms
proof (induction svs arbitrary: s)
  case (Cons sv svs)
  have keep: "card_of (fold (\<lambda>sv. set_card (sv_key sv) loading_card) svs s') k = Some loading_card"
    if "card_of s' k = Some loading_card" for s'
    using that by (induction svs arbitrary: s') auto
  from Cons keep [of "set_card (sv_key sv) loading_card s"] show ?case by (cases "k = sv_key sv") simp_all
qed simp

lemma reset_frame:
  "keys_ok s \<Longrightarrow> set (svs :: service list) \<subseteq> set SERVICES \<Longrightarrow>
     keys_ok (fold (\<lambda>sv. set_card (sv_key sv) loading_card) svs s)"
  "fetchError (fold (\<lambda>sv. set_card (sv_key sv) loading_card) svs s) = fetchError s"
proof (induction svs arbitrary: s)
  case (Cons sv svs)
  {
    case 1
    then have "sv_key sv \<in> set (map fst (statuses s))" by (simp add: keys_ok_def)
    with 1 have "keys_ok (set_card (sv_key sv) loading_card s)"
      by (simp add: keys_ok_def set_card_def al_set_keys del: set_map)
    with 1 Cons.IH(1) show ?case by simp
  next
    case 2
    with Cons.IH(2) show ?case by simp
  }
qed simp_all

lemma reset_inv: "keys_ok s \<Longrightarrow> page_inv [] (reset_page s, [])"
proof -
  assume "keys_ok s"
  then have "keys_ok (reset_page s)"
    unfolding reset_page_def by (intro reset_frame(1)) (auto simp: keys_ok_def)
  moreover have "waiting_job j (reset_page s)" if "j \<in> set jobs" for j
    using owned_keys [OF that] unfolding waiting_job_def reset_page_def
    by (auto simp: reset_frame(2) intro!: card_of_reset)
  ultimately show ?thesis by (simp add: page_inv_def)
qed

lemma launch_inv:
  assumes "page_inv D st" "j \<in> set jobs" "j \<notin> set D" "set D \<subseteq> set jobs"
  shows "page_inv (D @ [j]) (launch base j st)"
proof -
  obtain s ps where st: "st = (s, ps)" by fastforce
  obtain s' t' where adv: "advance (job_task base j) s = (s', t')" by fastforce
  have good: "good j (job_task base j) s"
    using assms st by (intro good_job) (auto simp: page_inv_def)
  have "page_inv (D @ [j]) (s', ps @ park j (s', t') @ [])"
    by (rule resume_job [OF _ _ _ _ _ _ good adv, where D = D]) (use assms st in \<open>auto simp: page_inv_def\<close>)
  then show ?thesis by (simp add: launch_def st adv)
qed

lemma launch_all:
  assumes "page_inv D st" "distinct (D @ jl)" "set (D @ jl) \<subseteq> set jobs"
  shows "page_inv (D @ jl) (fold (launch base) jl st)"
  using assms
proof (induction jl arbitrary: D st)
  case (Cons j jl)
  then have "page_inv (D @ [j]) (launch base j st)" by (intro launch_inv) auto
  from Cons.IH [OF this] Cons.prems show ?case by simp
qed simp

definition page_sound :: "page_state \<Rightarrow> bool" where
  "page_sound st \<longleftrightarrow> page_inv jobs st \<and> (pg_loading (fst st) \<longleftrightarrow> snd st \<noteq> [])"

lemma join_inv:
  assumes "page_inv jobs st" "pg_loading (fst st)"
  shows "page_sound (join_jobs st)"
proof (cases "snd st = []")
  case True
  with assms show ?thesis by (cases st) (auto simp: page_sound_def join_jobs_def page_inv_def)
next
  case False
  with assms show ?thesis by (simp add: page_sound_def join_jobs_def)
qed

lemma loading_kept:
  "good j t s \<Longrightarrow> pg_loading (fst (advance t s)) = pg_loading s"
  using advance_good(1) [of j t s] by (cases "advance t s") (auto simp: job_frame_def)

lemma launch_loading:
  "page_inv D st \<Longrightarrow> j \<in> set jobs \<Longrightarrow> j \<notin> set D \<Longrightarrow> pg_loading (fst (launch base j st)) = pg_loading (fst st)"
  using loading_kept [OF good_job, of j "fst st" base] by (cases st) (auto simp: launch_def Let_def page_inv_def)

lemma launch_all_loading:
  assumes "page_inv D st" "distinct (D @ jl)" "set (D @ jl) \<subseteq> set jobs"
  shows "pg_loading (fst (fold (launch base) jl st)) = pg_loading (fst st)"
  using assms
proof (induction jl arbitrary: D st)
  case (Cons j jl)
  then have "page_inv (D @ [j]) (launch base j st)" by (intro launch_inv) auto
  from Cons.IH [OF this] Cons.prems launch_loading [of D st j base] show ?case by simp
qed simp

lemma reset_loading: "pg_loading (reset_page s)"
proof -
  have "pg_loading (fold (\<lambda>sv. set_card (sv_key sv) loading_card) svs s') = pg_loading s'" for svs :: "service list" and s'
    by (induction svs arbitrary: s') (auto simp: set_card_def)
  then show ?thesis by (simp add: reset_page_def)
qed

lemma fetchStatus_sound: "keys_ok s \<Longrightarrow> page_sound (fetchStatus base s)"
proof -
  assume "keys_ok s"
  note inv = reset_inv [OF this]
  have d: "distinct ([] @ jobs)" "set ([] @ jobs) \<subseteq> set jobs" by (simp_all add: jobs_def)
  have "page_inv jobs (fold (launch base) jobs (reset_page s, []))" using launch_all [OF inv d] by simp
  moreover have "pg_loading (fst (fold (launch base) jobs (reset_page s, [])))"
    using launch_all_loading [OF inv d] by (simp add: reset_loading)
  ultimately show ?thesis unfolding fetchStatus_def by (rule join_inv)
qed

lemma page_step_sound:
  assumes "page_sound st"
  shows "page_sound (page_step base st e)"
proof -
  obtain s ps where st: "st = (s, ps)" by fastforce
  have inv: "page_inv jobs (s, ps)" and load: "pg_loading s \<longleftrightarrow> ps \<noteq> []"
    using assms by (simp_all add: page_sound_def st)
  show ?thesis
  proof (cases e)
    case (Refresh t)
    have "keys_ok (s\<lparr>pg_now := t\<rparr>)" using inv by (simp add: page_inv_def)
    with assms fetchStatus_sound show ?thesis by (simp add: st Refresh)
  next
    case (Reply t i rs)
    show ?thesis
    proof (cases "i < length ps")
      case True
      then obtain j u where i: "ps ! i = (j, u)" "(j, u) \<in> set ps" by (metis nth_mem surj_pair)
      then have u: "waits u" "good j u s" using inv by (auto simp: page_inv_def)
      then obtain qs k where k: "u = Await qs k" by (cases u) auto
      let ?s = "s\<lparr>pg_now := t\<rparr>" and ?xs = "take i ps" and ?ys = "drop (Suc i) ps"
      have split: "ps = ?xs @ (j, u) # ?ys" using id_take_nth_drop [OF True] i(1) by simp
      have good: "good j (k rs) ?s" using u(2) by (auto simp: k good_def)
      obtain s' t' where adv: "advance (k rs) ?s = (s', t')" by fastforce
      have inv': "page_inv jobs (?s, ps)"
        using inv good_waiting(2) [OF _ _ iffD2 [OF job_irrelevant(1)]] good_waiting(1) by (auto simp: page_inv_def)
      have "j \<in> set jobs" using inv i(2) by (force simp: page_inv_def)
      have ps: "set ps = insert (j, u) (set (?xs @ ?ys))" "j \<notin> fst ` set (?xs @ ?ys)" "distinct (map fst (?xs @ ?ys))"
        using arg_cong [OF split, of set] arg_cong [OF split, of "\<lambda>ps. distinct (map fst ps)"] inv
        by (auto simp: page_inv_def simp del: append_take_drop_id)
      have "distinct jobs" by (simp add: jobs_def)
      then have D: "set (remove1 j jobs) = set jobs - {j}" by (rule set_remove1_eq)
      have new: "page_inv jobs (s', ?xs @ park j (s', t') @ ?ys)"
      proof (rule resume_job [OF _ _ _ _ _ _ good adv])
        show "page_inv (remove1 j jobs) (?s, ?xs @ ?ys)"
          using inv' ps good_waiting(1) [OF u] by (auto simp: page_inv_def D)
        show "settled_job l ?s" if "l \<in> set jobs - fst ` set (?xs @ ?ys)" "l \<noteq> j" for l
          using that inv' ps(1) by (auto simp: page_inv_def)
      qed (use \<open>j \<in> set jobs\<close> ps(2) D in auto)
      have "pg_loading s'" using loading_kept [OF good] adv load True by auto
      with join_inv [OF new] True i adv show ?thesis by (simp add: st Reply k)
    qed (use assms in \<open>simp add: st Reply\<close>)
  qed
qed


lemma advance_puts:
  "advance (for_each (\<lambda>x. put_card (f x) c) xs) s = (fold (\<lambda>x. set_card (f x) c) xs s, Ret ())"
  by (induction xs arbitrary: s) (auto simp: put_card_def)


section \<open>ServiceCard\<close>

text \<open>What a card shows: its state classes, the latency badge, and the result line, which is dimmed when there is no result.\<close>

record card_view =
  cv_classes :: "jsstr list"
  cv_status :: jsval
  cv_latency :: "jsval option"
  cv_result :: jsval
  cv_dim :: bool

definition ServiceCard :: "card \<Rightarrow> card_view" where
  "ServiceCard c =
     \<lparr>cv_classes = js ''card'' # concat (map (\<lambda>st. if cd_status c = Str (js st) then [js (''card-'' @ st)] else [])
        [''online'', ''offline'', ''loading'']),
      cv_status = cd_status c,
      cv_latency = (if cd_latencyMs c \<noteq> Null \<and> cd_status c = Str (js ''online'') then Some (cd_latencyMs c) else None),
      cv_result = (if truthy (cd_result c) then cd_result c
        else if cd_status c = Str (js ''loading'') then Str (js ''checking'' @ [0x2026]) else Str [0x2014]),
      cv_dim = (\<not> truthy (cd_result c))\<rparr>"

section \<open>QrCode\<close>

text \<open>
  The share button.  \<open>QRCode.toCanvas\<close> is a library call; the URLs it was asked to draw are recorded.  The canvas exists while the
  popover is rendered, which the browser does after the click handler.
\<close>

record qr =
  qr_canvas :: bool
  qr_url :: jsstr
  qr_visible :: bool
  qr_drawn :: "jsstr list"

definition qr_draw :: "qr \<Rightarrow> qr" where
  "qr_draw s = (if qr_visible s \<and> qr_canvas s \<and> qr_url s \<noteq> [] then s\<lparr>qr_drawn := qr_drawn s @ [qr_url s]\<rparr> else s)"

definition qr_mount :: "jsstr \<Rightarrow> qr" where
  "qr_mount href = \<lparr>qr_canvas = False, qr_url = href, qr_visible = False, qr_drawn = []\<rparr>"

definition qr_toggle :: "qr \<Rightarrow> qr" where
  "qr_toggle s = qr_draw (s\<lparr>qr_visible := \<not> qr_visible s\<rparr>)"

text \<open>Rendering binds or releases the canvas, then the effect runs.\<close>

definition qr_render :: "qr \<Rightarrow> qr" where
  "qr_render s = qr_draw (s\<lparr>qr_canvas := qr_visible s\<rparr>)"

definition qr_click :: "qr \<Rightarrow> qr" where
  "qr_click s = qr_render (qr_toggle s)"

section \<open>The order feed\<close>

datatype ws_status = Connecting | Connected | Disconnected | WsError

text \<open>
  Sockets are numbered in the order they are made.  A socket is alive until its \<open>close\<close> event, also while a call of \<open>close()\<close> takes
  effect; \<open>fd_timers\<close> counts the pending calls of \<open>setTimeout(connectOrderFeed, 3000)\<close>.
\<close>

record feed =
  wsStatus :: ws_status
  orderEvents :: "jsval list"
  wsConn :: "nat option"
  fd_alive :: "nat list"
  fd_closing :: "nat list"
  fd_timers :: nat
  fd_next :: nat

definition feed_init :: feed where
  "feed_init = \<lparr>wsStatus = Disconnected, orderEvents = [], wsConn = None, fd_alive = [], fd_closing = [], fd_timers = 0, fd_next = 0\<rparr>"

definition connectOrderFeed :: "feed \<Rightarrow> feed" where
  "connectOrderFeed s = s\<lparr>wsStatus := Connecting, wsConn := Some (fd_next s), fd_alive := fd_alive s @ [fd_next s], fd_next := Suc (fd_next s)\<rparr>"

definition feed_push :: "jsval list \<Rightarrow> jsval \<Rightarrow> jsval list" where
  "feed_push evs data = take 50 (data # evs)"

definition feed_onmessage :: "jsstr \<Rightarrow> feed \<Rightarrow> feed" where
  "feed_onmessage t s = (case JSON_parse t of None \<Rightarrow> s | Some data \<Rightarrow> s\<lparr>orderEvents := feed_push (orderEvents s) data\<rparr>)"

definition feed_onclose :: "feed \<Rightarrow> feed" where
  "feed_onclose s = s\<lparr>wsStatus := Disconnected, wsConn := None, fd_timers := Suc (fd_timers s)\<rparr>"

definition feed_unmount :: "feed \<Rightarrow> feed" where
  "feed_unmount s = (case wsConn s of None \<Rightarrow> s | Some i \<Rightarrow> s\<lparr>fd_closing := i # fd_closing s\<rparr>)"

datatype feed_event =
    WsOpen nat
  | WsMessage nat jsstr
  | WsErrorEvent nat
  | WsClose nat
  | FeedTimer
  | Unmount

fun feed_step :: "feed \<Rightarrow> feed_event \<Rightarrow> feed" where
  "feed_step s (WsOpen i) = (if i \<in> set (fd_alive s) \<and> i \<notin> set (fd_closing s) then s\<lparr>wsStatus := Connected\<rparr> else s)"
| "feed_step s (WsMessage i t) = (if i \<in> set (fd_alive s) \<and> i \<notin> set (fd_closing s) then feed_onmessage t s else s)"
| "feed_step s (WsErrorEvent i) = (if i \<in> set (fd_alive s) then s\<lparr>wsStatus := WsError\<rparr> else s)"
| "feed_step s (WsClose i) = (if i \<in> set (fd_alive s) then feed_onclose (s\<lparr>fd_alive := removeAll i (fd_alive s)\<rparr>) else s)"
| "feed_step s FeedTimer = (if 0 < fd_timers s then connectOrderFeed (s\<lparr>fd_timers := fd_timers s - 1\<rparr>) else s)"
| "feed_step s Unmount = feed_unmount s"

definition feed_run :: "feed_event list \<Rightarrow> feed" where
  "feed_run evs = foldl feed_step (connectOrderFeed feed_init) evs"

lemma rev_take_last: "rev (take_last n xs) = take n (rev xs)"
  by (cases "n \<le> length xs") (simp_all add: take_last_def rev_drop)

text \<open>The event list keeps the last fifty events, newest first.\<close>

interpretation order_feed: sliding_window "foldl feed_push" rev 50 "\<lambda>es. es \<noteq> []"
proof unfold_locales
  have push: "rev (feed_push s e) = take_last 50 (rev s @ [e])" for s e
    by (simp add: feed_push_def take_last_def rev_take min_def)
  show "rev (foldl feed_push s es) = take_last 50 (rev s @ es)" if "es \<noteq> []" for s es
    using that
  proof (induction es rule: rev_nonempty_induct)
    case (snoc e es)
    then show ?case using take_last_absorb [of 50 "rev s @ es" "[e]"] by (simp add: push)
  qed (simp add: push)
qed

text \<open>Exactly one of a live socket and a pending reconnection, also after the page is gone.\<close>

definition feed_inv :: "feed \<Rightarrow> bool" where
  "feed_inv s \<longleftrightarrow> (\<exists>i < fd_next s. fd_alive s = [i] \<and> wsConn s = Some i \<and> fd_timers s = 0)
     \<or> fd_alive s = [] \<and> wsConn s = None \<and> fd_timers s = 1 \<and> wsStatus s = Disconnected"

lemma feed_inv_step: "feed_inv s \<Longrightarrow> feed_inv (feed_step s e)"
  by (cases e) (auto simp: feed_inv_def feed_onmessage_def feed_onclose_def feed_unmount_def connectOrderFeed_def
      split: option.split if_splits)

lemma feed_inv_run: "feed_inv (feed_run evs)"
proof -
  have "feed_inv (connectOrderFeed feed_init)" by (auto simp: feed_inv_def connectOrderFeed_def feed_init_def)
  then show ?thesis unfolding feed_run_def by (induction evs rule: rev_induct) (simp_all add: feed_inv_step)
qed

text \<open>
  C15: At every moment after the page is mounted there is exactly one live WebSocket or exactly one reconnection waiting for its timer,
  never both and never two: the feed always comes back, and never doubles its events.  This stays so after the page is left.
\<close>

theorem feed_one_connection:
  "length (fd_alive (feed_run evs)) + fd_timers (feed_run evs) = 1
     \<and> fd_alive (feed_run evs) = (case wsConn (feed_run evs) of None \<Rightarrow> [] | Some i \<Rightarrow> [i])"
  using feed_inv_run [of evs] by (auto simp: feed_inv_def)



text \<open>Frames that are JSON, in the order they arrived on a socket that was open.\<close>

fun feed_frames :: "feed \<Rightarrow> feed_event list \<Rightarrow> jsval list" where
  "feed_frames s [] = []"
| "feed_frames s (e # evs) = (case e of
     WsMessage i t \<Rightarrow> (if i \<in> set (fd_alive s) \<and> i \<notin> set (fd_closing s) then case JSON_parse t of None \<Rightarrow> [] | Some v \<Rightarrow> [v] else [])
   | _ \<Rightarrow> []) @ feed_frames (feed_step s e) evs"

lemma feed_step_events: "orderEvents (feed_step s e) = foldl feed_push (orderEvents s) (feed_frames s [e])"
  by (cases e) (auto simp: feed_onmessage_def feed_onclose_def feed_unmount_def connectOrderFeed_def split: option.split)

lemma feed_run_events: "orderEvents (foldl feed_step s evs) = foldl feed_push (orderEvents s) (feed_frames s evs)"
proof (induction evs arbitrary: s)
  case (Cons e evs)
  then show ?case by (simp add: feed_step_events)
qed simp

lemma feed_run_recent: "orderEvents (feed_run evs) = take 50 (rev (feed_frames (connectOrderFeed feed_init) evs))"
proof -
  let ?fs = "feed_frames (connectOrderFeed feed_init) evs"
  have ev: "orderEvents (feed_run evs) = foldl feed_push [] ?fs"
    by (simp add: feed_run_def feed_run_events) (simp add: connectOrderFeed_def feed_init_def)
  show ?thesis
  proof (cases "?fs = []")
    case False
    then have "rev (foldl feed_push [] ?fs) = take_last 50 ?fs"
      using order_feed.add_contents [of ?fs "[]"] by simp
    then have "foldl feed_push [] ?fs = rev (take_last 50 ?fs)" by (metis rev_rev_ident)
    then show ?thesis by (simp add: ev rev_take_last)
  qed (simp add: ev)
qed

text \<open>
  C14: The feed shows the fifty most recent events that arrived as JSON, newest first, across reconnections; frames that are not JSON leave
  it alone.
\<close>

theorem feed_shows_recent:
  "orderEvents (feed_run evs) = take 50 (rev (feed_frames (connectOrderFeed feed_init) evs))"
  by (rule feed_run_recent)

end
