(* ===== verification/Portal.thy ===== *)
theory Portal
  imports Portal_Single Portal_Combined Portal_Json Portal_Live Portal_Charts Portal_Wasm Portal_Page
begin

text \<open>
  Properties of all panels together: their loading flags, what they show when nothing answers, the percentage bar, and the one pair of
  handlers that get in each other's way.
\<close>

section \<open>Loading flags\<close>


section \<open>When nothing answers\<close>

text \<open>The handler ends, its flag is down, and the variable its panel shows holds an error message.\<close>

definition is_error :: "jsval \<Rightarrow> bool" where
  "is_error v \<longleftrightarrow> (case v of Obj [(k, Str m)] \<Rightarrow> k = js ''error'' \<and> m \<noteq> [] | _ \<Rightarrow> False)"

lemma is_error_obj [simp]: "is_error (error_obj m) \<longleftrightarrow> m \<noteq> []"
  by (simp add: is_error_def error_obj_def)

definition reports_down :: "('s \<Rightarrow> bool) \<Rightarrow> ('s \<Rightarrow> jsval) \<Rightarrow> ('s, unit) task \<Rightarrow> bool" where
  "reports_down busy x m \<longleftrightarrow> (\<forall>s. snd (offline m s) = Ret () \<and> \<not> busy (fst (offline m s)) \<and> is_error (x (fst (offline m s))))"

lemmas call_defs = guarded_def load_panel_def load_into_def fetch_def json_def fetch_all_def json_all_def fetch_json_def wait_for_def
  single_def assign_def lift_result_def

lemma load_panel_down:
  assumes "\<And>v s. x (set_x (\<lambda>_. v) s) = v" "\<And>b s. x (set_busy (\<lambda>_. b) s) = x s" "\<And>b s. busy (set_busy (\<lambda>_. b) s) = b" "down \<noteq> []"
  shows "reports_down busy x (load_panel set_busy set_x url off down)"
  unfolding reports_down_def by (simp add: call_defs assms)

lemma single_down: "reports_down juliaLoading juliaResult (runJulia base)"
  "reports_down stressLoading stressResult (runStress base)" "reports_down brainLoading brainData (runBrain base)"
  "reports_down rLoading rFit (runRFit base)" "reports_down corrLoading rCorr (runRCorr base)"
  "reports_down garchLoading rGarch (runRGarch base)" "reports_down arimaLoading rArima (runRArima base)"
  "reports_down fsharpLoading fsharpOption (runFsharpOption base)" "reports_down fsharpLoading fsharpIV (runFsharpIV base)"
  "reports_down fsharpLoading fsharpSmile (runFsharpSmile base)" "reports_down fsharpLoading fsharpDCF (runFsharpDCF base)"
  "reports_down wf_riskLoading riskResult (runRiskFull base)" "reports_down circuitLoading circuitResult (fetchCircuit base)"
  "reports_down statsLoading crystalStats (runCrystalStats base)" "reports_down nimGarchLoading nimGarch (runNimGarch base)"
  "reports_down nimForecastLoading nimForecast (runNimForecast base)"
  "reports_down oc_portfolioLoading oc_portfolioData (oc_runPortfolio base)"
  "reports_down summaryLoading riskSummary (fetchRiskSummary base)"
  unfolding runJulia_def runStress_def runBrain_def runRFit_def runRCorr_def runRGarch_def runRArima_def runFsharpOption_def
    runFsharpIV_def runFsharpSmile_def runFsharpDCF_def runRiskFull_def fetchCircuit_def runCrystalStats_def runNimGarch_def
    runNimForecast_def oc_runPortfolio_def fetchRiskSummary_def
  by (rule load_panel_down; simp)+

lemma combined_down: "reports_down cmp_loading cmp_result (runCompare base)"
  "reports_down crystalLoading crystalData (runCrystal base)" "reports_down dartLoading dartData (runDart base)"
  "reports_down haskellLoading haskellData (runHaskell base)" "reports_down nimLoading nimData (runNim base)"
  "reports_down ocamlLoading ocamlRisk (runOcamlRisk base)" "reports_down scoreLoading scoreData (fetchScore base)"
  "reports_down scalaLoading scalaData (runScala base)" "reports_down rubyLoading rubyData (runRuby base)"
  unfolding reports_down_def runCompare_def runCrystal_def runDart_def runHaskell_def haskell_urls_def runNim_def runOcamlRisk_def
    fetchScore_def runScala_def runRuby_def
  by (simp_all add: call_defs Let_def)

lemma json_down: "reports_down clojureLoading clojureData (runClojure base)"
  "reports_down transferLoading transferRes (doTransfer base)" "reports_down erlangLoading erlangData (runErlang base)"
  "reports_down er_riskLoading er_riskData (fetchRisk base)" "reports_down gleamLoading gleamData (runGleam base)"
  "reports_down gl_pipelineLoading gl_pipelineData (runGleamPipeline base)" "reports_down gl_riskLoading gl_riskData (runGleamRisk base)"
  "reports_down javaLoading javaData (runJava base)" "reports_down jv_pipelineLoading jv_pipelineData (jv_runPipeline base)"
  "reports_down luaLoading luaData (runLua base)" "reports_down pr_loading inferData (runAll base)"
  "reports_down pr_loading pr_portfolioData (pr_runPortfolio base)" "reports_down explainLoading explainData (fetchExplain base)"
  "reports_down swiftLoading swiftData (runSwift base)" "reports_down tradeLoading tradeResult (executeTrade base)"
  "reports_down vLoading vData (runV base)" "reports_down reportLoading reportData (runReport base)"
  unfolding reports_down_def runClojure_def doTransfer_def runErlang_def fetchRisk_def runGleam_def runGleamPipeline_def
    runGleamRisk_def runJava_def jv_runPipeline_def runLua_def runAll_def pr_runPortfolio_def fetchExplain_def runSwift_def
    executeTrade_def runV_def runReport_def
  by (simp_all add: call_defs split: sum.split)

text \<open>
  When nothing answers, these handlers do not fail silently: each of them ends without an exception, lowers its flag, and leaves an error
  message in the variable its panel shows.
\<close>

theorem panels_report_down:
  "reports_down juliaLoading juliaResult (runJulia base)
   \<and> reports_down stressLoading stressResult (runStress base)
   \<and> reports_down brainLoading brainData (runBrain base)
   \<and> reports_down rLoading rFit (runRFit base)
   \<and> reports_down corrLoading rCorr (runRCorr base)
   \<and> reports_down garchLoading rGarch (runRGarch base)
   \<and> reports_down arimaLoading rArima (runRArima base)
   \<and> reports_down fsharpLoading fsharpOption (runFsharpOption base)
   \<and> reports_down fsharpLoading fsharpIV (runFsharpIV base)
   \<and> reports_down fsharpLoading fsharpSmile (runFsharpSmile base)
   \<and> reports_down fsharpLoading fsharpDCF (runFsharpDCF base)
   \<and> reports_down wf_riskLoading riskResult (runRiskFull base)
   \<and> reports_down circuitLoading circuitResult (fetchCircuit base)
   \<and> reports_down statsLoading crystalStats (runCrystalStats base)
   \<and> reports_down nimGarchLoading nimGarch (runNimGarch base)
   \<and> reports_down nimForecastLoading nimForecast (runNimForecast base)
   \<and> reports_down oc_portfolioLoading oc_portfolioData (oc_runPortfolio base)
   \<and> reports_down summaryLoading riskSummary (fetchRiskSummary base)
   \<and> reports_down cmp_loading cmp_result (runCompare base)
   \<and> reports_down crystalLoading crystalData (runCrystal base)
   \<and> reports_down dartLoading dartData (runDart base)
   \<and> reports_down haskellLoading haskellData (runHaskell base)
   \<and> reports_down nimLoading nimData (runNim base)
   \<and> reports_down ocamlLoading ocamlRisk (runOcamlRisk base)
   \<and> reports_down scoreLoading scoreData (fetchScore base)
   \<and> reports_down scalaLoading scalaData (runScala base)
   \<and> reports_down rubyLoading rubyData (runRuby base)
   \<and> reports_down clojureLoading clojureData (runClojure base)
   \<and> reports_down transferLoading transferRes (doTransfer base)
   \<and> reports_down erlangLoading erlangData (runErlang base)
   \<and> reports_down er_riskLoading er_riskData (fetchRisk base)
   \<and> reports_down gleamLoading gleamData (runGleam base)
   \<and> reports_down gl_pipelineLoading gl_pipelineData (runGleamPipeline base)
   \<and> reports_down gl_riskLoading gl_riskData (runGleamRisk base)
   \<and> reports_down javaLoading javaData (runJava base)
   \<and> reports_down jv_pipelineLoading jv_pipelineData (jv_runPipeline base)
   \<and> reports_down luaLoading luaData (runLua base)
   \<and> reports_down pr_loading inferData (runAll base)
   \<and> reports_down pr_loading pr_portfolioData (pr_runPortfolio base)
   \<and> reports_down explainLoading explainData (fetchExplain base)
   \<and> reports_down swiftLoading swiftData (runSwift base)
   \<and> reports_down tradeLoading tradeResult (executeTrade base)
   \<and> reports_down vLoading vData (runV base)
   \<and> reports_down reportLoading reportData (runReport base)"
  by (intro conjI) (fact single_down combined_down json_down)+

section \<open>Two handlers in each other's way\<close>

definition ruby_overlap :: "jsstr \<Rightarrow> (ruby_op, ruby) panel_state" where
  "ruby_overlap base = foldl (pstep (ruby_run base) (\<lambda>h s. \<not> ruby_busy h s)) (ruby_init, [])
     [Click RunRuby, Click LoadCustomRule, Settle 1 [Status 200], Settle 1 [BodyText (stringify (Obj [(js ''loaded'', Bool True)]))],
      Settle 0 [Rejected, Rejected, Rejected]]"


section \<open>The bar of a report\<close>

text \<open>The position of a score between the smallest and the largest is a percentage from 0 to 100, rounding included.\<close>

lemma pct_range:
  assumes "fl_rat lo = lo" "fl_rat v = v" "fl_rat hi = hi" "lo \<le> v" "v \<le> hi" "fl_rat (hi - lo) < 2 ^ 1024"
  shows "\<exists>n. pct (Fin v) (Fin lo) (Fin hi) = Fin (of_int n) \<and> 0 \<le> n \<and> n \<le> 100"
proof (cases "lo = hi")
  case True
  then show ?thesis by (auto simp: pct_def num_eq_def intro: exI [of _ 50])
next
  case False
  with assms have "lo < hi" by simp
  then obtain r where r: "scale01 (Fin v) (Fin lo) (Fin hi) = Fin r" "0 \<le> r" "r \<le> 1"
    using scale01_range assms by blast
  from share_range(1) [OF r(2,3), of 100] obtain x where x: "js_mul (Fin r) (jsnat 100) = Fin x" "0 \<le> x" "x \<le> 100"
    by (auto simp del: js_mul.simps)
  then have "\<lfloor>x + 1 / 2\<rfloor> \<le> 100" "0 \<le> \<lfloor>x + 1 / 2\<rfloor>" by linarith+
  with False r(1) x(1) show ?thesis
    unfolding pct_def scale01_def [symmetric] by (auto simp: num_eq_def simp del: js_mul.simps)
qed

end
