(* ===== verification/Svelte_View.thy ===== *)
theory Svelte_View
  imports JS_Text
begin

text \<open>
  Markup of Svelte components.  A template is a function from the state of its component to the nodes it renders, or to the exception
  an expression in it throws; \<open>{expression}\<close>, \<open>{#if}\<close>, \<open>{#each}\<close> and elements are combinators on such results,
  and so are the operators of the expressions.  White space is collapsed as Svelte does, and nodes of white space alone are left out; a
  text next to an expression is a node of its own.
\<close>

named_theorems view_rules

section \<open>Expressions\<close>

text \<open>The conversion of text to a number: a decimal, hexadecimal, octal or binary literal between white space.\<close>

definition trim_space :: "jsstr \<Rightarrow> jsstr" where
  "trim_space s = rev (dropWhile js_space (rev (dropWhile js_space s)))"

definition radix_val :: "nat \<Rightarrow> jsstr \<Rightarrow> jsnum" where
  "radix_val b cs =
     (let ds = map hex_val cs
      in if cs \<noteq> [] \<and> list_all (\<lambda>d. case d of None \<Rightarrow> False | Some k \<Rightarrow> k < b) ds
         then fl (of_nat (foldl (\<lambda>n d. n * b + the d) 0 ds)) else NaN)"

definition decimal_val :: "jsstr \<Rightarrow> jsnum" where
  "decimal_val s =
     (let (neg, cs) = scan_sign s; (ids, r) = span_digits cs; (fds, r') = opt_frac r
      in if cs = js ''Infinity'' then (if neg then NInf else PInf)
         else case scan_exp r' of
             Some (e, []) \<Rightarrow> if ids @ fds = [] then NaN
               else fl ((if neg then - 1 else 1) * of_nat (digits_val (ids @ fds)) * 10 powi (e - int (length fds)))
           | _ \<Rightarrow> NaN)"

definition string_num :: "jsstr \<Rightarrow> jsnum" where
  "string_num s =
     (let t = trim_space s; p = take 2 t
      in if t = [] then Fin 0
         else if p = js ''0x'' \<or> p = js ''0X'' then radix_val 16 (drop 2 t)
         else if p = js ''0o'' \<or> p = js ''0O'' then radix_val 8 (drop 2 t)
         else if p = js ''0b'' \<or> p = js ''0B'' then radix_val 2 (drop 2 t)
         else decimal_val t)"

text \<open>\<open>ToPrimitive\<close> and \<open>ToNumber\<close>.\<close>

fun to_prim :: "jsval \<Rightarrow> jsval result" where
  "to_prim (Arr vs) = bindr (to_string (Arr vs)) (\<lambda>s. Inr (Str s))"
| "to_prim (Obj kvs) = bindr (to_string (Obj kvs)) (\<lambda>s. Inr (Str s))"
| "to_prim v = Inr v"

fun prim_num :: "jsval \<Rightarrow> jsnum" where
  "prim_num Undef = NaN"
| "prim_num Null = Fin 0"
| "prim_num (Bool b) = (if b then Fin 1 else Fin 0)"
| "prim_num (Num x) = x"
| "prim_num (Str s) = string_num s"
| "prim_num _ = NaN"

definition to_number :: "jsval \<Rightarrow> jsnum result" where
  "to_number v = bindr (to_prim v) (\<lambda>p. Inr (prim_num p))"

type_synonym expr = "jsval result"

text \<open>\<open>e.k\<close>, \<open>e?.\<close> with the rest of its chain, and \<open>e[i]\<close>.\<close>

definition mem :: "expr \<Rightarrow> string \<Rightarrow> expr" where
  "mem e k = bindr e (\<lambda>v. get_prop v (js k))"

definition chain :: "expr \<Rightarrow> (expr \<Rightarrow> expr) \<Rightarrow> expr" where
  "chain e rest = bindr e (\<lambda>v. if nullish v then Inr Undef else rest (Inr v))"

definition item :: "expr \<Rightarrow> nat \<Rightarrow> expr" where
  "item e i = bindr e (\<lambda>v. get_index v i)"

definition lookup_or :: "(jsstr \<times> jsstr) list \<Rightarrow> expr \<Rightarrow> expr \<Rightarrow> expr" where
  "lookup_or table e other = bindr e (\<lambda>v. bindr (to_string v) (\<lambda>k.
     case map_of table k of Some c \<Rightarrow> Inr (Str c) | None \<Rightarrow> other))"

definition js_or :: "expr \<Rightarrow> expr \<Rightarrow> expr" where
  "js_or a b = bindr a (\<lambda>v. if truthy v then Inr v else b)"

definition js_and :: "expr \<Rightarrow> expr \<Rightarrow> expr" where
  "js_and a b = bindr a (\<lambda>v. if truthy v then b else Inr v)"

definition js_default :: "expr \<Rightarrow> expr \<Rightarrow> expr" where
  "js_default a b = bindr a (\<lambda>v. if nullish v then b else Inr v)"

definition js_not :: "expr \<Rightarrow> expr" where
  "js_not a = bindr a (\<lambda>v. Inr (Bool (\<not> truthy v)))"

definition js_if :: "expr \<Rightarrow> expr \<Rightarrow> expr \<Rightarrow> expr" where
  "js_if c a b = bindr c (\<lambda>v. if truthy v then a else b)"

definition js_eq :: "expr \<Rightarrow> expr \<Rightarrow> expr" where
  "js_eq a b = bindr a (\<lambda>v. bindr b (\<lambda>w. Inr (Bool (strict_eq v w))))"

definition js_ne :: "expr \<Rightarrow> expr \<Rightarrow> expr" where
  "js_ne a b = bindr a (\<lambda>v. bindr b (\<lambda>w. Inr (Bool (\<not> strict_eq v w))))"

definition num_op :: "(jsnum \<Rightarrow> jsnum \<Rightarrow> jsnum) \<Rightarrow> expr \<Rightarrow> expr \<Rightarrow> expr" where
  "num_op f a b = bindr a (\<lambda>v. bindr b (\<lambda>w. bindr (to_number v) (\<lambda>x. bindr (to_number w) (\<lambda>y. Inr (Num (f x y))))))"

abbreviation js_times :: "expr \<Rightarrow> expr \<Rightarrow> expr" where "js_times \<equiv> num_op js_mul"
abbreviation js_over :: "expr \<Rightarrow> expr \<Rightarrow> expr" where "js_over \<equiv> num_op js_div"
abbreviation js_minus :: "expr \<Rightarrow> expr \<Rightarrow> expr" where "js_minus \<equiv> num_op js_sub"

text \<open>\<open>a > b\<close>: two strings are compared by their code units, anything else by number.\<close>

fun str_less :: "jsstr \<Rightarrow> jsstr \<Rightarrow> bool" where
  "str_less _ [] = False"
| "str_less [] (_ # _) = True"
| "str_less (c # cs) (d # ds) = (c < d \<or> (c = d \<and> str_less cs ds))"

definition js_less :: "jsval \<Rightarrow> jsval \<Rightarrow> bool" where
  "js_less p q = (case (p, q) of (Str s, Str t) \<Rightarrow> str_less s t | _ \<Rightarrow> js_lt (prim_num p) (prim_num q))"

definition compare_with :: "(jsval \<Rightarrow> jsval \<Rightarrow> bool) \<Rightarrow> expr \<Rightarrow> expr \<Rightarrow> expr" where
  "compare_with r a b = bindr a (\<lambda>v. bindr b (\<lambda>w. bindr (to_prim v) (\<lambda>p. bindr (to_prim w) (\<lambda>q. Inr (Bool (r p q))))))"

definition js_at_least :: "jsval \<Rightarrow> jsval \<Rightarrow> bool" where
  "js_at_least p q = (case (p, q) of (Str s, Str t) \<Rightarrow> \<not> str_less s t | _ \<Rightarrow> js_le (prim_num q) (prim_num p))"

abbreviation js_gt :: "expr \<Rightarrow> expr \<Rightarrow> expr" where "js_gt \<equiv> compare_with (\<lambda>p q. js_less q p)"
abbreviation js_lt_of :: "expr \<Rightarrow> expr \<Rightarrow> expr" where "js_lt_of \<equiv> compare_with js_less"
abbreviation js_ge :: "expr \<Rightarrow> expr \<Rightarrow> expr" where "js_ge \<equiv> compare_with js_at_least"

text \<open>\<open>a + b\<close>: with a string on either side, text is joined.\<close>

definition js_plus :: "expr \<Rightarrow> expr \<Rightarrow> expr" where
  "js_plus a b = bindr a (\<lambda>v. bindr b (\<lambda>w. bindr (to_prim v) (\<lambda>p. bindr (to_prim w) (\<lambda>q.
     if (\<exists>s. p = Str s) \<or> (\<exists>s. q = Str s) then Inr (Str (prim_str p @ prim_str q))
     else Inr (Num (js_add (prim_num p) (prim_num q)))))))"

text \<open>Methods of numbers, strings and arrays.  The format of \<open>toLocaleString\<close>, given its arguments, is the host's
  choice, and so is the text of a date.\<close>

definition fixed :: "nat \<Rightarrow> expr \<Rightarrow> expr" where
  "fixed n e = bindr e (\<lambda>v. bindr (to_fixed v n) (\<lambda>t. Inr (Str t)))"

type_synonym locale_format = "string \<Rightarrow> jsnum \<Rightarrow> jsstr"

fun locale_text :: "(jsnum \<Rightarrow> jsstr) \<Rightarrow> jsval \<Rightarrow> jsstr result"
  and locale_texts :: "(jsnum \<Rightarrow> jsstr) \<Rightarrow> jsval list \<Rightarrow> jsstr list result" where
  "locale_text fmt (Num x) = Inr (fmt x)"
| "locale_text fmt Undef = Inl TypeError"
| "locale_text fmt Null = Inl TypeError"
| "locale_text fmt (Arr vs) = bindr (locale_texts fmt vs) (\<lambda>ss. Inr (sep_by 0x2C ss))"
| "locale_text fmt (Obj kvs) = (if map_of kvs (js ''toLocaleString'') \<noteq> None then Inl TypeError else to_string (Obj kvs))"
| "locale_text fmt (Str s) = Inr s"
| "locale_text fmt (Bool b) = Inr (prim_str (Bool b))"
| "locale_texts fmt [] = Inr []"
| "locale_texts fmt (v # vs) = bindr (if nullish v then Inr [] else locale_text fmt v) (\<lambda>s.
     bindr (locale_texts fmt vs) (\<lambda>ss. Inr (s # ss)))"

definition toLocale :: "locale_format \<Rightarrow> string \<Rightarrow> expr \<Rightarrow> expr" where
  "toLocale fmt args e = bindr e (\<lambda>v. bindr (locale_text (fmt args) v) (\<lambda>t. Inr (Str t)))"

type_synonym date_format = "string \<Rightarrow> jsval \<Rightarrow> jsstr"

definition date_text :: "date_format \<Rightarrow> string \<Rightarrow> expr \<Rightarrow> expr" where
  "date_text fmt args e = bindr e (\<lambda>v. Inr (Str (fmt args v)))"

definition as_Number :: "expr \<Rightarrow> expr" where
  "as_Number e = bindr e (\<lambda>v. bindr (to_number v) (\<lambda>x. Inr (Num x)))"

definition upper_unit :: "code_unit \<Rightarrow> code_unit" where
  "upper_unit c = (if 0x61 \<le> c \<and> c \<le> 0x7A then c - 0x20 else c)"

definition str_method :: "(jsstr \<Rightarrow> jsstr) \<Rightarrow> expr \<Rightarrow> expr" where
  "str_method f e = bindr e (\<lambda>v. case v of Str s \<Rightarrow> Inr (Str (f s)) | _ \<Rightarrow> Inl TypeError)"

fun replace_first :: "jsstr \<Rightarrow> jsstr \<Rightarrow> jsstr \<Rightarrow> jsstr" where
  "replace_first p r [] = (if p = [] then r else [])"
| "replace_first p r (c # cs) =
     (if take (length p) (c # cs) = p then r @ drop (length p) (c # cs) else c # replace_first p r cs)"

fun contains :: "jsstr \<Rightarrow> jsstr \<Rightarrow> bool" where
  "contains p [] = (p = [])"
| "contains p (c # cs) = (take (length p) (c # cs) = p \<or> contains p cs)"

definition includes_text :: "expr \<Rightarrow> jsstr \<Rightarrow> expr" where
  "includes_text e p = bindr e (\<lambda>v. case v of Str s \<Rightarrow> Inr (Bool (contains p s))
     | Arr vs \<Rightarrow> Inr (Bool (Str p \<in> set vs)) | _ \<Rightarrow> Inl TypeError)"

text \<open>\<open>e.slice(a, b)\<close> for \<open>0 <= a <= b\<close>.\<close>

definition slice_of :: "nat \<Rightarrow> nat \<Rightarrow> expr \<Rightarrow> expr" where
  "slice_of a b e = bindr e (\<lambda>v. case v of Str s \<Rightarrow> Inr (Str (take (b - a) (drop a s)))
     | Arr vs \<Rightarrow> Inr (Arr (take (b - a) (drop a vs))) | _ \<Rightarrow> Inl TypeError)"

definition last_of :: "expr \<Rightarrow> expr" where
  "last_of e = bindr e (\<lambda>v. case v of Arr vs \<Rightarrow> Inr (if vs = [] then Undef else last vs)
     | Str s \<Rightarrow> Inr (if s = [] then Undef else Str [last s]) | _ \<Rightarrow> Inl TypeError)"

fun all_of :: "'a result list \<Rightarrow> 'a list result" where
  "all_of [] = Inr []"
| "all_of (m # ms) = bindr m (\<lambda>x. bindr (all_of ms) (\<lambda>xs. Inr (x # xs)))"

definition map_each :: "(jsval \<Rightarrow> expr) \<Rightarrow> expr \<Rightarrow> expr" where
  "map_each f e = bindr e (\<lambda>v. case v of Arr vs \<Rightarrow> bindr (all_of (map f vs)) (\<lambda>ws. Inr (Arr ws)) | _ \<Rightarrow> Inl TypeError)"

fun find_first :: "(jsval \<Rightarrow> expr) \<Rightarrow> jsval list \<Rightarrow> expr" where
  "find_first f [] = Inr Undef"
| "find_first f (v # vs) = bindr (f v) (\<lambda>b. if truthy b then Inr v else find_first f vs)"

definition find_of :: "(jsval \<Rightarrow> expr) \<Rightarrow> expr \<Rightarrow> expr" where
  "find_of f e = bindr e (\<lambda>v. case v of Arr vs \<Rightarrow> find_first f vs | _ \<Rightarrow> Inl TypeError)"

definition join_text :: "jsstr \<Rightarrow> jsstr list \<Rightarrow> jsstr" where
  "join_text p ss = (case ss of [] \<Rightarrow> [] | s # ts \<Rightarrow> s @ concat (map (\<lambda>t. p @ t) ts))"

definition join_with :: "jsstr \<Rightarrow> expr \<Rightarrow> expr" where
  "join_with p e = bindr e (\<lambda>v. case v of Arr vs \<Rightarrow> bindr (to_strings vs) (\<lambda>ss. Inr (Str (join_text p ss))) | _ \<Rightarrow> Inl TypeError)"

text \<open>\<open>x.toExponential(f)\<close>: one digit before the point and \<open>f\<close> after it.\<close>

definition exp_digits :: "nat \<Rightarrow> rat \<Rightarrow> jsstr" where
  "exp_digits f x =
     (let e = (if x = 0 then 0 else ilog10_from x (- 330) 640 - 1);
          n = nat \<lfloor>x / 10 powi (e - int f) + 1 / 2\<rfloor>;
          (n, e) = (if n = 10 ^ (f + 1) then (10 ^ f, e + 1) else (n, e));
          ds = nat_str n; ds = ds @ replicate (Suc f - length ds) 0x30
      in (if f = 0 then ds else take 1 ds @ 0x2E # drop 1 ds) @ 0x65 # (if 0 \<le> e then 0x2B else 0x2D) # nat_str (nat \<bar>e\<bar>))"

fun toExponential :: "nat \<Rightarrow> jsnum \<Rightarrow> jsstr" where
  "toExponential f (Fin x) = (if x < 0 then 0x2D # exp_digits f (- x) else exp_digits f x)"
| "toExponential f x = num_str x"

definition exponential :: "nat \<Rightarrow> expr \<Rightarrow> expr" where
  "exponential f e = bindr e (\<lambda>v. case v of Num x \<Rightarrow> Inr (Str (toExponential f x)) | _ \<Rightarrow> Inl TypeError)"

text \<open>\<open>Math.abs\<close>, \<open>Math.round\<close>, \<open>typeof\<close>, the comparison with \<open>null\<close>, and template literals.\<close>

definition num_fun :: "(jsnum \<Rightarrow> jsnum) \<Rightarrow> expr \<Rightarrow> expr" where
  "num_fun f e = bindr e (\<lambda>v. bindr (to_number v) (\<lambda>x. Inr (Num (f x))))"

fun num_abs :: "jsnum \<Rightarrow> jsnum" where
  "num_abs (Fin x) = Fin \<bar>x\<bar>"
| "num_abs NInf = PInf"
| "num_abs x = x"

abbreviation math_abs :: "expr \<Rightarrow> expr" where "math_abs \<equiv> num_fun num_abs"
abbreviation math_round :: "expr \<Rightarrow> expr" where "math_round \<equiv> num_fun js_round"

fun type_name :: "jsval \<Rightarrow> string" where
  "type_name Undef = ''undefined''"
| "type_name (Bool _) = ''boolean''"
| "type_name (Num _) = ''number''"
| "type_name (Str _) = ''string''"
| "type_name _ = ''object''"

definition type_of :: "expr \<Rightarrow> expr" where
  "type_of e = bindr e (\<lambda>v. Inr (Str (js (type_name v))))"

definition js_nonnull :: "expr \<Rightarrow> expr" where
  "js_nonnull e = bindr e (\<lambda>v. Inr (Bool (\<not> nullish v)))"

fun template :: "expr list \<Rightarrow> expr" where
  "template [] = Inr (Str [])"
| "template (e # es) = bindr e (\<lambda>v. bindr (to_string v) (\<lambda>s. bindr (template es) (\<lambda>t. Inr (Str (s @ prim_str t)))))"

text \<open>\<open>e[k]\<close> for a computed key; the names of the members of \<open>Object.prototype\<close> are kept apart.\<close>

definition member :: "expr \<Rightarrow> expr \<Rightarrow> expr" where
  "member e k = bindr e (\<lambda>v. bindr k (\<lambda>w. if nullish v then Inl TypeError
     else bindr (to_string w) (\<lambda>s. Inr (own_prop (spread_props v) s))))"

text \<open>\<open>Object.entries(e)\<close>\<close>

definition entries :: "expr \<Rightarrow> expr" where
  "entries e = bindr e (\<lambda>v. if nullish v then Inl TypeError
     else Inr (Arr (map (\<lambda>(k, w). Arr [Str k, w]) (key_order (spread_props v)))))"

text \<open>A call of a function of the component.\<close>

definition call :: "(jsval \<Rightarrow> jsval) \<Rightarrow> expr \<Rightarrow> expr" where
  "call f e = bindr e (\<lambda>v. Inr (f v))"

definition num_call :: "(jsnum \<Rightarrow> jsstr) \<Rightarrow> expr \<Rightarrow> expr" where
  "num_call f e = bindr e (\<lambda>v. bindr (to_number v) (\<lambda>x. Inr (Str (f x))))"

definition member_call :: "(jsval \<Rightarrow> jsval) \<Rightarrow> expr \<Rightarrow> expr" where
  "member_call f e = bindr e (\<lambda>v. if nullish v then Inl TypeError else Inr (f v))"

section \<open>Nodes\<close>

datatype html = Text jsstr | Elem string "(string \<times> jsstr) list" "html list"

type_synonym view = "html list result"
type_synonym attrs = "(string \<times> jsstr) list result"

text \<open>Text: fixed, or the value of an expression, where \<open>null\<close> and \<open>undefined\<close> show nothing.\<close>

definition shown_text :: "jsval \<Rightarrow> jsstr result" where
  "shown_text v = (if nullish v then Inr [] else to_string v)"

definition tx :: "jsstr \<Rightarrow> view" where
  "tx s = Inr [Text s]"

definition ex :: "expr \<Rightarrow> view" where
  "ex e = bindr e (\<lambda>v. bindr (shown_text v) (\<lambda>s. Inr [Text s]))"

fun cat :: "'a list result list \<Rightarrow> 'a list result" where
  "cat [] = Inr []"
| "cat (m # ms) = bindr m (\<lambda>xs. bindr (cat ms) (\<lambda>ys. Inr (xs @ ys)))"

declare cat.simps [simp del]

text \<open>Attributes: fixed text, a value, text around values, and those that are present or absent.\<close>

definition atx :: "string \<Rightarrow> jsstr \<Rightarrow> attrs" where
  "atx n s = Inr [(n, s)]"

definition aval :: "string \<Rightarrow> expr \<Rightarrow> attrs" where
  "aval n e = bindr e (\<lambda>v. if nullish v then Inr [] else bindr (to_string v) (\<lambda>s. Inr [(n, s)]))"

definition amix :: "string \<Rightarrow> expr list \<Rightarrow> attrs" where
  "amix n es = bindr (cat (map (\<lambda>e. bindr e shown_text) es)) (\<lambda>s. Inr [(n, s)])"

definition aflag :: "string \<Rightarrow> expr \<Rightarrow> attrs" where
  "aflag n e = bindr e (\<lambda>v. Inr (if truthy v then [(n, [])] else []))"

definition el :: "string \<Rightarrow> attrs list \<Rightarrow> view list \<Rightarrow> view" where
  "el t as ks = bindr (cat as) (\<lambda>a. bindr (cat ks) (\<lambda>k. Inr [Elem t a k]))"

text \<open>\<open>{#if c}a{:else}b{/if}\<close> and \<open>{#each e as x, i}\<close>: a value that is no array is turned into one, \<open>null\<close> into the empty one.\<close>

definition ifv :: "expr \<Rightarrow> view list \<Rightarrow> view list \<Rightarrow> view" where
  "ifv c a b = bindr c (\<lambda>v. if truthy v then cat a else cat b)"

definition array_like :: "(jsstr \<times> jsval) list \<Rightarrow> jsval list result" where
  "array_like kvs = bindr (to_number (own_prop kvs (js ''length''))) (\<lambda>n.
     if js_lt n (Fin 1) \<or> n = NaN then Inr []
     else if js_lt n (Fin (2 ^ 32)) then Inr (map (\<lambda>i. own_prop kvs (nat_str i)) [0..<(case n of Fin x \<Rightarrow> nat \<lfloor>x\<rfloor> | _ \<Rightarrow> 0)])
     else Inl (JsError ''RangeError''))"

fun array_from :: "jsval \<Rightarrow> jsval list result" where
  "array_from (Arr vs) = Inr vs"
| "array_from (Str s) = Inr (map Str (code_points s))"
| "array_from (Obj kvs) = array_like kvs"
| "array_from _ = Inr []"

definition each :: "expr \<Rightarrow> (nat \<Rightarrow> jsval \<Rightarrow> view list) \<Rightarrow> view" where
  "each e body = bindr e (\<lambda>v. bindr (array_from v) (\<lambda>xs. cat (concat (map (\<lambda>(i, x). body i x) (enumerate 0 xs)))))"

text \<open>\<open>{@const x = e}\<close> before further nodes, and the items an array pattern names.\<close>

definition bind_const :: "expr \<Rightarrow> (jsval \<Rightarrow> view list) \<Rightarrow> view" where
  "bind_const e body = bindr e (\<lambda>v. cat (body v))"

section \<open>Rendering\<close>

definition ok :: "'a result \<Rightarrow> bool" where
  "ok m \<longleftrightarrow> (\<exists>x. m = Inr x)"

text \<open>The texts of a node, and a view that shows a text.\<close>

fun texts :: "html \<Rightarrow> jsstr list" where
  "texts (Text s) = [s]"
| "texts (Elem t a ks) = concat (map texts ks)"

definition displays :: "jsstr \<Rightarrow> view \<Rightarrow> bool" where
  "displays s m \<longleftrightarrow> (\<exists>hs. m = Inr hs \<and> s \<in> set (concat (map texts hs)))"

lemma ok_simps [view_rules]: "ok (Inr x) = True" "ok (Inl e) = False"
  by (simp_all add: ok_def)

lemma ok_bind: "ok (bindr m f) \<longleftrightarrow> (\<exists>x. m = Inr x \<and> ok (f x))"
  by (cases m) (simp_all add: ok_def)

lemma ok_cat [view_rules]: "ok (cat ms) = list_all ok ms"
  by (induction ms) (auto simp: ok_def bindr_def cat.simps split: sum.splits)

text \<open>The text occurs unless rendering throws: this part of \<open>displays\<close> distributes over the nodes.\<close>

definition mentions :: "jsstr \<Rightarrow> view \<Rightarrow> bool" where
  "mentions s m \<longleftrightarrow> (case m of Inl _ \<Rightarrow> True | Inr hs \<Rightarrow> s \<in> set (concat (map texts hs)))"

lemma displays_iff: "displays s m \<longleftrightarrow> ok m \<and> mentions s m"
  by (auto simp: displays_def ok_def mentions_def)

lemma mentions_cat [view_rules]: "mentions s (cat ms) = list_ex (mentions s) ms"
proof (induction ms)
  case (Cons m ms)
  then show ?case by (cases m; cases "cat ms") (auto simp: cat.simps mentions_def)
qed (simp add: mentions_def cat.simps)

lemma ok_el [view_rules]: "ok (el t as ks) \<longleftrightarrow> list_all ok as \<and> list_all ok ks"
proof -
  have "ok (cat as) = list_all ok as" "ok (cat ks) = list_all ok ks" by (simp_all add: ok_cat)
  then show ?thesis unfolding el_def by (auto simp: ok_def bindr_def split: sum.splits)
qed

lemma mentions_el [view_rules]: "mentions s (el t as ks) \<longleftrightarrow> list_ex (\<lambda>a. \<not> ok a) as \<or> list_ex (mentions s) ks"
proof -
  have "ok (cat as) \<longleftrightarrow> \<not> list_ex (\<lambda>a. \<not> ok a) as" unfolding ok_cat by (simp add: list_all_iff list_ex_iff)
  moreover have "mentions s (cat ks) = list_ex (mentions s) ks" by (rule mentions_cat)
  ultimately show ?thesis unfolding el_def by (cases "cat as"; cases "cat ks") (auto simp: ok_def mentions_def)
qed

lemma view_leaves [view_rules]:
  "ok (tx s)" "ok (atx n s)" "mentions s (tx t) \<longleftrightarrow> s = t"
  "ok (ex (Inr v)) = ok (shown_text v)" "mentions s (ex (Inr v)) \<longleftrightarrow> (case shown_text v of Inl _ \<Rightarrow> True | Inr t \<Rightarrow> t = s)"
  "ok (aval n (Inr v)) = ok (shown_text v)" "ok (aflag n (Inr v))"
  "ok (amix n es) = list_all ok (map (\<lambda>e. bindr e shown_text) es)"
  "ifv (Inr v) a b = (if truthy v then cat a else cat b)" "bind_const (Inr v) f = cat (f v)"
  using ok_cat [of "map (\<lambda>e. bindr e shown_text) es"]
  by (auto simp: tx_def atx_def mentions_def ex_def aval_def shown_text_def aflag_def amix_def ifv_def bind_const_def ok_def
      bindr_def split: sum.splits)

lemma enumerate_all [view_rules]: "list_all (\<lambda>(i, x). P x) (enumerate n xs) = list_all P xs"
  by (induction xs arbitrary: n) simp_all

lemma enumerate_any [view_rules]: "list_ex (\<lambda>(i, x). P x) (enumerate n xs) = list_ex P xs"
  by (induction xs arbitrary: n) simp_all

lemma map_all [view_rules]: "list_all P (map f xs) = list_all (\<lambda>x. P (f x)) xs"
  by (simp add: list_all_iff)

lemma all_True [view_rules]: "list_all (\<lambda>x. True) xs"
  by (simp add: list_all_iff)

lemma each_rules [view_rules]:
  "ok (each (Inr (Arr vs)) f) \<longleftrightarrow> list_all (\<lambda>(i, x). list_all ok (f i x)) (enumerate 0 vs)"
  "mentions s (each (Inr (Arr vs)) f) \<longleftrightarrow> list_ex (\<lambda>(i, x). list_ex (mentions s) (f i x)) (enumerate 0 vs)"
  by (simp_all add: each_def ok_cat mentions_cat list_all_iff list_ex_iff case_prod_beta)

lemma expr_values [view_rules]:
  "mem (Inr v) k = get_prop v (js k)" "chain (Inr v) f = (if nullish v then Inr Undef else f (Inr v))"
  "js_or (Inr v) b = (if truthy v then Inr v else b)" "js_and (Inr v) b = (if truthy v then b else Inr v)"
  "js_default (Inr v) b = (if nullish v then b else Inr v)" "js_not (Inr v) = Inr (Bool (\<not> truthy v))"
  "js_if (Inr v) a b = (if truthy v then a else b)" "js_eq (Inr v) (Inr w) = Inr (Bool (strict_eq v w))"
  "js_ne (Inr v) (Inr w) = Inr (Bool (\<not> strict_eq v w))" "fixed n (Inr (Num x)) = Inr (Str (toFixed n x))"
  "num_op g (Inr (Num x)) (Inr (Num y)) = Inr (Num (g x y))" "toLocale fmt as (Inr (Num x)) = Inr (Str (fmt as x))"
  by (simp_all add: mem_def chain_def js_or_def js_and_def js_default_def js_not_def js_if_def js_eq_def js_ne_def fixed_def
      to_fixed_def num_op_def to_number_def toLocale_def)

lemma shown_text_simps [view_rules]:
  "shown_text (Str s) = Inr s" "shown_text (Num x) = Inr (num_str x)" "shown_text (Bool b) = Inr (prim_str (Bool b))"
  "shown_text Null = Inr []" "shown_text Undef = Inr []"
  by (simp_all add: shown_text_def)

lemma fixed_not_number [view_rules]: "fixed n (Inr Undef) = Inl TypeError"
  by (simp add: fixed_def to_fixed_def)

lemma item_single [view_rules]: "item (Inr (Arr (v # vs))) 0 = Inr v"
  by (simp add: item_def)

text \<open>Conditions are evaluated before what they guard.\<close>

lemma view_congs:
  "c = c' \<Longrightarrow> ifv c a b = ifv c' a b" "e = e' \<Longrightarrow> chain e f = chain e' f" "e = e' \<Longrightarrow> js_if e x y = js_if e' x y"
  "e = e' \<Longrightarrow> js_or e x = js_or e' x" "e = e' \<Longrightarrow> js_and e x = js_and e' x" "e = e' \<Longrightarrow> js_default e x = js_default e' x"
  "e = e' \<Longrightarrow> each e g = each e' g" "e = e' \<Longrightarrow> bind_const e h = bind_const e' h"
  by simp_all

text \<open>Labels and classes that depend on a flag: the condition moves outwards, and both branches render.\<close>

lemma branches [view_rules]:
  "ok (if c then m1 else m2) = (if c then ok m1 else ok m2)"
  "mentions s (if c then h else k) = (if c then mentions s h else mentions s k)"
  "ex (if c then a else b) = (if c then ex a else ex b)"
  "aflag n (if c then a else b) = (if c then aflag n a else aflag n b)"
  "aval n (if c then a else b) = (if c then aval n a else aval n b)"
  "bindr (if c then e1 else e2) f = (if c then bindr e1 f else bindr e2 f)"
  by simp_all

end
