(* ===== verification/View_Base.thy ===== *)
theory View_Base
  imports Portal_Fetch Svelte_View
begin

text \<open>
  What the templates of all panels share: a variable without a result holds \<open>null\<close> or the object \<open>{ error }\<close> a handler leaves when it fails,
  and a template of such variables must render and display the messages.
\<close>

definition idle :: "jsval \<Rightarrow> bool" where
  "idle v \<longleftrightarrow> v = Null \<or> (\<exists>m. v = error_obj m \<and> m \<noteq> [])"

lemma error_obj_view [view_rules]:
  "truthy (error_obj m) = True" "nullish (error_obj m) = False"
  "get_prop (error_obj m) (js k) = Inr (if k = ''error'' then Str m else Undef)"
  by (simp_all add: error_obj_def own_prop_def)

lemma idle_cases: "idle v \<Longrightarrow> (v = Null \<Longrightarrow> P) \<Longrightarrow> (\<And>m. v = error_obj m \<Longrightarrow> m \<noteq> [] \<Longrightarrow> P) \<Longrightarrow> P"
  unfolding idle_def by blast

text \<open>
  A view of result variables that are idle and of form fields that hold a number, a text or nothing, while no request is running: it
  renders, and it displays the message of each variable that failed.
\<close>

definition field_value :: "jsval \<Rightarrow> bool" where
  "field_value v \<longleftrightarrow> (case v of Bool _ \<Rightarrow> False | Arr _ \<Rightarrow> False | Obj _ \<Rightarrow> False | _ \<Rightarrow> True)"

lemma field_value_shown: "field_value v \<Longrightarrow> ok (shown_text v)"
  by (cases v) (simp_all add: field_value_def view_rules)

definition view_reports :: "('s \<Rightarrow> view) \<Rightarrow> ('s \<Rightarrow> jsval) list \<Rightarrow> ('s \<Rightarrow> jsval) list \<Rightarrow> ('s \<Rightarrow> bool) \<Rightarrow> 's \<Rightarrow> bool" where
  "view_reports view xs ins rest s \<longleftrightarrow> (rest s \<longrightarrow> list_all (\<lambda>x. idle (x s)) xs \<longrightarrow> list_all (\<lambda>x. field_value (x s)) ins
     \<longrightarrow> ok (view s) \<and> list_all (\<lambda>x. \<forall>m. x s = error_obj m \<longrightarrow> m \<noteq> [] \<longrightarrow> displays m (view s)) xs)"

lemma error_obj_not_Null [view_rules]: "(error_obj m = Null) = False" "(Null = error_obj m) = False" "error_obj m = error_obj n \<longleftrightarrow> m = n"
  by (auto simp: error_obj_def)

end
