(* ===== verification/View_Single.thy ===== *)
theory View_Single
  imports Portal_Single View_Base
begin

text \<open>
  The markup of the panels whose handlers make one request at a time: for each panel, one definition per part of its
  template and \<open>_view\<close> for the whole.
\<close>

text \<open>\<open>FSharpPanel\<close>: the tab table as the template reads it.\<close>

fun tab_id :: "fsharp_tab \<Rightarrow> jsstr" where
  "tab_id TabOption = js ''option''"
| "tab_id TabIv = js ''iv''"
| "tab_id TabSmile = js ''smile''"
| "tab_id TabDcf = js ''dcf''"

definition TABS :: jsval where
  "TABS = Arr (map (\<lambda>(t, l). Obj [(js ''id'', Str (tab_id t)), (js ''label'', Str l)])
     [(TabOption, js ''Greeks''), (TabIv, [0xB0B4, 0xC7AC, 0xBCC0, 0xB3D9, 0xC131]), (TabSmile, js ''Vol Smile''), (TabDcf, js ''DCF'')])"

text \<open>\<open>KotlinPanel\<close>: \<open>pct\<close> on the values of a report.\<close>

definition pct_of :: "expr \<Rightarrow> expr \<Rightarrow> expr \<Rightarrow> expr" where
  "pct_of value lo hi = bindr value (\<lambda>v. bindr lo (\<lambda>l. bindr hi (\<lambda>h.
     if strict_eq h l then Inr (jsn 50)
     else math_round (js_times (js_over (js_minus (Inr v) (Inr l)) (js_minus (Inr h) (Inr l))) (Inr (jsn 100))))))"

section \<open>JuliaPanel\<close>

definition julia_v_panel_header :: "julia \<Rightarrow> view" where
  "julia_v_panel_header st =
     el ''div'' [atx ''class'' (js ''panel-header'')] [
      el ''div'' [] [
       el ''h2'' [] [tx ([0xD83D, 0xDD2C] @ js '' Julia Engine (:8002)'')],
       el ''p'' [atx ''class'' (js ''subtitle'')] [
        tx (js ''GBM '' @ [0xBAAC, 0xD14C, 0xCE74, 0xB97C, 0xB85C, 0x0020, 0x00B7, 0x0020, 0xC2DC, 0xB098, 0xB9AC, 0xC624, 0x0020,
            0xC2A4, 0xD2B8, 0xB808, 0xC2A4, 0x0020, 0xD14C, 0xC2A4, 0xD2B8, 0x0020, 0x00B7] @ js '' Threads.@spawn '' @ [0xBCD1,
            0xB82C])]],
      el ''div'' [atx ''class'' (js ''jbtn-group'')] [
       el ''button'' [atx ''class'' (js ''julia-btn''), atx ''onclick'' (js ''runJulia''), aflag ''disabled'' (Inr (Bool
           (juliaLoading st)))] [
        ex (js_if (Inr (Bool (juliaLoading st))) (Inr (Str [0xBD84, 0xC11D, 0x0020, 0xC911, 0x002E, 0x002E, 0x002E])) (Inr (Str
            [0xC2DC, 0xBBAC, 0xB808, 0xC774, 0xC158])))],
       el ''button'' [atx ''class'' (js ''julia-btn stress-btn''), atx ''onclick'' (js ''runStress''), aflag ''disabled'' (Inr
           (Bool (stressLoading st)))] [
        ex (js_if (Inr (Bool (stressLoading st))) (Inr (Str [0xC2A4, 0xD2B8, 0xB808, 0xC2A4, 0x0020, 0xC911, 0x002E, 0x002E,
            0x002E])) (Inr (Str [0xC2DC, 0xB098, 0xB9AC, 0xC624, 0x0020, 0xC2A4, 0xD2B8, 0xB808, 0xC2A4])))]]]"

definition julia_v_juliaResult :: "locale_format \<Rightarrow> julia \<Rightarrow> view" where
  "julia_v_juliaResult fmt st =
     ifv (Inr (juliaResult st)) [
      el ''div'' [atx ''class'' (js ''julia-grid'')] [
       el ''div'' [atx ''class'' (js ''julia-card'')] [
        el ''span'' [atx ''class'' (js ''jlabel'')] [tx (js ''VaR 95%'')],
        el ''span'' [atx ''class'' (js ''jval'')] [ex (fixed 2 (js_times (mem (Inr (juliaResult st)) ''var_95'') (Inr (jsn
            100)))), tx (js ''%'')]],
       el ''div'' [atx ''class'' (js ''julia-card'')] [
        el ''span'' [atx ''class'' (js ''jlabel'')] [tx (js ''CVaR 95%'')],
        el ''span'' [atx ''class'' (js ''jval'')] [ex (fixed 2 (js_times (mem (Inr (juliaResult st)) ''cvar_95'') (Inr (jsn
            100)))), tx (js ''%'')]],
       el ''div'' [atx ''class'' (js ''julia-card'')] [
        el ''span'' [atx ''class'' (js ''jlabel'')] [tx [0xD3C9, 0xADE0, 0x0020, 0xC218, 0xC775]],
        el ''span'' [atx ''class'' (js ''jval'')] [ex (fixed 2 (js_times (mem (Inr (juliaResult st)) ''mean_return'') (Inr (jsn
            100)))), tx (js ''%'')]],
       el ''div'' [atx ''class'' (js ''julia-card'')] [
        el ''span'' [atx ''class'' (js ''jlabel'')] [tx [0xBCC0, 0xB3D9, 0xC131]],
        el ''span'' [atx ''class'' (js ''jval'')] [ex (fixed 2 (js_times (mem (Inr (juliaResult st)) ''std_return'') (Inr (jsn
            100)))), tx (js ''%'')]],
       el ''div'' [atx ''class'' (js ''julia-card'')] [
        el ''span'' [atx ''class'' (js ''jlabel'')] [tx [0xC0E4, 0xD504, 0x0020, 0xBE44, 0xC728]],
        el ''span'' [atx ''class'' (js ''jval'')] [ex (fixed 3 (mem (Inr (juliaResult st)) ''sharpe''))]],
       el ''div'' [atx ''class'' (js ''julia-card'')] [
        el ''span'' [atx ''class'' (js ''jlabel'')] [tx [0xC2DC, 0xBBAC, 0xB808, 0xC774, 0xC158, 0x0020, 0xACBD, 0xB85C]],
        el ''span'' [atx ''class'' (js ''jval'')] [ex (chain (mem (Inr (juliaResult st)) ''paths'') (\<lambda>x. (toLocale fmt
            '''' x)))]]]]
     [
      ifv (js_not (Inr (stressResult st))) [
       el ''div'' [atx ''class'' (js ''empty-box'')] [
        el ''p'' [] [
         tx ([0xBC84, 0xD2BC, 0xC744, 0x0020, 0xB20C, 0xB7EC] @ js '' Julia GBM '' @ [0xBAAC, 0xD14C, 0xCE74, 0xB97C, 0xB85C,
             0x0020, 0xB610, 0xB294, 0x0020, 0xC2DC, 0xB098, 0xB9AC, 0xC624, 0x0020, 0xC2A4, 0xD2B8, 0xB808, 0xC2A4, 0x0020,
             0xD14C, 0xC2A4, 0xD2B8, 0xB97C, 0x0020, 0xC2E4, 0xD589, 0xD558, 0xC138, 0xC694] @ js ''. (:8002)'')]]]
      []]"

definition julia_v_stressResult :: "locale_format \<Rightarrow> julia \<Rightarrow> view" where
  "julia_v_stressResult fmt st =
     ifv (Inr (stressResult st)) [
      ifv (mem (Inr (stressResult st)) ''error'') [
       el ''div'' [atx ''class'' (js ''empty-box''), atx ''style'' (js ''margin-top:0.5rem'')] [el ''p'' [atx ''style'' (js
           ''color:#f87171'')] [ex (mem (Inr (stressResult st)) ''error'')]]]
      [
       el ''div'' [atx ''class'' (js ''stress-header'')] [
        tx [0xD83D, 0xDCCA, 0x0020],
        ex (mem (Inr (stressResult st)) ''engine''),
        tx [0x0020, 0x2014, 0x0020],
        ex (chain (mem (Inr (stressResult st)) ''paths'') (\<lambda>x. (toLocale fmt '''' x))),
        tx (js '' paths '' @ [0x00D7, 0x0020]),
        ex (mem (Inr (stressResult st)) ''days''),
        tx [0xC77C, 0x0020, 0x00B7, 0x0020],
        ex (mem (Inr (stressResult st)) ''elapsed_ms''),
        tx (js ''ms'')],
       el ''div'' [atx ''class'' (js ''stress-grid'')] [
        each (js_default (mem (Inr (stressResult st)) ''scenarios'') (Inr (Arr []))) (\<lambda>_ sc. [
           bind_const (js_default (member (Inr (Obj (map (\<lambda>(k, c). (k, Str c)) SCENARIO_COLORS))) (mem (Inr sc)
               ''scenario'')) (Inr (Str (js ''#94a3b8'')))) (\<lambda>c. [
             el ''div'' [atx ''class'' (js ''stress-card''), amix ''style'' [Inr (Str (js ''border-color:'')), (Inr c)]] [
              el ''div'' [atx ''class'' (js ''sc-name''), amix ''style'' [Inr (Str (js ''color:'')), (Inr c)]] [ex (mem (Inr sc)
                  ''scenario'')],
              el ''div'' [atx ''class'' (js ''sc-row'')] [
               el ''span'' [] [tx (js ''VaR 95%'')],
               el ''span'' [amix ''style'' [Inr (Str (js ''color:'')), (Inr c)]] [ex (fixed 2 (js_times (mem (Inr sc) ''var_95'')
                   (Inr (jsn 100)))), tx (js ''%'')]],
              el ''div'' [atx ''class'' (js ''sc-row'')] [
               el ''span'' [] [tx (js ''CVaR 95%'')],
               el ''span'' [] [ex (fixed 2 (js_times (mem (Inr sc) ''cvar_95'') (Inr (jsn 100)))), tx (js ''%'')]],
              el ''div'' [atx ''class'' (js ''sc-row'')] [
               el ''span'' [] [tx [0xCD5C, 0xB300, 0x0020, 0xC190, 0xC2E4]],
               el ''span'' [atx ''style'' (js ''color:#f87171'')] [ex (fixed 2 (js_times (mem (Inr sc) ''max_loss'') (Inr (jsn
                   100)))), tx (js ''%'')]],
              el ''div'' [atx ''class'' (js ''sc-row'')] [el ''span'' [] [tx (js ''Sharpe'')], el ''span'' [] [ex (mem (Inr sc)
                  ''sharpe'')]]]])])]]]
     []"

definition julia_view :: "locale_format \<Rightarrow> julia \<Rightarrow> view" where
  "julia_view fmt st = cat
     [
      el ''section'' [atx ''class'' (js ''panel'')] [julia_v_panel_header st, julia_v_juliaResult fmt st, julia_v_stressResult fmt
          st]]"

section \<open>PythonBrainPanel\<close>

definition brain_v_panel_header :: "brain \<Rightarrow> view" where
  "brain_v_panel_header st =
     el ''div'' [atx ''class'' (js ''panel-header'')] [
      el ''div'' [] [
       el ''h2'' [] [tx ([0xD83D, 0xDC0D] @ js '' Python Brain (:8000)'')],
       el ''p'' [atx ''class'' (js ''subtitle'')] [
        tx ([0xC2E4, 0xC2DC, 0xAC04, 0x0020, 0xC678, 0xD658, 0x0020, 0xC218, 0xC9D1, 0x0020, 0x00B7] @ js '' C++ FFI '' @ [0xB9AC,
            0xC2A4, 0xD06C, 0x0020, 0xACC4, 0xC0B0, 0x0020, 0x00B7] @ js '' Zig FFI VaR '' @ [0x00B7] @ js '' Julia '' @ [0xBAAC,
            0xD14C, 0xCE74, 0xB97C, 0xB85C])]],
      el ''button'' [atx ''class'' (js ''py-btn''), atx ''onclick'' (js ''runBrain''), aflag ''disabled'' (Inr (Bool (brainLoading
          st)))] [
       ex (js_if (Inr (Bool (brainLoading st))) (Inr (Str [0xBD84, 0xC11D, 0x0020, 0xC911, 0x002E, 0x002E, 0x002E])) (Inr (Str
           [0xBA40, 0xD2F0, 0x0020, 0xC5D4, 0xC9C4, 0x0020, 0xBD84, 0xC11D])))]]"

definition brain_v_brainData :: "locale_format \<Rightarrow> brain \<Rightarrow> view" where
  "brain_v_brainData fmt st =
     ifv (Inr (brainData st)) [
      ifv (mem (Inr (brainData st)) ''error'') [
       el ''div'' [atx ''class'' (js ''empty-box'')] [el ''p'' [atx ''style'' (js ''color:#f87171'')] [ex (mem (Inr (brainData
           st)) ''error'')]]]
      [
       el ''div'' [atx ''class'' (js ''julia-grid'')] [
        el ''div'' [atx ''class'' (js ''julia-card py-card'')] [
         el ''span'' [atx ''class'' (js ''jlabel'')] [tx (js ''API '' @ [0xC0C1, 0xD0DC])],
         el ''span'' [atx ''class'' (js ''jval''), aflag ''class:online'' (js_eq (mem (Inr (brainData st)) ''api_status'') (Inr
             (Str (js ''Success''))))] [ex (mem (Inr (brainData st)) ''api_status'')]],
        el ''div'' [atx ''class'' (js ''julia-card py-card'')] [
         el ''span'' [atx ''class'' (js ''jlabel'')] [tx (js ''C++ '' @ [0xB9AC, 0xC2A4, 0xD06C, 0x0020, 0xC810, 0xC218])],
         el ''span'' [atx ''class'' (js ''jval'')] [ex (chain (mem (Inr (brainData st)) ''computation_result'') (\<lambda>x.
             (toLocale fmt '''' x)))]],
        ifv (mem (Inr (brainData st)) ''rates'') [
         each (entries (mem (Inr (brainData st)) ''rates'')) (\<lambda>_ kv. [bind_const (item (Inr kv) 0) (\<lambda>cur.
             [bind_const (item (Inr kv) 1) (\<lambda>val'. [
            el ''div'' [atx ''class'' (js ''julia-card py-card'')] [
             el ''span'' [atx ''class'' (js ''jlabel'')] [tx (js ''USD/''), ex (Inr cur)],
             el ''span'' [atx ''class'' (js ''jval'')] [ex (js_if (js_eq (type_of (Inr val')) (Inr (Str (js ''number'')))) (fixed
                 2 (Inr val')) (Inr val'))]]])])])]
        []],
       ifv (chain (mem (Inr (brainData st)) ''zig_analysis'') (\<lambda>x2. (mem x2 ''engine''))) [
        el ''div'' [atx ''class'' (js ''section-label'')] [tx ([0x26A1] @ js '' Zig FFI '' @ [0x2014, 0x0020]), ex (mem (mem (Inr
            (brainData st)) ''zig_analysis'') ''engine'')],
        el ''div'' [atx ''class'' (js ''julia-grid'')] [
         el ''div'' [atx ''class'' (js ''julia-card py-card''), atx ''style'' (js ''border-color:#22d3ee'')] [
          el ''span'' [atx ''class'' (js ''jlabel'')] [tx (js ''Volatility '' @ [0x03C3])],
          el ''span'' [atx ''class'' (js ''jval''), atx ''style'' (js ''color:#22d3ee'')] [ex (mem (mem (Inr (brainData st))
              ''zig_analysis'') ''volatility'')]],
         el ''div'' [atx ''class'' (js ''julia-card py-card''), atx ''style'' (js ''border-color:#22d3ee'')] [
          el ''span'' [atx ''class'' (js ''jlabel'')] [tx (js ''VaR 95%'')],
          el ''span'' [atx ''class'' (js ''jval''), atx ''style'' (js ''color:#22d3ee'')] [
           tx [0x20A9],
           ex (chain (mem (mem (Inr (brainData st)) ''zig_analysis'') ''var_95'') (\<lambda>x3. (toLocale fmt '''' x3)))]],
         el ''div'' [atx ''class'' (js ''julia-card py-card''), atx ''style'' (js ''border-color:#22d3ee'')] [
          el ''span'' [atx ''class'' (js ''jlabel'')] [tx [0xD3EC, 0xC9C0, 0xC158, 0x0020, 0xC0AC, 0xC774, 0xC988]],
          el ''span'' [atx ''class'' (js ''jval'')] [tx [0x20A9], ex (toLocale fmt '''' (as_Number (mem (mem (Inr (brainData st))
              ''zig_analysis'') ''position_size'')))]]]]
       [],
       ifv (chain (mem (Inr (brainData st)) ''julia_simulation'') (\<lambda>x4. (mem x4 ''engine''))) [
        bind_const (mem (Inr (brainData st)) ''julia_simulation'') (\<lambda>j. [
          el ''div'' [atx ''class'' (js ''section-label'')] [tx ([0xD83D, 0xDD2C] @ js '' Julia '' @ [0x2014, 0x0020]), ex (mem
              (Inr j) ''engine'')],
          el ''div'' [atx ''class'' (js ''julia-grid'')] [
           el ''div'' [atx ''class'' (js ''julia-card py-card''), atx ''style'' (js ''border-color:#9333ea'')] [
            el ''span'' [atx ''class'' (js ''jlabel'')] [tx [0xC2DC, 0xBBAC, 0x0020, 0xACBD, 0xB85C]],
            el ''span'' [atx ''class'' (js ''jval''), atx ''style'' (js ''color:#9333ea'')] [ex (toLocale fmt '''' (as_Number (mem
                (Inr j) ''paths'')))]],
           el ''div'' [atx ''class'' (js ''julia-card py-card''), atx ''style'' (js ''border-color:#9333ea'')] [
            el ''span'' [atx ''class'' (js ''jlabel'')] [tx [0xCD5C, 0xC885, 0xAC00, 0x0020, 0xD3C9, 0xADE0]],
            el ''span'' [atx ''class'' (js ''jval'')] [ex (chain (mem (Inr j) ''mean_final_price'') (\<lambda>x5. (fixed 2
                x5)))]],
           el ''div'' [atx ''class'' (js ''julia-card py-card''), atx ''style'' (js ''border-color:#9333ea'')] [
            el ''span'' [atx ''class'' (js ''jlabel'')] [tx (js ''VaR (Monte)'')],
            el ''span'' [atx ''class'' (js ''jval'')] [ex (chain (mem (Inr j) ''var_95'') (\<lambda>x6. (fixed 4 x6)))]],
           el ''div'' [atx ''class'' (js ''julia-card py-card''), atx ''style'' (js ''border-color:#9333ea'')] [
            el ''span'' [atx ''class'' (js ''jlabel'')] [tx [0xC18C, 0xC694, 0x0020, 0xC2DC, 0xAC04]],
            el ''span'' [atx ''class'' (js ''jval'')] [ex (mem (Inr j) ''elapsed_ms''), tx (js ''ms'')]]]])]
       [],
       el ''p'' [atx ''class'' (js ''py-note'')] [ex (mem (Inr (brainData st)) ''version''), tx [0x0020, 0x00B7, 0x0020], ex (mem
           (Inr (brainData st)) ''source'')]]]
     [
      el ''div'' [atx ''class'' (js ''empty-box'')] [
       el ''p'' [] [
        tx ([0xBC84, 0xD2BC, 0xC744, 0x0020, 0xB20C, 0xB7EC] @ js '' Python + C++ + Zig + Julia '' @ [0xBA40, 0xD2F0, 0x0020,
            0xC5D4, 0xC9C4, 0x0020, 0xBD84, 0xC11D, 0xC744, 0x0020, 0xC2E4, 0xD589, 0xD558, 0xC138, 0xC694] @ js
            ''. (:8000)'')]]]"

definition brain_view :: "locale_format \<Rightarrow> brain \<Rightarrow> view" where
  "brain_view fmt st = cat
     [el ''section'' [atx ''class'' (js ''panel'')] [brain_v_panel_header st, brain_v_brainData fmt st]]"

section \<open>RPanel\<close>

definition rstats_v_panel_header :: "rstats \<Rightarrow> view" where
  "rstats_v_panel_header st =
     el ''div'' [atx ''class'' (js ''panel-header'')] [
      el ''div'' [] [
       el ''h2'' [] [tx ([0xD83D, 0xDCCA] @ js '' R Stats Engine (:8003)'')],
       el ''p'' [atx ''class'' (js ''subtitle'')] [
        tx (js ''MLE '' @ [0xC815, 0xADDC, 0xBD84, 0xD3EC, 0x0020, 0xD53C, 0xD305, 0x0020, 0x00B7] @ js '' VaR/CVaR '' @ [0x00B7]
            @ js '' 4-asset '' @ [0xC0C1, 0xAD00, 0xBD84, 0xC11D] @ js '' (Plumber)'')]],
      el ''div'' [atx ''class'' (js ''rbtn-group'')] [
       el ''button'' [atx ''class'' (js ''r-btn''), atx ''onclick'' (js ''runRFit''), aflag ''disabled'' (Inr (Bool (rLoading
           st)))] [
        ex (js_if (Inr (Bool (rLoading st))) (Inr (Str [0xBD84, 0xC11D, 0x0020, 0xC911, 0x002E, 0x002E, 0x002E])) (Inr (Str
            [0xBD84, 0xD3EC, 0x0020, 0xD53C, 0xD305])))],
       el ''button'' [atx ''class'' (js ''r-btn corr-btn''), atx ''onclick'' (js ''runRCorr''), aflag ''disabled'' (Inr (Bool
           (corrLoading st)))] [
        ex (js_if (Inr (Bool (corrLoading st))) (Inr (Str [0xBD84, 0xC11D, 0x0020, 0xC911, 0x002E, 0x002E, 0x002E])) (Inr (Str
            [0xC0C1, 0xAD00, 0x0020, 0xBD84, 0xC11D])))],
       el ''button'' [atx ''class'' (js ''r-btn garch-btn''), atx ''onclick'' (js ''runRGarch''), aflag ''disabled'' (Inr (Bool
           (garchLoading st)))] [
        ex (js_if (Inr (Bool (garchLoading st))) (Inr (Str [0xCD94, 0xC815, 0x0020, 0xC911, 0x002E, 0x002E, 0x002E])) (Inr (Str
            (js ''GARCH(1,1)''))))],
       el ''button'' [atx ''class'' (js ''r-btn arima-btn''), atx ''onclick'' (js ''runRArima''), aflag ''disabled'' (Inr (Bool
           (arimaLoading st)))] [
        ex (js_if (Inr (Bool (arimaLoading st))) (Inr (Str [0xC608, 0xCE21, 0x0020, 0xC911, 0x002E, 0x002E, 0x002E])) (Inr (Str
            (js ''ARIMA '' @ [0xC608, 0xCE21]))))]]]"

definition rstats_v_rFit :: "rstats \<Rightarrow> view" where
  "rstats_v_rFit st =
     ifv (js_and (Inr (rFit st)) (js_not (mem (Inr (rFit st)) ''error''))) [
      el ''div'' [atx ''class'' (js ''julia-grid'')] [
       el ''div'' [atx ''class'' (js ''julia-card r-card'')] [
        el ''span'' [atx ''class'' (js ''jlabel'')] [tx [0xC815, 0xADDC, 0x0020, 0xD3C9, 0xADE0, 0x0020, 0x03BC]],
        el ''span'' [atx ''class'' (js ''jval'')] [ex (fixed 4 (js_times (mem (mem (Inr (rFit st)) ''fit_normal'') ''mean'') (Inr
            (jsn 100)))), tx (js ''%'')]],
       el ''div'' [atx ''class'' (js ''julia-card r-card'')] [
        el ''span'' [atx ''class'' (js ''jlabel'')] [tx [0xC815, 0xADDC, 0x0020, 0xD45C, 0xC900, 0xD3B8, 0xCC28, 0x0020, 0x03C3]],
        el ''span'' [atx ''class'' (js ''jval'')] [ex (fixed 4 (js_times (mem (mem (Inr (rFit st)) ''fit_normal'') ''sd'') (Inr
            (jsn 100)))), tx (js ''%'')]],
       el ''div'' [atx ''class'' (js ''julia-card r-card'')] [
        el ''span'' [atx ''class'' (js ''jlabel'')] [tx [0x0074, 0xBD84, 0xD3EC, 0x0020, 0xC790, 0xC720, 0xB3C4]],
        el ''span'' [atx ''class'' (js ''jval'')] [ex (js_default (mem (Inr (rFit st)) ''fit_t_df'') (Inr (Str (js ''N/A''))))]],
       el ''div'' [atx ''class'' (js ''julia-card r-card'')] [
        el ''span'' [atx ''class'' (js ''jlabel'')] [tx (js ''VaR 95%'')],
        el ''span'' [atx ''class'' (js ''jval'')] [ex (fixed 3 (js_times (mem (Inr (rFit st)) ''var_95'') (Inr (jsn 100)))), tx
            (js ''%'')]],
       el ''div'' [atx ''class'' (js ''julia-card r-card'')] [
        el ''span'' [atx ''class'' (js ''jlabel'')] [tx (js ''CVaR 95%'')],
        el ''span'' [atx ''class'' (js ''jval'')] [ex (fixed 3 (js_times (mem (Inr (rFit st)) ''cvar_95'') (Inr (jsn 100)))), tx
            (js ''%'')]],
       el ''div'' [atx ''class'' (js ''julia-card r-card'')] [
        el ''span'' [atx ''class'' (js ''jlabel'')] [tx (js ''Sharpe ('' @ [0xC5F0, 0xC728, 0x0029])],
        el ''span'' [atx ''class'' (js ''jval'')] [ex (mem (Inr (rFit st)) ''sharpe_ratio'')]]]]
     [
      ifv (chain (Inr (rFit st)) (\<lambda>x. (mem x ''error''))) [
       el ''div'' [atx ''class'' (js ''error-box'')] [
        el ''p'' [] [
         tx [0x26A0, 0xFE0F, 0x0020],
         ex (mem (Inr (rFit st)) ''error''),
         tx ([0x0020, 0x2014] @ js '' Rscript engine-r/run.R '' @ [0xC73C, 0xB85C, 0x0020, 0xC2E4, 0xD589, 0xD558, 0xC138, 0xC694,
             0x002E])]]]
      [
       ifv (js_not (Inr (rCorr st))) [
        el ''div'' [atx ''class'' (js ''empty-box'')] [
         el ''p'' [] [
          tx ([0xBD84, 0xD3EC, 0x0020, 0xD53C, 0xD305, 0x0020, 0xB610, 0xB294, 0x0020, 0xC0C1, 0xAD00, 0x0020, 0xBD84, 0xC11D,
              0x0020, 0xBC84, 0xD2BC, 0xC744, 0x0020, 0xB20C, 0xB7EC, 0xC8FC, 0xC138, 0xC694] @ js ''. (R Plumber :8003)'')]]]
       []]]"

definition rstats_v_rCorr :: "rstats \<Rightarrow> view" where
  "rstats_v_rCorr st =
     ifv (Inr (rCorr st)) [
      ifv (mem (Inr (rCorr st)) ''error'') [
       el ''div'' [atx ''class'' (js ''error-box'')] [el ''p'' [] [tx [0x26A0, 0xFE0F, 0x0020], ex (mem (Inr (rCorr st))
           ''error'')]]]
      [
       el ''div'' [atx ''class'' (js ''corr-header'')] [
        tx ([0xD83D, 0xDD17] @ js '' 4-Asset '' @ [0xC0C1, 0xAD00, 0xD589, 0xB82C, 0x0020, 0x2014, 0x0020, 0xB4F1, 0xAC00, 0xC911,
            0x0020, 0xD3EC, 0xD2B8, 0xD3F4, 0xB9AC, 0xC624, 0x0020, 0xC5F0, 0xC728, 0x0020, 0xBCC0, 0xB3D9, 0xC131, 0x003A,
            0x0020]),
        el ''strong'' [atx ''style'' (js ''color:#1d6fa5'')] [ex (fixed 4 (js_times (mem (Inr (rCorr st)) ''portfolio_vol_ann'')
            (Inr (jsn 100)))), tx (js ''%'')]],
       el ''div'' [atx ''class'' (js ''corr-table'')] [
        el ''div'' [atx ''class'' (js ''corr-row header'')] [
         el ''span'' [] [],
         each (js_default (mem (Inr (rCorr st)) ''assets'') (Inr (Arr []))) (\<lambda>_ asset. [el ''span'' [atx ''class'' (js
             ''corr-asset'')] [ex (Inr asset)]])],
        each (js_default (mem (Inr (rCorr st)) ''assets'') (Inr (Arr []))) (\<lambda>ri_n rowAsset. [
           el ''div'' [atx ''class'' (js ''corr-row'')] [
            el ''span'' [atx ''class'' (js ''corr-asset'')] [ex (Inr rowAsset)],
            each (js_default (mem (Inr (rCorr st)) ''assets'') (Inr (Arr []))) (\<lambda>ci_n colAsset. [
               bind_const (js_default (chain (mem (Inr (rCorr st)) ''correlation'') (\<lambda>x. (chain (member x (Inr rowAsset))
                   (\<lambda>x2. (member x2 (Inr colAsset)))))) (Inr (jsn 0))) (\<lambda>val'. [
                 bind_const (math_abs (Inr val')) (\<lambda>abs'. [
                   el ''span'' [atx ''class'' (js ''corr-cell''), amix ''style'' [Inr (Str (js ''background:rgba(29,111,165,'')),
                       (js_if (js_eq (Inr (jsn ri_n)) (Inr (jsn ci_n))) (Inr (jsn 0)) (js_times (Inr abs') (Inr (Num (lit 5
                       1))))), Inr (Str (js '');color:'')), (js_if (js_eq (Inr (jsn ri_n)) (Inr (jsn ci_n))) (Inr (Str (js
                       ''#94a3b8''))) (js_if (js_gt (Inr val') (Inr (Num (lit 5 1)))) (Inr (Str (js ''#34d399''))) (js_if
                       (js_lt_of (Inr val') (Inr (Num (lit (- 3) 1)))) (Inr (Str (js ''#f87171''))) (Inr (Str (js
                       ''#e2e8f0''))))))]] [ex (js_if (js_eq (Inr (jsn ri_n)) (Inr (jsn ci_n))) (Inr (Str (js ''1.000''))) (fixed
                       3 (Inr val')))]])])])]])]]]
     []"

definition rstats_v_rGarch :: "rstats \<Rightarrow> view" where
  "rstats_v_rGarch st =
     ifv (js_or (Inr (rGarch st)) (Inr (Bool (garchLoading st)))) [
      el ''section'' [atx ''class'' (js ''panel-section garch-section'')] [
       el ''h3'' [atx ''class'' (js ''section-title'')] [tx ([0xD83D, 0xDCC8] @ js '' R GARCH(1,1) '' @ [0xBCC0, 0xB3D9, 0xC131,
           0x0020, 0xBAA8, 0xB378])],
       ifv (Inr (Bool (garchLoading st))) [
        el ''div'' [atx ''class'' (js ''empty-box'')] [el ''p'' [] [tx (js ''GARCH '' @ [0xCD94, 0xC815, 0x0020, 0xC911,
            0x2026])]]]
       [
        ifv (chain (Inr (rGarch st)) (\<lambda>x. (mem x ''error''))) [
         el ''div'' [atx ''class'' (js ''error-box'')] [el ''p'' [] [tx [0x26A0, 0xFE0F, 0x0020], ex (mem (Inr (rGarch st))
             ''error'')]]]
        [
         ifv (Inr (rGarch st)) [
          el ''div'' [atx ''class'' (js ''julia-grid'')] [
           el ''div'' [atx ''class'' (js ''julia-card r-card'')] [
            el ''span'' [atx ''class'' (js ''jlabel'')] [tx [0xC9C0, 0xC18D, 0xC131, 0x0020, 0x0028, 0x03B1, 0x002B, 0x03B2,
                0x0029]],
            el ''span'' [atx ''class'' (js ''jval'')] [
             ex (js_default (chain (mem (Inr (rGarch st)) ''persistence'') (\<lambda>x2. (fixed 4 x2))) (Inr (Str (js
                 ''N/A''))))]],
           el ''div'' [atx ''class'' (js ''julia-card r-card'')] [
            el ''span'' [atx ''class'' (js ''jlabel'')] [tx [0xBC18, 0xAC10, 0xAE30, 0x0020, 0x0028, 0xC77C, 0x0029]],
            el ''span'' [atx ''class'' (js ''jval'')] [
             ex (js_default (chain (mem (Inr (rGarch st)) ''half_life_days'') (\<lambda>x3. (fixed 1 x3))) (Inr (Str (js
                 ''N/A''))))]],
           el ''div'' [atx ''class'' (js ''julia-card r-card'')] [
            el ''span'' [atx ''class'' (js ''jlabel'')] [tx [0xD3C9, 0xADE0, 0x0020, 0xC5F0, 0xC728, 0x0020, 0xBCC0, 0xB3D9,
                0xC131]],
            el ''span'' [atx ''class'' (js ''jval'')] [
             ex (js_if (js_nonnull (mem (Inr (rGarch st)) ''ann_vol_avg'')) (js_plus (fixed 2 (js_times (mem (Inr (rGarch st))
                 ''ann_vol_avg'') (Inr (jsn 100)))) (Inr (Str (js ''%'')))) (Inr (Str (js ''N/A''))))]],
           el ''div'' [atx ''class'' (js ''julia-card r-card'')] [
            el ''span'' [atx ''class'' (js ''jlabel'')] [tx [0xD604, 0xC7AC, 0x0020, 0xC5F0, 0xC728, 0x0020, 0xBCC0, 0xB3D9,
                0xC131]],
            el ''span'' [atx ''class'' (js ''jval'')] [
             ex (js_if (js_nonnull (mem (Inr (rGarch st)) ''current_vol_ann'')) (js_plus (fixed 2 (js_times (mem (Inr (rGarch st))
                 ''current_vol_ann'') (Inr (jsn 100)))) (Inr (Str (js ''%'')))) (Inr (Str (js ''N/A''))))]],
           el ''div'' [atx ''class'' (js ''julia-card r-card'')] [
            el ''span'' [atx ''class'' (js ''jlabel'')] [tx ([0xC624, 0xB298] @ js '' VaR (95%)'')],
            el ''span'' [atx ''class'' (js ''jval'')] [
             ex (js_if (js_nonnull (mem (Inr (rGarch st)) ''var_95_today'')) (js_plus (fixed 3 (js_times (mem (Inr (rGarch st))
                 ''var_95_today'') (Inr (jsn 100)))) (Inr (Str (js ''%'')))) (Inr (Str (js ''N/A''))))]]],
          ifv (chain (mem (Inr (rGarch st)) ''last_10_vols'') (\<lambda>x4. (mem x4 ''length''))) [
           el ''div'' [atx ''class'' (js ''vol-strip'')] [
            el ''span'' [atx ''class'' (js ''vstrip-label'')] [tx [0xCD5C, 0xADFC, 0x0020, 0x0031, 0x0030, 0xC77C, 0x0020, 0xBCC0,
                0xB3D9, 0xC131, 0x003A]],
            each (mem (Inr (rGarch st)) ''last_10_vols'') (\<lambda>i_n v. [el ''span'' [atx ''class'' (js ''vstrip-cell'')] [ex
                (fixed 2 (js_times (Inr v) (Inr (jsn 100)))), tx (js ''%'')]])]]
          []]
         []]]]]
     []"

definition rstats_v_rArima :: "rstats \<Rightarrow> view" where
  "rstats_v_rArima st =
     ifv (js_or (Inr (rArima st)) (Inr (Bool (arimaLoading st)))) [
      el ''section'' [atx ''class'' (js ''panel-section arima-section'')] [
       el ''h3'' [atx ''class'' (js ''section-title'')] [tx ([0xD83D, 0xDCCA] @ js '' R ARIMA(p,d,q) 3-Step '' @ [0xC608,
           0xCE21])],
       ifv (Inr (Bool (arimaLoading st))) [
        el ''div'' [atx ''class'' (js ''empty-box'')] [el ''p'' [] [tx (js ''ARIMA '' @ [0xC608, 0xCE21, 0x0020, 0xC911,
            0x2026])]]]
       [
        ifv (chain (Inr (rArima st)) (\<lambda>x. (mem x ''error''))) [
         el ''div'' [atx ''class'' (js ''error-box'')] [el ''p'' [] [tx [0x26A0, 0xFE0F, 0x0020], ex (mem (Inr (rArima st))
             ''error'')]]]
        [
         ifv (Inr (rArima st)) [
          el ''div'' [atx ''class'' (js ''julia-grid'')] [
           el ''div'' [atx ''class'' (js ''julia-card r-card'')] [
            el ''span'' [atx ''class'' (js ''jlabel'')] [tx (js ''AIC'')],
            el ''span'' [atx ''class'' (js ''jval'')] [ex (js_default (chain (mem (Inr (rArima st)) ''aic'') (\<lambda>x2. (fixed
                2 x2))) (Inr (Str (js ''N/A''))))]],
           each (js_default (mem (Inr (rArima st)) ''forecast'') (Inr (Arr []))) (\<lambda>i_n fc. [
              el ''div'' [atx ''class'' (js ''julia-card r-card'')] [
               el ''span'' [atx ''class'' (js ''jlabel'')] [tx [0xC608, 0xCE21, 0x0020, 0x0074, 0x002B], ex (js_plus (Inr (jsn
                   i_n)) (Inr (jsn 1)))],
               el ''span'' [atx ''class'' (js ''jval'')] [ex (fixed 4 (js_times (Inr fc) (Inr (jsn 100)))), tx (js ''%'')]]])],
          ifv (js_and (mem (Inr (rArima st)) ''ci_lower_95'') (mem (Inr (rArima st)) ''ci_upper_95'')) [
           el ''div'' [atx ''class'' (js ''ci-strip'')] [
            each (mem (Inr (rArima st)) ''ci_lower_95'') (\<lambda>i_n lo. [
               el ''div'' [atx ''class'' (js ''ci-row'')] [
                el ''span'' [atx ''class'' (js ''ci-label'')] [tx (js ''t+''), ex (js_plus (Inr (jsn i_n)) (Inr (jsn 1))), tx (js
                    '' 95% CI'')],
                el ''span'' [atx ''class'' (js ''ci-range'')] [
                 tx (js ''[''),
                 ex (fixed 3 (js_times (Inr lo) (Inr (jsn 100)))),
                 tx (js ''%, ''),
                 ex (fixed 3 (js_times (item (mem (Inr (rArima st)) ''ci_upper_95'') i_n) (Inr (jsn 100)))),
                 tx (js ''%]'')]]])]]
          []]
         []]]]]
     []"

definition rstats_view :: "rstats \<Rightarrow> view" where
  "rstats_view st = cat
     [
      el ''section'' [atx ''class'' (js ''panel'')] [rstats_v_panel_header st, rstats_v_rFit st, rstats_v_rCorr st],
      rstats_v_rGarch st,
      rstats_v_rArima st]"

section \<open>FSharpPanel\<close>

definition fsharp_v_panel_header :: "fsharp \<Rightarrow> view" where
  "fsharp_v_panel_header st =
     el ''div'' [atx ''class'' (js ''panel-header'')] [
      el ''div'' [] [
       el ''h2'' [] [tx ([0xD83E, 0xDD16] @ js '' F# Pricer (.NET 8 '' @ [0x00B7] @ js '' :9001)'')],
       el ''p'' [atx ''class'' (js ''subtitle'')] [
        tx (js ''Black-Scholes '' @ [0x00B7, 0x0020, 0xB0B4, 0xC7AC, 0xBCC0, 0xB3D9, 0xC131] @ js ''(Newton-Raphson) '' @ [0x00B7]
            @ js '' Vol Smile '' @ [0x00B7] @ js '' DCF'')]],
      el ''button'' [atx ''class'' (js ''fsharp-btn''), atx ''onclick'' (js ''TABS.find((t) => t.id === activeTab)?.run''), aflag
          ''disabled'' (Inr (Bool (fsharpLoading st)))] [
       ex (js_if (Inr (Bool (fsharpLoading st))) (Inr (Str [0xACC4, 0xC0B0, 0x0020, 0xC911, 0x002E, 0x002E, 0x002E])) (js_plus
           (chain (find_of (\<lambda>t. (js_eq (mem (Inr t) ''id'') (Inr (Str (tab_id (activeTab st)))))) (Inr TABS)) (\<lambda>x.
           (mem x ''label''))) (Inr (Str [0x0020, 0xC2E4, 0xD589]))))]]"

definition fsharp_v_tab_bar :: "fsharp \<Rightarrow> view" where
  "fsharp_v_tab_bar st =
     el ''div'' [atx ''class'' (js ''tab-bar'')] [
      each (Inr TABS) (\<lambda>_ tab. [
         el ''button'' [amix ''class'' [Inr (Str (js ''tab-btn '')), (js_if (js_eq (Inr (Str (tab_id (activeTab st)))) (mem (Inr
             tab) ''id'')) (Inr (Str (js ''active''))) (Inr (Str [])))], atx ''onclick'' (js
             ''() => switchTab(/** @type {any} */ (tab.id))'')] [ex (mem (Inr tab) ''label'')]])]"

definition fsharp_v_activeTab :: "fsharp \<Rightarrow> view" where
  "fsharp_v_activeTab st =
     ifv (js_eq (Inr (Str (tab_id (activeTab st)))) (Inr (Str (js ''option'')))) [
      ifv (js_and (Inr (fsharpOption st)) (js_not (mem (Inr (fsharpOption st)) ''error''))) [
       el ''div'' [atx ''class'' (js ''julia-grid'')] [
        el ''div'' [atx ''class'' (js ''julia-card fsharp-card'')] [
         el ''span'' [atx ''class'' (js ''jlabel'')] [tx (js ''Call Price'')],
         el ''span'' [atx ''class'' (js ''jval'')] [tx (js ''$''), ex (mem (Inr (fsharpOption st)) ''call_price'')]],
        el ''div'' [atx ''class'' (js ''julia-card fsharp-card'')] [
         el ''span'' [atx ''class'' (js ''jlabel'')] [tx (js ''Put Price'')],
         el ''span'' [atx ''class'' (js ''jval'')] [tx (js ''$''), ex (mem (Inr (fsharpOption st)) ''put_price'')]],
        el ''div'' [atx ''class'' (js ''julia-card fsharp-card'')] [
         el ''span'' [atx ''class'' (js ''jlabel'')] [tx ([0x0394] @ js '' Delta'')],
         el ''span'' [atx ''class'' (js ''jval'')] [ex (mem (Inr (fsharpOption st)) ''delta_call'')]],
        el ''div'' [atx ''class'' (js ''julia-card fsharp-card'')] [
         el ''span'' [atx ''class'' (js ''jlabel'')] [tx ([0x0393] @ js '' Gamma'')],
         el ''span'' [atx ''class'' (js ''jval'')] [ex (mem (Inr (fsharpOption st)) ''gamma'')]],
        el ''div'' [atx ''class'' (js ''julia-card fsharp-card'')] [
         el ''span'' [atx ''class'' (js ''jlabel'')] [tx ([0x03BD] @ js '' Vega'')],
         el ''span'' [atx ''class'' (js ''jval'')] [ex (mem (Inr (fsharpOption st)) ''vega'')]],
        el ''div'' [atx ''class'' (js ''julia-card fsharp-card'')] [
         el ''span'' [atx ''class'' (js ''jlabel'')] [tx ([0x0398] @ js '' Theta/day'')],
         el ''span'' [atx ''class'' (js ''jval'')] [ex (mem (Inr (fsharpOption st)) ''theta_call'')]]]]
      [
       ifv (chain (Inr (fsharpOption st)) (\<lambda>x. (mem x ''error''))) [
        el ''div'' [atx ''class'' (js ''error-box'')] [
         el ''p'' [] [
          tx [0x26A0, 0xFE0F, 0x0020],
          ex (mem (Inr (fsharpOption st)) ''error''),
          tx [0x0020, 0x2014, 0x0020],
          el ''code'' [] [tx (js ''dotnet run --project pricer-fsharp'')]]]]
       [
        el ''div'' [atx ''class'' (js ''empty-box'')] [
         el ''p'' [] [
          tx (js ''Greeks '' @ [0xC2E4, 0xD589, 0x0020, 0xBC84, 0xD2BC, 0xC744, 0x0020, 0xB20C, 0xB7EC] @ js '' ATM '' @ [0xC635,
              0xC158] @ js '' Greeks'' @ [0xB97C, 0x0020, 0xACC4, 0xC0B0, 0xD558, 0xC138, 0xC694, 0x002E])]]]]]
     []"

definition fsharp_v_activeTab2 :: "fsharp \<Rightarrow> view" where
  "fsharp_v_activeTab2 st =
     ifv (js_eq (Inr (Str (tab_id (activeTab st)))) (Inr (Str (js ''iv'')))) [
      ifv (js_and (Inr (fsharpIV st)) (js_not (mem (Inr (fsharpIV st)) ''error''))) [
       el ''div'' [atx ''class'' (js ''julia-grid'')] [
        el ''div'' [atx ''class'' (js ''julia-card fsharp-card'')] [
         el ''span'' [atx ''class'' (js ''jlabel'')] [tx ([0xB0B4, 0xC7AC, 0xBCC0, 0xB3D9, 0xC131] @ js '' (IV)'')],
         el ''span'' [atx ''class'' (js ''jval'')] [ex (fixed 4 (js_times (mem (Inr (fsharpIV st)) ''implied_vol'') (Inr (jsn
             100)))), tx (js ''%'')]],
        el ''div'' [atx ''class'' (js ''julia-card fsharp-card'')] [
         el ''span'' [atx ''class'' (js ''jlabel'')] [tx [0xC2DC, 0xC7A5, 0xAC00, 0x0020, 0xC785, 0xB825]],
         el ''span'' [atx ''class'' (js ''jval'')] [tx (js ''$''), ex (mem (Inr (fsharpIV st)) ''market_price'')]],
        el ''div'' [atx ''class'' (js ''julia-card fsharp-card'')] [
         el ''span'' [atx ''class'' (js ''jlabel'')] [tx [0x0042, 0x0053, 0x0020, 0xC7AC, 0xD604, 0xAC00]],
         el ''span'' [atx ''class'' (js ''jval'')] [tx (js ''$''), ex (chain (mem (Inr (fsharpIV st)) ''bs_price'') (\<lambda>x.
             (fixed 4 x)))]],
        el ''div'' [atx ''class'' (js ''julia-card fsharp-card'')] [
         el ''span'' [atx ''class'' (js ''jlabel'')] [tx [0xC218, 0xB834, 0x0020, 0xBC18, 0xBCF5]],
         el ''span'' [atx ''class'' (js ''jval'')] [ex (mem (Inr (fsharpIV st)) ''iterations''), tx [0xD68C]]],
        el ''div'' [atx ''class'' (js ''julia-card fsharp-card'')] [
         el ''span'' [atx ''class'' (js ''jlabel'')] [tx [0xC794, 0xCC28]],
         el ''span'' [atx ''class'' (js ''jval'')] [ex (chain (mem (Inr (fsharpIV st)) ''residual'') (\<lambda>x2. (exponential 2
             x2)))]],
        el ''div'' [atx ''class'' (js ''julia-card fsharp-card''), atx ''style'' (js ''border-color:#34d399'')] [
         el ''span'' [atx ''class'' (js ''jlabel'')] [tx [0xC5D4, 0xC9C4]],
         el ''span'' [atx ''class'' (js ''jval''), atx ''style'' (js ''color:#34d399'')] [ex (mem (Inr (fsharpIV st))
             ''engine'')]]]]
      [
       ifv (chain (Inr (fsharpIV st)) (\<lambda>x3. (mem x3 ''error''))) [
        el ''div'' [atx ''class'' (js ''error-box'')] [el ''p'' [] [tx [0x26A0, 0xFE0F, 0x0020], ex (mem (Inr (fsharpIV st))
            ''error'')]]]
       [
        el ''div'' [atx ''class'' (js ''empty-box'')] [
         el ''p'' [] [
          tx ([0xB0B4, 0xC7AC, 0xBCC0, 0xB3D9, 0xC131, 0x0020, 0xC2E4, 0xD589, 0x0020, 0xBC84, 0xD2BC, 0xC744, 0x0020, 0xB20C,
              0xB7EC] @ js '' Newton-Raphson IV'' @ [0xB97C, 0x0020, 0xACC4, 0xC0B0, 0xD558, 0xC138, 0xC694, 0x002E])]]]]]
     []"

definition fsharp_v_activeTab3 :: "fsharp \<Rightarrow> view" where
  "fsharp_v_activeTab3 st =
     ifv (js_eq (Inr (Str (tab_id (activeTab st)))) (Inr (Str (js ''smile'')))) [
      ifv (js_and (Inr (fsharpSmile st)) (js_not (mem (Inr (fsharpSmile st)) ''error''))) [
       bind_const (js_default (mem (Inr (fsharpSmile st)) ''smile'') (Inr (Arr []))) (\<lambda>points. [
         el ''div'' [atx ''class'' (js ''smile-table'')] [
          el ''div'' [atx ''class'' (js ''smile-header'')] [
           el ''span'' [] [tx (js ''Strike'')],
           el ''span'' [] [tx [0x03C3, 0x0020, 0xBAA8, 0xD615]],
           el ''span'' [] [tx (js ''BS Call'')],
           el ''span'' [] [tx [0x0049, 0x0056, 0x0020, 0xC5ED, 0xC0B0]]],
          each (Inr points) (\<lambda>_ pt. [
             el ''div'' [atx ''class'' (js ''smile-row'')] [
              el ''span'' [] [ex (mem (Inr pt) ''strike'')],
              el ''span'' [] [ex (fixed 2 (js_times (mem (Inr pt) ''model_vol'') (Inr (jsn 100)))), tx (js ''%'')],
              el ''span'' [] [tx (js ''$''), ex (chain (mem (Inr pt) ''bs_price'') (\<lambda>x. (fixed 3 x)))],
              el ''span'' [aflag ''class:iv-atm'' (js_lt_of (math_abs (js_minus (mem (Inr pt) ''strike'') (Inr (jsn 100)))) (Inr
                  (jsn 1)))] [ex (fixed 2 (js_times (mem (Inr pt) ''implied_vol'') (Inr (jsn 100)))), tx (js ''%'')]]])],
         el ''p'' [atx ''class'' (js ''clj-note'')] [
          tx (js ''skew=''),
          ex (mem (Inr (fsharpSmile st)) ''skew''),
          tx ([0x0020, 0x00B7] @ js '' curvature=''),
          ex (mem (Inr (fsharpSmile st)) ''curvature''),
          tx [0x0020, 0x00B7, 0x0020],
          ex (mem (Inr (fsharpSmile st)) ''engine'')]])]
      [
       ifv (chain (Inr (fsharpSmile st)) (\<lambda>x2. (mem x2 ''error''))) [
        el ''div'' [atx ''class'' (js ''error-box'')] [el ''p'' [] [tx [0x26A0, 0xFE0F, 0x0020], ex (mem (Inr (fsharpSmile st))
            ''error'')]]]
       [
        el ''div'' [atx ''class'' (js ''empty-box'')] [
         el ''p'' [] [
          tx (js ''Vol Smile '' @ [0xC2E4, 0xD589, 0x0020, 0xBC84, 0xD2BC, 0xC744, 0x0020, 0xB20C, 0xB7EC, 0x0020, 0xBCC0, 0xB3D9,
              0xC131, 0x0020, 0xC2A4, 0xB9C8, 0xC77C, 0x0020, 0xACE1, 0xC120, 0xC744, 0x0020, 0xACC4, 0xC0B0, 0xD558, 0xC138,
              0xC694, 0x002E])]]]]]
     []"

definition fsharp_v_activeTab4 :: "locale_format \<Rightarrow> fsharp \<Rightarrow> view" where
  "fsharp_v_activeTab4 fmt st =
     ifv (js_eq (Inr (Str (tab_id (activeTab st)))) (Inr (Str (js ''dcf'')))) [
      ifv (js_and (Inr (fsharpDCF st)) (js_not (mem (Inr (fsharpDCF st)) ''error''))) [
       el ''div'' [atx ''class'' (js ''julia-grid'')] [
        el ''div'' [atx ''class'' (js ''julia-card fsharp-card'')] [
         el ''span'' [atx ''class'' (js ''jlabel'')] [tx ([0xB0B4, 0xC7AC, 0xAC00, 0xCE58] @ js '' (DCF)'')],
         el ''span'' [atx ''class'' (js ''jval'')] [tx (js ''$''), ex (toLocale fmt '''' (as_Number (mem (Inr (fsharpDCF st))
             ''intrinsic_value'')))]],
        el ''div'' [atx ''class'' (js ''julia-card fsharp-card'')] [
         el ''span'' [atx ''class'' (js ''jlabel'')] [tx [0xD560, 0xC778, 0xC728]],
         el ''span'' [atx ''class'' (js ''jval'')] [ex (fixed 1 (js_times (mem (Inr (fsharpDCF st)) ''discount_rate'') (Inr (jsn
             100)))), tx (js ''%'')]],
        el ''div'' [atx ''class'' (js ''julia-card fsharp-card'')] [
         el ''span'' [atx ''class'' (js ''jlabel'')] [tx [0xD604, 0xAE08, 0xD750, 0xB984, 0x0020, 0xAE30, 0xAC04]],
         el ''span'' [atx ''class'' (js ''jval'')] [ex (mem (Inr (fsharpDCF st)) ''periods''), tx [0xB144]]],
        el ''div'' [atx ''class'' (js ''julia-card fsharp-card'')] [
         el ''span'' [atx ''class'' (js ''jlabel'')] [tx [0xD130, 0xBBF8, 0xB110, 0x0020, 0xBC38, 0xB958]],
         el ''span'' [atx ''class'' (js ''jval'')] [tx (js ''$''), ex (toLocale fmt '''' (as_Number (mem (Inr (fsharpDCF st))
             ''terminal_value'')))]],
        ifv (mem (Inr (fsharpDCF st)) ''pv_cashflows'') [
         el ''div'' [atx ''class'' (js ''julia-card fsharp-card'')] [
          el ''span'' [atx ''class'' (js ''jlabel'')] [tx (js ''PV(FCF '' @ [0xD569, 0xACC4, 0x0029])],
          el ''span'' [atx ''class'' (js ''jval'')] [tx (js ''$''), ex (toLocale fmt '''' (as_Number (mem (Inr (fsharpDCF st))
              ''pv_cashflows'')))]]]
        [],
        el ''div'' [atx ''class'' (js ''julia-card fsharp-card''), atx ''style'' (js ''border-color:#34d399'')] [
         el ''span'' [atx ''class'' (js ''jlabel'')] [tx [0xC5D4, 0xC9C4]],
         el ''span'' [atx ''class'' (js ''jval''), atx ''style'' (js ''color:#34d399'')] [ex (mem (Inr (fsharpDCF st))
             ''engine'')]]]]
      [
       ifv (chain (Inr (fsharpDCF st)) (\<lambda>x. (mem x ''error''))) [
        el ''div'' [atx ''class'' (js ''error-box'')] [el ''p'' [] [tx [0x26A0, 0xFE0F, 0x0020], ex (mem (Inr (fsharpDCF st))
            ''error'')]]]
       [
        el ''div'' [atx ''class'' (js ''empty-box'')] [
         el ''p'' [] [
          tx (js ''DCF '' @ [0xC2E4, 0xD589, 0x0020, 0xBC84, 0xD2BC, 0xC744, 0x0020, 0xB20C, 0xB7EC, 0x0020, 0xD604, 0xAE08,
              0xD750, 0xB984, 0x0020, 0xD560, 0xC778, 0x0020, 0xAE30, 0xC5C5, 0xAC00, 0xCE58, 0xB97C, 0x0020, 0xACC4, 0xC0B0,
              0xD558, 0xC138, 0xC694, 0x002E])]]]]]
     []"

definition fsharp_view :: "locale_format \<Rightarrow> fsharp \<Rightarrow> view" where
  "fsharp_view fmt st = cat
     [
      el ''section'' [atx ''class'' (js ''panel'')] [
       fsharp_v_panel_header st,
       fsharp_v_tab_bar st,
       fsharp_v_activeTab st,
       fsharp_v_activeTab2 st,
       fsharp_v_activeTab3 st,
       fsharp_v_activeTab4 fmt st]]"

section \<open>WorkflowPanel\<close>

definition workflow_v_panel_header :: "workflow \<Rightarrow> view" where
  "workflow_v_panel_header st =
     el ''div'' [atx ''class'' (js ''panel-header'')] [
      el ''div'' [] [
       el ''h2'' [] [
        tx ([0xD83D, 0xDD00, 0x0020, 0xC6CC, 0xD06C, 0xD50C, 0xB85C, 0x0020, 0xD30C, 0xC774, 0xD504, 0xB77C, 0xC778] @ js
            '' (Go '' @ [0xC624, 0xCF00, 0xC2A4, 0xD2B8, 0xB808, 0xC774, 0xC158, 0x0029])],
       el ''p'' [atx ''class'' (js ''subtitle'')] [
        tx (js ''Python '' @ [0x2192] @ js '' Rust '' @ [0x2192] @ js '' Kotlin '' @ [0x2192] @ js '' Nim '' @ [0xC5D4, 0xB4DC,
            0x002D, 0xD22C, 0x002D, 0xC5D4, 0xB4DC, 0x0020, 0xB9AC, 0xC2A4, 0xD06C, 0x0020, 0xD30C, 0xC774, 0xD504, 0xB77C,
            0xC778, 0x0020, 0x00B7, 0x0020, 0xC11C, 0xD0B7, 0x0020, 0xBE0C, 0xB808, 0xC774, 0xCEE4, 0x0020, 0xBAA8, 0xB2C8,
            0xD130, 0xB9C1, 0x0020, 0x00B7] @ js '' Redis Pub/Sub '' @ [0xC774, 0xBCA4, 0xD2B8] @ js '' (:8080) '' @ [0x00B7,
            0x0020, 0x0035, 0xB2E8, 0xACC4])]],
      el ''div'' [atx ''class'' (js ''btn-group'')] [
       el ''button'' [atx ''class'' (js ''run-btn''), atx ''onclick'' (js ''runRiskFull''), aflag ''disabled'' (Inr (Bool
           (wf_riskLoading st)))] [
        ex (js_if (Inr (Bool (wf_riskLoading st))) (Inr (Str [0xC2E4, 0xD589, 0x0020, 0xC911, 0x002E, 0x002E, 0x002E])) (Inr (Str
            [0x25B6, 0x0020, 0xD30C, 0xC774, 0xD504, 0xB77C, 0xC778, 0x0020, 0xC2E4, 0xD589])))],
       el ''button'' [atx ''class'' (js ''circuit-btn''), atx ''onclick'' (js ''fetchCircuit''), aflag ''disabled'' (Inr (Bool
           (circuitLoading st)))] [
        ex (js_if (Inr (Bool (circuitLoading st))) (Inr (Str [0xC870, 0xD68C, 0x0020, 0xC911, 0x002E, 0x002E, 0x002E])) (Inr (Str
            [0xD83D, 0xDEE1, 0x0020, 0xC11C, 0xD0B7, 0x0020, 0xBE0C, 0xB808, 0xC774, 0xCEE4])))]]]"

definition workflow_v_riskResult :: "workflow \<Rightarrow> view" where
  "workflow_v_riskResult st =
     ifv (chain (Inr (riskResult st)) (\<lambda>x. (mem x ''error''))) [el ''p'' [atx ''class'' (js ''error-msg'')] [ex (mem (Inr
         (riskResult st)) ''error'')]]
     [
      ifv (Inr (riskResult st)) [
       el ''div'' [atx ''class'' (js ''pipeline-meta'')] [
        el ''span'' [atx ''class'' (js ''meta-item'')] [
         tx [0xC0C1, 0xD0DC, 0x003A, 0x0020],
         el ''strong'' [aval ''class'' (js_if (js_eq (mem (Inr (riskResult st)) ''status'') (Inr (Str (js ''ok'')))) (Inr (Str (js
             ''ok-text''))) (Inr (Str (js ''warn-text''))))] [ex (mem (Inr (riskResult st)) ''status'')]],
        el ''span'' [atx ''class'' (js ''meta-item'')] [tx [0xC18C, 0xC694, 0x003A, 0x0020], el ''strong'' [] [ex (mem (Inr
            (riskResult st)) ''elapsed_ms''), tx (js ''ms'')]],
        el ''span'' [atx ''class'' (js ''meta-item meta-engine'')] [ex (mem (Inr (riskResult st)) ''engine'')]],
       el ''div'' [atx ''class'' (js ''steps-timeline'')] [
        each (js_default (mem (Inr (riskResult st)) ''steps'') (Inr (Arr []))) (\<lambda>_ step. [
           el ''div'' [amix ''class'' [Inr (Str (js ''step-item '')), (member_call (\<lambda>v. Str (stepClass v)) (Inr step))]] [
            el ''div'' [atx ''class'' (js ''step-header'')] [
             el ''span'' [atx ''class'' (js ''step-icon'')] [ex (member_call (\<lambda>v. Str (stepIcon v)) (Inr step))],
             el ''span'' [atx ''class'' (js ''step-num'')] [tx (js ''Step ''), ex (mem (Inr step) ''step'')],
             el ''span'' [atx ''class'' (js ''step-service'')] [ex (mem (Inr step) ''service'')],
             el ''span'' [atx ''class'' (js ''step-action'')] [tx [0x2014, 0x0020], ex (mem (Inr step) ''action'')]],
            ifv (js_eq (mem (Inr step) ''status'') (Inr (Str (js ''error'')))) [el ''p'' [atx ''class'' (js ''step-err-msg'')] [ex
                (mem (Inr step) ''error'')]]
            [
             ifv (mem (Inr step) ''data'') [
              el ''p'' [atx ''class'' (js ''step-data'')] [
               ifv (mem (mem (Inr step) ''data'') ''engine'') [
                ex (mem (mem (Inr step) ''data'') ''engine''),
                ifv (js_ne (mem (mem (Inr step) ''data'') ''risk_score'') (Inr Undef)) [tx ([0x00B7] @ js '' VaR95=''), ex (mem
                    (mem (Inr step) ''data'') ''risk_score'')]
                []]
               [
                ifv (js_ne (mem (mem (Inr step) ''data'') ''rows_inserted'') (Inr Undef)) [ex (mem (mem (Inr step) ''data'')
                    ''rows_inserted''), tx [0xAC74, 0x0020, 0xC0BD, 0xC785]]
                [
                 ifv (js_ne (mem (mem (Inr step) ''data'') ''persistence'') (Inr Undef)) [
                  tx [0x03B1, 0x002B, 0x03B2, 0x003D],
                  ex (chain (mem (mem (Inr step) ''data'') ''persistence'') (\<lambda>x2. (fixed 4 x2))),
                  tx [0x0020, 0x00B7, 0x0020, 0xBC18, 0xAC10, 0xAE30, 0x003D],
                  ex (chain (mem (mem (Inr step) ''data'') ''half_life_days'') (\<lambda>x3. (fixed 1 x3))),
                  tx [0xC77C, 0x0020, 0x00B7, 0x0020, 0xD604, 0xC7AC, 0x03C3, 0x003D],
                  ex (js_if (js_nonnull (mem (mem (Inr step) ''data'') ''current_vol_ann'')) (js_plus (fixed 2 (js_times (mem (mem
                      (Inr step) ''data'') ''current_vol_ann'') (Inr (jsn 100)))) (Inr (Str (js ''%'')))) (Inr (Str (js
                      ''N/A''))))]
                 [
                  ifv (js_ne (mem (mem (Inr step) ''data'') ''var_95'') (Inr Undef)) [
                   tx (js ''VaR95=''),
                   ex (mem (mem (Inr step) ''data'') ''var_95''),
                   ifv (js_ne (mem (mem (Inr step) ''data'') ''count'') (Inr Undef)) [tx (js ''(''), ex (mem (mem (Inr step)
                       ''data'') ''count''), tx [0xAC74, 0x0029]]
                   []]
                  [
                   ifv (js_ne (mem (mem (Inr step) ''data'') ''total_currencies'') (Inr Undef)) [
                    ex (mem (mem (Inr step) ''data'') ''total_currencies''),
                    tx [0xD1B5, 0xD654, 0x0020, 0xB9AC, 0xD3EC, 0xD2B8, 0x0020, 0xC0DD, 0xC131]]
                   [tx [0xC644, 0xB8CC]]]]]]]]
             []]]])]]
      []]"

definition workflow_v_circuitResult :: "workflow \<Rightarrow> view" where
  "workflow_v_circuitResult st =
     ifv (chain (Inr (circuitResult st)) (\<lambda>x. (mem x ''error''))) [el ''p'' [atx ''class'' (js ''error-msg'')] [ex (mem
         (Inr (circuitResult st)) ''error'')]]
     [
      ifv (Inr (circuitResult st)) [
       el ''div'' [atx ''class'' (js ''section-divider'')] [tx [0xD83D, 0xDEE1, 0x0020, 0xC11C, 0xD0B7, 0x0020, 0xBE0C, 0xB808,
           0xC774, 0xCEE4, 0x0020, 0xD604, 0xD669]],
       el ''div'' [atx ''class'' (js ''cb-grid'')] [
        each (entries (js_default (mem (Inr (circuitResult st)) ''circuit_breakers'') (Inr (Obj [])))) (\<lambda>_ kv. [bind_const
            (item (Inr kv) 0) (\<lambda>name. [bind_const (item (Inr kv) 1) (\<lambda>cb. [
           el ''div'' [amix ''class'' [Inr (Str (js ''cb-card '')), (call (\<lambda>v. Str (cbClass (case v of Str t \<Rightarrow>
               t | _ \<Rightarrow> []))) (mem (Inr cb) ''state''))]] [
            el ''div'' [atx ''class'' (js ''cb-name'')] [ex (Inr name)],
            el ''div'' [atx ''class'' (js ''cb-state-label'')] [
             ex (call (\<lambda>v. Str (cbLabel (case v of Str t \<Rightarrow> t | _ \<Rightarrow> []))) (mem (Inr cb)
                 ''state''))],
            el ''div'' [atx ''class'' (js ''cb-stats'')] [
             tx [0xC2E4, 0xD328, 0x0020],
             ex (mem (Inr cb) ''failures''),
             tx [0x0020, 0x00B7, 0x0020, 0xC131, 0xACF5, 0x0020],
             ex (mem (Inr cb) ''successes'')]]])])])]]
      []]"

definition workflow_view :: "workflow \<Rightarrow> view" where
  "workflow_view st = cat
     [
      el ''section'' [atx ''class'' (js ''panel'')] [workflow_v_panel_header st, workflow_v_riskResult st,
          workflow_v_circuitResult st]]"

section \<open>BSComparePanel\<close>

definition compare_v_panel_header :: "compare \<Rightarrow> view" where
  "compare_v_panel_header st =
     el ''div'' [atx ''class'' (js ''panel-header'')] [
      el ''div'' [] [
       el ''h2'' [] [
        tx ([0x2696, 0xFE0F] @ js '' BS '' @ [0xBE44, 0xAD50, 0x0020, 0xC6CC, 0xD06C, 0xD50C, 0xB85C] @ js '' (F# '' @ [0x00B7] @
            js '' Haskell '' @ [0x00B7] @ js '' Python)'')],
       el ''p'' [atx ''class'' (js ''subtitle'')] [
        tx ([0x0047, 0x006F, 0x0020, 0xC624, 0xCF00, 0xC2A4, 0xD2B8, 0xB808, 0xC774, 0xC158, 0x0020, 0x00B7, 0x0020, 0x0033,
            0xAC1C, 0x0020, 0xC5D4, 0xC9C4, 0x0020, 0xBCD1, 0xB82C] @ js '' Black-Scholes '' @ [0xBE44, 0xAD50, 0x0020, 0x00B7,
            0x0020, 0xC11C, 0xD0B7, 0x0020, 0xBE0C, 0xB808, 0xC774, 0xCEE4, 0x0020, 0xBCF4, 0xD638] @ js '' (:8080 '' @ [0x2192] @
            js '' :9001/:8006/:8000)'')]],
      el ''button'' [atx ''class'' (js ''run-btn''), atx ''onclick'' (js ''runCompare''), aflag ''disabled'' (Inr (Bool
          (cmp_loading st)))] [
       ex (js_if (Inr (Bool (cmp_loading st))) (Inr (Str [0xBE44, 0xAD50, 0x0020, 0xC911, 0x002E, 0x002E, 0x002E])) (Inr (Str
           [0xC5D4, 0xC9C4, 0x0020, 0xBE44, 0xAD50])))]]"

definition compare_v_param_grid :: "compare \<Rightarrow> view" where
  "compare_v_param_grid st =
     el ''div'' [atx ''class'' (js ''param-grid'')] [
      el ''div'' [atx ''class'' (js ''param-row'')] [
       el ''label'' [atx ''for'' (js ''bs-s'')] [tx (js ''Spot (S)'')],
       el ''input'' [atx ''id'' (js ''bs-s''), atx ''type'' (js ''range''), atx ''min'' (js ''50''), atx ''max'' (js ''200''), atx
           ''step'' (js ''5''), aval ''value'' (Inr (cmp_S st))] [],
       el ''span'' [atx ''class'' (js ''param-val'')] [ex (Inr (cmp_S st))]],
      el ''div'' [atx ''class'' (js ''param-row'')] [
       el ''label'' [atx ''for'' (js ''bs-k'')] [tx (js ''Strike (K)'')],
       el ''input'' [atx ''id'' (js ''bs-k''), atx ''type'' (js ''range''), atx ''min'' (js ''50''), atx ''max'' (js ''200''), atx
           ''step'' (js ''5''), aval ''value'' (Inr (cmp_K st))] [],
       el ''span'' [atx ''class'' (js ''param-val'')] [ex (Inr (cmp_K st))]],
      el ''div'' [atx ''class'' (js ''param-row'')] [
       el ''label'' [atx ''for'' (js ''bs-sigma'')] [tx (js ''Volatility '' @ [0x03C3])],
       el ''input'' [atx ''id'' (js ''bs-sigma''), atx ''type'' (js ''range''), atx ''min'' (js ''0.05''), atx ''max'' (js
           ''0.80''), atx ''step'' (js ''0.01''), aval ''value'' (Inr (cmp_Sigma st))] [],
       el ''span'' [atx ''class'' (js ''param-val'')] [ex (fixed 2 (Inr (cmp_Sigma st)))]],
      el ''div'' [atx ''class'' (js ''param-row'')] [
       el ''label'' [atx ''for'' (js ''bs-t'')] [tx (js ''Maturity T ('' @ [0xB144, 0x0029])],
       el ''input'' [atx ''id'' (js ''bs-t''), atx ''type'' (js ''range''), atx ''min'' (js ''0.1''), atx ''max'' (js ''3.0''),
           atx ''step'' (js ''0.1''), aval ''value'' (Inr (cmp_T st))] [],
       el ''span'' [atx ''class'' (js ''param-val'')] [ex (fixed 1 (Inr (cmp_T st)))]],
      el ''div'' [atx ''class'' (js ''param-row'')] [
       el ''label'' [atx ''for'' (js ''bs-r'')] [tx (js ''Risk-free r'')],
       el ''input'' [atx ''id'' (js ''bs-r''), atx ''type'' (js ''range''), atx ''min'' (js ''0.00''), atx ''max'' (js ''0.15''),
           atx ''step'' (js ''0.005''), aval ''value'' (Inr (cmp_R st))] [],
       el ''span'' [atx ''class'' (js ''param-val'')] [ex (fixed 3 (Inr (cmp_R st)))]]]"

definition compare_v_result :: "compare \<Rightarrow> view" where
  "compare_v_result st =
     ifv (chain (Inr (cmp_result st)) (\<lambda>x. (mem x ''error''))) [el ''p'' [atx ''class'' (js ''error-msg'')] [ex (mem (Inr
         (cmp_result st)) ''error'')]]
     [
      ifv (Inr (cmp_result st)) [
       el ''p'' [atx ''class'' (js ''meta'')] [
        tx ([0xD30C, 0xB77C, 0xBBF8, 0xD130] @ js '': S=''),
        ex (chain (mem (Inr (cmp_result st)) ''params'') (\<lambda>x2. (mem x2 ''s''))),
        tx (js '' K=''),
        ex (chain (mem (Inr (cmp_result st)) ''params'') (\<lambda>x3. (mem x3 ''k''))),
        tx [0x0020, 0x03C3, 0x003D],
        ex (chain (mem (Inr (cmp_result st)) ''params'') (\<lambda>x4. (mem x4 ''sigma''))),
        tx (js '' T=''),
        ex (chain (mem (Inr (cmp_result st)) ''params'') (\<lambda>x5. (mem x5 ''t''))),
        tx (js '' r=''),
        ex (chain (mem (Inr (cmp_result st)) ''params'') (\<lambda>x6. (mem x6 ''r'')))],
       el ''div'' [atx ''class'' (js ''compare-grid'')] [
        each (entries (js_default (mem (Inr (cmp_result st)) ''engines'') (Inr (Obj [])))) (\<lambda>_ kv. [bind_const (item (Inr
            kv) 0) (\<lambda>name. [bind_const (item (Inr kv) 1) (\<lambda>eng. [
           el ''div'' [atx ''class'' (js ''engine-card'')] [
            el ''div'' [atx ''class'' (js ''engine-header'')] [
             el ''span'' [atx ''class'' (js ''engine-name'')] [ex (Inr name)],
             el ''span'' [amix ''class'' [Inr (Str (js ''engine-status '')), (call (\<lambda>v. Str (statusClass v)) (Inr eng))]]
                 [ex (js_if (js_eq (mem (Inr eng) ''status'') (Inr (Str (js ''ok'')))) (Inr (Str [0x2713])) (Inr (Str
                 [0x2715])))],
             el ''span'' [atx ''class'' (js ''engine-latency'')] [ex (mem (Inr eng) ''latency_ms''), tx (js ''ms'')]],
            ifv (js_eq (mem (Inr eng) ''status'') (Inr (Str (js ''ok'')))) [
             el ''table'' [atx ''class'' (js ''result-table'')] [
              el ''tbody'' [] [
               el ''tr'' [] [
                el ''td'' [atx ''class'' (js ''k'')] [tx (js ''Call'')],
                el ''td'' [atx ''class'' (js ''v'')] [ex (call callVal (Inr eng))]],
               el ''tr'' [] [
                el ''td'' [atx ''class'' (js ''k'')] [tx (js ''Put'')],
                el ''td'' [atx ''class'' (js ''v'')] [ex (call putVal (Inr eng))]],
               el ''tr'' [] [
                el ''td'' [atx ''class'' (js ''k'')] [tx (js ''Delta'')],
                el ''td'' [atx ''class'' (js ''v'')] [ex (call deltaVal (Inr eng))]],
               el ''tr'' [] [
                el ''td'' [atx ''class'' (js ''k'')] [tx (js ''Gamma'')],
                el ''td'' [atx ''class'' (js ''v'')] [ex (call gammaVal (Inr eng))]]]]]
            [
             el ''p'' [atx ''class'' (js ''engine-err'')] [ex (js_default (mem (Inr eng) ''error'') (Inr (Str [0xC624,
                 0xB958])))]]]])])])]]
      []]"

definition compare_view :: "compare \<Rightarrow> view" where
  "compare_view st = cat
     [el ''section'' [atx ''class'' (js ''panel'')] [compare_v_panel_header st, compare_v_param_grid st, compare_v_result st]]"

section \<open>KotlinPanel\<close>

definition kotlin_v_panel_header :: "kotlin \<Rightarrow> view" where
  "kotlin_v_panel_header st =
     el ''div'' [atx ''class'' (js ''panel-header'')] [
      el ''div'' [] [
       el ''h2'' [] [tx ([0x2615] @ js '' Kotlin '' @ [0xCF54, 0xB8E8, 0xD2F4, 0x0020, 0xC2A4, 0xCF00, 0xC904, 0xB7EC] @ js
           '' (:9000)'')],
       el ''p'' [atx ''class'' (js ''subtitle'')] [
        tx ([0xCF54, 0xB8E8, 0xD2F4, 0x0020, 0xC2A4, 0xCF00, 0xC904, 0xB7EC, 0x0020, 0x00B7] @ js '' DB '' @ [0xB9AC, 0xC2A4,
            0xD06C, 0x0020, 0xB9AC, 0xD3EC, 0xD2B8, 0x0020, 0xC790, 0xB3D9, 0x0020, 0xC0DD, 0xC131])]],
      el ''div'' [atx ''class'' (js ''kbtn-group'')] [
       el ''button'' [atx ''class'' (js ''kotlin-btn''), atx ''onclick'' (js ''fetchReports'')] [tx [0xCD5C, 0xC2E0, 0x0020,
           0xB9AC, 0xD3EC, 0xD2B8]],
       el ''button'' [atx ''class'' (js ''kotlin-btn gen-btn''), atx ''onclick'' (js ''generateNow''), aflag ''disabled'' (Inr
           (Bool (generating st)))] [
        ex (js_if (Inr (Bool (generating st))) (Inr (Str [0xC0DD, 0xC131, 0x0020, 0xC911, 0x002E, 0x002E, 0x002E])) (Inr (Str
            [0xC989, 0xC2DC, 0x0020, 0xC0DD, 0xC131])))]]]"

definition kotlin_v_genMsg :: "kotlin \<Rightarrow> view" where
  "kotlin_v_genMsg st =
     ifv (Inr (genMsg st)) [
      el ''div'' [amix ''class'' [Inr (Str (js ''gen-msg '')), (js_if (includes_text (Inr (genMsg st)) [0xC644, 0xB8CC]) (Inr (Str
          (js ''ok''))) (Inr (Str (js ''err''))))]] [ex (Inr (genMsg st))]]
     []"

definition kotlin_v_reports :: "locale_format \<Rightarrow> date_format \<Rightarrow> kotlin \<Rightarrow> view" where
  "kotlin_v_reports fmt dfmt st =
     ifv (js_and (Inr (reports st)) (js_gt (mem (Inr (reports st)) ''length'') (Inr (jsn 0)))) [
      el ''p'' [atx ''class'' (js ''report-count'')] [
       ex (mem (Inr (reports st)) ''length''),
       tx [0xAC1C, 0x0020, 0xB9AC, 0xD3EC, 0xD2B8, 0x0020, 0x00B7, 0x0020, 0xAC00, 0xC7A5, 0x0020, 0xCD5C, 0xADFC, 0x003A,
           0x0020],
       ex (date_text dfmt ''ko-KR'' (chain (item (Inr (reports st)) 0) (\<lambda>x. (mem x ''generatedAt''))))],
      el ''div'' [atx ''class'' (js ''report-list'')] [
       each (Inr (reports st)) (\<lambda>_ r. [
          el ''div'' [atx ''class'' (js ''report-row''), atx ''onclick'' (js
              ''() => (expanded = expanded === r.id ? null : r.id)''), atx ''style'' (js ''cursor:pointer'')] [
           el ''div'' [atx ''class'' (js ''report-row-main'')] [
            el ''span'' [atx ''class'' (js ''rid'')] [tx (js ''#''), ex (mem (Inr r) ''id'')],
            el ''span'' [atx ''class'' (js ''rtime'')] [
             ex (date_text dfmt ''ko-KR, {month: 2-digit, day: 2-digit, hour: 2-digit, minute: 2-digit}'' (mem (Inr r)
                 ''generatedAt''))],
            el ''span'' [atx ''class'' (js ''ravg''), atx ''style'' (js ''color:#f59e0b'')] [ex (chain (mem (Inr r)
                ''avgRiskScore'') (\<lambda>x2. (fixed 4 x2)))],
            el ''div'' [atx ''class'' (js ''risk-bar-wrap'')] [
             el ''div'' [atx ''class'' (js ''risk-bar-track'')] [
              el ''div'' [atx ''class'' (js ''risk-bar-min''), amix ''style'' [Inr (Str (js ''left:'')), (pct_of (mem (Inr r)
                  ''minRiskScore'') (mem (Inr r) ''minRiskScore'') (mem (Inr r) ''maxRiskScore'')), Inr (Str (js ''%''))]] [],
              el ''div'' [atx ''class'' (js ''risk-bar-fill''), amix ''style'' [Inr (Str (js ''left:'')), (pct_of (mem (Inr r)
                  ''minRiskScore'') (mem (Inr r) ''minRiskScore'') (mem (Inr r) ''maxRiskScore'')), Inr (Str ([0x0025, 0x003B,
                  0x000A] @ js ''                                            width:'')), (js_minus (pct_of (mem (Inr r)
                  ''maxRiskScore'') (mem (Inr r) ''minRiskScore'') (mem (Inr r) ''maxRiskScore'')) (pct_of (mem (Inr r)
                  ''minRiskScore'') (mem (Inr r) ''minRiskScore'') (mem (Inr r) ''maxRiskScore''))), Inr (Str (js ''%''))]] [],
              el ''div'' [atx ''class'' (js ''risk-bar-avg''), amix ''style'' [Inr (Str (js ''left:'')), (pct_of (mem (Inr r)
                  ''avgRiskScore'') (mem (Inr r) ''minRiskScore'') (mem (Inr r) ''maxRiskScore'')), Inr (Str (js ''%''))]] []]],
            el ''span'' [atx ''class'' (js ''expand-icon'')] [ex (js_if (js_eq (Inr (expanded st)) (mem (Inr r) ''id'')) (Inr (Str
                [0x25B2])) (Inr (Str [0x25BC])))]],
           ifv (js_eq (Inr (expanded st)) (mem (Inr r) ''id'')) [
            el ''div'' [atx ''class'' (js ''report-detail'')] [
             el ''div'' [atx ''class'' (js ''rd-item'')] [
              el ''span'' [] [tx [0xCD1D, 0x0020, 0xAE30, 0xB85D]],
              el ''strong'' [] [ex (chain (mem (Inr r) ''totalRecords'') (\<lambda>x3. (toLocale fmt '''' x3)))]],
             el ''div'' [atx ''class'' (js ''rd-item'')] [
              el ''span'' [] [tx ([0xD3C9, 0xADE0] @ js '' VaR'')],
              el ''strong'' [atx ''style'' (js ''color:#f59e0b'')] [ex (chain (mem (Inr r) ''avgRiskScore'') (\<lambda>x4. (fixed
                  6 x4)))]],
             el ''div'' [atx ''class'' (js ''rd-item'')] [
              el ''span'' [] [tx ([0xCD5C, 0xB300] @ js '' VaR'')],
              el ''strong'' [atx ''style'' (js ''color:#f87171'')] [ex (chain (mem (Inr r) ''maxRiskScore'') (\<lambda>x5. (fixed
                  6 x5)))]],
             el ''div'' [atx ''class'' (js ''rd-item'')] [
              el ''span'' [] [tx ([0xCD5C, 0xC18C] @ js '' VaR'')],
              el ''strong'' [atx ''style'' (js ''color:#34d399'')] [ex (chain (mem (Inr r) ''minRiskScore'') (\<lambda>x6. (fixed
                  6 x6)))]],
             el ''div'' [atx ''class'' (js ''rd-item'')] [
              el ''span'' [] [tx [0xBC94, 0xC704]],
              el ''strong'' [] [ex (fixed 6 (js_minus (mem (Inr r) ''maxRiskScore'') (mem (Inr r) ''minRiskScore'')))]]]]
           []]])]]
     [
      el ''div'' [atx ''class'' (js ''empty-box'')] [
       el ''p'' [] [
        tx ([0xBC84, 0xD2BC, 0xC744, 0x0020, 0xB20C, 0xB7EC] @ js '' Kotlin '' @ [0xC2A4, 0xCF00, 0xC904, 0xB7EC, 0x0020, 0xB9AC,
            0xD3EC, 0xD2B8, 0xB97C, 0x0020, 0xBD88, 0xB7EC, 0xC624, 0xC138, 0xC694] @ js ''. (Kotlin '' @ [0xC11C, 0xBC84] @ js
            '' :9000 '' @ [0xD544, 0xC694, 0x0029])]]]"

definition kotlin_view :: "locale_format \<Rightarrow> date_format \<Rightarrow> kotlin \<Rightarrow> view" where
  "kotlin_view fmt dfmt st = cat
     [el ''section'' [atx ''class'' (js ''panel'')] [kotlin_v_panel_header st, kotlin_v_genMsg st, kotlin_v_reports fmt dfmt st]]"

section \<open>LuaCachePanel\<close>

definition lua_cache_v_panel :: "lua_cache \<Rightarrow> view" where
  "lua_cache_v_panel st =
     el ''section'' [atx ''class'' (js ''panel'')] [
      el ''div'' [atx ''class'' (js ''panel-header'')] [
       el ''div'' [] [
        el ''h2'' [] [tx ([0xD83C, 0xDF19] @ js '' Lua Cache Stats'')],
        el ''p'' [atx ''class'' (js ''subtitle'')] [
         tx (js ''Redis EVAL '' @ [0xC6D0, 0xC790, 0xC801, 0x0020, 0xCE90, 0xC2DC, 0x0020, 0xD788, 0xD2B8, 0x002F, 0xBBF8, 0xC2A4,
             0x0020, 0xCE74, 0xC6B4, 0xD130])]],
       el ''button'' [atx ''class'' (js ''lua-btn''), atx ''onclick'' (js ''fetchCacheStats'')] [tx [0xC870, 0xD68C]]],
      ifv (Inr (cacheStats st)) [
       el ''div'' [atx ''class'' (js ''stats-row'')] [
        el ''div'' [atx ''class'' (js ''stat-box hit'')] [tx ([0x2705] @ js '' Cache Hits''), el ''br'' [] [], el ''strong'' []
            [ex (mem (Inr (cacheStats st)) ''cache_hits'')]],
        el ''div'' [atx ''class'' (js ''stat-box miss'')] [
         tx ([0xD83D, 0xDD04] @ js '' Cache Misses''),
         el ''br'' [] [],
         el ''strong'' [] [ex (mem (Inr (cacheStats st)) ''cache_misses'')]],
        el ''div'' [atx ''class'' (js ''stat-box engine'')] [tx ([0x2699, 0xFE0F] @ js '' Engine''), el ''br'' [] [], el
            ''strong'' [] [ex (mem (Inr (cacheStats st)) ''engine'')]]]]
      [
       el ''div'' [atx ''class'' (js ''empty-box'')] [
        el ''p'' [] [
         tx ([0xC870, 0xD68C, 0x0020, 0xBC84, 0xD2BC, 0xC744, 0x0020, 0xB20C, 0xB7EC] @ js '' Lua '' @ [0xC2A4, 0xD06C, 0xB9BD,
             0xD2B8, 0x0020, 0xD1B5, 0xACC4, 0xB97C, 0x0020, 0xD655, 0xC778, 0xD558, 0xC138, 0xC694, 0x002E])]]]]"

definition lua_cache_view :: "lua_cache \<Rightarrow> view" where
  "lua_cache_view st = cat
     [lua_cache_v_panel st]"

section \<open>What a failure shows\<close>

lemma brain_reports: "view_reports (brain_view fmt) [brainData] [] (\<lambda>s. \<not> brainLoading s) s"
  unfolding view_reports_def list.pred_inject displays_iff
  by (intro impI, elim conjE idle_cases) 
    (simp_all add: view_rules field_value_shown brain_v_panel_header_def brain_v_brainData_def brain_view_def
    cong: if_cong view_congs split del: if_split)

lemma workflow_reports: "view_reports (workflow_view) [riskResult, circuitResult] [] (\<lambda>s. \<not> wf_riskLoading s \<and> \<not>
      circuitLoading s) s"
  unfolding view_reports_def list.pred_inject displays_iff
  by (intro impI, elim conjE idle_cases) 
    (simp_all add: view_rules field_value_shown workflow_v_panel_header_def workflow_v_riskResult_def workflow_v_circuitResult_def
      workflow_view_def
    cong: if_cong view_congs split del: if_split)

lemma compare_reports: "view_reports compare_view [cmp_result] [cmp_S, cmp_K] (\<lambda>s. \<not> cmp_loading s \<and>
      (\<exists>x y z. cmp_Sigma s = Num x \<and> cmp_T s = Num y \<and> cmp_R s = Num z)) s"
  unfolding view_reports_def list.pred_inject displays_iff
  by (intro impI, elim conjE exE idle_cases) 
    (simp_all add: view_rules field_value_shown compare_v_panel_header_def compare_v_param_grid_def compare_v_result_def
      compare_view_def
    cong: if_cong view_congs split del: if_split)

text \<open>\<open>RPanel\<close>, part by part.\<close>

lemma rstats_parts:
  "ok (rstats_v_panel_header s)"
  "\<not> corrLoading s \<Longrightarrow> idle (rFit s) \<Longrightarrow> idle (rCorr s) \<Longrightarrow> ok (rstats_v_rFit s)"
  "idle (rCorr s) \<Longrightarrow> ok (rstats_v_rCorr s)"
  "\<not> garchLoading s \<Longrightarrow> idle (rGarch s) \<Longrightarrow> ok (rstats_v_rGarch s)"
  "\<not> arimaLoading s \<Longrightarrow> idle (rArima s) \<Longrightarrow> ok (rstats_v_rArima s)"
  by (auto simp: view_rules rstats_v_panel_header_def rstats_v_rFit_def rstats_v_rCorr_def rstats_v_rGarch_def rstats_v_rArima_def
    elim!: idle_cases cong: if_cong view_congs split del: if_split)

lemma rstats_shows:
  "rFit s = error_obj m \<Longrightarrow> m \<noteq> [] \<Longrightarrow> mentions m (rstats_v_rFit s)"
  "rCorr s = error_obj m \<Longrightarrow> m \<noteq> [] \<Longrightarrow> mentions m (rstats_v_rCorr s)"
  "\<not> garchLoading s \<Longrightarrow> rGarch s = error_obj m \<Longrightarrow> m \<noteq> [] \<Longrightarrow> mentions m (rstats_v_rGarch s)"
  "\<not> arimaLoading s \<Longrightarrow> rArima s = error_obj m \<Longrightarrow> m \<noteq> [] \<Longrightarrow> mentions m (rstats_v_rArima s)"
  by (simp_all add: view_rules rstats_v_rFit_def rstats_v_rCorr_def rstats_v_rGarch_def rstats_v_rArima_def cong: if_cong view_congs split del: if_split)

lemma rstats_reports: "view_reports rstats_view [rFit, rCorr, rGarch, rArima] []
    (\<lambda>s. \<not> rLoading s \<and> \<not> corrLoading s \<and> \<not> garchLoading s \<and> \<not> arimaLoading s) s"
  by (auto simp: view_reports_def displays_iff view_rules rstats_view_def rstats_parts rstats_shows)

text \<open>\<open>FSharpPanel\<close> shows the result of the open tab.\<close>

definition tab_label :: "fsharp_tab \<Rightarrow> jsstr" where
  "tab_label t = (case t of TabOption \<Rightarrow> js ''Greeks'' | TabIv \<Rightarrow> [0xB0B4, 0xC7AC, 0xBCC0, 0xB3D9, 0xC131] | TabSmile \<Rightarrow> js ''Vol Smile'' | TabDcf \<Rightarrow> js ''DCF'')"

lemma tab_found: "find_of (\<lambda>t. js_eq (get_prop t (js ''id'')) (Inr (Str (tab_id a)))) (Inr TABS)
    = Inr (Obj [(js ''id'', Str (tab_id a)), (js ''label'', Str (tab_label a))])"
  by (cases a) (simp_all add: find_of_def TABS_def tab_label_def mem_def js_eq_def own_prop_def js_def)

lemma tab_header: "ok (fsharp_v_panel_header s)"
  by (simp add: view_rules fsharp_v_panel_header_def tab_found own_prop_def js_plus_def cong: if_cong view_congs split del: if_split)

lemma tab_bar: "ok (fsharp_v_tab_bar s)"
  by (simp add: view_rules fsharp_v_tab_bar_def TABS_def own_prop_def cong: if_cong view_congs split del: if_split)

lemmas fsharp_tabs = fsharp_v_activeTab_def fsharp_v_activeTab2_def fsharp_v_activeTab3_def fsharp_v_activeTab4_def

lemma fsharp_reports:
  "view_reports (fsharp_view fmt) [fsharpOption] [] (\<lambda>s. activeTab s = TabOption) s"
  "view_reports (fsharp_view fmt) [fsharpIV] [] (\<lambda>s. activeTab s = TabIv) s"
  "view_reports (fsharp_view fmt) [fsharpSmile] [] (\<lambda>s. activeTab s = TabSmile) s"
  "view_reports (fsharp_view fmt) [fsharpDCF] [] (\<lambda>s. activeTab s = TabDcf) s"
  unfolding view_reports_def list.pred_inject displays_iff
  by (intro impI, elim conjE idle_cases; simp add: view_rules tab_header tab_bar fsharp_tabs fsharp_view_def cong: if_cong view_congs split del: if_split)+

text \<open>
  \<open>JuliaPanel\<close> shows the message of a stress test; the simulation has no branch for errors and reads numbers from the error object.
\<close>

lemma julia_header: "ok (julia_v_panel_header s)"
  by (simp add: view_rules julia_v_panel_header_def cong: if_cong view_congs split del: if_split)

lemma julia_stress_reports: "view_reports (julia_view fmt) [stressResult] [] (\<lambda>s. juliaResult s = Null) s"
  unfolding view_reports_def list.pred_inject displays_iff
  by (intro impI, elim conjE idle_cases) (simp_all add: view_rules julia_header julia_v_juliaResult_def julia_v_stressResult_def
    julia_view_def cong: if_cong view_congs split del: if_split)

lemma throw_not_ok: "ok (ex (Inl x)) = False"
  by (simp add: ex_def ok_def bindr_def)

lemma julia_error_throws: "juliaResult s = error_obj m \<Longrightarrow> \<not> ok (julia_view fmt s)"
  by (simp add: throw_not_ok view_rules julia_v_juliaResult_def julia_view_def cong: if_cong view_congs split del: if_split)

text \<open>\<open>KotlinPanel\<close> shows the message of the last generation; \<open>LuaCachePanel\<close> a fixed text.\<close>

lemma kotlin_displays:
  "reports s = Null \<or> reports s = Arr [] \<Longrightarrow> genMsg s = Str m \<Longrightarrow> m \<noteq> [] \<Longrightarrow> displays m (kotlin_view fmt dfmt s)"
  by (auto simp: view_rules displays_iff includes_text_def compare_with_def js_less_def kotlin_v_panel_header_def kotlin_v_genMsg_def
      kotlin_v_reports_def kotlin_view_def cong: if_cong view_congs split del: if_split)

lemma kotlin_renders: "reports s = Null \<or> reports s = Arr [] \<Longrightarrow> genMsg s = Null \<Longrightarrow> ok (kotlin_view fmt dfmt s)"
  by (auto simp: view_rules compare_with_def js_less_def kotlin_v_panel_header_def kotlin_v_genMsg_def
      kotlin_v_reports_def kotlin_view_def cong: if_cong view_congs split del: if_split)

lemma lua_cache_renders: "cacheStats s = Null \<Longrightarrow> ok (lua_cache_view s)"
  by (simp add: view_rules lua_cache_view_def lua_cache_v_panel_def cong: if_cong view_congs split del: if_split)

end
