(* ===== verification/View_Combined.thy ===== *)
theory View_Combined
  imports Portal_Combined View_Base
begin

text \<open>
  The markup of the panels that combine several answers: for each panel, one definition per part of its
  template and \<open>_view\<close> for the whole.
\<close>

section \<open>CrystalPanel\<close>

definition crystal_v_panel_header :: "crystal \<Rightarrow> view" where
  "crystal_v_panel_header st =
     el ''div'' [atx ''class'' (js ''panel-header'')] [
      el ''div'' [] [
       el ''h2'' [] [tx ([0xD83D, 0xDD2E] @ js '' Crystal (Portfolio Gateway)'')],
       el ''p'' [atx ''class'' (js ''subtitle'')] [
        tx (js ''Crystal 1.19 '' @ [0x00B7] @ js '' Ruby '' @ [0xBB38, 0xBC95, 0x0020, 0x002B, 0x0020, 0xB124, 0xC774, 0xD2F0,
            0xBE0C, 0x0020, 0xCEF4, 0xD30C, 0xC77C, 0x0020, 0x00B7, 0x0020, 0xD3EC, 0xD2B8, 0xD3F4, 0xB9AC, 0xC624, 0x0020,
            0xC131, 0xACFC] @ js '' + FX (:9002)'')]],
      el ''div'' [atx ''class'' (js ''crystal-btn-group'')] [
       el ''button'' [atx ''class'' (js ''crystal-btn''), atx ''onclick'' (js ''runCrystal''), aflag ''disabled'' (Inr (Bool
           (crystalLoading st)))] [
        ex (js_if (Inr (Bool (crystalLoading st))) (Inr (Str [0xBD84, 0xC11D, 0x0020, 0xC911, 0x002E, 0x002E, 0x002E])) (Inr (Str
            [0xD3EC, 0xD2B8, 0xD3F4, 0xB9AC, 0xC624, 0x0020, 0xBD84, 0xC11D])))],
       el ''button'' [atx ''class'' (js ''crystal-btn crystal-stats-btn''), atx ''onclick'' (js ''runCrystalStats''), aflag
           ''disabled'' (Inr (Bool (statsLoading st)))] [
        ex (js_if (Inr (Bool (statsLoading st))) (Inr (Str [0xBCF5, 0xC218, 0x0020, 0xC911, 0x002E, 0x002E, 0x002E])) (Inr (Str
            [0x0046, 0x0058, 0x0020, 0xD1B5, 0xACC4])))]]]"

definition crystal_v_crystalData :: "locale_format \<Rightarrow> crystal \<Rightarrow> view" where
  "crystal_v_crystalData fmt st =
     ifv (Inr (crystalData st)) [
      ifv (mem (Inr (crystalData st)) ''error'') [
       el ''div'' [atx ''class'' (js ''empty-box'')] [el ''p'' [atx ''style'' (js ''color:#f87171'')] [ex (mem (Inr (crystalData
           st)) ''error'')]]]
      [
       el ''div'' [atx ''class'' (js ''julia-grid'')] [
        el ''div'' [atx ''class'' (js ''julia-card crystal-card'')] [
         el ''span'' [atx ''class'' (js ''jlabel'')] [tx (js ''Total Return'')],
         el ''span'' [atx ''class'' (js ''jval'')] [ex (fixed 2 (js_times (mem (Inr (crystalData st)) ''total_return'') (Inr (jsn
             100)))), tx (js ''%'')]],
        el ''div'' [atx ''class'' (js ''julia-card crystal-card'')] [
         el ''span'' [atx ''class'' (js ''jlabel'')] [tx (js ''Sharpe Ratio'')],
         el ''span'' [atx ''class'' (js ''jval'')] [ex (chain (mem (Inr (crystalData st)) ''sharpe_ratio'') (\<lambda>x. (fixed 4
             x)))]],
        ifv (mem (Inr (crystalData st)) ''fx'') [
         el ''div'' [atx ''class'' (js ''julia-card crystal-card''), atx ''style'' (js ''border-color:#34d399'')] [
          el ''span'' [atx ''class'' (js ''jlabel'')] [tx [0xD30C, 0xC774, 0xBC84, 0x0020, 0xC218, 0xC9D1, 0x0020, 0xC2DC,
              0xAC04]],
          el ''span'' [atx ''class'' (js ''jval''), atx ''style'' (js ''color:#34d399'')] [ex (mem (mem (Inr (crystalData st))
              ''fx'') ''concurrent_total_ms''), tx (js ''ms'')]],
         el ''div'' [atx ''class'' (js ''julia-card crystal-card''), atx ''style'' (js ''border-color:#34d399'')] [
          el ''span'' [atx ''class'' (js ''jlabel'')] [tx [0xC21C, 0xCC28, 0x0020, 0xC2DC, 0x0020, 0xC608, 0xC0C1]],
          el ''span'' [atx ''class'' (js ''jval'')] [ex (mem (mem (Inr (crystalData st)) ''fx'') ''sequential_would_be_ms''), tx
              (js ''ms'')]],
         el ''div'' [atx ''class'' (js ''julia-card crystal-card''), atx ''style'' (js ''border-color:#34d399'')] [
          el ''span'' [atx ''class'' (js ''jlabel'')] [tx [0xBCD1, 0xB82C, 0x0020, 0xAC00, 0xC18D, 0x0020, 0xBC30, 0xC728]],
          el ''span'' [atx ''class'' (js ''jval''), atx ''style'' (js ''color:#34d399'')] [ex (mem (mem (Inr (crystalData st))
              ''fx'') ''speedup_factor''), tx (js ''x'')]],
         el ''div'' [atx ''class'' (js ''julia-card crystal-card''), atx ''style'' (js ''border-color:#34d399'')] [
          el ''span'' [atx ''class'' (js ''jlabel'')] [tx [0xAC00, 0xC911, 0x0020, 0xD3C9, 0xADE0, 0x0020, 0xD658, 0xC728]],
          el ''span'' [atx ''class'' (js ''jval'')] [
           tx [0x20A9],
           ex (chain (mem (mem (Inr (crystalData st)) ''fx'') ''weighted_krw'') (\<lambda>x2. (toLocale fmt '''' x2)))]]]
        []],
       ifv (chain (mem (Inr (crystalData st)) ''conc'') (\<lambda>x3. (chain (mem x3 ''sources'') (\<lambda>x4. (mem x4
           ''length''))))) [
        el ''div'' [atx ''class'' (js ''fiber-header'')] [
         tx [0x26A1, 0x0020],
         ex (mem (mem (Inr (crystalData st)) ''conc'') ''fiber_model''),
         tx [0x0020, 0x2014, 0x0020],
         ex (mem (mem (mem (Inr (crystalData st)) ''conc'') ''sources'') ''length''),
         tx [0xAC1C, 0x0020, 0xC18C, 0xC2A4, 0x0020, 0xBCD1, 0xB82C, 0x0020, 0xC218, 0xC9D1]],
        el ''div'' [atx ''class'' (js ''fiber-list'')] [
         each (mem (mem (Inr (crystalData st)) ''conc'') ''sources'') (\<lambda>_ src. [
            el ''div'' [atx ''class'' (js ''fiber-item'')] [
             el ''span'' [atx ''class'' (js ''fiber-name'')] [ex (mem (Inr src) ''source'')],
             el ''span'' [atx ''class'' (js ''fiber-rate'')] [
              tx [0x20A9],
              ex (chain (mem (Inr src) ''rate'') (\<lambda>x5. (toLocale fmt
                  ''undefined, {minimumFractionDigits: 2, maximumFractionDigits: 2}'' x5)))],
             el ''span'' [atx ''class'' (js ''fiber-ms'')] [ex (mem (Inr src) ''elapsed_ms''), tx (js ''ms'')]]])]]
       []]]
     [
      el ''div'' [atx ''class'' (js ''empty-box'')] [
       el ''p'' [] [
        tx ([0xBC84, 0xD2BC, 0xC744, 0x0020, 0xB20C, 0xB7EC] @ js '' Crystal spawn/Channel '' @ [0xD30C, 0xC774, 0xBC84, 0x0020,
            0xBCD1, 0xB82C] @ js '' FX '' @ [0xC218, 0xC9D1, 0xC744, 0x0020, 0xD655, 0xC778, 0xD558, 0xC138, 0xC694] @ js
            ''. (Crystal '' @ [0xC11C, 0xBC84] @ js '' :9002 '' @ [0xD544, 0xC694, 0x0029])]]]"

definition crystal_v_crystalStats :: "locale_format \<Rightarrow> crystal \<Rightarrow> view" where
  "crystal_v_crystalStats fmt st =
     ifv (js_or (Inr (crystalStats st)) (Inr (Bool (statsLoading st)))) [
      el ''section'' [atx ''class'' (js ''panel crystal-stats-section'')] [
       el ''h3'' [atx ''class'' (js ''section-title'')] [tx ([0xD83D, 0xDCCA] @ js '' Crystal FX '' @ [0xC2E4, 0xC2DC, 0xAC04,
           0x0020, 0xD1B5, 0xACC4])],
       ifv (Inr (Bool (statsLoading st))) [
        el ''div'' [atx ''class'' (js ''empty-box'')] [el ''p'' [] [tx [0x0046, 0x0058, 0x0020, 0xD1B5, 0xACC4, 0x0020, 0xBCF5,
            0xC218, 0x0020, 0xC911, 0x2026]]]]
       [
        ifv (chain (Inr (crystalStats st)) (\<lambda>x. (mem x ''error''))) [
         el ''div'' [atx ''class'' (js ''error-box'')] [el ''p'' [] [tx [0x26A0, 0xFE0F, 0x0020], ex (mem (Inr (crystalStats st))
             ''error'')]]]
        [
         ifv (Inr (crystalStats st)) [
          el ''div'' [atx ''class'' (js ''julia-grid'')] [
           el ''div'' [atx ''class'' (js ''julia-card crystal-card'')] [
            el ''span'' [atx ''class'' (js ''jlabel'')] [tx ([0xD3C9, 0xADE0] @ js '' (mean)'')],
            el ''span'' [atx ''class'' (js ''jval'')] [
             tx [0x20A9],
             ex (js_default (chain (mem (Inr (crystalStats st)) ''mean'') (\<lambda>x2. (toLocale fmt
                 ''undefined, {minimumFractionDigits: 2, maximumFractionDigits: 2}'' x2))) (Inr (Str (js ''N/A''))))]],
           el ''div'' [atx ''class'' (js ''julia-card crystal-card'')] [
            el ''span'' [atx ''class'' (js ''jlabel'')] [tx [0xD45C, 0xC900, 0xD3B8, 0xCC28, 0x0020, 0x0028, 0x03C3, 0x0029]],
            el ''span'' [atx ''class'' (js ''jval'')] [
             ex (js_default (chain (mem (Inr (crystalStats st)) ''std_dev'') (\<lambda>x3. (fixed 4 x3))) (Inr (Str (js
                 ''N/A''))))]],
           el ''div'' [atx ''class'' (js ''julia-card crystal-card'')] [
            el ''span'' [atx ''class'' (js ''jlabel'')] [tx [0xCD5C, 0xC18C]],
            el ''span'' [atx ''class'' (js ''jval'')] [
             tx [0x20A9],
             ex (js_default (chain (mem (Inr (crystalStats st)) ''min'') (\<lambda>x4. (toLocale fmt
                 ''undefined, {minimumFractionDigits: 2, maximumFractionDigits: 2}'' x4))) (Inr (Str (js ''N/A''))))]],
           el ''div'' [atx ''class'' (js ''julia-card crystal-card'')] [
            el ''span'' [atx ''class'' (js ''jlabel'')] [tx [0xCD5C, 0xB300]],
            el ''span'' [atx ''class'' (js ''jval'')] [
             tx [0x20A9],
             ex (js_default (chain (mem (Inr (crystalStats st)) ''max'') (\<lambda>x5. (toLocale fmt
                 ''undefined, {minimumFractionDigits: 2, maximumFractionDigits: 2}'' x5))) (Inr (Str (js ''N/A''))))]],
           el ''div'' [atx ''class'' (js ''julia-card crystal-card''), atx ''style'' (js ''border-color:#f59e0b'')] [
            el ''span'' [atx ''class'' (js ''jlabel'')] [tx ([0xC2A4, 0xD504, 0xB808, 0xB4DC] @ js '' (bps)'')],
            el ''span'' [atx ''class'' (js ''jval''), atx ''style'' (js ''color:#f59e0b'')] [
             ex (js_default (chain (mem (Inr (crystalStats st)) ''spread_bps'') (\<lambda>x6. (fixed 1 x6))) (Inr (Str (js
                 ''N/A'')))),
             tx (js '' bps'')]],
           el ''div'' [atx ''class'' (js ''julia-card crystal-card''), atx ''style'' (js ''border-color:#34d399'')] [
            el ''span'' [atx ''class'' (js ''jlabel'')] [tx [0xAC00, 0xC911, 0xD3C9, 0xADE0, 0xC728]],
            el ''span'' [atx ''class'' (js ''jval''), atx ''style'' (js ''color:#34d399'')] [
             tx [0x20A9],
             ex (js_default (chain (mem (Inr (crystalStats st)) ''weighted_avg'') (\<lambda>x7. (toLocale fmt
                 ''undefined, {minimumFractionDigits: 2, maximumFractionDigits: 2}'' x7))) (Inr (Str (js ''N/A''))))]]]]
         []]]]]
     []"

definition crystal_view :: "locale_format \<Rightarrow> crystal \<Rightarrow> view" where
  "crystal_view fmt st = cat
     [
      el ''section'' [atx ''class'' (js ''panel'')] [crystal_v_panel_header st, crystal_v_crystalData fmt st],
      crystal_v_crystalStats fmt st]"

section \<open>DartPanel\<close>

definition dart_v_panel_header :: "dart \<Rightarrow> view" where
  "dart_v_panel_header st =
     el ''div'' [atx ''class'' (js ''panel-header'')] [
      el ''div'' [] [
       el ''h2'' [] [tx ([0xD83C, 0xDFAF] @ js '' Dart (Yield Curve Engine)'')],
       el ''p'' [atx ''class'' (js ''subtitle'')] [
        tx (js ''Dart 3.11 '' @ [0x00B7] @ js '' dart:io HttpServer '' @ [0x00B7, 0x0020, 0xCC44, 0xAD8C, 0x0020, 0xAC00, 0xACA9,
            0x0020, 0x00B7] @ js '' Nelson-Siegel '' @ [0xC218, 0xC775, 0xB960, 0x0020, 0xACE1, 0xC120] @ js '' (:9005)'')]],
      el ''button'' [atx ''class'' (js ''dart-btn''), atx ''onclick'' (js ''runDart''), aflag ''disabled'' (Inr (Bool (dartLoading
          st)))] [
       ex (js_if (Inr (Bool (dartLoading st))) (Inr (Str [0xACC4, 0xC0B0, 0x0020, 0xC911, 0x002E, 0x002E, 0x002E])) (Inr (Str
           [0xC218, 0xC775, 0xB960, 0x0020, 0xACE1, 0xC120])))]]"

definition dart_v_dartData :: "dart \<Rightarrow> view" where
  "dart_v_dartData st =
     ifv (Inr (dartData st)) [
      ifv (mem (Inr (dartData st)) ''error'') [
       el ''div'' [atx ''class'' (js ''empty-box'')] [el ''p'' [atx ''style'' (js ''color:#f87171'')] [ex (mem (Inr (dartData st))
           ''error'')]]]
      [
       el ''div'' [atx ''class'' (js ''julia-grid'')] [
        el ''div'' [atx ''class'' (js ''julia-card dart-card'')] [
         el ''span'' [atx ''class'' (js ''jlabel'')] [tx (js ''Bond Price'')],
         el ''span'' [atx ''class'' (js ''jval'')] [ex (chain (mem (Inr (dartData st)) ''price'') (\<lambda>x. (fixed 2 x)))]],
        el ''div'' [atx ''class'' (js ''julia-card dart-card'')] [
         el ''span'' [atx ''class'' (js ''jlabel'')] [tx (js ''Mod. Duration'')],
         el ''span'' [atx ''class'' (js ''jval'')] [ex (chain (mem (Inr (dartData st)) ''modified_duration'') (\<lambda>x2. (fixed
             3 x2)))]],
        el ''div'' [atx ''class'' (js ''julia-card dart-card'')] [
         el ''span'' [atx ''class'' (js ''jlabel'')] [tx (js ''Convexity'')],
         el ''span'' [atx ''class'' (js ''jval'')] [ex (chain (mem (Inr (dartData st)) ''convexity'') (\<lambda>x3. (fixed 3
             x3)))]],
        el ''div'' [atx ''class'' (js ''julia-card dart-card'')] [
         el ''span'' [atx ''class'' (js ''jlabel'')] [tx (js ''DV01'')],
         el ''span'' [atx ''class'' (js ''jval'')] [ex (chain (mem (Inr (dartData st)) ''dv01'') (\<lambda>x4. (fixed 4 x4)))]],
        el ''div'' [atx ''class'' (js ''julia-card dart-card'')] [
         el ''span'' [atx ''class'' (js ''jlabel'')] [tx (js ''10Y-2Y Spread'')],
         el ''span'' [atx ''class'' (js ''jval'')] [
          ex (fixed 0 (js_times (js_default (mem (Inr (dartData st)) ''spread_10y_2y'') (Inr (jsn 0))) (Inr (jsn 100)))),
          tx (js ''bp (''),
          ex (mem (Inr (dartData st)) ''curve_shape''),
          tx (js '')'')]],
        el ''div'' [atx ''class'' (js ''julia-card dart-card'')] [
         el ''span'' [atx ''class'' (js ''jlabel'')] [tx (js ''2Y / 10Y Yield'')],
         el ''span'' [atx ''class'' (js ''jval'')] [
          ex (fixed 2 (js_times (js_default (mem (Inr (dartData st)) ''y2y'') (Inr (jsn 0))) (Inr (jsn 100)))),
          tx (js ''% / ''),
          ex (fixed 2 (js_times (js_default (mem (Inr (dartData st)) ''y10y'') (Inr (jsn 0))) (Inr (jsn 100)))),
          tx (js ''%'')]]]]]
     [
      el ''div'' [atx ''class'' (js ''empty-box'')] [
       el ''p'' [] [
        tx ([0xBC84, 0xD2BC, 0xC744, 0x0020, 0xB20C, 0xB7EC] @ js '' Dart '' @ [0xCC44, 0xAD8C, 0x0020, 0xAC00, 0xACA9, 0x00B7,
            0xB4C0, 0xB808, 0xC774, 0xC158, 0x00B7, 0xBCFC, 0xB85D, 0xB3C4, 0xC640] @ js '' Nelson-Siegel '' @ [0xC218, 0xC775,
            0xB960, 0x0020, 0xACE1, 0xC120, 0x0020, 0xBD84, 0xC11D, 0xC744, 0x0020, 0xC2E4, 0xD589, 0xD558, 0xC138, 0xC694] @ js
            ''. (Dart '' @ [0xC11C, 0xBC84] @ js '' :9005 '' @ [0xD544, 0xC694, 0x0029])]]]"

definition dart_v_scenario_section :: "dart \<Rightarrow> view" where
  "dart_v_scenario_section st =
     el ''div'' [atx ''class'' (js ''scenario-section'')] [
      el ''p'' [atx ''class'' (js ''scenario-label'')] [tx (js ''YTM '' @ [0xC2DC, 0xB098, 0xB9AC, 0xC624, 0x0020, 0xBE44, 0xAD50]
          @ js '' (Bull / Base / Bear)'')],
      el ''div'' [atx ''class'' (js ''scenario-params'')] [
       el ''label'' [atx ''class'' (js ''sc-field'')] [
        el ''span'' [] [tx [0xB9CC, 0xAE30, 0x0020, 0x0028, 0xB144, 0x0029]],
        el ''input'' [atx ''class'' (js ''sc-input''), atx ''type'' (js ''number''), aval ''value'' (Inr (bondYears st)), atx
            ''min'' (js ''1''), atx ''max'' (js ''30'')] []],
       el ''label'' [atx ''class'' (js ''sc-field'')] [
        el ''span'' [] [tx [0xCFE0, 0xD3F0, 0x0020, 0x0028, 0xC6D0, 0x0020, 0xB9AC, 0xD2EC, 0x0029]],
        el ''input'' [atx ''class'' (js ''sc-input''), atx ''type'' (js ''number''), aval ''value'' (Inr (bondCoupon st)), atx
            ''min'' (js ''0.001''), atx ''max'' (js ''0.20''), atx ''step'' (js ''0.005'')] []],
       el ''button'' [atx ''class'' (js ''dart-btn sc-btn''), atx ''onclick'' (js ''runScenarios''), aflag ''disabled'' (Inr (Bool
           (scenarioLoading st)))] [
        ex (js_if (Inr (Bool (scenarioLoading st))) (Inr (Str [0xBD84, 0xC11D, 0x0020, 0xC911, 0x002E, 0x002E, 0x002E])) (Inr (Str
            [0xC2DC, 0xB098, 0xB9AC, 0xC624, 0x0020, 0xC2E4, 0xD589])))]],
      ifv (Inr (scenarios st)) [
       ifv (chain (item (Inr (scenarios st)) 0) (\<lambda>x. (mem x ''error''))) [el ''p'' [atx ''style'' (js ''color:#f87171'')]
           [ex (mem (item (Inr (scenarios st)) 0) ''error'')]]
       [
        el ''div'' [atx ''class'' (js ''scenario-table'')] [
         el ''div'' [atx ''class'' (js ''sc-row sc-header'')] [
          el ''span'' [] [tx [0xC2DC, 0xB098, 0xB9AC, 0xC624]],
          el ''span'' [] [tx [0xAC00, 0xACA9]],
          el ''span'' [] [tx [0xC218, 0xC815, 0xB4C0, 0xB808, 0xC774, 0xC158]],
          el ''span'' [] [tx (js ''DV01'')],
          el ''span'' [] [tx [0xBCFC, 0xB85D, 0xB3C4]]],
         each (Inr (scenarios st)) (\<lambda>_ sc. [
            el ''div'' [atx ''class'' (js ''sc-row'')] [
             el ''span'' [atx ''class'' (js ''sc-name'')] [ex (mem (Inr sc) ''label'')],
             el ''span'' [atx ''class'' (js ''sc-price''), amix ''style'' [Inr (Str (js ''color:'')), (js_if (js_ge (mem (Inr sc)
                 ''price'') (Inr (jsn 1000))) (Inr (Str (js ''#34d399''))) (Inr (Str (js ''#f87171''))))]] [ex (chain (mem (Inr
                 sc) ''price'') (\<lambda>x2. (fixed 2 x2)))],
             el ''span'' [] [ex (chain (mem (Inr sc) ''modified_duration'') (\<lambda>x3. (fixed 3 x3)))],
             el ''span'' [] [ex (chain (mem (Inr sc) ''dv01'') (\<lambda>x4. (fixed 4 x4)))],
             el ''span'' [] [ex (chain (mem (Inr sc) ''convexity'') (\<lambda>x5. (fixed 2 x5)))]]])]]]
      []]"

definition dart_view :: "dart \<Rightarrow> view" where
  "dart_view st = cat
     [el ''section'' [atx ''class'' (js ''panel'')] [dart_v_panel_header st, dart_v_dartData st, dart_v_scenario_section st]]"

section \<open>HaskellPanel\<close>

definition haskell_v_panel_header :: "haskell \<Rightarrow> view" where
  "haskell_v_panel_header st =
     el ''div'' [atx ''class'' (js ''panel-header'')] [
      el ''div'' [] [
       el ''h2'' [] [tx ([0x03BB] @ js '' Haskell (Option Pricer)'')],
       el ''p'' [atx ''class'' (js ''subtitle'')] [
        tx (js ''GHC 8.8.4 '' @ [0x00B7, 0x0020, 0xC21C, 0xC218, 0x0020, 0xD568, 0xC218, 0xD615, 0x0020, 0x00B7] @ js
            '' Black-Scholes Greeks '' @ [0x00B7] @ js '' GBM Monte Carlo '' @ [0x00B7, 0x0020, 0xBB34, 0xD55C, 0x0020, 0xB808,
            0xC774, 0xC9C0, 0x0020, 0xC2A4, 0xD2B8, 0xB9BC] @ js '' (:8006)'')]],
      el ''button'' [atx ''class'' (js ''haskell-btn''), atx ''onclick'' (js ''runHaskell''), aflag ''disabled'' (Inr (Bool
          (haskellLoading st)))] [
       ex (js_if (Inr (Bool (haskellLoading st))) (Inr (Str [0xACC4, 0xC0B0, 0x0020, 0xC911, 0x002E, 0x002E, 0x002E])) (Inr (Str
           [0xD30C, 0xC0DD, 0xC0C1, 0xD488, 0x0020, 0xACC4, 0xC0B0])))]]"

definition haskell_v_param_grid :: "haskell \<Rightarrow> view" where
  "haskell_v_param_grid st =
     el ''div'' [atx ''class'' (js ''param-grid'')] [
      el ''div'' [atx ''class'' (js ''param-row'')] [
       el ''label'' [atx ''for'' (js ''hs-s'')] [tx (js ''Spot (S)'')],
       el ''input'' [atx ''id'' (js ''hs-s''), atx ''type'' (js ''range''), atx ''min'' (js ''50''), atx ''max'' (js ''200''), atx
           ''step'' (js ''5''), aval ''value'' (Inr (Num (hs_S st)))] [],
       el ''span'' [atx ''class'' (js ''param-val'')] [ex (Inr (Num (hs_S st)))]],
      el ''div'' [atx ''class'' (js ''param-row'')] [
       el ''label'' [atx ''for'' (js ''hs-k'')] [tx (js ''Strike (K)'')],
       el ''input'' [atx ''id'' (js ''hs-k''), atx ''type'' (js ''range''), atx ''min'' (js ''50''), atx ''max'' (js ''200''), atx
           ''step'' (js ''5''), aval ''value'' (Inr (Num (hs_K st)))] [],
       el ''span'' [atx ''class'' (js ''param-val'')] [ex (Inr (Num (hs_K st)))]],
      el ''div'' [atx ''class'' (js ''param-row'')] [
       el ''label'' [atx ''for'' (js ''hs-sigma'')] [tx [0xC5F0, 0xBCC0, 0xB3D9, 0xC131, 0x0020, 0x03C3]],
       el ''input'' [atx ''id'' (js ''hs-sigma''), atx ''type'' (js ''range''), atx ''min'' (js ''0.05''), atx ''max'' (js
           ''0.80''), atx ''step'' (js ''0.05''), aval ''value'' (Inr (Num (hs_Sigma st)))] [],
       el ''span'' [atx ''class'' (js ''param-val'')] [ex (fixed 0 (js_times (Inr (Num (hs_Sigma st))) (Inr (jsn 100)))), tx (js
           ''%'')]],
      el ''div'' [atx ''class'' (js ''param-row'')] [
       el ''label'' [atx ''for'' (js ''hs-t'')] [tx [0x0054, 0x0020, 0x0028, 0xB144, 0x0029]],
       el ''input'' [atx ''id'' (js ''hs-t''), atx ''type'' (js ''range''), atx ''min'' (js ''0.1''), atx ''max'' (js ''5''), atx
           ''step'' (js ''0.1''), aval ''value'' (Inr (Num (hs_T st)))] [],
       el ''span'' [atx ''class'' (js ''param-val'')] [ex (fixed 1 (Inr (Num (hs_T st)))), tx (js ''y'')]],
      el ''div'' [atx ''class'' (js ''param-row'')] [
       el ''label'' [atx ''for'' (js ''hs-r'')] [tx (js ''r (%)'')],
       el ''input'' [atx ''id'' (js ''hs-r''), atx ''type'' (js ''range''), atx ''min'' (js ''0.01''), atx ''max'' (js ''0.15''),
           atx ''step'' (js ''0.01''), aval ''value'' (Inr (Num (hs_R st)))] [],
       el ''span'' [atx ''class'' (js ''param-val'')] [ex (fixed 0 (js_times (Inr (Num (hs_R st))) (Inr (jsn 100)))), tx (js
           ''%'')]],
      el ''div'' [atx ''class'' (js ''param-row'')] [
       el ''label'' [atx ''for'' (js ''hs-mcn'')] [tx (js ''MC Paths'')],
       el ''input'' [atx ''id'' (js ''hs-mcn''), atx ''type'' (js ''range''), atx ''min'' (js ''100''), atx ''max'' (js ''2000''),
           atx ''step'' (js ''100''), aval ''value'' (Inr (Num (mcN st)))] [],
       el ''span'' [atx ''class'' (js ''param-val'')] [ex (Inr (Num (mcN st)))]]]"

definition haskell_v_haskellData :: "haskell \<Rightarrow> view" where
  "haskell_v_haskellData st =
     ifv (Inr (haskellData st)) [
      ifv (mem (Inr (haskellData st)) ''error'') [
       el ''div'' [atx ''class'' (js ''empty-box'')] [el ''p'' [atx ''style'' (js ''color:#f87171'')] [ex (mem (Inr (haskellData
           st)) ''error'')]]]
      [
       el ''div'' [atx ''class'' (js ''julia-grid'')] [
        el ''div'' [atx ''class'' (js ''julia-card haskell-card'')] [
         el ''span'' [atx ''class'' (js ''jlabel'')] [tx (js ''Call Price'')],
         el ''span'' [atx ''class'' (js ''jval'')] [ex (chain (mem (Inr (haskellData st)) ''call_price'') (\<lambda>x. (fixed 4
             x)))]],
        el ''div'' [atx ''class'' (js ''julia-card haskell-card'')] [
         el ''span'' [atx ''class'' (js ''jlabel'')] [tx (js ''Put Price'')],
         el ''span'' [atx ''class'' (js ''jval'')] [ex (chain (mem (Inr (haskellData st)) ''put_price'') (\<lambda>x2. (fixed 4
             x2)))]],
        el ''div'' [atx ''class'' (js ''julia-card haskell-card'')] [
         el ''span'' [atx ''class'' (js ''jlabel'')] [tx (js ''Delta / Gamma'')],
         el ''span'' [atx ''class'' (js ''jval'')] [
          ex (chain (mem (Inr (haskellData st)) ''delta'') (\<lambda>x3. (fixed 4 x3))),
          tx (js '' / ''),
          ex (chain (mem (Inr (haskellData st)) ''gamma'') (\<lambda>x4. (fixed 4 x4)))]],
        el ''div'' [atx ''class'' (js ''julia-card haskell-card'')] [
         el ''span'' [atx ''class'' (js ''jlabel'')] [tx (js ''Vega / Theta'')],
         el ''span'' [atx ''class'' (js ''jval'')] [
          ex (chain (mem (Inr (haskellData st)) ''vega'') (\<lambda>x5. (fixed 4 x5))),
          tx (js '' / ''),
          ex (chain (mem (Inr (haskellData st)) ''theta_daily'') (\<lambda>x6. (fixed 4 x6)))]],
        el ''div'' [atx ''class'' (js ''julia-card haskell-card'')] [
         el ''span'' [atx ''class'' (js ''jlabel'')] [tx (js ''MC Ann. Return'')],
         el ''span'' [atx ''class'' (js ''jval'')] [
          ex (fixed 2 (js_times (js_default (mem (Inr (haskellData st)) ''mc_annualized_return'') (Inr (jsn 0))) (Inr (jsn
              100)))),
          tx (js ''%'')]],
        el ''div'' [atx ''class'' (js ''julia-card haskell-card'')] [
         el ''span'' [atx ''class'' (js ''jlabel'')] [tx (js ''MC VaR 95%'')],
         el ''span'' [atx ''class'' (js ''jval'')] [
          ex (fixed 2 (js_times (js_default (mem (Inr (haskellData st)) ''mc_var95'') (Inr (jsn 0))) (Inr (jsn 100)))),
          tx (js ''%'')]]],
       ifv (mem (Inr (haskellData st)) ''stream_prices'') [
        el ''div'' [atx ''class'' (js ''stream-box'')] [
         el ''p'' [atx ''class'' (js ''stream-label'')] [
          tx ([0x221E, 0x0020, 0xBB34, 0xD55C, 0x0020, 0xB808, 0xC774, 0xC9C0] @ js '' GBM '' @ [0xC2A4, 0xD2B8, 0xB9BC, 0x0020,
              0x2014, 0x0020]),
          el ''code'' [] [tx (js ''iterate/scanl/zipWith'')],
          tx [0x0020, 0x2014, 0x0020],
          ex (mem (Inr (haskellData st)) ''stream_n''),
          tx [0xD2F1, 0x0020, 0xAD6C, 0xCCB4, 0xD654]],
         el ''div'' [atx ''class'' (js ''julia-grid'')] [
          el ''div'' [atx ''class'' (js ''julia-card haskell-card'')] [
           el ''span'' [atx ''class'' (js ''jlabel'')] [tx (js ''Final Price'')],
           el ''span'' [atx ''class'' (js ''jval'')] [ex (chain (mem (Inr (haskellData st)) ''stream_final'') (\<lambda>x7. (fixed
               2 x7)))]],
          el ''div'' [atx ''class'' (js ''julia-card haskell-card'')] [
           el ''span'' [atx ''class'' (js ''jlabel'')] [tx (js ''Sharpe (stream)'')],
           el ''span'' [atx ''class'' (js ''jval'')] [ex (chain (mem (Inr (haskellData st)) ''stream_sharpe'') (\<lambda>x8.
               (fixed 3 x8)))]],
          el ''div'' [atx ''class'' (js ''julia-card haskell-card'')] [
           el ''span'' [atx ''class'' (js ''jlabel'')] [tx (js ''Max Drawdown'')],
           el ''span'' [atx ''class'' (js ''jval'')] [
            ex (fixed 2 (js_times (js_default (mem (Inr (haskellData st)) ''stream_mdd'') (Inr (jsn 0))) (Inr (jsn 100)))),
            tx (js ''%'')]],
          el ''div'' [atx ''class'' (js ''julia-card haskell-card'')] [
           el ''span'' [atx ''class'' (js ''jlabel'')] [tx (js ''EWMA Vol (last)'')],
           el ''span'' [atx ''class'' (js ''jval'')] [
            ex (fixed 3 (js_times (js_default (chain (mem (Inr (haskellData st)) ''stream_ewma_vol'') (\<lambda>x9. (last_of x9)))
                (Inr (jsn 0))) (Inr (jsn 100)))),
            tx (js ''%'')]]],
         el ''p'' [atx ''class'' (js ''stream-prices'')] [
          ex (chain (mem (Inr (haskellData st)) ''stream_prices'') (\<lambda>x10. (join_with [0x0020, 0x2192, 0x0020] (map_each
              (\<lambda>p. (fixed 2 (Inr p))) (slice_of 0 8 x10))))),
          tx [0x0020, 0x2026]]]]
       []]]
     [
      el ''div'' [atx ''class'' (js ''empty-box'')] [
       el ''p'' [] [
        tx ([0xBC84, 0xD2BC, 0xC744, 0x0020, 0xB20C, 0xB7EC] @ js '' Haskell '' @ [0xC21C, 0xC218, 0x0020, 0xD568, 0xC218, 0xD615]
            @ js '' Black-Scholes Greeks'' @ [0xC640] @ js '' GBM Monte Carlo '' @ [0xC2DC, 0xBBAC, 0xB808, 0xC774, 0xC158,
            0xC744, 0x0020, 0xC2E4, 0xD589, 0xD558, 0xC138, 0xC694] @ js ''. (Haskell '' @ [0xC11C, 0xBC84] @ js '' :8006 '' @
            [0xD544, 0xC694, 0x0029])]]]"

definition haskell_view :: "haskell \<Rightarrow> view" where
  "haskell_view st = cat
     [
      el ''section'' [atx ''class'' (js ''panel'')] [haskell_v_panel_header st, haskell_v_param_grid st, haskell_v_haskellData
          st]]"

section \<open>NimPanel\<close>

definition nim_v_panel_header :: "nim \<Rightarrow> view" where
  "nim_v_panel_header st =
     el ''div'' [atx ''class'' (js ''panel-header'')] [
      el ''div'' [] [
       el ''h2'' [] [tx ([0xD83D, 0xDC8E] @ js '' Nim (Time-series Analytics)'')],
       el ''p'' [atx ''class'' (js ''subtitle'')] [
        tx (js ''Nim 2.2.8 '' @ [0x00B7] @ js '' Python '' @ [0xBB38, 0xBC95] @ js '' + C '' @ [0xC18D, 0xB3C4, 0x0020, 0x00B7,
            0x0020, 0xC2DC, 0xACC4, 0xC5F4, 0x0020, 0xAE30, 0xC220, 0xD1B5, 0xACC4, 0x0020, 0x002B, 0x0020, 0xBAA8, 0xBA58,
            0xD140, 0x0020, 0xC9C0, 0xD45C] @ js '' (:8005)'')]],
      el ''div'' [atx ''class'' (js ''nim-btn-group'')] [
       el ''button'' [atx ''class'' (js ''nim-btn''), atx ''onclick'' (js ''runNim''), aflag ''disabled'' (Inr (Bool (nimLoading
           st)))] [
        ex (js_if (Inr (Bool (nimLoading st))) (Inr (Str [0xBD84, 0xC11D, 0x0020, 0xC911, 0x002E, 0x002E, 0x002E])) (Inr (Str
            [0xC2DC, 0xACC4, 0xC5F4, 0x0020, 0xBD84, 0xC11D])))],
       el ''button'' [atx ''class'' (js ''nim-btn nim-garch-btn''), atx ''onclick'' (js ''runNimGarch''), aflag ''disabled'' (Inr
           (Bool (nimGarchLoading st)))] [
        ex (js_if (Inr (Bool (nimGarchLoading st))) (Inr (Str [0xCD94, 0xC815, 0x0020, 0xC911, 0x002E, 0x002E, 0x002E])) (Inr (Str
            (js ''GARCH '' @ [0xC2DC, 0xBBAC]))))],
       el ''button'' [atx ''class'' (js ''nim-btn nim-forecast-btn''), atx ''onclick'' (js ''runNimForecast''), aflag ''disabled''
           (Inr (Bool (nimForecastLoading st)))] [
        ex (js_if (Inr (Bool (nimForecastLoading st))) (Inr (Str [0xC608, 0xCE21, 0x0020, 0xC911, 0x002E, 0x002E, 0x002E])) (Inr
            (Str [0x0041, 0x0052, 0x0020, 0xC608, 0xCE21])))]]]"

definition nim_v_nimData :: "nim \<Rightarrow> view" where
  "nim_v_nimData st =
     ifv (Inr (nimData st)) [
      ifv (mem (Inr (nimData st)) ''error'') [
       el ''div'' [atx ''class'' (js ''empty-box'')] [el ''p'' [atx ''style'' (js ''color:#f87171'')] [ex (mem (Inr (nimData st))
           ''error'')]]]
      [
       el ''div'' [atx ''class'' (js ''julia-grid'')] [
        el ''div'' [atx ''class'' (js ''julia-card nim-card'')] [
         el ''span'' [atx ''class'' (js ''jlabel'')] [tx (js ''Ann. Return'')],
         el ''span'' [atx ''class'' (js ''jval'')] [ex (fixed 2 (js_times (mem (Inr (nimData st)) ''annualized_return'') (Inr (jsn
             100)))), tx (js ''%'')]],
        el ''div'' [atx ''class'' (js ''julia-card nim-card'')] [
         el ''span'' [atx ''class'' (js ''jlabel'')] [tx (js ''Skewness / Kurtosis'')],
         el ''span'' [atx ''class'' (js ''jval'')] [
          ex (chain (mem (Inr (nimData st)) ''skewness'') (\<lambda>x. (fixed 3 x))),
          tx (js '' / ''),
          ex (chain (mem (Inr (nimData st)) ''excess_kurtosis'') (\<lambda>x2. (fixed 3 x2)))]],
        el ''div'' [atx ''class'' (js ''julia-card nim-card'')] [
         el ''span'' [atx ''class'' (js ''jlabel'')] [tx (js ''RSI (14)'')],
         el ''span'' [atx ''class'' (js ''jval'')] [ex (chain (mem (Inr (nimData st)) ''rsi_14'') (\<lambda>x3. (fixed 2 x3)))]],
        el ''div'' [atx ''class'' (js ''julia-card nim-card'')] [
         el ''span'' [atx ''class'' (js ''jlabel'')] [tx (js ''MACD'')],
         el ''span'' [atx ''class'' (js ''jval'')] [ex (chain (mem (Inr (nimData st)) ''macd'') (\<lambda>x4. (fixed 4 x4)))]],
        el ''div'' [atx ''class'' (js ''julia-card nim-card''), atx ''style'' (js ''border-color:#22d3ee'')] [
         el ''span'' [atx ''class'' (js ''jlabel'')] [tx [0xC0AC, 0xC804, 0xACC4, 0xC0B0, 0x0020, 0x03B1, 0x0020, 0xACC4,
             0xC218]],
         el ''span'' [atx ''class'' (js ''jval''), atx ''style'' (js ''color:#22d3ee'')] [ex (js_default (mem (Inr (nimData st))
             ''precomputed_alpha_periods'') (Inr (jsn 199))), tx [0xAC1C]]],
        el ''div'' [atx ''class'' (js ''julia-card nim-card''), atx ''style'' (js ''border-color:#22d3ee'')] [
         el ''span'' [atx ''class'' (js ''jlabel'')] [tx [0xB7F0, 0xD0C0, 0xC784, 0x0020, 0xB098, 0xB217, 0xC148]],
         el ''span'' [atx ''class'' (js ''jval''), atx ''style'' (js ''color:#22d3ee'')] [ex (js_default (mem (Inr (nimData st))
             ''runtime_divisions'') (Inr (jsn 0))), tx [0xD68C]]]]]]
     [
      el ''div'' [atx ''class'' (js ''empty-box'')] [
       el ''p'' [] [
        tx ([0xBC84, 0xD2BC, 0xC744, 0x0020, 0xB20C, 0xB7EC] @ js '' Nim '' @ [0xAE30, 0xC220, 0xD1B5, 0xACC4, 0x0020, 0x002B,
            0x0020, 0xCEF4, 0xD30C, 0xC77C, 0xD0C0, 0xC784] @ js '' EMA '' @ [0xACC4, 0xC218, 0x0020, 0xD14C, 0xC774, 0xBE14,
            0x0020, 0xC815, 0xBCF4, 0xB97C, 0x0020, 0xD655, 0xC778, 0xD558, 0xC138, 0xC694] @ js ''. (Nim '' @ [0xC11C, 0xBC84] @
            js '' :8005 '' @ [0xD544, 0xC694, 0x0029])]]]"

definition nim_v_nimGarch :: "nim \<Rightarrow> view" where
  "nim_v_nimGarch st =
     ifv (js_or (Inr (nimGarch st)) (Inr (Bool (nimGarchLoading st)))) [
      el ''section'' [atx ''class'' (js ''panel nim-extra-section'')] [
       el ''h3'' [atx ''class'' (js ''section-title'')] [
        tx ([0xD83D, 0xDCC8] @ js '' Nim GARCH(1,1) '' @ [0xBCC0, 0xB3D9, 0xC131, 0x0020, 0xC2DC, 0xBBAC, 0xB808, 0xC774,
            0xC158])],
       ifv (Inr (Bool (nimGarchLoading st))) [
        el ''div'' [atx ''class'' (js ''empty-box'')] [el ''p'' [] [tx (js ''GARCH '' @ [0xCD94, 0xC815, 0x0020, 0xC911,
            0x2026])]]]
       [
        ifv (chain (Inr (nimGarch st)) (\<lambda>x. (mem x ''error''))) [
         el ''div'' [atx ''class'' (js ''error-box'')] [el ''p'' [] [tx [0x26A0, 0xFE0F, 0x0020], ex (mem (Inr (nimGarch st))
             ''error'')]]]
        [
         ifv (Inr (nimGarch st)) [
          el ''div'' [atx ''class'' (js ''julia-grid'')] [
           el ''div'' [atx ''class'' (js ''julia-card nim-card'')] [
            el ''span'' [atx ''class'' (js ''jlabel'')] [tx [0xC9C0, 0xC18D, 0xC131, 0x0020, 0x0028, 0x03B1, 0x002B, 0x03B2,
                0x0029]],
            el ''span'' [atx ''class'' (js ''jval'')] [
             ex (js_default (chain (mem (Inr (nimGarch st)) ''persistence'') (\<lambda>x2. (fixed 4 x2))) (Inr (Str (js
                 ''N/A''))))]],
           el ''div'' [atx ''class'' (js ''julia-card nim-card'')] [
            el ''span'' [atx ''class'' (js ''jlabel'')] [tx [0xBC18, 0xAC10, 0xAE30, 0x0020, 0x0028, 0xC77C, 0x0029]],
            el ''span'' [atx ''class'' (js ''jval'')] [
             ex (js_default (chain (mem (Inr (nimGarch st)) ''half_life_days'') (\<lambda>x3. (fixed 1 x3))) (Inr (Str (js
                 ''N/A''))))]],
           el ''div'' [atx ''class'' (js ''julia-card nim-card'')] [
            el ''span'' [atx ''class'' (js ''jlabel'')] [tx [0xD604, 0xC7AC, 0x0020, 0xC5F0, 0xC728, 0x0020, 0xBCC0, 0xB3D9,
                0xC131]],
            el ''span'' [atx ''class'' (js ''jval'')] [
             ex (js_if (js_nonnull (mem (Inr (nimGarch st)) ''current_vol_ann'')) (js_plus (fixed 2 (js_times (mem (Inr (nimGarch
                 st)) ''current_vol_ann'') (Inr (jsn 100)))) (Inr (Str (js ''%'')))) (Inr (Str (js ''N/A''))))]]],
          ifv (chain (mem (Inr (nimGarch st)) ''last_10_vols'') (\<lambda>x4. (mem x4 ''length''))) [
           el ''div'' [atx ''class'' (js ''vol-strip'')] [
            el ''span'' [atx ''class'' (js ''vstrip-label'')] [tx [0xCD5C, 0xADFC, 0x0020, 0x0031, 0x0030, 0xC77C, 0x0020, 0xBCC0,
                0xB3D9, 0xC131, 0x003A]],
            each (mem (Inr (nimGarch st)) ''last_10_vols'') (\<lambda>_ v. [el ''span'' [atx ''class'' (js ''vstrip-cell'')] [ex
                (fixed 2 (js_times (Inr v) (Inr (jsn 100)))), tx (js ''%'')]])]]
          []]
         []]]]]
     []"

definition nim_v_nimForecast :: "nim \<Rightarrow> view" where
  "nim_v_nimForecast st =
     ifv (js_or (Inr (nimForecast st)) (Inr (Bool (nimForecastLoading st)))) [
      el ''section'' [atx ''class'' (js ''panel nim-extra-section'')] [
       el ''h3'' [atx ''class'' (js ''section-title'')] [
        tx ([0xD83D, 0xDCCA] @ js '' Nim AR(''),
        ex (js_default (chain (Inr (nimForecast st)) (\<lambda>x. (mem x ''order''))) (Inr (jsn 2))),
        tx (js '') 3-Step '' @ [0xC608, 0xCE21])],
       ifv (Inr (Bool (nimForecastLoading st))) [
        el ''div'' [atx ''class'' (js ''empty-box'')] [el ''p'' [] [tx [0x0041, 0x0052, 0x0020, 0xC608, 0xCE21, 0x0020, 0xC911,
            0x2026]]]]
       [
        ifv (chain (Inr (nimForecast st)) (\<lambda>x2. (mem x2 ''error''))) [
         el ''div'' [atx ''class'' (js ''error-box'')] [el ''p'' [] [tx [0x26A0, 0xFE0F, 0x0020], ex (mem (Inr (nimForecast st))
             ''error'')]]]
        [
         ifv (Inr (nimForecast st)) [
          el ''div'' [atx ''class'' (js ''julia-grid'')] [
           each (js_default (mem (Inr (nimForecast st)) ''forecasts'') (Inr (Arr []))) (\<lambda>i_n fc. [
              el ''div'' [atx ''class'' (js ''julia-card nim-card'')] [
               el ''span'' [atx ''class'' (js ''jlabel'')] [tx [0xC608, 0xCE21, 0x0020, 0x0074, 0x002B], ex (js_plus (Inr (jsn
                   i_n)) (Inr (jsn 1)))],
               el ''span'' [atx ''class'' (js ''jval'')] [ex (fixed 4 (js_times (Inr fc) (Inr (jsn 100)))), tx (js ''%'')]]]),
           ifv (mem (Inr (nimForecast st)) ''coefficients'') [
            el ''div'' [atx ''class'' (js ''julia-card nim-card''), atx ''style'' (js ''border-color:#22d3ee'')] [
             el ''span'' [atx ''class'' (js ''jlabel'')] [tx [0x0041, 0x0052, 0x0020, 0xACC4, 0xC218, 0x0020, 0x0028, 0x03C6,
                 0x2081, 0x0029]],
             el ''span'' [atx ''class'' (js ''jval''), atx ''style'' (js ''color:#22d3ee'')] [
              ex (js_default (chain (item (mem (Inr (nimForecast st)) ''coefficients'') 0) (\<lambda>x3. (fixed 4 x3))) (Inr (Str
                  (js ''N/A''))))]]]
           []]]
         []]]]]
     []"

definition nim_view :: "nim \<Rightarrow> view" where
  "nim_view st = cat
     [
      el ''section'' [atx ''class'' (js ''panel'')] [nim_v_panel_header st, nim_v_nimData st],
      nim_v_nimGarch st,
      nim_v_nimForecast st]"

section \<open>OCamlPanel\<close>

definition ocaml_v_panel_header :: "ocaml \<Rightarrow> view" where
  "ocaml_v_panel_header st =
     el ''div'' [atx ''class'' (js ''panel-header'')] [
      el ''div'' [] [
       el ''h2'' [] [tx ([0xD83D, 0xDC2A] @ js '' OCaml (Risk Rule Engine)'')],
       el ''p'' [atx ''class'' (js ''subtitle'')] [
        tx (js ''OCaml 4.13 '' @ [0x00B7, 0x0020, 0xADDC, 0xCE59, 0x0020, 0xAE30, 0xBC18, 0x0020, 0xB9AC, 0xC2A4, 0xD06C, 0x0020,
            0xD310, 0xC815, 0x0020, 0x00B7, 0x0020, 0xC2E0, 0xC6A9, 0x0020, 0xC2A4, 0xCF54, 0xC5B4, 0xB9C1] @ js '' (:8004)'')]],
      el ''div'' [atx ''class'' (js ''ocaml-btn-group'')] [
       el ''button'' [atx ''class'' (js ''ocaml-btn''), atx ''onclick'' (js ''runOcamlRisk''), aflag ''disabled'' (Inr (Bool
           (ocamlLoading st)))] [
        ex (js_if (Inr (Bool (ocamlLoading st))) (Inr (Str [0xBD84, 0xC11D, 0x0020, 0xC911, 0x002E, 0x002E, 0x002E])) (Inr (Str
            [0xB9AC, 0xC2A4, 0xD06C, 0x0020, 0xBD84, 0xC11D])))],
       el ''button'' [atx ''class'' (js ''ocaml-btn ocaml-port-btn''), atx ''onclick'' (js ''runPortfolio''), aflag ''disabled''
           (Inr (Bool (oc_portfolioLoading st)))] [
        ex (js_if (Inr (Bool (oc_portfolioLoading st))) (Inr (Str [0xBD84, 0xC11D, 0x0020, 0xC911, 0x002E, 0x002E, 0x002E])) (Inr
            (Str [0xD3EC, 0xD2B8, 0xD3F4, 0xB9AC, 0xC624])))]]]"

definition ocaml_v_ocamlRisk :: "ocaml \<Rightarrow> view" where
  "ocaml_v_ocamlRisk st =
     ifv (Inr (ocamlRisk st)) [
      ifv (mem (Inr (ocamlRisk st)) ''error'') [
       el ''div'' [atx ''class'' (js ''empty-box'')] [el ''p'' [atx ''style'' (js ''color:#f87171'')] [ex (mem (Inr (ocamlRisk
           st)) ''error'')]]]
      [
       el ''div'' [atx ''class'' (js ''julia-grid'')] [
        el ''div'' [atx ''class'' (js ''julia-card ocaml-card'')] [
         el ''span'' [atx ''class'' (js ''jlabel'')] [tx (js ''Risk Level'')],
         el ''span'' [amix ''class'' [Inr (Str (js ''jval risk-'')), (chain (mem (Inr (ocamlRisk st)) ''level'') (\<lambda>x.
             (str_method toLowerCase x)))]] [ex (mem (Inr (ocamlRisk st)) ''level'')]],
        el ''div'' [atx ''class'' (js ''julia-card ocaml-card'')] [
         el ''span'' [atx ''class'' (js ''jlabel'')] [tx (js ''Risk Score'')],
         el ''span'' [atx ''class'' (js ''jval'')] [ex (mem (Inr (ocamlRisk st)) ''risk_score''), tx (js '' / 100'')]],
        el ''div'' [atx ''class'' (js ''julia-card ocaml-card'')] [
         el ''span'' [atx ''class'' (js ''jlabel'')] [tx (js ''Credit Score'')],
         el ''span'' [atx ''class'' (js ''jval'')] [ex (mem (Inr (ocamlRisk st)) ''credit_score_model'')]],
        el ''div'' [atx ''class'' (js ''julia-card ocaml-card'')] [
         el ''span'' [atx ''class'' (js ''jlabel'')] [tx (js ''Credit Grade'')],
         el ''span'' [atx ''class'' (js ''jval'')] [ex (mem (Inr (ocamlRisk st)) ''credit_grade'')]],
        el ''div'' [atx ''class'' (js ''julia-card ocaml-card'')] [
         el ''span'' [atx ''class'' (js ''jlabel'')] [tx (js ''Debt Ratio'')],
         el ''span'' [atx ''class'' (js ''jval'')] [ex (fixed 1 (js_times (mem (Inr (ocamlRisk st)) ''debt_ratio'') (Inr (jsn
             100)))), tx (js ''%'')]],
        el ''div'' [atx ''class'' (js ''julia-card ocaml-card'')] [
         el ''span'' [atx ''class'' (js ''jlabel'')] [tx (js ''Volatility'')],
         el ''span'' [atx ''class'' (js ''jval'')] [ex (fixed 1 (js_times (mem (Inr (ocamlRisk st)) ''volatility'') (Inr (jsn
             100)))), tx (js ''%'')]]]]]
     [
      el ''div'' [atx ''class'' (js ''empty-box'')] [
       el ''p'' [] [
        tx ([0xBC84, 0xD2BC, 0xC744, 0x0020, 0xB20C, 0xB7EC] @ js '' OCaml '' @ [0xADDC, 0xCE59, 0x0020, 0xAE30, 0xBC18, 0x0020,
            0xB9AC, 0xC2A4, 0xD06C, 0x0020, 0xD310, 0xC815, 0x0020, 0x00B7, 0x0020, 0xC2E0, 0xC6A9, 0x0020, 0xC2A4, 0xCF54,
            0xC5B4, 0xB9C1, 0xC744, 0x0020, 0xC2E4, 0xD589, 0xD558, 0xC138, 0xC694] @ js ''. (OCaml '' @ [0xC11C, 0xBC84] @ js
            '' :8004 '' @ [0xD544, 0xC694, 0x0029])]]]"

definition ocaml_v_score_section :: "ocaml \<Rightarrow> view" where
  "ocaml_v_score_section st =
     el ''div'' [atx ''class'' (js ''score-section'')] [
      el ''p'' [atx ''class'' (js ''score-label'')] [tx [0xC2E0, 0xC6A9, 0x0020, 0xC2A4, 0xCF54, 0xC5B4, 0x0020, 0xC2E4, 0xC2DC,
          0xAC04, 0x0020, 0xC0B0, 0xC815]],
      el ''div'' [atx ''class'' (js ''score-form'')] [
       el ''label'' [atx ''class'' (js ''sf-field'')] [
        el ''span'' [] [tx [0xC5F0, 0xC18C, 0xB4DD, 0x0020, 0x0028, 0xC6D0, 0x0029]],
        el ''input'' [atx ''class'' (js ''sf-input''), atx ''type'' (js ''number''), aval ''value'' (Inr (income st)), atx ''min''
            (js ''100000''), atx ''step'' (js ''100000'')] []],
       el ''label'' [atx ''class'' (js ''sf-field'')] [
        el ''span'' [] [tx [0xBD80, 0xCCB4, 0x0020, 0x0028, 0xC6D0, 0x0029]],
        el ''input'' [atx ''class'' (js ''sf-input''), atx ''type'' (js ''number''), aval ''value'' (Inr (debt st)), atx ''min''
            (js ''0''), atx ''step'' (js ''100000'')] []],
       el ''label'' [atx ''class'' (js ''sf-field'')] [
        el ''span'' [] [tx [0xC2E0, 0xC6A9, 0xC774, 0xB825, 0x0020, 0x0028, 0xB144, 0x0029]],
        el ''input'' [atx ''class'' (js ''sf-input''), atx ''type'' (js ''number''), aval ''value'' (Inr (historyYears st)), atx
            ''min'' (js ''0''), atx ''max'' (js ''30'')] []],
       el ''label'' [atx ''class'' (js ''sf-field'')] [
        el ''span'' [] [tx [0xC5F0, 0xCCB4, 0x0020, 0xD69F, 0xC218]],
        el ''input'' [atx ''class'' (js ''sf-input''), atx ''type'' (js ''number''), aval ''value'' (Inr (missedPayments st)), atx
            ''min'' (js ''0''), atx ''max'' (js ''20'')] []],
       el ''button'' [atx ''class'' (js ''ocaml-btn score-btn''), atx ''onclick'' (js ''fetchScore''), aflag ''disabled'' (Inr
           (Bool (scoreLoading st)))] [
        ex (js_if (Inr (Bool (scoreLoading st))) (Inr (Str [0xC0B0, 0xC815, 0x0020, 0xC911, 0x002E, 0x002E, 0x002E])) (Inr (Str
            [0xC2A4, 0xCF54, 0xC5B4, 0x0020, 0xC0B0, 0xC815])))]],
      ifv (Inr (scoreData st)) [
       ifv (mem (Inr (scoreData st)) ''error'') [el ''p'' [atx ''style'' (js ''color:#f87171'')] [ex (mem (Inr (scoreData st))
           ''error'')]]
       [
        el ''div'' [atx ''class'' (js ''julia-grid''), atx ''style'' (js ''margin-top:0.5rem'')] [
         el ''div'' [atx ''class'' (js ''julia-card ocaml-card''), atx ''style'' (js ''border-color:#60a5fa'')] [
          el ''span'' [atx ''class'' (js ''jlabel'')] [tx (js ''Credit Score'')],
          el ''span'' [atx ''class'' (js ''jval''), atx ''style'' (js ''color:#60a5fa'')] [ex (mem (Inr (scoreData st))
              ''score'')]],
         el ''div'' [atx ''class'' (js ''julia-card ocaml-card''), atx ''style'' (js ''border-color:#60a5fa'')] [
          el ''span'' [atx ''class'' (js ''jlabel'')] [tx (js ''Grade'')],
          el ''span'' [atx ''class'' (js ''jval''), atx ''style'' (js ''color:#60a5fa'')] [ex (mem (Inr (scoreData st))
              ''grade'')]],
         el ''div'' [atx ''class'' (js ''julia-card ocaml-card'')] [
          el ''span'' [atx ''class'' (js ''jlabel'')] [tx [0xC81C, 0xAC70, 0x0020, 0xD655, 0xB960]],
          el ''span'' [atx ''class'' (js ''jval'')] [
           ex (fixed 1 (js_times (js_default (mem (Inr (scoreData st)) ''prob_good'') (Inr (jsn 0))) (Inr (jsn 100)))),
           tx (js ''%'')]],
         el ''div'' [atx ''class'' (js ''julia-card ocaml-card'')] [
          el ''span'' [atx ''class'' (js ''jlabel'')] [tx (js ''DTI'')],
          el ''span'' [atx ''class'' (js ''jval'')] [ex (fixed 1 (js_times (js_default (mem (Inr (scoreData st)) ''dti'') (Inr
              (jsn 0))) (Inr (jsn 100)))), tx (js ''%'')]]]]]
      []]"

definition ocaml_v_portfolioData :: "ocaml \<Rightarrow> view" where
  "ocaml_v_portfolioData st =
     ifv (js_or (Inr (oc_portfolioData st)) (Inr (Bool (oc_portfolioLoading st)))) [
      el ''section'' [atx ''class'' (js ''panel ocaml-port-section'')] [
       el ''h3'' [atx ''class'' (js ''section-title'')] [
        tx ([0xD83D, 0xDCBC] @ js '' OCaml '' @ [0xB2E4, 0xC790, 0xC0B0, 0x0020, 0xD3EC, 0xD2B8, 0xD3F4, 0xB9AC, 0xC624] @ js
            '' VaR'')],
       ifv (Inr (Bool (oc_portfolioLoading st))) [
        el ''div'' [atx ''class'' (js ''empty-box'')] [el ''p'' [] [tx [0xD3EC, 0xD2B8, 0xD3F4, 0xB9AC, 0xC624, 0x0020, 0xBD84,
            0xC11D, 0x0020, 0xC911, 0x2026]]]]
       [
        ifv (chain (Inr (oc_portfolioData st)) (\<lambda>x. (mem x ''error''))) [
         el ''div'' [atx ''class'' (js ''error-box'')] [el ''p'' [] [tx [0x26A0, 0xFE0F, 0x0020], ex (mem (Inr (oc_portfolioData
             st)) ''error'')]]]
        [
         ifv (Inr (oc_portfolioData st)) [
          el ''div'' [atx ''class'' (js ''julia-grid'')] [
           el ''div'' [atx ''class'' (js ''julia-card ocaml-card'')] [
            el ''span'' [atx ''class'' (js ''jlabel'')] [tx [0xC5F0, 0xC728, 0x0020, 0xBCC0, 0xB3D9, 0xC131]],
            el ''span'' [atx ''class'' (js ''jval'')] [
             ex (js_if (js_nonnull (mem (Inr (oc_portfolioData st)) ''ann_vol'')) (js_plus (fixed 2 (js_times (mem (Inr
                 (oc_portfolioData st)) ''ann_vol'') (Inr (jsn 100)))) (Inr (Str (js ''%'')))) (Inr (Str (js ''N/A''))))]],
           el ''div'' [atx ''class'' (js ''julia-card ocaml-card'')] [
            el ''span'' [atx ''class'' (js ''jlabel'')] [tx (js ''VaR 95%'')],
            el ''span'' [atx ''class'' (js ''jval'')] [
             ex (js_if (js_nonnull (mem (Inr (oc_portfolioData st)) ''var_95'')) (js_plus (fixed 3 (js_times (mem (Inr
                 (oc_portfolioData st)) ''var_95'') (Inr (jsn 100)))) (Inr (Str (js ''%'')))) (Inr (Str (js ''N/A''))))]],
           el ''div'' [atx ''class'' (js ''julia-card ocaml-card'')] [
            el ''span'' [atx ''class'' (js ''jlabel'')] [tx (js ''CVaR 95%'')],
            el ''span'' [atx ''class'' (js ''jval'')] [
             ex (js_if (js_nonnull (mem (Inr (oc_portfolioData st)) ''cvar_95'')) (js_plus (fixed 3 (js_times (mem (Inr
                 (oc_portfolioData st)) ''cvar_95'') (Inr (jsn 100)))) (Inr (Str (js ''%'')))) (Inr (Str (js ''N/A''))))]],
           el ''div'' [atx ''class'' (js ''julia-card ocaml-card'')] [
            el ''span'' [atx ''class'' (js ''jlabel'')] [tx ([0xD3EC, 0xD2B8, 0xD3F4, 0xB9AC, 0xC624, 0x0020, 0xC77C, 0xBCC4] @ js
                '' VaR'')],
            el ''span'' [atx ''class'' (js ''jval'')] [
             ex (js_if (js_nonnull (mem (Inr (oc_portfolioData st)) ''port_var'')) (js_plus (fixed 3 (js_times (mem (Inr
                 (oc_portfolioData st)) ''port_var'') (Inr (jsn 100)))) (Inr (Str (js ''%'')))) (Inr (Str (js ''N/A''))))]]],
          ifv (js_and (chain (mem (Inr (oc_portfolioData st)) ''assets'') (\<lambda>x2. (mem x2 ''length''))) (chain (mem (Inr
              (oc_portfolioData st)) ''mcvar_list'') (\<lambda>x3. (mem x3 ''length'')))) [
           el ''div'' [atx ''class'' (js ''mcvar-header'')] [
            tx ([0xD83D, 0xDD0E] @ js '' Marginal VaR ('' @ [0xC790, 0xC0B0, 0xBCC4, 0x0020, 0xD55C, 0xACC4, 0x0020, 0xAE30,
                0xC5EC, 0x0029])],
           el ''div'' [atx ''class'' (js ''mcvar-list'')] [
            each (mem (Inr (oc_portfolioData st)) ''assets'') (\<lambda>i_n asset. [
               el ''div'' [atx ''class'' (js ''mcvar-item'')] [
                el ''span'' [atx ''class'' (js ''mcvar-name'')] [ex (Inr asset)],
                el ''span'' [atx ''class'' (js ''mcvar-val'')] [
                 ex (fixed 4 (js_times (js_default (item (mem (Inr (oc_portfolioData st)) ''mcvar_list'') i_n) (Inr (jsn 0))) (Inr
                     (jsn 100)))),
                 tx (js ''%'')]]])]]
          []]
         []]]]]
     []"

definition ocaml_view :: "ocaml \<Rightarrow> view" where
  "ocaml_view st = cat
     [
      el ''section'' [atx ''class'' (js ''panel'')] [ocaml_v_panel_header st, ocaml_v_ocamlRisk st, ocaml_v_score_section st],
      ocaml_v_portfolioData st]"

section \<open>ScalaPanel\<close>

definition scala_v_panel_header :: "scala \<Rightarrow> view" where
  "scala_v_panel_header st =
     el ''div'' [atx ''class'' (js ''panel-header'')] [
      el ''div'' [] [
       el ''h2'' [] [tx ([0x2622, 0xFE0F] @ js '' Scala (Streaming Aggregator)'')],
       el ''p'' [atx ''class'' (js ''subtitle'')] [
        tx (js ''Scala 3.8.3 + JVM '' @ [0x00B7, 0x0020, 0xD568, 0xC218, 0xD615, 0x0020, 0xC2A4, 0xD2B8, 0xB9BC, 0x0020, 0xC9D1,
            0xACC4, 0x0020, 0x00B7] @ js '' Holt '' @ [0xC774, 0xC911, 0xC9C0, 0xC218, 0xD3C9, 0xD65C] @ js '' (:9003)'')]],
      el ''button'' [atx ''class'' (js ''scala-btn''), atx ''onclick'' (js ''runScala''), aflag ''disabled'' (Inr (Bool
          (scalaLoading st)))] [
       ex (js_if (Inr (Bool (scalaLoading st))) (Inr (Str [0xBD84, 0xC11D, 0x0020, 0xC911, 0x002E, 0x002E, 0x002E])) (Inr (Str
           [0xC2A4, 0xD2B8, 0xB9BC, 0x0020, 0xC9D1, 0xACC4])))]]"

definition scala_v_scalaData :: "scala \<Rightarrow> view" where
  "scala_v_scalaData st =
     ifv (Inr (scalaData st)) [
      ifv (mem (Inr (scalaData st)) ''error'') [
       el ''div'' [atx ''class'' (js ''empty-box'')] [el ''p'' [atx ''style'' (js ''color:#f87171'')] [ex (mem (Inr (scalaData
           st)) ''error'')]]]
      [
       el ''div'' [atx ''class'' (js ''julia-grid'')] [
        el ''div'' [atx ''class'' (js ''julia-card scala-card'')] [
         el ''span'' [atx ''class'' (js ''jlabel'')] [tx (js ''Ann. Return'')],
         el ''span'' [atx ''class'' (js ''jval'')] [ex (fixed 2 (js_times (mem (Inr (scalaData st)) ''annualized_return'') (Inr
             (jsn 100)))), tx (js ''%'')]],
        el ''div'' [atx ''class'' (js ''julia-card scala-card'')] [
         el ''span'' [atx ''class'' (js ''jlabel'')] [tx (js ''Holt Forecast'')],
         el ''span'' [atx ''class'' (js ''jval'')] [ex (fixed 4 (js_times (mem (Inr (scalaData st)) ''forecast_next'') (Inr (jsn
             100)))), tx (js ''%'')]],
        ifv (mem (Inr (scalaData st)) ''stream'') [
         el ''div'' [atx ''class'' (js ''julia-card scala-card''), atx ''style'' (js ''border-color:#a78bfa'')] [
          el ''span'' [atx ''class'' (js ''jlabel'')] [tx (js ''ADT Tick '' @ [0xC774, 0xBCA4, 0xD2B8])],
          el ''span'' [atx ''class'' (js ''jval''), atx ''style'' (js ''color:#a78bfa'')] [ex (mem (mem (Inr (scalaData st))
              ''stream'') ''n_ticks'')]],
         el ''div'' [atx ''class'' (js ''julia-card scala-card''), atx ''style'' (js ''border-color:#a78bfa'')] [
          el ''span'' [atx ''class'' (js ''jlabel'')] [tx (js ''ADT Alert '' @ [0xC774, 0xBCA4, 0xD2B8])],
          el ''span'' [atx ''class'' (js ''jval''), atx ''style'' (js ''color:#f87171'')] [ex (mem (mem (Inr (scalaData st))
              ''stream'') ''n_alerts'')]],
         el ''div'' [atx ''class'' (js ''julia-card scala-card''), atx ''style'' (js ''border-color:#a78bfa'')] [
          el ''span'' [atx ''class'' (js ''jlabel'')] [tx [0xCD5C, 0xB300, 0x0020, 0xC2EC, 0xAC01, 0xB3C4]],
          el ''span'' [atx ''class'' (js ''jval'')] [ex (mem (mem (Inr (scalaData st)) ''stream'') ''max_severity_score'')]],
         el ''div'' [atx ''class'' (js ''julia-card scala-card''), atx ''style'' (js ''border-color:#a78bfa'')] [
          el ''span'' [atx ''class'' (js ''jlabel'')] [tx (js ''LazyList '' @ [0xC2A4, 0xD2B8, 0xB9BC])],
          el ''span'' [atx ''class'' (js ''jval''), atx ''style'' (js ''color:#a78bfa'')] [
           ex (js_if (mem (mem (Inr (scalaData st)) ''stream'') ''lazy_stream'') (Inr (Str ([0x221E] @ js '' unfold''))) (Inr (Str
               (js ''N/A''))))]]]
        []]]]
     [
      el ''div'' [atx ''class'' (js ''empty-box'')] [
       el ''p'' [] [
        tx ([0xBC84, 0xD2BC, 0xC744, 0x0020, 0xB20C, 0xB7EC] @ js '' Scala 3 enum ADT '' @ [0xC774, 0xBCA4, 0xD2B8, 0x0020,
            0xC2A4, 0xD2B8, 0xB9BC] @ js '' (LazyList.unfold + given/using) '' @ [0xC744, 0x0020, 0xC2E4, 0xD589, 0xD558, 0xC138,
            0xC694] @ js ''. (Scala '' @ [0xC11C, 0xBC84] @ js '' :9003 '' @ [0xD544, 0xC694, 0x0029])]]]"

definition scala_view :: "scala \<Rightarrow> view" where
  "scala_view st = cat
     [el ''section'' [atx ''class'' (js ''panel'')] [scala_v_panel_header st, scala_v_scalaData st]]"

section \<open>RustPipelinePanel\<close>

definition rust_v_panel_header :: "locale_format \<Rightarrow> rust \<Rightarrow> view" where
  "rust_v_panel_header fmt st =
     el ''div'' [atx ''class'' (js ''panel-header'')] [
      el ''div'' [] [
       el ''h2'' [] [tx ([0xD83E, 0xDD80] @ js '' Rust Pipeline'')],
       el ''p'' [atx ''class'' (js ''subtitle'')] [
        tx (js ''10,000'' @ [0xAC74, 0x0020, 0xB9AC, 0xC2A4, 0xD06C] @ js '' DB '' @ [0xC801, 0xC7AC, 0x0020, 0x00B7] @ js
            '' VaR(95%) '' @ [0xD1B5, 0xACC4] @ js '' (:8081)'')],
       ifv (Inr (rustStatus st)) [
        el ''p'' [atx ''class'' (js ''db-badge'')] [
         el ''span'' [atx ''class'' (js ''db-dot'')] [],
         tx (js '' DB ''),
         ex (js_default (chain (mem (Inr (rustStatus st)) ''total_risk_logs'') (\<lambda>x. (toLocale fmt '''' x))) (Inr (jsn
             0))),
         tx [0xD589, 0x0020, 0x00B7, 0x0020],
         ex (js_default (mem (Inr (rustStatus st)) ''module'') (mem (Inr (rustStatus st)) ''status''))]]
       []],
      el ''div'' [atx ''class'' (js ''btn-group'')] [
       el ''button'' [atx ''class'' (js ''trigger-btn''), atx ''onclick'' (js ''triggerPipeline''), aflag ''disabled'' (Inr (Bool
           (rs_pipelineLoading st)))] [
        ex (js_if (Inr (Bool (rs_pipelineLoading st))) (Inr (Str ([0x23F3] @ js '' Running...''))) (Inr (Str ([0xD83D, 0xDE80] @
            js '' Bulk Insert''))))],
       el ''button'' [atx ''class'' (js ''summary-btn''), atx ''onclick'' (js ''fetchRiskSummary''), aflag ''disabled'' (Inr (Bool
           (summaryLoading st)))] [
        ex (js_if (Inr (Bool (summaryLoading st))) (Inr (Str [0xC870, 0xD68C, 0x0020, 0xC911, 0x002E, 0x002E, 0x002E])) (Inr (Str
            (js ''VaR '' @ [0xD1B5, 0xACC4]))))]]]"

definition rust_v_pipelineResult :: "locale_format \<Rightarrow> rust \<Rightarrow> view" where
  "rust_v_pipelineResult fmt st =
     ifv (Inr (pipelineResult st)) [
      ifv (js_eq (mem (Inr (pipelineResult st)) ''status'') (Inr (Str (js ''success'')))) [
       el ''div'' [atx ''class'' (js ''pipeline-result success'')] [
        el ''span'' [atx ''class'' (js ''result-icon'')] [tx [0x2705]],
        el ''span'' [] [
         el ''strong'' [] [ex (chain (mem (Inr (pipelineResult st)) ''inserted_rows'') (\<lambda>x. (toLocale fmt '''' x)))],
         tx [0xAC74, 0x0020, 0xC801, 0xC7AC, 0x0020, 0xC644, 0xB8CC]],
        el ''span'' [atx ''class'' (js ''result-time'')] [tx [0x23F1, 0x0020], ex (mem (Inr (pipelineResult st))
            ''elapsed_time_ms''), tx (js ''ms'')]]]
      [
       el ''div'' [atx ''class'' (js ''pipeline-result error-result'')] [
        el ''span'' [atx ''class'' (js ''result-icon'')] [tx [0x274C]],
        el ''span'' [] [ex (js_default (mem (Inr (pipelineResult st)) ''message'') (Inr (Str (js ''Unknown error''))))]]]]
     [
      ifv (js_not (Inr (riskSummary st))) [
       el ''div'' [atx ''class'' (js ''empty-box'')] [
        el ''p'' [] [
         tx (js ''Bulk Insert'' @ [0xB85C, 0x0020, 0xB370, 0xC774, 0xD130, 0xB97C, 0x0020, 0xC801, 0xC7AC, 0xD558, 0xAC70, 0xB098]
             @ js '' VaR '' @ [0xD1B5, 0xACC4, 0xB97C, 0x0020, 0xC870, 0xD68C, 0xD558, 0xC138, 0xC694, 0x002E])]]]
      []]"

definition rust_v_riskSummary :: "locale_format \<Rightarrow> rust \<Rightarrow> view" where
  "rust_v_riskSummary fmt st =
     ifv (Inr (riskSummary st)) [
      ifv (mem (Inr (riskSummary st)) ''error'') [
       el ''div'' [atx ''class'' (js ''pipeline-result error-result'')] [
        el ''span'' [atx ''class'' (js ''result-icon'')] [tx [0x274C]],
        el ''span'' [] [ex (mem (Inr (riskSummary st)) ''error'')]]]
      [
       el ''div'' [atx ''class'' (js ''julia-grid''), atx ''style'' (js ''margin-top:0.75rem'')] [
        el ''div'' [atx ''class'' (js ''julia-card rust-card'')] [
         el ''span'' [atx ''class'' (js ''jlabel'')] [tx [0xCD1D, 0x0020, 0xB808, 0xCF54, 0xB4DC]],
         el ''span'' [atx ''class'' (js ''jval'')] [ex (toLocale fmt '''' (as_Number (mem (Inr (riskSummary st)) ''count'')))]],
        el ''div'' [atx ''class'' (js ''julia-card rust-card'')] [
         el ''span'' [atx ''class'' (js ''jlabel'')] [tx (js ''VaR '' @ [0xD3C9, 0xADE0])],
         el ''span'' [atx ''class'' (js ''jval'')] [ex (chain (mem (Inr (riskSummary st)) ''avg_var'') (\<lambda>x. (fixed 4
             x)))]],
        el ''div'' [atx ''class'' (js ''julia-card rust-card'')] [
         el ''span'' [atx ''class'' (js ''jlabel'')] [tx (js ''VaR '' @ [0xCD5C, 0xC18C])],
         el ''span'' [atx ''class'' (js ''jval'')] [ex (chain (mem (Inr (riskSummary st)) ''min_var'') (\<lambda>x2. (fixed 4
             x2)))]],
        el ''div'' [atx ''class'' (js ''julia-card rust-card'')] [
         el ''span'' [atx ''class'' (js ''jlabel'')] [tx (js ''VaR '' @ [0xCD5C, 0xB300])],
         el ''span'' [atx ''class'' (js ''jval'')] [ex (chain (mem (Inr (riskSummary st)) ''max_var'') (\<lambda>x3. (fixed 4
             x3)))]],
        el ''div'' [atx ''class'' (js ''julia-card rust-card''), atx ''style'' (js ''border-color:#f59e0b'')] [
         el ''span'' [atx ''class'' (js ''jlabel'')] [tx (js ''VaR P95'')],
         el ''span'' [atx ''class'' (js ''jval''), atx ''style'' (js ''color:#f59e0b'')] [ex (chain (mem (Inr (riskSummary st))
             ''p95_var'') (\<lambda>x4. (fixed 4 x4)))]],
        el ''div'' [atx ''class'' (js ''julia-card rust-card''), atx ''style'' (js ''border-color:#34d399'')] [
         el ''span'' [atx ''class'' (js ''jlabel'')] [tx [0xC5D4, 0xC9C4]],
         el ''span'' [atx ''class'' (js ''jval''), atx ''style'' (js ''color:#34d399;font-size:0.7rem'')] [ex (mem (Inr
             (riskSummary st)) ''engine'')]]]]]
     []"

definition rust_view :: "locale_format \<Rightarrow> rust \<Rightarrow> view" where
  "rust_view fmt st = cat
     [
      el ''section'' [atx ''class'' (js ''panel'')] [rust_v_panel_header fmt st, rust_v_pipelineResult fmt st, rust_v_riskSummary
          fmt st]]"

section \<open>RubyPanel\<close>

definition ruby_v_panel_header :: "ruby \<Rightarrow> view" where
  "ruby_v_panel_header st =
     el ''div'' [atx ''class'' (js ''panel-header'')] [
      el ''div'' [] [
       el ''h2'' [] [tx ([0xD83D, 0xDC8E] @ js '' Ruby (Runtime DSL Engine)'')],
       el ''p'' [atx ''class'' (js ''subtitle'')] [
        tx (js ''Ruby 3.0 '' @ [0x00B7] @ js '' instance_eval '' @ [0xB7F0, 0xD0C0, 0xC784, 0x0020, 0xADDC, 0xCE59, 0x0020,
            0xB3D9, 0xC801, 0x0020, 0xC801, 0xC7AC, 0x0020, 0x00B7, 0x0020, 0xC11C, 0xBC84, 0x0020, 0xC7AC, 0xC2DC, 0xC791,
            0x0020, 0xC5C6, 0xC74C] @ js '' (:9004)'')]],
      el ''button'' [atx ''class'' (js ''ruby-btn''), atx ''onclick'' (js ''runRuby''), aflag ''disabled'' (Inr (Bool (rubyLoading
          st)))] [
       ex (js_if (Inr (Bool (rubyLoading st))) (Inr (Str [0xACC4, 0xC0B0, 0x0020, 0xC911, 0x002E, 0x002E, 0x002E])) (Inr (Str (js
           ''DSL '' @ [0xADDC, 0xCE59, 0x0020, 0xD3C9, 0xAC00]))))]]"

definition ruby_v_param_grid :: "ruby \<Rightarrow> view" where
  "ruby_v_param_grid st =
     el ''div'' [atx ''class'' (js ''param-grid'')] [
      el ''div'' [atx ''class'' (js ''param-row'')] [
       el ''label'' [atx ''for'' (js ''rb-debt'')] [tx [0xBD80, 0xCCB4, 0xBE44, 0xC728]],
       el ''input'' [atx ''id'' (js ''rb-debt''), atx ''type'' (js ''range''), atx ''min'' (js ''0.1''), atx ''max'' (js ''1.0''),
           atx ''step'' (js ''0.05''), aval ''value'' (Inr (Num (rb_debtRatio st)))] [],
       el ''span'' [atx ''class'' (js ''param-val'')] [ex (fixed 2 (Inr (Num (rb_debtRatio st))))]],
      el ''div'' [atx ''class'' (js ''param-row'')] [
       el ''label'' [atx ''for'' (js ''rb-ltv'')] [tx (js ''LTV'')],
       el ''input'' [atx ''id'' (js ''rb-ltv''), atx ''type'' (js ''range''), atx ''min'' (js ''0.1''), atx ''max'' (js ''1.5''),
           atx ''step'' (js ''0.05''), aval ''value'' (Inr (Num (ltv st)))] [],
       el ''span'' [atx ''class'' (js ''param-val'')] [ex (fixed 2 (Inr (Num (ltv st))))]],
      el ''div'' [atx ''class'' (js ''param-row'')] [
       el ''label'' [atx ''for'' (js ''rb-def'')] [tx [0xC5F0, 0xCCB4, 0x0020, 0xD69F, 0xC218]],
       el ''input'' [atx ''id'' (js ''rb-def''), atx ''type'' (js ''range''), atx ''min'' (js ''0''), atx ''max'' (js ''5''), atx
           ''step'' (js ''1''), aval ''value'' (Inr (Num (numDefaults st)))] [],
       el ''span'' [atx ''class'' (js ''param-val'')] [ex (Inr (Num (numDefaults st))), tx [0xD68C]]],
      el ''div'' [atx ''class'' (js ''param-row'')] [
       el ''label'' [atx ''for'' (js ''rb-income'')] [tx [0xC5F0, 0xC18C, 0xB4DD, 0x0020, 0x0028, 0xB9CC, 0x0024, 0x0029]],
       el ''input'' [atx ''id'' (js ''rb-income''), atx ''type'' (js ''range''), atx ''min'' (js ''20''), atx ''max'' (js
           ''300''), atx ''step'' (js ''10''), aval ''value'' (Inr (Num (annualIncomeK st)))] [],
       el ''span'' [atx ''class'' (js ''param-val'')] [ex (Inr (Num (annualIncomeK st))), tx (js ''k'')]]]"

definition ruby_v_rubyData :: "ruby \<Rightarrow> view" where
  "ruby_v_rubyData st =
     ifv (Inr (rubyData st)) [
      ifv (mem (Inr (rubyData st)) ''error'') [
       el ''div'' [atx ''class'' (js ''empty-box'')] [el ''p'' [atx ''style'' (js ''color:#f87171'')] [ex (mem (Inr (rubyData st))
           ''error'')]]]
      [
       el ''div'' [atx ''class'' (js ''julia-grid'')] [
        el ''div'' [atx ''class'' (js ''julia-card ruby-card'')] [
         el ''span'' [atx ''class'' (js ''jlabel'')] [tx (js ''Credit Score'')],
         el ''span'' [atx ''class'' (js ''jval'')] [ex (mem (Inr (rubyData st)) ''score'')]],
        el ''div'' [atx ''class'' (js ''julia-card ruby-card'')] [
         el ''span'' [atx ''class'' (js ''jlabel'')] [tx (js ''Grade / PD'')],
         el ''span'' [atx ''class'' (js ''jval'')] [
          ex (mem (Inr (rubyData st)) ''grade''),
          tx (js '' / ''),
          ex (fixed 1 (js_times (js_default (mem (Inr (rubyData st)) ''pd'') (Inr (jsn 0))) (Inr (jsn 100)))),
          tx (js ''%'')]],
        el ''div'' [atx ''class'' (js ''julia-card ruby-card''), atx ''style'' (js ''border-color:#f59e0b'')] [
         el ''span'' [atx ''class'' (js ''jlabel'')] [tx [0xBC1C, 0xD654, 0x0020, 0xADDC, 0xCE59, 0x0020, 0xC218]],
         el ''span'' [atx ''class'' (js ''jval''), atx ''style'' (js ''color:#f59e0b'')] [
          ex (js_default (chain (mem (Inr (rubyData st)) ''evalResult'') (\<lambda>x. (mem x ''fired_count''))) (Inr (jsn 0))),
          tx (js '' / ''),
          ex (js_default (chain (mem (Inr (rubyData st)) ''evalResult'') (\<lambda>x2. (mem x2 ''total_rules''))) (Inr (jsn
              0)))]],
        el ''div'' [atx ''class'' (js ''julia-card ruby-card''), atx ''style'' (js ''border-color:#f59e0b'')] [
         el ''span'' [atx ''class'' (js ''jlabel'')] [tx [0xBC1C, 0xD654, 0xB41C, 0x0020, 0xADDC, 0xCE59]],
         el ''span'' [atx ''class'' (js ''jval'')] [
          ex (js_or (join_with (js '', '') (js_default (chain (mem (Inr (rubyData st)) ''evalResult'') (\<lambda>x3. (mem x3
              ''fired_rules''))) (Inr (Arr [])))) (Inr (Str [0xC5C6, 0xC74C])))]],
        el ''div'' [atx ''class'' (js ''julia-card ruby-card'')] [
         el ''span'' [atx ''class'' (js ''jlabel'')] [tx [0xB4F1, 0xB85D, 0x0020, 0xADDC, 0xCE59, 0x0020, 0xC218]],
         el ''span'' [atx ''class'' (js ''jval'')] [
          ex (js_default (chain (mem (Inr (rubyData st)) ''ruleset'') (\<lambda>x4. (mem x4 ''total_rules''))) (Inr (jsn 0))),
          tx [0xAC1C]]],
        el ''div'' [atx ''class'' (js ''julia-card ruby-card'')] [
         el ''span'' [atx ''class'' (js ''jlabel'')] [tx [0xC778, 0xD130, 0xD504, 0xB9AC, 0xD130]],
         el ''span'' [atx ''class'' (js ''jval'')] [tx (js ''instance_eval'')]]]]]
     [
      el ''div'' [atx ''class'' (js ''empty-box'')] [
       el ''p'' [] [
        tx ([0xBC84, 0xD2BC, 0xC744, 0x0020, 0xB20C, 0xB7EC] @ js '' Ruby instance_eval DSL '' @ [0xB3D9, 0xC801, 0x0020, 0xADDC,
            0xCE59, 0x0020, 0xD3C9, 0xAC00, 0xB97C, 0x0020, 0xC2E4, 0xD589, 0xD558, 0xC138, 0xC694] @ js ''. (Ruby '' @ [0xC11C,
            0xBC84] @ js '' :9004 '' @ [0xD544, 0xC694, 0x0029])]]]"

definition ruby_v_dsl_section :: "ruby \<Rightarrow> view" where
  "ruby_v_dsl_section st =
     el ''div'' [atx ''class'' (js ''dsl-section'')] [
      el ''p'' [atx ''class'' (js ''dsl-label'')] [tx ([0xCEE4, 0xC2A4, 0xD140] @ js '' DSL '' @ [0xB8F0, 0x0020, 0xB3D9, 0xC801,
          0x0020, 0xB85C, 0xB4DC])],
      el ''textarea'' [atx ''class'' (js ''dsl-input''), atx ''rows'' (js ''5''), aval ''value'' (Inr (Str (customRule st))), atx
          ''placeholder'' (js ''rule(:name) do ... end'')] [],
      el ''div'' [atx ''class'' (js ''dsl-row'')] [
       el ''button'' [atx ''class'' (js ''ruby-btn dsl-btn''), atx ''onclick'' (js ''loadCustomRule''), aflag ''disabled'' (Inr
           (Bool (rulesLoading st)))] [
        ex (js_if (Inr (Bool (rulesLoading st))) (Inr (Str [0xB85C, 0xB529, 0x0020, 0xC911, 0x002E, 0x002E, 0x002E])) (Inr (Str
            [0xB8F0, 0x0020, 0xB85C, 0xB4DC])))],
       ifv (Inr (rulesResult st)) [
        ifv (mem (Inr (rulesResult st)) ''loaded'') [
         el ''span'' [atx ''class'' (js ''dsl-result ok'')] [
          tx [0x2705, 0x0020, 0xB85C, 0xB4DC, 0x0020, 0xC644, 0xB8CC, 0x0020, 0x00B7, 0x0020],
          ex (mem (Inr (rulesResult st)) ''rules_before''),
          tx [0xAC1C, 0x0020, 0x2192, 0x0020],
          ex (mem (Inr (rulesResult st)) ''rules_after''),
          tx [0xAC1C]]]
        [
         el ''span'' [atx ''class'' (js ''dsl-result err'')] [
          tx [0x274C, 0x0020],
          ex (js_default (mem (Inr (rulesResult st)) ''error'') (Inr (Str [0xB85C, 0xB4DC, 0x0020, 0xC2E4, 0xD328])))]]]
       []]]"

definition ruby_view :: "ruby \<Rightarrow> view" where
  "ruby_view st = cat
     [
      el ''section'' [atx ''class'' (js ''panel'')] [ruby_v_panel_header st, ruby_v_param_grid st, ruby_v_rubyData st,
          ruby_v_dsl_section st]]"

section \<open>What a failure shows\<close>

lemma crystal_reports: "view_reports (crystal_view fmt) [crystalData, crystalStats] [] (\<lambda>s. \<not> crystalLoading s \<and>
      \<not> statsLoading s) s"
  unfolding view_reports_def list.pred_inject displays_iff
  by (intro impI, elim conjE idle_cases) 
    (simp_all add: view_rules field_value_shown crystal_v_panel_header_def crystal_v_crystalData_def crystal_v_crystalStats_def
      crystal_view_def
    cong: if_cong view_congs split del: if_split)

lemma haskell_reports: "view_reports (haskell_view) [haskellData] [] (\<lambda>s. \<not> haskellLoading s) s"
  unfolding view_reports_def list.pred_inject displays_iff
  by (intro impI, elim conjE idle_cases) 
    (simp_all add: view_rules field_value_shown haskell_v_panel_header_def haskell_v_param_grid_def haskell_v_haskellData_def
      haskell_view_def
    cong: if_cong view_congs split del: if_split)

lemma nim_reports: "view_reports (nim_view) [nimData, nimGarch, nimForecast] [] (\<lambda>s. \<not> nimLoading s \<and> \<not>
      nimGarchLoading s \<and> \<not> nimForecastLoading s) s"
  unfolding view_reports_def list.pred_inject displays_iff
  by (intro impI, elim conjE idle_cases) 
    (simp_all add: view_rules field_value_shown nim_v_panel_header_def nim_v_nimData_def nim_v_nimGarch_def nim_v_nimForecast_def
      nim_view_def
    cong: if_cong view_congs split del: if_split)

lemma ocaml_reports: "view_reports (ocaml_view) [ocamlRisk, scoreData, oc_portfolioData] [income, debt, historyYears, missedPayments]
      (\<lambda>s. \<not> ocamlLoading s \<and> \<not> scoreLoading s \<and> \<not> oc_portfolioLoading s) s"
  unfolding view_reports_def list.pred_inject displays_iff
  by (intro impI, elim conjE idle_cases) 
    (simp_all add: view_rules field_value_shown ocaml_v_panel_header_def ocaml_v_ocamlRisk_def ocaml_v_score_section_def
      ocaml_v_portfolioData_def ocaml_view_def
    cong: if_cong view_congs split del: if_split)

lemma scala_reports: "view_reports (scala_view) [scalaData] [] (\<lambda>s. \<not> scalaLoading s) s"
  unfolding view_reports_def list.pred_inject displays_iff
  by (intro impI, elim conjE idle_cases) 
    (simp_all add: view_rules field_value_shown scala_v_panel_header_def scala_v_scalaData_def scala_view_def
    cong: if_cong view_congs split del: if_split)

lemma rust_reports: "view_reports (rust_view fmt) [riskSummary] [] (\<lambda>s. \<not> rs_pipelineLoading s \<and> \<not>
      summaryLoading s \<and> pipelineResult s = Null \<and> rustStatus s = Null) s"
  unfolding view_reports_def list.pred_inject displays_iff
  by (intro impI, elim conjE idle_cases) 
    (simp_all add: view_rules field_value_shown rust_v_panel_header_def rust_v_pipelineResult_def rust_v_riskSummary_def rust_view_def
    cong: if_cong view_congs split del: if_split)

lemma ruby_reports: "view_reports (ruby_view) [rubyData] [] (\<lambda>s. \<not> rubyLoading s \<and> \<not> rulesLoading s \<and>
      rulesResult s = Null) s"
  unfolding view_reports_def list.pred_inject displays_iff
  by (intro impI, elim conjE idle_cases) 
    (simp_all add: view_rules field_value_shown ruby_v_panel_header_def ruby_v_param_grid_def ruby_v_rubyData_def
      ruby_v_dsl_section_def ruby_view_def
    cong: if_cong view_congs split del: if_split)

text \<open>\<open>DartPanel\<close>: the scenarios are an array, and a failure is an array of one error.\<close>

definition idle_list :: "jsval \<Rightarrow> bool" where
  "idle_list v \<longleftrightarrow> v = Null \<or> (\<exists>m. v = Arr [error_obj m] \<and> m \<noteq> [])"

lemma dart_header: "ok (dart_v_panel_header s)"
  by (simp add: view_rules dart_v_panel_header_def cong: if_cong view_congs split del: if_split)

lemma dart_data_view: "idle (dartData s) \<Longrightarrow> ok (dart_v_dartData s)"
  by (elim idle_cases) (simp_all add: view_rules dart_v_dartData_def cong: if_cong view_congs split del: if_split)

lemma dart_scenario_view: "idle_list (scenarios s) \<Longrightarrow> field_value (bondYears s) \<Longrightarrow> field_value (bondCoupon s) \<Longrightarrow> ok (dart_v_scenario_section s)"
  by (auto simp: idle_list_def view_rules field_value_shown dart_v_scenario_section_def cong: if_cong view_congs split del: if_split)

lemma dart_shows:
  "dartData s = error_obj m \<Longrightarrow> m \<noteq> [] \<Longrightarrow> mentions m (dart_v_dartData s)"
  "scenarios s = Arr [error_obj m] \<Longrightarrow> m \<noteq> [] \<Longrightarrow> mentions m (dart_v_scenario_section s)"
  by (simp_all add: view_rules dart_v_dartData_def dart_v_scenario_section_def cong: if_cong view_congs split del: if_split)

lemma dart_reports:
  assumes "idle (dartData s)" "idle_list (scenarios s)" "field_value (bondYears s)" "field_value (bondCoupon s)"
  shows "ok (dart_view s)"
    and "dartData s = error_obj m \<or> scenarios s = Arr [error_obj m] \<Longrightarrow> m \<noteq> [] \<Longrightarrow> displays m (dart_view s)"
  using assms dart_shows [of s m]
  by (auto simp: view_rules displays_iff dart_view_def dart_header dart_data_view dart_scenario_view)

text \<open>The error in the array, as a variable of its own.\<close>

definition scenario_error :: "dart \<Rightarrow> jsval" where
  "scenario_error s = (case scenarios s of Arr [v] \<Rightarrow> v | _ \<Rightarrow> Null)"

lemma dart_views: "view_reports dart_view [dartData, scenario_error] [bondYears, bondCoupon] (\<lambda>s. idle_list (scenarios s)) s"
  unfolding view_reports_def list.pred_inject
  by (auto simp: dart_reports) (auto simp: idle_list_def scenario_error_def error_obj_not_Null dart_reports)

end
