(* ===== verification/View_Json.thy ===== *)
theory View_Json
  imports Portal_Json View_Base
begin

text \<open>
  The markup of the panels that read the JSON of every answer: for each panel, one definition per part of its
  template and \<open>_view\<close> for the whole.
\<close>

text \<open>\<open>PrologPanel\<close>: \<open>gradeColor\<close> of a value of an answer.  What the two inherited names show is left open as nothing.\<close>

definition grade_color :: "expr \<Rightarrow> expr" where
  "grade_color e = bindr e (\<lambda>v. if \<not> truthy v then Inr (Str (js ''#94a3b8''))
     else case v of Str g \<Rightarrow> Inr (case pr_gradeColor g of Some c \<Rightarrow> Str c | None \<Rightarrow> Undef) | _ \<Rightarrow> Inl TypeError)"

section \<open>ClojureSTMPanel\<close>

definition clojure_v_panel_header :: "clojure \<Rightarrow> view" where
  "clojure_v_panel_header st =
     el ''div'' [atx ''class'' (js ''panel-header'')] [
      el ''div'' [] [
       el ''h2'' [] [tx ([0xD83D, 0xDFE3] @ js '' Clojure 1.10 STM'')],
       el ''p'' [atx ''class'' (js ''subtitle'')] [
        tx (js ''ref + dosync '' @ [0x2014, 0x0020, 0xC18C, 0xD504, 0xD2B8, 0xC6E8, 0xC5B4, 0x0020, 0xD2B8, 0xB79C, 0xC7AD,
            0xC158, 0x0020, 0xBA54, 0xBAA8, 0xB9AC, 0x0020, 0x00B7, 0x0020, 0xC7A0, 0xAE08, 0x0020, 0xC5C6, 0xB294, 0x0020,
            0xC6D0, 0xC790, 0xC801, 0x0020, 0xC774, 0xCCB4] @ js '' (:8009)'')]],
      el ''button'' [atx ''class'' (js ''clj-btn''), atx ''onclick'' (js ''runClojure''), aflag ''disabled'' (Inr (Bool
          (clojureLoading st)))] [
       ex (js_if (Inr (Bool (clojureLoading st))) (Inr (Str [0xD2B8, 0xB79C, 0xC7AD, 0xC158, 0x0020, 0xC911, 0x002E, 0x002E,
           0x002E])) (Inr (Str (js ''STM '' @ [0xAC80, 0xC99D]))))]]"

definition clojure_v_transfer_form :: "clojure \<Rightarrow> view" where
  "clojure_v_transfer_form st =
     el ''div'' [atx ''class'' (js ''transfer-form'')] [
      el ''select'' [aval ''value'' (Inr (Str (fromAcc st))), atx ''class'' (js ''clj-select'')] [each (Inr (Arr (map Str
          ACCOUNTS))) (\<lambda>_ acc. [el ''option'' [aval ''value'' (Inr acc)] [ex (Inr acc)]])],
      el ''span'' [atx ''class'' (js ''arrow'')] [tx [0x2192]],
      el ''select'' [aval ''value'' (Inr (Str (toAcc st))), atx ''class'' (js ''clj-select'')] [each (Inr (Arr (map Str
          ACCOUNTS))) (\<lambda>_ acc. [el ''option'' [aval ''value'' (Inr acc)] [ex (Inr acc)]])],
      el ''input'' [atx ''type'' (js ''number''), aval ''value'' (Inr (amount st)), atx ''min'' (js ''1''), atx ''step'' (js
          ''100''), atx ''class'' (js ''clj-input''), atx ''placeholder'' [0xAE08, 0xC561]] [],
      el ''button'' [atx ''class'' (js ''clj-btn transfer-btn''), atx ''onclick'' (js ''doTransfer''), aflag ''disabled'' (js_or
          (Inr (Bool (transferLoading st))) (js_eq (Inr (Str (fromAcc st))) (Inr (Str (toAcc st)))))] [
       ex (js_if (Inr (Bool (transferLoading st))) (Inr (Str (js ''...''))) (Inr (Str [0xC774, 0xCCB4, 0x0020, 0xC2E4,
           0xD589])))]]"

definition clojure_v_transferRes :: "locale_format \<Rightarrow> clojure \<Rightarrow> view" where
  "clojure_v_transferRes fmt st =
     ifv (Inr (transferRes st)) [
      el ''div'' [atx ''class'' (js ''transfer-result''), aflag ''class:error'' (js_not (js_not (mem (Inr (transferRes st))
          ''error'')))] [
       ifv (mem (Inr (transferRes st)) ''error'') [el ''span'' [atx ''style'' (js ''color:#f87171'')] [ex (mem (Inr (transferRes
           st)) ''error'')]]
       [
        el ''span'' [atx ''class'' (js ''tr-label'')] [ex (mem (Inr (transferRes st)) ''from''), tx [0x0020, 0x2192, 0x0020], ex
            (mem (Inr (transferRes st)) ''to'')],
        el ''span'' [atx ''class'' (js ''tr-amount'')] [tx (js ''$''), ex (toLocale fmt '''' (as_Number (mem (Inr (transferRes
            st)) ''amount'')))],
        el ''span'' [atx ''class'' (js ''tr-sep'')] [tx (js ''|'')],
        el ''span'' [atx ''class'' (js ''tr-label'')] [tx [0xB204, 0xC801, 0x0020, 0xC774, 0xCCB4]],
        el ''span'' [atx ''class'' (js ''tr-amount'')] [ex (mem (Inr (transferRes st)) ''total-transfers'')],
        el ''span'' [atx ''class'' (js ''tr-sep'')] [tx (js ''|'')],
        el ''span'' [atx ''class'' (js ''tr-label'')] [tx [0xD569, 0xACC4]],
        el ''span'' [atx ''class'' (js ''tr-amount'')] [tx (js ''$''), ex (toLocale fmt '''' (as_Number (mem (Inr (transferRes
            st)) ''total-balance'')))]]]]
     []"

definition clojure_v_clojureData :: "locale_format \<Rightarrow> clojure \<Rightarrow> view" where
  "clojure_v_clojureData fmt st =
     ifv (Inr (clojureData st)) [
      ifv (mem (Inr (clojureData st)) ''error'') [
       el ''div'' [atx ''class'' (js ''empty-box'')] [el ''p'' [atx ''style'' (js ''color:#f87171'')] [ex (mem (Inr (clojureData
           st)) ''error'')]]]
      [
       bind_const (mem (Inr (clojureData st)) ''stress'') (\<lambda>s'. [
         el ''div'' [atx ''class'' (js ''julia-grid'')] [
          el ''div'' [atx ''class'' (js ''julia-card clj-card''), amix ''style'' [Inr (Str (js ''border-color:'')), (js_if (chain
              (Inr s') (\<lambda>x. (mem x ''invariant-preserved''))) (Inr (Str (js ''#34d399''))) (Inr (Str (js ''#ef4444''))))]]
              [
           el ''span'' [atx ''class'' (js ''jlabel'')] [tx [0xC794, 0xC561, 0x0020, 0xD569, 0xACC4, 0x0020, 0xBD88, 0xBCC0,
               0xC131]],
           el ''span'' [atx ''class'' (js ''jval''), amix ''style'' [Inr (Str (js ''color:'')), (js_if (chain (Inr s')
               (\<lambda>x2. (mem x2 ''invariant-preserved''))) (Inr (Str (js ''#34d399''))) (Inr (Str (js ''#f87171''))))]] [
            ex (js_if (chain (Inr s') (\<lambda>x3. (mem x3 ''invariant-preserved''))) (Inr (Str [0x2705, 0x0020, 0xBCF4, 0xC874,
                0xB428])) (Inr (Str [0x274C, 0x0020, 0xAE68, 0xC9D0])))]],
          el ''div'' [atx ''class'' (js ''julia-card clj-card'')] [
           el ''span'' [atx ''class'' (js ''jlabel'')] [tx [0xC2DC, 0xB3C4, 0x0020, 0x002F, 0x0020, 0xCEE4, 0xBC0B]],
           el ''span'' [atx ''class'' (js ''jval'')] [
            ex (chain (Inr s') (\<lambda>x4. (mem x4 ''transfers-attempted''))),
            tx (js '' / ''),
            ex (chain (Inr s') (\<lambda>x5. (mem x5 ''transfers-committed'')))]],
          el ''div'' [atx ''class'' (js ''julia-card clj-card'')] [
           el ''span'' [atx ''class'' (js ''jlabel'')] [tx [0xCD5C, 0xC885, 0x0020, 0xD569, 0xACC4]],
           el ''span'' [atx ''class'' (js ''jval'')] [tx (js ''$''), ex (toLocale fmt '''' (as_Number (chain (Inr s')
               (\<lambda>x6. (mem x6 ''final-total-balance'')))))]],
          el ''div'' [atx ''class'' (js ''julia-card clj-card'')] [
           el ''span'' [atx ''class'' (js ''jlabel'')] [tx [0xAE30, 0xB313, 0xAC12]],
           el ''span'' [atx ''class'' (js ''jval'')] [tx (js ''$''), ex (toLocale fmt '''' (as_Number (chain (Inr s')
               (\<lambda>x7. (mem x7 ''expected-total'')))))]]],
         el ''div'' [atx ''class'' (js ''clj-accounts'')] [
          each (entries (js_default (mem (Inr (clojureData st)) ''accounts'') (Inr (Obj [])))) (\<lambda>_ kv. [bind_const (item
              (Inr kv) 0) (\<lambda>id. [bind_const (item (Inr kv) 1) (\<lambda>acc. [
             el ''div'' [atx ''class'' (js ''clj-acc'')] [
              el ''span'' [atx ''class'' (js ''clj-id'')] [ex (Inr id)],
              el ''span'' [atx ''class'' (js ''clj-name'')] [ex (mem (Inr acc) ''name'')],
              el ''span'' [atx ''class'' (js ''clj-bal'')] [
               tx (js ''$''),
               ex (toLocale fmt ''undefined, {minimumFractionDigits: 2, maximumFractionDigits: 2}'' (as_Number (mem (Inr acc)
                   ''balance'')))]]])])])],
         el ''p'' [atx ''class'' (js ''clj-note'')] [ex (chain (Inr s') (\<lambda>x8. (mem x8 ''stm-note'')))]])]]
     [
      el ''div'' [atx ''class'' (js ''empty-box'')] [
       el ''p'' [] [
        tx ([0xBC84, 0xD2BC, 0xC744, 0x0020, 0xB20C, 0xB7EC] @ js '' Clojure STM '' @ [0xD2B8, 0xB79C, 0xC7AD, 0xC158, 0x0020,
            0xBD88, 0xBCC0, 0xC131, 0xC744, 0x0020, 0xAC80, 0xC99D, 0xD558, 0xC138, 0xC694] @ js ''. (Clojure '' @ [0xC11C,
            0xBC84] @ js '' :8009 '' @ [0xD544, 0xC694, 0x0029])]]]"

definition clojure_view :: "locale_format \<Rightarrow> clojure \<Rightarrow> view" where
  "clojure_view fmt st = cat
     [
      el ''section'' [atx ''class'' (js ''panel'')] [clojure_v_panel_header st, clojure_v_transfer_form st, clojure_v_transferRes
          fmt st, clojure_v_clojureData fmt st]]"

section \<open>ErlangPanel\<close>

definition erlang_v_panel_header :: "erlang \<Rightarrow> view" where
  "erlang_v_panel_header st =
     el ''div'' [atx ''class'' (js ''panel-header'')] [
      el ''div'' [] [
       el ''h2'' [] [tx ([0xD83D, 0xDD34] @ js '' Erlang/OTP 24 '' @ [0x00B7] @ js '' Hot Code Swap (:4003)'')],
       el ''p'' [atx ''class'' (js ''subtitle'')] [
        tx (js ''code:load_file/1 '' @ [0x2014, 0x0020, 0xC11C, 0xBC84, 0x0020, 0xBB34, 0xC911, 0xB2E8, 0x0020, 0xB85C, 0xC9C1,
            0x0020, 0xAD50, 0xCCB4, 0x0020, 0x00B7, 0x0020, 0xC9C4, 0xD589, 0x0020, 0xC911, 0x0020, 0xC5F0, 0xACB0, 0xC740,
            0x0020, 0xAD6C, 0xBC84, 0xC804, 0xC73C, 0xB85C, 0x0020, 0xC644, 0xB8CC] @ js '' (BEAM 2-version protocol)'')]],
      el ''button'' [atx ''class'' (js ''erlang-btn''), atx ''onclick'' (js ''runErlang''), aflag ''disabled'' (Inr (Bool
          (erlangLoading st)))] [
       ex (js_if (Inr (Bool (erlangLoading st))) (Inr (Str [0xD56F, 0x0020, 0xC2A4, 0xC653, 0x0020, 0xC911, 0x002E, 0x002E,
           0x002E])) (Inr (Str [0xD56F, 0x0020, 0xC2A4, 0xC653, 0x0020, 0xC2E4, 0xD589])))]]"

definition erlang_v_erlangData :: "erlang \<Rightarrow> view" where
  "erlang_v_erlangData st =
     ifv (Inr (erlangData st)) [
      ifv (mem (Inr (erlangData st)) ''error'') [
       el ''div'' [atx ''class'' (js ''error-box'')] [el ''p'' [atx ''style'' (js ''color:#f87171'')] [ex (mem (Inr (erlangData
           st)) ''error'')]]]
      [
       el ''div'' [atx ''class'' (js ''julia-card erlang-card''), atx ''style'' (js ''border-color:#ef4444'')] [
        el ''span'' [atx ''class'' (js ''label'')] [tx [0xB2E4, 0xC6B4, 0xD0C0, 0xC784]],
        el ''span'' [atx ''class'' (js ''value''), atx ''style'' (js ''color:#34d399'')] [ex (chain (mem (Inr (erlangData st))
            ''swap'') (\<lambda>x. (mem x ''downtime_ms''))), tx (js ''ms'')]],
       el ''div'' [atx ''class'' (js ''julia-card erlang-card'')] [
        el ''span'' [atx ''class'' (js ''label'')] [tx [0xC2A4, 0xC651, 0x0020, 0xD69F, 0xC218]],
        el ''span'' [atx ''class'' (js ''value'')] [ex (chain (mem (Inr (erlangData st)) ''swap'') (\<lambda>x2. (mem x2
            ''swap_count''))), tx [0xD68C]]],
       el ''div'' [atx ''class'' (js ''julia-card erlang-card'')] [
        el ''span'' [atx ''class'' (js ''label'')] [
         ex (chain (mem (Inr (erlangData st)) ''swap'') (\<lambda>x3. (mem x3 ''old_logic''))),
         tx [0x0020, 0x2192, 0x0020],
         ex (chain (mem (Inr (erlangData st)) ''swap'') (\<lambda>x4. (mem x4 ''new_logic'')))],
        el ''span'' [atx ''class'' (js ''value'')] [tx [0xAD50, 0xCCB4, 0x0020, 0xC644, 0xB8CC]]],
       el ''div'' [atx ''class'' (js ''julia-card erlang-card'')] [
        el ''span'' [atx ''class'' (js ''label'')] [tx [0xB9AC, 0xC2A4, 0xD06C, 0x0020, 0x0028, 0xC2A4, 0xC651, 0x0020, 0xC804,
            0x0029]],
        el ''span'' [atx ''class'' (js ''value'')] [
         ex (fixed 2 (js_times (js_default (chain (mem (Inr (erlangData st)) ''riskBefore'') (\<lambda>x5. (mem x5
             ''risk_score''))) (Inr (jsn 0))) (Inr (jsn 100)))),
         tx (js ''% ''),
         ex (chain (mem (Inr (erlangData st)) ''riskBefore'') (\<lambda>x6. (mem x6 ''grade'')))]],
       el ''div'' [atx ''class'' (js ''julia-card erlang-card''), atx ''style'' (js ''border-color:#f59e0b'')] [
        el ''span'' [atx ''class'' (js ''label'')] [tx [0xB9AC, 0xC2A4, 0xD06C, 0x0020, 0x0028, 0xC2A4, 0xC651, 0x0020, 0xD6C4,
            0x0029]],
        el ''span'' [atx ''class'' (js ''value''), atx ''style'' (js ''color:#f59e0b'')] [
         ex (fixed 2 (js_times (js_default (chain (mem (Inr (erlangData st)) ''riskAfter'') (\<lambda>x7. (mem x7
             ''risk_score''))) (Inr (jsn 0))) (Inr (jsn 100)))),
         tx (js ''% ''),
         ex (chain (mem (Inr (erlangData st)) ''riskAfter'') (\<lambda>x8. (mem x8 ''grade'')))]],
       el ''div'' [atx ''class'' (js ''julia-card erlang-card'')] [
        el ''span'' [atx ''class'' (js ''label'')] [tx (js ''BEAM '' @ [0xD504, 0xB85C, 0xC138, 0xC2A4, 0x0020, 0xC218])],
        el ''span'' [atx ''class'' (js ''value'')] [ex (mem (Inr (erlangData st)) ''beam_processes'')]]]]
     [
      el ''div'' [atx ''class'' (js ''empty-box'')] [
       el ''p'' [] [
        tx ([0xBC84, 0xD2BC, 0xC744, 0x0020, 0xB20C, 0xB7EC, 0x0020, 0xB9AC, 0xC2A4, 0xD06C, 0x0020, 0xB85C, 0xC9C1, 0xC744,
            0x0020, 0xD56B, 0x0020, 0xC2A4, 0xC651, 0xD558, 0xC138, 0xC694] @ js ''. (Erlang '' @ [0xC11C, 0xBC84] @ js
            '' :4003 '' @ [0xD544, 0xC694, 0x0029])]]]"

definition erlang_v_risk_section :: "erlang \<Rightarrow> view" where
  "erlang_v_risk_section st =
     el ''div'' [atx ''class'' (js ''risk-section'')] [
      el ''p'' [atx ''class'' (js ''risk-label'')] [
       tx ([0xB9AC, 0xC2A4, 0xD06C, 0x0020, 0xC9C1, 0xC811, 0x0020, 0xACC4, 0xC0B0] @ js '' (v1 '' @ [0xB85C, 0xC9C1, 0x0020,
           0xC801, 0xC6A9, 0x0029])],
      el ''div'' [atx ''class'' (js ''risk-params'')] [
       el ''label'' [atx ''class'' (js ''risk-field'')] [
        el ''span'' [] [tx [0xBD80, 0xCCB4, 0xBE44, 0xC728]],
        el ''input'' [atx ''type'' (js ''range''), atx ''min'' (js ''0.1''), atx ''max'' (js ''0.99''), atx ''step'' (js
            ''0.01''), aval ''value'' (Inr (Num (riskDebt st)))] [],
        el ''span'' [atx ''class'' (js ''pval'')] [ex (fixed 0 (js_times (Inr (Num (riskDebt st))) (Inr (jsn 100)))), tx (js
            ''%'')]],
       el ''label'' [atx ''class'' (js ''risk-field'')] [
        el ''span'' [] [tx [0xBCC0, 0xB3D9, 0xC131]],
        el ''input'' [atx ''type'' (js ''range''), atx ''min'' (js ''0.05''), atx ''max'' (js ''0.80''), atx ''step'' (js
            ''0.01''), aval ''value'' (Inr (Num (riskVol st)))] [],
        el ''span'' [atx ''class'' (js ''pval'')] [ex (fixed 0 (js_times (Inr (Num (riskVol st))) (Inr (jsn 100)))), tx (js
            ''%'')]],
       el ''button'' [atx ''class'' (js ''erlang-btn risk-btn''), atx ''onclick'' (js ''fetchRisk''), aflag ''disabled'' (Inr
           (Bool (er_riskLoading st)))] [
        ex (js_if (Inr (Bool (er_riskLoading st))) (Inr (Str [0xACC4, 0xC0B0, 0x0020, 0xC911, 0x002E, 0x002E, 0x002E])) (Inr (Str
            [0xC0B0, 0xC815])))]],
      ifv (Inr (er_riskData st)) [
       ifv (mem (Inr (er_riskData st)) ''error'') [el ''p'' [atx ''style'' (js ''color:#f87171'')] [ex (mem (Inr (er_riskData st))
           ''error'')]]
       [
        el ''div'' [atx ''class'' (js ''julia-grid''), atx ''style'' (js ''margin-top:0.5rem'')] [
         el ''div'' [atx ''class'' (js ''julia-card erlang-card''), amix ''style'' [Inr (Str (js ''border-color:'')), (num_call
             er_gradeColor (js_default (mem (Inr (er_riskData st)) ''risk_score'') (Inr (jsn 0))))]] [
          el ''span'' [atx ''class'' (js ''jlabel'')] [tx (js ''Risk Score'')],
          el ''span'' [atx ''class'' (js ''jval''), amix ''style'' [Inr (Str (js ''color:'')), (num_call er_gradeColor (js_default
              (mem (Inr (er_riskData st)) ''risk_score'') (Inr (jsn 0))))]] [
           ex (fixed 2 (js_times (js_default (mem (Inr (er_riskData st)) ''risk_score'') (Inr (jsn 0))) (Inr (jsn 100)))),
           tx (js ''%'')]],
         el ''div'' [atx ''class'' (js ''julia-card erlang-card'')] [
          el ''span'' [atx ''class'' (js ''jlabel'')] [tx (js ''Grade'')],
          el ''span'' [atx ''class'' (js ''jval''), amix ''style'' [Inr (Str (js ''color:'')), (num_call er_gradeColor (js_default
              (mem (Inr (er_riskData st)) ''risk_score'') (Inr (jsn 0))))]] [ex (mem (Inr (er_riskData st)) ''grade'')]],
         el ''div'' [atx ''class'' (js ''julia-card erlang-card'')] [
          el ''span'' [atx ''class'' (js ''jlabel'')] [tx (js ''Logic Ver'')],
          el ''span'' [atx ''class'' (js ''jval'')] [ex (mem (Inr (er_riskData st)) ''version'')]],
         el ''div'' [atx ''class'' (js ''julia-card erlang-card'')] [
          el ''span'' [atx ''class'' (js ''jlabel'')] [tx [0xB85C, 0xC9C1]],
          el ''span'' [atx ''class'' (js ''jval''), atx ''style'' (js ''font-size:0.7rem'')] [ex (mem (Inr (er_riskData st))
              ''logic'')]]]]]
      []]"

definition erlang_view :: "erlang \<Rightarrow> view" where
  "erlang_view st = cat
     [
      el ''section'' [atx ''class'' (js ''panel erlang-panel'')] [erlang_v_panel_header st, erlang_v_erlangData st,
          erlang_v_risk_section st]]"

section \<open>GleamPanel\<close>

definition gleam_v_panel_header :: "gleam \<Rightarrow> view" where
  "gleam_v_panel_header st =
     el ''div'' [atx ''class'' (js ''panel-header'')] [
      el ''div'' [] [
       el ''h2'' [] [
        tx (js ''Gleam 1.15 '' @ [0x00B7] @ js '' BEAM/Erlang '' @ [0x00B7, 0x0020, 0xC11C, 0xBE44, 0xC2A4, 0x0020, 0xACC4,
            0xC57D, 0x0020, 0xAC80, 0xC99D, 0x0020, 0xB808, 0xC774, 0xC5B4] @ js '' (:4001)'')],
       el ''p'' [atx ''class'' (js ''subtitle'')] [
        tx (js ''ServiceMessage '' @ [0xBAA8, 0xB4E0] @ js '' variant '' @ [0x2014] @ js '' exhaustive case '' @ [0xCEF4, 0xD30C,
            0xC77C, 0x0020, 0xAC15, 0xC81C])]],
      el ''div'' [atx ''class'' (js ''gleam-btn-group'')] [
       el ''button'' [atx ''class'' (js ''gleam-btn''), atx ''onclick'' (js ''runGleam''), aflag ''disabled'' (Inr (Bool
           (gleamLoading st)))] [
        ex (js_if (Inr (Bool (gleamLoading st))) (Inr (Str [0xAC80, 0xC99D, 0x0020, 0xC911, 0x002E, 0x002E, 0x002E])) (Inr (Str
            [0xACC4, 0xC57D, 0x0020, 0xAC80, 0xC99D])))],
       el ''button'' [atx ''class'' (js ''gleam-btn''), atx ''onclick'' (js ''runGleamPipeline''), aflag ''disabled'' (Inr (Bool
           (gl_pipelineLoading st)))] [
        ex (js_if (Inr (Bool (gl_pipelineLoading st))) (Inr (Str [0xC2E4, 0xD589, 0x0020, 0xC911, 0x002E, 0x002E, 0x002E])) (Inr
            (Str [0xD30C, 0xC774, 0xD504, 0xB77C, 0xC778])))],
       el ''button'' [atx ''class'' (js ''gleam-btn''), atx ''onclick'' (js ''runGleamRisk''), aflag ''disabled'' (Inr (Bool
           (gl_riskLoading st)))] [
        ex (js_if (Inr (Bool (gl_riskLoading st))) (Inr (Str [0xACC4, 0xC0B0, 0x0020, 0xC911, 0x002E, 0x002E, 0x002E])) (Inr (Str
            [0xB9AC, 0xC2A4, 0xD06C, 0x0020, 0xC9C0, 0xD45C])))]]]"

definition gleam_v_gleamData :: "gleam \<Rightarrow> view" where
  "gleam_v_gleamData st =
     ifv (Inr (gleamData st)) [
      ifv (mem (Inr (gleamData st)) ''error'') [
       el ''div'' [atx ''class'' (js ''empty-box'')] [el ''p'' [atx ''style'' (js ''color:#f87171'')] [ex (mem (Inr (gleamData
           st)) ''error'')]]]
      [
       el ''p'' [atx ''class'' (js ''section-label'')] [tx [0xACC4, 0xC57D, 0x0020, 0xAC80, 0xC99D]],
       el ''div'' [atx ''class'' (js ''julia-grid'')] [
        el ''div'' [atx ''class'' (js ''julia-card gleam-card'')] [
         el ''span'' [atx ''class'' (js ''jlabel'')] [tx ([0x2705, 0x0020, 0xC815, 0xC0C1, 0x0020, 0xAC80, 0xC99D] @ js
             '' (score=750)'')],
         el ''span'' [atx ''class'' (js ''jval''), atx ''style'' (js ''color:#34d399'')] [
          ex (js_if (chain (mem (Inr (gleamData st)) ''valid_ok'') (\<lambda>x. (mem x ''ok''))) (Inr (Str (js ''OK''))) (Inr (Str
              (js ''FAIL''))))]],
        el ''div'' [atx ''class'' (js ''julia-card gleam-card'')] [
         el ''span'' [atx ''class'' (js ''jlabel'')] [tx ([0x274C, 0x0020, 0xC624, 0xB958, 0x0020, 0xAC80, 0xC99D] @ js
             '' (score=1500)'')],
         el ''span'' [atx ''class'' (js ''jval''), atx ''style'' (js ''color:#f87171'')] [
          ex (js_default (chain (mem (Inr (gleamData st)) ''valid_err'') (\<lambda>x2. (mem x2 ''error''))) (Inr (Str (js
              ''?''))))]],
        el ''div'' [atx ''class'' (js ''julia-card gleam-card'')] [
         el ''span'' [atx ''class'' (js ''jlabel'')] [tx [0xBA54, 0xC2DC, 0xC9C0, 0x0020, 0xD0C0, 0xC785, 0x0020, 0xC218]],
         el ''span'' [atx ''class'' (js ''jval'')] [
          ex (js_default (chain (mem (Inr (gleamData st)) ''contract'') (\<lambda>x3. (chain (mem x3 ''message_types'')
              (\<lambda>x4. (mem x4 ''length''))))) (Inr (jsn 0))),
          tx [0xAC1C]]],
        el ''div'' [atx ''class'' (js ''julia-card gleam-card'')] [
         el ''span'' [atx ''class'' (js ''jlabel'')] [tx [0xBCF4, 0xC7A5]],
         el ''span'' [atx ''class'' (js ''jval'')] [
          ex (js_default (chain (mem (Inr (gleamData st)) ''contract'') (\<lambda>x5. (mem x5 ''guarantee''))) (Inr (Str (js
              ''?''))))]]]]]
     []"

definition gleam_v_pipelineData :: "gleam \<Rightarrow> view" where
  "gleam_v_pipelineData st =
     ifv (Inr (gl_pipelineData st)) [
      ifv (mem (Inr (gl_pipelineData st)) ''error'') [
       el ''div'' [atx ''class'' (js ''empty-box'')] [el ''p'' [atx ''style'' (js ''color:#f87171'')] [ex (mem (Inr
           (gl_pipelineData st)) ''error'')]]]
      [
       el ''p'' [atx ''class'' (js ''section-label'')] [
        tx ([0xB370, 0xC774, 0xD130, 0x0020, 0xD30C, 0xC774, 0xD504, 0xB77C, 0xC778] @ js '' (n=''),
        ex (mem (Inr (gl_pipelineData st)) ''n''),
        tx (js '')'')],
       el ''div'' [atx ''class'' (js ''julia-grid'')] [
        el ''div'' [atx ''class'' (js ''julia-card gleam-card'')] [
         el ''span'' [atx ''class'' (js ''jlabel'')] [tx [0xC5F0, 0xAC04, 0x0020, 0xC218, 0xC775, 0xB960]],
         el ''span'' [atx ''class'' (js ''jval''), atx ''style'' (js ''color:#34d399'')] [
          ex (fixed 2 (js_times (js_default (mem (Inr (gl_pipelineData st)) ''annualized_return'') (Inr (jsn 0))) (Inr (jsn
              100)))),
          tx (js ''%'')]],
        el ''div'' [atx ''class'' (js ''julia-card gleam-card'')] [
         el ''span'' [atx ''class'' (js ''jlabel'')] [tx [0xC5F0, 0xAC04, 0x0020, 0xBCC0, 0xB3D9, 0xC131]],
         el ''span'' [atx ''class'' (js ''jval''), atx ''style'' (js ''color:#f59e0b'')] [
          ex (fixed 2 (js_times (js_default (mem (Inr (gl_pipelineData st)) ''annualized_vol'') (Inr (jsn 0))) (Inr (jsn 100)))),
          tx (js ''%'')]]],
       el ''div'' [atx ''class'' (js ''pipeline-table'')] [
        el ''div'' [atx ''class'' (js ''pipeline-row pipeline-header'')] [
         el ''span'' [] [tx [0xB2E8, 0xACC4]],
         el ''span'' [] [tx [0xAC74, 0xC218]],
         el ''span'' [] [tx [0xD3C9, 0xADE0]],
         el ''span'' [] [tx [0xD45C, 0xC900, 0xD3B8, 0xCC28]]],
        each (js_default (mem (Inr (gl_pipelineData st)) ''pipeline_steps'') (Inr (Arr []))) (\<lambda>_ step. [
           el ''div'' [atx ''class'' (js ''pipeline-row'')] [
            el ''span'' [atx ''class'' (js ''step-name'')] [ex (mem (Inr step) ''name'')],
            el ''span'' [] [ex (mem (Inr step) ''count'')],
            el ''span'' [] [ex (fixed 4 (js_default (mem (Inr step) ''mean'') (Inr (jsn 0))))],
            el ''span'' [] [ex (fixed 4 (js_default (mem (Inr step) ''std'') (Inr (jsn 0))))]]])]]]
     []"

definition gleam_v_riskData :: "gleam \<Rightarrow> view" where
  "gleam_v_riskData st =
     ifv (Inr (gl_riskData st)) [
      ifv (mem (Inr (gl_riskData st)) ''error'') [
       el ''div'' [atx ''class'' (js ''empty-box'')] [el ''p'' [atx ''style'' (js ''color:#f87171'')] [ex (mem (Inr (gl_riskData
           st)) ''error'')]]]
      [
       el ''p'' [atx ''class'' (js ''section-label'')] [
        tx ([0xB9AC, 0xC2A4, 0xD06C, 0x0020, 0xC9C0, 0xD45C] @ js '' (n=''),
        ex (mem (Inr (gl_riskData st)) ''n''),
        tx (js '')'')],
       el ''div'' [atx ''class'' (js ''julia-grid'')] [
        el ''div'' [atx ''class'' (js ''julia-card gleam-card'')] [
         el ''span'' [atx ''class'' (js ''jlabel'')] [tx [0xC5F0, 0xAC04, 0x0020, 0xC218, 0xC775, 0xB960]],
         el ''span'' [atx ''class'' (js ''jval''), atx ''style'' (js ''color:#34d399'')] [
          ex (fixed 2 (js_times (js_default (mem (Inr (gl_riskData st)) ''annualized_return'') (Inr (jsn 0))) (Inr (jsn 100)))),
          tx (js ''%'')]],
        el ''div'' [atx ''class'' (js ''julia-card gleam-card'')] [
         el ''span'' [atx ''class'' (js ''jlabel'')] [tx [0xC5F0, 0xAC04, 0x0020, 0xBCC0, 0xB3D9, 0xC131]],
         el ''span'' [atx ''class'' (js ''jval''), atx ''style'' (js ''color:#f59e0b'')] [
          ex (fixed 2 (js_times (js_default (mem (Inr (gl_riskData st)) ''annualized_vol'') (Inr (jsn 0))) (Inr (jsn 100)))),
          tx (js ''%'')]],
        el ''div'' [atx ''class'' (js ''julia-card gleam-card''), atx ''style'' (js ''border-color:#f87171'')] [
         el ''span'' [atx ''class'' (js ''jlabel'')] [tx (js ''VaR 95%'')],
         el ''span'' [atx ''class'' (js ''jval''), atx ''style'' (js ''color:#f87171'')] [
          ex (fixed 2 (js_times (js_default (mem (Inr (gl_riskData st)) ''var_95'') (Inr (jsn 0))) (Inr (jsn 100)))),
          tx (js ''%'')]],
        el ''div'' [atx ''class'' (js ''julia-card gleam-card''), atx ''style'' (js ''border-color:#f87171'')] [
         el ''span'' [atx ''class'' (js ''jlabel'')] [tx (js ''CVaR 95%'')],
         el ''span'' [atx ''class'' (js ''jval''), atx ''style'' (js ''color:#f87171'')] [
          ex (fixed 2 (js_times (js_default (mem (Inr (gl_riskData st)) ''cvar_95'') (Inr (jsn 0))) (Inr (jsn 100)))),
          tx (js ''%'')]],
        el ''div'' [atx ''class'' (js ''julia-card gleam-card''), atx ''style'' (js ''border-color:#60a5fa'')] [
         el ''span'' [atx ''class'' (js ''jlabel'')] [tx (js ''Sharpe Ratio'')],
         el ''span'' [atx ''class'' (js ''jval''), atx ''style'' (js ''color:#60a5fa'')] [ex (fixed 3 (js_default (mem (Inr
             (gl_riskData st)) ''sharpe_ratio'') (Inr (jsn 0))))]],
        el ''div'' [atx ''class'' (js ''julia-card gleam-card''), atx ''style'' (js ''border-color:#fb923c'')] [
         el ''span'' [atx ''class'' (js ''jlabel'')] [tx (js ''Max Drawdown'')],
         el ''span'' [atx ''class'' (js ''jval''), atx ''style'' (js ''color:#fb923c'')] [
          ex (fixed 2 (js_times (js_default (mem (Inr (gl_riskData st)) ''max_drawdown'') (Inr (jsn 0))) (Inr (jsn 100)))),
          tx (js ''%'')]]]]]
     []"

definition gleam_v_gleamData2 :: "gleam \<Rightarrow> view" where
  "gleam_v_gleamData2 st =
     ifv (js_and (js_and (js_not (Inr (gleamData st))) (js_not (Inr (gl_pipelineData st)))) (js_not (Inr (gl_riskData st)))) [
      el ''div'' [atx ''class'' (js ''empty-box'')] [
       el ''p'' [] [
        tx ([0xBC84, 0xD2BC, 0xC744, 0x0020, 0xB20C, 0xB7EC] @ js '' Gleam '' @ [0xACC4, 0xC57D, 0x0020, 0xAC80, 0xC99D, 0x0020,
            0x002F, 0x0020, 0xD30C, 0xC774, 0xD504, 0xB77C, 0xC778, 0x0020, 0x002F, 0x0020, 0xB9AC, 0xC2A4, 0xD06C, 0x0020,
            0xC9C0, 0xD45C, 0xB97C, 0x0020, 0xC2E4, 0xD589, 0xD558, 0xC138, 0xC694] @ js ''. (Gleam '' @ [0xC11C, 0xBC84] @ js
            '' :4001 '' @ [0xD544, 0xC694, 0x0029])]]]
     []"

definition gleam_view :: "gleam \<Rightarrow> view" where
  "gleam_view st = cat
     [
      el ''section'' [atx ''class'' (js ''panel gleam-panel'')] [gleam_v_panel_header st, gleam_v_gleamData st,
          gleam_v_pipelineData st, gleam_v_riskData st, gleam_v_gleamData2 st]]"

section \<open>JavaLoomPanel\<close>

definition java_v_panel_header :: "java \<Rightarrow> view" where
  "java_v_panel_header st =
     el ''div'' [atx ''class'' (js ''panel-header'')] [
      el ''div'' [] [
       el ''h2'' [] [tx ([0x2615] @ js '' Java 21 Virtual Threads'')],
       el ''p'' [atx ''class'' (js ''subtitle'')] [
        tx (js ''Project Loom '' @ [0x00B7] @ js '' Thread.ofVirtual() '' @ [0x2014, 0x0020, 0x0035, 0xB9CC, 0x0020, 0xAC1C,
            0x0020, 0xACBD, 0xB7C9, 0x0020, 0xC2A4, 0xB808, 0xB4DC, 0x0020, 0x00B7] @ js '' OS '' @ [0xC2A4, 0xB808, 0xB4DC,
            0x0020, 0xC218, 0x0020, 0xBB34, 0xAD00] @ js '' (:8010)'')],
       ifv (Inr (javaStatus st)) [
        el ''p'' [atx ''class'' (js ''java-info-strip'')] [
         el ''span'' [] [tx (js ''Java ''), ex (mem (Inr (javaStatus st)) ''version'')],
         el ''span'' [atx ''class'' (js ''dot'')] [tx [0x00B7]],
         el ''span'' [] [ex (mem (Inr (javaStatus st)) ''jvm'')],
         el ''span'' [atx ''class'' (js ''dot'')] [tx [0x00B7]],
         el ''span'' [] [tx (js ''CPU ''), ex (mem (Inr (javaStatus st)) ''cpu_cores''), tx [0xCF54, 0xC5B4]]]]
       []],
      el ''button'' [atx ''class'' (js ''java-btn''), atx ''onclick'' (js ''runJava''), aflag ''disabled'' (Inr (Bool (javaLoading
          st)))] [
       ex (js_if (Inr (Bool (javaLoading st))) (Inr (Str [0xC2E4, 0xD589, 0x0020, 0xC911, 0x002E, 0x002E, 0x002E])) (Inr (Str (js
           ''Loom '' @ [0xC2E4, 0xD589]))))],
      el ''button'' [atx ''class'' (js ''pipeline-btn''), atx ''onclick'' (js ''runPipeline''), aflag ''disabled'' (Inr (Bool
          (jv_pipelineLoading st)))] [
       ex (js_if (Inr (Bool (jv_pipelineLoading st))) (Inr (Str [0xCE21, 0xC815, 0x0020, 0xC911, 0x002E, 0x002E, 0x002E])) (Inr
           (Str (js ''Blocking I/O '' @ [0xC2DC, 0xBBAC, 0xB808, 0xC774, 0xC158]))))]]"

definition java_v_javaData :: "locale_format \<Rightarrow> java \<Rightarrow> view" where
  "java_v_javaData fmt st =
     ifv (Inr (javaData st)) [
      ifv (mem (Inr (javaData st)) ''error'') [
       el ''div'' [atx ''class'' (js ''empty-box'')] [el ''p'' [atx ''style'' (js ''color:#f87171'')] [ex (mem (Inr (javaData st))
           ''error'')]]]
      [
       bind_const (mem (Inr (javaData st)) ''vthreads'') (\<lambda>v. [
         bind_const (mem (Inr (javaData st)) ''compare'') (\<lambda>c. [
           el ''div'' [atx ''class'' (js ''julia-grid'')] [
            el ''div'' [atx ''class'' (js ''julia-card java-card'')] [
             el ''span'' [atx ''class'' (js ''jlabel'')] [tx (js ''Virtual Threads'')],
             el ''span'' [atx ''class'' (js ''jval'')] [ex (toLocale fmt '''' (as_Number (chain (Inr v) (\<lambda>x. (mem x
                 ''virtual_threads'')))))]],
            el ''div'' [atx ''class'' (js ''julia-card java-card'')] [
             el ''span'' [atx ''class'' (js ''jlabel'')] [tx [0xCC98, 0xB9AC, 0xB7C9]],
             el ''span'' [atx ''class'' (js ''jval'')] [ex (toLocale fmt '''' (as_Number (chain (Inr v) (\<lambda>x2. (mem x2
                 ''throughput_per_s''))))), tx (js ''/s'')]],
            el ''div'' [atx ''class'' (js ''julia-card java-card'')] [
             el ''span'' [atx ''class'' (js ''jlabel'')] [tx [0xC18C, 0xC694, 0x0020, 0xC2DC, 0xAC04]],
             el ''span'' [atx ''class'' (js ''jval'')] [ex (chain (Inr v) (\<lambda>x3. (mem x3 ''elapsed_ms''))), tx (js
                 ''ms'')]],
            el ''div'' [atx ''class'' (js ''julia-card java-card'')] [
             el ''span'' [atx ''class'' (js ''jlabel'')] [tx [0xBA54, 0xBAA8, 0xB9AC, 0x0020, 0xC99D, 0xAC00]],
             el ''span'' [atx ''class'' (js ''jval'')] [ex (toLocale fmt '''' (as_Number (chain (Inr v) (\<lambda>x4. (mem x4
                 ''mem_delta_kb''))))), tx (js '' KB'')]],
            el ''div'' [atx ''class'' (js ''julia-card java-card''), atx ''style'' (js ''border-color:#f59e0b'')] [
             el ''span'' [atx ''class'' (js ''jlabel'')] [tx (js ''Platform ''), ex (chain (Inr c) (\<lambda>x5. (mem x5
                 ''tasks''))), tx [0xAC1C]],
             el ''span'' [atx ''class'' (js ''jval''), atx ''style'' (js ''color:#94a3b8'')] [ex (chain (Inr c) (\<lambda>x6. (mem
                 x6 ''platform_thread_ms''))), tx (js ''ms'')]],
            el ''div'' [atx ''class'' (js ''julia-card java-card''), atx ''style'' (js ''border-color:#34d399'')] [
             el ''span'' [atx ''class'' (js ''jlabel'')] [tx (js ''Virtual ''), ex (chain (Inr c) (\<lambda>x7. (mem x7
                 ''tasks''))), tx [0xAC1C]],
             el ''span'' [atx ''class'' (js ''jval''), atx ''style'' (js ''color:#34d399'')] [ex (chain (Inr c) (\<lambda>x8. (mem
                 x8 ''virtual_thread_ms''))), tx (js ''ms'')]],
            el ''div'' [atx ''class'' (js ''julia-card java-card''), atx ''style'' (js
                ''border-color:#34d399; grid-column: span 2'')] [
             el ''span'' [atx ''class'' (js ''jlabel'')] [tx (js ''Virtual Thread '' @ [0xC6B0, 0xC704])],
             el ''span'' [atx ''class'' (js ''jval''), atx ''style'' (js ''color:#34d399'')] [ex (chain (Inr c) (\<lambda>x9. (mem
                 x9 ''speedup''))), tx [0x0020, 0xBE60, 0xB984]]]],
           el ''p'' [atx ''class'' (js ''java-note'')] [ex (chain (Inr v) (\<lambda>x10. (mem x10 ''note'')))]])])]]
     [
      el ''div'' [atx ''class'' (js ''empty-box'')] [
       el ''p'' [] [
        tx ([0xBC84, 0xD2BC, 0xC744, 0x0020, 0xB20C, 0xB7EC] @ js '' Java 21 Virtual Thread '' @ [0xBCA4, 0xCE58, 0xB9C8, 0xD06C,
            0xB97C, 0x0020, 0xC2E4, 0xD589, 0xD558, 0xC138, 0xC694] @ js ''. (Java '' @ [0xC11C, 0xBC84] @ js '' :8010 '' @
            [0xD544, 0xC694, 0x0029])]]]"

definition java_v_pipelineData :: "java \<Rightarrow> view" where
  "java_v_pipelineData st =
     ifv (Inr (jv_pipelineData st)) [
      el ''div'' [atx ''class'' (js ''pipeline-section'')] [
       el ''h3'' [atx ''class'' (js ''pipeline-title'')] [
        tx ([0x23F1] @ js '' Blocking I/O '' @ [0xC2DC, 0xBBAC, 0xB808, 0xC774, 0xC158, 0x0020, 0x2014] @ js '' Thread.sleep() ''
            @ [0x00D7, 0x0020]),
        ex (mem (Inr (jv_pipelineData st)) ''tasks''),
        tx [0xAC1C]],
       ifv (mem (Inr (jv_pipelineData st)) ''error'') [el ''p'' [atx ''style'' (js ''color:#f87171'')] [ex (mem (Inr
           (jv_pipelineData st)) ''error'')]]
       [
        el ''p'' [atx ''class'' (js ''pipeline-desc'')] [
         tx [0xC791, 0xC5C5, 0xB9C8, 0xB2E4, 0x0020],
         ex (mem (Inr (jv_pipelineData st)) ''delay_ms_per_task''),
         tx (js ''ms sleep(blocking) '' @ [0xD3EC, 0xD568] @ js ''. Platform pool(''),
         ex (mem (Inr (jv_pipelineData st)) ''platform_pool_size''),
         tx ([0xAC1C, 0x0029, 0xB294, 0x0020, 0xC21C, 0xCC28, 0x0020, 0xCC98, 0xB9AC, 0x0020, 0x2192] @ js '' Virtual'' @ [0xC740,
             0x0020]),
         ex (mem (Inr (jv_pipelineData st)) ''tasks''),
         tx ([0xAC1C, 0x0020, 0xB3D9, 0xC2DC] @ js '' sleep.'')],
        el ''div'' [atx ''class'' (js ''julia-grid'')] [
         el ''div'' [atx ''class'' (js ''julia-card platform-card'')] [
          el ''span'' [atx ''class'' (js ''jlabel'')] [tx (js ''Platform Thread'')],
          el ''span'' [atx ''class'' (js ''jval''), atx ''style'' (js ''color:#f87171'')] [ex (mem (Inr (jv_pipelineData st))
              ''platform_total_ms''), tx (js ''ms'')],
          el ''span'' [atx ''class'' (js ''pipeline-sub'')] [
           tx (js ''pool '' @ [0xC0C1, 0xD55C, 0x0020]),
           ex (mem (Inr (jv_pipelineData st)) ''platform_pool_size''),
           tx [0xAC1C, 0x0020, 0x00B7, 0x0020, 0xC774, 0xB860, 0xAC12, 0x0020],
           ex (mem (Inr (jv_pipelineData st)) ''theoretical_platform_ms''),
           tx (js ''ms'')]],
         el ''div'' [atx ''class'' (js ''julia-card virtual-card'')] [
          el ''span'' [atx ''class'' (js ''jlabel'')] [tx (js ''Virtual Thread'')],
          el ''span'' [atx ''class'' (js ''jval''), atx ''style'' (js ''color:#34d399'')] [ex (mem (Inr (jv_pipelineData st))
              ''virtual_total_ms''), tx (js ''ms'')],
          el ''span'' [atx ''class'' (js ''pipeline-sub'')] [
           tx (js ''sleep '' @ [0xC911] @ js '' OS '' @ [0xC2A4, 0xB808, 0xB4DC, 0x0020, 0xBC18, 0xD658, 0x0020, 0x00B7, 0x0020]),
           ex (mem (Inr (jv_pipelineData st)) ''tasks''),
           tx [0xAC1C, 0x0020, 0xB3D9, 0xC2DC, 0x0020, 0xC2E4, 0xD589]]],
         el ''div'' [atx ''class'' (js ''julia-card''), atx ''style'' (js ''border-color:#f59e0b; grid-column: span 2'')] [
          el ''span'' [atx ''class'' (js ''jlabel'')] [tx [0xAC00, 0xC18D, 0x0020, 0xBC30, 0xC728]],
          el ''span'' [atx ''class'' (js ''jval''), atx ''style'' (js ''color:#f59e0b; font-size:1.4rem'')] [ex (mem (Inr
              (jv_pipelineData st)) ''speedup'')]]],
        el ''p'' [atx ''class'' (js ''java-note'')] [ex (mem (Inr (jv_pipelineData st)) ''note'')]]]]
     []"

definition java_view :: "locale_format \<Rightarrow> java \<Rightarrow> view" where
  "java_view fmt st = cat
     [el ''section'' [atx ''class'' (js ''panel'')] [java_v_panel_header st, java_v_javaData fmt st, java_v_pipelineData st]]"

section \<open>LuaStreamPanel\<close>

definition lua_stream_v_panel_header :: "lua_stream \<Rightarrow> view" where
  "lua_stream_v_panel_header st =
     el ''div'' [atx ''class'' (js ''panel-header'')] [
      el ''div'' [] [
       el ''h2'' [] [tx ([0xD83C, 0xDF19] @ js '' Lua 5.4 Coroutine Stream'')],
       el ''p'' [atx ''class'' (js ''subtitle'')] [
        tx ([0xB2E8, 0xC77C] @ js '' OS '' @ [0xC2A4, 0xB808, 0xB4DC, 0x0020, 0x00B7] @ js '' coroutine.yield/resume'' @ [0xC73C,
            0xB85C, 0x0020, 0x0036, 0xAC1C, 0x0020, 0xAC00, 0xACA9, 0x0020, 0xD53C, 0xB4DC, 0xB97C, 0x0020, 0xD611, 0xB825,
            0xC801, 0x0020, 0xBA40, 0xD2F0, 0xD50C, 0xB809, 0xC2F1] @ js '' (:8007)'')]],
      el ''button'' [atx ''class'' (js ''lua2-btn''), atx ''onclick'' (js ''runLua''), aflag ''disabled'' (Inr (Bool (luaLoading
          st)))] [
       ex (js_if (Inr (Bool (luaLoading st))) (Inr (Str [0xC2A4, 0xD2B8, 0xB9AC, 0xBC0D, 0x002E, 0x002E, 0x002E])) (Inr (Str
           [0xCF54, 0xB8E8, 0xD2F4, 0x0020, 0xC2E4, 0xD589])))]]"

definition lua_stream_v_luaData :: "locale_format \<Rightarrow> lua_stream \<Rightarrow> view" where
  "lua_stream_v_luaData fmt st =
     ifv (Inr (luaData st)) [
      ifv (mem (Inr (luaData st)) ''error'') [
       el ''div'' [atx ''class'' (js ''empty-box'')] [el ''p'' [atx ''style'' (js ''color:#f87171'')] [ex (mem (Inr (luaData st))
           ''error'')]]]
      [
       el ''div'' [atx ''class'' (js ''lua2-meta'')] [
        el ''span'' [atx ''class'' (js ''lua2-tag'')] [tx [0xC2A4, 0xB808, 0xB4DC, 0x0020, 0xC5C6, 0xC74C]],
        el ''span'' [atx ''class'' (js ''lua2-tag'')] [tx [0xB77D, 0x0020, 0xC5C6, 0xC74C]],
        el ''span'' [atx ''class'' (js ''lua2-tag'')] [tx [0xCF5C, 0xBC31, 0x0020, 0xC5C6, 0xC74C]],
        el ''span'' [atx ''class'' (js ''lua2-tag orange'')] [
         tx ([0xCD1D] @ js '' resume: ''),
         ex (chain (mem (Inr (luaData st)) ''total_resumes'') (\<lambda>x. (toLocale fmt '''' x)))],
        el ''span'' [atx ''class'' (js ''lua2-tag green'')] [ex (chain (mem (Inr (luaData st)) ''elapsed_ms'') (\<lambda>x2.
            (fixed 1 x2))), tx (js ''ms'')]],
       el ''div'' [atx ''class'' (js ''julia-grid'')] [
        each (js_default (mem (Inr (luaData st)) ''feeds'') (Inr (Arr []))) (\<lambda>_ feed. [
           el ''div'' [atx ''class'' (js ''julia-card lua2-card'')] [
            el ''span'' [atx ''class'' (js ''jlabel'')] [ex (mem (Inr feed) ''symbol'')],
            el ''span'' [atx ''class'' (js ''jval'')] [tx (js ''$''), ex (chain (mem (Inr feed) ''end_price'') (\<lambda>x3.
                (fixed 2 x3)))],
            el ''span'' [atx ''class'' (js ''lua2-sub'')] [
             tx [0xC218, 0xC775, 0x0020],
             ex (chain (mem (Inr feed) ''return_pct'') (\<lambda>x4. (fixed 1 x4))),
             tx [0x0025, 0x0020, 0x00B7, 0x0020, 0xBCC0, 0xB3D9, 0xC131, 0x0020],
             ex (chain (mem (Inr feed) ''ann_vol_pct'') (\<lambda>x5. (fixed 1 x5))),
             tx (js ''%'')],
            el ''span'' [amix ''class'' [Inr (Str (js ''lua2-status '')), (mem (Inr feed) ''coroutine_status'')]] [ex (mem (Inr
                feed) ''coroutine_status'')]]])],
       el ''p'' [atx ''class'' (js ''lua2-note'')] [ex (mem (Inr (luaData st)) ''scheduler'')]]]
     [
      el ''div'' [atx ''class'' (js ''empty-box'')] [
       el ''p'' [] [
        tx ([0xBC84, 0xD2BC, 0xC744, 0x0020, 0xB20C, 0xB7EC] @ js '' Lua '' @ [0xCF54, 0xB8E8, 0xD2F4, 0x0020, 0xC2A4, 0xCF00,
            0xC904, 0xB7EC, 0xB97C, 0x0020, 0xC2E4, 0xD589, 0xD558, 0xC138, 0xC694] @ js ''. (Lua '' @ [0xC11C, 0xBC84] @ js
            '' :8007 '' @ [0xD544, 0xC694, 0x0029])]]]"

definition lua_stream_view :: "locale_format \<Rightarrow> lua_stream \<Rightarrow> view" where
  "lua_stream_view fmt st = cat
     [el ''section'' [atx ''class'' (js ''panel'')] [lua_stream_v_panel_header st, lua_stream_v_luaData fmt st]]"

section \<open>PrologPanel\<close>

definition prolog_v_prolog_params :: "prolog \<Rightarrow> view" where
  "prolog_v_prolog_params st =
     el ''div'' [atx ''class'' (js ''prolog-params'')] [
      el ''div'' [atx ''class'' (js ''param-group'')] [
       el ''label'' [atx ''for'' (js ''pr-debt'')] [tx [0xBD80, 0xCCB4, 0xBE44, 0xC728]],
       el ''input'' [atx ''id'' (js ''pr-debt''), atx ''type'' (js ''range''), atx ''min'' (js ''0.1''), atx ''max'' (js ''0.9''),
           atx ''step'' (js ''0.05''), aval ''value'' (Inr (Num (pr_debtRatio st)))] [],
       el ''span'' [] [ex (fixed 2 (Inr (Num (pr_debtRatio st))))]],
      el ''div'' [atx ''class'' (js ''param-group'')] [
       el ''label'' [atx ''for'' (js ''pr-vol'')] [tx [0xBCC0, 0xB3D9, 0xC131]],
       el ''input'' [atx ''id'' (js ''pr-vol''), atx ''type'' (js ''range''), atx ''min'' (js ''0.05''), atx ''max'' (js ''0.5''),
           atx ''step'' (js ''0.05''), aval ''value'' (Inr (Num (volatility st)))] [],
       el ''span'' [] [ex (fixed 2 (Inr (Num (volatility st))))]],
      el ''div'' [atx ''class'' (js ''param-group'')] [
       el ''label'' [atx ''for'' (js ''pr-def'')] [tx [0xC5F0, 0xCCB4, 0x0020, 0xD69F, 0xC218]],
       el ''input'' [atx ''id'' (js ''pr-def''), atx ''type'' (js ''range''), atx ''min'' (js ''0''), atx ''max'' (js ''5''), atx
           ''step'' (js ''1''), aval ''value'' (Inr (Num (pr_defaults st)))] [],
       el ''span'' [] [ex (Inr (Num (pr_defaults st)))]]]"

definition prolog_v_prolog_params2 :: "prolog \<Rightarrow> view" where
  "prolog_v_prolog_params2 st =
     el ''div'' [atx ''class'' (js ''prolog-params'')] [
      el ''div'' [atx ''class'' (js ''param-group'')] [
       el ''label'' [atx ''for'' (js ''pr-ptype'')] [tx [0xD3EC, 0xD2B8, 0xD3F4, 0xB9AC, 0xC624, 0x0020, 0xD0C0, 0xC785]],
       el ''select'' [atx ''id'' (js ''pr-ptype''), aval ''value'' (Inr (Str (portfolioType st)))] [
        el ''option'' [atx ''value'' (js ''aggressive'')] [tx (js ''Aggressive ('' @ [0xACF5, 0xACA9, 0xD615, 0x0029])],
        el ''option'' [atx ''value'' (js ''balanced'')] [tx (js ''Balanced ('' @ [0xADE0, 0xD615, 0xD615, 0x0029])],
        el ''option'' [atx ''value'' (js ''conservative'')] [tx (js ''Conservative ('' @ [0xC548, 0xC815, 0xD615, 0x0029])]]],
      el ''div'' [atx ''class'' (js ''param-group'')] [
       el ''label'' [atx ''for'' (js ''pr-rmax'')] [tx [0xCD5C, 0xB300, 0x0020, 0xB9AC, 0xC2A4, 0xD06C]],
       el ''input'' [atx ''id'' (js ''pr-rmax''), atx ''type'' (js ''range''), atx ''min'' (js ''6''), atx ''max'' (js ''20''),
           atx ''step'' (js ''1''), aval ''value'' (Inr (Num (riskMax st)))] [],
       el ''span'' [] [ex (Inr (Num (riskMax st)))]]]"

definition prolog_v_prolog_btn :: "prolog \<Rightarrow> view" where
  "prolog_v_prolog_btn st =
     el ''button'' [atx ''class'' (js ''prolog-btn''), atx ''onclick'' (js ''runAll''), aflag ''disabled'' (Inr (Bool (pr_loading
         st)))] [
      ex (js_if (Inr (Bool (pr_loading st))) (Inr (Str [0xCD94, 0xB860, 0x0020, 0xC911, 0x002E, 0x002E, 0x002E])) (Inr (Str
          [0xB17C, 0xB9AC, 0x0020, 0xCD94, 0xB860, 0x0020, 0xC2E4, 0xD589])))]"

definition prolog_v_explain_btn :: "prolog \<Rightarrow> view" where
  "prolog_v_explain_btn st =
     el ''button'' [atx ''class'' (js ''explain-btn''), atx ''onclick'' (js ''fetchExplain''), aflag ''disabled'' (Inr (Bool
         (explainLoading st)))] [
      ex (js_if (Inr (Bool (explainLoading st))) (Inr (Str [0xBD84, 0xC11D, 0x0020, 0xC911, 0x002E, 0x002E, 0x002E])) (Inr (Str
          ([0xD68C] @ js ''? (Why?) '' @ [0xC5ED, 0xCD94, 0xC801, 0x0020, 0xC124, 0xBA85]))))]"

definition prolog_v_inferData :: "prolog \<Rightarrow> view" where
  "prolog_v_inferData st =
     ifv (Inr (inferData st)) [
      ifv (mem (Inr (inferData st)) ''error'') [
       el ''div'' [atx ''class'' (js ''error-box'')] [el ''p'' [atx ''style'' (js ''color:#f87171'')] [ex (mem (Inr (inferData
           st)) ''error'')]]]
      [
       ifv (Inr (statusData st)) [
        el ''div'' [atx ''class'' (js ''prolog-info-bar'')] [
         el ''span'' [atx ''class'' (js ''prolog-badge'')] [
          tx (js ''SWI-Prolog ''),
          ex (js_default (chain (mem (Inr (statusData st)) ''version'') (\<lambda>x. (str_method (replace_first (js
              ''SWI-Prolog '') []) x))) (Inr (Str [])))],
         el ''span'' [atx ''class'' (js ''prolog-badge''), atx ''style'' (js ''background:#4b5563'')] [ex (mem (Inr (statusData
             st)) ''paradigm'')]]]
       [],
       el ''h3'' [atx ''class'' (js ''section-title'')] [
        tx [0xD83D, 0xDD0D, 0x0020, 0xC2E0, 0xC6A9, 0x0020, 0xB9AC, 0xC2A4, 0xD06C, 0x0020, 0xB17C, 0xB9AC, 0x0020, 0xCD94,
            0xB860]],
       el ''div'' [atx ''class'' (js ''prolog-result-box''), amix ''style'' [Inr (Str (js ''border-color: '')), (grade_color (mem
           (Inr (inferData st)) ''grade''))]] [
        el ''div'' [atx ''class'' (js ''prolog-grade''), amix ''style'' [Inr (Str (js ''color: '')), (grade_color (mem (Inr
            (inferData st)) ''grade''))]] [ex (str_method (map upper_unit) (js_default (mem (Inr (inferData st)) ''grade'') (Inr
            (Str []))))],
        el ''div'' [atx ''class'' (js ''prolog-reason'')] [ex (mem (Inr (inferData st)) ''reason'')],
        el ''div'' [atx ''class'' (js ''prolog-method'')] [ex (mem (Inr (inferData st)) ''method'')]],
       el ''div'' [atx ''class'' (js ''card-grid''), atx ''style'' (js ''margin-top:0.75rem'')] [
        el ''div'' [atx ''class'' (js ''julia-card''), atx ''style'' (js ''border-color:#6366f1'')] [
         el ''span'' [atx ''class'' (js ''label'')] [tx [0xBD80, 0xCC44, 0xBE44, 0xC728]],
         el ''span'' [atx ''class'' (js ''value'')] [ex (fixed 0 (js_times (mem (Inr (inferData st)) ''debt_ratio'') (Inr (jsn
             100)))), tx (js ''%'')]],
        el ''div'' [atx ''class'' (js ''julia-card''), atx ''style'' (js ''border-color:#6366f1'')] [
         el ''span'' [atx ''class'' (js ''label'')] [tx [0xBCC0, 0xB3D9, 0xC131]],
         el ''span'' [atx ''class'' (js ''value'')] [ex (fixed 0 (js_times (mem (Inr (inferData st)) ''volatility'') (Inr (jsn
             100)))), tx (js ''%'')]],
        el ''div'' [atx ''class'' (js ''julia-card''), atx ''style'' (js ''border-color:#6366f1'')] [
         el ''span'' [atx ''class'' (js ''label'')] [tx [0xC5F0, 0xCCB4, 0x0020, 0xD69F, 0xC218]],
         el ''span'' [atx ''class'' (js ''value'')] [ex (mem (Inr (inferData st)) ''defaults''), tx [0xD68C]]],
        el ''div'' [atx ''class'' (js ''julia-card''), atx ''style'' (js ''border-color:#6366f1'')] [
         el ''span'' [atx ''class'' (js ''label'')] [tx [0xB9E4, 0xCE6D, 0x0020, 0xADDC, 0xCE59, 0x0020, 0xC218]],
         el ''span'' [atx ''class'' (js ''value'')] [ex (mem (Inr (inferData st)) ''rules_matched''), tx [0xAC1C]]]],
       ifv (js_gt (chain (mem (Inr (inferData st)) ''flags_fired'') (\<lambda>x2. (mem x2 ''length''))) (Inr (jsn 0))) [
        el ''div'' [atx ''class'' (js ''flags-box'')] [
         el ''span'' [atx ''class'' (js ''flags-label'')] [tx [0xBC1C, 0xD654, 0xB41C, 0x0020, 0xD50C, 0xB798, 0xADF8, 0x003A]],
         each (mem (Inr (inferData st)) ''flags_fired'') (\<lambda>_ flag. [el ''span'' [atx ''class'' (js ''flag-chip'')] [ex
             (Inr flag)]])]]
       [],
       ifv (js_and (Inr (explainData st)) (js_not (mem (Inr (explainData st)) ''error''))) [
        el ''h3'' [atx ''class'' (js ''section-title''), atx ''style'' (js ''margin-top:1rem'')] [tx ([0xD83D, 0xDD0E] @ js
            '' Why? '' @ [0xC5ED, 0xCD94, 0xC801, 0x0020, 0xCD94, 0xB860, 0x0020, 0xCCB4, 0xC778])],
        el ''div'' [atx ''class'' (js ''explain-box'')] [
         el ''div'' [atx ''class'' (js ''explain-method'')] [ex (mem (Inr (explainData st)) ''method'')],
         el ''ul'' [atx ''class'' (js ''evidence-list'')] [
          each (js_default (mem (Inr (explainData st)) ''evidence'') (Inr (Arr []))) (\<lambda>_ ev. [el ''li'' [atx ''class'' (js
              ''evidence-item'')] [ex (Inr ev)]])],
         ifv (js_gt (chain (mem (Inr (explainData st)) ''rules_matched'') (\<lambda>x3. (mem x3 ''length''))) (Inr (jsn 0))) [
          el ''div'' [atx ''class'' (js ''explain-section'')] [
           el ''span'' [atx ''class'' (js ''explain-label'')] [tx [0xB9E4, 0xCE6D, 0xB41C, 0x0020, 0xADDC, 0xCE59, 0x003A]],
           each (mem (Inr (explainData st)) ''rules_matched'') (\<lambda>_ rule. [el ''span'' [atx ''class'' (js ''rule-chip'')]
               [ex (Inr rule)]])]]
         [],
         el ''div'' [atx ''class'' (js ''explain-conclusion''), amix ''style'' [Inr (Str (js ''color: '')), (grade_color (mem (Inr
             (explainData st)) ''final_grade''))]] [ex (mem (Inr (explainData st)) ''conclusion'')]]]
       []]]
     []"

definition prolog_v_explainData :: "prolog \<Rightarrow> view" where
  "prolog_v_explainData st =
     ifv (Inr (explainData st)) [
      el ''h3'' [atx ''class'' (js ''section-title''), atx ''style'' (js ''margin-top:1.2rem'')] [tx ([0xD83D, 0xDD0E, 0x0020,
          0xC65C] @ js ''? (Why?) '' @ [0xC5ED, 0xCD94, 0xC801, 0x0020, 0xC124, 0xBA85])],
      ifv (mem (Inr (explainData st)) ''error'') [el ''p'' [atx ''style'' (js ''color:#f87171'')] [ex (mem (Inr (explainData st))
          ''error'')]]
      [
       el ''div'' [atx ''class'' (js ''explain-chain'')] [
        each (js_default (mem (Inr (explainData st)) ''evidence'') (Inr (Arr []))) (\<lambda>i_n ev. [
           el ''div'' [atx ''class'' (js ''explain-step'')] [
            el ''span'' [atx ''class'' (js ''step-num'')] [
             tx ([0x2460, 0x2461, 0x2462, 0x2463, 0x2464, 0x2465, 0x2466, 0x2467, 0x2468, 0x2469, 0x0022] @ js
                 ''[i] ?? (i + 1)'')],
            el ''span'' [] [ex (Inr ev)]]])],
       ifv (js_gt (mem (js_default (mem (Inr (explainData st)) ''flags_fired'') (Inr (Arr []))) ''length'') (Inr (jsn 0))) [
        el ''div'' [atx ''class'' (js ''flags-box''), atx ''style'' (js ''margin-top:0.5rem'')] [
         el ''span'' [atx ''class'' (js ''flags-label'')] [tx [0xBC1C, 0xD654, 0xB41C, 0x0020, 0xD50C, 0xB798, 0xADF8, 0x003A]],
         each (mem (Inr (explainData st)) ''flags_fired'') (\<lambda>_ flag. [el ''span'' [atx ''class'' (js ''flag-chip'')] [ex
             (Inr flag)]])]]
       [
        el ''div'' [atx ''class'' (js ''flags-box''), atx ''style'' (js ''margin-top:0.5rem'')] [
         el ''span'' [atx ''class'' (js ''flags-label'')] [tx [0xBC1C, 0xD654, 0xB41C, 0x0020, 0xD50C, 0xB798, 0xADF8, 0x003A,
             0x0020, 0xC5C6, 0xC74C]]]],
       el ''div'' [atx ''class'' (js ''explain-conclusion''), amix ''style'' [Inr (Str (js ''color:'')), (grade_color (mem (Inr
           (explainData st)) ''final_grade''))]] [ex (mem (Inr (explainData st)) ''conclusion'')],
       el ''p'' [atx ''class'' (js ''prolog-method''), atx ''style'' (js ''margin-top:0.4rem'')] [ex (mem (Inr (explainData st))
           ''method'')]]]
     []"

definition prolog_v_portfolioData :: "prolog \<Rightarrow> view" where
  "prolog_v_portfolioData st =
     ifv (Inr (pr_portfolioData st)) [
      el ''h3'' [atx ''class'' (js ''section-title''), atx ''style'' (js ''margin-top:1.2rem'')] [
       tx [0xD83D, 0xDCE6, 0x0020, 0xC81C, 0xC57D, 0x0020, 0xCDA9, 0xC871, 0x0020, 0xD3EC, 0xD2B8, 0xD3F4, 0xB9AC, 0xC624, 0x0020,
           0x0028, 0xBC31, 0xD2B8, 0xB798, 0xD0B9, 0x0020, 0xD0D0, 0xC0C9, 0x0029]],
      ifv (mem (Inr (pr_portfolioData st)) ''error'') [el ''p'' [atx ''style'' (js ''color:#f87171'')] [ex (mem (Inr
          (pr_portfolioData st)) ''error'')]]
      [
       ifv (mem (Inr (pr_portfolioData st)) ''found'') [
        el ''div'' [atx ''class'' (js ''prolog-portfolio-box''), amix ''style'' [Inr (Str (js ''border-color: '')), (js_default
            (member (Inr (Obj (map (\<lambda>(k, c). (k, Str c)) typeColors))) (mem (Inr (pr_portfolioData st))
            ''portfolio_type'')) (Inr (Str (js ''#6366f1''))))]] [
         el ''div'' [atx ''class'' (js ''portfolio-type-badge''), amix ''style'' [Inr (Str (js ''background: '')), (js_default
             (member (Inr (Obj (map (\<lambda>(k, c). (k, Str c)) typeColors))) (mem (Inr (pr_portfolioData st))
             ''portfolio_type'')) (Inr (Str (js ''#6366f1''))))]] [ex (chain (mem (Inr (pr_portfolioData st)) ''portfolio_type'')
             (\<lambda>x. (str_method (map upper_unit) x)))],
         el ''div'' [atx ''class'' (js ''portfolio-alloc'')] [
          el ''div'' [atx ''class'' (js ''alloc-bar-wrap'')] [
           el ''span'' [atx ''class'' (js ''alloc-label'')] [tx ([0xC8FC, 0xC2DD] @ js '' (Equity)'')],
           el ''div'' [atx ''class'' (js ''alloc-bar'')] [
            el ''div'' [atx ''class'' (js ''alloc-fill equity''), amix ''style'' [Inr (Str (js ''width:'')), (mem (Inr
                (pr_portfolioData st)) ''equity_pct''), Inr (Str (js ''%''))]] []],
           el ''span'' [atx ''class'' (js ''alloc-pct'')] [ex (mem (Inr (pr_portfolioData st)) ''equity_pct''), tx (js ''%'')]],
          el ''div'' [atx ''class'' (js ''alloc-bar-wrap'')] [
           el ''span'' [atx ''class'' (js ''alloc-label'')] [tx ([0xCC44, 0xAD8C] @ js '' (Bond)'')],
           el ''div'' [atx ''class'' (js ''alloc-bar'')] [
            el ''div'' [atx ''class'' (js ''alloc-fill bond''), amix ''style'' [Inr (Str (js ''width:'')), (mem (Inr
                (pr_portfolioData st)) ''bond_pct''), Inr (Str (js ''%''))]] []],
           el ''span'' [atx ''class'' (js ''alloc-pct'')] [ex (mem (Inr (pr_portfolioData st)) ''bond_pct''), tx (js ''%'')]],
          el ''div'' [atx ''class'' (js ''alloc-bar-wrap'')] [
           el ''span'' [atx ''class'' (js ''alloc-label'')] [tx ([0xB300, 0xC548] @ js '' (Alternative)'')],
           el ''div'' [atx ''class'' (js ''alloc-bar'')] [
            el ''div'' [atx ''class'' (js ''alloc-fill alt''), amix ''style'' [Inr (Str (js ''width:'')), (mem (Inr
                (pr_portfolioData st)) ''alternative_pct''), Inr (Str (js ''%''))]] []],
           el ''span'' [atx ''class'' (js ''alloc-pct'')] [ex (mem (Inr (pr_portfolioData st)) ''alternative_pct''), tx (js
               ''%'')]],
          el ''div'' [atx ''class'' (js ''alloc-bar-wrap'')] [
           el ''span'' [atx ''class'' (js ''alloc-label'')] [tx ([0xD604, 0xAE08] @ js '' (Cash)'')],
           el ''div'' [atx ''class'' (js ''alloc-bar'')] [
            el ''div'' [atx ''class'' (js ''alloc-fill cash''), amix ''style'' [Inr (Str (js ''width:'')), (mem (Inr
                (pr_portfolioData st)) ''cash_pct''), Inr (Str (js ''%''))]] []],
           el ''span'' [atx ''class'' (js ''alloc-pct'')] [ex (mem (Inr (pr_portfolioData st)) ''cash_pct''), tx (js ''%'')]]],
         el ''div'' [atx ''class'' (js ''card-grid''), atx ''style'' (js ''margin-top:0.75rem'')] [
          el ''div'' [atx ''class'' (js ''julia-card''), atx ''style'' (js ''border-color:#8b5cf6'')] [
           el ''span'' [atx ''class'' (js ''label'')] [tx [0xAE30, 0xB300, 0xC218, 0xC775, 0xB960]],
           el ''span'' [atx ''class'' (js ''value''), atx ''style'' (js ''color:#a78bfa'')] [ex (chain (mem (Inr (pr_portfolioData
               st)) ''expected_return'') (\<lambda>x2. (fixed 2 x2))), tx (js ''%'')]],
          el ''div'' [atx ''class'' (js ''julia-card''), atx ''style'' (js ''border-color:#8b5cf6'')] [
           el ''span'' [atx ''class'' (js ''label'')] [tx [0xD3EC, 0xD2B8, 0xD3F4, 0xB9AC, 0xC624, 0x0020, 0xB9AC, 0xC2A4,
               0xD06C]],
           el ''span'' [atx ''class'' (js ''value''), atx ''style'' (js ''color:#f59e0b'')] [ex (chain (mem (Inr (pr_portfolioData
               st)) ''portfolio_risk'') (\<lambda>x3. (fixed 2 x3)))]]],
         el ''div'' [atx ''class'' (js ''prolog-method''), atx ''style'' (js ''margin-top:0.5rem'')] [ex (mem (Inr
             (pr_portfolioData st)) ''method'')]]]
       [
        el ''p'' [atx ''style'' (js ''color:#f87171'')] [
         tx [0xD574, 0xB2F9, 0x0020, 0xC81C, 0xC57D, 0xC744, 0x0020, 0xB9CC, 0xC871, 0xD558, 0xB294, 0x0020, 0xD3EC, 0xD2B8,
             0xD3F4, 0xB9AC, 0xC624, 0xB97C, 0x0020, 0xCC3E, 0xC744, 0x0020, 0xC218, 0x0020, 0xC5C6, 0xC2B5, 0xB2C8, 0xB2E4,
             0x002E]]]]]
     []"

definition prolog_view :: "prolog \<Rightarrow> view" where
  "prolog_view st = cat
     [
      el ''section'' [atx ''class'' (js ''panel prolog-panel'')] [
       el ''h2'' [] [
        tx ([0xD83D, 0xDFE3] @ js '' SWI-Prolog 8.4 '' @ [0x00B7, 0x0020, 0xB17C, 0xB9AC, 0x0020, 0xCD94, 0xB860, 0x0020, 0x002B,
            0x0020, 0xC81C, 0xC57D, 0x0020, 0xBC31, 0xD2B8, 0xB798, 0xD0B9] @ js '' (:8011)'')],
       el ''p'' [atx ''class'' (js ''subtitle'')] [
        tx [0xC120, 0xC5B8, 0xC801, 0x0020, 0xADDC, 0xCE59, 0x0020, 0x2192, 0x0020, 0xC790, 0xB3D9, 0x0020, 0xBC31, 0xD2B8,
            0xB798, 0xD0B9, 0x0020, 0xD0D0, 0xC0C9, 0x0020, 0x00B7, 0x0020, 0xC81C, 0xC57D, 0x0020, 0xCDA9, 0xC871, 0x0020,
            0xD3EC, 0xD2B8, 0xD3F4, 0xB9AC, 0xC624, 0x0020, 0x00B7, 0x0020, 0xC2E0, 0xC6A9, 0x0020, 0xB9AC, 0xC2A4, 0xD06C,
            0x0020, 0xB17C, 0xB9AC, 0x0020, 0xCD94, 0xB860, 0x0020, 0xCCB4, 0xC778]],
       prolog_v_prolog_params st,
       prolog_v_prolog_params2 st,
       prolog_v_prolog_btn st,
       prolog_v_explain_btn st,
       prolog_v_inferData st,
       prolog_v_explainData st,
       prolog_v_portfolioData st]]"

section \<open>SwiftActorPanel\<close>

definition swift_v_panel_header :: "swift \<Rightarrow> view" where
  "swift_v_panel_header st =
     el ''div'' [atx ''class'' (js ''panel-header'')] [
      el ''div'' [] [
       el ''h2'' [] [tx ([0xD83E, 0xDD85] @ js '' Swift 6.1 Actor'')],
       el ''p'' [atx ''class'' (js ''subtitle'')] [
        tx (js ''actor '' @ [0xD0A4, 0xC6CC, 0xB4DC, 0x0020, 0x2014, 0x0020, 0xCEF4, 0xD30C, 0xC77C, 0x0020, 0xD0C0, 0xC784] @ js
            '' data race '' @ [0xCC28, 0xB2E8, 0x0020, 0x00B7] @ js '' 200'' @ [0xAC1C] @ js '' Task '' @ [0xB3D9, 0xC2DC, 0x0020,
            0xC811, 0xADFC] @ js '' (:8008)'')]],
      el ''button'' [atx ''class'' (js ''swift-btn''), atx ''onclick'' (js ''runSwift''), aflag ''disabled'' (Inr (Bool
          (swiftLoading st)))] [
       ex (js_if (Inr (Bool (swiftLoading st))) (Inr (Str [0xAC80, 0xC99D, 0x0020, 0xC911, 0x002E, 0x002E, 0x002E])) (Inr (Str (js
           ''Actor '' @ [0xAC80, 0xC99D]))))]]"

definition swift_v_swiftData :: "locale_format \<Rightarrow> swift \<Rightarrow> view" where
  "swift_v_swiftData fmt st =
     ifv (Inr (swiftData st)) [
      ifv (mem (Inr (swiftData st)) ''error'') [
       el ''div'' [atx ''class'' (js ''empty-box'')] [el ''p'' [atx ''style'' (js ''color:#f87171'')] [ex (mem (Inr (swiftData
           st)) ''error'')]]]
      [
       el ''div'' [atx ''class'' (js ''julia-grid'')] [
        el ''div'' [atx ''class'' (js ''julia-card swift-card''), amix ''style'' [Inr (Str (js ''border-color: '')), (js_if (mem
            (Inr (swiftData st)) ''data_race_detected'') (Inr (Str (js ''#ef4444''))) (Inr (Str (js ''#34d399''))))]] [
         el ''span'' [atx ''class'' (js ''jlabel'')] [tx (js ''Data Race'')],
         el ''span'' [atx ''class'' (js ''jval''), amix ''style'' [Inr (Str (js ''color:'')), (js_if (mem (Inr (swiftData st))
             ''data_race_detected'') (Inr (Str (js ''#f87171''))) (Inr (Str (js ''#34d399''))))]] [
          ex (js_if (mem (Inr (swiftData st)) ''data_race_detected'') (Inr (Str [0x26A0, 0xFE0F, 0x0020, 0xAC10, 0xC9C0, 0xB428]))
              (Inr (Str [0x2705, 0x0020, 0xC5C6, 0xC74C])))]],
        el ''div'' [atx ''class'' (js ''julia-card swift-card'')] [
         el ''span'' [atx ''class'' (js ''jlabel'')] [tx ([0xB3D9, 0xC2DC] @ js '' Task'')],
         el ''span'' [atx ''class'' (js ''jval'')] [ex (chain (mem (Inr (swiftData st)) ''concurrent_tasks'') (\<lambda>x.
             (toLocale fmt '''' x)))]],
        el ''div'' [atx ''class'' (js ''julia-card swift-card'')] [
         el ''span'' [atx ''class'' (js ''jlabel'')] [tx ([0xC608, 0xC0C1, 0x0020, 0x002F, 0x0020, 0xC2E4, 0xC81C] @ js
             '' trade'')],
         el ''span'' [atx ''class'' (js ''jval'')] [ex (mem (Inr (swiftData st)) ''expected_trades''), tx (js '' / ''), ex (mem
             (Inr (swiftData st)) ''actual_trades'')]],
        el ''div'' [atx ''class'' (js ''julia-card swift-card'')] [
         el ''span'' [atx ''class'' (js ''jlabel'')] [tx ([0xCD1D] @ js '' Notional'')],
         el ''span'' [atx ''class'' (js ''jval'')] [
          tx (js ''$''),
          ex (toLocale fmt ''undefined, {maximumFractionDigits: 0}'' (as_Number (mem (Inr (swiftData st)) ''total_notional'')))]],
        each (js_default (mem (Inr (swiftData st)) ''positions'') (Inr (Arr []))) (\<lambda>_ pos. [
           el ''div'' [atx ''class'' (js ''julia-card swift-card''), atx ''style'' (js ''border-color:#f59e0b'')] [
            el ''span'' [atx ''class'' (js ''jlabel'')] [ex (mem (Inr pos) ''sym'')],
            el ''span'' [atx ''class'' (js ''jval''), atx ''style'' (js ''color:#fbbf24'')] [ex (mem (Inr pos) ''qty''), tx
                [0xC8FC]]]])],
       el ''p'' [atx ''class'' (js ''swift-note'')] [ex (mem (Inr (swiftData st)) ''guarantee'')]]]
     [
      el ''div'' [atx ''class'' (js ''empty-box'')] [
       el ''p'' [] [
        tx ([0xBC84, 0xD2BC, 0xC744, 0x0020, 0xB20C, 0xB7EC] @ js '' Swift actor '' @ [0xB3D9, 0xC2DC, 0xC131, 0x0020, 0xAC80,
            0xC99D, 0xC744, 0x0020, 0xC2E4, 0xD589, 0xD558, 0xC138, 0xC694] @ js ''. (Swift '' @ [0xC11C, 0xBC84] @ js '' :8008 ''
            @ [0xD544, 0xC694, 0x0029])]]]"

definition swift_v_trade_section :: "locale_format \<Rightarrow> swift \<Rightarrow> view" where
  "swift_v_trade_section fmt st =
     el ''div'' [atx ''class'' (js ''trade-section'')] [
      el ''p'' [atx ''class'' (js ''trade-label'')] [
       tx ([0xAC1C, 0xBCC4, 0x0020, 0xAC70, 0xB798, 0x0020, 0xC2E4, 0xD589] @ js '' (actor '' @ [0xC9C1, 0xB82C, 0xD654, 0x0020,
           0xBCF4, 0xC7A5, 0x0029])],
      el ''div'' [atx ''class'' (js ''trade-form'')] [
       el ''label'' [atx ''class'' (js ''trade-field'')] [
        el ''span'' [] [tx [0xC885, 0xBAA9]],
        el ''input'' [atx ''class'' (js ''trade-input''), atx ''type'' (js ''text''), aval ''value'' (Inr (Str (tradeSym st))),
            atx ''placeholder'' (js ''AAPL'')] []],
       el ''label'' [atx ''class'' (js ''trade-field'')] [
        el ''span'' [] [tx [0xC218, 0xB7C9]],
        el ''input'' [atx ''class'' (js ''trade-input''), atx ''type'' (js ''number''), aval ''value'' (Inr (tradeQty st)), atx
            ''min'' (js ''1''), atx ''max'' (js ''10000'')] []],
       el ''label'' [atx ''class'' (js ''trade-field'')] [
        el ''span'' [] [tx ([0xAC00, 0xACA9] @ js '' ($)'')],
        el ''input'' [atx ''class'' (js ''trade-input''), atx ''type'' (js ''number''), aval ''value'' (Inr (tradePrice st)), atx
            ''min'' (js ''0.01''), atx ''step'' (js ''0.01'')] []],
       el ''button'' [atx ''class'' (js ''swift-btn trade-btn''), atx ''onclick'' (js ''executeTrade''), aflag ''disabled'' (Inr
           (Bool (tradeLoading st)))] [
        ex (js_if (Inr (Bool (tradeLoading st))) (Inr (Str [0xCC98, 0xB9AC, 0x0020, 0xC911, 0x002E, 0x002E, 0x002E])) (Inr (Str
            [0xAC70, 0xB798, 0x0020, 0xC2E4, 0xD589])))]],
      ifv (Inr (tradeResult st)) [
       ifv (mem (Inr (tradeResult st)) ''error'') [el ''p'' [atx ''class'' (js ''trade-error'')] [tx [0x274C, 0x0020], ex (mem
           (Inr (tradeResult st)) ''error'')]]
       [
        el ''p'' [atx ''class'' (js ''trade-ok'')] [
         tx [0x2705, 0x0020, 0xAC70, 0xB798, 0x0020, 0xC644, 0xB8CC, 0x0020, 0x00B7, 0x0020, 0xB204, 0xC801, 0x0020],
         ex (chain (mem (Inr (tradeResult st)) ''total_trades'') (\<lambda>x. (toLocale fmt '''' x))),
         tx [0xAC74]]]]
      []]"

definition swift_view :: "locale_format \<Rightarrow> swift \<Rightarrow> view" where
  "swift_view fmt st = cat
     [
      el ''section'' [atx ''class'' (js ''panel'')] [swift_v_panel_header st, swift_v_swiftData fmt st, swift_v_trade_section fmt
          st]]"

section \<open>VPanel\<close>

definition vquant_v_v_btn :: "vquant \<Rightarrow> view" where
  "vquant_v_v_btn st =
     el ''button'' [atx ''class'' (js ''v-btn''), atx ''onclick'' (js ''runV''), aflag ''disabled'' (Inr (Bool (vLoading st)))] [
      ex (js_if (Inr (Bool (vLoading st))) (Inr (Str [0xBC31, 0xD14C, 0xC2A4, 0xD2B8, 0x0020, 0xC911, 0x002E, 0x002E, 0x002E]))
          (Inr (Str [0xC804, 0xB7B5, 0x0020, 0xBC31, 0xD14C, 0xC2A4, 0xD2B8])))]"

definition vquant_v_param_grid :: "vquant \<Rightarrow> view" where
  "vquant_v_param_grid st =
     el ''div'' [atx ''class'' (js ''param-grid'')] [
      el ''div'' [atx ''class'' (js ''param-row'')] [
       el ''label'' [atx ''for'' (js ''v-ticks'')] [tx (js ''Ticks'')],
       el ''input'' [atx ''id'' (js ''v-ticks''), atx ''type'' (js ''range''), atx ''min'' (js ''10000''), atx ''max'' (js
           ''500000''), atx ''step'' (js ''10000''), aval ''value'' (Inr (Num (ticks st)))] [],
       el ''span'' [atx ''class'' (js ''param-val'')] [ex (fixed 0 (js_over (Inr (Num (ticks st))) (Inr (jsn 1000)))), tx (js
           ''k'')]],
      el ''div'' [atx ''class'' (js ''param-row'')] [
       el ''label'' [atx ''for'' (js ''v-fast-ma'')] [tx (js ''Fast MA'')],
       el ''input'' [atx ''id'' (js ''v-fast-ma''), atx ''type'' (js ''range''), atx ''min'' (js ''3''), atx ''max'' (js ''50''),
           atx ''step'' (js ''1''), aval ''value'' (Inr (Num (fastPeriod st)))] [],
       el ''span'' [atx ''class'' (js ''param-val'')] [ex (Inr (Num (fastPeriod st)))]],
      el ''div'' [atx ''class'' (js ''param-row'')] [
       el ''label'' [atx ''for'' (js ''v-slow-ma'')] [tx (js ''Slow MA'')],
       el ''input'' [atx ''id'' (js ''v-slow-ma''), atx ''type'' (js ''range''), atx ''min'' (js ''10''), atx ''max'' (js
           ''200''), atx ''step'' (js ''5''), aval ''value'' (Inr (Num (slowPeriod st)))] [],
       el ''span'' [atx ''class'' (js ''param-val'')] [ex (Inr (Num (slowPeriod st)))]],
      el ''div'' [atx ''class'' (js ''param-row'')] [
       el ''label'' [atx ''for'' (js ''v-seed'')] [tx (js ''Seed'')],
       el ''input'' [atx ''id'' (js ''v-seed''), atx ''type'' (js ''range''), atx ''min'' (js ''1''), atx ''max'' (js ''99''), atx
           ''step'' (js ''1''), aval ''value'' (Inr (Num (seed st)))] [],
       el ''span'' [atx ''class'' (js ''param-val'')] [ex (Inr (Num (seed st)))]]]"

definition vquant_v_vData :: "locale_format \<Rightarrow> vquant \<Rightarrow> view" where
  "vquant_v_vData fmt st =
     ifv (Inr (vData st)) [
      ifv (mem (Inr (vData st)) ''error'') [
       el ''div'' [atx ''class'' (js ''error-box'')] [el ''p'' [atx ''style'' (js ''color:#f87171'')] [ex (mem (Inr (vData st))
           ''error'')]]]
      [
       el ''div'' [atx ''class'' (js ''julia-card v-card'')] [
        el ''span'' [atx ''class'' (js ''label'')] [tx [0xC804, 0xB7B5]],
        el ''span'' [atx ''class'' (js ''value'')] [ex (mem (Inr (vData st)) ''strategy'')]],
       el ''div'' [atx ''class'' (js ''julia-card v-card'')] [
        el ''span'' [atx ''class'' (js ''label'')] [tx [0xD2F1, 0x0020, 0xC218]],
        el ''span'' [atx ''class'' (js ''value'')] [ex (chain (mem (Inr (vData st)) ''ticks'') (\<lambda>x. (toLocale fmt ''''
            x)))]],
       el ''div'' [atx ''class'' (js ''julia-card v-card'')] [
        el ''span'' [atx ''class'' (js ''label'')] [tx [0xC2B9, 0xB960]],
        el ''span'' [atx ''class'' (js ''value'')] [ex (fixed 1 (js_times (js_default (mem (Inr (vData st)) ''win_rate'') (Inr
            (jsn 0))) (Inr (jsn 100)))), tx (js ''%'')]],
       el ''div'' [atx ''class'' (js ''julia-card v-card'')] [
        el ''span'' [atx ''class'' (js ''label'')] [tx [0xCD1D, 0xC218, 0xC775, 0xB960]],
        el ''span'' [atx ''class'' (js ''value'')] [
         ex (fixed 2 (js_times (js_default (mem (Inr (vData st)) ''total_return'') (Inr (jsn 0))) (Inr (jsn 100)))),
         tx (js ''%'')]],
       el ''div'' [atx ''class'' (js ''julia-card v-card'')] [
        el ''span'' [atx ''class'' (js ''label'')] [tx (js ''Sharpe'')],
        el ''span'' [atx ''class'' (js ''value'')] [ex (fixed 3 (js_default (mem (Inr (vData st)) ''sharpe_ratio'') (Inr (jsn
            0))))]],
       el ''div'' [atx ''class'' (js ''julia-card v-card''), atx ''style'' (js ''border-color:#22d3ee'')] [
        el ''span'' [atx ''class'' (js ''label'')] [tx [0x0047, 0x0043, 0x0020, 0xC77C, 0xC2DC, 0xC815, 0xC9C0]],
        el ''span'' [atx ''class'' (js ''value''), atx ''style'' (js ''color:#22d3ee'')] [ex (mem (Inr (vData st))
            ''gc_pauses_ms''), tx (js ''ms'')]],
       ifv (mem (Inr (vData st)) ''stress'') [
        el ''div'' [atx ''class'' (js ''julia-card v-card'')] [
         el ''span'' [atx ''class'' (js ''label'')] [
          tx [0xC2A4, 0xD2B8, 0xB808, 0xC2A4, 0x0020, 0x0028],
          ex (chain (mem (mem (Inr (vData st)) ''stress'') ''total_ticks'') (\<lambda>x2. (toLocale fmt '''' x2))),
          tx [0x0020, 0xD2F1, 0x0029]],
         el ''span'' [atx ''class'' (js ''value'')] [ex (mem (mem (Inr (vData st)) ''stress'') ''elapsed_ms''), tx (js ''ms'')]]]
       []]]
     [
      el ''div'' [atx ''class'' (js ''empty-box'')] [
       el ''p'' [] [
        tx ([0x004D, 0x0041, 0x0020, 0xD06C, 0xB85C, 0xC2A4, 0xC624, 0xBC84, 0x0020, 0xC804, 0xB7B5, 0x0020, 0xBC31, 0xD14C,
            0xC2A4, 0xD2B8, 0xB97C, 0x0020, 0xC2E4, 0xD589, 0xD558, 0xC138, 0xC694] @ js ''. (V '' @ [0xC11C, 0xBC84] @ js
            '' :4002 '' @ [0xD544, 0xC694] @ js '', v -gc none '' @ [0xCEF4, 0xD30C, 0xC77C, 0x0029])]]]"

definition vquant_view :: "locale_format \<Rightarrow> vquant \<Rightarrow> view" where
  "vquant_view fmt st = cat
     [
      el ''section'' [atx ''class'' (js ''panel v-panel'')] [
       el ''h2'' [] [
        tx (js ''V 0.5.1 '' @ [0x00B7] @ js '' Zero-GC '' @ [0xC804, 0xB7B5, 0x0020, 0xBC31, 0xD14C, 0xC2A4, 0xD130] @ js
            '' (:4002)'')],
       el ''p'' [atx ''class'' (js ''subtitle'')] [
        tx (js ''v -gc none '' @ [0xCEF4, 0xD30C, 0xC77C, 0x0020, 0x2192] @ js '' GC '' @ [0xC77C, 0xC2DC, 0xC815, 0xC9C0, 0x0020,
            0xBB3C, 0xB9AC, 0xC801, 0x0020, 0xBD88, 0xAC00, 0x0020, 0x2192, 0x0020, 0xACB0, 0xC815, 0xB860, 0xC801, 0x0020,
            0xB808, 0xC774, 0xD134, 0xC2DC])],
       vquant_v_v_btn st,
       vquant_v_param_grid st,
       vquant_v_vData fmt st]]"

section \<open>What a failure shows\<close>

lemma clojure_reports: "view_reports (clojure_view fmt) [clojureData, transferRes] [amount] (\<lambda>s. \<not> clojureLoading s \<and>
      \<not> transferLoading s) s"
  unfolding view_reports_def list.pred_inject displays_iff
  by (intro impI, elim conjE idle_cases) 
    (simp_all add: view_rules field_value_shown clojure_v_panel_header_def clojure_v_transfer_form_def clojure_v_transferRes_def
      clojure_v_clojureData_def clojure_view_def
    cong: if_cong view_congs split del: if_split)

lemma erlang_reports: "view_reports (erlang_view) [erlangData, er_riskData] [] (\<lambda>s. \<not> erlangLoading s \<and> \<not>
      er_riskLoading s) s"
  unfolding view_reports_def list.pred_inject displays_iff
  by (intro impI, elim conjE idle_cases) 
    (simp_all add: view_rules field_value_shown erlang_v_panel_header_def erlang_v_erlangData_def erlang_v_risk_section_def
      erlang_view_def
    cong: if_cong view_congs split del: if_split)

lemma gleam_reports: "view_reports (gleam_view) [gleamData, gl_pipelineData, gl_riskData] [] (\<lambda>s. \<not> gleamLoading s \<and>
      \<not> gl_pipelineLoading s \<and> \<not> gl_riskLoading s) s"
  unfolding view_reports_def list.pred_inject displays_iff
  by (intro impI, elim conjE idle_cases) 
    (simp_all add: view_rules field_value_shown gleam_v_panel_header_def gleam_v_gleamData_def gleam_v_pipelineData_def
      gleam_v_riskData_def gleam_v_gleamData2_def gleam_view_def
    cong: if_cong view_congs split del: if_split)

lemma java_reports: "view_reports (java_view fmt) [javaData, jv_pipelineData] [] (\<lambda>s. \<not> javaLoading s \<and> \<not>
      jv_pipelineLoading s \<and> javaStatus s = Null) s"
  unfolding view_reports_def list.pred_inject displays_iff
  by (intro impI, elim conjE idle_cases) 
    (simp_all add: view_rules field_value_shown java_v_panel_header_def java_v_javaData_def java_v_pipelineData_def java_view_def
    cong: if_cong view_congs split del: if_split)

lemma lua_stream_reports: "view_reports (lua_stream_view fmt) [luaData] [] (\<lambda>s. \<not> luaLoading s) s"
  unfolding view_reports_def list.pred_inject displays_iff
  by (intro impI, elim conjE idle_cases) 
    (simp_all add: view_rules field_value_shown lua_stream_v_panel_header_def lua_stream_v_luaData_def lua_stream_view_def
    cong: if_cong view_congs split del: if_split)

lemma prolog_reports: "view_reports (prolog_view) [inferData, pr_portfolioData, explainData] [] (\<lambda>s. \<not> pr_loading s \<and>
      \<not> explainLoading s \<and> statusData s = Null) s"
  unfolding view_reports_def list.pred_inject displays_iff
  by (intro impI, elim conjE idle_cases) 
    (simp_all add: view_rules field_value_shown prolog_v_prolog_params_def prolog_v_prolog_params2_def prolog_v_prolog_btn_def
      prolog_v_explain_btn_def prolog_v_inferData_def prolog_v_explainData_def prolog_v_portfolioData_def prolog_view_def
    cong: if_cong view_congs split del: if_split)

lemma swift_reports: "view_reports (swift_view fmt) [swiftData, tradeResult] [tradeQty, tradePrice] (\<lambda>s. \<not> swiftLoading s
      \<and> \<not> tradeLoading s) s"
  unfolding view_reports_def list.pred_inject displays_iff
  by (intro impI, elim conjE idle_cases) 
    (simp_all add: view_rules field_value_shown swift_v_panel_header_def swift_v_swiftData_def swift_v_trade_section_def swift_view_def
    cong: if_cong view_congs split del: if_split)

lemma vquant_reports: "view_reports (vquant_view fmt) [vData] [] (\<lambda>s. \<not> vLoading s) s"
  unfolding view_reports_def list.pred_inject displays_iff
  by (intro impI, elim conjE idle_cases) 
    (simp_all add: view_rules field_value_shown vquant_v_v_btn_def vquant_v_param_grid_def vquant_v_vData_def vquant_view_def
    cong: if_cong view_congs split del: if_split)

end
