(* ===== verification/View_Live.thy ===== *)
theory View_Live
  imports Portal_Live View_Base
begin

text \<open>
  The markup of the Elixir and the status panel: for each panel, one definition per part of its
  template and \<open>_view\<close> for the whole.
\<close>

section \<open>ElixirPanel\<close>

definition elixir_v_panel_header :: "elixir \<Rightarrow> view" where
  "elixir_v_panel_header st =
     el ''div'' [atx ''class'' (js ''panel-header'')] [
      el ''div'' [] [
       el ''h2'' [] [tx ([0xD83D, 0xDC9C] @ js '' Elixir Hub'')],
       el ''p'' [atx ''class'' (js ''subtitle'')] [
        tx (js ''Phoenix WebSocket '' @ [0x00B7] @ js '' GenServer '' @ [0xD3F4, 0xB9C1, 0x0020, 0x00B7] @ js '' OTP '' @ [0xC288,
            0xD37C, 0xBC14, 0xC774, 0xC800] @ js '' (:4000)'')]],
      el ''div'' [atx ''class'' (js ''btn-group'')] [
       el ''button'' [atx ''class'' (js ''elixir-btn''), atx ''onclick'' (js ''checkElixir'')] [tx (js ''HTTP '' @ [0xC0C1,
           0xD0DC])],
       el ''button'' [amix ''class'' [Inr (Str (js ''elixir-btn auto '')), (js_if (Inr (Bool (autoReconnect st))) (Inr (Str (js
           ''active''))) (Inr (Str [])))], atx ''onclick'' (js ''toggleAutoReconnect'')] [
        ex (js_if (Inr (Bool (autoReconnect st))) (Inr (Str [0x23F8, 0x0020, 0xC790, 0xB3D9, 0x0020, 0xC7AC, 0xC5F0, 0xACB0,
            0x0020, 0x004F, 0x004E])) (Inr (Str [0xD83D, 0xDD04, 0x0020, 0xC790, 0xB3D9, 0x0020, 0xC7AC, 0xC5F0, 0xACB0])))],
       ifv (Inr (Bool (wsConnected st))) [
        el ''button'' [atx ''class'' (js ''elixir-btn disconnect''), atx ''onclick'' (js ''disconnectWS'')] [tx [0x0057, 0x0053,
            0x0020, 0xD574, 0xC81C]]]
       [
        ifv (js_not (Inr (Bool (autoReconnect st)))) [
         el ''button'' [atx ''class'' (js ''elixir-btn ws''), atx ''onclick'' (js ''connectWS'')] [tx [0x0057, 0x0053, 0x0020,
             0xC2E4, 0xC2DC, 0xAC04, 0x0020, 0xC5F0, 0xACB0]]]
        []]]]"

definition elixir_v_elixirStatus :: "elixir \<Rightarrow> view" where
  "elixir_v_elixirStatus st =
     ifv (Inr (elixirStatus st)) [
      el ''div'' [atx ''class'' (js ''stats-row'')] [
       el ''div'' [atx ''class'' (js ''stat-box hit'')] [
        tx ([0xD83D, 0xDFE2] @ js '' Status''),
        el ''br'' [] [],
        el ''strong'' [] [ex (js_default (mem (Inr (elixirStatus st)) ''elixir_hub'') (mem (Inr (elixirStatus st)) ''status''))]],
       el ''div'' [atx ''class'' (js ''stat-box engine'')] [
        tx ([0xD83D, 0xDD50] @ js '' Polled At''),
        el ''br'' [] [],
        el ''strong'' [] [ex (js_default (mem (Inr (elixirStatus st)) ''polled_at'') (Inr (Str (js ''N/A''))))]],
       el ''div'' [atx ''class'' (js ''stat-box miss'')] [
        tx ([0xD83D, 0xDD17] @ js '' Go Status''),
        el ''br'' [] [],
        el ''strong'' [] [
         ex (js_default (js_default (mem (Inr (elixirStatus st)) ''go_status'') (mem (Inr (elixirStatus st)) ''status'')) (Inr
             (Str (js ''N/A''))))]]]]
     []"

definition elixir_v_ws_status :: "elixir \<Rightarrow> view" where
  "elixir_v_ws_status st =
     el ''div'' [atx ''class'' (js ''ws-status''), aflag ''class:connected'' (Inr (Bool (wsConnected st)))] [
      ex (js_if (Inr (Bool (wsConnected st))) (Inr (Str ([0xD83D, 0xDD34] @ js '' LIVE''))) (Inr (Str ([0x26AB] @ js
          '' OFFLINE'')))),
      ex (Inr (Str (wsLog st)))]"

definition elixir_v_liveSnapshot :: "locale_format \<Rightarrow> elixir \<Rightarrow> view" where
  "elixir_v_liveSnapshot fmt st =
     ifv (Inr (liveSnapshot st)) [
      el ''div'' [atx ''class'' (js ''live-box'')] [
       el ''div'' [atx ''class'' (js ''live-header'')] [
        tx ([0xD83D, 0xDCE1, 0x0020, 0xC2E4, 0xC2DC, 0xAC04, 0x0020, 0xC2A4, 0xB0C5, 0xC20F] @ js '' (Elixir GenServer 10s '' @
            [0xC8FC, 0xAE30, 0x0020, 0xBE0C, 0xB85C, 0xB4DC, 0xCE90, 0xC2A4, 0xD2B8, 0x0020, 0x00B7, 0x0020, 0xCD1D, 0x0020]),
        ex (Inr (jsn (snapshotCount st))),
        tx [0xD68C, 0x0020, 0xC218, 0xC2E0, 0x0029]],
       el ''div'' [atx ''class'' (js ''stats-row'')] [
        el ''div'' [atx ''class'' (js ''stat-box hit'')] [
         tx (js ''Elixir Hub''),
         el ''br'' [] [],
         el ''strong'' [] [ex (js_default (mem (Inr (liveSnapshot st)) ''elixir_hub'') (Inr (Str (js ''online''))))]],
        el ''div'' [atx ''class'' (js ''stat-box engine'')] [
         tx (js ''Go Status''),
         el ''br'' [] [],
         el ''strong'' [] [
          ex (js_default (js_default (mem (Inr (liveSnapshot st)) ''status'') (mem (Inr (liveSnapshot st)) ''go_status'')) (Inr
              (Str (js ''N/A''))))]],
        el ''div'' [atx ''class'' (js ''stat-box miss'')] [
         tx (js ''DB Layer''),
         el ''br'' [] [],
         el ''strong'' [] [ex (js_default (mem (Inr (liveSnapshot st)) ''database'') (Inr (Str (js ''N/A''))))]],
        el ''div'' [atx ''class'' (js ''stat-box hit'')] [
         tx (js ''Polled At''),
         el ''br'' [] [],
         el ''strong'' [] [
          ex (js_default (chain (mem (Inr (liveSnapshot st)) ''polled_at'') (\<lambda>x. (slice_of 11 19 x))) (Inr (Str (js
              ''N/A''))))]]],
       ifv (chain (mem (Inr (liveSnapshot st)) ''engine_analysis'') (\<lambda>x2. (mem x2 ''version''))) [
        el ''div'' [atx ''class'' (js ''engine-row'')] [
         el ''span'' [atx ''class'' (js ''eng-label'')] [tx ([0xD83D, 0xDC0D] @ js '' Python Engine:'')],
         el ''span'' [atx ''class'' (js ''eng-val'')] [ex (mem (mem (Inr (liveSnapshot st)) ''engine_analysis'') ''version'')],
         el ''span'' [atx ''class'' (js ''eng-sub'')] [ex (js_default (mem (mem (Inr (liveSnapshot st)) ''engine_analysis'')
             ''recommendation'') (Inr (Str [])))]]]
       [],
       ifv (js_eq (chain (mem (Inr (liveSnapshot st)) ''pipeline_node'') (\<lambda>x3. (mem x3 ''status''))) (Inr (Str (js
           ''online'')))) [
        el ''div'' [atx ''class'' (js ''engine-row'')] [
         el ''span'' [atx ''class'' (js ''eng-label'')] [tx ([0xD83E, 0xDD80] @ js '' Rust Pipeline:'')],
         el ''span'' [atx ''class'' (js ''eng-val'')] [ex (js_default (mem (mem (Inr (liveSnapshot st)) ''pipeline_node'')
             ''module'') (Inr (Str (js ''online''))))],
         ifv (js_ne (mem (mem (Inr (liveSnapshot st)) ''pipeline_node'') ''total_risk_logs'') (Inr Undef)) [
          el ''span'' [atx ''class'' (js ''eng-sub'')] [tx (js ''logs: ''), ex (toLocale fmt '''' (mem (mem (Inr (liveSnapshot
              st)) ''pipeline_node'') ''total_risk_logs''))]]
         []]]
       []]]
     [
      ifv (js_not (Inr (elixirStatus st))) [
       el ''div'' [atx ''class'' (js ''empty-box'')] [
        el ''p'' [] [
         tx (js ''Elixir/Erlang '' @ [0xC124, 0xCE58, 0x0020, 0xD6C4, 0x0020]),
         el ''code'' [] [tx (js ''mix deps.get && mix run'')],
         tx [0x0020, 0xC73C, 0xB85C, 0x0020, 0xC2E4, 0xD589, 0xD558, 0xC138, 0xC694, 0x002E]]]]
      []]"

definition elixir_view :: "locale_format \<Rightarrow> elixir \<Rightarrow> view" where
  "elixir_view fmt st = cat
     [
      el ''section'' [atx ''class'' (js ''panel'')] [elixir_v_panel_header st, elixir_v_elixirStatus st, elixir_v_ws_status st,
          elixir_v_liveSnapshot fmt st]]"

section \<open>SystemStatusPanel\<close>

definition sys_v_panel_header :: "sys \<Rightarrow> view" where
  "sys_v_panel_header st =
     el ''div'' [atx ''class'' (js ''panel-header'')] [
      el ''div'' [] [
       el ''h2'' [] [tx (js ''System Status'')],
       el ''p'' [atx ''class'' (js ''subtitle'')] [
        tx (js ''Svelte 5 '' @ [0x2194] @ js '' Go '' @ [0x2194] @ js '' Python '' @ [0x2194] @ js '' Rust '' @ [0x2194, 0x0020,
            0x0044, 0x0042])]],
      el ''div'' [atx ''class'' (js ''btn-group'')] [
       el ''button'' [amix ''class'' [Inr (Str (js ''auto-btn '')), (js_if (Inr (Bool (autoSync st))) (Inr (Str (js ''active'')))
           (Inr (Str [])))], atx ''onclick'' (js ''toggleAutoSync'')] [
        ex (js_if (Inr (Bool (autoSync st))) (Inr (Str ([0x23F8] @ js '' Auto-Sync ON''))) (Inr (Str ([0x25B6] @ js
            '' Auto-Sync''))))],
       el ''button'' [atx ''class'' (js ''sync-btn''), atx ''onclick'' (js ''syncSystem'')] [tx (js ''Sync System'')],
       el ''button'' [amix ''class'' [Inr (Str (js ''agg-btn '')), (js_if (Inr (Bool (sseConnected st))) (Inr (Str (js
           ''sse-active''))) (Inr (Str [])))], atx ''onclick'' (js ''toggleSSE'')] [
        ex (js_if (Inr (Bool (sseConnected st))) (Inr (Str ([0xD83D, 0xDFE2] @ js '' Live '' @ [0xC2A4, 0xD2B8, 0xB9BC, 0x0020,
            0xC911, 0xC9C0]))) (Inr (Str ([0xC804, 0xCCB4, 0x0020, 0xD5EC, 0xC2A4, 0xCCB4, 0xD06C] @ js '' (SSE)''))))],
       el ''button'' [atx ''class'' (js ''report-btn''), atx ''onclick'' (js ''runReport''), aflag ''disabled'' (Inr (Bool
           (reportLoading st)))] [
        ex (js_if (Inr (Bool (reportLoading st))) (Inr (Str [0xB9AC, 0xD3EC, 0xD2B8, 0x0020, 0xC0DD, 0xC131, 0x0020, 0xC911,
            0x002E, 0x002E, 0x002E])) (Inr (Str [0xD1B5, 0xD569, 0x0020, 0xB9AC, 0xD3EC, 0xD2B8])))]]]"

definition sys_v_errorMsg :: "locale_format \<Rightarrow> sys \<Rightarrow> view" where
  "sys_v_errorMsg fmt st =
     ifv (Inr (errorMsg st)) [el ''div'' [atx ''class'' (js ''error-box'')] [el ''p'' [] [tx [0x26A0, 0xFE0F, 0x0020], ex (Inr
         (errorMsg st))]]]
     [
      ifv (Inr (systemData st)) [
       el ''div'' [atx ''class'' (js ''card-grid'')] [
        el ''div'' [atx ''class'' (js ''status-card'')] [
         el ''h3'' [] [tx ([0xD83C, 0xDFF9] @ js '' Go (Backend)'')],
         el ''p'' [atx ''class'' (js ''status online'')] [tx [0x25CF, 0x0020], ex (mem (Inr (systemData st)) ''status'')],
         el ''span'' [atx ''class'' (js ''version'')] [ex (mem (Inr (systemData st)) ''system'')]],
        el ''div'' [atx ''class'' (js ''status-card'')] [
         el ''h3'' [] [tx ([0xD83D, 0xDDC4, 0xFE0F] @ js '' PostgreSQL / Redis'')],
         el ''p'' [amix ''class'' [Inr (Str (js ''status '')), (js_if (js_eq (mem (Inr (systemData st)) ''database'') (Inr (Str
             (js ''connected'')))) (Inr (Str (js ''online''))) (Inr (Str (js ''error''))))]] [tx [0x25CF, 0x0020], ex (mem (Inr
             (systemData st)) ''database'')],
         el ''span'' [atx ''class'' (js ''version'')] [tx (js ''Data & Cache Layer'')]],
        el ''div'' [atx ''class'' (js ''status-card'')] [
         el ''h3'' [] [tx ([0xD83D, 0xDC0D] @ js '' Python (Engine)'')],
         ifv (mem (mem (Inr (systemData st)) ''engine_analysis'') ''version'') [
          el ''p'' [atx ''class'' (js ''status online'')] [tx ([0x25CF] @ js '' online'')],
          el ''span'' [atx ''class'' (js ''version'')] [ex (mem (mem (Inr (systemData st)) ''engine_analysis'') ''version'')],
          el ''div'' [atx ''class'' (js ''badge'')] [ex (mem (mem (Inr (systemData st)) ''engine_analysis'') ''source'')],
          el ''div'' [atx ''class'' (js ''financial-data'')] [
           el ''p'' [atx ''class'' (js ''rate'')] [tx [0xD83D, 0xDCB8, 0x0020], ex (mem (mem (Inr (systemData st))
               ''engine_analysis'') ''recommendation'')],
           ifv (mem (mem (Inr (systemData st)) ''engine_analysis'') ''rates'') [
            el ''div'' [atx ''class'' (js ''currency-grid'')] [
             each (entries (mem (mem (Inr (systemData st)) ''engine_analysis'') ''rates'')) (\<lambda>_ kv. [bind_const (item (Inr
                 kv) 0) (\<lambda>currency. [bind_const (item (Inr kv) 1) (\<lambda>value. [
                el ''span'' [atx ''class'' (js ''currency-chip'')] [
                 ex (Inr currency),
                 tx (js '': ''),
                 ex (js_if (js_eq (type_of (Inr value)) (Inr (Str (js ''number'')))) (fixed 2 (Inr value)) (Inr value))]])])])]]
           [],
           el ''p'' [atx ''class'' (js ''risk'')] [
            tx ([0x26A0, 0xFE0F] @ js '' Risk Score: ''),
            ex (mem (mem (Inr (systemData st)) ''engine_analysis'') ''computation_result'')]]]
         [el ''p'' [atx ''class'' (js ''status error'')] [tx ([0x25CF] @ js '' Offline'')]]],
        el ''div'' [atx ''class'' (js ''status-card'')] [
         el ''h3'' [] [tx ([0x26A1] @ js '' Zig (Core)'')],
         ifv (chain (mem (Inr (systemData st)) ''engine_analysis'') (\<lambda>x. (chain (mem x ''zig_analysis'') (\<lambda>x2.
             (mem x2 ''engine''))))) [
          el ''p'' [atx ''class'' (js ''status online'')] [tx ([0x25CF] @ js '' online'')],
          el ''span'' [atx ''class'' (js ''version'')] [ex (mem (mem (mem (Inr (systemData st)) ''engine_analysis'')
              ''zig_analysis'') ''engine'')],
          el ''div'' [atx ''class'' (js ''financial-data'')] [
           el ''p'' [atx ''class'' (js ''rate'')] [tx [0x03C3, 0x0020], ex (mem (mem (mem (Inr (systemData st))
               ''engine_analysis'') ''zig_analysis'') ''volatility'')],
           el ''p'' [atx ''class'' (js ''risk'')] [
            tx (js ''VaR 95%: '' @ [0x20A9]),
            ex (chain (mem (mem (mem (Inr (systemData st)) ''engine_analysis'') ''zig_analysis'') ''var_95'') (\<lambda>x3.
                (toLocale fmt '''' x3)))]]]
         [el ''p'' [atx ''class'' (js ''status error'')] [tx ([0x25CF] @ js '' Offline'')]]],
        el ''div'' [atx ''class'' (js ''status-card'')] [
         el ''h3'' [] [tx ([0xD83E, 0xDD80] @ js '' Rust (Pipeline)'')],
         ifv (js_eq (mem (mem (Inr (systemData st)) ''pipeline_node'') ''status'') (Inr (Str (js ''online'')))) [
          el ''p'' [atx ''class'' (js ''status online'')] [tx [0x25CF, 0x0020], ex (mem (mem (Inr (systemData st))
              ''pipeline_node'') ''status'')],
          el ''span'' [atx ''class'' (js ''version'')] [ex (mem (mem (Inr (systemData st)) ''pipeline_node'') ''module'')],
          ifv (js_ne (mem (mem (Inr (systemData st)) ''pipeline_node'') ''total_risk_logs'') (Inr Undef)) [
           el ''span'' [atx ''class'' (js ''version'')] [
            tx (js ''DB records: ''),
            ex (toLocale fmt '''' (mem (mem (Inr (systemData st)) ''pipeline_node'') ''total_risk_logs''))]]
          []]
         [el ''p'' [atx ''class'' (js ''status error'')] [tx ([0x25CF] @ js '' Offline'')]]]]]
      [
       el ''div'' [atx ''class'' (js ''empty-box'')] [
        el ''p'' [] [
         tx ([0xC6B0, 0xCE21, 0x0020, 0xC0C1, 0xB2E8, 0xC758] @ js '' Sync System '' @ [0xBC84, 0xD2BC, 0xC744, 0x0020, 0xB20C,
             0xB7EC, 0x0020, 0xC804, 0xCCB4, 0x0020, 0xC2DC, 0xC2A4, 0xD15C, 0xC744, 0x0020, 0xC2A4, 0xCE94, 0xD558, 0xC138,
             0xC694, 0x002E])]]]]"

definition sys_v_reportData :: "sys \<Rightarrow> view" where
  "sys_v_reportData st =
     ifv (Inr (reportData st)) [
      el ''div'' [atx ''class'' (js ''report-section'')] [
       el ''div'' [atx ''class'' (js ''report-header'')] [
        tx [0xD83D, 0xDCCB, 0x0020, 0xD1B5, 0xD569, 0x0020, 0xB9AC, 0xC2A4, 0xD06C, 0x0020, 0xB9AC, 0xD3EC, 0xD2B8, 0x0020],
        el ''span'' [atx ''class'' (js ''report-time'')] [
         ex (chain (mem (Inr (reportData st)) ''generated_at'') (\<lambda>x. (str_method (replace_first (js ''T'') (js '' ''))
             (slice_of 0 19 x))))]],
       ifv (mem (Inr (reportData st)) ''error'') [el ''p'' [atx ''style'' (js ''color:#f87171;font-size:0.85rem'')] [ex (mem (Inr
           (reportData st)) ''error'')]]
       [
        el ''div'' [atx ''class'' (js ''report-grid'')] [
         ifv (js_and (mem (Inr (reportData st)) ''rust_risk'') (js_not (mem (mem (Inr (reportData st)) ''rust_risk'')
             ''status''))) [
          el ''div'' [atx ''class'' (js ''report-card'')] [
           el ''span'' [atx ''class'' (js ''rc-label'')] [tx ([0xD83E, 0xDD80] @ js '' Rust Risk'')],
           el ''span'' [atx ''class'' (js ''rc-val'')] [ex (js_default (mem (mem (Inr (reportData st)) ''rust_risk'') ''count'')
               (Inr (Str [0x2014]))), tx (js '' logs'')],
           el ''span'' [atx ''class'' (js ''rc-sub'')] [
            tx (js ''avg VaR ''),
            ex (js_default (chain (mem (mem (Inr (reportData st)) ''rust_risk'') ''avg_var'') (\<lambda>x2. (fixed 4 x2))) (Inr
                (Str [0x2014])))]]]
         [
          el ''div'' [atx ''class'' (js ''report-card offline'')] [
           el ''span'' [atx ''class'' (js ''rc-label'')] [tx ([0xD83E, 0xDD80] @ js '' Rust Risk'')],
           el ''span'' [atx ''class'' (js ''rc-val'')] [tx (js ''offline'')]]],
         ifv (chain (mem (Inr (reportData st)) ''python_analysis'') (\<lambda>x3. (mem x3 ''version''))) [
          el ''div'' [atx ''class'' (js ''report-card'')] [
           el ''span'' [atx ''class'' (js ''rc-label'')] [tx ([0xD83D, 0xDC0D] @ js '' Python'')],
           el ''span'' [atx ''class'' (js ''rc-val'')] [ex (js_default (mem (mem (Inr (reportData st)) ''python_analysis'')
               ''recommendation'') (Inr (Str (js ''online''))))],
           el ''span'' [atx ''class'' (js ''rc-sub'')] [ex (js_default (mem (mem (Inr (reportData st)) ''python_analysis'')
               ''source'') (Inr (Str [])))]]]
         [
          el ''div'' [atx ''class'' (js ''report-card offline'')] [
           el ''span'' [atx ''class'' (js ''rc-label'')] [tx ([0xD83D, 0xDC0D] @ js '' Python'')],
           el ''span'' [atx ''class'' (js ''rc-val'')] [tx (js ''offline'')]]],
         ifv (js_ne (chain (mem (Inr (reportData st)) ''julia_mc'') (\<lambda>x4. (mem x4 ''var_95''))) (Inr Undef)) [
          el ''div'' [atx ''class'' (js ''report-card'')] [
           el ''span'' [atx ''class'' (js ''rc-label'')] [tx ([0xD83D, 0xDFE3] @ js '' Julia MC'')],
           el ''span'' [atx ''class'' (js ''rc-val'')] [tx (js ''VaR ''), ex (chain (mem (mem (Inr (reportData st)) ''julia_mc'')
               ''var_95'') (\<lambda>x5. (fixed 3 x5)))],
           el ''span'' [atx ''class'' (js ''rc-sub'')] [
            tx (js ''CVaR ''),
            ex (js_default (chain (mem (mem (Inr (reportData st)) ''julia_mc'') ''cvar_95'') (\<lambda>x6. (fixed 3 x6))) (Inr
                (Str [0x2014])))]]]
         [
          el ''div'' [atx ''class'' (js ''report-card offline'')] [
           el ''span'' [atx ''class'' (js ''rc-label'')] [tx ([0xD83D, 0xDFE3] @ js '' Julia MC'')],
           el ''span'' [atx ''class'' (js ''rc-val'')] [tx (js ''offline'')]]],
         ifv (js_ne (chain (mem (Inr (reportData st)) ''r_stats'') (\<lambda>x7. (mem x7 ''mean''))) (Inr Undef)) [
          el ''div'' [atx ''class'' (js ''report-card'')] [
           el ''span'' [atx ''class'' (js ''rc-label'')] [tx ([0xD83D, 0xDCCA] @ js '' R Stats'')],
           el ''span'' [atx ''class'' (js ''rc-val'')] [tx [0x03BC, 0x003D], ex (chain (mem (mem (Inr (reportData st))
               ''r_stats'') ''mean'') (\<lambda>x8. (fixed 4 x8)))],
           el ''span'' [atx ''class'' (js ''rc-sub'')] [
            tx (js ''VaR ''),
            ex (js_default (chain (mem (mem (Inr (reportData st)) ''r_stats'') ''var_95'') (\<lambda>x9. (fixed 4 x9))) (Inr (Str
                [0x2014])))]]]
         [
          el ''div'' [atx ''class'' (js ''report-card offline'')] [
           el ''span'' [atx ''class'' (js ''rc-label'')] [tx ([0xD83D, 0xDCCA] @ js '' R Stats'')],
           el ''span'' [atx ''class'' (js ''rc-val'')] [tx (js ''offline'')]]],
         ifv (js_or (js_ne (chain (mem (Inr (reportData st)) ''ocaml_risk'') (\<lambda>x10. (mem x10 ''score''))) (Inr Undef))
             (chain (mem (Inr (reportData st)) ''ocaml_risk'') (\<lambda>x11. (mem x11 ''risk_level'')))) [
          el ''div'' [atx ''class'' (js ''report-card'')] [
           el ''span'' [atx ''class'' (js ''rc-label'')] [tx ([0xD83D, 0xDC2A] @ js '' OCaml'')],
           el ''span'' [atx ''class'' (js ''rc-val'')] [ex (js_default (mem (mem (Inr (reportData st)) ''ocaml_risk'')
               ''risk_level'') (Inr (Str [0x2014])))],
           el ''span'' [atx ''class'' (js ''rc-sub'')] [
            tx (js ''score ''),
            ex (js_default (chain (mem (mem (Inr (reportData st)) ''ocaml_risk'') ''score'') (\<lambda>x12. (fixed 3 x12))) (Inr
                (Str [0x2014])))]]]
         [
          el ''div'' [atx ''class'' (js ''report-card offline'')] [
           el ''span'' [atx ''class'' (js ''rc-label'')] [tx ([0xD83D, 0xDC2A] @ js '' OCaml'')],
           el ''span'' [atx ''class'' (js ''rc-val'')] [tx (js ''offline'')]]],
         ifv (js_ne (chain (mem (Inr (reportData st)) ''haskell_mc'') (\<lambda>x13. (mem x13 ''var_95''))) (Inr Undef)) [
          el ''div'' [atx ''class'' (js ''report-card'')] [
           el ''span'' [atx ''class'' (js ''rc-label'')] [tx ([0x03BB] @ js '' Haskell'')],
           el ''span'' [atx ''class'' (js ''rc-val'')] [
            tx (js ''VaR ''),
            ex (chain (mem (mem (Inr (reportData st)) ''haskell_mc'') ''var_95'') (\<lambda>x14. (fixed 3 x14)))],
           el ''span'' [atx ''class'' (js ''rc-sub'')] [
            tx (js ''CVaR ''),
            ex (js_default (chain (mem (mem (Inr (reportData st)) ''haskell_mc'') ''cvar_95'') (\<lambda>x15. (fixed 3 x15))) (Inr
                (Str [0x2014])))]]]
         [
          el ''div'' [atx ''class'' (js ''report-card offline'')] [
           el ''span'' [atx ''class'' (js ''rc-label'')] [tx ([0x03BB] @ js '' Haskell'')],
           el ''span'' [atx ''class'' (js ''rc-val'')] [tx (js ''offline'')]]]]]]]
     []"

definition sys_v_aggregateData :: "sys \<Rightarrow> view" where
  "sys_v_aggregateData st =
     ifv (Inr (aggregateData st)) [
      ifv (mem (Inr (aggregateData st)) ''error'') [
       el ''div'' [atx ''class'' (js ''empty-box''), atx ''style'' (js ''margin-top:0.75rem'')] [el ''p'' [atx ''style'' (js
           ''color:#f87171'')] [ex (mem (Inr (aggregateData st)) ''error'')]]]
      [
       el ''div'' [atx ''class'' (js ''agg-header'')] [
        el ''span'' [] [
         ex (js_if (Inr (Bool (sseConnected st))) (Inr (Str [0xD83D, 0xDFE2, 0x0020, 0xC2E4, 0xC2DC, 0xAC04, 0x0020, 0xC2A4,
             0xD2B8, 0xB9BC])) (Inr (Str [0xD83D, 0xDD0D, 0x0020, 0xC804, 0xCCB4, 0x0020, 0xBC31, 0xC5D4, 0xB4DC, 0x0020, 0xD5EC,
             0xC2A4, 0xCCB4, 0xD06C]))),
         tx [0x0020, 0x2014, 0x0020],
         el ''strong'' [atx ''style'' (js ''color:#34d399'')] [ex (mem (Inr (aggregateData st)) ''online'')],
         tx (js '' / ''),
         ex (mem (Inr (aggregateData st)) ''total''),
         tx (js '' online'')],
        el ''span'' [atx ''class'' (js ''agg-engine'')] [ex (mem (Inr (aggregateData st)) ''engine'')]],
       el ''div'' [atx ''class'' (js ''agg-grid'')] [
        each (js_default (mem (Inr (aggregateData st)) ''services'') (Inr (Arr []))) (\<lambda>_ svc. [
           el ''div'' [amix ''class'' [Inr (Str (js ''agg-item '')), (js_if (js_eq (mem (Inr svc) ''status'') (Inr (Str (js
               ''online'')))) (Inr (Str (js ''agg-on''))) (Inr (Str (js ''agg-off''))))]] [
            el ''span'' [atx ''class'' (js ''agg-dot'')] [ex (js_if (js_eq (mem (Inr svc) ''status'') (Inr (Str (js ''online''))))
                (Inr (Str [0x25CF])) (Inr (Str [0x25CB])))],
            el ''span'' [atx ''class'' (js ''agg-name'')] [ex (mem (Inr svc) ''name'')],
            el ''span'' [atx ''class'' (js ''agg-port'')] [tx (js '':''), ex (mem (Inr svc) ''port'')],
            el ''span'' [atx ''class'' (js ''agg-ms'')] [ex (mem (Inr svc) ''latency_ms''), tx (js ''ms'')]]])]]]
     []"

definition sys_view :: "locale_format \<Rightarrow> sys \<Rightarrow> view" where
  "sys_view fmt st = cat
     [
      el ''section'' [atx ''class'' (js ''panel'')] [sys_v_panel_header st, sys_v_errorMsg fmt st, sys_v_reportData st,
          sys_v_aggregateData st]]"

section \<open>What a failure shows\<close>

lemma sys_reports: "view_reports (sys_view fmt) [reportData] [] (\<lambda>s. \<not> reportLoading s \<and> systemData s = Null \<and>
      errorMsg s = Null \<and> aggregateData s = Null) s"
  unfolding view_reports_def list.pred_inject displays_iff
  by (intro impI, elim conjE idle_cases) 
    (simp_all add: view_rules field_value_shown sys_v_panel_header_def sys_v_errorMsg_def sys_v_reportData_def sys_v_aggregateData_def
      sys_view_def
    cong: if_cong view_congs split del: if_split)

text \<open>\<open>ElixirPanel\<close> keeps no message: a hub that does not answer shows as offline.\<close>

lemma elixir_offline:
  "elixirStatus s = Obj [(js ''status'', Str m)] \<Longrightarrow> liveSnapshot s = Null \<Longrightarrow> displays m (elixir_view fmt s)"
  by (simp add: view_rules displays_iff own_prop_def elixir_v_panel_header_def elixir_v_elixirStatus_def elixir_v_ws_status_def
    elixir_v_liveSnapshot_def elixir_view_def cong: if_cong view_congs split del: if_split)

end
