(* ===== verification/View_Charts.thy ===== *)
theory View_Charts
  imports Portal_Charts View_Base
begin

text \<open>
  The markup of the frame around the charts: for each panel, one definition per part of its
  template and \<open>_view\<close> for the whole.
\<close>

section \<open>ChartsPanel\<close>

definition charts_v_panel_header :: "charts \<Rightarrow> view" where
  "charts_v_panel_header st =
     el ''div'' [atx ''class'' (js ''panel-header'')] [
      el ''div'' [] [
       el ''h2'' [] [tx [0xD83D, 0xDCCA, 0x0020, 0xAE08, 0xC735, 0x0020, 0xC2DC, 0xAC01, 0xD654, 0x0020, 0xCC28, 0xD2B8]],
       el ''p'' [atx ''class'' (js ''subtitle'')] [
        tx (js ''Monte Carlo '' @ [0xACBD, 0xB85C] @ js '' (Julia) '' @ [0x00B7] @ js '' Volatility Smile (F#) '' @ [0x00B7] @ js
            '' VaR '' @ [0xBD84, 0xD3EC] @ js '' (Rust)'')]],
      el ''button'' [atx ''class'' (js ''chart-btn''), atx ''onclick'' (js ''fetchAll''), aflag ''disabled'' (Inr (Bool
          (ch_loading st)))] [
       ex (js_if (Inr (Bool (ch_loading st))) (Inr (Str [0xB85C, 0xB529, 0x0020, 0xC911, 0x002E, 0x002E, 0x002E])) (Inr (Str
           [0xCC28, 0xD2B8, 0x0020, 0xAC31, 0xC2E0])))]]"

definition charts_v_charts_grid :: "charts \<Rightarrow> view" where
  "charts_v_charts_grid st =
     el ''div'' [atx ''class'' (js ''charts-grid'')] [
      el ''div'' [atx ''class'' (js ''chart-box'')] [
       el ''div'' [atx ''class'' (js ''chart-label'')] [
        el ''span'' [atx ''class'' (js ''chart-title'')] [tx (js ''Monte Carlo GBM '' @ [0x2014] @ js '' 200'' @ [0xACBD, 0xB85C]
            @ js '' (Julia :8002)'')],
        ifv (js_and (Inr (mcData st)) (js_not (mem (Inr (mcData st)) ''error''))) [
         el ''span'' [atx ''class'' (js ''chart-meta'')] [
          tx [0x03BC, 0x003D],
          ex (chain (mem (Inr (mcData st)) ''mu'') (\<lambda>x. (fixed 2 x))),
          tx [0x0020, 0x03C3, 0x003D],
          ex (chain (mem (Inr (mcData st)) ''vol'') (\<lambda>x2. (fixed 2 x2))),
          tx (js '' VaR=''),
          ex (chain (mem (Inr (mcData st)) ''var_95'') (\<lambda>x3. (fixed 2 x3)))]]
        [
         ifv (chain (Inr (mcData st)) (\<lambda>x4. (mem x4 ''error''))) [el ''span'' [atx ''class'' (js ''chart-err'')] [tx (js
             ''Julia '' @ [0xC624, 0xD504, 0xB77C, 0xC778])]]
         []]],
       el ''canvas'' [atx ''bind:this'' (js ''mcCanvas''), atx ''width'' (js ''820''), atx ''height'' (js ''200''), atx ''class''
           (js ''chart-canvas'')] []],
      el ''div'' [atx ''class'' (js ''chart-box'')] [
       el ''div'' [atx ''class'' (js ''chart-label'')] [
        el ''span'' [atx ''class'' (js ''chart-title'')] [tx (js ''Volatility Smile '' @ [0x2014, 0x0020, 0x0049, 0x0056, 0xACE1,
            0xC120] @ js '' (F# :9001)'')],
        ifv (js_and (Inr (smileData st)) (js_not (mem (Inr (smileData st)) ''error''))) [
         el ''span'' [atx ''class'' (js ''chart-meta'')] [
          tx (js ''ATM=100 '' @ [0x00B7] @ js '' skew=-5% '' @ [0x00B7, 0x0020]),
          ex (chain (mem (Inr (smileData st)) ''smile'') (\<lambda>x5. (mem x5 ''length''))),
          tx ([0xAC1C] @ js '' strike'')]]
        [
         ifv (chain (Inr (smileData st)) (\<lambda>x6. (mem x6 ''error''))) [el ''span'' [atx ''class'' (js ''chart-err'')] [tx
             [0x0046, 0x0023, 0x0020, 0xC624, 0xD504, 0xB77C, 0xC778]]]
         []]],
       el ''canvas'' [atx ''bind:this'' (js ''smileCanvas''), atx ''width'' (js ''820''), atx ''height'' (js ''200''), atx
           ''class'' (js ''chart-canvas'')] []],
      el ''div'' [atx ''class'' (js ''chart-box'')] [
       el ''div'' [atx ''class'' (js ''chart-label'')] [
        el ''span'' [atx ''class'' (js ''chart-title'')] [tx (js ''VaR '' @ [0xBD84, 0xD3EC, 0x0020, 0xD788, 0xC2A4, 0xD1A0,
            0xADF8, 0xB7A8] @ js '' (Rust :8081 risk_logs)'')],
        ifv (js_and (Inr (varData st)) (js_not (mem (Inr (varData st)) ''error''))) [
         el ''span'' [atx ''class'' (js ''chart-meta'')] [
          tx (js ''count=''),
          ex (mem (Inr (varData st)) ''count''),
          tx (js '' avg=''),
          ex (chain (mem (Inr (varData st)) ''avg_var'') (\<lambda>x7. (fixed 4 x7))),
          tx (js '' p95=''),
          ex (chain (mem (Inr (varData st)) ''p95_var'') (\<lambda>x8. (fixed 4 x8)))]]
        [
         ifv (chain (Inr (varData st)) (\<lambda>x9. (mem x9 ''error''))) [el ''span'' [atx ''class'' (js ''chart-err'')] [tx (js
             ''Rust '' @ [0xC624, 0xD504, 0xB77C, 0xC778])]]
         []]],
       el ''canvas'' [atx ''bind:this'' (js ''varCanvas''), atx ''width'' (js ''820''), atx ''height'' (js ''200''), atx ''class''
           (js ''chart-canvas'')] []]]"

definition charts_v_mcData :: "charts \<Rightarrow> view" where
  "charts_v_mcData st =
     ifv (js_and (js_and (js_not (Inr (mcData st))) (js_not (Inr (smileData st)))) (js_not (Inr (varData st)))) [
      el ''div'' [atx ''class'' (js ''placeholder'')] [
       el ''span'' [] [
        tx ([0x300C, 0xCC28, 0xD2B8, 0x0020, 0xAC31, 0xC2E0, 0x300D, 0xC744, 0x0020, 0xB20C, 0xB7EC] @ js '' Julia '' @ [0x00B7] @
            js '' F# '' @ [0x00B7] @ js '' Rust '' @ [0xB370, 0xC774, 0xD130, 0xB97C, 0x0020, 0xAC00, 0xC838, 0xC635, 0xB2C8,
            0xB2E4])]]]
     []"

definition charts_view :: "charts \<Rightarrow> view" where
  "charts_view st = cat
     [
      el ''section'' [atx ''class'' (js ''panel charts-panel'')] [charts_v_panel_header st, charts_v_charts_grid st,
          charts_v_mcData st]]"

section \<open>What a failure shows\<close>

text \<open>The charts keep no message either: each box has its own fixed text.\<close>

lemma charts_renders: "idle (mcData s) \<Longrightarrow> idle (smileData s) \<Longrightarrow> idle (varData s) \<Longrightarrow> ok (charts_view s)"
  by (elim idle_cases) (simp_all add: view_rules charts_v_panel_header_def charts_v_charts_grid_def charts_v_mcData_def charts_view_def
    cong: if_cong view_congs split del: if_split)

end
