(* ===== verification/View_Wasm.thy ===== *)
theory View_Wasm
  imports Portal_Wasm View_Base
begin

text \<open>
  The markup of the WebAssembly panel: for each panel, one definition per part of its
  template and \<open>_view\<close> for the whole.
\<close>

section \<open>WasmPanel\<close>

definition wasm_v_panel_header :: "wasm \<Rightarrow> view" where
  "wasm_v_panel_header st =
     el ''div'' [atx ''class'' (js ''panel-header'')] [
      el ''div'' [] [
       el ''h2'' [] [tx ([0xD83D, 0xDD78, 0xFE0F] @ js '' WebAssembly (Client-side)'')],
       el ''p'' [atx ''class'' (js ''subtitle'')] [
        tx (js ''Zig '' @ [0x2192] @ js '' WASM32 '' @ [0x00B7, 0x0020, 0xBE0C, 0xB77C, 0xC6B0, 0xC800, 0x0020, 0xC9C1, 0xC811,
            0x0020, 0xC2E4, 0xD589, 0x0020, 0x00B7, 0x0020, 0xC11C, 0xBC84, 0x0020, 0xC655, 0xBCF5, 0x0020, 0xC5C6, 0xC74C])]],
      el ''button'' [atx ''class'' (js ''wasm-btn''), atx ''onclick'' (js ''runWasm''), aflag ''disabled'' (Inr (Bool (wasmLoading
          st)))] [
       ifv (Inr (Bool (wasmLoading st))) [tx [0xACC4, 0xC0B0, 0x0020, 0xC911, 0x002E, 0x002E, 0x002E]]
       [
        ifv (Inr (Bool (wasmLoaded st))) [tx [0xC7AC, 0xACC4, 0xC0B0]]
        [tx (js ''WASM '' @ [0xB85C, 0xB4DC, 0x0020, 0x0026, 0x0020, 0xC2E4, 0xD589])]]]]"

definition wasm_v_wasmBsResult :: "locale_format \<Rightarrow> wasm \<Rightarrow> view" where
  "wasm_v_wasmBsResult fmt st =
     ifv (Inr (wasmBsResult st)) [
      ifv (mem (Inr (wasmBsResult st)) ''error'') [
       el ''div'' [atx ''class'' (js ''empty-box'')] [el ''p'' [atx ''style'' (js ''color:#f87171'')] [ex (mem (Inr (wasmBsResult
           st)) ''error'')]]]
      [
       el ''div'' [atx ''class'' (js ''julia-grid'')] [
        el ''div'' [atx ''class'' (js ''julia-card wasm-card'')] [
         el ''span'' [atx ''class'' (js ''jlabel'')] [tx (js ''Call Price'')],
         el ''span'' [atx ''class'' (js ''jval'')] [tx (js ''$''), ex (fixed 4 (mem (Inr (wasmBsResult st)) ''call''))]],
        el ''div'' [atx ''class'' (js ''julia-card wasm-card'')] [
         el ''span'' [atx ''class'' (js ''jlabel'')] [tx (js ''Put Price'')],
         el ''span'' [atx ''class'' (js ''jval'')] [tx (js ''$''), ex (fixed 4 (mem (Inr (wasmBsResult st)) ''put''))]],
        el ''div'' [atx ''class'' (js ''julia-card wasm-card'')] [
         el ''span'' [atx ''class'' (js ''jlabel'')] [tx (js ''Delta'')],
         el ''span'' [atx ''class'' (js ''jval'')] [ex (fixed 4 (mem (Inr (wasmBsResult st)) ''delta''))]],
        el ''div'' [atx ''class'' (js ''julia-card wasm-card'')] [
         el ''span'' [atx ''class'' (js ''jlabel'')] [tx (js ''Gamma'')],
         el ''span'' [atx ''class'' (js ''jval'')] [ex (fixed 6 (mem (Inr (wasmBsResult st)) ''gamma''))]],
        el ''div'' [atx ''class'' (js ''julia-card wasm-card'')] [
         el ''span'' [atx ''class'' (js ''jlabel'')] [tx (js ''Theta /day'')],
         el ''span'' [atx ''class'' (js ''jval'')] [ex (fixed 4 (mem (Inr (wasmBsResult st)) ''theta''))]],
        el ''div'' [atx ''class'' (js ''julia-card wasm-card'')] [
         el ''span'' [atx ''class'' (js ''jlabel'')] [tx (js ''Vega /1%'' @ [0x03C3])],
         el ''span'' [atx ''class'' (js ''jval'')] [ex (fixed 4 (mem (Inr (wasmBsResult st)) ''vega''))]],
        el ''div'' [atx ''class'' (js ''julia-card wasm-card'')] [
         el ''span'' [atx ''class'' (js ''jlabel'')] [tx (js ''Rho /1%r'')],
         el ''span'' [atx ''class'' (js ''jval'')] [ex (fixed 4 (mem (Inr (wasmBsResult st)) ''rho''))]],
        el ''div'' [atx ''class'' (js ''julia-card wasm-card'')] [
         el ''span'' [atx ''class'' (js ''jlabel'')] [tx (js ''VaR 95%'')],
         el ''span'' [atx ''class'' (js ''jval'')] [ex (fixed 3 (js_times (mem (Inr (wasmBsResult st)) ''var95'') (Inr (jsn
             100)))), tx (js ''%'')]],
        el ''div'' [atx ''class'' (js ''julia-card wasm-card'')] [
         el ''span'' [atx ''class'' (js ''jlabel'')] [tx (js ''DCF Value'')],
         el ''span'' [atx ''class'' (js ''jval'')] [tx [0x20A9], ex (toLocale fmt '''' (math_round (mem (Inr (wasmBsResult st))
             ''dcf'')))]]],
       el ''p'' [atx ''class'' (js ''wasm-hint'')] [
        tx ([0x2713, 0x0020, 0xC11C, 0xBC84, 0x0020, 0xC5C6, 0xC774, 0x0020, 0xBE0C, 0xB77C, 0xC6B0, 0xC800, 0xC5D0, 0xC11C,
            0x0020, 0xC9C1, 0xC811, 0x0020, 0xACC4, 0xC0B0, 0xB428] @ js '' (S=100 K=100 r=5% '' @ [0x03C3] @ js
            ''=20% T=1y)'')]]]
     [
      el ''div'' [atx ''class'' (js ''empty-box'')] [
       el ''p'' [] [
        tx ([0x005A, 0x0069, 0x0067, 0xB85C, 0x0020, 0xCEF4, 0xD30C, 0xC77C, 0xB41C] @ js '' WASM'' @ [0xC744, 0x0020, 0xBE0C,
            0xB77C, 0xC6B0, 0xC800, 0xC5D0, 0xC11C, 0x0020, 0xC9C1, 0xC811, 0x0020, 0xC2E4, 0xD589, 0xD569, 0xB2C8, 0xB2E4,
            0x002E, 0x0020, 0xC11C, 0xBC84, 0x0020, 0xC5C6, 0xC774] @ js '' Black-Scholes '' @ [0x00B7] @ js '' VaR '' @ [0x00B7]
            @ js '' DCF '' @ [0xACC4, 0xC0B0, 0x002E])]]]"

definition wasm_v_param_grid :: "wasm \<Rightarrow> view" where
  "wasm_v_param_grid st =
     el ''div'' [atx ''class'' (js ''param-grid'')] [
      el ''div'' [atx ''class'' (js ''param-row'')] [
       el ''label'' [atx ''for'' (js ''wasm-s0'')] [tx [0x0053, 0x2080]],
       el ''input'' [atx ''id'' (js ''wasm-s0''), atx ''type'' (js ''range''), atx ''min'' (js ''50''), atx ''max'' (js ''500''),
           atx ''step'' (js ''10''), aval ''value'' (Inr (Num (mcS0 st)))] [],
       el ''span'' [atx ''class'' (js ''param-val'')] [ex (Inr (Num (mcS0 st)))]],
      el ''div'' [atx ''class'' (js ''param-row'')] [
       el ''label'' [atx ''for'' (js ''wasm-mu'')] [tx [0x03BC, 0x0020, 0x0028, 0xC5F0, 0x0029]],
       el ''input'' [atx ''id'' (js ''wasm-mu''), atx ''type'' (js ''range''), atx ''min'' (js ''0.01''), atx ''max'' (js
           ''0.30''), atx ''step'' (js ''0.01''), aval ''value'' (Inr (Num (mcMu st)))] [],
       el ''span'' [atx ''class'' (js ''param-val'')] [ex (fixed 0 (js_times (Inr (Num (mcMu st))) (Inr (jsn 100)))), tx (js
           ''%'')]],
      el ''div'' [atx ''class'' (js ''param-row'')] [
       el ''label'' [atx ''for'' (js ''wasm-sigma'')] [tx [0x03C3, 0x0020, 0x0028, 0xC5F0, 0x0029]],
       el ''input'' [atx ''id'' (js ''wasm-sigma''), atx ''type'' (js ''range''), atx ''min'' (js ''0.05''), atx ''max'' (js
           ''0.60''), atx ''step'' (js ''0.01''), aval ''value'' (Inr (Num (mcSigma st)))] [],
       el ''span'' [atx ''class'' (js ''param-val'')] [ex (fixed 0 (js_times (Inr (Num (mcSigma st))) (Inr (jsn 100)))), tx (js
           ''%'')]],
      el ''div'' [atx ''class'' (js ''param-row'')] [
       el ''label'' [atx ''for'' (js ''wasm-paths'')] [tx [0xACBD, 0xB85C, 0x0020, 0xC218]],
       el ''input'' [atx ''id'' (js ''wasm-paths''), atx ''type'' (js ''range''), atx ''min'' (js ''100''), atx ''max'' (js
           ''2000''), atx ''step'' (js ''100''), aval ''value'' (Inr (Num (mcPaths st)))] [],
       el ''span'' [atx ''class'' (js ''param-val'')] [ex (Inr (Num (mcPaths st)))]]]"

definition wasm_v_wasm_btn :: "wasm \<Rightarrow> view" where
  "wasm_v_wasm_btn st =
     el ''button'' [atx ''class'' (js ''wasm-btn''), atx ''onclick'' (js ''runMcVaR''), aflag ''disabled'' (Inr (Bool (wasmLoading
         st))), atx ''style'' (js ''margin-top:0.5rem'')] [tx (js ''Monte Carlo '' @ [0xC2E4, 0xD589])]"

definition wasm_v_wasmMcResult :: "wasm \<Rightarrow> view" where
  "wasm_v_wasmMcResult st =
     ifv (Inr (wasmMcResult st)) [
      ifv (mem (Inr (wasmMcResult st)) ''error'') [el ''p'' [atx ''style'' (js ''color:#f87171'')] [ex (mem (Inr (wasmMcResult
          st)) ''error'')]]
      [
       el ''div'' [atx ''class'' (js ''julia-grid''), atx ''style'' (js ''margin-top:0.75rem'')] [
        el ''div'' [atx ''class'' (js ''julia-card wasm-card'')] [
         el ''span'' [atx ''class'' (js ''jlabel'')] [tx (js ''VaR 95% ('' @ [0xC190, 0xC2E4, 0xB960, 0x0029])],
         el ''span'' [atx ''class'' (js ''jval''), atx ''style'' (js ''color:#f87171'')] [ex (mem (Inr (wasmMcResult st))
             ''var95_pct''), tx (js ''%'')]],
        el ''div'' [atx ''class'' (js ''julia-card wasm-card'')] [
         el ''span'' [atx ''class'' (js ''jlabel'')] [tx (js ''VaR 95% ('' @ [0xC808, 0xB300, 0xAC12, 0x0029])],
         el ''span'' [atx ''class'' (js ''jval''), atx ''style'' (js ''color:#f87171'')] [ex (mem (Inr (wasmMcResult st))
             ''var95_abs'')]],
        el ''div'' [atx ''class'' (js ''julia-card wasm-card'')] [
         el ''span'' [atx ''class'' (js ''jlabel'')] [tx [0xACBD, 0xB85C, 0x0020, 0xC218]],
         el ''span'' [atx ''class'' (js ''jval'')] [ex (mem (Inr (wasmMcResult st)) ''paths'')]]],
       el ''p'' [atx ''class'' (js ''wasm-hint'')] [
        tx ([0x2713] @ js '' xorshift64 PRNG '' @ [0x00B7, 0x0020, 0xBD80, 0xBD84, 0x0020, 0xC120, 0xD0DD, 0xC815, 0xB82C] @ js
            '' 5% '' @ [0xBD84, 0xC704, 0x0020, 0x00B7, 0x0020, 0xC21C, 0xC218] @ js '' WASM'')]]]
     []"

definition wasm_v_param_grid2 :: "wasm \<Rightarrow> view" where
  "wasm_v_param_grid2 st =
     el ''div'' [atx ''class'' (js ''param-grid'')] [
      el ''div'' [atx ''class'' (js ''param-row'')] [
       el ''label'' [atx ''for'' (js ''wasm-vol1'')] [tx [0x03C3, 0x2081, 0x0020, 0x0028, 0xC790, 0xC0B0, 0x0031, 0x0029]],
       el ''input'' [atx ''id'' (js ''wasm-vol1''), atx ''type'' (js ''range''), atx ''min'' (js ''0.05''), atx ''max'' (js
           ''0.60''), atx ''step'' (js ''0.01''), aval ''value'' (Inr (Num (portVol1 st)))] [],
       el ''span'' [atx ''class'' (js ''param-val'')] [ex (fixed 0 (js_times (Inr (Num (portVol1 st))) (Inr (jsn 100)))), tx (js
           ''%'')]],
      el ''div'' [atx ''class'' (js ''param-row'')] [
       el ''label'' [atx ''for'' (js ''wasm-vol2'')] [tx [0x03C3, 0x2082, 0x0020, 0x0028, 0xC790, 0xC0B0, 0x0032, 0x0029]],
       el ''input'' [atx ''id'' (js ''wasm-vol2''), atx ''type'' (js ''range''), atx ''min'' (js ''0.05''), atx ''max'' (js
           ''0.60''), atx ''step'' (js ''0.01''), aval ''value'' (Inr (Num (portVol2 st)))] [],
       el ''span'' [atx ''class'' (js ''param-val'')] [ex (fixed 0 (js_times (Inr (Num (portVol2 st))) (Inr (jsn 100)))), tx (js
           ''%'')]],
      el ''div'' [atx ''class'' (js ''param-row'')] [
       el ''label'' [atx ''for'' (js ''wasm-corr'')] [tx [0xC0C1, 0xAD00, 0xACC4, 0xC218, 0x0020, 0x03C1]],
       el ''input'' [atx ''id'' (js ''wasm-corr''), atx ''type'' (js ''range''), atx ''min'' (js ''-0.90''), atx ''max'' (js
           ''0.90''), atx ''step'' (js ''0.05''), aval ''value'' (Inr (Num (portCorr st)))] [],
       el ''span'' [atx ''class'' (js ''param-val'')] [ex (fixed 2 (Inr (Num (portCorr st))))]]]"

definition wasm_v_wasm_btn2 :: "wasm \<Rightarrow> view" where
  "wasm_v_wasm_btn2 st =
     el ''button'' [atx ''class'' (js ''wasm-btn''), atx ''onclick'' (js ''runPortfolio''), aflag ''disabled'' (Inr (Bool
         (wasmLoading st))), atx ''style'' (js ''margin-top:0.5rem'')] [tx [0xD3EC, 0xD2B8, 0xD3F4, 0xB9AC, 0xC624, 0x0020,
         0xCD5C, 0xC801, 0xD654]]"

definition wasm_v_wasmPortResult :: "wasm \<Rightarrow> view" where
  "wasm_v_wasmPortResult st =
     ifv (Inr (wasmPortResult st)) [
      ifv (mem (Inr (wasmPortResult st)) ''error'') [el ''p'' [atx ''style'' (js ''color:#f87171'')] [ex (mem (Inr (wasmPortResult
          st)) ''error'')]]
      [
       el ''div'' [atx ''class'' (js ''julia-grid''), atx ''style'' (js ''margin-top:0.75rem'')] [
        el ''div'' [atx ''class'' (js ''julia-card wasm-card'')] [
         el ''span'' [atx ''class'' (js ''jlabel'')] [tx [0xCD5C, 0xC801, 0x0020, 0xBE44, 0xC911, 0x0020, 0x0028, 0xC790, 0xC0B0,
             0x0031, 0x0029]],
         el ''span'' [atx ''class'' (js ''jval'')] [ex (mem (Inr (wasmPortResult st)) ''min_var_w1''), tx (js ''%'')]],
        el ''div'' [atx ''class'' (js ''julia-card wasm-card'')] [
         el ''span'' [atx ''class'' (js ''jlabel'')] [tx [0xCD5C, 0xC801, 0x0020, 0xBE44, 0xC911, 0x0020, 0x0028, 0xC790, 0xC0B0,
             0x0032, 0x0029]],
         el ''span'' [atx ''class'' (js ''jval'')] [ex (mem (Inr (wasmPortResult st)) ''min_var_w2''), tx (js ''%'')]],
        el ''div'' [atx ''class'' (js ''julia-card wasm-card'')] [
         el ''span'' [atx ''class'' (js ''jlabel'')] [tx [0xCD5C, 0xC18C, 0xBD84, 0xC0B0, 0x0020, 0xC5F0, 0xBCC0, 0xB3D9,
             0xC131]],
         el ''span'' [atx ''class'' (js ''jval''), atx ''style'' (js ''color:#34d399'')] [ex (mem (Inr (wasmPortResult st))
             ''min_var_vol''), tx (js ''%'')]],
        el ''div'' [atx ''class'' (js ''julia-card wasm-card'')] [
         el ''span'' [atx ''class'' (js ''jlabel'')] [tx (js ''Sharpe (MV)'')],
         el ''span'' [atx ''class'' (js ''jval'')] [ex (mem (Inr (wasmPortResult st)) ''sharpe_mv'')]],
        el ''div'' [atx ''class'' (js ''julia-card wasm-card'')] [
         el ''span'' [atx ''class'' (js ''jlabel'')] [tx (js ''Sharpe ('' @ [0xB4F1, 0xAC00, 0xC911, 0x0029])],
         el ''span'' [atx ''class'' (js ''jval'')] [ex (mem (Inr (wasmPortResult st)) ''sharpe_eq'')]]],
       el ''p'' [atx ''class'' (js ''wasm-hint'')] [
        tx [0x2713, 0x0020, 0xD574, 0xC11D, 0xC801, 0x0020, 0xCD5C, 0xC19F, 0xAC12, 0x0020, 0xACF5, 0xC2DD, 0x0020, 0x00B7,
            0x0020, 0xC11C, 0xBC84, 0x0020, 0xC655, 0xBCF5, 0x0020, 0xC5C6, 0xC74C]]]]
     []"

definition wasm_v_param_grid3 :: "locale_format \<Rightarrow> wasm \<Rightarrow> view" where
  "wasm_v_param_grid3 fmt st =
     el ''div'' [atx ''class'' (js ''param-grid'')] [
      el ''div'' [atx ''class'' (js ''param-row'')] [
       el ''label'' [atx ''for'' (js ''wasm-fcf'')] [tx (js ''FCF ('' @ [0xC5F0, 0xAC04, 0x0029])],
       el ''input'' [atx ''id'' (js ''wasm-fcf''), atx ''type'' (js ''range''), atx ''min'' (js ''100000''), atx ''max'' (js
           ''10000000''), atx ''step'' (js ''100000''), aval ''value'' (Inr (Num (dcfFcf st)))] [],
       el ''span'' [atx ''class'' (js ''param-val'')] [tx [0x20A9], ex (toLocale fmt '''' (Inr (Num (dcfFcf st))))]],
      el ''div'' [atx ''class'' (js ''param-row'')] [
       el ''label'' [atx ''for'' (js ''wasm-growth'')] [tx [0xC131, 0xC7A5, 0xB960, 0x0020, 0x0067]],
       el ''input'' [atx ''id'' (js ''wasm-growth''), atx ''type'' (js ''range''), atx ''min'' (js ''0.00''), atx ''max'' (js
           ''0.30''), atx ''step'' (js ''0.01''), aval ''value'' (Inr (Num (dcfGrowth st)))] [],
       el ''span'' [atx ''class'' (js ''param-val'')] [ex (fixed 0 (js_times (Inr (Num (dcfGrowth st))) (Inr (jsn 100)))), tx (js
           ''%'')]],
      el ''div'' [atx ''class'' (js ''param-row'')] [
       el ''label'' [atx ''for'' (js ''wasm-terminal'')] [tx [0xC7A1, 0xB9AC, 0xC131, 0xC7A5, 0x0020, 0x0067, 0x221E]],
       el ''input'' [atx ''id'' (js ''wasm-terminal''), atx ''type'' (js ''range''), atx ''min'' (js ''0.01''), atx ''max'' (js
           ''0.05''), atx ''step'' (js ''0.005''), aval ''value'' (Inr (Num (dcfTerminal st)))] [],
       el ''span'' [atx ''class'' (js ''param-val'')] [ex (fixed 1 (js_times (Inr (Num (dcfTerminal st))) (Inr (jsn 100)))), tx
           (js ''%'')]],
      el ''div'' [atx ''class'' (js ''param-row'')] [
       el ''label'' [atx ''for'' (js ''wasm-wacc'')] [tx (js ''WACC'')],
       el ''input'' [atx ''id'' (js ''wasm-wacc''), atx ''type'' (js ''range''), atx ''min'' (js ''0.03''), atx ''max'' (js
           ''0.20''), atx ''step'' (js ''0.005''), aval ''value'' (Inr (Num (dcfWacc st)))] [],
       el ''span'' [atx ''class'' (js ''param-val'')] [ex (fixed 1 (js_times (Inr (Num (dcfWacc st))) (Inr (jsn 100)))), tx (js
           ''%'')]],
      el ''div'' [atx ''class'' (js ''param-row'')] [
       el ''label'' [atx ''for'' (js ''wasm-years'')] [tx [0xC608, 0xCE21, 0xAE30, 0xAC04]],
       el ''input'' [atx ''id'' (js ''wasm-years''), atx ''type'' (js ''range''), atx ''min'' (js ''3''), atx ''max'' (js ''15''),
           atx ''step'' (js ''1''), aval ''value'' (Inr (Num (dcfYears st)))] [],
       el ''span'' [atx ''class'' (js ''param-val'')] [ex (Inr (Num (dcfYears st))), tx [0xB144]]]]"

definition wasm_v_wasm_btn3 :: "wasm \<Rightarrow> view" where
  "wasm_v_wasm_btn3 st =
     el ''button'' [atx ''class'' (js ''wasm-btn''), atx ''onclick'' (js ''runDcf''), aflag ''disabled'' (Inr (Bool (wasmLoading
         st))), atx ''style'' (js ''margin-top:0.5rem'')] [tx (js ''DCF '' @ [0xACC4, 0xC0B0])]"

definition wasm_v_wasmDcfResult :: "locale_format \<Rightarrow> wasm \<Rightarrow> view" where
  "wasm_v_wasmDcfResult fmt st =
     ifv (Inr (wasmDcfResult st)) [
      ifv (mem (Inr (wasmDcfResult st)) ''error'') [el ''p'' [atx ''style'' (js ''color:#f87171'')] [ex (mem (Inr (wasmDcfResult
          st)) ''error'')]]
      [
       el ''div'' [atx ''class'' (js ''julia-grid''), atx ''style'' (js ''margin-top:0.75rem'')] [
        el ''div'' [atx ''class'' (js ''julia-card wasm-card''), atx ''style'' (js ''border-color:#f59e0b'')] [
         el ''span'' [atx ''class'' (js ''jlabel'')] [tx ([0xB0B4, 0xC7AC, 0xAC00, 0xCE58] @ js '' (DCF)'')],
         el ''span'' [atx ''class'' (js ''jval''), atx ''style'' (js ''color:#f59e0b'')] [tx [0x20A9], ex (chain (mem (Inr
             (wasmDcfResult st)) ''intrinsic_value'') (\<lambda>x. (toLocale fmt '''' x)))]],
        el ''div'' [atx ''class'' (js ''julia-card wasm-card'')] [
         el ''span'' [atx ''class'' (js ''jlabel'')] [tx [0xC601, 0xC5C5, 0xD604, 0xAE08, 0xD750, 0xB984, 0x0020, 0x0050,
             0x0056]],
         el ''span'' [atx ''class'' (js ''jval'')] [tx [0x20A9], ex (chain (mem (Inr (wasmDcfResult st)) ''operating_pv'')
             (\<lambda>x2. (toLocale fmt '''' x2)))]],
        el ''div'' [atx ''class'' (js ''julia-card wasm-card'')] [
         el ''span'' [atx ''class'' (js ''jlabel'')] [tx [0xC7D1, 0xB9AC, 0xCE58, 0x0020, 0x0050, 0x0056]],
         el ''span'' [atx ''class'' (js ''jval'')] [tx [0x20A9], ex (chain (mem (Inr (wasmDcfResult st)) ''terminal_value_pv'')
             (\<lambda>x3. (toLocale fmt '''' x3)))]],
        el ''div'' [atx ''class'' (js ''julia-card wasm-card''), atx ''style'' (js ''border-color:#a78bfa'')] [
         el ''span'' [atx ''class'' (js ''jlabel'')] [tx [0xC7D1, 0xB9AC, 0xCE58, 0x0020, 0xBE44, 0xC911]],
         el ''span'' [atx ''class'' (js ''jval''), atx ''style'' (js ''color:#a78bfa'')] [ex (mem (Inr (wasmDcfResult st))
             ''tv_pct''), tx (js ''%'')]]],
       el ''div'' [atx ''class'' (js ''dcf-table'')] [
        el ''div'' [atx ''class'' (js ''dcf-row dcf-head'')] [el ''span'' [] [tx [0xC5F0, 0xB3C4]], el ''span'' [] [tx (js
            ''FCF'')], el ''span'' [] [tx (js ''PV'')]],
        each (js_default (mem (Inr (wasmDcfResult st)) ''steps'') (Inr (Arr []))) (\<lambda>_ s'. [
           el ''div'' [atx ''class'' (js ''dcf-row'')] [
            el ''span'' [atx ''class'' (js ''dcf-yr'')] [tx (js ''Y''), ex (mem (Inr s') ''year'')],
            el ''span'' [] [tx [0x20A9], ex (toLocale fmt '''' (mem (Inr s') ''cf''))],
            el ''span'' [atx ''style'' (js ''color:#67e8f9'')] [tx [0x20A9], ex (toLocale fmt '''' (mem (Inr s') ''pv''))]]])],
       el ''p'' [atx ''class'' (js ''wasm-hint'')] [
        tx ([0x2713, 0x0020, 0xC5F0, 0xB3C4, 0xBCC4] @ js '' FCF '' @ [0xD560, 0xC778, 0x0020, 0x00B7, 0x0020, 0xC7D1, 0xB9AC,
            0xC218, 0xC2DD, 0x0020, 0x00B7, 0x0020, 0xC21C, 0xC218] @ js '' WASM'')]]]
     []"

definition wasm_view :: "locale_format \<Rightarrow> wasm \<Rightarrow> view" where
  "wasm_view fmt st = cat
     [
      el ''section'' [atx ''class'' (js ''panel'')] [
       wasm_v_panel_header st,
       wasm_v_wasmBsResult fmt st,
       el ''div'' [atx ''class'' (js ''section-divider'')] [tx ([0xD83D, 0xDCCA] @ js '' GBM Monte Carlo VaR (WASM)'')],
       wasm_v_param_grid st,
       wasm_v_wasm_btn st,
       wasm_v_wasmMcResult st,
       el ''div'' [atx ''class'' (js ''section-divider'')] [
        tx ([0x2696, 0xFE0F, 0x0020, 0xCD5C, 0xC18C, 0xBD84, 0xC0B0, 0x0020, 0xD3EC, 0xD2B8, 0xD3F4, 0xB9AC, 0xC624] @ js
            '' (WASM)'')],
       wasm_v_param_grid2 st,
       wasm_v_wasm_btn2 st,
       wasm_v_wasmPortResult st,
       el ''div'' [atx ''class'' (js ''section-divider'')] [tx ([0xD83C, 0xDFE2] @ js '' DCF '' @ [0xB0B4, 0xC7AC, 0xAC00, 0xCE58]
           @ js '' (WASM)'')],
       wasm_v_param_grid3 fmt st,
       wasm_v_wasm_btn3 st,
       wasm_v_wasmDcfResult fmt st]]"

end
