(* ===== verification/View_Types.thy ===== *)
theory View_Types
  imports View_Base
begin

text \<open>
  Types for the answers a template expects, and rules that check an expression or a part of a template against them: what is well typed
  does not throw.
\<close>

section \<open>Shapes of values\<close>

text \<open>
  \<open>Plain\<close> is any primitive, \<open>Opt t\<close> also allows \<open>null\<close> and \<open>undefined\<close>, \<open>Rec\<close> lists properties an object must have; it may
  have others.
\<close>

datatype shape = Number | Txt | Plain | Missing | Opt shape | Many shape | Rec "(string \<times> shape) list" | Anything

fun has_shape :: "shape \<Rightarrow> jsval \<Rightarrow> bool" where
  "has_shape Number v = (case v of Num _ \<Rightarrow> True | _ \<Rightarrow> False)"
| "has_shape Txt v = (case v of Str _ \<Rightarrow> True | _ \<Rightarrow> False)"
| "has_shape Plain v = (case v of Arr _ \<Rightarrow> False | Obj _ \<Rightarrow> False | _ \<Rightarrow> True)"
| "has_shape Missing v = (v = Undef)"
| "has_shape (Opt t) v = (nullish v \<or> has_shape t v)"
| "has_shape (Many t) v = (case v of Arr vs \<Rightarrow> list_all (has_shape t) vs | _ \<Rightarrow> False)"
| "has_shape (Rec fs) v = (case v of Obj kvs \<Rightarrow> list_all (\<lambda>(k, t). has_shape t (own_prop kvs (js k))) fs | _ \<Rightarrow> False)"
| "has_shape Anything v = True"

fun plain :: "shape \<Rightarrow> bool" where
  "plain (Opt t) = plain t"
| "plain (Many t) = False"
| "plain (Rec fs) = False"
| "plain Anything = False"
| "plain t = True"

fun strip :: "shape \<Rightarrow> shape" where
  "strip (Opt t) = strip t"
| "strip t = t"

definition join_shape :: "shape \<Rightarrow> shape \<Rightarrow> shape" where
  "join_shape t u = (if t = u then t else if plain t \<and> plain u then Plain else Anything)"

lemma shape_values: "has_shape Number v \<longleftrightarrow> (\<exists>x. v = Num x)" "has_shape Txt v \<longleftrightarrow> (\<exists>s. v = Str s)"
  "has_shape (Many t) v \<longleftrightarrow> (\<exists>vs. v = Arr vs \<and> list_all (has_shape t) vs)"
  by (auto split: jsval.splits)

lemma plain_value: "has_shape t v \<Longrightarrow> plain t \<Longrightarrow> has_shape Plain v"
proof (induction t arbitrary: v)
  case (Opt t)
  then show ?case by (cases v) force+
qed (auto split: jsval.splits)

lemma strip_shape: "has_shape t v \<Longrightarrow> \<not> nullish v \<Longrightarrow> has_shape (strip t) v"
  by (induction t) auto

lemma join_shapes: "has_shape t v \<Longrightarrow> has_shape (join_shape t u) v" "has_shape u v \<Longrightarrow> has_shape (join_shape t u) v"
  using plain_value by (auto simp: join_shape_def)

section \<open>Expressions\<close>

definition yields :: "expr \<Rightarrow> shape \<Rightarrow> bool" where
  "yields e t \<longleftrightarrow> (\<exists>v. e = Inr v \<and> has_shape t v)"

named_theorems shape_rules

lemma yields_value: "has_shape t v \<Longrightarrow> yields (Inr v) t"
  by (simp add: yields_def)

lemma yields_any: "yields (Inr v) Anything"
  by (simp add: yields_def)

lemma yields_const [shape_rules]: "yields (Inr (Num x)) Number" "yields (Inr (Str s)) Txt" "yields (Inr (Bool b)) Plain"
  "yields (Inr Undef) Missing"
  by (simp_all add: yields_def)

lemma rec_field:
  assumes "has_shape (Rec fs) v" "map_of fs k = Some t"
  shows "\<exists>w. get_prop v (js k) = Inr w \<and> has_shape t w"
proof -
  from assms(1) obtain kvs where "v = Obj kvs" "list_all (\<lambda>(k, t). has_shape t (own_prop kvs (js k))) fs" by (cases v) auto
  with map_of_SomeD [OF assms(2)] show ?thesis by (auto simp: list_all_iff)
qed

fun field_shape :: "shape \<Rightarrow> string \<Rightarrow> shape option" where
  "field_shape (Rec fs) k = map_of fs k"
| "field_shape (Many t) k = (if k = ''length'' then Some Number else None)"
| "field_shape _ k = None"

lemma yields_mem [shape_rules]:
  assumes "yields e t" "field_shape t k = Some u"
  shows "yields (mem e k) u"
proof (cases t)
  case (Rec fs)
  then show ?thesis using assms rec_field [of fs _ k u] by (auto simp: yields_def mem_def)
next
  case (Many w)
  then show ?thesis using assms by (auto simp: yields_def mem_def shape_values(3) simp del: has_shape.simps(6) split: if_splits)
qed (use assms in auto)

lemma yields_item [shape_rules]: "yields e t \<Longrightarrow> t = Many u \<Longrightarrow> yields (item e i) (Opt u)"
  by (cases e) (auto simp: yields_def item_def list_all_length split: jsval.splits)

lemma yields_chain [shape_rules]:
  assumes "yields e t" "\<And>v. has_shape (strip t) v \<Longrightarrow> yields (f (Inr v)) u"
  shows "yields (chain e f) (if t = strip t then join_shape u Missing else Opt u)"
proof -
  obtain v where v: "e = Inr v" "has_shape t v" using assms(1) by (auto simp: yields_def)
  show ?thesis
  proof (cases "nullish v")
    case True
    then show ?thesis using v join_shapes(2) [of Missing Undef] by (simp add: yields_def chain_def)
  next
    case False
    then obtain w where "f (Inr v) = Inr w" "has_shape u w" using assms(2) strip_shape v by (fastforce simp: yields_def)
    with v False show ?thesis by (auto simp: yields_def chain_def intro: join_shapes)
  qed
qed

lemma yields_default [shape_rules]:
  "yields a t \<Longrightarrow> yields b u \<Longrightarrow> yields (js_default a b) (join_shape (strip t) u)"
  "yields a t \<Longrightarrow> yields b u \<Longrightarrow> yields (js_or a b) (join_shape (strip t) u)"
proof -
  have "\<not> nullish v" if "truthy v" for v using that by (cases v) auto
  then show "yields a t \<Longrightarrow> yields b u \<Longrightarrow> yields (js_default a b) (join_shape (strip t) u)"
    "yields a t \<Longrightarrow> yields b u \<Longrightarrow> yields (js_or a b) (join_shape (strip t) u)"
    using strip_shape join_shapes by (fastforce simp: yields_def js_default_def js_or_def)+
qed

lemma yields_choice [shape_rules]:
  "yields a t \<Longrightarrow> yields b u \<Longrightarrow> yields (js_and a b) (join_shape t u)"
  "yields c t \<Longrightarrow> yields a u \<Longrightarrow> yields b w \<Longrightarrow> yields (js_if c a b) (join_shape u w)"
  using join_shapes by (auto simp: yields_def js_and_def js_if_def)

lemma yields_bool [shape_rules]:
  "yields a t \<Longrightarrow> yields (js_not a) Plain" "yields a t \<Longrightarrow> yields (js_nonnull a) Plain" "yields a t \<Longrightarrow> yields (type_of a) Txt"
  "yields a t \<Longrightarrow> yields b u \<Longrightarrow> yields (js_eq a b) Plain" "yields a t \<Longrightarrow> yields b u \<Longrightarrow> yields (js_ne a b) Plain"
  by (auto simp: yields_def js_not_def js_nonnull_def js_eq_def js_ne_def type_of_def)

text \<open>Operators convert primitives without calling methods.\<close>

lemma plain_conversions:
  assumes "has_shape t v" "plain t"
  shows "to_prim v = Inr v" "to_number v = Inr (prim_num v)" "to_string v = Inr (prim_str v)" "ok (shown_text v)"
  using plain_value [OF assms] by (cases v; simp add: to_number_def shown_text_def ok_simps)+

lemma yields_operators [shape_rules]:
  "yields a t \<Longrightarrow> plain t \<Longrightarrow> yields b u \<Longrightarrow> plain u \<Longrightarrow> yields (num_op f a b) Number"
  "yields a t \<Longrightarrow> plain t \<Longrightarrow> yields b u \<Longrightarrow> plain u \<Longrightarrow> yields (compare_with r a b) Plain"
  "yields a t \<Longrightarrow> plain t \<Longrightarrow> yields b u \<Longrightarrow> plain u \<Longrightarrow> yields (js_plus a b) Plain"
  "yields a t \<Longrightarrow> plain t \<Longrightarrow> yields (num_fun g a) Number" "yields a t \<Longrightarrow> plain t \<Longrightarrow> yields (as_Number a) Number"
  "yields a t \<Longrightarrow> plain t \<Longrightarrow> yields (num_call h a) Txt"
  by (auto simp: yields_def num_op_def compare_with_def js_plus_def num_fun_def as_Number_def num_call_def plain_conversions)

lemma yields_methods [shape_rules]:
  "yields a t \<Longrightarrow> t = Number \<Longrightarrow> yields (fixed n a) Txt" "yields a t \<Longrightarrow> t = Number \<Longrightarrow> yields (toLocale fmt args a) Txt"
  "yields a t \<Longrightarrow> t = Number \<Longrightarrow> yields (exponential n a) Txt" "yields a t \<Longrightarrow> t = Txt \<Longrightarrow> yields (str_method m a) Txt"
  "yields a t \<Longrightarrow> yields (date_text dfmt args a) Txt" "yields a t \<Longrightarrow> t = Txt \<Longrightarrow> yields (includes_text a p) Plain"
  by (auto simp: yields_def shape_values fixed_def to_fixed_def toLocale_def exponential_def str_method_def date_text_def
      includes_text_def simp del: has_shape.simps(1,2))

lemma yields_arrays [shape_rules]:
  "yields a t \<Longrightarrow> t = Many u \<Longrightarrow> yields (slice_of i j a) t" "yields a t \<Longrightarrow> t = Many u \<Longrightarrow> yields (last_of a) (Opt u)"
  by (auto simp: yields_def shape_values(3) slice_of_def last_of_def list_all_iff dest!: in_set_takeD in_set_dropD
      simp del: has_shape.simps(6))

definition writes :: "expr \<Rightarrow> bool" where
  "writes e \<longleftrightarrow> ok (bindr e shown_text)"

lemma writes_plain [shape_rules]: "yields e t \<Longrightarrow> plain t \<Longrightarrow> writes e"
  by (auto simp: writes_def yields_def plain_conversions)

lemma writes_all [shape_rules]: "list_all writes []" "writes e \<Longrightarrow> list_all writes es \<Longrightarrow> list_all writes (e # es)"
  by simp_all

lemma yields_template [shape_rules]: "list_all writes es \<Longrightarrow> yields (template es) Txt"
proof (induction es)
  case (Cons e es)
  then obtain t where "template es = Inr (Str t)" by (auto simp: yields_def shape_values(2) simp del: has_shape.simps(2))
  moreover from Cons.prems obtain v where "e = Inr v" "ok (to_string v)"
    by (cases e) (auto simp: writes_def shown_text_def ok_simps split: if_splits elim: nullish.elims)
  ultimately show ?case by (auto simp: yields_def ok_def)
qed (simp add: yields_def)

section \<open>Nodes\<close>

lemma ok_nodes [shape_rules]:
  "ok (tx s)" "ok (atx n s)" "list_all ok as \<Longrightarrow> list_all ok ks \<Longrightarrow> ok (el g as ks)"
  "list_all ok []" "ok m \<Longrightarrow> list_all ok ms \<Longrightarrow> list_all ok (m # ms)"
  by (simp_all add: view_leaves ok_el)

lemma ok_shown [shape_rules]:
  "yields e t \<Longrightarrow> plain t \<Longrightarrow> ok (ex e)" "yields e t \<Longrightarrow> plain t \<Longrightarrow> ok (aval n e)" "yields e t \<Longrightarrow> ok (aflag n e)"
  "list_all writes es \<Longrightarrow> ok (amix n es)"
  by (auto simp: yields_def view_leaves plain_conversions writes_def [abs_def] map_all)

lemma ok_ifv [shape_rules]: "yields c t \<Longrightarrow> list_all ok a \<Longrightarrow> list_all ok b \<Longrightarrow> ok (ifv c a b)"
  by (auto simp: yields_def view_leaves ok_cat)

lemma ok_each [shape_rules]:
  assumes "yields e t" "t = Many u" "\<And>i v. has_shape u v \<Longrightarrow> list_all ok (f i v)"
  shows "ok (each e f)"
proof -
  obtain vs where "e = Inr (Arr vs)" "list_all (has_shape u) vs" 
    using assms(1,2) by (auto simp: yields_def shape_values(3) simp del: has_shape.simps)
  with assms(3) show ?thesis by (auto simp: each_rules list_all_iff enumerate_eq_zip dest!: set_zip_rightD)
qed

lemma ok_bind_const [shape_rules]: "yields e t \<Longrightarrow> (\<And>v. has_shape t v \<Longrightarrow> list_all ok (f v)) \<Longrightarrow> ok (bind_const e f)"
  by (auto simp: yields_def view_leaves ok_cat)


text \<open>The array that stands for a missing one.\<close>

lemma yields_array_or_empty:
  assumes "yields a t" "strip t = Many u"
  shows "yields (js_default a (Inr (Arr []))) (Many u)" "yields (js_or a (Inr (Arr []))) (Many u)"
proof -
  obtain v where v: "a = Inr v" "nullish v \<or> has_shape (Many u) v"
    using assms strip_shape by (fastforce simp: yields_def simp del: has_shape.simps)
  then show "yields (js_default a (Inr (Arr []))) (Many u)" "yields (js_or a (Inr (Arr []))) (Many u)"
    by (cases v; simp add: yields_def js_default_def js_or_def)+
qed

text \<open>Tables of the component, indexed by a value.\<close>

lemma map_of_texts: "map_of (map (\<lambda>(k, c). (k, Str c)) tbl) k = map_option Str (map_of tbl k)"
  by (induction tbl) auto

lemma yields_table [shape_rules]:
  "yields k t \<Longrightarrow> plain t \<Longrightarrow> yields (member (Inr (Obj (map (\<lambda>(k, c). (k, Str c)) tbl))) k) (Opt Txt)"
  by (auto simp: yields_def member_def plain_conversions own_prop_def map_of_texts split: option.split)

section \<open>Variables\<close>

text \<open>
  A result variable is empty, holds an answer of the shape the template is written for, or, where the template asks for it, the object of
  a failure.
\<close>

definition fits :: "shape \<Rightarrow> jsval \<Rightarrow> bool" where
  "fits t v \<longleftrightarrow> v = Null \<or> has_shape t v \<or> (field_shape t ''error'' = Some Missing \<and> (\<exists>m. v = error_obj m \<and> m \<noteq> []))"

definition all_fit :: "(('s \<Rightarrow> jsval) \<times> shape) list \<Rightarrow> 's \<Rightarrow> bool" where
  "all_fit ts s \<longleftrightarrow> list_all (\<lambda>(x, t). fits t (x s)) ts"

definition accepts :: "('s \<Rightarrow> view) \<Rightarrow> (('s \<Rightarrow> jsval) \<times> shape) list \<Rightarrow> bool" where
  "accepts view ts \<longleftrightarrow> (\<forall>s. all_fit ts s \<longrightarrow> ok (view s))"

lemma fits_cases:
  assumes "fits t v"
  obtains "v = Null" | m where "v = error_obj m" "m \<noteq> []" "field_shape t ''error'' = Some Missing" | "has_shape t v"
  using assms by (auto simp: fits_def)


end
