(* ===== verification/View_Typed.thy ===== *)
theory View_Typed
  imports View_Single View_Combined View_Json View_Live View_Charts View_Wasm View_Types
begin

text \<open>
  The answers the templates are written for: a shape for each result variable, and the proof that a panel renders whatever answers of
  these shapes its variables hold.
\<close>

section \<open>JuliaPanel\<close>

definition juliaResult_shape :: shape where
  "juliaResult_shape = Rec [(''var_95'', Plain), (''cvar_95'', Plain), (''mean_return'', Plain), (''std_return'', Plain), (''sharpe'',
      Number), (''paths'', Opt Number)]"

definition stressResult_shape :: shape where
  "stressResult_shape = Rec [(''error'', Missing), (''engine'', Plain), (''paths'', Opt Number), (''days'', Plain), (''elapsed_ms'',
      Plain), (''scenarios'', Opt (Many (Rec [(''scenario'', Plain), (''var_95'', Plain), (''cvar_95'', Plain), (''max_loss'', Plain),
      (''sharpe'', Plain)])))]"

lemma julia_v_panel_header_ok: "ok (julia_v_panel_header s)"
  by (simp add: view_rules julia_v_panel_header_def cong: if_cong view_congs split del: if_split)

lemma julia_v_juliaResult_ok: "fits juliaResult_shape (juliaResult s) \<Longrightarrow> ok (julia_v_juliaResult fmt s)"
proof (erule fits_cases)
  show "juliaResult s = Null \<Longrightarrow> ok (julia_v_juliaResult fmt s)"
    by (simp add: view_rules julia_v_juliaResult_def cong: if_cong view_congs split del: if_split)
  show "juliaResult s = error_obj m \<Longrightarrow> m \<noteq> [] \<Longrightarrow> field_shape juliaResult_shape ''error'' = Some Missing
      \<Longrightarrow> ok (julia_v_juliaResult fmt s)" for m
    by (simp add: view_rules julia_v_juliaResult_def juliaResult_shape_def cong: if_cong view_congs split del: if_split)
  show "has_shape juliaResult_shape (juliaResult s) \<Longrightarrow> ok (julia_v_juliaResult fmt s)"
    unfolding julia_v_juliaResult_def juliaResult_shape_def by (rule yields_array_or_empty shape_rules | (rule yields_value, assumption) | rule
        yields_any | simp add: join_shape_def)+
qed

lemma julia_v_stressResult_ok: "fits stressResult_shape (stressResult s) \<Longrightarrow> ok (julia_v_stressResult fmt s)"
proof (erule fits_cases)
  show "stressResult s = Null \<Longrightarrow> ok (julia_v_stressResult fmt s)"
    by (simp add: view_rules julia_v_stressResult_def cong: if_cong view_congs split del: if_split)
  show "stressResult s = error_obj m \<Longrightarrow> m \<noteq> [] \<Longrightarrow> field_shape stressResult_shape ''error'' = Some Missing
      \<Longrightarrow> ok (julia_v_stressResult fmt s)" for m
    by (simp add: view_rules julia_v_stressResult_def stressResult_shape_def cong: if_cong view_congs split del: if_split)
  show "has_shape stressResult_shape (stressResult s) \<Longrightarrow> ok (julia_v_stressResult fmt s)"
    unfolding julia_v_stressResult_def stressResult_shape_def by (rule yields_array_or_empty shape_rules | (rule yields_value, assumption) | rule
        yields_any | simp add: join_shape_def)+
qed

lemma julia_accepts: "accepts (julia_view fmt) [(juliaResult, juliaResult_shape), (stressResult, stressResult_shape)]"
  by (simp add: accepts_def all_fit_def view_rules julia_view_def julia_v_panel_header_ok julia_v_juliaResult_ok julia_v_stressResult_ok)

section \<open>LuaCachePanel\<close>

definition cacheStats_shape :: shape where
  "cacheStats_shape = Rec [(''cache_hits'', Plain), (''cache_misses'', Plain), (''engine'', Plain)]"

lemma lua_cache_v_panel_ok: "fits cacheStats_shape (cacheStats s) \<Longrightarrow> ok (lua_cache_v_panel s)"
proof (erule fits_cases)
  show "cacheStats s = Null \<Longrightarrow> ok (lua_cache_v_panel s)"
    by (simp add: view_rules lua_cache_v_panel_def cong: if_cong view_congs split del: if_split)
  show "cacheStats s = error_obj m \<Longrightarrow> m \<noteq> [] \<Longrightarrow> field_shape cacheStats_shape ''error'' = Some Missing
      \<Longrightarrow> ok (lua_cache_v_panel s)" for m
    by (simp add: view_rules lua_cache_v_panel_def cacheStats_shape_def cong: if_cong view_congs split del: if_split)
  show "has_shape cacheStats_shape (cacheStats s) \<Longrightarrow> ok (lua_cache_v_panel s)"
    unfolding lua_cache_v_panel_def cacheStats_shape_def by (rule yields_array_or_empty shape_rules | (rule yields_value, assumption) | rule
        yields_any | simp add: join_shape_def)+
qed

lemma lua_cache_accepts: "accepts lua_cache_view [(cacheStats, cacheStats_shape)]"
  by (simp add: accepts_def all_fit_def view_rules lua_cache_view_def lua_cache_v_panel_ok)

section \<open>CrystalPanel\<close>

definition crystalData_shape :: shape where
  "crystalData_shape = Rec [(''error'', Missing), (''total_return'', Plain), (''sharpe_ratio'', Opt Number), (''fx'', Rec
      [(''concurrent_total_ms'', Plain), (''sequential_would_be_ms'', Plain), (''speedup_factor'', Plain), (''weighted_krw'', Opt
      Number)]), (''conc'', Rec [(''sources'', Many (Rec [(''source'', Plain), (''rate'', Opt Number), (''elapsed_ms'', Plain)])),
      (''fiber_model'', Plain)])]"

definition crystalStats_shape :: shape where
  "crystalStats_shape = Rec [(''error'', Missing), (''mean'', Opt Number), (''std_dev'', Opt Number), (''min'', Opt Number), (''max'', Opt
      Number), (''spread_bps'', Opt Number), (''weighted_avg'', Opt Number)]"

lemma crystal_v_panel_header_ok: "ok (crystal_v_panel_header s)"
  by (simp add: view_rules crystal_v_panel_header_def cong: if_cong view_congs split del: if_split)

lemma crystal_v_crystalData_ok: "fits crystalData_shape (crystalData s) \<Longrightarrow> ok (crystal_v_crystalData fmt s)"
proof (erule fits_cases)
  show "crystalData s = Null \<Longrightarrow> ok (crystal_v_crystalData fmt s)"
    by (simp add: view_rules crystal_v_crystalData_def cong: if_cong view_congs split del: if_split)
  show "crystalData s = error_obj m \<Longrightarrow> m \<noteq> [] \<Longrightarrow> field_shape crystalData_shape ''error'' = Some Missing
      \<Longrightarrow> ok (crystal_v_crystalData fmt s)" for m
    by (simp add: view_rules crystal_v_crystalData_def crystalData_shape_def cong: if_cong view_congs split del: if_split)
  show "has_shape crystalData_shape (crystalData s) \<Longrightarrow> ok (crystal_v_crystalData fmt s)"
    unfolding crystal_v_crystalData_def crystalData_shape_def by (rule yields_array_or_empty shape_rules | (rule yields_value, assumption) | rule
        yields_any | simp add: join_shape_def)+
qed

lemma crystal_v_crystalStats_ok: "fits crystalStats_shape (crystalStats s) \<Longrightarrow> ok (crystal_v_crystalStats fmt s)"
proof (erule fits_cases)
  show "crystalStats s = Null \<Longrightarrow> ok (crystal_v_crystalStats fmt s)"
    by (simp add: view_rules crystal_v_crystalStats_def cong: if_cong view_congs split del: if_split)
  show "crystalStats s = error_obj m \<Longrightarrow> m \<noteq> [] \<Longrightarrow> field_shape crystalStats_shape ''error'' = Some Missing
      \<Longrightarrow> ok (crystal_v_crystalStats fmt s)" for m
    by (simp add: view_rules crystal_v_crystalStats_def crystalStats_shape_def cong: if_cong view_congs split del: if_split)
  show "has_shape crystalStats_shape (crystalStats s) \<Longrightarrow> ok (crystal_v_crystalStats fmt s)"
    unfolding crystal_v_crystalStats_def crystalStats_shape_def by (rule yields_array_or_empty shape_rules | (rule yields_value, assumption) |
        rule yields_any | simp add: join_shape_def)+
qed

lemma crystal_accepts: "accepts (crystal_view fmt) [(crystalData, crystalData_shape), (crystalStats, crystalStats_shape)]"
  by (simp add: accepts_def all_fit_def view_rules crystal_view_def crystal_v_panel_header_ok crystal_v_crystalData_ok crystal_v_crystalStats_ok)

section \<open>NimPanel\<close>

definition nimData_shape :: shape where
  "nimData_shape = Rec [(''error'', Missing), (''annualized_return'', Plain), (''skewness'', Opt Number), (''excess_kurtosis'', Opt
      Number), (''rsi_14'', Opt Number), (''macd'', Opt Number), (''precomputed_alpha_periods'', Opt Plain), (''runtime_divisions'', Opt
      Plain)]"

definition nimGarch_shape :: shape where
  "nimGarch_shape = Rec [(''error'', Missing), (''persistence'', Opt Number), (''half_life_days'', Opt Number), (''current_vol_ann'', Opt
      Plain), (''last_10_vols'', Many Plain)]"

definition nimForecast_shape :: shape where
  "nimForecast_shape = Rec [(''order'', Opt Plain), (''error'', Missing), (''forecasts'', Opt (Many Plain)), (''coefficients'', Many (Opt
      Number))]"

lemma nim_v_panel_header_ok: "ok (nim_v_panel_header s)"
  by (simp add: view_rules nim_v_panel_header_def cong: if_cong view_congs split del: if_split)

lemma nim_v_nimData_ok: "fits nimData_shape (nimData s) \<Longrightarrow> ok (nim_v_nimData s)"
proof (erule fits_cases)
  show "nimData s = Null \<Longrightarrow> ok (nim_v_nimData s)"
    by (simp add: view_rules nim_v_nimData_def cong: if_cong view_congs split del: if_split)
  show "nimData s = error_obj m \<Longrightarrow> m \<noteq> [] \<Longrightarrow> field_shape nimData_shape ''error'' = Some Missing
      \<Longrightarrow> ok (nim_v_nimData s)" for m
    by (simp add: view_rules nim_v_nimData_def nimData_shape_def cong: if_cong view_congs split del: if_split)
  show "has_shape nimData_shape (nimData s) \<Longrightarrow> ok (nim_v_nimData s)"
    unfolding nim_v_nimData_def nimData_shape_def by (rule yields_array_or_empty shape_rules | (rule yields_value, assumption) | rule yields_any |
        simp add: join_shape_def)+
qed

lemma nim_v_nimGarch_ok: "fits nimGarch_shape (nimGarch s) \<Longrightarrow> ok (nim_v_nimGarch s)"
proof (erule fits_cases)
  show "nimGarch s = Null \<Longrightarrow> ok (nim_v_nimGarch s)"
    by (simp add: view_rules nim_v_nimGarch_def cong: if_cong view_congs split del: if_split)
  show "nimGarch s = error_obj m \<Longrightarrow> m \<noteq> [] \<Longrightarrow> field_shape nimGarch_shape ''error'' = Some Missing
      \<Longrightarrow> ok (nim_v_nimGarch s)" for m
    by (simp add: view_rules nim_v_nimGarch_def nimGarch_shape_def cong: if_cong view_congs split del: if_split)
  show "has_shape nimGarch_shape (nimGarch s) \<Longrightarrow> ok (nim_v_nimGarch s)"
    unfolding nim_v_nimGarch_def nimGarch_shape_def by (rule yields_array_or_empty shape_rules | (rule yields_value, assumption) | rule yields_any
        | simp add: join_shape_def)+
qed

lemma nim_v_nimForecast_ok: "fits nimForecast_shape (nimForecast s) \<Longrightarrow> ok (nim_v_nimForecast s)"
proof (erule fits_cases)
  show "nimForecast s = Null \<Longrightarrow> ok (nim_v_nimForecast s)"
    by (simp add: view_rules nim_v_nimForecast_def cong: if_cong view_congs split del: if_split)
  show "nimForecast s = error_obj m \<Longrightarrow> m \<noteq> [] \<Longrightarrow> field_shape nimForecast_shape ''error'' = Some Missing
      \<Longrightarrow> ok (nim_v_nimForecast s)" for m
    by (simp add: view_rules nim_v_nimForecast_def nimForecast_shape_def cong: if_cong view_congs split del: if_split)
  show "has_shape nimForecast_shape (nimForecast s) \<Longrightarrow> ok (nim_v_nimForecast s)"
    unfolding nim_v_nimForecast_def nimForecast_shape_def by (rule yields_array_or_empty shape_rules | (rule yields_value, assumption) | rule
        yields_any | simp add: join_shape_def)+
qed

lemma nim_accepts: "accepts nim_view [(nimData, nimData_shape), (nimGarch, nimGarch_shape), (nimForecast, nimForecast_shape)]"
  by (simp add: accepts_def all_fit_def view_rules nim_view_def nim_v_panel_header_ok nim_v_nimData_ok nim_v_nimGarch_ok nim_v_nimForecast_ok)

section \<open>ScalaPanel\<close>

definition scalaData_shape :: shape where
  "scalaData_shape = Rec [(''error'', Missing), (''annualized_return'', Plain), (''forecast_next'', Plain), (''stream'', Rec
      [(''n_ticks'', Plain), (''n_alerts'', Plain), (''max_severity_score'', Plain), (''lazy_stream'', Anything)])]"

lemma scala_v_panel_header_ok: "ok (scala_v_panel_header s)"
  by (simp add: view_rules scala_v_panel_header_def cong: if_cong view_congs split del: if_split)

lemma scala_v_scalaData_ok: "fits scalaData_shape (scalaData s) \<Longrightarrow> ok (scala_v_scalaData s)"
proof (erule fits_cases)
  show "scalaData s = Null \<Longrightarrow> ok (scala_v_scalaData s)"
    by (simp add: view_rules scala_v_scalaData_def cong: if_cong view_congs split del: if_split)
  show "scalaData s = error_obj m \<Longrightarrow> m \<noteq> [] \<Longrightarrow> field_shape scalaData_shape ''error'' = Some Missing
      \<Longrightarrow> ok (scala_v_scalaData s)" for m
    by (simp add: view_rules scala_v_scalaData_def scalaData_shape_def cong: if_cong view_congs split del: if_split)
  show "has_shape scalaData_shape (scalaData s) \<Longrightarrow> ok (scala_v_scalaData s)"
    unfolding scala_v_scalaData_def scalaData_shape_def by (rule yields_array_or_empty shape_rules | (rule yields_value, assumption) | rule
        yields_any | simp add: join_shape_def)+
qed

lemma scala_accepts: "accepts scala_view [(scalaData, scalaData_shape)]"
  by (simp add: accepts_def all_fit_def view_rules scala_view_def scala_v_panel_header_ok scala_v_scalaData_ok)

section \<open>RustPipelinePanel\<close>

definition rustStatus_shape :: shape where
  "rustStatus_shape = Rec [(''total_risk_logs'', Opt Number), (''module'', Opt Plain), (''status'', Plain)]"

definition pipelineResult_shape :: shape where
  "pipelineResult_shape = Rec [(''status'', Anything), (''inserted_rows'', Opt Number), (''elapsed_time_ms'', Plain), (''message'', Opt
      Plain)]"

definition riskSummary_shape :: shape where
  "riskSummary_shape = Rec [(''error'', Missing), (''count'', Plain), (''avg_var'', Opt Number), (''min_var'', Opt Number), (''max_var'',
      Opt Number), (''p95_var'', Opt Number), (''engine'', Plain)]"

lemma rust_v_panel_header_ok: "fits rustStatus_shape (rustStatus s) \<Longrightarrow> ok (rust_v_panel_header fmt s)"
proof (erule fits_cases)
  show "rustStatus s = Null \<Longrightarrow> ok (rust_v_panel_header fmt s)"
    by (simp add: view_rules rust_v_panel_header_def cong: if_cong view_congs split del: if_split)
  show "rustStatus s = error_obj m \<Longrightarrow> m \<noteq> [] \<Longrightarrow> field_shape rustStatus_shape ''error'' = Some Missing
      \<Longrightarrow> ok (rust_v_panel_header fmt s)" for m
    by (simp add: view_rules rust_v_panel_header_def rustStatus_shape_def cong: if_cong view_congs split del: if_split)
  show "has_shape rustStatus_shape (rustStatus s) \<Longrightarrow> ok (rust_v_panel_header fmt s)"
    unfolding rust_v_panel_header_def rustStatus_shape_def by (rule yields_array_or_empty shape_rules | (rule yields_value, assumption) | rule
        yields_any | simp add: join_shape_def)+
qed

lemma rust_v_pipelineResult_ok: "fits pipelineResult_shape (pipelineResult s) \<Longrightarrow> ok (rust_v_pipelineResult fmt s)"
proof (erule fits_cases)
  show "pipelineResult s = Null \<Longrightarrow> ok (rust_v_pipelineResult fmt s)"
    by (simp add: view_rules rust_v_pipelineResult_def cong: if_cong view_congs split del: if_split)
  show "pipelineResult s = error_obj m \<Longrightarrow> m \<noteq> [] \<Longrightarrow> field_shape pipelineResult_shape ''error'' = Some Missing
      \<Longrightarrow> ok (rust_v_pipelineResult fmt s)" for m
    by (simp add: view_rules rust_v_pipelineResult_def pipelineResult_shape_def cong: if_cong view_congs split del: if_split)
  show "has_shape pipelineResult_shape (pipelineResult s) \<Longrightarrow> ok (rust_v_pipelineResult fmt s)"
    unfolding rust_v_pipelineResult_def pipelineResult_shape_def by (rule yields_array_or_empty shape_rules | (rule yields_value, assumption) |
        rule yields_any | simp add: join_shape_def)+
qed

lemma rust_v_riskSummary_ok: "fits riskSummary_shape (riskSummary s) \<Longrightarrow> ok (rust_v_riskSummary fmt s)"
proof (erule fits_cases)
  show "riskSummary s = Null \<Longrightarrow> ok (rust_v_riskSummary fmt s)"
    by (simp add: view_rules rust_v_riskSummary_def cong: if_cong view_congs split del: if_split)
  show "riskSummary s = error_obj m \<Longrightarrow> m \<noteq> [] \<Longrightarrow> field_shape riskSummary_shape ''error'' = Some Missing
      \<Longrightarrow> ok (rust_v_riskSummary fmt s)" for m
    by (simp add: view_rules rust_v_riskSummary_def riskSummary_shape_def cong: if_cong view_congs split del: if_split)
  show "has_shape riskSummary_shape (riskSummary s) \<Longrightarrow> ok (rust_v_riskSummary fmt s)"
    unfolding rust_v_riskSummary_def riskSummary_shape_def by (rule yields_array_or_empty shape_rules | (rule yields_value, assumption) | rule
        yields_any | simp add: join_shape_def)+
qed

lemma rust_accepts: "accepts (rust_view fmt) [(rustStatus, rustStatus_shape), (pipelineResult, pipelineResult_shape), (riskSummary,
    riskSummary_shape)]"
  by (simp add: accepts_def all_fit_def view_rules rust_view_def rust_v_panel_header_ok rust_v_pipelineResult_ok rust_v_riskSummary_ok)

section \<open>ErlangPanel\<close>

definition erlangData_shape :: shape where
  "erlangData_shape = Rec [(''error'', Missing), (''swap'', Opt (Rec [(''downtime_ms'', Plain), (''swap_count'', Plain), (''old_logic'',
      Plain), (''new_logic'', Plain)])), (''riskBefore'', Opt (Rec [(''risk_score'', Opt Plain), (''grade'', Plain)])), (''riskAfter'',
      Opt (Rec [(''risk_score'', Opt Plain), (''grade'', Plain)])), (''beam_processes'', Plain)]"

definition er_riskData_shape :: shape where
  "er_riskData_shape = Rec [(''error'', Missing), (''risk_score'', Opt Plain), (''grade'', Plain), (''version'', Plain), (''logic'',
      Plain)]"

lemma erlang_v_panel_header_ok: "ok (erlang_v_panel_header s)"
  by (simp add: view_rules erlang_v_panel_header_def cong: if_cong view_congs split del: if_split)

lemma erlang_v_erlangData_ok: "fits erlangData_shape (erlangData s) \<Longrightarrow> ok (erlang_v_erlangData s)"
proof (erule fits_cases)
  show "erlangData s = Null \<Longrightarrow> ok (erlang_v_erlangData s)"
    by (simp add: view_rules erlang_v_erlangData_def cong: if_cong view_congs split del: if_split)
  show "erlangData s = error_obj m \<Longrightarrow> m \<noteq> [] \<Longrightarrow> field_shape erlangData_shape ''error'' = Some Missing
      \<Longrightarrow> ok (erlang_v_erlangData s)" for m
    by (simp add: view_rules erlang_v_erlangData_def erlangData_shape_def cong: if_cong view_congs split del: if_split)
  show "has_shape erlangData_shape (erlangData s) \<Longrightarrow> ok (erlang_v_erlangData s)"
    unfolding erlang_v_erlangData_def erlangData_shape_def by (rule yields_array_or_empty shape_rules | (rule yields_value, assumption) | rule
        yields_any | simp add: join_shape_def)+
qed

lemma erlang_v_risk_section_ok: "fits er_riskData_shape (er_riskData s) \<Longrightarrow> ok (erlang_v_risk_section s)"
proof (erule fits_cases)
  show "er_riskData s = Null \<Longrightarrow> ok (erlang_v_risk_section s)"
    by (simp add: view_rules erlang_v_risk_section_def cong: if_cong view_congs split del: if_split)
  show "er_riskData s = error_obj m \<Longrightarrow> m \<noteq> [] \<Longrightarrow> field_shape er_riskData_shape ''error'' = Some Missing
      \<Longrightarrow> ok (erlang_v_risk_section s)" for m
    by (simp add: view_rules erlang_v_risk_section_def er_riskData_shape_def cong: if_cong view_congs split del: if_split)
  show "has_shape er_riskData_shape (er_riskData s) \<Longrightarrow> ok (erlang_v_risk_section s)"
    unfolding erlang_v_risk_section_def er_riskData_shape_def by (rule yields_array_or_empty shape_rules | (rule yields_value, assumption) | rule
        yields_any | simp add: join_shape_def)+
qed

lemma erlang_accepts: "accepts erlang_view [(erlangData, erlangData_shape), (er_riskData, er_riskData_shape)]"
  by (simp add: accepts_def all_fit_def view_rules erlang_view_def erlang_v_panel_header_ok erlang_v_erlangData_ok erlang_v_risk_section_ok)

section \<open>GleamPanel\<close>

definition gleamData_shape :: shape where
  "gleamData_shape = Rec [(''error'', Missing), (''valid_ok'', Opt (Rec [(''ok'', Anything)])), (''valid_err'', Opt (Rec [(''error'',
      Missing)])), (''contract'', Opt (Rec [(''message_types'', Opt (Many Anything)), (''guarantee'', Opt Plain)]))]"

definition gl_pipelineData_shape :: shape where
  "gl_pipelineData_shape = Rec [(''error'', Missing), (''n'', Plain), (''annualized_return'', Opt Plain), (''annualized_vol'', Opt Plain),
      (''pipeline_steps'', Opt (Many (Rec [(''name'', Plain), (''count'', Plain), (''mean'', Opt Number), (''std'', Opt Number)])))]"

definition gl_riskData_shape :: shape where
  "gl_riskData_shape = Rec [(''error'', Missing), (''n'', Plain), (''annualized_return'', Opt Plain), (''annualized_vol'', Opt Plain),
      (''var_95'', Opt Plain), (''cvar_95'', Opt Plain), (''sharpe_ratio'', Opt Number), (''max_drawdown'', Opt Plain)]"

lemma gleam_v_panel_header_ok: "ok (gleam_v_panel_header s)"
  by (simp add: view_rules gleam_v_panel_header_def cong: if_cong view_congs split del: if_split)

lemma gleam_v_gleamData_ok: "fits gleamData_shape (gleamData s) \<Longrightarrow> ok (gleam_v_gleamData s)"
proof (erule fits_cases)
  show "gleamData s = Null \<Longrightarrow> ok (gleam_v_gleamData s)"
    by (simp add: view_rules gleam_v_gleamData_def cong: if_cong view_congs split del: if_split)
  show "gleamData s = error_obj m \<Longrightarrow> m \<noteq> [] \<Longrightarrow> field_shape gleamData_shape ''error'' = Some Missing
      \<Longrightarrow> ok (gleam_v_gleamData s)" for m
    by (simp add: view_rules gleam_v_gleamData_def gleamData_shape_def cong: if_cong view_congs split del: if_split)
  show "has_shape gleamData_shape (gleamData s) \<Longrightarrow> ok (gleam_v_gleamData s)"
    unfolding gleam_v_gleamData_def gleamData_shape_def by (rule yields_array_or_empty shape_rules | (rule yields_value, assumption) | rule
        yields_any | simp add: join_shape_def)+
qed

lemma gleam_v_pipelineData_ok: "fits gl_pipelineData_shape (gl_pipelineData s) \<Longrightarrow> ok (gleam_v_pipelineData s)"
proof (erule fits_cases)
  show "gl_pipelineData s = Null \<Longrightarrow> ok (gleam_v_pipelineData s)"
    by (simp add: view_rules gleam_v_pipelineData_def cong: if_cong view_congs split del: if_split)
  show "gl_pipelineData s = error_obj m \<Longrightarrow> m \<noteq> [] \<Longrightarrow> field_shape gl_pipelineData_shape ''error'' = Some
      Missing \<Longrightarrow> ok (gleam_v_pipelineData s)" for m
    by (simp add: view_rules gleam_v_pipelineData_def gl_pipelineData_shape_def cong: if_cong view_congs split del: if_split)
  show "has_shape gl_pipelineData_shape (gl_pipelineData s) \<Longrightarrow> ok (gleam_v_pipelineData s)"
    unfolding gleam_v_pipelineData_def gl_pipelineData_shape_def by (rule yields_array_or_empty shape_rules | (rule yields_value, assumption) |
        rule yields_any | simp add: join_shape_def)+
qed

lemma gleam_v_riskData_ok: "fits gl_riskData_shape (gl_riskData s) \<Longrightarrow> ok (gleam_v_riskData s)"
proof (erule fits_cases)
  show "gl_riskData s = Null \<Longrightarrow> ok (gleam_v_riskData s)"
    by (simp add: view_rules gleam_v_riskData_def cong: if_cong view_congs split del: if_split)
  show "gl_riskData s = error_obj m \<Longrightarrow> m \<noteq> [] \<Longrightarrow> field_shape gl_riskData_shape ''error'' = Some Missing
      \<Longrightarrow> ok (gleam_v_riskData s)" for m
    by (simp add: view_rules gleam_v_riskData_def gl_riskData_shape_def cong: if_cong view_congs split del: if_split)
  show "has_shape gl_riskData_shape (gl_riskData s) \<Longrightarrow> ok (gleam_v_riskData s)"
    unfolding gleam_v_riskData_def gl_riskData_shape_def by (rule yields_array_or_empty shape_rules | (rule yields_value, assumption) | rule
        yields_any | simp add: join_shape_def)+
qed

lemma gleam_v_gleamData2_ok: "ok (gleam_v_gleamData2 s)"
  unfolding gleam_v_gleamData2_def by (rule yields_array_or_empty shape_rules yields_any | simp add: join_shape_def)+

lemma gleam_accepts: "accepts gleam_view [(gleamData, gleamData_shape), (gl_pipelineData, gl_pipelineData_shape), (gl_riskData, gl_riskData_shape)]"
  by (simp add: accepts_def all_fit_def view_rules gleam_view_def gleam_v_panel_header_ok gleam_v_gleamData_ok gleam_v_pipelineData_ok
      gleam_v_riskData_ok gleam_v_gleamData2_ok)

section \<open>JavaLoomPanel\<close>

definition javaStatus_shape :: shape where
  "javaStatus_shape = Rec [(''version'', Plain), (''jvm'', Plain), (''cpu_cores'', Plain)]"

definition javaData_shape :: shape where
  "javaData_shape = Rec [(''error'', Missing), (''vthreads'', Opt (Rec [(''virtual_threads'', Plain), (''throughput_per_s'', Plain),
      (''elapsed_ms'', Plain), (''mem_delta_kb'', Plain), (''note'', Plain)])), (''compare'', Opt (Rec [(''tasks'', Plain),
      (''platform_thread_ms'', Plain), (''virtual_thread_ms'', Plain), (''speedup'', Plain)]))]"

definition jv_pipelineData_shape :: shape where
  "jv_pipelineData_shape = Rec [(''tasks'', Plain), (''error'', Missing), (''delay_ms_per_task'', Plain), (''platform_pool_size'', Plain),
      (''platform_total_ms'', Plain), (''theoretical_platform_ms'', Plain), (''virtual_total_ms'', Plain), (''speedup'', Plain),
      (''note'', Plain)]"

lemma java_v_panel_header_ok: "fits javaStatus_shape (javaStatus s) \<Longrightarrow> ok (java_v_panel_header s)"
proof (erule fits_cases)
  show "javaStatus s = Null \<Longrightarrow> ok (java_v_panel_header s)"
    by (simp add: view_rules java_v_panel_header_def cong: if_cong view_congs split del: if_split)
  show "javaStatus s = error_obj m \<Longrightarrow> m \<noteq> [] \<Longrightarrow> field_shape javaStatus_shape ''error'' = Some Missing
      \<Longrightarrow> ok (java_v_panel_header s)" for m
    by (simp add: view_rules java_v_panel_header_def javaStatus_shape_def cong: if_cong view_congs split del: if_split)
  show "has_shape javaStatus_shape (javaStatus s) \<Longrightarrow> ok (java_v_panel_header s)"
    unfolding java_v_panel_header_def javaStatus_shape_def by (rule yields_array_or_empty shape_rules | (rule yields_value, assumption) | rule
        yields_any | simp add: join_shape_def)+
qed

lemma java_v_javaData_ok: "fits javaData_shape (javaData s) \<Longrightarrow> ok (java_v_javaData fmt s)"
proof (erule fits_cases)
  show "javaData s = Null \<Longrightarrow> ok (java_v_javaData fmt s)"
    by (simp add: view_rules java_v_javaData_def cong: if_cong view_congs split del: if_split)
  show "javaData s = error_obj m \<Longrightarrow> m \<noteq> [] \<Longrightarrow> field_shape javaData_shape ''error'' = Some Missing
      \<Longrightarrow> ok (java_v_javaData fmt s)" for m
    by (simp add: view_rules java_v_javaData_def javaData_shape_def cong: if_cong view_congs split del: if_split)
  show "has_shape javaData_shape (javaData s) \<Longrightarrow> ok (java_v_javaData fmt s)"
    unfolding java_v_javaData_def javaData_shape_def by (rule yields_array_or_empty shape_rules | (rule yields_value, assumption) | rule
        yields_any | simp add: join_shape_def)+
qed

lemma java_v_pipelineData_ok: "fits jv_pipelineData_shape (jv_pipelineData s) \<Longrightarrow> ok (java_v_pipelineData s)"
proof (erule fits_cases)
  show "jv_pipelineData s = Null \<Longrightarrow> ok (java_v_pipelineData s)"
    by (simp add: view_rules java_v_pipelineData_def cong: if_cong view_congs split del: if_split)
  show "jv_pipelineData s = error_obj m \<Longrightarrow> m \<noteq> [] \<Longrightarrow> field_shape jv_pipelineData_shape ''error'' = Some
      Missing \<Longrightarrow> ok (java_v_pipelineData s)" for m
    by (simp add: view_rules java_v_pipelineData_def jv_pipelineData_shape_def cong: if_cong view_congs split del: if_split)
  show "has_shape jv_pipelineData_shape (jv_pipelineData s) \<Longrightarrow> ok (java_v_pipelineData s)"
    unfolding java_v_pipelineData_def jv_pipelineData_shape_def by (rule yields_array_or_empty shape_rules | (rule yields_value, assumption) |
        rule yields_any | simp add: join_shape_def)+
qed

lemma java_accepts: "accepts (java_view fmt) [(javaStatus, javaStatus_shape), (javaData, javaData_shape), (jv_pipelineData, jv_pipelineData_shape)]"
  by (simp add: accepts_def all_fit_def view_rules java_view_def java_v_panel_header_ok java_v_javaData_ok java_v_pipelineData_ok)

section \<open>LuaStreamPanel\<close>

definition luaData_shape :: shape where
  "luaData_shape = Rec [(''error'', Missing), (''total_resumes'', Opt Number), (''elapsed_ms'', Opt Number), (''feeds'', Opt (Many (Rec
      [(''symbol'', Plain), (''end_price'', Opt Number), (''return_pct'', Opt Number), (''ann_vol_pct'', Opt Number),
      (''coroutine_status'', Plain)]))), (''scheduler'', Plain)]"

lemma lua_stream_v_panel_header_ok: "ok (lua_stream_v_panel_header s)"
  by (simp add: view_rules lua_stream_v_panel_header_def cong: if_cong view_congs split del: if_split)

lemma lua_stream_v_luaData_ok: "fits luaData_shape (luaData s) \<Longrightarrow> ok (lua_stream_v_luaData fmt s)"
proof (erule fits_cases)
  show "luaData s = Null \<Longrightarrow> ok (lua_stream_v_luaData fmt s)"
    by (simp add: view_rules lua_stream_v_luaData_def cong: if_cong view_congs split del: if_split)
  show "luaData s = error_obj m \<Longrightarrow> m \<noteq> [] \<Longrightarrow> field_shape luaData_shape ''error'' = Some Missing
      \<Longrightarrow> ok (lua_stream_v_luaData fmt s)" for m
    by (simp add: view_rules lua_stream_v_luaData_def luaData_shape_def cong: if_cong view_congs split del: if_split)
  show "has_shape luaData_shape (luaData s) \<Longrightarrow> ok (lua_stream_v_luaData fmt s)"
    unfolding lua_stream_v_luaData_def luaData_shape_def by (rule yields_array_or_empty shape_rules | (rule yields_value, assumption) | rule
        yields_any | simp add: join_shape_def)+
qed

lemma lua_stream_accepts: "accepts (lua_stream_view fmt) [(luaData, luaData_shape)]"
  by (simp add: accepts_def all_fit_def view_rules lua_stream_view_def lua_stream_v_panel_header_ok lua_stream_v_luaData_ok)

section \<open>VPanel\<close>

definition vData_shape :: shape where
  "vData_shape = Rec [(''error'', Missing), (''strategy'', Plain), (''ticks'', Opt Number), (''win_rate'', Opt Plain), (''total_return'',
      Opt Plain), (''sharpe_ratio'', Opt Number), (''gc_pauses_ms'', Plain), (''stress'', Rec [(''total_ticks'', Opt Number),
      (''elapsed_ms'', Plain)])]"

lemma vquant_v_v_btn_ok: "ok (vquant_v_v_btn s)"
  by (simp add: view_rules vquant_v_v_btn_def cong: if_cong view_congs split del: if_split)

lemma vquant_v_param_grid_ok: "ok (vquant_v_param_grid s)"
  by (simp add: view_rules vquant_v_param_grid_def cong: if_cong view_congs split del: if_split)

lemma vquant_v_vData_ok: "fits vData_shape (vData s) \<Longrightarrow> ok (vquant_v_vData fmt s)"
proof (erule fits_cases)
  show "vData s = Null \<Longrightarrow> ok (vquant_v_vData fmt s)"
    by (simp add: view_rules vquant_v_vData_def cong: if_cong view_congs split del: if_split)
  show "vData s = error_obj m \<Longrightarrow> m \<noteq> [] \<Longrightarrow> field_shape vData_shape ''error'' = Some Missing \<Longrightarrow>
      ok (vquant_v_vData fmt s)" for m
    by (simp add: view_rules vquant_v_vData_def vData_shape_def cong: if_cong view_congs split del: if_split)
  show "has_shape vData_shape (vData s) \<Longrightarrow> ok (vquant_v_vData fmt s)"
    unfolding vquant_v_vData_def vData_shape_def by (rule yields_array_or_empty shape_rules | (rule yields_value, assumption) | rule yields_any |
        simp add: join_shape_def)+
qed

lemma vquant_accepts: "accepts (vquant_view fmt) [(vData, vData_shape)]"
  by (simp add: accepts_def all_fit_def view_rules vquant_view_def vquant_v_v_btn_ok vquant_v_param_grid_ok vquant_v_vData_ok)

section \<open>WasmPanel\<close>

definition wasmBsResult_shape :: shape where
  "wasmBsResult_shape = Rec [(''error'', Missing), (''call'', Number), (''put'', Number), (''delta'', Number), (''gamma'', Number),
      (''theta'', Number), (''vega'', Number), (''rho'', Number), (''var95'', Plain), (''dcf'', Plain)]"

definition wasmMcResult_shape :: shape where
  "wasmMcResult_shape = Rec [(''error'', Missing), (''var95_pct'', Plain), (''var95_abs'', Plain), (''paths'', Plain)]"

definition wasmPortResult_shape :: shape where
  "wasmPortResult_shape = Rec [(''error'', Missing), (''min_var_w1'', Plain), (''min_var_w2'', Plain), (''min_var_vol'', Plain),
      (''sharpe_mv'', Plain), (''sharpe_eq'', Plain)]"

definition wasmDcfResult_shape :: shape where
  "wasmDcfResult_shape = Rec [(''error'', Missing), (''intrinsic_value'', Opt Number), (''operating_pv'', Opt Number),
      (''terminal_value_pv'', Opt Number), (''tv_pct'', Plain), (''steps'', Opt (Many (Rec [(''year'', Plain), (''cf'', Number), (''pv'',
      Number)])))]"

lemma wasm_v_panel_header_ok: "ok (wasm_v_panel_header s)"
  by (simp add: view_rules wasm_v_panel_header_def cong: if_cong view_congs split del: if_split)

lemma wasm_v_wasmBsResult_ok: "fits wasmBsResult_shape (wasmBsResult s) \<Longrightarrow> ok (wasm_v_wasmBsResult fmt s)"
proof (erule fits_cases)
  show "wasmBsResult s = Null \<Longrightarrow> ok (wasm_v_wasmBsResult fmt s)"
    by (simp add: view_rules wasm_v_wasmBsResult_def cong: if_cong view_congs split del: if_split)
  show "wasmBsResult s = error_obj m \<Longrightarrow> m \<noteq> [] \<Longrightarrow> field_shape wasmBsResult_shape ''error'' = Some Missing
      \<Longrightarrow> ok (wasm_v_wasmBsResult fmt s)" for m
    by (simp add: view_rules wasm_v_wasmBsResult_def wasmBsResult_shape_def cong: if_cong view_congs split del: if_split)
  show "has_shape wasmBsResult_shape (wasmBsResult s) \<Longrightarrow> ok (wasm_v_wasmBsResult fmt s)"
    unfolding wasm_v_wasmBsResult_def wasmBsResult_shape_def by (rule yields_array_or_empty shape_rules | (rule yields_value, assumption) | rule
        yields_any | simp add: join_shape_def)+
qed

lemma wasm_v_param_grid_ok: "ok (wasm_v_param_grid s)"
  by (simp add: view_rules wasm_v_param_grid_def cong: if_cong view_congs split del: if_split)

lemma wasm_v_wasm_btn_ok: "ok (wasm_v_wasm_btn s)"
  by (simp add: view_rules wasm_v_wasm_btn_def cong: if_cong view_congs split del: if_split)

lemma wasm_v_wasmMcResult_ok: "fits wasmMcResult_shape (wasmMcResult s) \<Longrightarrow> ok (wasm_v_wasmMcResult s)"
proof (erule fits_cases)
  show "wasmMcResult s = Null \<Longrightarrow> ok (wasm_v_wasmMcResult s)"
    by (simp add: view_rules wasm_v_wasmMcResult_def cong: if_cong view_congs split del: if_split)
  show "wasmMcResult s = error_obj m \<Longrightarrow> m \<noteq> [] \<Longrightarrow> field_shape wasmMcResult_shape ''error'' = Some Missing
      \<Longrightarrow> ok (wasm_v_wasmMcResult s)" for m
    by (simp add: view_rules wasm_v_wasmMcResult_def wasmMcResult_shape_def cong: if_cong view_congs split del: if_split)
  show "has_shape wasmMcResult_shape (wasmMcResult s) \<Longrightarrow> ok (wasm_v_wasmMcResult s)"
    unfolding wasm_v_wasmMcResult_def wasmMcResult_shape_def by (rule yields_array_or_empty shape_rules | (rule yields_value, assumption) | rule
        yields_any | simp add: join_shape_def)+
qed

lemma wasm_v_param_grid2_ok: "ok (wasm_v_param_grid2 s)"
  by (simp add: view_rules wasm_v_param_grid2_def cong: if_cong view_congs split del: if_split)

lemma wasm_v_wasm_btn2_ok: "ok (wasm_v_wasm_btn2 s)"
  by (simp add: view_rules wasm_v_wasm_btn2_def cong: if_cong view_congs split del: if_split)

lemma wasm_v_wasmPortResult_ok: "fits wasmPortResult_shape (wasmPortResult s) \<Longrightarrow> ok (wasm_v_wasmPortResult s)"
proof (erule fits_cases)
  show "wasmPortResult s = Null \<Longrightarrow> ok (wasm_v_wasmPortResult s)"
    by (simp add: view_rules wasm_v_wasmPortResult_def cong: if_cong view_congs split del: if_split)
  show "wasmPortResult s = error_obj m \<Longrightarrow> m \<noteq> [] \<Longrightarrow> field_shape wasmPortResult_shape ''error'' = Some Missing
      \<Longrightarrow> ok (wasm_v_wasmPortResult s)" for m
    by (simp add: view_rules wasm_v_wasmPortResult_def wasmPortResult_shape_def cong: if_cong view_congs split del: if_split)
  show "has_shape wasmPortResult_shape (wasmPortResult s) \<Longrightarrow> ok (wasm_v_wasmPortResult s)"
    unfolding wasm_v_wasmPortResult_def wasmPortResult_shape_def by (rule yields_array_or_empty shape_rules | (rule yields_value, assumption) |
        rule yields_any | simp add: join_shape_def)+
qed

lemma wasm_v_param_grid3_ok: "ok (wasm_v_param_grid3 fmt s)"
  by (simp add: view_rules wasm_v_param_grid3_def cong: if_cong view_congs split del: if_split)

lemma wasm_v_wasm_btn3_ok: "ok (wasm_v_wasm_btn3 s)"
  by (simp add: view_rules wasm_v_wasm_btn3_def cong: if_cong view_congs split del: if_split)

lemma wasm_v_wasmDcfResult_ok: "fits wasmDcfResult_shape (wasmDcfResult s) \<Longrightarrow> ok (wasm_v_wasmDcfResult fmt s)"
proof (erule fits_cases)
  show "wasmDcfResult s = Null \<Longrightarrow> ok (wasm_v_wasmDcfResult fmt s)"
    by (simp add: view_rules wasm_v_wasmDcfResult_def cong: if_cong view_congs split del: if_split)
  show "wasmDcfResult s = error_obj m \<Longrightarrow> m \<noteq> [] \<Longrightarrow> field_shape wasmDcfResult_shape ''error'' = Some Missing
      \<Longrightarrow> ok (wasm_v_wasmDcfResult fmt s)" for m
    by (simp add: view_rules wasm_v_wasmDcfResult_def wasmDcfResult_shape_def cong: if_cong view_congs split del: if_split)
  show "has_shape wasmDcfResult_shape (wasmDcfResult s) \<Longrightarrow> ok (wasm_v_wasmDcfResult fmt s)"
    unfolding wasm_v_wasmDcfResult_def wasmDcfResult_shape_def by (rule yields_array_or_empty shape_rules | (rule yields_value, assumption) | rule
        yields_any | simp add: join_shape_def)+
qed

lemma wasm_accepts: "accepts (wasm_view fmt) [(wasmBsResult, wasmBsResult_shape), (wasmMcResult, wasmMcResult_shape), (wasmPortResult,
    wasmPortResult_shape), (wasmDcfResult, wasmDcfResult_shape)]"
  by (simp add: accepts_def all_fit_def view_rules wasm_view_def wasm_v_panel_header_ok wasm_v_wasmBsResult_ok wasm_v_param_grid_ok
      wasm_v_wasm_btn_ok wasm_v_wasmMcResult_ok wasm_v_param_grid2_ok wasm_v_wasm_btn2_ok wasm_v_wasmPortResult_ok wasm_v_param_grid3_ok
      wasm_v_wasm_btn3_ok wasm_v_wasmDcfResult_ok)

section \<open>A panel that computes its answers\<close>

text \<open>Edits of bound inputs leave the result variables alone.\<close>

fun inputs_only :: "('s \<Rightarrow> jsval) list \<Rightarrow> ('h, 's) panel_event \<Rightarrow> bool" where
  "inputs_only xs (Edit f) = (\<forall>s. list_all (\<lambda>x. x (f s) = x s) xs)"
| "inputs_only xs _ = True"

locale typed_panel =
  fixes run :: "'h \<Rightarrow> ('s, unit) task" and enabled :: "'h \<Rightarrow> 's \<Rightarrow> bool" and view :: "'s \<Rightarrow> view"
    and ts :: "(('s \<Rightarrow> jsval) \<times> shape) list"
  assumes accepted: "accepts view ts"
    and kept: "all_fit ts s \<Longrightarrow> wp (all_fit ts) (\<lambda>_ _. True) (run h) (\<lambda>_. all_fit ts) (\<lambda>_. all_fit ts) s"
begin

definition keeps :: "('s, unit) task \<Rightarrow> 's \<Rightarrow> bool" where
  "keeps t s \<longleftrightarrow> wp (all_fit ts) (\<lambda>_ _. True) t (\<lambda>_. all_fit ts) (\<lambda>_. all_fit ts) s"

lemma advance_keeps:
  assumes "keeps t s"
  shows "all_fit ts (fst (advance t s))" "waits (snd (advance t s)) \<Longrightarrow> all_fit ts s' \<Longrightarrow> keeps (snd (advance t s)) s'"
proof -
  have k: "keeps (snd (advance t s)) (fst (advance t s))"
    using wp_advance [OF assms [unfolded keeps_def], of "\<lambda>_ _. True"] by (simp add: keeps_def)
  then show "all_fit ts (fst (advance t s))"
    using advance_final [of t s] by (cases "snd (advance t s)") (auto simp: keeps_def)
  show "waits (snd (advance t s)) \<Longrightarrow> all_fit ts s' \<Longrightarrow> keeps (snd (advance t s)) s'"
    using k by (cases "snd (advance t s)") (auto simp: keeps_def)
qed

definition typed :: "('h, 's) panel_state \<Rightarrow> bool" where
  "typed st \<longleftrightarrow> all_fit ts (fst st) \<and> (\<forall>(h, t) \<in> set (snd st). \<forall>s. all_fit ts s \<longrightarrow> keeps
      t s)"

lemma typed_step:
  assumes "typed st" "inputs_only (map fst ts) e"
  shows "typed (pstep run enabled st e)"
proof -
  obtain s ps where st: "st = (s, ps)" by fastforce
  have inv: "all_fit ts s" "\<And>h t s'. (h, t) \<in> set ps \<Longrightarrow> all_fit ts s' \<Longrightarrow> keeps t s'" using assms(1) by
      (auto simp: st typed_def)
  have resume: "typed (fst (advance t s), qs)"
    if "keeps t s" "set qs \<subseteq> set ps \<union> set (park h (advance t s))" for t h qs
    using that advance_keeps [of t s] inv by (auto simp: typed_def park_def split: if_splits)
  show ?thesis
  proof (cases e)
    case (Click h)
    have "keeps (run h) s" using kept inv(1) by (simp add: keeps_def)
    then show ?thesis using assms(1) by (auto simp: st Click Let_def intro!: resume)
  next
    case (Settle i rs)
    show ?thesis
    proof (cases "i < length ps \<and> waits (snd (ps ! i))")
      case True
      then obtain h qs k where i: "ps ! i = (h, Await qs k)" by (cases "ps ! i"; cases "snd (ps ! i)") auto
      then have "(h, Await qs k) \<in> set ps" using True nth_mem by fastforce
      then have "keeps (k rs) s" using inv by (fastforce simp: keeps_def)
      then show ?thesis using True i
        by (auto simp: st Settle Let_def intro!: resume dest: in_set_takeD in_set_dropD)
    next
      case False
      then show ?thesis using assms(1)
        by (cases "ps ! i"; cases "snd (ps ! i)") (auto simp: st Settle)
    qed
  next
    case (Edit f)
    then have "x (f s) = x s" if "(x, t) \<in> set ts" for x t using that assms(2) by (force simp: list_all_iff)
    then have "all_fit ts (f s) = all_fit ts s" unfolding all_fit_def by (intro list.pred_cong refl) (clarsimp, metis)
    then show ?thesis using inv by (auto simp: st Edit typed_def)
  qed
qed

lemma renders:
  assumes "all_fit ts init" "list_all (inputs_only (map fst ts)) evs"
  shows "ok (view (fst (foldl (pstep run enabled) (init, []) evs)))"
proof -
  have "typed (init, [])" using assms(1) by (simp add: typed_def)
  then have "typed (foldl (pstep run enabled) (init, []) evs)"
    using assms(2) by (induction evs rule: rev_induct) (simp_all add: typed_step)
  then show ?thesis using accepted by (simp add: typed_def accepts_def)
qed

end

lemma dcf_loop_shape: "has_shape (Many (Rec [(''year'', Plain), (''cf'', Number), (''pv'', Number)])) (Arr (fst (dcf_loop M g wacc ys cf pv)))"
proof (induction ys arbitrary: cf pv)
  case (Cons y ys)
  let ?cf = "js_mul cf (js_add (jsnat 1) g)"
  let ?pv = "js_add pv (js_div ?cf (m_pow M (js_add (jsnat 1) wacc) (jsnat y)))"
  obtain st t where st: "dcf_loop M g wacc ys ?cf ?pv = (st, t)" by fastforce
  with Cons.IH [of ?cf ?pv] show ?case by (simp only: dcf_loop.simps Let_def st case_prod_conv) (simp add: own_prop_def js_def)
qed simp

lemma dcf_steps_shape: "dcf_loop M g wacc ys cf pv = (st, t) \<Longrightarrow> list_all (has_shape (Rec [(''year'', Plain), (''cf'', Number),
    (''pv'', Number)])) st"
  using dcf_loop_shape [of M g wacc ys cf pv] by simp

definition wasm_types :: "((wasm \<Rightarrow> jsval) \<times> shape) list" where
  "wasm_types = [(wasmBsResult, wasmBsResult_shape), (wasmMcResult, wasmMcResult_shape), (wasmPortResult, wasmPortResult_shape),
     (wasmDcfResult, wasmDcfResult_shape)]"

text \<open>The text of an exception is not empty.\<close>

lemma with_wasm_keeps:
  assumes "\<And>v s. has_shape t v \<Longrightarrow> all_fit wasm_types s \<Longrightarrow> all_fit wasm_types (x (\<lambda>_. v) s)"
    and "\<And>m s. m \<noteq> [] \<Longrightarrow> all_fit wasm_types s \<Longrightarrow> all_fit wasm_types (x (\<lambda>_. error_obj m) s)"
    and "\<And>s. has_shape t (compute s)" "all_fit wasm_types s"
  shows "wp (all_fit wasm_types) (\<lambda>_ _. True) (with_wasm (\<lambda>e. c # d e) x compute) (\<lambda>_. all_fit wasm_types) (\<lambda>_.
      all_fit wasm_types) s"
proof -
  have flags: "all_fit wasm_types (wasmLoading_update f s) = all_fit wasm_types s" "all_fit wasm_types (wasmLoaded_update f s) = all_fit wasm_types s"
    "all_fit wasm_types (wasmExports_update f s) = all_fit wasm_types s" for f s
    by (simp_all add: all_fit_def wasm_types_def)
  show ?thesis using assms
    by (simp add: with_wasm_def loadWasm_def wp_rules wp_wait_for flags)
qed

interpretation wasm_typed: typed_panel "wasm_run (\<lambda>e. c # d e) wx M" "\<lambda>_ s. \<not> wasmLoading s" "wasm_view fmt" wasm_types
  for c d wx M fmt
proof unfold_locales
  show "accepts (wasm_view fmt) wasm_types"
    unfolding wasm_types_def by (rule wasm_accepts)
  note fit = all_fit_def wasm_types_def fits_def
  note shapes = wasmBsResult_shape_def wasmMcResult_shape_def wasmPortResult_shape_def wasmDcfResult_shape_def
  fix h :: wasm_op and s :: wasm
  assume s: "all_fit wasm_types s"
  show "wp (all_fit wasm_types) (\<lambda>_ _. True) (wasm_run (\<lambda>e. c # d e) wx M h) (\<lambda>_. all_fit wasm_types) (\<lambda>_. all_fit
      wasm_types) s"
  proof (cases h)
    case RunWasm
    show ?thesis unfolding RunWasm wasm_run.simps runWasm_def
      by (rule with_wasm_keeps [where t = wasmBsResult_shape, OF _ _ _ s]) (auto simp: fit shapes own_prop_def js_def)
  next
    case (RunMcVaR r)
    show ?thesis unfolding RunMcVaR wasm_run.simps runMcVaR_def
      by (rule with_wasm_keeps [where t = wasmMcResult_shape, OF _ _ _ s]) (auto simp: fit shapes own_prop_def js_def Let_def)
  next
    case WasmPortfolio
    show ?thesis unfolding WasmPortfolio wasm_run.simps wa_runPortfolio_def
      by (rule with_wasm_keeps [where t = wasmPortResult_shape, OF _ _ _ s]) (auto simp: fit shapes own_prop_def js_def Let_def)
  next
    case RunDcf
    show ?thesis unfolding RunDcf wasm_run.simps runDcf_def
      by (rule with_wasm_keeps [where t = wasmDcfResult_shape, OF _ _ _ s])
        (auto simp: fit shapes own_prop_def js_def Let_def split: prod.split dest!: dcf_steps_shape)
  qed
qed

text \<open>
  C10: The WebAssembly panel always renders: whatever the order of clicks, edits of its inputs and answers, failures of the module included,
  and whatever numbers the functions of the module return, after every event the template finds values of the types it reads.
\<close>

theorem wasm_always_renders:
  assumes "list_all (inputs_only (map fst wasm_types)) evs"
  shows "ok (wasm_view fmt (fst (foldl (pstep (wasm_run (\<lambda>e. c # d e) wx M) (\<lambda>_ s. \<not> wasmLoading s)) (wasm_init, []) evs)))"
  using assms by (intro wasm_typed.renders) (simp_all add: all_fit_def wasm_types_def fits_def wasm_init_def)

theorem wasm_always_renders_witness:
  "\<forall>fmt c d wx M. ok (wasm_view fmt (fst (foldl (pstep (wasm_run (\<lambda>e. c # d e) wx M) (\<lambda>_ s. \<not> wasmLoading s))
      (wasm_init, [])
     [Edit (dcfYears_update (\<lambda>_. jsnat 3)), Click RunDcf, Settle 0 [Status 200], Settle 0 [BodyText []], Settle 0 [Instance]])))"
  by (intro allI wasm_always_renders) (simp add: wasm_types_def)

text \<open>What a failure shows.\<close>

lemma idle_fits: "idle v \<Longrightarrow> field_shape t ''error'' = Some Missing \<Longrightarrow> fits t v"
  by (auto simp: idle_def fits_def)

lemma wasm_shows:
  assumes "m \<noteq> []"
  shows "wasmBsResult s = error_obj m \<Longrightarrow> mentions m (wasm_v_wasmBsResult fmt s)"
    and "wasmMcResult s = error_obj m \<Longrightarrow> mentions m (wasm_v_wasmMcResult s)"
    and "wasmPortResult s = error_obj m \<Longrightarrow> mentions m (wasm_v_wasmPortResult s)"
    and "wasmDcfResult s = error_obj m \<Longrightarrow> mentions m (wasm_v_wasmDcfResult fmt s)"
  using assms by (simp_all add: view_rules wasm_v_wasmBsResult_def wasm_v_wasmMcResult_def wasm_v_wasmPortResult_def
      wasm_v_wasmDcfResult_def cong: if_cong view_congs split del: if_split)

lemma wasm_reports:
  "view_reports (wasm_view fmt) [wasmBsResult, wasmMcResult, wasmPortResult, wasmDcfResult] [] (\<lambda>s. \<not> wasmLoading s) s"
proof -
  let ?xs = "[wasmBsResult, wasmMcResult, wasmPortResult, wasmDcfResult]"
  have "ok (wasm_view fmt s)" if "list_all (\<lambda>x. idle (x s)) ?xs"
    using that wasm_accepts [of fmt] by (auto simp: accepts_def all_fit_def wasmBsResult_shape_def wasmMcResult_shape_def
        wasmPortResult_shape_def wasmDcfResult_shape_def intro!: idle_fits)
  moreover have "mentions m (wasm_view fmt s)" if "x \<in> set ?xs" "x s = error_obj m" "m \<noteq> []" for x m
    using that by (auto simp: wasm_view_def view_rules wasm_shows)
  ultimately show ?thesis by (auto simp: view_reports_def displays_iff)
qed

section \<open>Every panel\<close>


end
