(* ===== verification/Views.thy ===== *)
theory Views
  imports Portal View_Typed
begin

text \<open>
  Handlers and templates together: what the user of a panel sees after a request that nothing answered.
\<close>

section \<open>A panel whose template reports failures\<close>

text \<open>
  The template of a panel promises the display of every message in its result variables.  A handler that leaves a message in one of them,
  and the panel at rest, is then seen to have failed.
\<close>

definition calm :: "('s \<Rightarrow> jsval) list \<Rightarrow> ('s \<Rightarrow> jsval) list \<Rightarrow> ('s \<Rightarrow> bool) \<Rightarrow> 's \<Rightarrow> bool" where
  "calm xs ins rest s \<longleftrightarrow> rest s \<and> list_all (\<lambda>x. idle (x s)) xs \<and> list_all (\<lambda>x. field_value (x s)) ins"

definition tells ::
  "('s \<Rightarrow> view) \<Rightarrow> ('s \<Rightarrow> jsval) list \<Rightarrow> ('s \<Rightarrow> jsval) list \<Rightarrow> ('s \<Rightarrow> bool) \<Rightarrow> ('s \<Rightarrow> jsval) \<Rightarrow> ('s, unit) task \<Rightarrow> bool"
where
  "tells view xs ins rest x m \<longleftrightarrow> (\<forall>s. calm xs ins rest s \<longrightarrow>
     (case offline m s of (s', m') \<Rightarrow> m' = Ret () \<and> calm xs ins rest s' \<and> (\<exists>t. x s' = error_obj t \<and> displays t (view s'))))"

locale panel_view =
  fixes view :: "'s \<Rightarrow> view" and xs ins :: "('s \<Rightarrow> jsval) list" and rest :: "'s \<Rightarrow> bool"
  assumes reports: "view_reports view xs ins rest s"
begin

lemma renders: "calm xs ins rest s \<Longrightarrow> ok (view s)"
  using reports [of s] by (simp add: view_reports_def calm_def)

lemma shown: "calm xs ins rest s \<Longrightarrow> x \<in> set xs \<Longrightarrow> x s = error_obj t \<Longrightarrow> t \<noteq> [] \<Longrightarrow> displays t (view s)"
  using reports [of s] by (simp add: view_reports_def calm_def list_all_iff)

lemma tells:
  assumes "x \<in> set xs" "\<And>s. calm xs ins rest s \<Longrightarrow> \<exists>s' t. offline m s = (s', Ret ()) \<and> calm xs ins rest s' \<and> x s' = error_obj t \<and> t \<noteq> []"
  shows "tells view xs ins rest x m"
  unfolding tells_def using assms shown by fastforce

end

interpretation brain_v: panel_view "brain_view fmt" "[brainData]" "[]"
  "\<lambda>s. \<not> brainLoading s"
  by unfold_locales (rule brain_reports)

interpretation rstats_v: panel_view "rstats_view" "[rFit, rCorr, rGarch, rArima]" "[]"
  "\<lambda>s. \<not> rLoading s \<and> \<not> corrLoading s \<and> \<not> garchLoading s \<and> \<not> arimaLoading s"
  by unfold_locales (rule rstats_reports)

interpretation workflow_v: panel_view "workflow_view" "[riskResult, circuitResult]" "[]"
  "\<lambda>s. \<not> wf_riskLoading s \<and> \<not> circuitLoading s"
  by unfold_locales (rule workflow_reports)

interpretation compare_v: panel_view "compare_view" "[cmp_result]" "[cmp_S, cmp_K]"
  "\<lambda>s. \<not> cmp_loading s \<and> (\<exists>x y z. cmp_Sigma s = Num x \<and> cmp_T s = Num y \<and> cmp_R s = Num z)"
  by unfold_locales (rule compare_reports)

interpretation crystal_v: panel_view "crystal_view fmt" "[crystalData, crystalStats]" "[]"
  "\<lambda>s. \<not> crystalLoading s \<and> \<not> statsLoading s"
  by unfold_locales (rule crystal_reports)

interpretation haskell_v: panel_view "haskell_view" "[haskellData]" "[]"
  "\<lambda>s. \<not> haskellLoading s"
  by unfold_locales (rule haskell_reports)

interpretation nim_v: panel_view "nim_view" "[nimData, nimGarch, nimForecast]" "[]"
  "\<lambda>s. \<not> nimLoading s \<and> \<not> nimGarchLoading s \<and> \<not> nimForecastLoading s"
  by unfold_locales (rule nim_reports)

interpretation ocaml_v: panel_view "ocaml_view" "[ocamlRisk, scoreData, oc_portfolioData]" "[income, debt, historyYears, missedPayments]"
  "\<lambda>s. \<not> ocamlLoading s \<and> \<not> scoreLoading s \<and> \<not> oc_portfolioLoading s"
  by unfold_locales (rule ocaml_reports)

interpretation scala_v: panel_view "scala_view" "[scalaData]" "[]"
  "\<lambda>s. \<not> scalaLoading s"
  by unfold_locales (rule scala_reports)

interpretation rust_v: panel_view "rust_view fmt" "[riskSummary]" "[]"
  "\<lambda>s. \<not> rs_pipelineLoading s \<and> \<not> summaryLoading s \<and> pipelineResult s = Null \<and> rustStatus s = Null"
  by unfold_locales (rule rust_reports)

interpretation ruby_v: panel_view "ruby_view" "[rubyData]" "[]"
  "\<lambda>s. \<not> rubyLoading s \<and> \<not> rulesLoading s \<and> rulesResult s = Null"
  by unfold_locales (rule ruby_reports)

interpretation clojure_v: panel_view "clojure_view fmt" "[clojureData, transferRes]" "[amount]"
  "\<lambda>s. \<not> clojureLoading s \<and> \<not> transferLoading s"
  by unfold_locales (rule clojure_reports)

interpretation erlang_v: panel_view "erlang_view" "[erlangData, er_riskData]" "[]"
  "\<lambda>s. \<not> erlangLoading s \<and> \<not> er_riskLoading s"
  by unfold_locales (rule erlang_reports)

interpretation gleam_v: panel_view "gleam_view" "[gleamData, gl_pipelineData, gl_riskData]" "[]"
  "\<lambda>s. \<not> gleamLoading s \<and> \<not> gl_pipelineLoading s \<and> \<not> gl_riskLoading s"
  by unfold_locales (rule gleam_reports)

interpretation java_v: panel_view "java_view fmt" "[javaData, jv_pipelineData]" "[]"
  "\<lambda>s. \<not> javaLoading s \<and> \<not> jv_pipelineLoading s \<and> javaStatus s = Null"
  by unfold_locales (rule java_reports)

interpretation lua_stream_v: panel_view "lua_stream_view fmt" "[luaData]" "[]"
  "\<lambda>s. \<not> luaLoading s"
  by unfold_locales (rule lua_stream_reports)

interpretation prolog_v: panel_view "prolog_view" "[inferData, pr_portfolioData, explainData]" "[]"
  "\<lambda>s. \<not> pr_loading s \<and> \<not> explainLoading s \<and> statusData s = Null"
  by unfold_locales (rule prolog_reports)

interpretation swift_v: panel_view "swift_view fmt" "[swiftData, tradeResult]" "[tradeQty, tradePrice]"
  "\<lambda>s. \<not> swiftLoading s \<and> \<not> tradeLoading s"
  by unfold_locales (rule swift_reports)

interpretation vquant_v: panel_view "vquant_view fmt" "[vData]" "[]"
  "\<lambda>s. \<not> vLoading s"
  by unfold_locales (rule vquant_reports)

interpretation sys_v: panel_view "sys_view fmt" "[reportData]" "[]"
  "\<lambda>s. \<not> reportLoading s \<and> systemData s = Null \<and> errorMsg s = Null \<and> aggregateData s = Null"
  by unfold_locales (rule sys_reports)

interpretation fsharp1_v: panel_view "fsharp_view fmt" "[fsharpOption]" "[]"
  "\<lambda>s. activeTab s = TabOption"
  by unfold_locales (rule fsharp_reports(1))

interpretation fsharp2_v: panel_view "fsharp_view fmt" "[fsharpIV]" "[]"
  "\<lambda>s. activeTab s = TabIv"
  by unfold_locales (rule fsharp_reports(2))

interpretation fsharp3_v: panel_view "fsharp_view fmt" "[fsharpSmile]" "[]"
  "\<lambda>s. activeTab s = TabSmile"
  by unfold_locales (rule fsharp_reports(3))

interpretation fsharp4_v: panel_view "fsharp_view fmt" "[fsharpDCF]" "[]"
  "\<lambda>s. activeTab s = TabDcf"
  by unfold_locales (rule fsharp_reports(4))

interpretation julia_v: panel_view "julia_view fmt" "[stressResult]" "[]"
  "\<lambda>s. juliaResult s = Null"
  by unfold_locales (rule julia_stress_reports)

interpretation dart_v: panel_view "dart_view" "[dartData, scenario_error]" "[bondYears, bondCoupon]"
  "\<lambda>s. idle_list (scenarios s)"
  by unfold_locales (rule dart_views)

section \<open>Handlers\<close>

lemma error_idle [simp]: "m \<noteq> [] \<Longrightarrow> idle (error_obj m)" "idle Null"
  by (auto simp: idle_def)

lemma error_text [simp]: "(\<exists>t. error_obj m = error_obj t \<and> t \<noteq> []) \<longleftrightarrow> m \<noteq> []"
  by (simp add: error_obj_not_Null)

lemma runBrain_tells: "tells (brain_view fmt) [brainData] [] (\<lambda>s. \<not> brainLoading s) brainData (runBrain base)"
  by (rule brain_v.tells) (simp_all add: calm_def runBrain_def load_panel_def call_defs Let_def split: sum.split)

lemma runRFit_tells: "tells (rstats_view) [rFit, rCorr, rGarch, rArima] [] (\<lambda>s. \<not> rLoading s \<and> \<not> corrLoading s \<and> \<not> garchLoading s \<and> \<not> arimaLoading s) rFit (runRFit base)"
  by (rule rstats_v.tells) (simp_all add: calm_def runRFit_def load_panel_def call_defs Let_def split: sum.split)

lemma runRCorr_tells: "tells (rstats_view) [rFit, rCorr, rGarch, rArima] [] (\<lambda>s. \<not> rLoading s \<and> \<not> corrLoading s \<and> \<not> garchLoading s \<and> \<not> arimaLoading s) rCorr (runRCorr base)"
  by (rule rstats_v.tells) (simp_all add: calm_def runRCorr_def load_panel_def call_defs Let_def split: sum.split)

lemma runRGarch_tells: "tells (rstats_view) [rFit, rCorr, rGarch, rArima] [] (\<lambda>s. \<not> rLoading s \<and> \<not> corrLoading s \<and> \<not> garchLoading s \<and> \<not> arimaLoading s) rGarch (runRGarch base)"
  by (rule rstats_v.tells) (simp_all add: calm_def runRGarch_def load_panel_def call_defs Let_def split: sum.split)

lemma runRArima_tells: "tells (rstats_view) [rFit, rCorr, rGarch, rArima] [] (\<lambda>s. \<not> rLoading s \<and> \<not> corrLoading s \<and> \<not> garchLoading s \<and> \<not> arimaLoading s) rArima (runRArima base)"
  by (rule rstats_v.tells) (simp_all add: calm_def runRArima_def load_panel_def call_defs Let_def split: sum.split)

lemma runRiskFull_tells: "tells (workflow_view) [riskResult, circuitResult] [] (\<lambda>s. \<not> wf_riskLoading s \<and> \<not> circuitLoading s) riskResult (runRiskFull base)"
  by (rule workflow_v.tells) (simp_all add: calm_def runRiskFull_def load_panel_def call_defs Let_def split: sum.split)

lemma fetchCircuit_tells: "tells (workflow_view) [riskResult, circuitResult] [] (\<lambda>s. \<not> wf_riskLoading s \<and> \<not> circuitLoading s) circuitResult (fetchCircuit base)"
  by (rule workflow_v.tells) (simp_all add: calm_def fetchCircuit_def load_panel_def call_defs Let_def split: sum.split)

lemma runCompare_tells: "tells (compare_view) [cmp_result] [cmp_S, cmp_K] (\<lambda>s. \<not> cmp_loading s \<and> (\<exists>x y z. cmp_Sigma s = Num x \<and> cmp_T s = Num y \<and> cmp_R s = Num z)) cmp_result (runCompare base)"
  by (rule compare_v.tells) (simp_all add: calm_def runCompare_def load_panel_def call_defs Let_def split: sum.split)

lemma runCrystal_tells: "tells (crystal_view fmt) [crystalData, crystalStats] [] (\<lambda>s. \<not> crystalLoading s \<and> \<not> statsLoading s) crystalData (runCrystal base)"
  by (rule crystal_v.tells) (simp_all add: calm_def runCrystal_def load_panel_def call_defs Let_def split: sum.split)

lemma runCrystalStats_tells: "tells (crystal_view fmt) [crystalData, crystalStats] [] (\<lambda>s. \<not> crystalLoading s \<and> \<not> statsLoading s) crystalStats (runCrystalStats base)"
  by (rule crystal_v.tells) (simp_all add: calm_def runCrystalStats_def load_panel_def call_defs Let_def split: sum.split)

lemma runHaskell_tells: "tells (haskell_view) [haskellData] [] (\<lambda>s. \<not> haskellLoading s) haskellData (runHaskell base)"
  by (rule haskell_v.tells) (simp_all add: calm_def runHaskell_def load_panel_def call_defs haskell_urls_def Let_def split: sum.split)

lemma runNim_tells: "tells (nim_view) [nimData, nimGarch, nimForecast] [] (\<lambda>s. \<not> nimLoading s \<and> \<not> nimGarchLoading s \<and> \<not> nimForecastLoading s) nimData (runNim base)"
  by (rule nim_v.tells) (simp_all add: calm_def runNim_def load_panel_def call_defs Let_def split: sum.split)

lemma runNimGarch_tells: "tells (nim_view) [nimData, nimGarch, nimForecast] [] (\<lambda>s. \<not> nimLoading s \<and> \<not> nimGarchLoading s \<and> \<not> nimForecastLoading s) nimGarch (runNimGarch base)"
  by (rule nim_v.tells) (simp_all add: calm_def runNimGarch_def load_panel_def call_defs Let_def split: sum.split)

lemma runNimForecast_tells: "tells (nim_view) [nimData, nimGarch, nimForecast] [] (\<lambda>s. \<not> nimLoading s \<and> \<not> nimGarchLoading s \<and> \<not> nimForecastLoading s) nimForecast (runNimForecast base)"
  by (rule nim_v.tells) (simp_all add: calm_def runNimForecast_def load_panel_def call_defs Let_def split: sum.split)

lemma runOcamlRisk_tells: "tells (ocaml_view) [ocamlRisk, scoreData, oc_portfolioData] [income, debt, historyYears, missedPayments] (\<lambda>s. \<not> ocamlLoading s \<and> \<not> scoreLoading s \<and> \<not> oc_portfolioLoading s) ocamlRisk (runOcamlRisk base)"
  by (rule ocaml_v.tells) (simp_all add: calm_def runOcamlRisk_def load_panel_def call_defs Let_def split: sum.split)

lemma fetchScore_tells: "tells (ocaml_view) [ocamlRisk, scoreData, oc_portfolioData] [income, debt, historyYears, missedPayments] (\<lambda>s. \<not> ocamlLoading s \<and> \<not> scoreLoading s \<and> \<not> oc_portfolioLoading s) scoreData (fetchScore base)"
  by (rule ocaml_v.tells) (simp_all add: calm_def fetchScore_def load_panel_def call_defs Let_def split: sum.split)

lemma oc_runPortfolio_tells: "tells (ocaml_view) [ocamlRisk, scoreData, oc_portfolioData] [income, debt, historyYears, missedPayments] (\<lambda>s. \<not> ocamlLoading s \<and> \<not> scoreLoading s \<and> \<not> oc_portfolioLoading s) oc_portfolioData (oc_runPortfolio base)"
  by (rule ocaml_v.tells) (simp_all add: calm_def oc_runPortfolio_def load_panel_def call_defs Let_def split: sum.split)

lemma runScala_tells: "tells (scala_view) [scalaData] [] (\<lambda>s. \<not> scalaLoading s) scalaData (runScala base)"
  by (rule scala_v.tells) (simp_all add: calm_def runScala_def load_panel_def call_defs Let_def split: sum.split)

lemma fetchRiskSummary_tells: "tells (rust_view fmt) [riskSummary] [] (\<lambda>s. \<not> rs_pipelineLoading s \<and> \<not> summaryLoading s \<and> pipelineResult s = Null \<and> rustStatus s = Null) riskSummary (fetchRiskSummary base)"
  by (rule rust_v.tells) (simp_all add: calm_def fetchRiskSummary_def load_panel_def call_defs Let_def split: sum.split)

lemma runRuby_tells: "tells (ruby_view) [rubyData] [] (\<lambda>s. \<not> rubyLoading s \<and> \<not> rulesLoading s \<and> rulesResult s = Null) rubyData (runRuby base)"
  by (rule ruby_v.tells) (simp_all add: calm_def runRuby_def load_panel_def call_defs Let_def split: sum.split)

lemma runClojure_tells: "tells (clojure_view fmt) [clojureData, transferRes] [amount] (\<lambda>s. \<not> clojureLoading s \<and> \<not> transferLoading s) clojureData (runClojure base)"
  by (rule clojure_v.tells) (simp_all add: calm_def runClojure_def load_panel_def call_defs Let_def split: sum.split)

lemma doTransfer_tells: "tells (clojure_view fmt) [clojureData, transferRes] [amount] (\<lambda>s. \<not> clojureLoading s \<and> \<not> transferLoading s) transferRes (doTransfer base)"
  by (rule clojure_v.tells) (simp_all add: calm_def doTransfer_def load_panel_def call_defs Let_def split: sum.split)

lemma runErlang_tells: "tells (erlang_view) [erlangData, er_riskData] [] (\<lambda>s. \<not> erlangLoading s \<and> \<not> er_riskLoading s) erlangData (runErlang base)"
  by (rule erlang_v.tells) (simp_all add: calm_def runErlang_def load_panel_def call_defs Let_def split: sum.split)

lemma fetchRisk_tells: "tells (erlang_view) [erlangData, er_riskData] [] (\<lambda>s. \<not> erlangLoading s \<and> \<not> er_riskLoading s) er_riskData (fetchRisk base)"
  by (rule erlang_v.tells) (simp_all add: calm_def fetchRisk_def load_panel_def call_defs Let_def split: sum.split)

lemma runGleam_tells: "tells (gleam_view) [gleamData, gl_pipelineData, gl_riskData] [] (\<lambda>s. \<not> gleamLoading s \<and> \<not> gl_pipelineLoading s \<and> \<not> gl_riskLoading s) gleamData (runGleam base)"
  by (rule gleam_v.tells) (simp_all add: calm_def runGleam_def load_panel_def call_defs Let_def split: sum.split)

lemma runGleamPipeline_tells: "tells (gleam_view) [gleamData, gl_pipelineData, gl_riskData] [] (\<lambda>s. \<not> gleamLoading s \<and> \<not> gl_pipelineLoading s \<and> \<not> gl_riskLoading s) gl_pipelineData (runGleamPipeline base)"
  by (rule gleam_v.tells) (simp_all add: calm_def runGleamPipeline_def load_panel_def call_defs Let_def split: sum.split)

lemma runGleamRisk_tells: "tells (gleam_view) [gleamData, gl_pipelineData, gl_riskData] [] (\<lambda>s. \<not> gleamLoading s \<and> \<not> gl_pipelineLoading s \<and> \<not> gl_riskLoading s) gl_riskData (runGleamRisk base)"
  by (rule gleam_v.tells) (simp_all add: calm_def runGleamRisk_def load_panel_def call_defs Let_def split: sum.split)

lemma runJava_tells: "tells (java_view fmt) [javaData, jv_pipelineData] [] (\<lambda>s. \<not> javaLoading s \<and> \<not> jv_pipelineLoading s \<and> javaStatus s = Null) javaData (runJava base)"
  by (rule java_v.tells) (simp_all add: calm_def runJava_def load_panel_def call_defs Let_def split: sum.split)

lemma jv_runPipeline_tells: "tells (java_view fmt) [javaData, jv_pipelineData] [] (\<lambda>s. \<not> javaLoading s \<and> \<not> jv_pipelineLoading s \<and> javaStatus s = Null) jv_pipelineData (jv_runPipeline base)"
  by (rule java_v.tells) (simp_all add: calm_def jv_runPipeline_def load_panel_def call_defs Let_def split: sum.split)

lemma runLua_tells: "tells (lua_stream_view fmt) [luaData] [] (\<lambda>s. \<not> luaLoading s) luaData (runLua base)"
  by (rule lua_stream_v.tells) (simp_all add: calm_def runLua_def load_panel_def call_defs Let_def split: sum.split)

lemma runAll_tells: "tells (prolog_view) [inferData, pr_portfolioData, explainData] [] (\<lambda>s. \<not> pr_loading s \<and> \<not> explainLoading s \<and> statusData s = Null) inferData (runAll base)"
  by (rule prolog_v.tells) (simp_all add: calm_def runAll_def load_panel_def call_defs Let_def split: sum.split)

lemma pr_runPortfolio_tells: "tells (prolog_view) [inferData, pr_portfolioData, explainData] [] (\<lambda>s. \<not> pr_loading s \<and> \<not> explainLoading s \<and> statusData s = Null) pr_portfolioData (pr_runPortfolio base)"
  by (rule prolog_v.tells) (simp_all add: calm_def pr_runPortfolio_def load_panel_def call_defs Let_def split: sum.split)

lemma fetchExplain_tells: "tells (prolog_view) [inferData, pr_portfolioData, explainData] [] (\<lambda>s. \<not> pr_loading s \<and> \<not> explainLoading s \<and> statusData s = Null) explainData (fetchExplain base)"
  by (rule prolog_v.tells) (simp_all add: calm_def fetchExplain_def load_panel_def call_defs Let_def split: sum.split)

lemma runSwift_tells: "tells (swift_view fmt) [swiftData, tradeResult] [tradeQty, tradePrice] (\<lambda>s. \<not> swiftLoading s \<and> \<not> tradeLoading s) swiftData (runSwift base)"
  by (rule swift_v.tells) (simp_all add: calm_def runSwift_def load_panel_def call_defs Let_def split: sum.split)

lemma executeTrade_tells: "tells (swift_view fmt) [swiftData, tradeResult] [tradeQty, tradePrice] (\<lambda>s. \<not> swiftLoading s \<and> \<not> tradeLoading s) tradeResult (executeTrade base)"
  by (rule swift_v.tells) (simp_all add: calm_def executeTrade_def load_panel_def call_defs Let_def split: sum.split)

lemma runV_tells: "tells (vquant_view fmt) [vData] [] (\<lambda>s. \<not> vLoading s) vData (runV base)"
  by (rule vquant_v.tells) (simp_all add: calm_def runV_def load_panel_def call_defs Let_def split: sum.split)

lemma runReport_tells: "tells (sys_view fmt) [reportData] [] (\<lambda>s. \<not> reportLoading s \<and> systemData s = Null \<and> errorMsg s = Null \<and> aggregateData s = Null) reportData (runReport base)"
  by (rule sys_v.tells) (simp_all add: calm_def runReport_def load_panel_def call_defs Let_def split: sum.split)

lemma runFsharpOption_tells: "tells (fsharp_view fmt) [fsharpOption] [] (\<lambda>s. activeTab s = TabOption) fsharpOption (runFsharpOption base)"
  by (rule fsharp1_v.tells) (simp_all add: calm_def runFsharpOption_def load_panel_def call_defs Let_def split: sum.split)

lemma runFsharpIV_tells: "tells (fsharp_view fmt) [fsharpIV] [] (\<lambda>s. activeTab s = TabIv) fsharpIV (runFsharpIV base)"
  by (rule fsharp2_v.tells) (simp_all add: calm_def runFsharpIV_def load_panel_def call_defs Let_def split: sum.split)

lemma runFsharpSmile_tells: "tells (fsharp_view fmt) [fsharpSmile] [] (\<lambda>s. activeTab s = TabSmile) fsharpSmile (runFsharpSmile base)"
  by (rule fsharp3_v.tells) (simp_all add: calm_def runFsharpSmile_def load_panel_def call_defs Let_def split: sum.split)

lemma runFsharpDCF_tells: "tells (fsharp_view fmt) [fsharpDCF] [] (\<lambda>s. activeTab s = TabDcf) fsharpDCF (runFsharpDCF base)"
  by (rule fsharp4_v.tells) (simp_all add: calm_def runFsharpDCF_def load_panel_def call_defs Let_def split: sum.split)

lemma runStress_tells: "tells (julia_view fmt) [stressResult] [] (\<lambda>s. juliaResult s = Null) stressResult (runStress base)"
  by (rule julia_v.tells) (simp_all add: calm_def runStress_def load_panel_def call_defs Let_def split: sum.split)

lemma runDart_tells: "tells (dart_view) [dartData, scenario_error] [bondYears, bondCoupon] (\<lambda>s. idle_list (scenarios s)) dartData (runDart base)"
  by (rule dart_v.tells) (simp_all add: calm_def runDart_def load_panel_def call_defs scenario_error_def Let_def split: sum.split)

lemma runScenarios_tells: "tells (dart_view) [dartData, scenario_error] [bondYears, bondCoupon] (\<lambda>s. idle_list (scenarios s)) scenario_error (runScenarios base)"
  by (rule dart_v.tells) (simp_all add: calm_def runScenarios_def load_panel_def call_defs ytmList_def scenario_error_def idle_list_def Let_def split: sum.split)

text \<open>The handlers of the WebAssembly panel load the module first; the text of an exception is not empty.\<close>

interpretation wasm_v: panel_view "wasm_view fmt" "[wasmBsResult, wasmMcResult, wasmPortResult, wasmDcfResult]" "[]"
  "\<lambda>s. \<not> wasmLoading s \<and> \<not> wasmExports s"
  using wasm_reports by unfold_locales (simp add: view_reports_def)

lemma wasm_tells:
  "tells (wasm_view fmt) [wasmBsResult, wasmMcResult, wasmPortResult, wasmDcfResult] []
     (\<lambda>s. \<not> wasmLoading s \<and> \<not> wasmExports s) wasmBsResult (runWasm (\<lambda>e. c # d e) wx)"
  "tells (wasm_view fmt) [wasmBsResult, wasmMcResult, wasmPortResult, wasmDcfResult] []
     (\<lambda>s. \<not> wasmLoading s \<and> \<not> wasmExports s) wasmMcResult (runMcVaR (\<lambda>e. c # d e) wx r)"
  "tells (wasm_view fmt) [wasmBsResult, wasmMcResult, wasmPortResult, wasmDcfResult] []
     (\<lambda>s. \<not> wasmLoading s \<and> \<not> wasmExports s) wasmPortResult (wa_runPortfolio (\<lambda>e. c # d e) wx M)"
  "tells (wasm_view fmt) [wasmBsResult, wasmMcResult, wasmPortResult, wasmDcfResult] []
     (\<lambda>s. \<not> wasmLoading s \<and> \<not> wasmExports s) wasmDcfResult (runDcf (\<lambda>e. c # d e) wx M)"
  by (rule wasm_v.tells, simp, simp add: calm_def runWasm_def runMcVaR_def wa_runPortfolio_def runDcf_def with_wasm_def loadWasm_def
      call_defs Let_def)+

text \<open>
  C8: When nothing answers, the user sees it: from every state in which the panel is at rest, each of these handlers ends without an
  exception, leaves the panel at rest, and the page then renders and displays the message of the failure among its texts.
\<close>

theorem panels_display_failures:
  "tells (brain_view fmt) [brainData] [] (\<lambda>s. \<not> brainLoading s) brainData (runBrain base)
   \<and> tells (rstats_view) [rFit, rCorr, rGarch, rArima] [] (\<lambda>s. \<not> rLoading s \<and> \<not> corrLoading s \<and> \<not> garchLoading s \<and> \<not> arimaLoading s) rFit (runRFit base)
   \<and> tells (rstats_view) [rFit, rCorr, rGarch, rArima] [] (\<lambda>s. \<not> rLoading s \<and> \<not> corrLoading s \<and> \<not> garchLoading s \<and> \<not> arimaLoading s) rCorr (runRCorr base)
   \<and> tells (rstats_view) [rFit, rCorr, rGarch, rArima] [] (\<lambda>s. \<not> rLoading s \<and> \<not> corrLoading s \<and> \<not> garchLoading s \<and> \<not> arimaLoading s) rGarch (runRGarch base)
   \<and> tells (rstats_view) [rFit, rCorr, rGarch, rArima] [] (\<lambda>s. \<not> rLoading s \<and> \<not> corrLoading s \<and> \<not> garchLoading s \<and> \<not> arimaLoading s) rArima (runRArima base)
   \<and> tells (workflow_view) [riskResult, circuitResult] [] (\<lambda>s. \<not> wf_riskLoading s \<and> \<not> circuitLoading s) riskResult (runRiskFull base)
   \<and> tells (workflow_view) [riskResult, circuitResult] [] (\<lambda>s. \<not> wf_riskLoading s \<and> \<not> circuitLoading s) circuitResult (fetchCircuit base)
   \<and> tells (compare_view) [cmp_result] [cmp_S, cmp_K] (\<lambda>s. \<not> cmp_loading s \<and> (\<exists>x y z. cmp_Sigma s = Num x \<and> cmp_T s = Num y \<and> cmp_R s = Num z)) cmp_result (runCompare base)
   \<and> tells (crystal_view fmt) [crystalData, crystalStats] [] (\<lambda>s. \<not> crystalLoading s \<and> \<not> statsLoading s) crystalData (runCrystal base)
   \<and> tells (crystal_view fmt) [crystalData, crystalStats] [] (\<lambda>s. \<not> crystalLoading s \<and> \<not> statsLoading s) crystalStats (runCrystalStats base)
   \<and> tells (haskell_view) [haskellData] [] (\<lambda>s. \<not> haskellLoading s) haskellData (runHaskell base)
   \<and> tells (nim_view) [nimData, nimGarch, nimForecast] [] (\<lambda>s. \<not> nimLoading s \<and> \<not> nimGarchLoading s \<and> \<not> nimForecastLoading s) nimData (runNim base)
   \<and> tells (nim_view) [nimData, nimGarch, nimForecast] [] (\<lambda>s. \<not> nimLoading s \<and> \<not> nimGarchLoading s \<and> \<not> nimForecastLoading s) nimGarch (runNimGarch base)
   \<and> tells (nim_view) [nimData, nimGarch, nimForecast] [] (\<lambda>s. \<not> nimLoading s \<and> \<not> nimGarchLoading s \<and> \<not> nimForecastLoading s) nimForecast (runNimForecast base)
   \<and> tells (ocaml_view) [ocamlRisk, scoreData, oc_portfolioData] [income, debt, historyYears, missedPayments] (\<lambda>s. \<not> ocamlLoading s \<and> \<not> scoreLoading s \<and> \<not> oc_portfolioLoading s) ocamlRisk (runOcamlRisk base)
   \<and> tells (ocaml_view) [ocamlRisk, scoreData, oc_portfolioData] [income, debt, historyYears, missedPayments] (\<lambda>s. \<not> ocamlLoading s \<and> \<not> scoreLoading s \<and> \<not> oc_portfolioLoading s) scoreData (fetchScore base)
   \<and> tells (ocaml_view) [ocamlRisk, scoreData, oc_portfolioData] [income, debt, historyYears, missedPayments] (\<lambda>s. \<not> ocamlLoading s \<and> \<not> scoreLoading s \<and> \<not> oc_portfolioLoading s) oc_portfolioData (oc_runPortfolio base)
   \<and> tells (scala_view) [scalaData] [] (\<lambda>s. \<not> scalaLoading s) scalaData (runScala base)
   \<and> tells (rust_view fmt) [riskSummary] [] (\<lambda>s. \<not> rs_pipelineLoading s \<and> \<not> summaryLoading s \<and> pipelineResult s = Null \<and> rustStatus s = Null) riskSummary (fetchRiskSummary base)
   \<and> tells (ruby_view) [rubyData] [] (\<lambda>s. \<not> rubyLoading s \<and> \<not> rulesLoading s \<and> rulesResult s = Null) rubyData (runRuby base)
   \<and> tells (clojure_view fmt) [clojureData, transferRes] [amount] (\<lambda>s. \<not> clojureLoading s \<and> \<not> transferLoading s) clojureData (runClojure base)
   \<and> tells (clojure_view fmt) [clojureData, transferRes] [amount] (\<lambda>s. \<not> clojureLoading s \<and> \<not> transferLoading s) transferRes (doTransfer base)
   \<and> tells (erlang_view) [erlangData, er_riskData] [] (\<lambda>s. \<not> erlangLoading s \<and> \<not> er_riskLoading s) erlangData (runErlang base)
   \<and> tells (erlang_view) [erlangData, er_riskData] [] (\<lambda>s. \<not> erlangLoading s \<and> \<not> er_riskLoading s) er_riskData (fetchRisk base)
   \<and> tells (gleam_view) [gleamData, gl_pipelineData, gl_riskData] [] (\<lambda>s. \<not> gleamLoading s \<and> \<not> gl_pipelineLoading s \<and> \<not> gl_riskLoading s) gleamData (runGleam base)
   \<and> tells (gleam_view) [gleamData, gl_pipelineData, gl_riskData] [] (\<lambda>s. \<not> gleamLoading s \<and> \<not> gl_pipelineLoading s \<and> \<not> gl_riskLoading s) gl_pipelineData (runGleamPipeline base)
   \<and> tells (gleam_view) [gleamData, gl_pipelineData, gl_riskData] [] (\<lambda>s. \<not> gleamLoading s \<and> \<not> gl_pipelineLoading s \<and> \<not> gl_riskLoading s) gl_riskData (runGleamRisk base)
   \<and> tells (java_view fmt) [javaData, jv_pipelineData] [] (\<lambda>s. \<not> javaLoading s \<and> \<not> jv_pipelineLoading s \<and> javaStatus s = Null) javaData (runJava base)
   \<and> tells (java_view fmt) [javaData, jv_pipelineData] [] (\<lambda>s. \<not> javaLoading s \<and> \<not> jv_pipelineLoading s \<and> javaStatus s = Null) jv_pipelineData (jv_runPipeline base)
   \<and> tells (lua_stream_view fmt) [luaData] [] (\<lambda>s. \<not> luaLoading s) luaData (runLua base)
   \<and> tells (prolog_view) [inferData, pr_portfolioData, explainData] [] (\<lambda>s. \<not> pr_loading s \<and> \<not> explainLoading s \<and> statusData s = Null) inferData (runAll base)
   \<and> tells (prolog_view) [inferData, pr_portfolioData, explainData] [] (\<lambda>s. \<not> pr_loading s \<and> \<not> explainLoading s \<and> statusData s = Null) pr_portfolioData (pr_runPortfolio base)
   \<and> tells (prolog_view) [inferData, pr_portfolioData, explainData] [] (\<lambda>s. \<not> pr_loading s \<and> \<not> explainLoading s \<and> statusData s = Null) explainData (fetchExplain base)
   \<and> tells (swift_view fmt) [swiftData, tradeResult] [tradeQty, tradePrice] (\<lambda>s. \<not> swiftLoading s \<and> \<not> tradeLoading s) swiftData (runSwift base)
   \<and> tells (swift_view fmt) [swiftData, tradeResult] [tradeQty, tradePrice] (\<lambda>s. \<not> swiftLoading s \<and> \<not> tradeLoading s) tradeResult (executeTrade base)
   \<and> tells (vquant_view fmt) [vData] [] (\<lambda>s. \<not> vLoading s) vData (runV base)
   \<and> tells (sys_view fmt) [reportData] [] (\<lambda>s. \<not> reportLoading s \<and> systemData s = Null \<and> errorMsg s = Null \<and> aggregateData s = Null) reportData (runReport base)
   \<and> tells (fsharp_view fmt) [fsharpOption] [] (\<lambda>s. activeTab s = TabOption) fsharpOption (runFsharpOption base)
   \<and> tells (fsharp_view fmt) [fsharpIV] [] (\<lambda>s. activeTab s = TabIv) fsharpIV (runFsharpIV base)
   \<and> tells (fsharp_view fmt) [fsharpSmile] [] (\<lambda>s. activeTab s = TabSmile) fsharpSmile (runFsharpSmile base)
   \<and> tells (fsharp_view fmt) [fsharpDCF] [] (\<lambda>s. activeTab s = TabDcf) fsharpDCF (runFsharpDCF base)
   \<and> tells (julia_view fmt) [stressResult] [] (\<lambda>s. juliaResult s = Null) stressResult (runStress base)
   \<and> tells (dart_view) [dartData, scenario_error] [bondYears, bondCoupon] (\<lambda>s. idle_list (scenarios s)) dartData (runDart base)
   \<and> tells (dart_view) [dartData, scenario_error] [bondYears, bondCoupon] (\<lambda>s. idle_list (scenarios s)) scenario_error (runScenarios base)
   \<and> tells (wasm_view fmt) [wasmBsResult, wasmMcResult, wasmPortResult, wasmDcfResult] []
     (\<lambda>s. \<not> wasmLoading s \<and> \<not> wasmExports s) wasmBsResult (runWasm (\<lambda>e. c # d e) wx)
   \<and> tells (wasm_view fmt) [wasmBsResult, wasmMcResult, wasmPortResult, wasmDcfResult] []
     (\<lambda>s. \<not> wasmLoading s \<and> \<not> wasmExports s) wasmMcResult (runMcVaR (\<lambda>e. c # d e) wx r)
   \<and> tells (wasm_view fmt) [wasmBsResult, wasmMcResult, wasmPortResult, wasmDcfResult] []
     (\<lambda>s. \<not> wasmLoading s \<and> \<not> wasmExports s) wasmPortResult (wa_runPortfolio (\<lambda>e. c # d e) wx M)
   \<and> tells (wasm_view fmt) [wasmBsResult, wasmMcResult, wasmPortResult, wasmDcfResult] []
     (\<lambda>s. \<not> wasmLoading s \<and> \<not> wasmExports s) wasmDcfResult (runDcf (\<lambda>e. c # d e) wx M)"
  by (intro conjI) (fact wasm_tells runBrain_tells runRFit_tells runRCorr_tells runRGarch_tells runRArima_tells runRiskFull_tells fetchCircuit_tells runCompare_tells runCrystal_tells runCrystalStats_tells runHaskell_tells runNim_tells runNimGarch_tells runNimForecast_tells runOcamlRisk_tells fetchScore_tells oc_runPortfolio_tells runScala_tells fetchRiskSummary_tells runRuby_tells runClojure_tells doTransfer_tells runErlang_tells fetchRisk_tells runGleam_tells runGleamPipeline_tells runGleamRisk_tells runJava_tells jv_runPipeline_tells runLua_tells runAll_tells pr_runPortfolio_tells fetchExplain_tells runSwift_tells executeTrade_tells runV_tells runReport_tells runFsharpOption_tells runFsharpIV_tells runFsharpSmile_tells runFsharpDCF_tells runStress_tells runDart_tells runScenarios_tells)+

text \<open>
  C36: The Julia panel breaks when Julia is down: its template has no branch for the error the simulation leaves and reads numbers from it,
  so from every state of the panel the handler ends as usual and rendering then throws.
\<close>

theorem julia_down_breaks_panel:
  "snd (offline (runJulia base) s) = Ret () \<and> is_error (juliaResult (fst (offline (runJulia base) s)))
   \<and> \<not> ok (julia_view fmt (fst (offline (runJulia base) s)))"
proof -
  have "\<exists>t. juliaResult (fst (offline (runJulia base) s)) = error_obj t"
    by (simp add: runJulia_def load_panel_def call_defs error_obj_not_Null)
  with single_down(1) julia_error_throws show ?thesis by (auto simp: reports_down_def)
qed

text \<open>
  C0: The panels that keep no message of a failure render after one: Kotlin shows the text of the failed generation, Elixir the state
  \<open>offline\<close>, the cache counters and the charts their fixed texts.
\<close>

theorem quiet_panels_render:
  "displays (js ''Kotlin '' @ [0xC11C, 0xBC84] @ js '' '' @ [0xC811, 0xC18D] @ js '' '' @ [0xBD88, 0xAC00] @ js '' (:9000)'')
     (kotlin_view fmt dfmt (fst (offline (generateNow base) kotlin_init)))
   \<and> ok (kotlin_view fmt dfmt (fst (offline (fetchReports base) kotlin_init)))
   \<and> displays (js ''offline'') (elixir_view fmt (fst (offline (checkElixir base) elixir_init)))
   \<and> ok (lua_cache_view (fst (offline (fetchCacheStats base) \<lparr>cacheStats = Null\<rparr>)))
   \<and> ok (charts_view (fst (offline (fetchAll base) charts_init)))"
  by (intro conjI kotlin_displays kotlin_renders elixir_offline lua_cache_renders charts_renders)
    (simp_all add: generateNow_def fetchReports_def checkElixir_def fetchCacheStats_def fetchAll_def json_or_null_def call_defs
      kotlin_init_def elixir_init_def charts_init_def)

end
