(* ===== verification/View_Page.thy ===== *)
theory View_Page
  imports Portal_Page View_Base
begin

text \<open>
  The markup of the dashboard page, its service cards and the share button, and of the log panel.  The keys of the rows of the order feed
  are evaluated with the rows.
\<close>

section \<open>ServiceCard and QrCode\<close>

definition service_card_view :: "service \<Rightarrow> card \<Rightarrow> view" where
  "service_card_view v c =
     el ''article'' [atx ''class'' (js ''card''), aflag ''class:card-online'' (js_eq (Inr (cd_status c)) (Inr (Str (js
         ''online'')))), aflag ''class:card-offline'' (js_eq (Inr (cd_status c)) (Inr (Str (js ''offline'')))), aflag
         ''class:card-loading'' (js_eq (Inr (cd_status c)) (Inr (Str (js ''loading''))))] [
      el ''header'' [atx ''class'' (js ''card-header'')] [
       el ''div'' [atx ''class'' (js ''name-row'')] [
        el ''span'' [atx ''class'' (js ''lang-badge'')] [ex (Inr (Str (sv_lang v)))],
        el ''span'' [atx ''class'' (js ''card-name'')] [ex (Inr (Str (sv_name v)))]],
       el ''div'' [atx ''class'' (js ''status-row'')] [
        el ''span'' [atx ''class'' (js ''status-dot''), atx ''aria-hidden'' (js ''true'')] [],
        el ''span'' [atx ''class'' (js ''status-text'')] [ex (Inr (cd_status c))],
        ifv (js_and (js_ne (Inr (cd_latencyMs c)) (Inr Null)) (js_eq (Inr (cd_status c)) (Inr (Str (js ''online''))))) [el
            ''span'' [atx ''class'' (js ''latency'')] [ex (Inr (cd_latencyMs c)), tx (js ''ms'')]]
        []]],
      el ''div'' [atx ''class'' (js ''card-body'')] [
       el ''p'' [atx ''class'' (js ''role'')] [ex (Inr (Str (sv_role v)))],
       el ''p'' [atx ''class'' (js ''port'')] [tx (js '':''), ex (Inr (jsn (sv_port v)))],
       ifv (Inr (cd_result c)) [el ''p'' [atx ''class'' (js ''result''), aval ''title'' (Inr (cd_result c))] [ex (Inr (cd_result
           c))]]
       [
        ifv (js_eq (Inr (cd_status c)) (Inr (Str (js ''loading'')))) [el ''p'' [atx ''class'' (js ''result result-dim'')] [tx (js
            ''checking'' @ [0x2026])]]
        [el ''p'' [atx ''class'' (js ''result result-dim'')] [tx [0x2014]]]]]]"

definition qr_view :: "qr \<Rightarrow> view" where
  "qr_view q =
     el ''div'' [atx ''class'' (js ''qr-wrap'')] [
      el ''button'' [atx ''class'' (js ''qr-btn''), atx ''onclick'' (js ''toggle''), aval ''aria-expanded'' (Inr (Bool (qr_visible
          q))), atx ''aria-label'' (js ''Toggle QR code'')] [
       el ''svg'' [atx ''xmlns'' (js ''http://www.w3.org/2000/svg''), atx ''viewBox'' (js ''0 0 24 24''), atx ''fill'' (js
           ''none''), atx ''stroke'' (js ''currentColor''), atx ''stroke-width'' (js ''2''), atx ''stroke-linecap'' (js
           ''round''), atx ''stroke-linejoin'' (js ''round''), atx ''class'' (js ''qr-icon''), atx ''aria-hidden'' (js ''true'')]
           [
        el ''rect'' [atx ''x'' (js ''3''), atx ''y'' (js ''3''), atx ''width'' (js ''7''), atx ''height'' (js ''7''), atx ''rx''
            (js ''1'')] [],
        el ''rect'' [atx ''x'' (js ''14''), atx ''y'' (js ''3''), atx ''width'' (js ''7''), atx ''height'' (js ''7''), atx ''rx''
            (js ''1'')] [],
        el ''rect'' [atx ''x'' (js ''3''), atx ''y'' (js ''14''), atx ''width'' (js ''7''), atx ''height'' (js ''7''), atx ''rx''
            (js ''1'')] [],
        el ''rect'' [atx ''x'' (js ''5''), atx ''y'' (js ''5''), atx ''width'' (js ''3''), atx ''height'' (js ''3'')] [],
        el ''rect'' [atx ''x'' (js ''16''), atx ''y'' (js ''5''), atx ''width'' (js ''3''), atx ''height'' (js ''3'')] [],
        el ''rect'' [atx ''x'' (js ''5''), atx ''y'' (js ''16''), atx ''width'' (js ''3''), atx ''height'' (js ''3'')] [],
        el ''path'' [atx ''d'' (js ''M14 14h3v3h-3z'')] [],
        el ''path'' [atx ''d'' (js ''M18 14h3'')] [],
        el ''path'' [atx ''d'' (js ''M14 18h3'')] [],
        el ''path'' [atx ''d'' (js ''M18 18h3v3h-3z'')] []],
       el ''span'' [] [tx (js ''Share'')]],
      ifv (Inr (Bool (qr_visible q))) [
       el ''div'' [atx ''class'' (js ''qr-popover''), atx ''role'' (js ''dialog''), atx ''aria-label'' (js
           ''QR code for current URL'')] [
        el ''canvas'' [atx ''bind:this'' (js ''canvas'')] [],
        el ''p'' [atx ''class'' (js ''qr-url'')] [ex (Inr (Str (qr_url q)))]]]
      []]"

section \<open>The page\<close>

text \<open>\<open>statuses[svc.key]\<close> of a key that is not there is \<open>undefined\<close>, and reading its status throws.\<close>

definition cards_view :: "page \<Rightarrow> view" where
  "cards_view st = cat (map (\<lambda>v. case map_of (statuses st) (sv_key v) of None \<Rightarrow> Inl TypeError | Some c \<Rightarrow> service_card_view v c) SERVICES)"

fun status_text :: "ws_status \<Rightarrow> jsstr" where
  "status_text Connecting = js ''connecting''"
| "status_text Connected = js ''connected''"
| "status_text Disconnected = js ''disconnected''"
| "status_text WsError = js ''error''"

definition page_header_view :: "qr \<Rightarrow> page \<Rightarrow> view" where
  "page_header_view q st =
     el ''header'' [atx ''class'' (js ''page-header'')] [
      el ''div'' [atx ''class'' (js ''header-left'')] [
       el ''h1'' [atx ''class'' (js ''page-title'')] [tx (js ''Polyglot Infinity'')],
       el ''span'' [atx ''class'' (js ''page-subtitle'')] [tx (js ''Multi-Language Microservices Dashboard'')]],
      el ''div'' [atx ''class'' (js ''header-right'')] [
       ifv (Inr (fetchError st)) [el ''span'' [atx ''class'' (js ''error-banner'')] [ex (Inr (fetchError st))]]
       [],
       qr_view q,
       el ''div'' [atx ''class'' (js ''counter-badge'')] [
        el ''span'' [atx ''class'' (js ''count-online'')] [ex (Inr (jsn (onlineCount st)))],
        el ''span'' [atx ''class'' (js ''count-sep'')] [tx (js ''/'')],
        el ''span'' [atx ''class'' (js ''count-total'')] [ex (Inr (jsn (length SERVICES)))],
        el ''span'' [atx ''class'' (js ''count-label'')] [tx (js ''online'')]],
       el ''button'' [atx ''class'' (js ''btn-refresh''), atx ''onclick'' (js ''fetchStatus''), aflag ''disabled'' (Inr (Bool
           (pg_loading st)))] [ex (js_if (Inr (Bool (pg_loading st))) (Inr (Str (js ''Loading'' @ [0x2026]))) (Inr (Str (js
           ''Refresh''))))]]]"

definition grid_view :: "page \<Rightarrow> view" where
  "grid_view st =
     el ''div'' [atx ''class'' (js ''grid'')] [cards_view st]"

definition feed_view :: "date_format \<Rightarrow> feed \<Rightarrow> view" where
  "feed_view dfmt st =
     el ''section'' [atx ''class'' (js ''order-feed'')] [
      el ''div'' [atx ''class'' (js ''feed-header'')] [
       el ''h2'' [atx ''class'' (js ''feed-title'')] [tx (js ''Order Event Feed'')],
       el ''span'' [atx ''class'' (js ''feed-source'')] [tx (js ''Java Loom '' @ [0x2192] @ js '' Redis '' @ [0x2192] @ js
           '' Go WS'')],
       el ''span'' [amix ''class'' [Inr (Str (js ''ws-badge ws-badge--'')), (Inr (Str (status_text (wsStatus st))))]] [ex (Inr
           (Str (status_text (wsStatus st))))]],
      ifv (js_eq (mem (Inr (Arr (orderEvents st))) ''length'') (Inr (jsn 0))) [el ''p'' [atx ''class'' (js ''feed-empty'')] [tx
          (js ''Waiting for order events'' @ [0x2026])]]
      [
       el ''div'' [atx ''class'' (js ''feed-table-wrap'')] [
        el ''table'' [atx ''class'' (js ''feed-table'')] [
         el ''thead'' [] [
          el ''tr'' [] [
           el ''th'' [] [tx (js ''Order ID'')],
           el ''th'' [] [tx (js ''Type'')],
           el ''th'' [] [tx (js ''Event'')],
           el ''th'' [] [tx (js ''Prev Status'')],
           el ''th'' [] [tx (js ''New Status'')],
           el ''th'' [] [tx (js ''Time'')]]],
         el ''tbody'' [] [
          each (Inr (Arr (orderEvents st))) (\<lambda>_ evt. [
             el ''tr'' [atx ''class'' (js ''feed-row'')] [
              el ''td'' [atx ''class'' (js ''mono'')] [ex (mem (Inr evt) ''order_id'')],
              el ''td'' [] [
               el ''span'' [amix ''class'' [Inr (Str (js ''tag tag--'')), (chain (mem (Inr evt) ''type'') (\<lambda>x. (str_method
                   toLowerCase x)))]] [ex (mem (Inr evt) ''type'')]],
              el ''td'' [] [ex (mem (Inr evt) ''event'')],
              el ''td'' [atx ''class'' (js ''status-cell'')] [ex (js_or (mem (Inr evt) ''prev_status'') (Inr (Str [0x2014])))],
              el ''td'' [atx ''class'' (js ''status-cell status-cell--new'')] [ex (mem (Inr evt) ''new_status'')],
              el ''td'' [atx ''class'' (js ''mono ts'')] [ex (date_text dfmt ''time'' (mem (Inr evt) ''timestamp''))]]])]]]]]"

definition page_view :: "date_format \<Rightarrow> qr \<Rightarrow> page \<Rightarrow> feed \<Rightarrow> view" where
  "page_view dfmt q p f = el ''div'' [atx ''class'' (js ''page'')] [page_header_view q p, grid_view p, feed_view dfmt f]"

section \<open>LogsPanel\<close>

text \<open>The panel shows its property \<open>logs\<close>, which defaults to the empty array.\<close>

definition logs_prop :: "jsval \<Rightarrow> jsval" where
  "logs_prop v = (if v = Undef then Arr [] else v)"

definition logs_view :: "date_format \<Rightarrow> jsval \<Rightarrow> view" where
  "logs_view dfmt logs =
     el ''section'' [atx ''class'' (js ''panel'')] [
      el ''h2'' [] [tx (js ''System Memory (Latest Logs)'')],
      ifv (js_gt (mem (Inr (logs_prop logs)) ''length'') (Inr (jsn 0))) [
       el ''table'' [atx ''class'' (js ''log-table'')] [
        el ''thead'' [] [
         el ''tr'' [] [
          el ''th'' [] [tx (js ''ID'')],
          el ''th'' [] [tx (js ''Source'')],
          el ''th'' [] [tx (js ''Message'')],
          el ''th'' [] [tx (js ''Time'')]]],
        el ''tbody'' [] [
         each (Inr (logs_prop logs)) (\<lambda>_ log. [
            el ''tr'' [] [
             el ''td'' [atx ''class'' (js ''log-id'')] [tx (js ''#''), ex (mem (Inr log) ''id'')],
             el ''td'' [atx ''class'' (js ''log-source'')] [ex (mem (Inr log) ''source'')],
             el ''td'' [] [ex (mem (Inr log) ''message'')],
             el ''td'' [atx ''class'' (js ''log-time'')] [ex (date_text dfmt '''' (mem (Inr log) ''created_at''))]]])]]]
      [
       el ''p'' [atx ''class'' (js ''empty-text'')] [tx [0xC800, 0xC7A5, 0xB41C, 0x0020, 0xAE30, 0xB85D, 0xC774, 0x0020, 0xC5C6,
           0xC2B5, 0xB2C8, 0xB2E4, 0x002E]]]]"

section \<open>The card and its abstraction\<close>

text \<open>The texts a view shows, when it renders.\<close>

definition shown :: "view \<Rightarrow> jsstr list" where
  "shown m = (case m of Inl _ \<Rightarrow> [] | Inr hs \<Rightarrow> concat (map texts hs))"

lemma shown_cat: "shown (cat ms) = (if list_all ok ms then concat (map shown ms) else [])"
proof (induction ms)
  case (Cons m ms)
  moreover have "ok (cat ms) = list_all ok ms" by (rule ok_cat)
  ultimately show ?case by (cases m; cases "cat ms") (simp_all add: cat.simps shown_def ok_simps)
qed (simp add: shown_def cat.simps)

lemma shown_el: "shown (el t as ks) = (if list_all ok as \<and> list_all ok ks then concat (map shown ks) else [])"
proof -
  have "ok (cat as) = list_all ok as" "ok (cat ks) = list_all ok ks" by (simp_all add: ok_cat)
  then show ?thesis using shown_cat [of ks] unfolding el_def
    by (cases "cat as"; cases "cat ks") (simp_all add: ok_simps shown_def)
qed

lemma shown_leaves: "shown (tx s) = [s]" "shown (ex (Inr v)) = (case shown_text v of Inl _ \<Rightarrow> [] | Inr s \<Rightarrow> [s])"
  "shown (if b then m1 else m2) = (if b then shown m1 else shown m2)"
  by (simp_all add: tx_def ex_def shown_def split: sum.split)

lemmas shown_rules = shown_cat shown_el shown_leaves

definition text_of :: "jsval \<Rightarrow> jsstr" where
  "text_of v = (case shown_text v of Inl _ \<Rightarrow> [] | Inr s \<Rightarrow> s)"

lemma ok_text_of: "ok (shown_text v) \<Longrightarrow> shown_text v = Inr (text_of v)"
  by (auto simp: ok_def text_of_def)

definition card_texts :: "service \<Rightarrow> card_view \<Rightarrow> jsstr list" where
  "card_texts v w = [sv_lang v, sv_name v, text_of (cv_status w)] @ (case cv_latency w of None \<Rightarrow> [] | Some l \<Rightarrow> [text_of l, js ''ms''])
     @ [sv_role v, js '':'', num_str (jsnat (sv_port v)), text_of (cv_result w)]"

lemma strict_eq_text: "strict_eq v (Str s) \<longleftrightarrow> v = Str s" "strict_eq v Null \<longleftrightarrow> v = Null"
  by (cases v; simp)+

lemma service_card_ok: "ok (service_card_view v c) \<longleftrightarrow> ok (shown_text (cd_status c))
    \<and> (cd_latencyMs c \<noteq> Null \<and> cd_status c = Str (js ''online'') \<longrightarrow> ok (shown_text (cd_latencyMs c)))
    \<and> (truthy (cd_result c) \<longrightarrow> ok (shown_text (cd_result c)))"
  by (auto simp: service_card_view_def view_rules strict_eq_text)



section \<open>Events that cannot be shown\<close>

lemma feed_null: "Null \<in> set (orderEvents s) \<Longrightarrow> \<not> ok (feed_view dfmt s)"
proof
  assume n: "Null \<in> set (orderEvents s)" and "ok (feed_view dfmt s)"
  moreover from n have "orderEvents s \<noteq> []" by auto
  ultimately have "list_all (\<lambda>v. ok (ex (get_prop v (js ''order_id'')))) (orderEvents s)"
    by (simp add: feed_view_def view_rules num_eq_def list.pred_mono_strong)
  with n show False by (auto simp: list_all_iff ex_def ok_simps)
qed

text \<open>
  C38: One frame that is the JSON value \<open>null\<close> takes the order feed down: as long as it is among the fifty most recent events, the page
  cannot be rendered, since a row reads the properties of its event.
\<close>

theorem feed_null_breaks_page:
  assumes "Null \<in> set (take 50 (rev (feed_frames (connectOrderFeed feed_init) evs)))"
  shows "\<not> ok (page_view dfmt q p (feed_run evs))"
  using assms feed_null [of "feed_run evs" dfmt] by (simp add: feed_run_recent page_view_def view_rules)

theorem feed_null_breaks_page_witness:
  "\<not> ok (page_view (\<lambda>_ _. []) (qr_mount []) page_init (feed_run [WsOpen 0, WsMessage 0 (js ''null'')]))"
proof (rule feed_null_breaks_page)
  have "JSON_parse (js ''null'') = Some Null" by code_simp
  then show "Null \<in> set (take 50 (rev (feed_frames (connectOrderFeed feed_init) [WsOpen 0, WsMessage 0 (js ''null'')])))"
    by (simp add: connectOrderFeed_def feed_init_def)
qed

end
