(* ===== verification/View_Map.thy ===== *)
theory View_Map
  imports Portal_Charts View_Base
begin

text \<open>
  The markup of the dependency map, with the node under the pointer as its state.
\<close>

section \<open>State\<close>

record depmap =
  hoverId :: jsstr

definition depmap_init :: depmap where
  "depmap_init = \<lparr>hoverId = []\<rparr>"

datatype depmap_event = Enter node | Leave

fun depmap_step :: "depmap_event \<Rightarrow> depmap \<Rightarrow> depmap" where
  "depmap_step (Enter n) s = s\<lparr>hoverId := nd_id n\<rparr>"
| "depmap_step Leave s = s\<lparr>hoverId := []\<rparr>"

section \<open>Markup\<close>

text \<open>\<open>e.style\<close>, which most edges do not have; an end that is not in \<open>nodeMap\<close> is
    \<open>undefined\<close>, and the edge is left out.\<close>

definition edge_style :: "edge \<Rightarrow> jsval" where
  "edge_style e = (case eg_style e of None \<Rightarrow> Undef | Some s \<Rightarrow> Str s)"

definition edge_view :: "edge \<Rightarrow> view" where
  "edge_view e = (case (nodeMap (eg_from e), nodeMap (eg_to e)) of
     (Some a, Some b) \<Rightarrow>
       el ''line'' [aval ''x1'' (Inr (Num (nx a))), aval ''y1'' (Inr (Num (ny a))), aval ''x2'' (Inr (Num (nx b))), aval ''y2''
           (Inr (Num (ny b))), aval ''stroke'' (js_if (js_eq (Inr (edge_style e)) (Inr (Str (js ''dashed'')))) (Inr (Str (js
           ''#f59e0b''))) (Inr (Str (js ''#334155'')))), aval ''stroke-width'' (js_if (js_eq (Inr (edge_style e)) (Inr (Str (js
           ''dashed'')))) (Inr (Num (lit 15 1))) (Inr (Num (lit 8 1)))), aval ''stroke-dasharray'' (js_if (js_eq (Inr (edge_style
           e)) (Inr (Str (js ''dashed'')))) (Inr (Str (js ''4 3''))) (Inr (Str (js ''none'')))), atx ''opacity'' (js ''0.6'')] []
   | _ \<Rightarrow> cat [])"

definition mark_view :: "depmap \<Rightarrow> node \<Rightarrow> view" where
  "mark_view st n =
     cat [
      bind_const (js_eq (Inr (Str (hoverId st))) (Inr (Str (nd_id n)))) (\<lambda>isHovered. [
        el ''g'' [atx ''role'' (js ''button''), atx ''tabindex'' (js ''0''), amix ''transform'' [Inr (Str (js ''translate('')),
            (Inr (Num (nx n))), Inr (Str (js '','')), (Inr (Num (ny n))), Inr (Str (js '')''))], atx ''onmouseenter'' (js
            ''() => (hoverId = n.id)''), atx ''onmouseleave'' (js ''() => (hoverId = '' @ [0x0022, 0x0022, 0x0029]), atx ''style''
            (js ''cursor:pointer'')] [
         el ''circle'' [aval ''r'' (js_if (Inr isHovered) (Inr (jsn 14)) (Inr (jsn 10))), aval ''fill'' (js_or (Inr (Str (nd_color
             n))) (Inr (Str (js ''#6366f1'')))), aval ''stroke'' (js_if (Inr isHovered) (Inr (Str (js ''#fff''))) (Inr (Str (js
             ''#1e293b'')))), aval ''stroke-width'' (js_if (Inr isHovered) (Inr (jsn 2)) (Inr (jsn 1))), aval ''opacity'' (js_if
             (js_eq (Inr (Str (nd_port n))) (Inr (Str (js ''browser'')))) (Inr (Num (lit 7 1))) (Inr (jsn 1)))] [],
         el ''text'' [aval ''dy'' (Inr (Num (Fin (- 14)))), atx ''text-anchor'' (js ''middle''), aval ''fill'' (js_if (Inr
             isHovered) (Inr (Str (js ''#fff''))) (Inr (Str (js ''#cbd5e1'')))), aval ''font-size'' (js_if (Inr isHovered) (Inr
             (jsn 11)) (Inr (jsn 9))), atx ''font-family'' (js ''monospace''), aval ''font-weight'' (js_if (Inr isHovered) (Inr
             (Str (js ''bold''))) (Inr (Str (js ''normal''))))] [ex (Inr (Str (nd_label n)))],
         el ''text'' [aval ''dy'' (Inr (jsn 22)), atx ''text-anchor'' (js ''middle''), atx ''fill'' (js ''#64748b''), atx
             ''font-size'' (js ''8''), atx ''font-family'' (js ''monospace'')] [ex (Inr (Str (nd_port n)))]]])]"

definition depmap_v_panel_header :: "view" where
  "depmap_v_panel_header =
     el ''div'' [atx ''class'' (js ''panel-header'')] [
      el ''div'' [] [
       el ''h2'' [] [tx [0xD83D, 0xDDFA, 0xFE0F, 0x0020, 0xC11C, 0xBE44, 0xC2A4, 0x0020, 0xC758, 0xC874, 0xC131, 0x0020, 0xB9F5]],
       el ''p'' [atx ''class'' (js ''subtitle'')] [
        tx ([0x0032, 0x0037, 0xAC1C, 0x0020, 0xC5B8, 0xC5B4, 0x002F, 0xB7F0, 0xD0C0, 0xC784, 0x0020, 0x00B7, 0x0020, 0x0032,
            0xAC1C] @ js '' DB '' @ [0x00B7, 0x0020, 0xD638, 0xCD9C, 0x0020, 0xAD00, 0xACC4, 0x0020, 0xC2DC, 0xAC01, 0xD654])]],
      el ''span'' [atx ''class'' (js ''node-count'')] [
       ex (Inr (jsn (length NODES))),
       tx [0x0020, 0xB178, 0xB4DC, 0x0020, 0x00B7, 0x0020],
       ex (Inr (jsn (length EDGES))),
       tx [0x0020, 0xC5E3, 0xC9C0]]]"

definition depmap_v_map :: "depmap \<Rightarrow> view" where
  "depmap_v_map st =
     el ''div'' [atx ''class'' (js ''map-scroll'')] [
      el ''svg'' [amix ''viewBox'' [Inr (Str (js ''0 0 '')), (Inr (Num map_W)), Inr (Str (js '' '')), (Inr (Num map_H))], atx
          ''width'' (js ''100%''), atx ''class'' (js ''dep-svg'')] [cat (map edge_view EDGES), cat (map (mark_view st) NODES)]]"

definition depmap_v_legend :: "view" where
  "depmap_v_legend =
     el ''div'' [atx ''class'' (js ''legend'')] [
      el ''div'' [atx ''class'' (js ''legend-item'')] [
       el ''svg'' [atx ''width'' (js ''24''), atx ''height'' (js ''8'')] [
        el ''line'' [atx ''x1'' (js ''0''), atx ''y1'' (js ''4''), atx ''x2'' (js ''24''), atx ''y2'' (js ''4''), atx ''stroke''
            (js ''#334155''), atx ''stroke-width'' (js ''1.5'')] []],
       el ''span'' [] [tx (js ''HTTP '' @ [0xD504, 0xB85D, 0xC2DC, 0x0020, 0x002F, 0x0020, 0xC9C1, 0xC811, 0x0020, 0xD638,
           0xCD9C])]],
      el ''div'' [atx ''class'' (js ''legend-item'')] [
       el ''svg'' [atx ''width'' (js ''24''), atx ''height'' (js ''8'')] [
        el ''line'' [atx ''x1'' (js ''0''), atx ''y1'' (js ''4''), atx ''x2'' (js ''24''), atx ''y2'' (js ''4''), atx ''stroke''
            (js ''#f59e0b''), atx ''stroke-width'' (js ''1.5''), atx ''stroke-dasharray'' (js ''4 3'')] []],
       el ''span'' [] [tx ([0xBE0C, 0xB77C, 0xC6B0, 0xC800, 0x0020, 0xC9C1, 0xC811] @ js '' (WASM)'')]],
      el ''div'' [atx ''class'' (js ''legend-item'')] [
       el ''circle'' [atx ''cx'' (js ''6''), atx ''cy'' (js ''6''), atx ''r'' (js ''6''), atx ''fill'' (js ''#dc382c''), atx
           ''style'' (js
           ''display:inline-block;width:12px;height:12px;border-radius:50%;vertical-align:middle;margin-right:4px'')] [],
       el ''span'' [] [tx (js ''DB / '' @ [0xC778, 0xD504, 0xB77C])]]]"

definition depmap_view :: "depmap \<Rightarrow> view" where
  "depmap_view st =
     el ''section'' [atx ''class'' (js ''panel depmap-panel'')] [depmap_v_panel_header, depmap_v_map st, depmap_v_legend]"


section \<open>What is drawn\<close>

text \<open>The values of an attribute of the elements with a given tag, in the order of the document.\<close>

fun attr_of :: "string \<Rightarrow> string \<Rightarrow> html \<Rightarrow> jsstr list" where
  "attr_of t a (Text s) = []"
| "attr_of t a (Elem u as ks) = (if u = t then map snd (filter (\<lambda>p. fst p = a) as) else []) @ concat (map (attr_of t a) ks)"

lemma cat_map_single:
  "(\<And>x. x \<in> set xs \<Longrightarrow> \<exists>h. f x = Inr [h] \<and> R x h) \<Longrightarrow> \<exists>hs. cat (map f xs) = Inr hs \<and> list_all2 R xs hs"
proof (induction xs)
  case (Cons x xs)
  from Cons.prems obtain h where "f x = Inr [h]" "R x h" by auto
  moreover from Cons obtain hs where "cat (map f xs) = Inr hs" "list_all2 R xs hs" by auto
  ultimately show ?case by (simp add: cat.simps)
qed (simp add: cat.simps)

lemma attrs_all2: "list_all2 (\<lambda>x h. attr_of t a h = [g x]) xs hs \<Longrightarrow> concat (map (attr_of t a) hs) = map g xs"
  by (induction rule: list_all2_induct) simp_all

lemma attrs_none: "list_all2 (\<lambda>x h. attr_of t a h = []) xs hs \<Longrightarrow> concat (map (attr_of t a) hs) = []"
  by (induction rule: list_all2_induct) simp_all

lemmas drawing_defs = el_def aval_def atx_def amix_def ex_def bind_const_def js_if_def js_or_def js_eq_def shown_text_def cat.simps

lemma mark_view_single:
  "\<exists>h. mark_view st n = Inr [h] \<and> attr_of ''line'' ''stroke'' h = [] \<and>
     attr_of ''circle'' ''r'' h = [num_str (jsnat (mn_radius (node_view (hoverId st) n)))] \<and>
     attr_of ''circle'' ''fill'' h = [mn_fill (node_view (hoverId st) n)] \<and>
     texts h = [nd_label n, nd_port n]"
  by (simp add: mark_view_def node_view_def Let_def drawing_defs)

lemma edge_view_single:
  assumes "e \<in> set EDGES"
  shows "\<exists>l h. edge_line e = Some l \<and> edge_view e = Inr [h] \<and> attr_of ''circle'' ''r'' h = [] \<and> attr_of ''circle'' ''fill'' h = [] \<and>
     attr_of ''line'' ''stroke'' h = [ln_stroke l] \<and> texts h = []"
proof -
  obtain a b where "nodeMap (eg_from e) = Some a" "nodeMap (eg_to e) = Some b"
    using edge_ends_known [OF assms] nodeMap_Some by meson
  then show ?thesis by (cases "eg_style e") (auto simp: edge_line_def edge_view_def edge_style_def Let_def drawing_defs)
qed

lemma map_edges_drawn:
  "\<exists>hs. cat (map edge_view EDGES) = Inr hs \<and> concat (map (attr_of ''circle'' ''r'') hs) = [] \<and>
     concat (map (attr_of ''circle'' ''fill'') hs) = [] \<and> concat (map (attr_of ''line'' ''stroke'') hs) = map ln_stroke map_lines \<and>
     concat (map texts hs) = []"
proof -
  have "\<exists>hs. cat (map edge_view es) = Inr hs \<and> concat (map (attr_of ''circle'' ''r'') hs) = [] \<and>
     concat (map (attr_of ''circle'' ''fill'') hs) = [] \<and>
     concat (map (attr_of ''line'' ''stroke'') hs) = map ln_stroke (List.map_filter edge_line es) \<and> concat (map texts hs) = []"
    if "set es \<subseteq> set EDGES" for es using that
  proof (induction es)
    case (Cons e es)
    then obtain hs where "cat (map edge_view es) = Inr hs" "concat (map (attr_of ''circle'' ''r'') hs) = []"
      "concat (map (attr_of ''circle'' ''fill'') hs) = []"
      "concat (map (attr_of ''line'' ''stroke'') hs) = map ln_stroke (List.map_filter edge_line es)" "concat (map texts hs) = []"
      by auto
    with edge_view_single [of e] Cons.prems show ?case by (auto simp: cat.simps map_filter_simps simp del: concat_eq_Nil_conv)
  qed (simp add: cat.simps map_filter_simps)
  then show ?thesis unfolding map_lines_def by simp
qed

lemma map_marks_drawn:
  "\<exists>hs. cat (map (mark_view st) ns) = Inr hs \<and> concat (map (attr_of ''line'' ''stroke'') hs) = [] \<and>
     concat (map (attr_of ''circle'' ''r'') hs) = map (\<lambda>n. num_str (jsnat (mn_radius (node_view (hoverId st) n)))) ns \<and>
     concat (map (attr_of ''circle'' ''fill'') hs) = map (\<lambda>n. mn_fill (node_view (hoverId st) n)) ns \<and>
     concat (map texts hs) = concat (map (\<lambda>n. [nd_label n, nd_port n]) ns)"
proof (induction ns)
  case (Cons n ns)
  then obtain hs where "cat (map (mark_view st) ns) = Inr hs" "concat (map (attr_of ''line'' ''stroke'') hs) = []"
     "concat (map (attr_of ''circle'' ''r'') hs) = map (\<lambda>n. num_str (jsnat (mn_radius (node_view (hoverId st) n)))) ns"
     "concat (map (attr_of ''circle'' ''fill'') hs) = map (\<lambda>n. mn_fill (node_view (hoverId st) n)) ns"
     "concat (map texts hs) = concat (map (\<lambda>n. [nd_label n, nd_port n]) ns)" by auto
  with mark_view_single [of st n] show ?case by (auto simp: cat.simps simp del: concat_eq_Nil_conv)
qed (simp add: cat.simps)

text \<open>The markup draws the lines of \<open>map_lines\<close> and the nodes of \<open>node_view\<close>, then the legend.\<close>

lemma depmap_drawn:
  "\<exists>h. depmap_view st = Inr [h] \<and>
     attr_of ''line'' ''stroke'' h = map ln_stroke map_lines @ [js ''#334155'', js ''#f59e0b''] \<and>
     attr_of ''circle'' ''r'' h = map (\<lambda>n. num_str (jsnat (mn_radius (node_view (hoverId st) n)))) NODES @ [js ''6''] \<and>
     attr_of ''circle'' ''fill'' h = map (\<lambda>n. mn_fill (node_view (hoverId st) n)) NODES @ [js ''#dc382c'']"
proof -
  obtain es where es: "cat (map edge_view EDGES) = Inr es" "concat (map (attr_of ''circle'' ''r'') es) = []"
     "concat (map (attr_of ''circle'' ''fill'') es) = []" "concat (map (attr_of ''line'' ''stroke'') es) = map ln_stroke map_lines"
    using map_edges_drawn by blast
  obtain ns where ns: "cat (map (mark_view st) NODES) = Inr ns" "concat (map (attr_of ''line'' ''stroke'') ns) = []"
     "concat (map (attr_of ''circle'' ''r'') ns) = map (\<lambda>n. num_str (jsnat (mn_radius (node_view (hoverId st) n)))) NODES"
     "concat (map (attr_of ''circle'' ''fill'') ns) = map (\<lambda>n. mn_fill (node_view (hoverId st) n)) NODES"
    using map_marks_drawn [of st NODES] by blast
  show ?thesis
    by (simp add: depmap_view_def depmap_v_panel_header_def depmap_v_map_def depmap_v_legend_def drawing_defs tx_def es ns map_W_def map_H_def
      del: concat_eq_Nil_conv)
qed

text \<open>The node whose identifier is under the pointer after a series of events: the last one entered, if it was not left.\<close>

definition pointed :: "depmap_event list \<Rightarrow> jsstr option" where
  "pointed evs = (case rev evs of Enter n # _ \<Rightarrow> Some (nd_id n) | _ \<Rightarrow> None)"

lemma hover_fold: "hoverId (fold depmap_step evs depmap_init) = (case pointed evs of Some i \<Rightarrow> i | None \<Rightarrow> [])"
  by (induction evs rule: rev_induct) (auto simp: depmap_init_def pointed_def split: depmap_event.splits)

lemma node_ids_nonempty: "n \<in> set NODES \<Longrightarrow> nd_id n \<noteq> []"
  by (auto simp: NODES_defs node_def js_def)

lemma radius_texts: "num_str (jsnat 14) = js ''14''" "num_str (jsnat 10) = js ''10''"
  by code_simp+

lemma depmap_highlights:
  "\<exists>h. depmap_view (fold depmap_step evs depmap_init) = Inr [h] \<and>
     attr_of ''circle'' ''r'' h = map (\<lambda>n. if pointed evs = Some (nd_id n) then js ''14'' else js ''10'') NODES @ [js ''6'']"
proof -
  have "num_str (jsnat (mn_radius (node_view (hoverId (fold depmap_step evs depmap_init)) n))) =
      (if pointed evs = Some (nd_id n) then js ''14'' else js ''10'')" if "n \<in> set NODES" for n
    using node_ids_nonempty [OF that] radius_texts unfolding hover_fold
    by (auto simp: node_view_def Let_def split: option.splits)
  then show ?thesis using depmap_drawn [of "fold depmap_step evs depmap_init"] by (auto cong: map_cong)
qed

end
