(* ===== verification/K6_Script.thy ===== *)
theory K6_Script
  imports JS_Text
begin

text \<open>
  What a load script asks of its host, the k6 runner: random numbers, requests, the clock, checks, metrics and pauses.  A script is the
  tree of its effects, and a run of it is driven by a host, which is arbitrary: the numbers, the answers and the times are its choice.
\<close>

section \<open>Scripts\<close>

text \<open>A request of \<open>k6/http\<close> and its response: the status, and \<open>r.json(selector)\<close>, which throws when the body is not JSON.\<close>

record k6_call =
  k_method :: string
  k_url :: jsstr
  k_body :: "jsstr option"
  k_headers :: "(jsstr \<times> jsstr) list"
  k_timeout :: "jsstr option"

record response =
  r_status :: nat
  r_json :: "jsstr option \<Rightarrow> jsval result"

text \<open>What a run leaves behind: outcomes of checks, samples of rates, trends and counters, and pauses in seconds.\<close>

datatype event =
    Checked string "bool result"
  | Rated string bool
  | Trended string jsnum
  | Counted string nat
  | Slept jsnum

definition rates :: "event list \<Rightarrow> bool list" where
  "rates es = concat (map (\<lambda>e. case e of Rated _ b \<Rightarrow> [b] | _ \<Rightarrow> []) es)"

definition counts :: "event list \<Rightarrow> nat list" where
  "counts es = concat (map (\<lambda>e. case e of Counted _ n \<Rightarrow> [n] | _ \<Rightarrow> []) es)"

definition pauses :: "event list \<Rightarrow> jsnum list" where
  "pauses es = concat (map (\<lambda>e. case e of Slept x \<Rightarrow> [x] | _ \<Rightarrow> []) es)"

definition outcomes :: "event list \<Rightarrow> bool result list" where
  "outcomes es = concat (map (\<lambda>e. case e of Checked _ b \<Rightarrow> [b] | _ \<Rightarrow> []) es)"

lemmas reading_defs = rates_def counts_def pauses_def outcomes_def

text \<open>\<open>RollUntil lo hi P k\<close> is the loop that draws again until \<open>P\<close> holds of the number.\<close>

datatype script =
    End
  | Throw exn
  | Roll int int "int \<Rightarrow> script"
  | RollUntil int int "int \<Rightarrow> bool" "int \<Rightarrow> script"
  | Request k6_call "response \<Rightarrow> script"
  | Clock "jsnum \<Rightarrow> script"
  | Log event script

definition http_get :: "jsstr \<Rightarrow> jsstr option \<Rightarrow> (response \<Rightarrow> script) \<Rightarrow> script" where
  "http_get url timeout k =
     Request \<lparr>k_method = ''GET'', k_url = url, k_body = None, k_headers = [], k_timeout = timeout\<rparr> k"

definition http_post :: "jsstr \<Rightarrow> jsstr option \<Rightarrow> (jsstr \<times> jsstr) list \<Rightarrow> jsstr option \<Rightarrow> (response \<Rightarrow> script) \<Rightarrow> script" where
  "http_post url body headers timeout k =
     Request \<lparr>k_method = ''POST'', k_url = url, k_body = body, k_headers = headers, k_timeout = timeout\<rparr> k"

primrec followed_by :: "script \<Rightarrow> script \<Rightarrow> script" where
  "followed_by End t = t"
| "followed_by (Throw e) t = Throw e"
| "followed_by (Roll a b k) t = Roll a b (\<lambda>x. followed_by (k x) t)"
| "followed_by (RollUntil a b P k) t = RollUntil a b P (\<lambda>x. followed_by (k x) t)"
| "followed_by (Request c k) t = Request c (\<lambda>r. followed_by (k r) t)"
| "followed_by (Clock k) t = Clock (\<lambda>x. followed_by (k x) t)"
| "followed_by (Log e s) t = Log e (followed_by s t)"

text \<open>\<open>check(res, { name: predicate, ... })\<close>: the predicates in order, up to one that throws.\<close>

fun checks :: "response \<Rightarrow> (string \<times> (response \<Rightarrow> bool result)) list \<Rightarrow> script \<Rightarrow> script" where
  "checks res [] t = t"
| "checks res ((n, p) # ps) t = Log (Checked n (p res)) (case p res of Inl e \<Rightarrow> Throw e | Inr _ \<Rightarrow> checks res ps t)"

section \<open>Runs\<close>

record host =
  h_roll :: "nat \<Rightarrow> int \<Rightarrow> int \<Rightarrow> int"
  h_reply :: "nat \<Rightarrow> k6_call \<Rightarrow> response"
  h_now :: "nat \<Rightarrow> jsnum"

record vu =
  v_rolls :: nat
  v_sent :: "(k6_call \<times> response) list"
  v_reads :: nat
  v_log :: "event list"

definition vu_new :: vu where
  "vu_new = \<lparr>v_rolls = 0, v_sent = [], v_reads = 0, v_log = []\<rparr>"

partial_function (option) draw_until :: "(nat \<Rightarrow> int) \<Rightarrow> (int \<Rightarrow> bool) \<Rightarrow> nat \<Rightarrow> (int \<times> nat) option" where
  "draw_until roll good n = (if good (roll n) then Some (roll n, Suc n) else draw_until roll good (Suc n))"

text \<open>\<open>None\<close> is a run that never returns; an exception ends the iteration.\<close>

primrec run :: "host \<Rightarrow> script \<Rightarrow> vu \<Rightarrow> (vu \<times> exn option) option" where
  "run H End v = Some (v, None)"
| "run H (Throw e) v = Some (v, Some e)"
| "run H (Roll a b k) v = run H (k (h_roll H (v_rolls v) a b)) (v\<lparr>v_rolls := Suc (v_rolls v)\<rparr>)"
| "run H (RollUntil a b P k) v = (case draw_until (\<lambda>n. h_roll H n a b) P (v_rolls v) of
     None \<Rightarrow> None | Some (x, n) \<Rightarrow> run H (k x) (v\<lparr>v_rolls := n\<rparr>))"
| "run H (Request c k) v = (let r = h_reply H (length (v_sent v)) c in run H (k r) (v\<lparr>v_sent := v_sent v @ [(c, r)]\<rparr>))"
| "run H (Clock k) v = run H (k (h_now H (v_reads v))) (v\<lparr>v_reads := Suc (v_reads v)\<rparr>)"
| "run H (Log e s) v = run H s (v\<lparr>v_log := v_log v @ [e]\<rparr>)"

section \<open>The loop returns when its condition comes true\<close>

lemma draw_until_Some:
  assumes r: "draw_until roll good n = Some r"
  shows "n < snd r \<and> fst r = roll (snd r - 1) \<and> good (fst r)"
proof (rule draw_until.raw_induct [where P = "\<lambda>roll good n r. n < snd r \<and> fst r = roll (snd r - 1) \<and> good (fst r)", OF _ r])
  fix d :: "(nat \<Rightarrow> int) \<Rightarrow> (int \<Rightarrow> bool) \<Rightarrow> nat \<Rightarrow> (int \<times> nat) option" and roll good n r
  assume IH: "\<And>roll good n r. d roll good n = Some r \<Longrightarrow> n < snd r \<and> fst r = roll (snd r - 1) \<and> good (fst r)"
    and step: "(if good (roll n) then Some (roll n, Suc n) else d roll good (Suc n)) = Some r"
  from step IH [of roll good "Suc n" r] show "n < snd r \<and> fst r = roll (snd r - 1) \<and> good (fst r)"
    by (auto split: if_splits)
qed

lemma draw_until_returns: "P (roll (n + k)) \<Longrightarrow> draw_until roll P n \<noteq> None"
proof (induction k arbitrary: n)
  case 0
  then show ?case by (subst draw_until.simps) simp
next
  case (Suc k)
  from Suc.IH [of "Suc n"] Suc.prems show ?case by (subst draw_until.simps) auto
qed

lemma draw_until_iff: "draw_until roll P n \<noteq> None \<longleftrightarrow> (\<exists>k. P (roll (n + k)))"
proof
  assume "draw_until roll P n \<noteq> None"
  then obtain r where "draw_until roll P n = Some r" by auto
  then have "P (roll (n + (snd r - 1 - n)))" using draw_until_Some [of roll P n r] by auto
  then show "\<exists>k. P (roll (n + k))" ..
next
  assume "\<exists>k. P (roll (n + k))"
  then show "draw_until roll P n \<noteq> None" using draw_until_returns [of P roll n] by blast
qed

lemma draw_until_None: "draw_until roll P n = None \<longleftrightarrow> (\<forall>k. \<not> P (roll (n + k)))"
  using draw_until_iff [of roll P n] by auto

section \<open>Properties of every path\<close>

text \<open>
  \<open>every R s Q\<close> follows the script \<open>s\<close> over all numbers in range, all responses that satisfy \<open>R\<close> and all times: \<open>Q\<close> holds of the requests
  with their responses, of the log and of the exception of each path that ends.
\<close>

primrec every :: "(response \<Rightarrow> bool) \<Rightarrow> script \<Rightarrow> ((k6_call \<times> response) list \<Rightarrow> event list \<Rightarrow> exn option \<Rightarrow> bool) \<Rightarrow> bool" where
  "every R End Q = Q [] [] None"
| "every R (Throw e) Q = Q [] [] (Some e)"
| "every R (Roll a b k) Q = (a \<le> b \<and> (\<forall>x. a \<le> x \<and> x \<le> b \<longrightarrow> every R (k x) Q))"
| "every R (RollUntil a b P k) Q = (a \<le> b \<and> (\<forall>x. a \<le> x \<and> x \<le> b \<and> P x \<longrightarrow> every R (k x) Q))"
| "every R (Request c k) Q = (\<forall>r. R r \<longrightarrow> every R (k r) (\<lambda>cs. Q ((c, r) # cs)))"
| "every R (Clock k) Q = (\<forall>x. every R (k x) Q)"
| "every R (Log e s) Q = every R s (\<lambda>cs es. Q cs (e # es))"

lemma every_mono:
  assumes "every R s Q" "\<And>cs es e. Q cs es e \<Longrightarrow> Q' cs es e"
  shows "every R s Q'"
  using assms
proof (induction s arbitrary: Q Q')
  case (Request c k)
  show ?case unfolding every.simps
  proof (intro allI impI)
    fix r assume "R r"
    then have "every R (k r) (\<lambda>cs. Q ((c, r) # cs))" using Request.prems(1) by simp
    then show "every R (k r) (\<lambda>cs. Q' ((c, r) # cs))" by (rule Request.IH [OF rangeI]) (rule Request.prems(2))
  qed
next
  case (Log ev s)
  from Log.IH [of "\<lambda>cs es. Q cs (ev # es)" "\<lambda>cs es. Q' cs (ev # es)"] Log.prems show ?case by simp
qed (simp_all, blast+)

lemma every_followed_by:
  "every R (followed_by s t) Q =
     every R s (\<lambda>cs es e. case e of Some x \<Rightarrow> Q cs es (Some x) | None \<Rightarrow> every R t (\<lambda>cs' es' e'. Q (cs @ cs') (es @ es') e'))"
  by (induction s arbitrary: Q) simp_all

text \<open>The documented contract of \<open>randomIntBetween(a, b)\<close>: an integer from \<open>a\<close> to \<open>b\<close>, both included.\<close>

definition in_range :: "host \<Rightarrow> bool" where
  "in_range H \<longleftrightarrow> (\<forall>n a b. a \<le> b \<longrightarrow> a \<le> h_roll H n a b \<and> h_roll H n a b \<le> b)"

lemma every_run:
  assumes "every R s Q" "in_range H" "\<And>n c. R (h_reply H n c)" "run H s v = Some (v', e)"
  shows "\<exists>cs es. v_sent v' = v_sent v @ cs \<and> v_log v' = v_log v @ es \<and> Q cs es e"
  using assms(1,4)
proof (induction s arbitrary: v Q)
  case (RollUntil a b P k)
  then obtain x n where d: "draw_until (\<lambda>n. h_roll H n a b) P (v_rolls v) = Some (x, n)" "run H (k x) (v\<lparr>v_rolls := n\<rparr>) = Some (v', e)"
    by (auto split: option.splits)
  from draw_until_Some [OF d(1)] have "a \<le> x \<and> x \<le> b \<and> P x" using RollUntil.prems(1) assms(2) by (auto simp: in_range_def)
  then have "every R (k x) Q" using RollUntil.prems(1) by simp
  from RollUntil.IH [OF rangeI this d(2)] show ?case by simp
next
  case (Roll a b k)
  have "a \<le> h_roll H (v_rolls v) a b \<and> h_roll H (v_rolls v) a b \<le> b" using Roll.prems(1) assms(2) by (auto simp: in_range_def)
  then have "every R (k (h_roll H (v_rolls v) a b)) Q" using Roll.prems(1) by simp
  moreover have "run H (k (h_roll H (v_rolls v) a b)) (v\<lparr>v_rolls := Suc (v_rolls v)\<rparr>) = Some (v', e)" using Roll.prems(2) by simp
  ultimately show ?case using Roll.IH [OF rangeI] by fastforce
next
  case (Request c k)
  then have "every R (k (h_reply H (length (v_sent v)) c)) (\<lambda>cs. Q ((c, h_reply H (length (v_sent v)) c) # cs))" using assms(3) by simp
  with Request.IH [OF rangeI] Request.prems(2) show ?case by (fastforce simp: Let_def)
next
  case (Clock k)
  from Clock.IH [OF rangeI] Clock.prems show ?case by fastforce
next
  case (Log ev s)
  from Log.IH Log.prems show ?case by fastforce
qed auto

section \<open>Returning\<close>

primrec loops :: "script \<Rightarrow> bool" where
  "loops End = False"
| "loops (Throw e) = False"
| "loops (Roll a b k) = (\<exists>x. a \<le> x \<and> x \<le> b \<and> loops (k x))"
| "loops (RollUntil a b P k) = True"
| "loops (Request c k) = (\<exists>r. loops (k r))"
| "loops (Clock k) = (\<exists>x. loops (k x))"
| "loops (Log e s) = loops s"

lemma run_returns: "\<not> loops s \<Longrightarrow> in_range H \<Longrightarrow> every (\<lambda>_. True) s (\<lambda>_ _ _. True) \<Longrightarrow> run H s v \<noteq> None"
proof (induction s arbitrary: v)
  case (Roll a b k)
  then have "a \<le> h_roll H (v_rolls v) a b \<and> h_roll H (v_rolls v) a b \<le> b" by (auto simp: in_range_def)
  with Roll.prems have "\<not> loops (k (h_roll H (v_rolls v) a b))" "every (\<lambda>_. True) (k (h_roll H (v_rolls v) a b)) (\<lambda>_ _ _. True)" by auto
  from Roll.IH [OF rangeI this(1) Roll.prems(2) this(2)] show ?case by (simp del: not_None_eq)
qed (auto simp: Let_def simp del: not_None_eq)

lemma loops_followed_by: "loops (followed_by s t) \<Longrightarrow> loops s \<or> loops t"
  by (induction s) auto

lemma run_followed_by:
  "run H (followed_by s t) v =
     (case run H s v of None \<Rightarrow> None | Some (v', Some x) \<Rightarrow> Some (v', Some x) | Some (v', None) \<Rightarrow> run H t v')"
  by (induction s arbitrary: v) (auto simp: Let_def split: option.splits)

end
