(* ===== verification/Load_Test.thy ===== *)
theory Load_Test
  imports K6_Script
begin

text \<open>
  The load test of the gateway, \<open>src/tests/load-test.js\<close>: the configuration, the weighted table of the 31 scenarios, the iteration of a
  virtual user, and the scenarios, each a script of the numbers it draws, the request it sends, the checks and the samples.
\<close>

section \<open>Configuration\<close>

definition stages :: "(string \<times> nat) list" where
  "stages = [(''30s'', 100), (''30s'', 500), (''120s'', 500), (''20s'', 0)]"

definition thresholds :: "(string \<times> string list) list" where
  "thresholds =
     [(''http_req_duration'', [''p(95)<200'']),
      (''http_req_failed'', [''rate<0.01'']),
      (''custom_error_rate'', [''rate<0.01'']),
      (''order_latency_ms'', [''p(95)<300'']),
      (''workflow_latency_ms'', [''p(95)<2000'']),
      (''aggregate_latency_ms'', [''p(95)<500''])]"

definition BASE :: jsstr where
  "BASE = js ''http://localhost:8080''"

definition JSON_HEADERS :: "(jsstr \<times> jsstr) list" where
  "JSON_HEADERS = [(js ''Content-Type'', js ''application/json'')]"

section \<open>Predicates and samples of the scenarios\<close>

text \<open>\<open>r.status === 200\<close>, and \<open>r.status === 200 && p(r.json(selector))\<close>, whose right side is not evaluated on another status.\<close>

definition status_is :: "nat \<Rightarrow> response \<Rightarrow> bool result" where
  "status_is n r = Inr (r_status r = n)"

definition accepted :: "response \<Rightarrow> bool result" where
  "accepted r = Inr (r_status r = 200 \<or> r_status r = 201)"

definition field :: "jsstr option \<Rightarrow> (jsval \<Rightarrow> bool) \<Rightarrow> response \<Rightarrow> bool result" where
  "field selector p r = (if r_status r = 200 then bindr (r_json r selector) (\<lambda>v. Inr (p v)) else Inr False)"

definition present :: "jsval \<Rightarrow> bool" where
  "present v \<longleftrightarrow> v \<noteq> Undef"

definition isArray :: "jsval \<Rightarrow> bool" where
  "isArray v = (case v of Arr _ \<Rightarrow> True | _ \<Rightarrow> False)"

text \<open>\<open>typeof v === "object"\<close>, which holds of \<open>null\<close> and of arrays too.\<close>

definition isObject :: "jsval \<Rightarrow> bool" where
  "isObject v = (case v of Obj _ \<Rightarrow> True | Arr _ \<Rightarrow> True | Null \<Rightarrow> True | _ \<Rightarrow> False)"

definition errorRate_add :: "response \<Rightarrow> script" where
  "errorRate_add res = Log (Rated ''custom_error_rate'' (400 \<le> r_status res)) End"

text \<open>A drawn integer as a number, its text in a template literal, and \<open>xs[i]\<close> on an array of strings.\<close>

definition int_num :: "int \<Rightarrow> jsnum" where
  "int_num i = Fin (of_int i)"

definition int_text :: "int \<Rightarrow> jsstr" where
  "int_text i = num_str (int_num i)"

definition elem :: "string list \<Rightarrow> int \<Rightarrow> jsval" where
  "elem xs i = (case js_index xs (int_num i) of Some s \<Rightarrow> Str (js s) | None \<Rightarrow> Undef)"

section \<open>Scenarios\<close>

definition scenarioStatus :: script where
  "scenarioStatus =
     http_get (BASE @ js ''/api/status'') None (\<lambda>res.
     checks res [(''status 200'', status_is 200),
       (''has system field'', field (Some (js ''system'')) present)] (errorRate_add res))"

definition scenarioAggregate :: script where
  "scenarioAggregate =
     Clock (\<lambda>start. http_get (BASE @ js ''/api/aggregate'') None (\<lambda>res.
     Clock (\<lambda>now. Log (Trended ''aggregate_latency_ms'' (js_sub now start)) (
     checks res [(''aggregate 200'', status_is 200),
       (''has services array'', field (Some (js ''services'')) isArray)] (errorRate_add res)))))"

definition scenarioOrderSubmit :: script where
  "scenarioOrderSubmit =
     Roll 0 4 (\<lambda>i. Roll 1 1000 (\<lambda>q. Roll 10000 50000 (\<lambda>p. Roll 0 2 (\<lambda>t. Roll 0 1 (\<lambda>d.
     let payload = stringify (Obj
       [(js ''symbol'', elem [''AAPL'', ''TSLA'', ''MSFT'', ''NVDA'', ''GOOG''] i),
        (js ''quantity'', Num (int_num q)),
        (js ''price'', Num (parseFloat (toFixed 2 (js_div (int_num p) (Fin 100))))),
        (js ''order_type'', elem [''MARKET'', ''LIMIT'', ''STOP''] t),
        (js ''side'', elem [''BUY'', ''SELL''] d)])
     in Clock (\<lambda>start. http_post (BASE @ js ''/api/java/order'') (Some payload) JSON_HEADERS None (\<lambda>res.
     Clock (\<lambda>now. Log (Trended ''order_latency_ms'' (js_sub now start)) (
     checks res [(''order accepted'', accepted)] (errorRate_add res))))))))))"

definition scenarioCacheStats :: script where
  "scenarioCacheStats =
     http_get (BASE @ js ''/api/cache/stats'') None (\<lambda>res.
     checks res [(''cache stats 200'', status_is 200),
       (''has cache_hits'', field (Some (js ''cache_hits'')) present)] (errorRate_add res))"

definition scenarioHistory :: script where
  "scenarioHistory =
     http_get (BASE @ js ''/api/history'') None (\<lambda>res.
     checks res [(''history 200'', status_is 200)] (errorRate_add res))"

definition scenarioReport :: script where
  "scenarioReport =
     http_get (BASE @ js ''/api/report'') (Some (js ''10s'')) (\<lambda>res.
     checks res [(''report 200'', status_is 200),
       (''has generated_at'', field (Some (js ''generated_at'')) present)] (errorRate_add res))"

definition scenarioRustRisk :: script where
  "scenarioRustRisk =
     http_get (BASE @ js ''/api/rust/status'') None (\<lambda>res.
     checks res [(''rust 200'', status_is 200)] (errorRate_add res))"

definition scenarioPythonAnalyze :: script where
  "scenarioPythonAnalyze =
     http_get (BASE @ js ''/api/python/analyze'') None (\<lambda>res.
     checks res [(''python 200'', status_is 200)] (errorRate_add res))"

definition scenarioFSharpIV :: script where
  "scenarioFSharpIV =
     Roll 90 110 (\<lambda>s. Roll 95 115 (\<lambda>k. http_get (BASE @ js ''/api/fsharp/iv?s='' @ int_text s @ js ''&k='' @ int_text k @ js ''&r=0.05&t=0.25&market_price=5.0'') None (\<lambda>res.
     checks res [(''fsharp iv 200'', status_is 200)] (errorRate_add res))))"

definition scenarioOCamlRisk :: script where
  "scenarioOCamlRisk =
     http_get (BASE @ js ''/api/ocaml/risk'') None (\<lambda>res.
     checks res [(''ocaml risk 200'', status_is 200)] (errorRate_add res))"

definition scenarioNimGarch :: script where
  "scenarioNimGarch =
     Roll 1 10 (\<lambda>a. Roll 5 20 (\<lambda>b. Roll 75 90 (\<lambda>c. http_get (BASE @ js ''/api/nim/garch?omega='' @ toFixed 7 (js_div (int_num a) (Fin 1000000)) @ js ''&alpha='' @ toFixed 2 (js_div (int_num b) (Fin 100))
        @ js ''&beta='' @ toFixed 2 (js_div (int_num c) (Fin 100)) @ js ''&n=252'') None (\<lambda>res.
     checks res [(''nim garch 200'', status_is 200)] (errorRate_add res)))))"

definition scenarioJuliaSimulate :: script where
  "scenarioJuliaSimulate =
     Roll 10 40 (\<lambda>v. Roll 10 100 (\<lambda>paths. http_get (BASE @ js ''/api/julia/simulate?paths='' @ int_text paths @ js ''&days=252&vol='' @ toFixed 2 (js_div (int_num v) (Fin 100)) @ js ''&mu=0.07'') None (\<lambda>res.
     checks res [(''julia simulate 200'', status_is 200)] (errorRate_add res))))"

definition scenarioHaskellMC :: script where
  "scenarioHaskellMC =
     Roll 80 120 (\<lambda>s. Roll 100 500 (\<lambda>n. http_get (BASE @ js ''/api/haskell/montecarlo?s='' @ int_text s @ js ''&vol=0.2&mu=0.05&n='' @ int_text n @ js ''&days=252'') None (\<lambda>res.
     checks res [(''haskell mc 200'', status_is 200)] (errorRate_add res))))"

definition scenarioKotlinReport :: script where
  "scenarioKotlinReport =
     http_get (BASE @ js ''/api/kotlin/reports/now'') None (\<lambda>res.
     checks res [(''kotlin report 200'', status_is 200)] (errorRate_add res))"

definition scenarioElixirStatus :: script where
  "scenarioElixirStatus =
     http_get (BASE @ js ''/api/elixir/status'') None (\<lambda>res.
     checks res [(''elixir status 200'', status_is 200)] (errorRate_add res))"

definition accounts :: "string list" where
  "accounts = [''ACC-001'', ''ACC-002'', ''ACC-003'', ''ACC-004'', ''ACC-005'']"

definition transfer_payload :: "jsval \<Rightarrow> jsval \<Rightarrow> int \<Rightarrow> jsstr" where
  "transfer_payload from to a = stringify (Obj
     [(js ''from_account'', from), (js ''to_account'', to),
      (js ''amount'', Num (parseFloat (toFixed 2 (js_div (int_num a) (Fin 100)))))])"

definition scenarioClojureTransfer :: script where
  "scenarioClojureTransfer =
     Roll 0 4 (\<lambda>i. let from = elem accounts i in
     RollUntil 0 4 (\<lambda>j. \<not> strict_eq (elem accounts j) from) (\<lambda>j. let to = elem accounts j in
     Roll 100 10000 (\<lambda>a. http_post (BASE @ js ''/api/clojure/transfer'') (Some (transfer_payload from to a)) JSON_HEADERS None (\<lambda>res.
     checks res [(''clojure transfer accepted'', accepted)] (errorRate_add res)))))"

definition scenarioLuaStream :: script where
  "scenarioLuaStream =
     http_get (BASE @ js ''/api/lua/stream'') None (\<lambda>res.
     checks res [(''lua stream 200'', status_is 200)] (errorRate_add res))"

definition scenarioSwiftOrder :: script where
  "scenarioSwiftOrder =
     Roll 1 10 (\<lambda>q. Roll 2000000 7000000 (\<lambda>p. Roll 0 1 (\<lambda>d.
     let payload = stringify (Obj
       [(js ''symbol'', Str (js ''BTC-USD'')),
        (js ''quantity'', Num (int_num q)),
        (js ''price'', Num (parseFloat (toFixed 2 (js_div (int_num p) (Fin 100))))),
        (js ''side'', Str (if d = 0 then js ''BUY'' else js ''SELL''))])
     in http_post (BASE @ js ''/api/swift/order'') (Some payload) JSON_HEADERS None (\<lambda>res.
     checks res [(''swift order accepted'', accepted)] (errorRate_add res)))))"

definition scenarioErlangStatus :: script where
  "scenarioErlangStatus =
     http_get (BASE @ js ''/api/erlang/status'') None (\<lambda>res.
     checks res [(''erlang status 200'', status_is 200)] (errorRate_add res))"

definition scenarioPipelineTrigger :: script where
  "scenarioPipelineTrigger =
     http_post (BASE @ js ''/api/pipeline/trigger'') None JSON_HEADERS (Some (js ''10s'')) (\<lambda>res.
     checks res [(''pipeline trigger 2xx'', \<lambda>r. Inr (200 \<le> r_status r \<and> r_status r < 300))] (errorRate_add res))"

definition scenarioWorkflowRisk :: script where
  "scenarioWorkflowRisk =
     Clock (\<lambda>start. http_get (BASE @ js ''/api/workflow/risk-full'') (Some (js ''15s'')) (\<lambda>res.
     Clock (\<lambda>now. Log (Trended ''workflow_latency_ms'' (js_sub now start)) (
     checks res [(''workflow risk 200'', status_is 200),
       (''has steps'', field (Some (js ''steps'')) isArray)] (errorRate_add res)))))"

definition scenarioWorkflowOption :: script where
  "scenarioWorkflowOption =
     Roll 90 110 (\<lambda>s. Roll 95 115 (\<lambda>k. Clock (\<lambda>start. http_get (BASE @ (js ''/api/workflow/option-compare?s='' @ int_text s @ js ''&k='' @ int_text k @ js ''&r=0.05&t=0.25&vol=0.2'')) (Some (js ''15s'')) (\<lambda>res.
     Clock (\<lambda>now. Log (Trended ''workflow_latency_ms'' (js_sub now start)) (
     checks res [(''workflow option 200'', status_is 200)] (errorRate_add res)))))))"

definition scenarioRStats :: script where
  "scenarioRStats =
     Roll 100 1000 (\<lambda>n. Roll 1 9999 (\<lambda>seed. http_get (BASE @ js ''/api/r/fit?n='' @ int_text n @ js ''&seed='' @ int_text seed) (Some (js ''15s'')) (\<lambda>res.
     checks res [(''r fit 200'', status_is 200)] (errorRate_add res))))"

definition scenarioCrystalPortfolio :: script where
  "scenarioCrystalPortfolio =
     Roll 5 25 (\<lambda>m. Roll 10 35 (\<lambda>s. Roll 1 9999 (\<lambda>seed. http_get (BASE @ js ''/api/crystal/portfolio?mu='' @ toFixed 2 (js_div (int_num m) (Fin 100)) @ js ''&sigma='' @ toFixed 2 (js_div (int_num s) (Fin 100))
        @ js ''&days=252&seed='' @ int_text seed) None (\<lambda>res.
     checks res [(''crystal portfolio 200'', status_is 200)] (errorRate_add res)))))"

definition scenarioScalaAggregate :: script where
  "scenarioScalaAggregate =
     Roll 50 500 (\<lambda>n. Roll 3 15 (\<lambda>m. Roll 10 30 (\<lambda>s. Roll 1 9999 (\<lambda>seed. http_get (BASE @ js ''/api/scala/aggregate?n='' @ int_text n @ js ''&mu='' @ toFixed 2 (js_div (int_num m) (Fin 100))
        @ js ''&sigma='' @ toFixed 2 (js_div (int_num s) (Fin 100)) @ js ''&seed='' @ int_text seed) None (\<lambda>res.
     checks res [(''scala aggregate 200'', status_is 200)] (errorRate_add res))))))"

definition scenarioRubyScore :: script where
  "scenarioRubyScore =
     Roll 10 80 (\<lambda>d. Roll 30 95 (\<lambda>l. Roll 0 5 (\<lambda>nd. Roll 30 500 (\<lambda>inc. http_get (BASE @ js ''/api/ruby/score?debt_ratio='' @ toFixed 2 (js_div (int_num d) (Fin 100)) @ js ''&ltv='' @ toFixed 2 (js_div (int_num l) (Fin 100))
        @ js ''&num_defaults='' @ int_text nd @ js ''&annual_income_k='' @ int_text inc) None (\<lambda>res.
     checks res [(''ruby score 200'', status_is 200)] (errorRate_add res))))))"

definition scenarioDartBond :: script where
  "scenarioDartBond =
     Roll 2 10 (\<lambda>c. Roll 1 12 (\<lambda>r. Roll 3 30 (\<lambda>n. Roll 100 10000 (\<lambda>f. http_get (BASE @ js ''/api/dart/bond?coupon='' @ toFixed 3 (js_div (int_num c) (Fin 100)) @ js ''&face='' @ num_str (js_mul (int_num f) (Fin 10))
        @ js ''&rate='' @ toFixed 3 (js_div (int_num r) (Fin 100)) @ js ''&n='' @ int_text n) None (\<lambda>res.
     checks res [(''dart bond 200'', status_is 200)] (errorRate_add res))))))"

definition scenarioGleamPipeline :: script where
  "scenarioGleamPipeline =
     http_get (BASE @ js ''/api/gleam/pipeline'') None (\<lambda>res.
     checks res [(''gleam pipeline 200'', status_is 200)] (errorRate_add res))"

definition scenarioVBacktest :: script where
  "scenarioVBacktest =
     Roll 500 5000 (\<lambda>ticks. Roll 5 20 (\<lambda>fast. Roll 30 80 (\<lambda>slow. Roll 1 9999 (\<lambda>seed. http_get (BASE @ js ''/api/v/backtest?ticks='' @ int_text ticks @ js ''&fast='' @ int_text fast
        @ js ''&slow='' @ int_text slow @ js ''&seed='' @ int_text seed) (Some (js ''15s'')) (\<lambda>res.
     checks res [(''v backtest 200'', status_is 200)] (errorRate_add res))))))"

definition scenarioPrologPortfolio :: script where
  "scenarioPrologPortfolio =
     http_get (BASE @ js ''/api/prolog/portfolio'') (Some (js ''10s'')) (\<lambda>res.
     checks res [(''prolog portfolio 200'', status_is 200)] (errorRate_add res))"

definition scenarioCircuitStatus :: script where
  "scenarioCircuitStatus =
     http_get (BASE @ js ''/api/circuit/status'') None (\<lambda>res.
     checks res [(''circuit status 200'', status_is 200),
       (''is object'', field None isObject)] (errorRate_add res))"

section \<open>The weighted table and the iteration\<close>

datatype scenario =
    ScenarioStatus
  | ScenarioAggregate
  | ScenarioOrderSubmit
  | ScenarioCacheStats
  | ScenarioHistory
  | ScenarioReport
  | ScenarioRustRisk
  | ScenarioPythonAnalyze
  | ScenarioFSharpIV
  | ScenarioOCamlRisk
  | ScenarioNimGarch
  | ScenarioJuliaSimulate
  | ScenarioHaskellMC
  | ScenarioKotlinReport
  | ScenarioElixirStatus
  | ScenarioClojureTransfer
  | ScenarioLuaStream
  | ScenarioSwiftOrder
  | ScenarioErlangStatus
  | ScenarioPipelineTrigger
  | ScenarioWorkflowRisk
  | ScenarioWorkflowOption
  | ScenarioRStats
  | ScenarioCrystalPortfolio
  | ScenarioScalaAggregate
  | ScenarioRubyScore
  | ScenarioDartBond
  | ScenarioGleamPipeline
  | ScenarioVBacktest
  | ScenarioPrologPortfolio
  | ScenarioCircuitStatus

primrec perform :: "scenario \<Rightarrow> script" where
  "perform ScenarioStatus = scenarioStatus"
| "perform ScenarioAggregate = scenarioAggregate"
| "perform ScenarioOrderSubmit = scenarioOrderSubmit"
| "perform ScenarioCacheStats = scenarioCacheStats"
| "perform ScenarioHistory = scenarioHistory"
| "perform ScenarioReport = scenarioReport"
| "perform ScenarioRustRisk = scenarioRustRisk"
| "perform ScenarioPythonAnalyze = scenarioPythonAnalyze"
| "perform ScenarioFSharpIV = scenarioFSharpIV"
| "perform ScenarioOCamlRisk = scenarioOCamlRisk"
| "perform ScenarioNimGarch = scenarioNimGarch"
| "perform ScenarioJuliaSimulate = scenarioJuliaSimulate"
| "perform ScenarioHaskellMC = scenarioHaskellMC"
| "perform ScenarioKotlinReport = scenarioKotlinReport"
| "perform ScenarioElixirStatus = scenarioElixirStatus"
| "perform ScenarioClojureTransfer = scenarioClojureTransfer"
| "perform ScenarioLuaStream = scenarioLuaStream"
| "perform ScenarioSwiftOrder = scenarioSwiftOrder"
| "perform ScenarioErlangStatus = scenarioErlangStatus"
| "perform ScenarioPipelineTrigger = scenarioPipelineTrigger"
| "perform ScenarioWorkflowRisk = scenarioWorkflowRisk"
| "perform ScenarioWorkflowOption = scenarioWorkflowOption"
| "perform ScenarioRStats = scenarioRStats"
| "perform ScenarioCrystalPortfolio = scenarioCrystalPortfolio"
| "perform ScenarioScalaAggregate = scenarioScalaAggregate"
| "perform ScenarioRubyScore = scenarioRubyScore"
| "perform ScenarioDartBond = scenarioDartBond"
| "perform ScenarioGleamPipeline = scenarioGleamPipeline"
| "perform ScenarioVBacktest = scenarioVBacktest"
| "perform ScenarioPrologPortfolio = scenarioPrologPortfolio"
| "perform ScenarioCircuitStatus = scenarioCircuitStatus"

definition SCENARIOS :: "(int \<times> scenario) list" where
  "SCENARIOS =
    [(10, ScenarioStatus),
     (20, ScenarioAggregate),
     (30, ScenarioOrderSubmit),
     (36, ScenarioCacheStats),
     (36, ScenarioHistory),
     (46, ScenarioReport),
     (50, ScenarioRustRisk),
     (54, ScenarioPythonAnalyze),
     (57, ScenarioFSharpIV),
     (60, ScenarioOCamlRisk),
     (62, ScenarioNimGarch),
     (64, ScenarioJuliaSimulate),
     (66, ScenarioHaskellMC),
     (68, ScenarioKotlinReport),
     (70, ScenarioElixirStatus),
     (72, ScenarioClojureTransfer),
     (73, ScenarioLuaStream),
     (75, ScenarioSwiftOrder),
     (76, ScenarioErlangStatus),
     (76, ScenarioPipelineTrigger),
     (79, ScenarioWorkflowRisk),
     (81, ScenarioWorkflowOption),
     (83, ScenarioRStats),
     (85, ScenarioCrystalPortfolio),
     (87, ScenarioScalaAggregate),
     (89, ScenarioRubyScore),
     (91, ScenarioDartBond),
     (93, ScenarioGleamPipeline),
     (95, ScenarioVBacktest),
     (96, ScenarioPrologPortfolio),
     (100, ScenarioCircuitStatus)]"

text \<open>The loop over the table: the first entry whose ceiling is above the number.\<close>

fun chosen :: "int \<Rightarrow> (int \<times> scenario) list \<Rightarrow> scenario option" where
  "chosen roll [] = None"
| "chosen roll ((limit, fn) # es) = (if roll < limit then Some fn else chosen roll es)"

definition iteration :: script where
  "iteration = Roll 0 99 (\<lambda>roll. followed_by
     (case chosen roll SCENARIOS of
        None \<Rightarrow> End
      | Some fn \<Rightarrow> followed_by (perform fn) (Log (Counted ''scenario_hits'' 1) End))
     (Roll 100 500 (\<lambda>t. Log (Slept (js_div (int_num t) (Fin 1000))) End)))"

section \<open>What a scenario does\<close>

lemmas scenario_defs =
  scenarioStatus_def  scenarioAggregate_def  scenarioOrderSubmit_def  scenarioCacheStats_def
  scenarioHistory_def  scenarioReport_def  scenarioRustRisk_def  scenarioPythonAnalyze_def
  scenarioFSharpIV_def  scenarioOCamlRisk_def  scenarioNimGarch_def  scenarioJuliaSimulate_def
  scenarioHaskellMC_def  scenarioKotlinReport_def  scenarioElixirStatus_def  scenarioClojureTransfer_def
  scenarioLuaStream_def  scenarioSwiftOrder_def  scenarioErlangStatus_def  scenarioPipelineTrigger_def
  scenarioWorkflowRisk_def  scenarioWorkflowOption_def  scenarioRStats_def  scenarioCrystalPortfolio_def
  scenarioScalaAggregate_def  scenarioRubyScore_def  scenarioDartBond_def  scenarioGleamPipeline_def
  scenarioVBacktest_def  scenarioPrologPortfolio_def  scenarioCircuitStatus_def

lemmas sample_defs = http_get_def http_post_def errorRate_add_def status_is_def accepted_def field_def Let_def

text \<open>
  One request to the gateway; then one sample of the error rate, or an exception of \<open>r.json\<close> in a check of a response with status 200.
\<close>

definition one_sample :: "(k6_call \<times> response) list \<Rightarrow> event list \<Rightarrow> exn option \<Rightarrow> bool" where
  "one_sample cs es e \<longleftrightarrow> (\<exists>c r. cs = [(c, r)] \<and> take (length BASE) (k_url c) = BASE \<and> counts es = [] \<and> pauses es = [] \<and>
     (case e of None \<Rightarrow> rates es = [400 \<le> r_status r] | Some _ \<Rightarrow> r_status r = 200 \<and> rates es = []))"

lemma perform_one_sample: "every R (perform s) one_sample"
  by (cases s) (simp_all add: scenario_defs sample_defs one_sample_def reading_defs split: sum.splits)

lemma perform_unanswered:
  "every (\<lambda>r. r_status r = 0) (perform s)
     (\<lambda>cs es e. e = None \<and> rates es = [False] \<and> outcomes es \<noteq> [] \<and> list_all (\<lambda>b. b = Inr False) (outcomes es))"
  by (cases s) (simp_all add: scenario_defs sample_defs reading_defs)

lemma chosen_some: "roll \<le> 99 \<Longrightarrow> chosen roll SCENARIOS \<noteq> None"
  by (simp add: SCENARIOS_def)

lemma transfer_chosen: "chosen roll SCENARIOS = Some ScenarioClojureTransfer \<longleftrightarrow> roll = 70 \<or> roll = 71"
  by (auto simp: SCENARIOS_def)

lemma elem_accounts: "0 \<le> i \<Longrightarrow> i \<le> 4 \<Longrightarrow> elem accounts i = Str (js (accounts ! nat i))"
  by (auto simp: elem_def accounts_def int_num_def)

lemma accounts_differ:
  assumes "0 \<le> i \<and> i \<le> 4" "0 \<le> j \<and> j \<le> 4"
  shows "strict_eq (elem accounts j) (elem accounts i) \<longleftrightarrow> j = i"
proof -
  have "i \<in> {0, 1, 2, 3, 4}" "j \<in> {0, 1, 2, 3, 4}" using assms by auto
  then show ?thesis by (auto simp: elem_def accounts_def int_num_def js_def unit_of_char_def)
qed

lemma perform_loops: "loops (perform s) \<longleftrightarrow> s = ScenarioClojureTransfer"
  by (cases s) (auto simp: scenario_defs sample_defs split: sum.splits intro: exI [of _ 0])

section \<open>The iteration\<close>

lemma run_iteration:
  "in_range H \<Longrightarrow> run H iteration v =
     run H (followed_by (followed_by (perform (the (chosen (h_roll H (v_rolls v) 0 99) SCENARIOS))) (Log (Counted ''scenario_hits'' 1) End))
       (Roll 100 500 (\<lambda>t. Log (Slept (js_div (int_num t) (Fin 1000))) End))) (v\<lparr>v_rolls := Suc (v_rolls v)\<rparr>)"
  using chosen_some [of "h_roll H (v_rolls v) 0 99"] by (auto simp: iteration_def in_range_def)

definition whole_iteration :: "(k6_call \<times> response) list \<Rightarrow> event list \<Rightarrow> exn option \<Rightarrow> bool" where
  "whole_iteration cs es e \<longleftrightarrow> (\<exists>c r. cs = [(c, r)] \<and> take (length BASE) (k_url c) = BASE \<and>
     (case e of
        None \<Rightarrow> rates es = [400 \<le> r_status r] \<and> counts es = [1] \<and> (\<exists>t. 100 \<le> t \<and> t \<le> 500 \<and> pauses es = [js_div (int_num t) (Fin 1000)])
      | Some _ \<Rightarrow> r_status r = 200 \<and> rates es = [] \<and> counts es = [] \<and> pauses es = []))"

lemma reading_append:
  "rates (es @ fs) = rates es @ rates fs" "counts (es @ fs) = counts es @ counts fs"
  "pauses (es @ fs) = pauses es @ pauses fs" "outcomes (es @ fs) = outcomes es @ outcomes fs"
  by (simp_all add: reading_defs)

lemma iteration_every:
  assumes "\<And>s. every R (perform s) P"
    and "\<And>cs es x. P cs es (Some x) \<Longrightarrow> Q cs es (Some x)"
    and "\<And>cs es t. P cs es None \<Longrightarrow> 100 \<le> t \<Longrightarrow> t \<le> 500 \<Longrightarrow>
       Q cs (es @ [Counted ''scenario_hits'' 1, Slept (js_div (int_num t) (Fin 1000))]) None"
  shows "every R iteration Q"
proof -
  have "every R (followed_by (followed_by (perform s) (Log (Counted ''scenario_hits'' 1) End))
      (Roll 100 500 (\<lambda>t. Log (Slept (js_div (int_num t) (Fin 1000))) End))) Q" for s
    unfolding every_followed_by
    by (rule every_mono [OF assms(1)]) (auto split: option.splits intro: assms(2) assms(3) [simplified])
  then show ?thesis using chosen_some by (fastforce simp: iteration_def split: option.splits)
qed

lemma iteration_whole: "every R iteration whole_iteration"
  by (rule iteration_every [of R one_sample])
    (rule perform_one_sample, auto simp: one_sample_def whole_iteration_def reading_append, auto simp: reading_defs)

section \<open>Hosts the theorems are applied to\<close>

text \<open>A host that draws the lower bound, except for the first number, and answers every request with the same status and body.\<close>

definition sample_host :: "int \<Rightarrow> nat \<Rightarrow> jsval result \<Rightarrow> host" where
  "sample_host first status body =
     \<lparr>h_roll = (\<lambda>n a b. if n = 0 \<and> a \<le> first \<and> first \<le> b then first else a),
      h_reply = (\<lambda>n c. \<lparr>r_status = status, r_json = (\<lambda>_. body)\<rparr>), h_now = (\<lambda>n. Fin 0)\<rparr>"

lemma sample_host_in_range: "in_range (sample_host first status body)"
  by (simp add: in_range_def sample_host_def)

lemma sample_host_unanswered: "run (sample_host 0 0 body) iteration vu_new = Some (v, e) \<longleftrightarrow>
    v = \<lparr>v_rolls = 2, v_sent = [(\<lparr>k_method = ''GET'', k_url = BASE @ js ''/api/status'', k_body = None, k_headers = [], k_timeout = None\<rparr>,
           \<lparr>r_status = 0, r_json = (\<lambda>_. body)\<rparr>)], v_reads = 0,
         v_log = [Checked ''status 200'' (Inr False), Checked ''has system field'' (Inr False), Rated ''custom_error_rate'' False,
           Counted ''scenario_hits'' 1, Slept (js_div (int_num 100) (Fin 1000))]\<rparr> \<and> e = None"
  by (auto simp: iteration_def SCENARIOS_def scenarioStatus_def sample_defs sample_host_def vu_new_def)

section \<open>Properties\<close>

text \<open>C17: an iteration of a virtual user sends one request, to the gateway.  If it completes, it adds one sample to the error rate, whether the
  status was 400 or more, counts one scenario and pauses for 0.1 to 0.5 seconds; if it throws, which only the body of a response with
  status 200 can cause, it adds no sample, counts nothing and does not pause.\<close>

theorem load_iteration_samples:
  assumes "in_range H" "run H iteration vu_new = Some (v, e)"
  shows "\<exists>c r. v_sent v = [(c, r)] \<and> take (length BASE) (k_url c) = BASE \<and>
    (if e = None
     then rates (v_log v) = [400 \<le> r_status r] \<and> counts (v_log v) = [1] \<and>
       (\<exists>t. 100 \<le> t \<and> t \<le> 500 \<and> pauses (v_log v) = [js_div (int_num t) (Fin 1000)])
     else r_status r = 200 \<and> rates (v_log v) = [] \<and> counts (v_log v) = [] \<and> pauses (v_log v) = [])"
  using every_run [OF iteration_whole assms(1) TrueI assms(2)] by (auto simp: whole_iteration_def vu_new_def split: option.splits)

theorem load_iteration_samples_witness:
  "\<exists>v e. run (sample_host 0 0 (Inl TypeError)) iteration vu_new = Some (v, e) \<and> e = None \<and> rates (v_log v) = [False] \<and> counts (v_log v) = [1]"
proof -
  obtain v where r: "run (sample_host 0 0 (Inl TypeError)) iteration vu_new = Some (v, None)"
    using sample_host_unanswered by blast
  from load_iteration_samples [OF sample_host_in_range r] r show ?thesis
    by (auto simp: sample_host_unanswered rates_def)
qed

lemma transfer_returns:
  assumes "in_range H"
  shows "run H scenarioClojureTransfer w = None \<longleftrightarrow> (\<forall>k. h_roll H (v_rolls w + 1 + k) 0 4 = h_roll H (v_rolls w) 0 4)"
proof -
  have "run H scenarioClojureTransfer w = None \<longleftrightarrow>
      draw_until (\<lambda>n. h_roll H n 0 4) (\<lambda>j. \<not> strict_eq (elem accounts j) (elem accounts (h_roll H (v_rolls w) 0 4))) (v_rolls w + 1) = None"
    by (auto simp: scenarioClojureTransfer_def sample_defs split: option.splits)
  moreover have "strict_eq (elem accounts (h_roll H m 0 4)) (elem accounts (h_roll H n 0 4)) \<longleftrightarrow> h_roll H m 0 4 = h_roll H n 0 4" for m n
    by (rule accounts_differ) (use assms in \<open>simp_all add: in_range_def\<close>)
  ultimately show ?thesis by (simp add: draw_until_None)
qed

text \<open>C39: an iteration never returns exactly when the number chose the transfer between accounts and every later number from 0 to 4 is the one drawn
  for the source account, so that the loop which looks for another account never ends.\<close>

theorem load_iteration_returns:
  assumes "in_range H"
  shows "run H iteration v = None \<longleftrightarrow>
    h_roll H (v_rolls v) 0 99 \<in> {70, 71} \<and> (\<forall>k. h_roll H (v_rolls v + 2 + k) 0 4 = h_roll H (v_rolls v + 1) 0 4)"
proof -
  let ?roll = "h_roll H (v_rolls v) 0 99" and ?v = "v\<lparr>v_rolls := Suc (v_rolls v)\<rparr>"
  have loop: "run H iteration v = None \<longleftrightarrow> run H (perform (the (chosen ?roll SCENARIOS))) ?v = None"
    unfolding run_iteration [OF assms] run_followed_by by (auto split: option.splits)
  show ?thesis
  proof (cases "?roll = 70 \<or> ?roll = 71")
    case True
    from iffD2 [OF transfer_chosen True] have "the (chosen ?roll SCENARIOS) = ScenarioClojureTransfer" by simp
    then show ?thesis using True loop transfer_returns [OF assms, of ?v] by auto
  next
    case False
    then have "the (chosen ?roll SCENARIOS) \<noteq> ScenarioClojureTransfer"
      using transfer_chosen [of ?roll] chosen_some [of ?roll] assms by (auto simp: in_range_def)
    then have "run H (perform (the (chosen ?roll SCENARIOS))) ?v \<noteq> None"
      using run_returns [OF _ assms every_mono [OF perform_one_sample TrueI]] perform_loops by blast
    then show ?thesis using False loop by simp
  qed
qed

theorem load_iteration_returns_witness:
  "run (sample_host 70 200 (Inr Undef)) iteration vu_new = None"
  using load_iteration_returns [OF sample_host_in_range, of 70 200 "Inr Undef" vu_new]
  by (simp add: sample_host_def vu_new_def)

text \<open>C40: when no request of the run is answered, which the host reports as status 0, every check of an iteration fails, no check throws, and the
  sample the iteration adds to the error rate is nevertheless a success.\<close>

theorem load_unanswered_counts_as_success:
  assumes "in_range H" "\<And>n c. r_status (h_reply H n c) = 0" "run H iteration vu_new = Some (v, e)"
  shows "e = None \<and> rates (v_log v) = [False] \<and> outcomes (v_log v) \<noteq> [] \<and> list_all (\<lambda>b. b = Inr False) (outcomes (v_log v))"
proof -
  have "every (\<lambda>r. r_status r = 0) iteration
      (\<lambda>cs es e. e = None \<and> rates es = [False] \<and> outcomes es \<noteq> [] \<and> list_all (\<lambda>b. b = Inr False) (outcomes es))"
    by (rule iteration_every [OF perform_unanswered]) (simp, simp only: reading_append, simp add: reading_defs)
  from every_run [OF this assms] show ?thesis by (simp add: vu_new_def)
qed

theorem load_unanswered_counts_as_success_witness:
  "\<exists>v. run (sample_host 0 0 (Inl TypeError)) iteration vu_new = Some (v, None) \<and> rates (v_log v) = [False]"
proof -
  obtain v where r: "run (sample_host 0 0 (Inl TypeError)) iteration vu_new = Some (v, None)"
    using sample_host_unanswered by blast
  have "r_status (h_reply (sample_host 0 0 (Inl TypeError)) n c) = 0" for n c by (simp add: sample_host_def)
  from load_unanswered_counts_as_success [OF sample_host_in_range this r] r show ?thesis by blast
qed

lemma transfer_every:
  "every R scenarioClojureTransfer (\<lambda>cs es e. \<exists>c r i j a. cs = [(c, r)] \<and>
     k_body c = Some (transfer_payload (Str (js (accounts ! i))) (Str (js (accounts ! j))) a) \<and>
     i < 5 \<and> j < 5 \<and> accounts ! i \<noteq> accounts ! j \<and> 100 \<le> a \<and> a \<le> 10000)"
proof -
  have "\<exists>i j a'. transfer_payload (elem accounts f) (elem accounts t) a =
      transfer_payload (Str (js (accounts ! i))) (Str (js (accounts ! j))) a' \<and>
      i < 5 \<and> j < 5 \<and> accounts ! i \<noteq> accounts ! j \<and> 100 \<le> a' \<and> a' \<le> 10000"
    if "0 \<le> f" "f \<le> 4" "0 \<le> t" "t \<le> 4" "\<not> strict_eq (elem accounts t) (elem accounts f)" "100 \<le> a" "a \<le> 10000" for f t a
    using that by (intro exI [of _ "nat f"] exI [of _ "nat t"] exI [of _ a]) (auto simp: elem_accounts)
  then show ?thesis
    by (simp add: scenarioClojureTransfer_def sample_defs split: sum.splits) 
qed

text \<open>A transfer that is sent names two different accounts of the five, the source first, whatever the host draws.\<close>

theorem load_transfer_between_two_accounts:
  assumes "in_range H" "run H scenarioClojureTransfer vu_new = Some (v, e)"
  shows "\<exists>c r i j a. v_sent v = [(c, r)] \<and> k_body c = Some (transfer_payload (Str (js (accounts ! i))) (Str (js (accounts ! j))) a) \<and>
    i < 5 \<and> j < 5 \<and> accounts ! i \<noteq> accounts ! j \<and> 100 \<le> a \<and> a \<le> 10000"
  using every_run [OF transfer_every assms(1) TrueI assms(2)] by (simp add: vu_new_def)

theorem load_transfer_between_two_accounts_witness:
  "\<exists>v e. run (sample_host 2 200 (Inr Undef)) scenarioClojureTransfer vu_new = Some (v, e) \<and>
    (\<exists>c r i j a. v_sent v = [(c, r)] \<and> k_body c = Some (transfer_payload (Str (js (accounts ! i))) (Str (js (accounts ! j))) a) \<and>
      accounts ! i \<noteq> accounts ! j)"
proof -
  have "h_roll (sample_host 2 200 (Inr Undef)) 1 0 4 \<noteq> h_roll (sample_host 2 200 (Inr Undef)) 0 0 4" by (simp add: sample_host_def)
  then have "run (sample_host 2 200 (Inr Undef)) scenarioClojureTransfer vu_new \<noteq> None"
    using transfer_returns [OF sample_host_in_range, of 2 200 "Inr Undef" vu_new] by (auto simp: vu_new_def)
  then obtain v e where r: "run (sample_host 2 200 (Inr Undef)) scenarioClojureTransfer vu_new = Some (v, e)" by auto
  from load_transfer_between_two_accounts [OF sample_host_in_range r] r show ?thesis by blast
qed

text \<open>Of the hundred equally likely numbers, each scenario is chosen for as many as listed here: no number chooses the history or the pipeline
  trigger, and ten choose the report.\<close>

theorem load_shares:
  "map (\<lambda>(c, s). (s, length (filter (\<lambda>roll. chosen roll SCENARIOS = Some s) [0..99]))) SCENARIOS =
    zip [ScenarioStatus, ScenarioAggregate, ScenarioOrderSubmit, ScenarioCacheStats, ScenarioHistory,
        ScenarioReport, ScenarioRustRisk, ScenarioPythonAnalyze, ScenarioFSharpIV, ScenarioOCamlRisk,
        ScenarioNimGarch, ScenarioJuliaSimulate, ScenarioHaskellMC, ScenarioKotlinReport, ScenarioElixirStatus,
        ScenarioClojureTransfer, ScenarioLuaStream, ScenarioSwiftOrder, ScenarioErlangStatus, ScenarioPipelineTrigger,
        ScenarioWorkflowRisk, ScenarioWorkflowOption, ScenarioRStats, ScenarioCrystalPortfolio, ScenarioScalaAggregate,
        ScenarioRubyScore, ScenarioDartBond, ScenarioGleamPipeline, ScenarioVBacktest, ScenarioPrologPortfolio,
        ScenarioCircuitStatus]
      [10, 10, 10, 6, 0, 10, 4, 4, 3, 3, 2, 2, 2, 2, 2, 2, 1, 2, 1, 0, 3, 2, 2, 2, 2, 2, 2, 2, 2, 1, 4]"
  by code_simp

end
