(* ===== verification/Spec2Isabelle.thy ===== *)
theory Spec2Isabelle
  imports Apm_Server Phx_Presence Phx_Client Phx_Join Portal Views View_Page View_Map Load_Test
begin

text \<open>
  A verification development of the JavaScript and Svelte code of polyglot-infinity: the metrics server
  (\<open>apm-server\<close>), the Phoenix client under \<open>hub-elixir/deps/phoenix/assets/js\<close>, the portal
  (\<open>portal-svelte\<close>) and the load test of the gateway (\<open>tests/load-test.js\<close>).

  \<^bold>\<open>The parts and how they interact.\<close>  The portal is a page of panels in the browser.  Each panel asks the Go gateway
  for the results of one backend service; the page asks it for the state of all of them and follows a WebSocket
  of order events; the Elixir panel speaks the Phoenix wire format by itself.  The Phoenix client multiplexes
  channels over one socket, on a WebSocket or on long polling, with presence tracking on top.  The gateway posts
  request events to the metrics server, which answers queries on the most recent ones.  The backends and the
  gateway are programs in other languages: what they answer is arbitrary here.  The load test plays many visitors at once,
  each calling one endpoint of the gateway at a time.

  \<^bold>\<open>The language.\<close>  \<open>JS_Number\<close> has numbers as IEEE doubles, rationals rounded to nearest even after
  every operation, with infinities and NaN; \<open>JS_Value\<close> strings of 16-bit code units and values; \<open>JS_Json\<close>
  \<open>JSON.parse\<close> and \<open>JSON.stringify\<close>, with their round trip; \<open>JS_Text\<close> the string conversions;
  \<open>JS_Async\<close> asynchronous functions as trees that wait for promises, and weakest preconditions for them under
  interference of other handlers.  \<open>Prelude\<close> has the result type of code that throws and the shared lemmas;
  \<open>Window\<close> and \<open>Refine\<close> the contracts (locales) of a bounded log and of a component that refines an abstract
  state, both interpreted on the definitions of the components.

  \<^bold>\<open>The metrics server\<close> (\<open>apm-server/server.js\<close>) is \<open>Apm_Server\<close>: \<open>ingest\<close>, \<open>computeStats\<close>,
  \<open>buildMetrics\<close>, \<open>handleRequest\<close> and the listener \<open>server\<close> keep the source's names, and the state is the buffer.
  Shown: the buffer is the window of the most recent events; percentiles are nearest-rank order statistics; the
  average lies in the range of the samples although it is computed with rounding; which requests change the buffer
  and which fail.

  \<^bold>\<open>The Phoenix client.\<close>  \<open>Phx_Serializer\<close> (\<open>serializer.js\<close>): text and binary frames, with round trips and
  the limit of one byte on lengths.  \<open>Phx_Presence\<close> (\<open>presence.js\<close>): \<open>syncState\<close>, \<open>syncDiff\<close> and the channel handlers
  with their pending diffs, refining the server's log of who is online.  \<open>Phx_Ajax\<close> (\<open>ajax.js\<close> and helpers of
  \<open>longpoll.js\<close> and \<open>socket.js\<close>): query strings, base64, endpoints, and the three implementations
  of a request with the calls their handlers make.  \<open>Phx_LongPoll\<close> (\<open>longpoll.js\<close>): the transport as
  a state machine whose requests end when the environment says so; messages leave in the order they were sent, one poll
  is outstanding at a time, closing ends, and an answer the poll does not know leaves an \<open>XMLHttpRequest\<close> client without a poll.
  \<open>Phx_World\<close> has the heap of pushes, channels, connections and timers, with callbacks as data; \<open>Phx_Channel\<close>
  (\<open>timer.js\<close>, \<open>push.js\<close>, \<open>channel.js\<close>) and \<open>Phx_Socket\<close> (\<open>socket.js\<close>) the operations, every handler whole;
  \<open>Phx_Invariant\<close> the locale that carries a predicate through all operations from its behaviour under the
  primitive updates; \<open>Phx_Client\<close> what holds in every run: the depth of nested triggers, the identity of channels and
  timers, the dispatch loops, buffered messages, leaving, and the reconnection after a slow disconnect;
  \<open>Phx_Join\<close> what the reply to a join does, from a channel just created to the pushes that waited for it.

  \<^bold>\<open>The portal.\<close>  \<open>Portal_Fetch\<close> has the shape of a handler, the event loop of a panel (clicks, edits and
  answers in any order) and the locale \<open>panel\<close>, interpreted once per panel.  \<open>Portal_Single\<close>, \<open>Portal_Combined\<close>
  and \<open>Portal_Json\<close> have the 24 panels that only make requests, grouped by how they treat the answers;
  \<open>Portal_Live\<close> \<open>ElixirPanel\<close> and \<open>SystemStatusPanel\<close> with their sockets, event sources and timers;
  \<open>Portal_Charts\<close> \<open>ChartsPanel\<close>, whose drawing is the list of its canvas calls, and \<open>DependencyMapPanel\<close>;
  \<open>Portal_Wasm\<close> \<open>WasmPanel\<close>; \<open>Portal_Page\<close> the page (\<open>+page.svelte\<close>) with \<open>ServiceCard\<close> and \<open>QrCode\<close>.
  A record has the reactive variables of its component, and each function of the source is a definition of the same name,
  with a prefix where two panels use the same one.  \<open>Portal\<close> has what spans the panels.  Shown: loading flags are
  exact in all panels but one; handlers report when nothing answers; the refresh of the page settles under every
  interleaving; the order feed keeps one connection and shows the window of recent events; the switches of the status
  panel own their resources; the Monte Carlo chart and the volatility smile stay on their canvas; the dependency map is a tree.

  \<^bold>\<open>The markup of the portal.\<close>  \<open>Svelte_View\<close> has templates as functions from the variables of a component to its
  nodes, or to the exception an expression in it throws: elements, \<open>{#if}\<close>, \<open>{#each}\<close>, and the operators and methods of the
  expressions.  \<open>View_Single\<close>, \<open>View_Combined\<close>, \<open>View_Json\<close>, \<open>View_Live\<close>, \<open>View_Charts\<close> and \<open>View_Wasm\<close> have the templates of
  the panels, one definition per part of a template (\<open>brain_v_brainData\<close> is the part of \<open>PythonBrainPanel\<close> that depends on
  \<open>brainData\<close>) and \<open>brain_view\<close> for the whole; \<open>View_Map\<close>
  that of the dependency map, with the node under the pointer; \<open>View_Page\<close> those of the page, the cards, the share button and \<open>LogsPanel\<close>.
  \<open>View_Base\<close> says what it means that a template reports failures, and \<open>Views\<close> joins handlers and templates in the locale
  \<open>panel_view\<close>.  \<open>View_Types\<close> has shapes of values and the rules by which an expression of a template is checked against them,
  \<open>View_Typed\<close> the shape of each result variable of twelve panels and the locale \<open>typed_panel\<close> of a panel whose handlers keep the shapes.
  Shown: a template renders the answers it is written for, and the WebAssembly panel, which computes its answers, always renders; when
  nothing answers, the page renders and displays the message of the handler, except in the Julia panel, where rendering throws; the map
  draws its edges and nodes and enlarges the node under the pointer; a card shows the texts of its abstract view; one \<open>null\<close> on the order feed breaks
  the page.

  \<^bold>\<open>The load test\<close> (\<open>tests/load-test.js\<close>).  \<open>K6_Script\<close> has scripts as trees of their effects (random numbers, requests, the clock, checks,
  samples, pauses) and their runs under an arbitrary host; \<open>every\<close> carries a property over all paths of a script, and a loop that draws
  until a condition holds is a partial function, so that not returning is the value \<open>None\<close>.  \<open>Load_Test\<close> has the configuration, the weighted table,
  the iteration and the 31 scenarios under the names of the source.  Shown: what an iteration sends and records, when it does not return,
  that requests nobody answers count as successes, and the share of each scenario.

  \<^bold>\<open>Bounds.\<close>  Nested triggers of a channel run with a depth of 3, and it is shown that no run reaches the limit.
  Closing the long-poll transport runs with fuel of three times the open requests plus three, and it is
  shown that it is enough.  All other functions are total, except the loop of the transfer scenario, whose end is characterised.

  \<^bold>\<open>Not modelled.\<close>  Styles; the format of \<open>toLocaleString\<close> and of dates, which is an argument; the
  check for duplicate keys of a keyed \<open>{#each}\<close>; the user's
  callbacks, whose calls are recorded but which do not call back; loggers and the deprecated parameters of \<open>connect\<close>; the
  objects of the browser (\<open>WebSocket\<close>, \<open>XMLHttpRequest\<close>, \<open>fetch\<close>, the canvas), which are events and
  calls; the key \<open>__proto__\<close>; \<open>Math.exp\<close>, \<open>Math.pow\<close>, \<open>Math.sqrt\<close>, \<open>Math.random\<close> and the functions of the WebAssembly module, which are arguments;
  the generated bundles of the Phoenix client, which repeat the
  modules; the k6 runner, which is the host of the load test; the build configuration and the services in other languages.

  \<^bold>\<open>Open.\<close>  That a topic has one joined channel at a time; what a late close of a replaced Phoenix connection
  does; the bounds of the VaR histogram for distinct values.
\<close>

end
